(* ===== verification/Prelude.thy ===== *)
theory Prelude
  imports Main
begin

text \<open>
  Shared vocabulary of the development: the exceptions of the program as values of one
  error type, sequencing of fallible steps, the string functions of Python that the
  sources call (\<open>strip\<close>, \<open>upper\<close>, \<open>lower\<close>, slicing of a prefix), truthiness of optional
  strings, and the named collections that carry the component proofs.
\<close>

section \<open>Collections\<close>

named_theorems err_simps \<open>equations and inversions of fallible steps\<close>

named_theorems row_simps \<open>what one statement does to the columns of one row\<close>

section \<open>Errors\<close>

text \<open>
  One constructor per exception class the modelled code raises. \<open>InvalidOperation\<close> and
  \<open>DivisionByZero\<close> are the signals of Python's decimal module; \<open>IntegrityError\<close> is what the
  driver raises when a constraint of the database is violated. The strings are the distinguishing part of the message.
\<close>

datatype error =
    ValueError string
  | TypeError string
  | RuntimeError string
  | KeyError string
  | InvalidOperation
  | DivisionByZero
  | UnsupportedCurrencyExponentError string
  | CurrencyExponentMismatchError string
  | InvalidCurrencyAmountError string
  | UnsupportedCampaignCurrencyError string
  | InvalidMajorAmountError string
  | EnableGraceUnsafeError string
  | CircuitOpenError string
  | MissingOfferCpaError string
  | InvalidOfferSensitivityError string
  | OfferCurrencyMismatchError string
  | CabinetFenceRejected string
  | MutationValidationError string
  | IntegrityError string
  | ManualReviewTaskNotFoundError
  | ManualReviewNotApplicableError string
  | ObserverScanFenceLost
  | ObserverScanCancelled string
  | CommandNotFoundError string
  | CommandConflictError string
  | CommandIdentityError string
  | CommandPreconditionError string

type_synonym 'a result = "error + 'a"

text \<open>\<open>ebind r f\<close> continues with \<open>f\<close> when \<open>r\<close> returned, and re-raises otherwise.\<close>

definition ebind :: "'a result \<Rightarrow> ('a \<Rightarrow> 'b result) \<Rightarrow> 'b result" where
  "ebind r f = (case r of Inl e \<Rightarrow> Inl e | Inr x \<Rightarrow> f x)"

lemma ebind_Inl [simp, err_simps]: "ebind (Inl e) f = Inl e"
  by (simp add: ebind_def)

lemma ebind_Inr [simp, err_simps]: "ebind (Inr x) f = f x"
  by (simp add: ebind_def)

lemma ebind_eq_Inr [err_simps]: "ebind r f = Inr y \<longleftrightarrow> (\<exists>x. r = Inr x \<and> f x = Inr y)"
  by (cases r) auto

lemma ebind_eq_Inl [err_simps]:
  "ebind r f = Inl e \<longleftrightarrow> r = Inl e \<or> (\<exists>x. r = Inr x \<and> f x = Inl e)"
  by (cases r) auto

lemma ebind_assoc: "ebind (ebind r f) g = ebind r (\<lambda>x. ebind (f x) g)"
  by (cases r) auto

lemma ebind_cong [fundef_cong]:
  "r = r' \<Longrightarrow> (\<And>x. r' = Inr x \<Longrightarrow> f x = f' x) \<Longrightarrow> ebind r f = ebind r' f'"
  by (cases r') auto

text \<open>\<open>guard_err b e\<close> raises \<open>e\<close> unless \<open>b\<close>.\<close>

definition guard_err :: "bool \<Rightarrow> error \<Rightarrow> unit result" where
  "guard_err b e = (if b then Inr () else Inl e)"

lemma guard_err_Inr [simp, err_simps]: "guard_err b e = Inr u \<longleftrightarrow> b"
  by (simp add: guard_err_def)

lemma guard_err_Inl [simp, err_simps]: "guard_err b e = Inl e' \<longleftrightarrow> \<not> b \<and> e' = e"
  by (auto simp: guard_err_def)

text \<open>Evaluating every element of a sequence, left to right, stopping at the first error.\<close>

fun emap :: "('a \<Rightarrow> 'b result) \<Rightarrow> 'a list \<Rightarrow> 'b list result" where
  "emap f [] = Inr []"
| "emap f (x # xs) = ebind (f x) (\<lambda>y. ebind (emap f xs) (\<lambda>ys. Inr (y # ys)))"

section \<open>Strings\<close>

text \<open>
  Strings are ASCII text. \<open>py_space\<close> is the ASCII part of the characters \<open>str.strip\<close>
  removes; \<open>py_upper\<close> and \<open>py_lower\<close> change ASCII letters.
\<close>

definition py_space :: "char \<Rightarrow> bool" where
  "py_space c \<longleftrightarrow> (let n = of_char c :: int in n = 32 \<or> 9 \<le> n \<and> n \<le> 13 \<or> 28 \<le> n \<and> n \<le> 31)"

definition py_strip :: "string \<Rightarrow> string" where
  "py_strip s = rev (dropWhile py_space (rev (dropWhile py_space s)))"

definition upper_char :: "char \<Rightarrow> char" where
  "upper_char c = (let n = of_char c :: int in if 97 \<le> n \<and> n \<le> 122 then char_of (n - 32) else c)"

definition lower_char :: "char \<Rightarrow> char" where
  "lower_char c = (let n = of_char c :: int in if 65 \<le> n \<and> n \<le> 90 then char_of (n + 32) else c)"

definition py_upper :: "string \<Rightarrow> string" where
  "py_upper = map upper_char"

definition py_lower :: "string \<Rightarrow> string" where
  "py_lower = map lower_char"

text \<open>\<open>value or ""\<close> of an optional string.\<close>

definition or_empty :: "string option \<Rightarrow> string" where
  "or_empty v = (case v of None \<Rightarrow> [] | Some s \<Rightarrow> s)"

lemma or_empty_simps [simp]: "or_empty None = []" "or_empty (Some s) = s"
  by (simp_all add: or_empty_def)

lemma upper_char_idem [simp]: "upper_char (upper_char c) = upper_char c"
proof -
  have "(of_char (char_of (n - 32) :: char) :: int) = n - 32"
    if "97 \<le> n" "n \<le> 122" for n :: int
    using that by simp
  then show ?thesis
    by (auto simp: upper_char_def Let_def)
qed

lemma py_upper_idem [simp]: "py_upper (py_upper s) = py_upper s"
  by (simp add: py_upper_def)

section \<open>Options\<close>

text \<open>SQL's \<open>COALESCE\<close> and Python's \<open>x if x is not None else y\<close>.\<close>

definition coalesce :: "'a option \<Rightarrow> 'a \<Rightarrow> 'a" where
  "coalesce v d = (case v of None \<Rightarrow> d | Some x \<Rightarrow> x)"

lemma coalesce_simps [simp]: "coalesce None d = d" "coalesce (Some x) d = x"
  by (simp_all add: coalesce_def)

end
