(* ===== verification/Rounding.thy ===== *)
theory Rounding
  imports Complex_Main Prelude
begin

text \<open>
  Arithmetic with a bounded number of significant digits. Python's \<open>decimal\<close> module
  computes in a context of 28 decimal digits with rounding to the nearest, ties to even,
  and a Python \<open>float\<close> is a binary number of 53 bits rounded the same way. Both are the
  function \<open>round_sig\<close> at a base and a precision: the exact rational result of an
  operation, rounded once. The locale \<open>significand\<close> proves what the components use of it
  (monotone, odd, exact on representable values, small relative error), and is interpreted
  for the two formats of the program. Exponent limits (underflow, overflow of the exponent
  range) are outside the model: the amounts and intervals of the program are far from them.
\<close>

section \<open>Rounding to an integer\<close>

definition round_half_even :: "rat \<Rightarrow> int" where
  "round_half_even x =
     (let f = \<lfloor>x\<rfloor>; d = x - of_int f
      in if d < 1/2 then f else if 1/2 < d then f + 1 else if even f then f else f + 1)"

text \<open>\<open>ROUND_HALF_UP\<close> of the decimal module: ties go away from zero.\<close>

definition round_half_up :: "rat \<Rightarrow> int" where
  "round_half_up x = (if 0 \<le> x then \<lfloor>x + 1/2\<rfloor> else - \<lfloor>1/2 - x\<rfloor>)"

lemma floor_bounds: "of_int \<lfloor>x\<rfloor> \<le> (x :: rat)" "(x :: rat) < of_int \<lfloor>x\<rfloor> + 1"
  using floor_correct [of x] by simp_all

lemma round_half_even_of_int [simp]: "round_half_even (of_int n) = n"
  by (simp add: round_half_even_def)

lemma round_half_up_of_int [simp]: "round_half_up (of_int n) = n"
proof -
  have "\<lfloor>(of_int k :: rat) + 1/2\<rfloor> = k" "\<lfloor>1/2 + (of_int k :: rat)\<rfloor> = k" for k
    by (simp_all add: floor_eq_iff)
  from this [of n] this [of "- n"] show ?thesis
    by (simp add: round_half_up_def)
qed

lemma round_half_even_near: "\<bar>of_int (round_half_even x) - x\<bar> \<le> 1/2"
proof -
  have "of_int \<lfloor>x\<rfloor> \<le> x" "x < of_int \<lfloor>x\<rfloor> + 1" by (rule floor_bounds)+
  then show ?thesis
    unfolding round_half_even_def Let_def abs_le_iff by (simp split: if_split) linarith
qed

lemma round_half_up_near: "\<bar>of_int (round_half_up x) - x\<bar> \<le> 1/2"
proof (cases "0 \<le> x")
  case True
  have "of_int \<lfloor>x + 1/2\<rfloor> \<le> x + 1/2" "x + 1/2 < of_int \<lfloor>x + 1/2\<rfloor> + 1"
    by (rule floor_bounds)+
  with True show ?thesis unfolding round_half_up_def abs_le_iff if_P [OF True] by linarith
next
  case False
  have "of_int \<lfloor>1/2 - x\<rfloor> \<le> 1/2 - x" "1/2 - x < of_int \<lfloor>1/2 - x\<rfloor> + 1"
    by (rule floor_bounds)+
  with False show ?thesis
    unfolding round_half_up_def abs_le_iff if_not_P [OF False] of_int_minus by linarith
qed

lemma round_half_even_mono: "x \<le> y \<Longrightarrow> round_half_even x \<le> round_half_even y"
proof -
  assume xy: "x \<le> y"
  then have f: "\<lfloor>x\<rfloor> \<le> \<lfloor>y\<rfloor>" by (rule floor_mono)
  show ?thesis
  proof (cases "\<lfloor>x\<rfloor> = \<lfloor>y\<rfloor>")
    case True
    with xy show ?thesis by (auto simp: round_half_even_def Let_def)
  next
    case False
    with f have "\<lfloor>x\<rfloor> + 1 \<le> \<lfloor>y\<rfloor>" by simp
    then show ?thesis by (auto simp: round_half_even_def Let_def)
  qed
qed

lemma round_half_up_mono: "x \<le> y \<Longrightarrow> round_half_up x \<le> round_half_up y"
proof -
  assume xy: "x \<le> y"
  have nn: "0 \<le> \<lfloor>z + 1/2\<rfloor>" if "0 \<le> z" for z :: rat using that by simp
  have np: "0 \<le> \<lfloor>1/2 - z\<rfloor>" if "z < 0" for z :: rat using that by simp
  from xy have "\<lfloor>x + 1/2\<rfloor> \<le> \<lfloor>y + 1/2\<rfloor>" "\<lfloor>1/2 - y\<rfloor> \<le> \<lfloor>1/2 - x\<rfloor>"
    by (auto intro: floor_mono)
  moreover have "- \<lfloor>1/2 - x\<rfloor> \<le> \<lfloor>y + 1/2\<rfloor>" if "\<not> 0 \<le> x" "0 \<le> y"
    using nn [OF that(2)] np [of x] that(1) by linarith
  ultimately show ?thesis
    using xy by (auto simp: round_half_up_def)
qed

lemma round_half_even_minus: "round_half_even (- x) = - round_half_even x"
proof (cases "x = of_int \<lfloor>x\<rfloor>")
  case True
  then have "round_half_even (- x) = round_half_even (of_int (- \<lfloor>x\<rfloor>))" by simp
  with True show ?thesis by (metis round_half_even_of_int)
next
  case False
  moreover have "of_int \<lfloor>x\<rfloor> \<le> x" "x < of_int \<lfloor>x\<rfloor> + 1" by (rule floor_bounds)+
  ultimately have "\<lfloor>- x\<rfloor> = - \<lfloor>x\<rfloor> - 1"
    by (intro floor_unique) (simp_all, linarith)
  then show ?thesis by (auto simp: round_half_even_def Let_def)
qed

section \<open>Rounding to significant digits\<close>

text \<open>\<open>dlen b n\<close>: the number of base-\<open>b\<close> digits of \<open>n\<close> (one for zero).\<close>

function dlen :: "int \<Rightarrow> int \<Rightarrow> int" where
  "dlen b n = (if b < 2 \<or> n < b then 1 else 1 + dlen b (n div b))"
  by pat_completeness auto
termination
proof (relation "measure (\<lambda>(b, n). nat n)")
  fix b n :: int
  assume "\<not> (b < 2 \<or> n < b)"
  then have "n div b < n" by (simp add: int_div_less_self)
  with \<open>\<not> (b < 2 \<or> n < b)\<close> show "((b, n div b), (b, n)) \<in> measure (\<lambda>(b, n). nat n)" by simp
qed simp

declare dlen.simps [simp del]

text \<open>\<open>adj b r\<close>: the exponent of the leading base-\<open>b\<close> digit of a positive rational.\<close>

definition adj :: "int \<Rightarrow> rat \<Rightarrow> int" where
  "adj b r =
     (let k = dlen b (fst (quotient_of r)) - dlen b (snd (quotient_of r))
      in if of_int b powi k \<le> r then k else k - 1)"

definition round_sig :: "int \<Rightarrow> nat \<Rightarrow> rat \<Rightarrow> rat" where
  "round_sig b p r =
     (if r = 0 then 0
      else let q = of_int b powi (adj b \<bar>r\<bar> - (int p - 1))
           in of_int (round_half_even (r / q)) * q)"

lemma dlen_pos: "0 < dlen b n"
proof (induction b n rule: dlen.induct)
  case (1 b n)
  then show ?case by (cases "b < 2 \<or> n < b") (simp_all add: dlen.simps [of b n])
qed

lemma dlen_bounds:
  assumes "2 \<le> b"
  shows "n < b ^ nat (dlen b n) \<and> (0 < n \<longrightarrow> b ^ nat (dlen b n - 1) \<le> n)"
  using assms
proof (induction b n rule: dlen.induct)
  case (1 b n)
  show ?case
  proof (cases "n < b")
    case True
    with 1 show ?thesis by (simp add: dlen.simps [of b n])
  next
    case False
    let ?m = "n div b" and ?k = "nat (dlen b (n div b))"
    from False 1 have ih: "?m < b ^ ?k" and il: "0 < ?m \<longrightarrow> b ^ nat (dlen b ?m - 1) \<le> ?m" by auto
    from False 1(2) have pos: "0 < ?m" by (simp add: pos_imp_zdiv_pos_iff)
    have suc: "nat (1 + dlen b ?m) = Suc ?k" "?k = Suc (nat (dlen b ?m - 1))"
      using dlen_pos [of b ?m] by simp_all
    from ih have "?m + 1 \<le> b ^ ?k" by simp
    then have "b * (?m + 1) \<le> b * b ^ ?k" using 1(2) by (intro mult_left_mono) simp_all
    then have "n < b * b ^ ?k" if "n < b * (?m + 1)" using that by linarith
    moreover have "n < b * (?m + 1)"
    proof -
      have "b * ?m + n mod b = n" "n mod b < b" using 1(2) by simp_all
      then show ?thesis by (simp only: distrib_left mult_1_right)
    qed
    moreover have "b ^ ?k \<le> n"
    proof -
      have "b ^ ?k = b * b ^ nat (dlen b ?m - 1)" by (simp only: suc(2) power_Suc)
      also have "\<dots> \<le> b * ?m" using il pos 1(2) by simp
      also have "\<dots> \<le> n"
        using 1(2) mult_div_mod_eq [of b n] pos_mod_sign [of b n] by linarith
      finally show ?thesis .
    qed
    ultimately show ?thesis
      using False 1(2) suc(1) by (simp add: dlen.simps [of b n])
  qed
qed

text \<open>Powers of the base, as rationals, at integer exponents.\<close>

locale significand =
  fixes b :: int and p :: nat
  assumes base: "2 \<le> b" and prec: "1 \<le> p"
begin

lemma pw_pos [simp]: "0 < (of_int b :: rat) powi k"
  using base by (intro zero_less_power_int) simp

lemma pw_nonneg [simp]: "0 \<le> (of_int b :: rat) powi k"
  using pw_pos [of k] by (rule less_imp_le)

lemma pw_abs [simp]: "\<bar>(of_int b :: rat) powi k\<bar> = of_int b powi k"
  by simp

lemma pw_add: "(of_int b :: rat) powi (j + k) = of_int b powi j * of_int b powi k"
  using base by (intro power_int_add) simp

lemma pw_le: "j \<le> k \<Longrightarrow> (of_int b :: rat) powi j \<le> of_int b powi k"
  using base by (intro power_int_increasing) simp_all

lemma pw_less_imp: "(of_int b :: rat) powi j < of_int b powi k \<Longrightarrow> j < k"
  using pw_le [of k j] by (meson not_le)

lemma pw_nonneg_exp: "0 \<le> k \<Longrightarrow> (of_int b :: rat) powi k = of_int (b ^ nat k)"
  by (simp add: power_int_def)

lemma dlen_upper: "of_int n < (of_int b :: rat) powi dlen b n"
proof -
  have "of_int n < (of_int (b ^ nat (dlen b n)) :: rat)"
    using dlen_bounds [OF base, of n] by (simp only: of_int_less_iff)
  then show ?thesis using dlen_pos [of b n] by (simp only: pw_nonneg_exp less_imp_le)
qed

lemma dlen_lower:
  assumes "0 < n"
  shows "(of_int b :: rat) powi (dlen b n - 1) \<le> of_int n"
proof -
  have "(of_int (b ^ nat (dlen b n - 1)) :: rat) \<le> of_int n"
    using dlen_bounds [OF base, of n] assms by (simp only: of_int_le_iff)
  moreover have "0 \<le> dlen b n - 1" using dlen_pos [of b n] by simp
  ultimately show ?thesis by (simp only: pw_nonneg_exp)
qed

lemma adj_bounds:
  assumes "0 < r"
  shows "of_int b powi adj b r \<le> r" "r < of_int b powi (adj b r + 1)"
proof -
  obtain m d where q: "quotient_of r = (m, d)" by force
  then have d: "0 < d" by (rule quotient_of_denom_pos)
  from q have r: "r = of_int m / of_int d" by (rule quotient_of_div)
  with assms d have m: "0 < m" by (simp add: zero_less_divide_iff)
  define n k where "n = dlen b m" and "k = dlen b d"
  have rn: "r * of_int d = of_int m" using r d by simp
  have "r * of_int b powi (k - 1) \<le> r * of_int d"
    using dlen_lower [OF d] assms by (simp add: k_def)
  also have "\<dots> < of_int b powi n" using dlen_upper [of m] by (simp only: rn n_def)
  also have "\<dots> = of_int b powi (n - k + 1) * of_int b powi (k - 1)"
    by (simp flip: pw_add)
  finally have hi: "r < of_int b powi (n - k + 1)" by simp
  have "of_int b powi (n - k - 1) * of_int b powi k = (of_int b :: rat) powi (n - 1)"
    by (simp flip: pw_add)
  also have "\<dots> \<le> r * of_int d" using dlen_lower [OF m] by (simp only: rn n_def)
  also have "\<dots> < r * of_int b powi k"
    using dlen_upper [of d] assms by (simp add: k_def)
  finally have lo: "of_int b powi (n - k - 1) < r" by simp
  from q have "adj b r = (if of_int b powi (n - k) \<le> r then n - k else n - k - 1)"
    by (simp add: adj_def Let_def n_def k_def)
  with lo hi show "of_int b powi adj b r \<le> r" "r < of_int b powi (adj b r + 1)"
    by (auto split: if_splits)
qed

lemma adj_mono: "0 < x \<Longrightarrow> x \<le> y \<Longrightarrow> adj b x \<le> adj b y"
proof -
  assume "0 < x" "x \<le> y"
  then have "(of_int b :: rat) powi adj b x < of_int b powi (adj b y + 1)"
    using adj_bounds(1) [of x] adj_bounds(2) [of y] by linarith
  then show ?thesis using pw_less_imp by fastforce
qed

abbreviation quantum :: "rat \<Rightarrow> rat" where
  "quantum r \<equiv> of_int b powi (adj b \<bar>r\<bar> - (int p - 1))"

lemma round_sig_zero [simp]: "round_sig b p 0 = 0"
  by (simp add: round_sig_def)

lemma round_sig_nonzero:
  "r \<noteq> 0 \<Longrightarrow> round_sig b p r = of_int (round_half_even (r / quantum r)) * quantum r"
  by (simp add: round_sig_def Let_def)

lemma round_sig_minus: "round_sig b p (- r) = - round_sig b p r"
  by (simp add: round_sig_def Let_def round_half_even_minus)

text \<open>A value with at most \<open>p\<close> significant digits is not changed.\<close>

lemma round_sig_exact:
  assumes r: "r = of_int k * of_int b powi e" and k: "\<bar>k\<bar> < b ^ p"
  shows "round_sig b p r = r"
proof (cases "r = 0")
  case False
  with r have kz: "0 < \<bar>k\<bar>" by auto
  have "of_int b powi adj b \<bar>r\<bar> \<le> \<bar>r\<bar>" using False by (simp add: adj_bounds)
  also have "\<dots> = of_int \<bar>k\<bar> * of_int b powi e" by (simp add: r abs_mult)
  also have "\<dots> < of_int (b ^ p) * of_int b powi e" 
    using k by (intro mult_strict_right_mono pw_pos) (simp only: of_int_less_iff)
  also have "\<dots> = of_int b powi (int p + e)" by (simp add: pw_add)
  finally have "adj b \<bar>r\<bar> < int p + e" by (rule pw_less_imp)
  then have "0 \<le> e - (adj b \<bar>r\<bar> - (int p - 1))" by simp
  then obtain n where n: "e - (adj b \<bar>r\<bar> - (int p - 1)) = int n" using nonneg_int_cases by blast
  have "r = of_int (k * b ^ n) * quantum r"
  proof -
    have "of_int b powi e = (of_int b :: rat) powi int n * quantum r"
      by (simp flip: pw_add n)
    then show ?thesis using r by simp
  qed
  then have "r / quantum r = of_int (k * b ^ n)"
    using pw_pos by (metis nonzero_mult_div_cancel_right less_irrefl)
  then have "round_sig b p r = of_int (k * b ^ n) * quantum r"
    by (simp only: round_sig_nonzero [OF False] round_half_even_of_int)
  also have "\<dots> = r" by (rule sym) fact
  finally show ?thesis .
qed simp

lemma round_sig_pw [simp]: "round_sig b p (of_int b powi e) = of_int b powi e"
proof (rule round_sig_exact [where k = 1 and e = e])
  have "(1 :: int) < b ^ p" using base prec by (intro one_less_power) simp_all
  then show "\<bar>1 :: int\<bar> < b ^ p" by simp
qed simp

lemma round_sig_one [simp]: "round_sig b p 1 = 1"
  using round_sig_pw [of 0] by simp

lemma round_half_even_ge: "of_int n \<le> x \<Longrightarrow> n \<le> round_half_even x"
  using round_half_even_mono [of "of_int n" x] by simp

lemma round_half_even_le: "x \<le> of_int n \<Longrightarrow> round_half_even x \<le> n"
  using round_half_even_mono [of x "of_int n"] by simp

lemma round_sig_within:
  assumes "0 < r"
  shows "of_int b powi adj b r \<le> round_sig b p r" "round_sig b p r \<le> of_int b powi (adj b r + 1)"
proof -
  let ?q = "quantum r"
  have q: "0 < ?q" by simp
  have lo: "of_int b powi adj b r = of_int (b ^ (p - 1)) * ?q"
  proof -
    have "of_int b powi adj b r = (of_int b :: rat) powi int (p - 1) * ?q"
      using assms prec by (simp flip: pw_add add: of_nat_diff del: power_int_of_nat)
    then show ?thesis by simp
  qed
  have hi: "of_int b powi (adj b r + 1) = of_int (b ^ p) * ?q"
  proof -
    have "of_int b powi (adj b r + 1) = (of_int b :: rat) powi int p * ?q"
      using assms by (simp flip: pw_add del: power_int_of_nat)
    then show ?thesis by simp
  qed
  have "of_int (b ^ (p - 1)) \<le> r / ?q" "r / ?q \<le> of_int (b ^ p)"
    using adj_bounds [OF assms] lo hi q by (auto simp: le_divide_eq divide_le_eq)
  then have "b ^ (p - 1) \<le> round_half_even (r / ?q)" "round_half_even (r / ?q) \<le> b ^ p"
    by (auto intro: round_half_even_ge round_half_even_le)
  then have "of_int (b ^ (p - 1)) * ?q \<le> of_int (round_half_even (r / ?q)) * ?q"
    "of_int (round_half_even (r / ?q)) * ?q \<le> of_int (b ^ p) * ?q"
    using q by (auto intro!: mult_right_mono simp only: of_int_le_iff)
  then show "of_int b powi adj b r \<le> round_sig b p r"
    "round_sig b p r \<le> of_int b powi (adj b r + 1)"
    using assms by (simp_all only: lo hi round_sig_nonzero less_irrefl not_False_eq_True)
qed

lemma round_sig_pos: "0 < r \<Longrightarrow> 0 < round_sig b p r"
  using round_sig_within(1) [of r] pw_pos [of "adj b r"] by linarith

lemma round_sig_nonneg: "0 \<le> r \<Longrightarrow> 0 \<le> round_sig b p r"
  using round_sig_pos [of r] by (cases "r = 0") auto

lemma round_sig_mono_pos:
  assumes "0 < x" "x \<le> y"
  shows "round_sig b p x \<le> round_sig b p y"
proof (cases "adj b x = adj b y")
  case True
  with assms have q: "quantum x = quantum y" by simp
  from assms have "x / quantum y \<le> y / quantum y" by (simp add: divide_right_mono)
  then have "of_int (round_half_even (x / quantum y)) * quantum y
      \<le> of_int (round_half_even (y / quantum y)) * quantum y"
    by (intro mult_right_mono) (simp_all add: round_half_even_mono)
  with assms q show ?thesis by (simp add: round_sig_nonzero)
next
  case False
  with adj_mono [OF assms] have "adj b x + 1 \<le> adj b y" by simp
  then have "of_int b powi (adj b x + 1) \<le> (of_int b :: rat) powi adj b y" by (rule pw_le)
  with round_sig_within [of x] round_sig_within [of y] assms show ?thesis by linarith
qed

lemma round_sig_mono: "x \<le> y \<Longrightarrow> round_sig b p x \<le> round_sig b p y"
proof -
  assume xy: "x \<le> y"
  consider "0 < x" | "x \<le> 0" "0 \<le> y" | "y < 0" using xy by linarith
  then show ?thesis
  proof cases
    case 1
    with xy show ?thesis by (simp add: round_sig_mono_pos)
  next
    case 2
    with round_sig_nonneg [of y] round_sig_nonneg [of "- x"] show ?thesis
      by (simp add: round_sig_minus)
  next
    case 3
    with xy round_sig_mono_pos [of "- y" "- x"] show ?thesis by (simp add: round_sig_minus)
  qed
qed

lemma round_sig_ge_one: "1 \<le> r \<Longrightarrow> 1 \<le> round_sig b p r"
  using round_sig_mono [of 1 r] by simp

text \<open>The relative error is at most half a unit in the last place.\<close>

lemma round_sig_error: "\<bar>round_sig b p r - r\<bar> \<le> \<bar>r\<bar> * of_int b powi (1 - int p) / 2"
proof (cases "r = 0")
  case False
  let ?q = "quantum r"
  have q: "0 < ?q" by simp
  have "\<bar>round_sig b p r - r\<bar> = \<bar>of_int (round_half_even (r / ?q)) - r / ?q\<bar> * ?q"
  proof -
    have "round_sig b p r - r = (of_int (round_half_even (r / ?q)) - r / ?q) * ?q"
      using q by (simp only: round_sig_nonzero [OF False] left_diff_distrib times_divide_eq_left
          nonzero_mult_div_cancel_right less_imp_neq [OF q, symmetric] not_False_eq_True)
    then show ?thesis using q by (simp only: abs_mult abs_of_pos)
  qed
  also have "\<dots> \<le> 1/2 * ?q"
    using q by (intro mult_right_mono round_half_even_near) simp
  also have "?q = of_int b powi adj b \<bar>r\<bar> * of_int b powi (1 - int p)"
    by (simp flip: pw_add add: algebra_simps)
  also have "1/2 * (of_int b powi adj b \<bar>r\<bar> * of_int b powi (1 - int p))
      \<le> 1/2 * (\<bar>r\<bar> * of_int b powi (1 - int p))"
    using adj_bounds(1) [of "\<bar>r\<bar>"] False by (intro mult_left_mono mult_right_mono) simp_all
  finally show ?thesis by simp
qed simp

end

section \<open>The two formats of the program\<close>

interpretation dec28: significand 10 28
  by unfold_locales simp_all

interpretation f64: significand 2 53
  by unfold_locales simp_all

section \<open>Evaluation\<close>

text \<open>
  Code equations that stay in the integers until the last step, so that closed instances
  evaluate quickly.
\<close>

definition rhe_div :: "int \<Rightarrow> int \<Rightarrow> int" where
  "rhe_div m d =
     (let f = m div d; t = 2 * (m mod d)
      in if t < d then f else if d < t then f + 1 else if even f then f else f + 1)"

lemma rhe_div_eq: "0 < d \<Longrightarrow> round_half_even (of_int m / of_int d) = rhe_div m d"
proof -
  assume d: "0 < d"
  have f: "\<lfloor>of_int m / of_int d :: rat\<rfloor> = m div d" by (rule floor_divide_of_int_eq)
  have "of_int m = (of_int (m div d) * of_int d + of_int (m mod d) :: rat)"
    by (simp flip: of_int_mult of_int_add)
  then have "of_int m / of_int d - of_int (m div d) = (of_int (m mod d) / of_int d :: rat)"
    using d by (simp add: field_simps)
  moreover have "of_int (m mod d) / of_int d < (1/2 :: rat) \<longleftrightarrow> 2 * (m mod d) < d"
  proof -
    have "of_int (m mod d) / of_int d < (1/2 :: rat) \<longleftrightarrow> (of_int (2 * (m mod d)) :: rat) < of_int d"
      using d by (simp add: field_simps)
    then show ?thesis by (simp only: of_int_less_iff)
  qed
  moreover have "(1/2 :: rat) < of_int (m mod d) / of_int d \<longleftrightarrow> d < 2 * (m mod d)"
  proof -
    have "(1/2 :: rat) < of_int (m mod d) / of_int d \<longleftrightarrow> (of_int d :: rat) < of_int (2 * (m mod d))"
      using d by (simp add: field_simps)
    then show ?thesis by (simp only: of_int_less_iff)
  qed
  ultimately show ?thesis by (simp only: round_half_even_def rhe_div_def Let_def f)
qed

lemma adj_code [code]:
  "adj b r =
     (let (m, d) = quotient_of r; k = dlen b m - dlen b d
      in if (if b \<le> 0 then of_int b powi k \<le> r
             else if 0 \<le> k then b ^ nat k * d \<le> m else d \<le> m * b ^ nat (- k)) then k else k - 1)"
proof -
  obtain m d where q: "quotient_of r = (m, d)" by force
  then have d: "0 < d" and r: "r = of_int m / of_int d"
    by (rule quotient_of_denom_pos, rule quotient_of_div)
  let ?k = "dlen b m - dlen b d"
  have "of_int b powi ?k \<le> r \<longleftrightarrow> b ^ nat ?k * d \<le> m" if "0 \<le> ?k"
  proof -
    have "of_int b powi ?k \<le> r \<longleftrightarrow> (of_int (b ^ nat ?k * d) :: rat) \<le> of_int m"
      using that d by (simp add: r power_int_def field_simps)
    then show ?thesis by (simp only: of_int_le_iff)
  qed
  moreover have "of_int b powi ?k \<le> r \<longleftrightarrow> d \<le> m * b ^ nat (- ?k)" if "\<not> 0 \<le> ?k" "0 < b"
  proof -
    have "of_int b powi ?k \<le> r \<longleftrightarrow> (of_int d :: rat) \<le> of_int (m * b ^ nat (- ?k))"
      using that d by (simp add: r power_int_def field_simps)
    then show ?thesis by (simp only: of_int_le_iff)
  qed
  ultimately have "of_int b powi ?k \<le> r \<longleftrightarrow>
      (if b \<le> 0 then of_int b powi ?k \<le> r
       else if 0 \<le> ?k then b ^ nat ?k * d \<le> m else d \<le> m * b ^ nat (- ?k))"
    by (simp only: not_le split: if_split) blast
  then show ?thesis by (simp only: adj_def q Let_def prod.case fst_conv snd_conv)
qed

lemma round_sig_code [code]:
  "round_sig b p r =
     (let (m, d) = quotient_of r
      in if m = 0 then 0
         else let e = adj b \<bar>r\<bar> - (int p - 1)
              in if b \<le> 0 then of_int (round_half_even (r / of_int b powi e)) * of_int b powi e
                 else if 0 \<le> e then of_int (rhe_div m (d * b ^ nat e) * b ^ nat e)
                 else Fract (rhe_div (m * b ^ nat (- e)) d) (b ^ nat (- e)))"
proof -
  obtain m d where q: "quotient_of r = (m, d)" by force
  then have d: "0 < d" and r: "r = of_int m / of_int d"
    by (rule quotient_of_denom_pos, rule quotient_of_div)
  have z: "r = 0 \<longleftrightarrow> m = 0" using r d by simp
  define e where "e = adj b \<bar>r\<bar> - (int p - 1)"
  have "round_half_even (r / of_int b powi e) = rhe_div m (d * b ^ nat e)" if "0 < b" "0 \<le> e"
  proof -
    have "r / of_int b powi e = of_int m / of_int (d * b ^ nat e)"
      using that by (simp add: r power_int_def)
    then show ?thesis using rhe_div_eq [of "d * b ^ nat e" m] that d by simp
  qed
  moreover have "round_half_even (r / of_int b powi e) = rhe_div (m * b ^ nat (- e)) d"
    if "0 < b" "\<not> 0 \<le> e"
  proof -
    have "r / of_int b powi e = of_int (m * b ^ nat (- e)) / of_int d"
      using that by (simp add: r power_int_def field_simps)
    then show ?thesis using rhe_div_eq [of d "m * b ^ nat (- e)"] that d by simp
  qed
  moreover have "of_int b powi e = (of_int (b ^ nat e) :: rat)" if "0 \<le> e"
    using that by (simp add: power_int_def)
  moreover have "of_int k * of_int b powi e = Fract k (b ^ nat (- e))" if "\<not> 0 \<le> e" for k
    using that by (simp add: power_int_def Fract_of_int_quotient field_simps)
  ultimately show ?thesis
    by (simp add: round_sig_def q z Let_def flip: e_def)
qed

end
