(* ===== verification/Decimals.thy ===== *)
theory Decimals
  imports Rounding
begin

text \<open>
  The part of Python's \<open>decimal\<close> module the program uses. A finite decimal is its rational
  value; arithmetic rounds once to the 28 digits of the default context; \<open>quantize\<close> rounds
  to a multiple of the step and signals \<open>InvalidOperation\<close> when the coefficient needs more
  than 28 digits. Text is read by the grammar of the constructor (strip, underscores, sign,
  digits with a point, exponent, \<open>Infinity\<close>, \<open>NaN\<close>) and written in fixed-point notation.
\<close>

section \<open>Values and arithmetic\<close>

datatype decimal = Finite rat | Infinite bool | NaN

definition ctx_round :: "rat \<Rightarrow> rat" where
  "ctx_round = round_sig 10 28"

definition dmul :: "rat \<Rightarrow> rat \<Rightarrow> rat" where
  "dmul a b = ctx_round (a * b)"

text \<open>Division; every caller has excluded a zero divisor before.\<close>

definition ddiv :: "rat \<Rightarrow> rat \<Rightarrow> rat" where
  "ddiv a b = ctx_round (a / b)"

definition scaleb :: "rat \<Rightarrow> int \<Rightarrow> rat" where
  "scaleb a n = ctx_round (a * 10 powi n)"

datatype rounding = ROUND_HALF_UP | ROUND_HALF_EVEN

definition round_int :: "rounding \<Rightarrow> rat \<Rightarrow> int" where
  "round_int m x = (case m of ROUND_HALF_UP \<Rightarrow> round_half_up x | ROUND_HALF_EVEN \<Rightarrow> round_half_even x)"

definition quantize :: "rounding \<Rightarrow> rat \<Rightarrow> rat \<Rightarrow> rat result" where
  "quantize m x step =
     (let c = round_int m (x / step)
      in if 10 ^ 28 \<le> \<bar>c\<bar> then Inl InvalidOperation else Inr (of_int c * step))"

definition to_integral_value :: "rat \<Rightarrow> int" where
  "to_integral_value x = round_half_even x"

lemma ctx_round_0 [simp]: "ctx_round 0 = 0"
  by (simp add: ctx_round_def)

lemma ctx_round_mono: "x \<le> y \<Longrightarrow> ctx_round x \<le> ctx_round y"
  unfolding ctx_round_def by (rule dec28.round_sig_mono)

lemma ctx_round_nonneg: "0 \<le> x \<Longrightarrow> 0 \<le> ctx_round x"
  unfolding ctx_round_def by (rule dec28.round_sig_nonneg)

lemma ctx_round_pos: "0 < x \<Longrightarrow> 0 < ctx_round x"
  unfolding ctx_round_def by (rule dec28.round_sig_pos)

lemma ctx_round_ge_one: "1 \<le> x \<Longrightarrow> 1 \<le> ctx_round x"
  unfolding ctx_round_def by (rule dec28.round_sig_ge_one)

lemma ctx_round_exact: "r = of_int k * 10 powi e \<Longrightarrow> \<bar>k\<bar> < 10 ^ 28 \<Longrightarrow> ctx_round r = r"
  unfolding ctx_round_def using dec28.round_sig_exact [of r k e] by simp

lemma ctx_round_error: "\<bar>ctx_round r - r\<bar> \<le> \<bar>r\<bar> * 10 powi - 27 / 2"
  unfolding ctx_round_def using dec28.round_sig_error [of r] by simp

lemma dmul_mono: "0 \<le> c \<Longrightarrow> x \<le> y \<Longrightarrow> dmul x c \<le> dmul y c"
  unfolding dmul_def by (intro ctx_round_mono mult_right_mono)

lemma dmul_nonneg: "0 \<le> x \<Longrightarrow> 0 \<le> y \<Longrightarrow> 0 \<le> dmul x y"
  unfolding dmul_def by (intro ctx_round_nonneg mult_nonneg_nonneg)

lemma ddiv_mono: "0 < c \<Longrightarrow> x \<le> y \<Longrightarrow> ddiv x c \<le> ddiv y c"
  unfolding ddiv_def by (intro ctx_round_mono divide_right_mono) simp_all

lemma ddiv_nonneg: "0 \<le> x \<Longrightarrow> 0 \<le> y \<Longrightarrow> 0 \<le> ddiv x y"
  unfolding ddiv_def by (intro ctx_round_nonneg divide_nonneg_nonneg)

lemma ddiv_ge_one: "0 < y \<Longrightarrow> y \<le> x \<Longrightarrow> 1 \<le> ddiv x y"
  unfolding ddiv_def by (intro ctx_round_ge_one) (simp add: le_divide_eq)

lemma round_int_mono: "x \<le> y \<Longrightarrow> round_int m x \<le> round_int m y"
  by (cases m) (simp_all add: round_int_def round_half_up_mono round_half_even_mono)

lemma round_int_of_int [simp]: "round_int m (of_int k) = k"
  by (cases m) (simp_all add: round_int_def)

lemma quantize_eq_Inr:
  "quantize m x step = Inr y \<longleftrightarrow>
     \<bar>round_int m (x / step)\<bar> < 10 ^ 28 \<and> y = of_int (round_int m (x / step)) * step"
  by (auto simp: quantize_def Let_def)

lemma quantize_mono:
  assumes "0 < step" "x \<le> y" "quantize m x step = Inr a" "quantize m y step = Inr b"
  shows "a \<le> b"
proof -
  have "round_int m (x / step) \<le> round_int m (y / step)"
    using assms by (intro round_int_mono divide_right_mono) simp_all
  with assms show ?thesis by (simp add: quantize_eq_Inr)
qed

lemma quantize_nonneg:
  assumes "0 < step" "0 \<le> x" "quantize m x step = Inr a"
  shows "0 \<le> a"
  using quantize_mono [OF assms(1,2) _ assms(3), of 0] round_int_of_int [of m 0]
  by (simp add: quantize_def)

text \<open>A value equals its own quantization exactly when it is a multiple of the step.\<close>

lemma quantize_id_iff:
  assumes "step \<noteq> 0"
  shows "quantize m x step = Inr x \<longleftrightarrow> (\<exists>c. x = of_int c * step \<and> \<bar>c\<bar> < 10 ^ 28)"
proof
  assume "quantize m x step = Inr x"
  then have "x = of_int (round_int m (x / step)) * step" "\<bar>round_int m (x / step)\<bar> < 10 ^ 28"
    by (simp_all only: quantize_eq_Inr)
  then show "\<exists>c. x = of_int c * step \<and> \<bar>c\<bar> < 10 ^ 28" by blast
next
  assume "\<exists>c. x = of_int c * step \<and> \<bar>c\<bar> < 10 ^ 28"
  then obtain c where "x = of_int c * step" "\<bar>c\<bar> < 10 ^ 28" by blast
  with assms show "quantize m x step = Inr x" by (simp add: quantize_eq_Inr)
qed

section \<open>Reading\<close>

definition is_digit :: "char \<Rightarrow> bool" where
  "is_digit c \<longleftrightarrow> (let n = of_char c :: int in 48 \<le> n \<and> n \<le> 57)"

definition digit_val :: "char \<Rightarrow> int" where
  "digit_val c = of_char c - 48"

definition int_of_digits :: "string \<Rightarrow> int" where
  "int_of_digits = foldl (\<lambda>a c. 10 * a + digit_val c) 0"

text \<open>Digits with an optional point: the coefficient and the number of decimals.\<close>

definition parse_mantissa :: "string \<Rightarrow> (int \<times> int) option" where
  "parse_mantissa s =
     (let ip = takeWhile is_digit s; rest = dropWhile is_digit s
      in case rest of
           [] \<Rightarrow> if ip = [] then None else Some (int_of_digits ip, 0)
         | c # fp \<Rightarrow>
             if c = CHR ''.'' \<and> list_all is_digit fp \<and> (ip \<noteq> [] \<or> fp \<noteq> [])
             then Some (int_of_digits (ip @ fp), int (length fp)) else None)"

definition split_sign :: "string \<Rightarrow> bool \<times> string" where
  "split_sign s =
     (case s of
        c # cs \<Rightarrow> if c = CHR ''-'' then (True, cs) else if c = CHR ''+'' then (False, cs) else (False, s)
      | [] \<Rightarrow> (False, []))"

definition parse_exponent :: "string \<Rightarrow> int option" where
  "parse_exponent s =
     (case split_sign s of (neg, ds) \<Rightarrow>
        if ds \<noteq> [] \<and> list_all is_digit ds
        then Some (if neg then - int_of_digits ds else int_of_digits ds) else None)"

definition parse_number :: "string \<Rightarrow> rat option" where
  "parse_number s =
     (let m = takeWhile (\<lambda>c. c \<noteq> CHR ''e'') s; rest = dropWhile (\<lambda>c. c \<noteq> CHR ''e'') s
      in case parse_mantissa m of
           None \<Rightarrow> None
         | Some (c, d) \<Rightarrow>
             (case rest of
                [] \<Rightarrow> Some (of_int c * 10 powi (- d))
              | _ # es \<Rightarrow>
                  map_option (\<lambda>e. of_int c * 10 powi (e - d)) (parse_exponent es)))"

definition decimal_of_string :: "string \<Rightarrow> decimal option" where
  "decimal_of_string s =
     (case split_sign (filter (\<lambda>c. c \<noteq> CHR ''_'') (py_lower (py_strip s))) of (neg, body) \<Rightarrow>
        if body = ''inf'' \<or> body = ''infinity'' then Some (Infinite neg)
        else if take 3 body = ''nan'' \<and> list_all is_digit (drop 3 body) then Some NaN
        else if take 4 body = ''snan'' \<and> list_all is_digit (drop 4 body) then Some NaN
        else map_option (\<lambda>r. Finite (if neg then - r else r)) (parse_number body))"

section \<open>Writing\<close>

function digits_of :: "int \<Rightarrow> string" where
  "digits_of n = (if n < 10 then [char_of (48 + n)] else digits_of (n div 10) @ [char_of (48 + n mod 10)])"
  by pat_completeness auto
termination
  by (relation "measure nat") auto

declare digits_of.simps [simp del]

definition string_of_int :: "int \<Rightarrow> string" where
  "string_of_int i = (if i < 0 then CHR ''-'' # digits_of (- i) else digits_of i)"

text \<open>The last \<open>k\<close> decimal digits of \<open>n\<close>, with leading zeros.\<close>

fun padded_digits :: "nat \<Rightarrow> int \<Rightarrow> string" where
  "padded_digits 0 n = []"
| "padded_digits (Suc k) n = padded_digits k (n div 10) @ [char_of (48 + n mod 10)]"

text \<open>\<open>format(x, f".{e}f")\<close>.\<close>

definition format_fixed :: "nat \<Rightarrow> rat \<Rightarrow> string" where
  "format_fixed e x =
     (let n = round_half_even (\<bar>x\<bar> * 10 ^ e);
          body = (if e = 0 then digits_of n
                  else digits_of (n div 10 ^ e) @ CHR ''.'' # padded_digits e n)
      in if x < 0 then CHR ''-'' # body else body)"

lemma is_digit_char_of [simp]: "0 \<le> n \<Longrightarrow> n < 10 \<Longrightarrow> is_digit (char_of (48 + n :: int))"
  by (simp add: is_digit_def Let_def)

lemma digit_val_char_of [simp]: "0 \<le> n \<Longrightarrow> n < 10 \<Longrightarrow> digit_val (char_of (48 + n :: int)) = n"
  by (simp add: digit_val_def)

lemma int_of_digits_snoc [simp]: "int_of_digits (s @ [c]) = 10 * int_of_digits s + digit_val c"
  by (simp add: int_of_digits_def)

lemma int_of_digits_Nil [simp]: "int_of_digits [] = 0"
  by (simp add: int_of_digits_def)

lemma digits_of_digits: "0 \<le> n \<Longrightarrow> list_all is_digit (digits_of n)"
proof (induction n rule: digits_of.induct)
  case (1 n)
  then show ?case by (simp add: digits_of.simps [of n])
qed

lemma int_of_digits_of [simp]: "0 \<le> n \<Longrightarrow> int_of_digits (digits_of n) = n"
proof (induction n rule: digits_of.induct)
  case (1 n)
  show ?case
  proof (cases "n < 10")
    case True
    then show ?thesis
      using int_of_digits_snoc [of "[]"] 1 by (simp add: digits_of.simps [of n])
  next
    case False
    with 1 show ?thesis by (simp add: digits_of.simps [of n])
  qed
qed

lemma digits_of_ne [simp]: "digits_of n \<noteq> []"
  by (subst digits_of.simps) simp

lemma hd_digits_of: "0 < n \<Longrightarrow> hd (digits_of n) \<noteq> CHR ''0''"
proof (induction n rule: digits_of.induct)
  case (1 n)
  show ?case
  proof (cases "n < 10")
    case True
    with 1(2) have "of_char (char_of (48 + n) :: char) \<noteq> (of_char (CHR ''0'') :: int)" by simp
    then have "char_of (48 + n) \<noteq> CHR ''0''" by metis
    with True show ?thesis by (simp add: digits_of.simps [of n])
  next
    case False
    with 1 have "hd (digits_of (n div 10)) \<noteq> CHR ''0''" by simp
    with False show ?thesis by (simp add: digits_of.simps [of n])
  qed
qed

lemma padded_digits_props:
  "length (padded_digits k n) = k" "list_all is_digit (padded_digits k n)"
  by (induction k arbitrary: n) simp_all

lemma padded_digits_Nil: "padded_digits k n = [] \<longleftrightarrow> k = 0"
  by (cases k) simp_all

lemma int_of_digits_padded:
  "0 \<le> n \<Longrightarrow> int_of_digits (digits_of (n div 10 ^ k) @ padded_digits k n) = n"
proof (induction k arbitrary: n)
  case (Suc k)
  have "int_of_digits (digits_of (n div 10 ^ Suc k) @ padded_digits (Suc k) n)
      = 10 * int_of_digits (digits_of (n div 10 div 10 ^ k) @ padded_digits k (n div 10)) + n mod 10"
    by (simp flip: append_assoc add: zdiv_zmult2_eq)
  with Suc.IH [of "n div 10"] Suc.prems show ?case by simp
qed simp

end
