(* ===== verification/Money.thy ===== *)
theory Money
  imports Decimals
begin

text \<open>
  Monetary identity and exact amounts: \<open>core/money.py\<close> (currency codes, reviewed exponents,
  exact major-unit amounts), \<open>core/campaign_builder/money.py\<close> (decimal strings to the integer
  minor units Meta takes, and back), \<open>core/meta_api/budget_limits.py\<close> (daily budgets) and the
  division helpers of \<open>core/math_utils.py\<close>. Currency evidence is an optional string
  (\<open>None\<close> where the payload has none). An exponent argument is an integer, a boolean or any
  other object, because the code tells them apart. An amount argument is a decimal or text.
\<close>

section \<open>core/money.py\<close>

definition ISO_4217_CODES :: "string list" where
  "ISO_4217_CODES = [
    ''AED'', ''AFN'', ''ALL'', ''AMD'', ''ANG'', ''AOA'', ''ARS'', ''AUD'', ''AWG'', ''AZN'',
    ''BAM'', ''BBD'', ''BDT'', ''BGN'', ''BHD'', ''BIF'', ''BMD'', ''BND'', ''BOB'', ''BOV'',
    ''BRL'', ''BSD'', ''BTN'', ''BWP'', ''BYN'', ''BZD'', ''CAD'', ''CDF'', ''CHE'', ''CHF'',
    ''CHW'', ''CLF'', ''CLP'', ''CNY'', ''COP'', ''COU'', ''CRC'', ''CUP'', ''CVE'', ''CZK'',
    ''DJF'', ''DKK'', ''DOP'', ''DZD'', ''EGP'', ''ERN'', ''ETB'', ''EUR'', ''FJD'', ''FKP'',
    ''GBP'', ''GEL'', ''GHS'', ''GIP'', ''GMD'', ''GNF'', ''GTQ'', ''GYD'', ''HKD'', ''HNL'',
    ''HTG'', ''HUF'', ''IDR'', ''ILS'', ''INR'', ''IQD'', ''IRR'', ''ISK'', ''JMD'', ''JOD'',
    ''JPY'', ''KES'', ''KGS'', ''KHR'', ''KMF'', ''KPW'', ''KRW'', ''KWD'', ''KYD'', ''KZT'',
    ''LAK'', ''LBP'', ''LKR'', ''LRD'', ''LSL'', ''LYD'', ''MAD'', ''MDL'', ''MGA'', ''MKD'',
    ''MMK'', ''MNT'', ''MOP'', ''MRU'', ''MUR'', ''MVR'', ''MWK'', ''MXN'', ''MXV'', ''MYR'',
    ''MZN'', ''NAD'', ''NGN'', ''NIO'', ''NOK'', ''NPR'', ''NZD'', ''OMR'', ''PAB'', ''PEN'',
    ''PGK'', ''PHP'', ''PKR'', ''PLN'', ''PYG'', ''QAR'', ''RON'', ''RSD'', ''RUB'', ''RWF'',
    ''SAR'', ''SBD'', ''SCR'', ''SDG'', ''SEK'', ''SGD'', ''SHP'', ''SLE'', ''SOS'', ''SRD'',
    ''SSP'', ''STN'', ''SVC'', ''SYP'', ''SZL'', ''THB'', ''TJS'', ''TMT'', ''TND'', ''TOP'',
    ''TRY'', ''TTD'', ''TWD'', ''TZS'', ''UAH'', ''UGX'', ''USD'', ''USN'', ''UYI'', ''UYU'',
    ''UYW'', ''UZS'', ''VED'', ''VES'', ''VND'', ''VUV'', ''WST'', ''XAF'', ''XAG'', ''XAU'',
    ''XCD'', ''XDR'', ''XOF'', ''XPD'', ''XPF'', ''XPT'', ''XSU'', ''XUA'', ''YER'', ''ZAR'',
    ''ZMW'', ''ZWG'']"

definition EXPONENT_ZERO :: "string list" where
  "EXPONENT_ZERO = [
    ''BIF'', ''CLP'', ''DJF'', ''GNF'', ''ISK'', ''JPY'', ''KMF'', ''KRW'', ''PYG'', ''RWF'',
    ''UGX'', ''VND'', ''VUV'', ''XAF'', ''XOF'', ''XPF'']"

definition EXPONENT_THREE :: "string list" where
  "EXPONENT_THREE = [
    ''BHD'', ''IQD'', ''JOD'', ''KWD'', ''LYD'', ''OMR'', ''TND'']"

definition EXPONENT_TWO :: "string list" where
  "EXPONENT_TWO = [
    ''AED'', ''AFN'', ''ALL'', ''AMD'', ''ANG'', ''AOA'', ''ARS'', ''AUD'', ''AWG'', ''AZN'',
    ''BAM'', ''BBD'', ''BDT'', ''BGN'', ''BMD'', ''BND'', ''BOB'', ''BRL'', ''BSD'', ''BTN'',
    ''BWP'', ''BYN'', ''BZD'', ''CAD'', ''CDF'', ''CHF'', ''CNY'', ''COP'', ''CRC'', ''CVE'',
    ''CZK'', ''DKK'', ''DOP'', ''DZD'', ''EGP'', ''ERN'', ''ETB'', ''EUR'', ''FJD'', ''FKP'',
    ''GBP'', ''GEL'', ''GHS'', ''GIP'', ''GMD'', ''GTQ'', ''GYD'', ''HKD'', ''HNL'', ''HTG'',
    ''HUF'', ''IDR'', ''ILS'', ''INR'', ''IRR'', ''JMD'', ''KES'', ''KGS'', ''KHR'', ''KPW'',
    ''KYD'', ''KZT'', ''LAK'', ''LBP'', ''LKR'', ''LRD'', ''LSL'', ''MAD'', ''MDL'', ''MGA'',
    ''MKD'', ''MMK'', ''MNT'', ''MOP'', ''MRU'', ''MUR'', ''MVR'', ''MWK'', ''MXN'', ''MYR'',
    ''MZN'', ''NAD'', ''NGN'', ''NIO'', ''NOK'', ''NPR'', ''NZD'', ''PAB'', ''PEN'', ''PGK'',
    ''PHP'', ''PKR'', ''PLN'', ''QAR'', ''RON'', ''RSD'', ''RUB'', ''SAR'', ''SBD'', ''SCR'',
    ''SDG'', ''SEK'', ''SGD'', ''SHP'', ''SLE'', ''SOS'', ''SRD'', ''SSP'', ''STN'', ''SVC'',
    ''SYP'', ''SZL'', ''THB'', ''TJS'', ''TMT'', ''TOP'', ''TRY'', ''TTD'', ''TWD'', ''TZS'',
    ''UAH'', ''USD'', ''UYU'', ''UZS'', ''VED'', ''VES'', ''WST'', ''YER'', ''ZAR'', ''ZMW'',
    ''ZWG'']"

text \<open>
  The dictionary is built from the three sets in this order; a later set would override an
  earlier one, so the lookup tries the last set first.
\<close>

definition SUPPORTED_CURRENCY_EXPONENTS :: "string \<Rightarrow> int option" where
  "SUPPORTED_CURRENCY_EXPONENTS code =
     (if code \<in> set EXPONENT_THREE then Some 3
      else if code \<in> set EXPONENT_TWO then Some 2
      else if code \<in> set EXPONENT_ZERO then Some 0 else None)"

datatype exponent_arg = ExpInt int | ExpBool bool | ExpOther

datatype amount_arg = AmDecimal decimal | AmText string

definition validated_currency_code :: "string option \<Rightarrow> string option" where
  "validated_currency_code raw =
     (let v = py_upper (py_strip (or_empty raw))
      in if v \<notin> set ISO_4217_CODES then None else Some v)"

definition currency_exponent :: "string option \<Rightarrow> int result" where
  "currency_exponent currency =
     (case validated_currency_code currency of
        None \<Rightarrow> Inl (UnsupportedCurrencyExponentError ''<empty>'')
      | Some code \<Rightarrow>
          (case SUPPORTED_CURRENCY_EXPONENTS code of
             None \<Rightarrow> Inl (UnsupportedCurrencyExponentError code)
           | Some e \<Rightarrow> Inr e))"

definition require_currency_exponent ::
    "string option \<Rightarrow> exponent_arg \<Rightarrow> (string \<times> int) result" where
  "require_currency_exponent currency ex =
     (let code = validated_currency_code currency
      in ebind (currency_exponent code) (\<lambda>expected.
           case ex of
             ExpInt supplied \<Rightarrow>
               if supplied \<noteq> expected then Inl (CurrencyExponentMismatchError ''requires exponent'')
               else Inr (or_empty code, expected)
           | _ \<Rightarrow> Inl (CurrencyExponentMismatchError ''exponent must be explicit'')))"

definition currency_quantum :: "string option \<Rightarrow> exponent_arg \<Rightarrow> rat result" where
  "currency_quantum currency ex =
     ebind (require_currency_exponent currency ex) (\<lambda>(_, e). Inr (scaleb 1 (- e)))"

definition decimal_of_arg :: "amount_arg \<Rightarrow> decimal option" where
  "decimal_of_arg v = (case v of AmDecimal d \<Rightarrow> Some d | AmText s \<Rightarrow> decimal_of_string s)"

definition require_exact_currency_amount ::
    "amount_arg \<Rightarrow> string option \<Rightarrow> exponent_arg \<Rightarrow> string \<Rightarrow> bool \<Rightarrow> rat result" where
  "require_exact_currency_amount v currency ex field allow_zero =
     ebind (currency_quantum currency ex) (\<lambda>quantum.
       case decimal_of_arg v of
         None \<Rightarrow> Inl (InvalidCurrencyAmountError (field @ '' is not a decimal''))
       | Some (Finite amount) \<Rightarrow>
           if amount < 0 \<or> \<not> allow_zero \<and> amount = 0
           then Inl (InvalidCurrencyAmountError (field @ '' is outside the safe range''))
           else ebind (quantize ROUND_HALF_EVEN amount quantum) (\<lambda>q.
                  if amount \<noteq> q
                  then Inl (InvalidCurrencyAmountError (field @ '' has excess precision''))
                  else Inr amount)
       | Some _ \<Rightarrow> Inl (InvalidCurrencyAmountError (field @ '' is outside the safe range'')))"

section \<open>core/meta_api/budget_limits.py\<close>

definition MAX_DAILY_BUDGET_MAJOR :: rat where
  "MAX_DAILY_BUDGET_MAJOR = 100000"

definition checked_daily_budget_minor_units ::
    "amount_arg \<Rightarrow> string option \<Rightarrow> exponent_arg \<Rightarrow> (string \<times> int \<times> rat \<times> int) result" where
  "checked_daily_budget_minor_units v currency ex =
     ebind (require_currency_exponent currency ex) (\<lambda>(code, e).
     ebind (require_exact_currency_amount v (Some code) (ExpInt e) ''daily_budget'' False) (\<lambda>amount.
       if amount > MAX_DAILY_BUDGET_MAJOR then Inl (ValueError ''daily_budget exceeds maximum'')
       else let minor_units = scaleb amount e
            in if minor_units \<noteq> of_int (to_integral_value minor_units)
               then Inl (ValueError ''daily_budget cannot be represented in Meta minor units'')
               else Inr (code, e, amount, to_integral_value minor_units)))"

section \<open>core/campaign_builder/money.py\<close>

text \<open>The pattern \<open>^(?:0|[1-9][0-9]*)(?:\.[0-9]+)?$\<close>, matched against the whole text.\<close>

definition MAJOR_AMOUNT_RE :: "string \<Rightarrow> bool" where
  "MAJOR_AMOUNT_RE s =
     (let ip = takeWhile is_digit s; rest = dropWhile is_digit s
      in (ip = ''0'' \<or> ip \<noteq> [] \<and> hd ip \<noteq> CHR ''0'') \<and>
         (case rest of [] \<Rightarrow> True
          | c # fp \<Rightarrow> c = CHR ''.'' \<and> fp \<noteq> [] \<and> list_all is_digit fp))"

definition campaign_currency_exponent :: "string \<Rightarrow> int result" where
  "campaign_currency_exponent currency =
     (let code = py_upper (py_strip currency)
      in case currency_exponent (Some code) of
           Inl _ \<Rightarrow> Inl (UnsupportedCampaignCurrencyError code)
         | Inr e \<Rightarrow> Inr e)"

definition nonnegative_major_amount_to_minor_units :: "string \<Rightarrow> string \<Rightarrow> int result" where
  "nonnegative_major_amount_to_minor_units raw currency =
     (let v = py_strip raw
      in if \<not> MAJOR_AMOUNT_RE v
         then Inl (InvalidMajorAmountError ''amount must be a positive decimal string'')
         else case decimal_of_string v of
                None \<Rightarrow> Inl (InvalidMajorAmountError ''amount is not a finite decimal'')
              | Some (Finite amount) \<Rightarrow>
                  if amount < 0 then Inl (InvalidMajorAmountError ''amount must be non-negative'')
                  else ebind (campaign_currency_exponent currency) (\<lambda>e.
                         let scaled = dmul amount (10 ^ nat e); integral = to_integral_value scaled
                         in if scaled \<noteq> of_int integral
                            then Inl (InvalidMajorAmountError ''amount has too many decimal places'')
                            else Inr integral)
              | Some _ \<Rightarrow> Inl (InvalidMajorAmountError ''amount must be non-negative''))"

definition major_amount_to_minor_units :: "string \<Rightarrow> string \<Rightarrow> int result" where
  "major_amount_to_minor_units raw currency =
     ebind (nonnegative_major_amount_to_minor_units raw currency) (\<lambda>minor_units.
       if minor_units \<le> 0 then Inl (InvalidMajorAmountError ''amount must be greater than zero'')
       else Inr minor_units)"

definition minor_units_to_major_amount :: "int \<Rightarrow> string \<Rightarrow> string result" where
  "minor_units_to_major_amount value currency =
     ebind (campaign_currency_exponent currency) (\<lambda>e.
       Inr (format_fixed (nat e) (scaleb (of_int value) (- e))))"

definition normalize_major_amount :: "string \<Rightarrow> string \<Rightarrow> string result" where
  "normalize_major_amount raw currency =
     ebind (major_amount_to_minor_units raw currency) (\<lambda>minor_units.
     ebind (campaign_currency_exponent currency) (\<lambda>e.
       Inr (format_fixed (nat e) (scaleb (of_int minor_units) (- e)))))"

section \<open>core/math_utils.py\<close>

definition COST_METRIC_PRECISION :: rat where
  "COST_METRIC_PRECISION = 1 / 10000"

definition safe_div :: "rat \<Rightarrow> int \<Rightarrow> rat option" where
  "safe_div numerator denominator =
     (if denominator = 0 then None else Some (ddiv numerator (of_int denominator)))"

definition safe_div_quantized :: "rat \<Rightarrow> int \<Rightarrow> rat \<Rightarrow> rat option result" where
  "safe_div_quantized numerator denominator precision =
     (if denominator \<le> 0 then Inr None
      else ebind (quantize ROUND_HALF_EVEN (ddiv numerator (of_int denominator)) precision)
             (\<lambda>q. Inr (Some q)))"

text \<open>Floating point: the operands are converted, the quotient and the product rounded.\<close>

definition fl :: "rat \<Rightarrow> rat" where
  "fl = round_sig 2 53"

definition safe_percent :: "int \<Rightarrow> int \<Rightarrow> rat option" where
  "safe_percent numerator denominator =
     (if denominator \<le> 0 then None
      else let x = fl (fl (fl (of_int numerator) / fl (of_int denominator)) * 100)
           in Some (fl (of_int (round_half_even (x * 10)) / 10)))"

section \<open>Currency contract\<close>

lemma scaleb_one [simp]: "scaleb 1 n = 10 powi n"
  unfolding scaleb_def by (rule trans, rule ctx_round_exact [where k = 1 and e = n]) simp_all

lemma ISO_codes_normal: "list_all (\<lambda>c. py_upper (py_strip c) = c \<and> c \<noteq> []) ISO_4217_CODES"
  by code_simp

lemma validated_normal:
  assumes "validated_currency_code raw = Some c"
  shows "c \<in> set ISO_4217_CODES" "validated_currency_code (Some c) = Some c" "c \<noteq> []"
proof -
  from assms show iso: "c \<in> set ISO_4217_CODES"
    by (auto simp: validated_currency_code_def Let_def split: if_splits)
  with ISO_codes_normal show "validated_currency_code (Some c) = Some c" "c \<noteq> []"
    by (auto simp: validated_currency_code_def list_all_iff)
qed

lemma exponent_range:
  "currency_exponent currency = Inr e \<Longrightarrow> e = 0 \<or> e = 2 \<or> e = 3"
  by (auto simp: currency_exponent_def SUPPORTED_CURRENCY_EXPONENTS_def
      split: option.splits if_splits)

lemma require_currency_exponent_Inr:
  "require_currency_exponent currency ex = Inr (code, e) \<longleftrightarrow>
     validated_currency_code currency = Some code \<and> SUPPORTED_CURRENCY_EXPONENTS code = Some e \<and>
     ex = ExpInt e"
proof (cases "validated_currency_code currency")
  case None
  moreover have "validated_currency_code None = None"
    using ISO_codes_normal
    by (auto simp: validated_currency_code_def list_all_iff py_strip_def py_upper_def)
  ultimately show ?thesis
    by (simp add: require_currency_exponent_def currency_exponent_def Let_def)
next
  case (Some c)
  with validated_normal [OF Some] show ?thesis
    by (auto simp: require_currency_exponent_def currency_exponent_def Let_def
        split: option.splits exponent_arg.splits)
qed

lemma require_currency_exponent_canonical:
  "require_currency_exponent currency ex = Inr (code, e) \<Longrightarrow>
     require_currency_exponent (Some code) (ExpInt e) = Inr (code, e)"
  by (auto simp: require_currency_exponent_Inr dest: validated_normal(2))

lemma supported_exponent_range:
  "SUPPORTED_CURRENCY_EXPONENTS c = Some e \<Longrightarrow> e = 0 \<or> e = 2 \<or> e = 3"
  by (auto simp: SUPPORTED_CURRENCY_EXPONENTS_def split: if_splits)

lemma require_exponent_range:
  "require_currency_exponent currency ex = Inr (code, e) \<Longrightarrow> e = 0 \<or> e = 2 \<or> e = 3"
  using supported_exponent_range by (auto simp: require_currency_exponent_Inr)

lemma require_currency_exponent_Inr_ex:
  "require_currency_exponent currency ex = Inr x \<Longrightarrow> \<exists>code e. x = (code, e) \<and>
     validated_currency_code currency = Some code \<and> SUPPORTED_CURRENCY_EXPONENTS code = Some e \<and>
     ex = ExpInt e"
  using require_currency_exponent_Inr by (cases x) auto

lemma currency_quantum_Inr:
  "currency_quantum currency ex = Inr q \<longleftrightarrow>
     (\<exists>code e. require_currency_exponent currency ex = Inr (code, e) \<and> q = 10 powi (- e))"
  by (auto simp: currency_quantum_def ebind_eq_Inr)

section \<open>Exact amounts\<close>

text \<open>What an accepted amount is: finite, in range, a whole number of minor units.\<close>

lemma require_exact_Inr:
  "require_exact_currency_amount v currency ex field z = Inr a \<longleftrightarrow>
     (\<exists>code e. require_currency_exponent currency ex = Inr (code, e) \<and>
        decimal_of_arg v = Some (Finite a) \<and> 0 \<le> a \<and> (z \<or> a \<noteq> 0) \<and>
        (\<exists>c. a = of_int c * 10 powi (- e) \<and> \<bar>c\<bar> < 10 ^ 28))" (is "?L = ?R")
proof -
  have q: "quantize ROUND_HALF_EVEN a (10 powi (- e)) = Inr a \<longleftrightarrow>
      (\<exists>c. a = of_int c * 10 powi (- e) \<and> \<bar>c\<bar> < 10 ^ 28)" for e
    by (rule quantize_id_iff) simp
  have "?L \<longleftrightarrow> (\<exists>code e. require_currency_exponent currency ex = Inr (code, e) \<and>
        decimal_of_arg v = Some (Finite a) \<and> 0 \<le> a \<and> (z \<or> a \<noteq> 0) \<and>
        quantize ROUND_HALF_EVEN a (10 powi (- e)) = Inr a)"
  proof (cases "decimal_of_arg v")
    case (Some d)
    then show ?thesis
      unfolding require_exact_currency_amount_def ebind_eq_Inr currency_quantum_Inr
      by (cases d) (auto simp: ebind_eq_Inr split: if_splits)
  qed (simp add: require_exact_currency_amount_def ebind_eq_Inr)
  then show ?thesis by (simp only: q)
qed

lemma require_exact_nonneg:
  "require_exact_currency_amount v currency ex field z = Inr a \<Longrightarrow> 0 \<le> a"
  by (auto simp: require_exact_Inr)

lemma require_exact_pos:
  "require_exact_currency_amount v currency ex field False = Inr a \<Longrightarrow> 0 < a"
  unfolding require_exact_Inr by (metis less_le)

text \<open>
  The amount validator is exact: it accepts a finite decimal for a reviewed
  currency/exponent pair precisely when the amount is non-negative (positive where zero is not
  allowed) and a whole number of minor units with at most 28 digits, and it returns that very
  amount, never a rounded one.
\<close>

theorem exact_amount_iff:
  "require_exact_currency_amount (AmDecimal (Finite a)) currency ex field z = Inr r \<longleftrightarrow>
     r = a \<and> (if z then 0 \<le> a else 0 < a) \<and>
     (\<exists>code e c. require_currency_exponent currency ex = Inr (code, e) \<and>
        a = of_int c * 10 powi (- e) \<and> \<bar>c\<bar> < 10 ^ 28)"
  by (cases z) (auto simp: require_exact_Inr decimal_of_arg_def less_le)

section \<open>Decimal text\<close>

text \<open>Text of digits and points is read as it stands: nothing is stripped or folded.\<close>

definition plain_char :: "char \<Rightarrow> bool" where
  "plain_char c \<longleftrightarrow> is_digit c \<or> c = CHR ''.''"

lemma plain_char_facts:
  assumes "plain_char c"
  shows "\<not> py_space c" "lower_char c = c" "c \<noteq> CHR ''_''" "c \<noteq> CHR ''e''"
    "c \<noteq> CHR ''-''" "c \<noteq> CHR ''+''" "c \<noteq> CHR ''i''" "c \<noteq> CHR ''n''" "c \<noteq> CHR ''s''"
  using assms
  by (auto simp: plain_char_def is_digit_def py_space_def lower_char_def Let_def)

lemma strip_plain:
  assumes "list_all plain_char s"
  shows "py_strip s = s"
proof -
  have "dropWhile py_space u = u" if "list_all plain_char u" for u
    using that by (cases u) (auto simp: plain_char_facts)
  from this [OF assms] this [of "rev s"] assms show ?thesis
    by (simp add: py_strip_def list_all_iff)
qed

lemma lower_plain: "list_all plain_char s \<Longrightarrow> py_lower s = s"
  by (induction s) (auto simp: py_lower_def plain_char_facts)

lemma filter_plain: "list_all plain_char s \<Longrightarrow> filter (\<lambda>c. c \<noteq> CHR ''_'') s = s"
  by (induction s) (auto simp: plain_char_facts)

lemma span_plain:
  assumes "list_all plain_char s"
  shows "takeWhile (\<lambda>c. c \<noteq> CHR ''e'') s = s" "dropWhile (\<lambda>c. c \<noteq> CHR ''e'') s = []"
  using assms by (auto simp: takeWhile_eq_all_conv dropWhile_eq_Nil_conv list_all_iff
      dest: plain_char_facts(4))

lemma decimal_of_plain:
  assumes "list_all plain_char s" "parse_mantissa s = Some (c, d)"
  shows "decimal_of_string s = Some (Finite (of_int c * 10 powi (- d)))"
proof (cases s)
  case Nil
  with assms show ?thesis by (simp add: parse_mantissa_def)
next
  case (Cons x xs)
  with assms(1) have x: "plain_char x" by simp
  have "split_sign s = (False, s)"
    using Cons plain_char_facts [OF x] by (simp add: split_sign_def)
  moreover have "s \<noteq> ''inf''" "s \<noteq> ''infinity''" "take 3 s \<noteq> ''nan''" "take 4 s \<noteq> ''snan''"
    using Cons plain_char_facts [OF x] by auto
  moreover have "parse_number s = Some (of_int c * 10 powi (- d))"
    using assms by (simp add: parse_number_def span_plain)
  ultimately show ?thesis
    using assms(1) by (simp add: decimal_of_string_def strip_plain lower_plain filter_plain)
qed

lemma span_digits:
  assumes "list_all is_digit ip"
  shows "takeWhile is_digit (ip @ CHR ''.'' # fp) = ip"
    "dropWhile is_digit (ip @ CHR ''.'' # fp) = CHR ''.'' # fp"
    "takeWhile is_digit ip = ip" "dropWhile is_digit ip = []"
  using assms by (auto simp: takeWhile_append dropWhile_append list_all_iff is_digit_def
      takeWhile_eq_all_conv dropWhile_eq_Nil_conv)

lemma plain_digits: "list_all is_digit s \<Longrightarrow> list_all plain_char s"
  by (auto simp: list_all_iff plain_char_def)

lemma MAJOR_AMOUNT_RE_shape:
  assumes "MAJOR_AMOUNT_RE s"
  obtains c d where "parse_mantissa s = Some (c, d)" "list_all plain_char s"
proof -
  define ip rest where "ip = takeWhile is_digit s" and "rest = dropWhile is_digit s"
  have s: "s = ip @ rest" by (simp add: ip_def rest_def)
  have ip: "list_all is_digit ip" "ip \<noteq> []"
    using assms by (auto simp: MAJOR_AMOUNT_RE_def ip_def list_all_iff Let_def dest: set_takeWhileD)
  have rest: "case rest of [] \<Rightarrow> True | c # fp \<Rightarrow> c = CHR ''.'' \<and> fp \<noteq> [] \<and> list_all is_digit fp"
    using assms by (simp add: MAJOR_AMOUNT_RE_def rest_def Let_def)
  have "list_all plain_char s"
    using ip rest s by (cases rest) (auto simp: plain_digits, simp add: plain_char_def)
  moreover have "\<exists>c d. parse_mantissa s = Some (c, d)"
    using ip rest s by (cases rest) (auto simp: parse_mantissa_def span_digits Let_def)
  ultimately show ?thesis using that by blast
qed

section \<open>Minor units\<close>

lemma campaign_exponent_range:
  "campaign_currency_exponent currency = Inr e \<Longrightarrow> e = 0 \<or> e = 2 \<or> e = 3"
  by (auto simp: campaign_currency_exponent_def Let_def split: sum.splits dest: exponent_range)

lemma scaleb_int_exact: "\<bar>k\<bar> < 10 ^ 28 \<Longrightarrow> scaleb (of_int k) n = of_int k * 10 powi n"
  unfolding scaleb_def by (rule ctx_round_exact [where k = k and e = n]) simp_all

lemma format_fixed_minor:
  assumes "0 \<le> v"
  shows "format_fixed e (of_int v * 10 powi (- int e)) =
    (if e = 0 then digits_of v else digits_of (v div 10 ^ e) @ CHR ''.'' # padded_digits e v)"
proof -
  have "\<bar>of_int v * 10 powi (- int e)\<bar> * 10 ^ e = (of_int v :: rat)"
    using assms by (simp add: power_int_minus field_simps)
  moreover have "\<not> of_int v * 10 powi (- int e) < (0 :: rat)"
    using assms by (simp add: not_less)
  ultimately show ?thesis
    by (simp only: format_fixed_def Let_def round_half_even_of_int if_False)
qed

lemma hd_digits_re: "0 \<le> n \<Longrightarrow> digits_of n = ''0'' \<or> digits_of n \<noteq> [] \<and> hd (digits_of n) \<noteq> CHR ''0''"
  using hd_digits_of [of n] by (cases "n = 0") (auto simp: digits_of.simps [of 0])

lemma fixed_text_reads_back:
  fixes n :: int and k :: nat
  assumes n0: "0 \<le> n"
  defines "t \<equiv> (if k = 0 then digits_of n else digits_of (n div 10 ^ k) @ CHR ''.'' # padded_digits k n)"
  shows "MAJOR_AMOUNT_RE t" "list_all plain_char t" "parse_mantissa t = Some (n, int k)"
proof -
  have nk: "0 \<le> n div 10 ^ k" using n0 by (simp add: pos_imp_zdiv_nonneg_iff)
  note d = digits_of_digits [OF n0] digits_of_digits [OF nk] padded_digits_props
    span_digits [OF digits_of_digits, OF n0] span_digits [OF digits_of_digits, OF nk]
  show "MAJOR_AMOUNT_RE t"
    using hd_digits_re [OF n0] hd_digits_re [OF nk]
    by (auto simp: t_def MAJOR_AMOUNT_RE_def Let_def d padded_digits_Nil)
  show "list_all plain_char t"
    by (auto simp: t_def plain_digits d plain_char_def)
  show "parse_mantissa t = Some (n, int k)"
    by (auto simp: t_def parse_mantissa_def Let_def d int_of_digits_padded n0)
qed

text \<open>
  Minor units survive the round trip through the decimal text: for a supported
  currency, rendering a non-negative number of minor units (of at most 28 digits, the decimal
  context) and reading the text back gives the same number.
\<close>

theorem minor_units_roundtrip:
  assumes "campaign_currency_exponent currency = Inr e" "0 \<le> v" "v < 10 ^ 28"
  shows "ebind (minor_units_to_major_amount v currency)
           (\<lambda>t. nonnegative_major_amount_to_minor_units t currency) = Inr v"
proof -
  have e: "0 \<le> e" using campaign_exponent_range [OF assms(1)] by auto
  then obtain k where k: "e = int k" using nonneg_int_cases by blast
  define t where "t = format_fixed k (of_int v * 10 powi (- int k))"
  note tdef = t_def [unfolded format_fixed_minor [OF assms(2)]]
  note rb = fixed_text_reads_back [OF assms(2), of k, folded tdef]
  have "minor_units_to_major_amount v currency = Inr t"
    using assms by (simp add: minor_units_to_major_amount_def scaleb_int_exact t_def k)
  moreover have "decimal_of_string t = Some (Finite (of_int v * 10 powi (- int k)))"
    by (rule decimal_of_plain [OF rb(2,3)])
  moreover have "dmul (of_int v * 10 powi (- int k)) (10 ^ nat e) = of_int v"
  proof -
    have "of_int v * 10 powi (- int k) * 10 ^ nat e = (of_int v :: rat)"
      by (simp add: k power_int_minus field_simps)
    moreover have "ctx_round (of_int v) = of_int v"
      using ctx_round_exact [of "of_int v" v 0] assms by simp
    ultimately show ?thesis by (simp only: dmul_def)
  qed
  moreover have "\<not> of_int v * 10 powi (- int k) < (0 :: rat)"
    using assms(2) by (simp add: not_less)
  ultimately show ?thesis
    using rb(1) assms(1)
    by (simp add: nonnegative_major_amount_to_minor_units_def Let_def strip_plain rb(2)
        to_integral_value_def)
qed

theorem minor_units_roundtrip_witness:
  "minor_units_to_major_amount 1250 ''usd'' = Inr ''12.50'' \<and>
   ebind (minor_units_to_major_amount 1250 ''usd'')
     (\<lambda>t. nonnegative_major_amount_to_minor_units t ''usd'') = Inr 1250"
proof
  show "minor_units_to_major_amount 1250 ''usd'' = Inr ''12.50''" by code_simp
  have "campaign_currency_exponent ''usd'' = Inr 2" by code_simp
  from minor_units_roundtrip [OF this, of 1250]
  show "ebind (minor_units_to_major_amount 1250 ''usd'')
     (\<lambda>t. nonnegative_major_amount_to_minor_units t ''usd'') = Inr 1250" by simp
qed

lemma major_amount_Inr:
  assumes "nonnegative_major_amount_to_minor_units raw currency = Inr n"
  obtains c d e where "parse_mantissa (py_strip raw) = Some (c, d)"
    "campaign_currency_exponent currency = Inr e" "0 \<le> e"
    "of_int n = ctx_round (of_int c * 10 powi (e - d))"
proof -
  from assms have re: "MAJOR_AMOUNT_RE (py_strip raw)"
    by (auto simp: nonnegative_major_amount_to_minor_units_def Let_def split: if_splits)
  then obtain c d where m: "parse_mantissa (py_strip raw) = Some (c, d)"
    and p: "list_all plain_char (py_strip raw)" by (rule MAJOR_AMOUNT_RE_shape)
  from assms re decimal_of_plain [OF p m] obtain e where e: "campaign_currency_exponent currency = Inr e"
    and n: "of_int n = dmul (of_int c * 10 powi (- d)) (10 ^ nat e)"
    by (auto simp: nonnegative_major_amount_to_minor_units_def Let_def ebind_eq_Inr split: if_splits)
  have e0: "0 \<le> e" using campaign_exponent_range [OF e] by auto
  then have "(10 :: rat) ^ nat e = 10 powi e" by (simp add: power_int_def)
  then have "(10 :: rat) powi (e - d) = 10 powi (- d) * 10 ^ nat e"
    by (simp add: power_int_diff power_int_minus field_simps)
  with n have "of_int n = ctx_round (of_int c * 10 powi (e - d))"
    by (simp add: dmul_def mult.assoc)
  with that m e e0 show ?thesis by blast
qed

text \<open>
  The conversion to minor units is exact on every amount of at most 28 significant
  digits: the returned integer is the value of the text times the power of ten of the currency.
\<close>

theorem minor_units_exact:
  assumes "nonnegative_major_amount_to_minor_units raw currency = Inr n"
    and "parse_mantissa (py_strip raw) = Some (c, d)" "\<bar>c\<bar> < 10 ^ 28"
    and "campaign_currency_exponent currency = Inr e"
  shows "of_int n = (of_int c * 10 powi (e - d) :: rat)"
proof -
  from assms(1) obtain c' d' e' where "parse_mantissa (py_strip raw) = Some (c', d')"
    "campaign_currency_exponent currency = Inr e'"
    "of_int n = ctx_round (of_int c' * 10 powi (e' - d'))"
    by (rule major_amount_Inr)
  with assms(2,4) have "of_int n = ctx_round (of_int c * 10 powi (e - d))" by simp
  also have "\<dots> = of_int c * 10 powi (e - d)"
    using assms(3) by (intro ctx_round_exact [where k = c and e = "e - d"]) simp_all
  finally show ?thesis .
qed

theorem minor_units_exact_witness:
  "nonnegative_major_amount_to_minor_units '' 12.500 '' ''USD'' = Inr 1250 \<and>
   of_int 1250 = (of_int 12500 * 10 powi (2 - 3) :: rat)"
proof -
  have 1: "nonnegative_major_amount_to_minor_units '' 12.500 '' ''USD'' = Inr 1250" by code_simp
  have 2: "parse_mantissa (py_strip '' 12.500 '') = Some (12500, 3)" by code_simp
  have 3: "campaign_currency_exponent ''USD'' = Inr 2" by code_simp
  from minor_units_exact [OF 1 2 _ 3] 1 show ?thesis by simp
qed

text \<open>
  Beyond 28 significant digits the multiplication rounds before the comparison with the
  integral value, so a text with a non-zero digit below the minor unit is accepted: the code
  takes 1.0000000000000000000000000001 USD as exactly 100 cents.
\<close>

theorem minor_units_long_text_rounded:
  "nonnegative_major_amount_to_minor_units ''1.0000000000000000000000000001'' ''USD'' = Inr 100 \<and>
   decimal_of_string ''1.0000000000000000000000000001'' = Some (Finite (1 + 1 / 10 ^ 28)) \<and>
   (1 + 1 / 10 ^ 28) * 10 ^ 2 \<noteq> (100 :: rat)"
proof (intro conjI)
  show "nonnegative_major_amount_to_minor_units ''1.0000000000000000000000000001'' ''USD'' = Inr 100"
    by code_simp
  show "decimal_of_string ''1.0000000000000000000000000001'' = Some (Finite (1 + 1 / 10 ^ 28))"
    by code_simp
qed simp

text \<open>
  A checked daily budget is exact and bounded: the integer sent to Meta is the amount
  times the power of ten of the currency, positive, and at most the maximum budget.
\<close>

theorem daily_budget_exact:
  assumes "checked_daily_budget_minor_units v currency ex = Inr (code, e, amount, m)"
  shows "of_int m = amount * 10 ^ nat e \<and> 0 < m \<and> of_int m \<le> MAX_DAILY_BUDGET_MAJOR * 10 ^ nat e \<and>
         decimal_of_arg v = Some (Finite amount) \<and> ex = ExpInt e"
proof -
  from assms have r: "require_currency_exponent currency ex = Inr (code, e)"
    and a: "require_exact_currency_amount v (Some code) (ExpInt e) ''daily_budget'' False = Inr amount"
    and b: "amount \<le> MAX_DAILY_BUDGET_MAJOR" and m: "m = to_integral_value (scaleb amount e)"
    by (auto simp: checked_daily_budget_minor_units_def ebind_eq_Inr Let_def split: if_splits)
  from r have e: "0 \<le> e" "ex = ExpInt e"
    using require_exponent_range [OF r] by (auto simp: require_currency_exponent_Inr)
  from a obtain c e' where c: "amount = of_int c * 10 powi (- e')" "\<bar>c\<bar> < 10 ^ 28"
    and v: "decimal_of_arg v = Some (Finite amount)"
    and "require_currency_exponent (Some code) (ExpInt e) = Inr (code, e')"
    using require_currency_exponent_canonical [OF r] by (auto simp: require_exact_Inr)
  with require_currency_exponent_canonical [OF r] have c: "amount = of_int c * 10 powi (- e)"
    "\<bar>c\<bar> < 10 ^ 28" by auto
  have ae: "amount * 10 powi e = of_int c" by (simp add: c(1) power_int_minus)
  then have "scaleb amount e = of_int c"
    unfolding scaleb_def using ctx_round_exact [of "of_int c" c 0] c(2) by simp
  with m have mc: "m = c" by (simp add: to_integral_value_def)
  have p10: "(10 :: rat) powi e = 10 ^ nat e" using e by (simp add: power_int_def)
  have "0 < amount" by (rule require_exact_pos [OF a])
  then have "0 < amount * 10 powi e" by simp
  with ae mc have "0 < m" by simp
  moreover have "amount * 10 powi e \<le> MAX_DAILY_BUDGET_MAJOR * 10 powi e"
    using b by (intro mult_right_mono) simp_all
  ultimately show ?thesis unfolding ae [symmetric] mc [symmetric] p10 [symmetric]
    using ae mc v e(2) by simp
qed

theorem daily_budget_exact_witness:
  "checked_daily_budget_minor_units (AmText ''150.75'') (Some ''eur'') (ExpInt 2)
     = Inr (''EUR'', 2, 603 / 4, 15075) \<and> (0 :: int) < 15075"
proof -
  have 1: "checked_daily_budget_minor_units (AmText ''150.75'') (Some ''eur'') (ExpInt 2)
     = Inr (''EUR'', 2, 603 / 4, 15075)" by code_simp
  from daily_budget_exact [OF 1] 1 show ?thesis by simp
qed

end
