(* ===== verification/Wording.thy ===== *)
theory Wording
  imports Money
begin

text \<open>
  Operator wording: \<open>core/wording.py\<close> and \<open>core/rules/labels.py\<close>. The Russian words are
  named, not spelled: a noun and one of its three grammatical forms stand for the literal of
  the source, a rule label stands for the entry of the source's table under that code. What
  is modelled is which literal is chosen and which number stands beside it.
\<close>

section \<open>core/wording.py\<close>

datatype noun = Klik | Lid | Registratsiya | Depozit | Obyavlenie | Kampaniya | Adset | Kreativ
  | Offer | Minuta | Chas | Den | Bayt | Obyekt | Preduprezhdenie | Komanda | Raz | Oshibka

datatype word_form = One | Few | Many

datatype ru_word = Word noun word_form

datatype ru_text = Counted int ru_word | NoneOf noun | Scaled string nat

definition plural_ru :: "int \<Rightarrow> 'w \<Rightarrow> 'w \<Rightarrow> 'w \<Rightarrow> 'w" where
  "plural_ru count one few many =
     (let amount = \<bar>count\<bar>
      in if 11 \<le> amount mod 100 \<and> amount mod 100 < 15 then many
         else let remainder = amount mod 10
              in if remainder = 1 then one
                 else if remainder \<in> {2, 3, 4} then few else many)"

definition counted_ru :: "int \<Rightarrow> ru_word \<Rightarrow> ru_word \<Rightarrow> ru_word \<Rightarrow> ru_text" where
  "counted_ru count one few many = Counted count (plural_ru count one few many)"

definition counted_noun :: "noun \<Rightarrow> int \<Rightarrow> ru_text" where
  "counted_noun n count = counted_ru count (Word n One) (Word n Few) (Word n Many)"

definition clicks_ru :: "int \<Rightarrow> ru_text" where
  "clicks_ru count = (if count = 0 then NoneOf Klik else counted_noun Klik count)"

definition leads_ru :: "int \<Rightarrow> ru_text" where
  "leads_ru count = (if count = 0 then NoneOf Lid else counted_noun Lid count)"

definition registrations_ru :: "int \<Rightarrow> ru_text" where
  "registrations_ru count =
     (if count = 0 then NoneOf Registratsiya else counted_noun Registratsiya count)"

definition deposits_ru :: "int \<Rightarrow> ru_text" where
  "deposits_ru count = (if count = 0 then NoneOf Depozit else counted_noun Depozit count)"

definition ads_ru :: "int \<Rightarrow> ru_text" where
  "ads_ru count = counted_noun Obyavlenie count"

definition campaigns_ru :: "int \<Rightarrow> ru_text" where
  "campaigns_ru count = counted_noun Kampaniya count"

definition adsets_ru :: "int \<Rightarrow> ru_text" where
  "adsets_ru count = counted_noun Adset count"

definition creatives_ru :: "int \<Rightarrow> ru_text" where
  "creatives_ru count = counted_noun Kreativ count"

definition offers_ru :: "int \<Rightarrow> ru_text" where
  "offers_ru count = counted_noun Offer count"

definition minutes_ru :: "int \<Rightarrow> ru_text" where
  "minutes_ru count = counted_noun Minuta count"

definition hours_ru :: "int \<Rightarrow> ru_text" where
  "hours_ru count = counted_noun Chas count"

definition days_ru :: "int \<Rightarrow> ru_text" where
  "days_ru count = counted_noun Den count"

definition objects_ru :: "int \<Rightarrow> ru_text" where
  "objects_ru count = counted_noun Obyekt count"

definition warnings_ru :: "int \<Rightarrow> ru_text" where
  "warnings_ru count = counted_noun Preduprezhdenie count"

definition commands_ru :: "int \<Rightarrow> ru_text" where
  "commands_ru count = counted_noun Komanda count"

definition times_ru :: "int \<Rightarrow> ru_text" where
  "times_ru count = counted_noun Raz count"

definition errors_ru :: "int \<Rightarrow> ru_text" where
  "errors_ru count = counted_noun Oshibka count"

text \<open>
  The loop over the five binary units: unit \<open>i\<close> (0 is KiB) divides once more by 1024 and stops
  below 1024 or at the last unit. Division by a power of two is exact on floats; the first
  conversion rounds.
\<close>

fun scale_units :: "nat \<Rightarrow> nat \<Rightarrow> rat \<Rightarrow> rat \<times> nat" where
  "scale_units 0 i scaled = (scaled, i)"
| "scale_units (Suc more) i scaled =
     (let s = scaled / 1024
      in if s < 1024 \<or> more = 0 then (s, i) else scale_units more (Suc i) s)"

definition comma_for_point :: "string \<Rightarrow> string" where
  "comma_for_point = map (\<lambda>c. if c = CHR ''.'' then CHR '','' else c)"

definition human_bytes_ru :: "int \<Rightarrow> ru_text" where
  "human_bytes_ru value =
     (let amount = max 0 value
      in if amount < 1024
         then counted_ru amount (Word Bayt One) (Word Bayt Few) (Word Bayt Many)
         else case scale_units 5 0 (fl (of_int amount)) of (scaled, unit) \<Rightarrow>
                let rendered = (if scaled \<ge> 10 \<or> scaled = of_int \<lfloor>scaled\<rfloor>
                                then format_fixed 0 scaled else format_fixed 1 scaled)
                in Scaled (comma_for_point rendered) unit)"

datatype action_label = ActionLabel string | ActionRaw string | ActionGeneric

definition action_label_ru :: "string option \<Rightarrow> action_label" where
  "action_label_ru kind =
     (let normalized = py_strip (or_empty kind)
      in if normalized \<in> {''pause_ad'', ''activate_ad'', ''bulk_status_change'',
                          ''duplicate_adset_structure''}
         then ActionLabel normalized
         else if normalized = [] then ActionGeneric else ActionRaw normalized)"

datatype status_label = StatusLabel string | StatusRaw string | StatusUnknown

definition delivery_status_ru :: "string option \<Rightarrow> status_label" where
  "delivery_status_ru status =
     (let normalized = py_upper (py_strip (or_empty status))
      in if normalized \<in> {''ACTIVE'', ''WITH_ISSUES'', ''PAUSED'', ''OFF'', ''ADSET_PAUSED'',
                          ''CAMPAIGN_PAUSED'', ''PENDING_REVIEW'', ''IN_REVIEW'', ''DISAPPROVED'',
                          ''NOT_DELIVERING'', ''DELETED'', ''ARCHIVED''}
         then StatusLabel normalized
         else if normalized = [] then StatusUnknown else StatusRaw normalized)"

section \<open>core/rules/labels.py\<close>

text \<open>The four rule tables of the source have the same ten keys.\<close>

definition RULE_CODES :: "string list" where
  "RULE_CODES = [''cpc_stop'', ''cpl_stop'', ''cpr_stop'', ''regs_no_dep_stop'',
     ''spend_no_dep_range'', ''spend_with_dep_range'', ''early_outbound_ctr_signal'',
     ''early_lpv_ratio_signal'', ''early_cost_per_lpv_signal'', ''frequency_anomaly'']"

datatype rule_text = FullLabel string | ShortLabel string | MetricLabel string | RawCode string

definition rule_label :: "string \<Rightarrow> bool \<Rightarrow> rule_text" where
  "rule_label code short =
     (if code \<in> set RULE_CODES then (if short then ShortLabel code else FullLabel code)
      else RawCode code)"

definition rule_metric_label :: "string \<Rightarrow> rule_text" where
  "rule_metric_label code =
     (if code \<in> set RULE_CODES then MetricLabel code else rule_label code False)"

definition RULE_METRIC_UNITS :: "(string \<times> string) list" where
  "RULE_METRIC_UNITS = [
     (''cpc_stop'', ''money''), (''cpl_stop'', ''money''), (''cpr_stop'', ''money''),
     (''regs_no_dep_stop'', ''count''), (''spend_no_dep_range'', ''percent_of_cpa''),
     (''spend_with_dep_range'', ''percent_of_cpa''), (''early_outbound_ctr_signal'', ''percent''),
     (''early_lpv_ratio_signal'', ''percent''), (''early_cost_per_lpv_signal'', ''money''),
     (''frequency_anomaly'', ''ratio'')]"

definition rule_metric_unit :: "string \<Rightarrow> string" where
  "rule_metric_unit code = coalesce (map_of RULE_METRIC_UNITS code) ''ratio''"

datatype state_label = StateLabel string | StateRaw string

definition alert_state_label :: "string \<Rightarrow> state_label" where
  "alert_state_label state =
     (if state \<in> {''NORMAL'', ''WARNING_SENT'', ''STOP_SENT'', ''CLAIMED'', ''DISABLED''}
      then StateLabel state else StateRaw state)"

section \<open>Agreement of number and noun\<close>

text \<open>
  The noun agrees with the number by the rule of Russian: numbers ending in 11 to 14
  take the genitive plural; otherwise a last digit 1 takes the singular, 2 to 4 the paucal and
  the rest the genitive plural. The choice depends on the magnitude only and repeats every 100.
\<close>

theorem plural_ru_agreement:
  "plural_ru n a b c =
     (if \<bar>n\<bar> mod 10 = 1 \<and> \<bar>n\<bar> mod 100 \<noteq> 11 then a
      else if \<bar>n\<bar> mod 10 \<in> {2, 3, 4} \<and> \<bar>n\<bar> mod 100 \<notin> {12, 13, 14} then b else c) \<and>
   plural_ru (- n) a b c = plural_ru n a b c \<and>
   (0 \<le> n \<longrightarrow> plural_ru (n + 100) a b c = plural_ru n a b c)"
proof -
  have eq: "plural_ru m a b c =
     (if \<bar>m\<bar> mod 10 = 1 \<and> \<bar>m\<bar> mod 100 \<noteq> 11 then a
      else if \<bar>m\<bar> mod 10 \<in> {2, 3, 4} \<and> \<bar>m\<bar> mod 100 \<notin> {12, 13, 14} then b else c)" for m
  proof (cases "11 \<le> \<bar>m\<bar> mod 100 \<and> \<bar>m\<bar> mod 100 < 15")
    case True
    have m10: "\<bar>m\<bar> mod 10 = \<bar>m\<bar> mod 100 mod 10" by (simp add: mod_mod_cancel)
    from True consider "\<bar>m\<bar> mod 100 = 11" | "\<bar>m\<bar> mod 100 = 12"
      | "\<bar>m\<bar> mod 100 = 13" | "\<bar>m\<bar> mod 100 = 14" by linarith
    then show ?thesis by cases (simp_all add: plural_ru_def m10)
  next
    case False
    then show ?thesis by (auto simp: plural_ru_def Let_def)
  qed
  moreover have "plural_ru (- n) a b c = plural_ru n a b c" by (simp add: plural_ru_def)
  moreover have "(n + 100) mod 100 = n mod 100" "(n + 100) mod 10 = n mod 10"
    using mod_mult_self1 [of n 10 10] by simp_all
  then have "0 \<le> n \<longrightarrow> plural_ru (n + 100) a b c = plural_ru n a b c"
    by (simp add: plural_ru_def)
  ultimately show ?thesis by blast
qed

theorem plural_ru_agreement_witness:
  "plural_ru 111 One Few Many = Many \<and> plural_ru 121 One Few Many = One \<and>
   plural_ru (3 + 100) One Few Many = plural_ru 3 One Few Many"
  using plural_ru_agreement [of 3 One Few Many] by (simp add: plural_ru_def)

end
