(* ===== verification/RuleTypes.thy ===== *)
theory RuleTypes
  imports Wording
begin

text \<open>
  The data of the stop-rule engine: the stages of \<open>core/domain.py\<close>, the scanned row of
  \<open>core/scanner/models.py\<close> and the hits, evaluations and per-offer context of
  \<open>core/rules/types.py\<close>. A \<open>RuleContext\<close> is built by \<open>post_init\<close> from its constructor
  arguments (\<open>rule_params\<close>): currency, exponent and CPA are validated, and the nine money
  thresholds are precomputed with the rounding of the decimal module. Settings that the code
  compares without checking (percentages, frequencies) are finite decimals. The texts of a hit
  are the format strings of the source, one constructor each, with their interpolated parts.
\<close>

section \<open>core/domain.py\<close>

datatype alert_stage = WARNING | STOP

datatype disable_task_status = DT_PENDING | DT_RUNNING | DT_RETRYING | DT_SUCCEEDED | DT_CANCELLED
  | DT_FAILED

datatype telegram_user_role = OWNER | RECIPIENT

datatype telegram_notification_stream = TS_WARNING | TS_STOP | TS_ENABLE | TS_OPS

datatype plan_run_status = PR_QUEUED | PR_RUNNING | PR_SUCCESS | PR_FAILED | PR_REQUIRES_ATTENTION

section \<open>core/scanner/models.py\<close>

definition SCANNER_METRICS_CONTRACT_REVISION :: int where
  "SCANNER_METRICS_CONTRACT_REVISION = 1"

record scanned_ad_row =
  row_fb_ad_id :: string
  row_campaign_name :: string
  row_adset_name :: string
  row_ad_name :: string
  row_delivery_status :: string
  row_spend :: decimal
  row_moderation_reason :: "string option"
  row_budget :: string
  row_campaign_id :: string
  row_adset_id :: string
  row_reach :: int
  row_impressions :: int
  row_clicks :: int
  row_cpc :: "decimal option"
  row_ctr :: "decimal option"
  row_outbound_clicks :: int
  row_outbound_ctr :: "decimal option"
  row_landing_page_views :: int
  row_cost_per_landing_page_view :: "decimal option"
  row_cost_per_result :: "decimal option"
  row_cpm :: "decimal option"
  row_frequency :: "decimal option"
  row_leads :: int
  row_cost_per_lead :: "decimal option"
  row_registrations :: int
  row_cost_per_registration :: "decimal option"
  row_deposits :: int
  row_resolved_offer_code :: "string option"

text \<open>The catalogue fields of the row (previews and ad set metadata) as one extension.\<close>

record scanned_ad_row_catalog = scanned_ad_row +
  row_creative_thumb_url :: string
  row_creative_image_url :: string
  row_adset_pixel_id :: string
  row_adset_daily_budget :: string
  row_adset_lifetime_budget :: string
  row_adset_budget_remaining :: string
  row_adset_learning_stage :: string

section \<open>core/rules/types.py\<close>

definition CPC_PERCENT_OF_CPA :: rat where "CPC_PERCENT_OF_CPA = 2"
definition CPL_PERCENT_OF_CPA :: rat where "CPL_PERCENT_OF_CPA = 10"
definition CPR_PERCENT_OF_CPA :: rat where "CPR_PERCENT_OF_CPA = 20"
definition REGS_NO_DEP_STOP_COUNT :: int where "REGS_NO_DEP_STOP_COUNT = 5"
definition SPEND_NO_DEP_FROM_PERCENT :: rat where "SPEND_NO_DEP_FROM_PERCENT = 50"
definition SPEND_NO_DEP_TO_PERCENT :: rat where "SPEND_NO_DEP_TO_PERCENT = 70"
definition SPEND_WITH_DEP_FROM_PERCENT :: rat where "SPEND_WITH_DEP_FROM_PERCENT = 70"
definition SPEND_WITH_DEP_TO_PERCENT :: rat where "SPEND_WITH_DEP_TO_PERCENT = 90"
definition MIN_RATIO_DENOMINATOR :: int where "MIN_RATIO_DENOMINATOR = 100"

text \<open>\<open>12.50 USD\<close>; a threshold also shows its base value where the two differ.\<close>

type_synonym money_text = string

datatype threshold_text = PlainThreshold money_text | ThresholdWithBase money_text money_text

datatype missing_event = MissingClicks | MissingLeads | MissingRegistrations

datatype spend_suffix = NoDepositsPriceNormal | DepositsPresent ru_text

datatype hit_text =
    FrequencyAtStop string string
  | FrequencyAtWarning string string
  | ProgressToStop rule_text rat rat
  | MetricAtStop rule_text money_text threshold_text
  | MetricAtWarning rule_text money_text threshold_text
  | GuardrailAtStop money_text missing_event rule_text threshold_text
  | GuardrailAtWarning money_text missing_event rule_text threshold_text
  | RegsAtStop ru_text ru_text
  | RegsAtWarning ru_text ru_text
  | SpendAtStop string money_text string spend_suffix
  | SpendAtWarning string money_text string spend_suffix

text \<open>
  Each template constructor carries every value interpolated in the summary or in the
  reason; the two texts of a hit differ in their constant parts only.
\<close>

record rule_hit =
  hit_code :: string
  hit_title :: rule_text
  hit_stage :: "alert_stage option"
  hit_value :: rat
  hit_threshold :: rat
  hit_summary :: hit_text
  hit_reason_text :: hit_text

record rule_evaluation =
  ev_stage :: "alert_stage option"
  ev_warning_hits :: "rule_hit list"
  ev_stop_hits :: "rule_hit list"
  ev_nearest_stop :: "rule_hit option"

definition warning_rule_codes :: "rule_evaluation \<Rightarrow> string list" where
  "warning_rule_codes ev = map hit_code (ev_warning_hits ev)"

definition stop_rule_codes :: "rule_evaluation \<Rightarrow> string list" where
  "stop_rule_codes ev = map hit_code (ev_stop_hits ev)"

definition matched_hits :: "rule_evaluation \<Rightarrow> rule_hit list" where
  "matched_hits ev =
     (if ev_stage ev = Some STOP then ev_stop_hits ev
      else if ev_stage ev = Some WARNING then ev_warning_hits ev else [])"

definition matched_rule_codes :: "rule_evaluation \<Rightarrow> string list" where
  "matched_rule_codes ev = map hit_code (matched_hits ev)"

definition reason_title :: "rule_evaluation \<Rightarrow> rule_text option" where
  "reason_title ev = (case matched_hits ev of [] \<Rightarrow> None | h # _ \<Rightarrow> Some (hit_title h))"

definition reason_text :: "rule_evaluation \<Rightarrow> hit_text option" where
  "reason_text ev = (case matched_hits ev of [] \<Rightarrow> None | h # _ \<Rightarrow> Some (hit_reason_text h))"

record rule_settings =
  warning_percent_of_stop :: rat
  stop_percent_of_base :: rat
  cpc_warning_percent_of_stop :: "rat option"
  cpc_stop_percent_of_base :: "rat option"
  cpl_warning_percent_of_stop :: "rat option"
  cpl_stop_percent_of_base :: "rat option"
  cpr_warning_percent_of_stop :: "rat option"
  cpr_stop_percent_of_base :: "rat option"
  spend_no_dep_warning_percent_of_stop :: "rat option"
  spend_with_dep_warning_percent_of_stop :: "rat option"
  use_adaptive_cpa :: bool
  adaptive_cpa :: "rat option"
  cpc_percent_of_cpa :: rat
  cpl_percent_of_cpa :: rat
  cpr_percent_of_cpa :: rat
  cpc_enabled :: bool
  cpl_enabled :: bool
  cpr_enabled :: bool
  regs_no_dep_enabled :: bool
  regs_no_dep_stop_count :: int
  spend_no_dep_enabled :: bool
  spend_no_dep_from_percent :: rat
  spend_no_dep_to_percent :: rat
  spend_with_dep_enabled :: bool
  spend_with_dep_from_percent :: rat
  spend_with_dep_to_percent :: rat
  frequency_anomaly_enabled :: bool
  frequency_current :: "rat option"
  frequency_warning_threshold :: rat
  frequency_stop_threshold :: rat
  impressions :: "int option"
  reach :: "int option"
  frequency_outlier_cap :: rat
  min_ratio_denominator :: int
  external_deposits :: int
  today_deposits :: "int option"

record rule_params = rule_settings +
  rp_currency :: string
  rp_currency_exponent :: int
  rp_cpa_amount :: decimal

record rule_context = rule_settings +
  rc_currency :: string
  rc_currency_exponent :: int
  cpa_amount :: rat
  money_quantum :: rat
  cpc_percent_stop :: rat
  cpl_percent_stop :: rat
  cpr_percent_stop :: rat
  cpc_base_stop_threshold :: rat
  cpc_stop_threshold :: rat
  cpc_warning_threshold :: rat
  cpl_base_stop_threshold :: rat
  cpl_stop_threshold :: rat
  cpl_warning_threshold :: rat
  cpr_base_stop_threshold :: rat
  cpr_stop_threshold :: rat
  cpr_warning_threshold :: rat

text \<open>The defaults of the dataclass, with the one setting that has none.\<close>

definition default_settings :: "rat \<Rightarrow> rule_settings" where
  "default_settings warning_pct = \<lparr>
     warning_percent_of_stop = warning_pct, stop_percent_of_base = 80,
     cpc_warning_percent_of_stop = None, cpc_stop_percent_of_base = None,
     cpl_warning_percent_of_stop = None, cpl_stop_percent_of_base = None,
     cpr_warning_percent_of_stop = None, cpr_stop_percent_of_base = None,
     spend_no_dep_warning_percent_of_stop = None, spend_with_dep_warning_percent_of_stop = None,
     use_adaptive_cpa = False, adaptive_cpa = None,
     cpc_percent_of_cpa = CPC_PERCENT_OF_CPA, cpl_percent_of_cpa = CPL_PERCENT_OF_CPA,
     cpr_percent_of_cpa = CPR_PERCENT_OF_CPA,
     cpc_enabled = True, cpl_enabled = True, cpr_enabled = True,
     regs_no_dep_enabled = True, regs_no_dep_stop_count = REGS_NO_DEP_STOP_COUNT,
     spend_no_dep_enabled = True, spend_no_dep_from_percent = SPEND_NO_DEP_FROM_PERCENT,
     spend_no_dep_to_percent = SPEND_NO_DEP_TO_PERCENT,
     spend_with_dep_enabled = True, spend_with_dep_from_percent = SPEND_WITH_DEP_FROM_PERCENT,
     spend_with_dep_to_percent = SPEND_WITH_DEP_TO_PERCENT,
     frequency_anomaly_enabled = True, frequency_current = None,
     frequency_warning_threshold = 5 / 2, frequency_stop_threshold = 7 / 2,
     impressions = None, reach = None, frequency_outlier_cap = 10,
     min_ratio_denominator = MIN_RATIO_DENOMINATOR, external_deposits = 0, today_deposits = None \<rparr>"

definition effective_cpc_warning_percent_of_stop :: "'a rule_settings_scheme \<Rightarrow> rat" where
  "effective_cpc_warning_percent_of_stop c =
     coalesce (cpc_warning_percent_of_stop c) (warning_percent_of_stop c)"

definition effective_cpc_stop_percent_of_base :: "'a rule_settings_scheme \<Rightarrow> rat" where
  "effective_cpc_stop_percent_of_base c =
     coalesce (cpc_stop_percent_of_base c) (stop_percent_of_base c)"

definition effective_cpl_warning_percent_of_stop :: "'a rule_settings_scheme \<Rightarrow> rat" where
  "effective_cpl_warning_percent_of_stop c =
     coalesce (cpl_warning_percent_of_stop c) (warning_percent_of_stop c)"

definition effective_cpl_stop_percent_of_base :: "'a rule_settings_scheme \<Rightarrow> rat" where
  "effective_cpl_stop_percent_of_base c =
     coalesce (cpl_stop_percent_of_base c) (stop_percent_of_base c)"

definition effective_cpr_warning_percent_of_stop :: "'a rule_settings_scheme \<Rightarrow> rat" where
  "effective_cpr_warning_percent_of_stop c =
     coalesce (cpr_warning_percent_of_stop c) (warning_percent_of_stop c)"

definition effective_cpr_stop_percent_of_base :: "'a rule_settings_scheme \<Rightarrow> rat" where
  "effective_cpr_stop_percent_of_base c =
     coalesce (cpr_stop_percent_of_base c) (stop_percent_of_base c)"

definition effective_spend_no_dep_warning_percent_of_stop :: "'a rule_settings_scheme \<Rightarrow> rat" where
  "effective_spend_no_dep_warning_percent_of_stop c =
     coalesce (spend_no_dep_warning_percent_of_stop c) (warning_percent_of_stop c)"

definition effective_spend_with_dep_warning_percent_of_stop :: "'a rule_settings_scheme \<Rightarrow> rat" where
  "effective_spend_with_dep_warning_percent_of_stop c =
     coalesce (spend_with_dep_warning_percent_of_stop c) (warning_percent_of_stop c)"

text \<open>The three local functions of \<open>__post_init__\<close> are one function: a share of a value in the
  currency's step, with ties rounded up.\<close>

definition percent_threshold :: "rat \<Rightarrow> rat \<Rightarrow> rat \<Rightarrow> rat result" where
  "percent_threshold step x pct = quantize ROUND_HALF_UP (ddiv (dmul x pct) 100) step"

text \<open>One rule's base, stop and warning threshold.\<close>

definition threshold_triple :: "rat \<Rightarrow> rat \<Rightarrow> rat \<Rightarrow> rat \<Rightarrow> rat \<Rightarrow> (rat \<times> rat \<times> rat) result" where
  "threshold_triple step cpa pct stop_pct warn_pct =
     ebind (percent_threshold step cpa pct) (\<lambda>base.
     ebind (percent_threshold step base stop_pct) (\<lambda>stop.
     ebind (percent_threshold step stop warn_pct) (\<lambda>warn. Inr (base, stop, warn))))"

definition post_init :: "rule_params \<Rightarrow> rule_context result" where
  "post_init p =
     ebind (require_currency_exponent (Some (rp_currency p)) (ExpInt (rp_currency_exponent p)))
       (\<lambda>(currency, e).
     ebind (require_exact_currency_amount (AmDecimal (rp_cpa_amount p)) (Some currency) (ExpInt e)
              ''cpa_amount'' False) (\<lambda>cpa.
     ebind (currency_quantum (Some currency) (ExpInt e)) (\<lambda>step.
     ebind (threshold_triple step cpa (cpc_percent_of_cpa p) (effective_cpc_stop_percent_of_base p)
              (effective_cpc_warning_percent_of_stop p)) (\<lambda>(cpc_base, cpc_stop, cpc_warn).
     ebind (threshold_triple step cpa (cpl_percent_of_cpa p) (effective_cpl_stop_percent_of_base p)
              (effective_cpl_warning_percent_of_stop p)) (\<lambda>(cpl_base, cpl_stop, cpl_warn).
     ebind (threshold_triple step cpa (cpr_percent_of_cpa p) (effective_cpr_stop_percent_of_base p)
              (effective_cpr_warning_percent_of_stop p)) (\<lambda>(cpr_base, cpr_stop, cpr_warn).
     Inr (rule_settings.extend (rule_settings.truncate p) \<lparr>
            rc_currency = currency, rc_currency_exponent = e, cpa_amount = cpa,
            money_quantum = step,
            cpc_percent_stop = cpc_percent_of_cpa p, cpl_percent_stop = cpl_percent_of_cpa p,
            cpr_percent_stop = cpr_percent_of_cpa p,
            cpc_base_stop_threshold = cpc_base, cpc_stop_threshold = cpc_stop,
            cpc_warning_threshold = cpc_warn,
            cpl_base_stop_threshold = cpl_base, cpl_stop_threshold = cpl_stop,
            cpl_warning_threshold = cpl_warn,
            cpr_base_stop_threshold = cpr_base, cpr_stop_threshold = cpr_stop,
            cpr_warning_threshold = cpr_warn \<rparr>)))))))"

end
