(* ===== verification/Rules.thy ===== *)
theory Rules
  imports RuleTypes
begin

text \<open>
  The stop-rule evaluator, \<open>core/rules/evaluator.py\<close>: the funnel ladder (click, lead,
  registration, deposit), the frequency rule, the choice of the highest-priority hit and the
  progress to the nearest stop. The spend of a row is validated first; the functions below
  take the validated amount as their argument \<open>spend\<close>. Every raise of the code is an \<open>Inl\<close>.
\<close>

section \<open>Arithmetic and text helpers\<close>

definition HUNDRED :: rat where "HUNDRED = 100"
definition PERCENT_STEP :: rat where "PERCENT_STEP = 1 / 100"
definition FREQUENCY_CAP_MULTIPLIER :: rat where "FREQUENCY_CAP_MULTIPLIER = 3"

definition percent_of_cpa :: "rat \<Rightarrow> rat \<Rightarrow> rat" where
  "percent_of_cpa cpa percent = ddiv (dmul cpa percent) HUNDRED"

definition ratio_percent :: "rat \<Rightarrow> rat \<Rightarrow> rat" where
  "ratio_percent amount total_amount =
     (if total_amount \<le> 0 then 0 else dmul (ddiv amount total_amount) HUNDRED)"

definition warning_threshold :: "rat \<Rightarrow> rat \<Rightarrow> rat" where
  "warning_threshold stop_threshold warning_pct = ddiv (dmul stop_threshold warning_pct) HUNDRED"

definition apply_downward_stop :: "rat \<Rightarrow> rat \<Rightarrow> rat" where
  "apply_downward_stop base_value stop_pct = ddiv (dmul base_value stop_pct) HUNDRED"

definition exact_derived_money :: "decimal \<Rightarrow> rat result" where
  "exact_derived_money value =
     (case value of
        Finite amount \<Rightarrow>
          if amount < 0 then Inl (ValueError ''derived money metric must be finite and non-negative'')
          else Inr amount
      | _ \<Rightarrow> Inl (ValueError ''derived money metric must be finite and non-negative''))"

definition round_percent :: "rat \<Rightarrow> rat result" where
  "round_percent value = quantize ROUND_HALF_UP value PERCENT_STEP"

definition format_money_value :: "rat \<Rightarrow> int \<Rightarrow> string result" where
  "format_money_value value e =
     ebind (quantize ROUND_HALF_UP value (scaleb 1 (- e))) (\<lambda>rendered.
       Inr (format_fixed (nat e) rendered))"

definition format_money_with_currency :: "rat \<Rightarrow> string \<Rightarrow> int \<Rightarrow> money_text result" where
  "format_money_with_currency value currency e =
     ebind (format_money_value value e) (\<lambda>t. Inr (t @ '' '' @ currency))"

definition format_threshold_value :: "rat \<Rightarrow> rat \<Rightarrow> string \<Rightarrow> int \<Rightarrow> threshold_text result" where
  "format_threshold_value effective_value base_value currency e =
     (if effective_value = base_value
      then ebind (format_money_with_currency effective_value currency e) (\<lambda>t. Inr (PlainThreshold t))
      else ebind (format_money_with_currency effective_value currency e) (\<lambda>t.
           ebind (format_money_with_currency base_value currency e) (\<lambda>b.
             Inr (ThresholdWithBase t b))))"

definition warning_count :: "int \<Rightarrow> rat option" where
  "warning_count stop_count = (if stop_count \<le> 1 then None else Some (of_int (stop_count - 1)))"

section \<open>Single rules\<close>

fun first_with_stage :: "alert_stage \<Rightarrow> rule_hit list \<Rightarrow> rule_hit option" where
  "first_with_stage s [] = None"
| "first_with_stage s (h # hs) = (if hit_stage h = Some s then Some h else first_with_stage s hs)"

definition pick_highest_priority_hit :: "rule_hit option list \<Rightarrow> rule_hit option" where
  "pick_highest_priority_hit hits =
     (let candidates = List.map_filter id hits
      in case first_with_stage STOP candidates of
           Some h \<Rightarrow> Some h
         | None \<Rightarrow> first_with_stage WARNING candidates)"

definition evaluate_metric_only ::
    "decimal option \<Rightarrow> bool \<Rightarrow> rat \<Rightarrow> rat \<Rightarrow> rat \<Rightarrow> string \<Rightarrow> rule_context \<Rightarrow> rule_hit option result" where
  "evaluate_metric_only metric_value enabled base_stop stop warning code ctx =
     (case (enabled, metric_value) of
        (True, Some v) \<Rightarrow>
          ebind (exact_derived_money v) (\<lambda>current.
          ebind (format_money_with_currency current (rc_currency ctx) (rc_currency_exponent ctx))
            (\<lambda>current_text.
          ebind (format_threshold_value stop base_stop (rc_currency ctx) (rc_currency_exponent ctx))
            (\<lambda>threshold_text.
          Inr (if stop \<le> current
               then Some \<lparr>hit_code = code, hit_title = rule_label code False,
                      hit_stage = Some STOP, hit_value = current, hit_threshold = stop,
                      hit_summary = MetricAtStop (rule_metric_label code) current_text threshold_text,
                      hit_reason_text = MetricAtStop (rule_metric_label code) current_text threshold_text\<rparr>
               else if warning \<le> current
               then Some \<lparr>hit_code = code, hit_title = rule_label code False,
                      hit_stage = Some WARNING, hit_value = current, hit_threshold = warning,
                      hit_summary = MetricAtWarning (rule_metric_label code) current_text threshold_text,
                      hit_reason_text = MetricAtWarning (rule_metric_label code) current_text threshold_text\<rparr>
               else None))))
      | _ \<Rightarrow> Inr None)"

definition evaluate_guardrail_only ::
    "rat \<Rightarrow> bool \<Rightarrow> rat \<Rightarrow> rat \<Rightarrow> rat \<Rightarrow> string \<Rightarrow> missing_event \<Rightarrow> rule_context \<Rightarrow> rule_hit option result" where
  "evaluate_guardrail_only spend enabled base_stop stop warning code missing ctx =
     (if \<not> enabled then Inr None
      else
        ebind (format_money_with_currency spend (rc_currency ctx) (rc_currency_exponent ctx))
          (\<lambda>spend_text.
        ebind (format_threshold_value stop base_stop (rc_currency ctx) (rc_currency_exponent ctx))
          (\<lambda>threshold_text.
        Inr (if stop \<le> spend
             then Some \<lparr>hit_code = code, hit_title = rule_label code False,
                    hit_stage = Some STOP, hit_value = spend, hit_threshold = stop,
                    hit_summary = GuardrailAtStop spend_text missing (rule_metric_label code) threshold_text,
                    hit_reason_text = GuardrailAtStop spend_text missing (rule_metric_label code) threshold_text\<rparr>
             else if warning \<le> spend
             then Some \<lparr>hit_code = code, hit_title = rule_label code False,
                    hit_stage = Some WARNING, hit_value = spend, hit_threshold = warning,
                    hit_summary = GuardrailAtWarning spend_text missing (rule_metric_label code) threshold_text,
                    hit_reason_text = GuardrailAtWarning spend_text missing (rule_metric_label code) threshold_text\<rparr>
             else None))))"

definition evaluate_regs_without_deposits ::
    "'r scanned_ad_row_scheme \<Rightarrow> rule_context \<Rightarrow> rule_hit option" where
  "evaluate_regs_without_deposits row ctx =
     (if \<not> regs_no_dep_enabled ctx \<or> external_deposits ctx \<noteq> 0 then None
      else
        let stop_val = of_int (regs_no_dep_stop_count ctx);
            warning_val = warning_count (regs_no_dep_stop_count ctx);
            current = of_int (row_registrations row);
            regs_text = registrations_ru (row_registrations row);
            stop_text = registrations_ru (regs_no_dep_stop_count ctx)
        in if stop_val \<le> current
           then Some \<lparr>hit_code = ''regs_no_dep_stop'', hit_title = rule_label ''regs_no_dep_stop'' False,
                  hit_stage = Some STOP, hit_value = current, hit_threshold = stop_val,
                  hit_summary = RegsAtStop regs_text stop_text,
                  hit_reason_text = RegsAtStop regs_text stop_text\<rparr>
           else case warning_val of
                  None \<Rightarrow> None
                | Some w \<Rightarrow>
                    if w \<le> current
                    then Some \<lparr>hit_code = ''regs_no_dep_stop'',
                           hit_title = rule_label ''regs_no_dep_stop'' False,
                           hit_stage = Some WARNING, hit_value = current, hit_threshold = w,
                           hit_summary = RegsAtWarning regs_text stop_text,
                           hit_reason_text = RegsAtWarning regs_text stop_text\<rparr>
                    else None)"

definition evaluate_spend_range ::
    "bool \<Rightarrow> rat \<Rightarrow> rat \<Rightarrow> rat \<Rightarrow> string \<Rightarrow> spend_suffix \<Rightarrow> rule_context \<Rightarrow> rule_hit option result" where
  "evaluate_spend_range enabled current_value stop_from warning_pct code suffix ctx =
     (if \<not> enabled then Inr None
      else
        let effective_from = apply_downward_stop stop_from (stop_percent_of_base ctx);
            warning_from = warning_threshold effective_from warning_pct
        in ebind (format_money_with_currency (cpa_amount ctx) (rc_currency ctx) (rc_currency_exponent ctx))
             (\<lambda>cpa_text.
           ebind (round_percent current_value) (\<lambda>current.
           ebind (round_percent effective_from) (\<lambda>stop_threshold.
           if effective_from \<le> current
           then Inr (Some \<lparr>hit_code = code, hit_title = rule_label code False,
                  hit_stage = Some STOP, hit_value = current, hit_threshold = stop_threshold,
                  hit_summary = SpendAtStop (format_fixed 2 current) cpa_text (format_fixed 2 stop_threshold) suffix,
                  hit_reason_text = SpendAtStop (format_fixed 2 current) cpa_text (format_fixed 2 stop_threshold) suffix\<rparr>)
           else if warning_from \<le> current \<and> current < effective_from
           then ebind (round_percent warning_from) (\<lambda>warning_threshold.
                  Inr (Some \<lparr>hit_code = code, hit_title = rule_label code False,
                    hit_stage = Some WARNING, hit_value = current, hit_threshold = warning_threshold,
                    hit_summary = SpendAtWarning (format_fixed 2 current) cpa_text (format_fixed 2 stop_threshold) suffix,
                    hit_reason_text = SpendAtWarning (format_fixed 2 current) cpa_text (format_fixed 2 stop_threshold) suffix\<rparr>))
           else Inr None))))"

section \<open>Frequency\<close>

definition significant_ratio_denominator :: "int option \<Rightarrow> int \<Rightarrow> bool" where
  "significant_ratio_denominator volume min_denominator =
     (case volume of None \<Rightarrow> False | Some v \<Rightarrow> min_denominator \<le> v)"

definition confirmed_frequency :: "rule_context \<Rightarrow> rat option" where
  "confirmed_frequency ctx =
     (if \<not> frequency_anomaly_enabled ctx then None
      else case frequency_current ctx of
             None \<Rightarrow> None
           | Some current \<Rightarrow>
               if \<not> significant_ratio_denominator (reach ctx) (min_ratio_denominator ctx) then None
               else let effective_cap = max (frequency_outlier_cap ctx)
                          (dmul (frequency_stop_threshold ctx) FREQUENCY_CAP_MULTIPLIER)
                    in if effective_cap < current then None else Some current)"

definition evaluate_frequency_anomaly :: "rule_context \<Rightarrow> rule_hit option" where
  "evaluate_frequency_anomaly ctx =
     (case confirmed_frequency ctx of
        None \<Rightarrow> None
      | Some current \<Rightarrow>
          let stop_thr = frequency_stop_threshold ctx; warn_thr = frequency_warning_threshold ctx
          in if stop_thr < current
             then Some \<lparr>hit_code = ''frequency_anomaly'', hit_title = rule_label ''frequency_anomaly'' False,
                    hit_stage = Some STOP, hit_value = current, hit_threshold = stop_thr,
                    hit_summary = FrequencyAtStop (format_fixed 2 current) (format_fixed 2 stop_thr),
                    hit_reason_text = FrequencyAtStop (format_fixed 2 current) (format_fixed 2 stop_thr)\<rparr>
             else if warn_thr < current
             then Some \<lparr>hit_code = ''frequency_anomaly'', hit_title = rule_label ''frequency_anomaly'' False,
                    hit_stage = Some WARNING, hit_value = current, hit_threshold = warn_thr,
                    hit_summary = FrequencyAtWarning (format_fixed 2 current) (format_fixed 2 warn_thr),
                    hit_reason_text = FrequencyAtWarning (format_fixed 2 current) (format_fixed 2 warn_thr)\<rparr>
             else None)"

section \<open>The funnel ladder\<close>

definition has_confirmed_deposit_signal :: "rule_context \<Rightarrow> bool" where
  "has_confirmed_deposit_signal ctx \<longleftrightarrow> 1 \<le> external_deposits ctx"

definition should_apply_registration_spend_guardrail ::
    "'r scanned_ad_row_scheme \<Rightarrow> rule_context \<Rightarrow> bool result" where
  "should_apply_registration_spend_guardrail row ctx =
     (if row_registrations row \<le> 0 then Inr False
      else case row_cost_per_registration row of
             None \<Rightarrow> Inr True
           | Some v \<Rightarrow> ebind (exact_derived_money v) (\<lambda>cpr. Inr (cpr \<le> cpr_stop_threshold ctx)))"

definition evaluate_click_stage ::
    "rat \<Rightarrow> 'r scanned_ad_row_scheme \<Rightarrow> rule_context \<Rightarrow> rule_hit option result" where
  "evaluate_click_stage spend row ctx =
     (if row_clicks row = 0
      then evaluate_guardrail_only spend (cpc_enabled ctx) (cpc_base_stop_threshold ctx)
             (cpc_stop_threshold ctx) (cpc_warning_threshold ctx) ''cpc_stop'' MissingClicks ctx
      else
        ebind (evaluate_metric_only (row_cpc row) (cpc_enabled ctx) (cpc_base_stop_threshold ctx)
                 (cpc_stop_threshold ctx) (cpc_warning_threshold ctx) ''cpc_stop'' ctx) (\<lambda>m.
        ebind (evaluate_guardrail_only spend (cpl_enabled ctx) (cpl_base_stop_threshold ctx)
                 (cpl_stop_threshold ctx) (cpl_warning_threshold ctx) ''cpl_stop'' MissingLeads ctx) (\<lambda>g.
        Inr (pick_highest_priority_hit [m, g]))))"

definition evaluate_lead_stage ::
    "rat \<Rightarrow> 'r scanned_ad_row_scheme \<Rightarrow> rule_context \<Rightarrow> rule_hit option result" where
  "evaluate_lead_stage spend row ctx =
     ebind (evaluate_metric_only (row_cost_per_lead row) (cpl_enabled ctx) (cpl_base_stop_threshold ctx)
              (cpl_stop_threshold ctx) (cpl_warning_threshold ctx) ''cpl_stop'' ctx) (\<lambda>m.
     ebind (evaluate_guardrail_only spend (cpr_enabled ctx) (cpr_base_stop_threshold ctx)
              (cpr_stop_threshold ctx) (cpr_warning_threshold ctx) ''cpr_stop'' MissingRegistrations ctx) (\<lambda>g.
     Inr (pick_highest_priority_hit [m, g])))"

definition evaluate_registration_stage ::
    "rat \<Rightarrow> 'r scanned_ad_row_scheme \<Rightarrow> rule_context \<Rightarrow> rule_hit option result" where
  "evaluate_registration_stage spend row ctx =
     ebind (evaluate_metric_only (row_cost_per_registration row) (cpr_enabled ctx)
              (cpr_base_stop_threshold ctx) (cpr_stop_threshold ctx) (cpr_warning_threshold ctx)
              ''cpr_stop'' ctx) (\<lambda>cpr_hit.
     let regs_without_dep_hit = evaluate_regs_without_deposits row ctx in
     ebind (should_apply_registration_spend_guardrail row ctx) (\<lambda>applies.
     ebind (if applies
            then evaluate_spend_range (spend_no_dep_enabled ctx) (ratio_percent spend (cpa_amount ctx))
                   (spend_no_dep_from_percent ctx)
                   (effective_spend_no_dep_warning_percent_of_stop ctx)
                   ''spend_no_dep_range'' NoDepositsPriceNormal ctx
            else Inr None) (\<lambda>spend_without_dep_hit.
     Inr (pick_highest_priority_hit [cpr_hit, regs_without_dep_hit, spend_without_dep_hit]))))"

definition evaluate_deposit_stage :: "rat \<Rightarrow> rule_context \<Rightarrow> rule_hit option result" where
  "evaluate_deposit_stage spend ctx =
     (let today_count = coalesce (today_deposits ctx) 0
      in evaluate_spend_range (spend_with_dep_enabled ctx) (ratio_percent spend (cpa_amount ctx))
           (spend_with_dep_from_percent ctx)
           (effective_spend_with_dep_warning_percent_of_stop ctx)
           ''spend_with_dep_range'' (DepositsPresent (deposits_ru today_count)) ctx)"

definition evaluate_funnel_ladder ::
    "rat \<Rightarrow> 'r scanned_ad_row_scheme \<Rightarrow> rule_context \<Rightarrow> rule_hit option result" where
  "evaluate_funnel_ladder spend row ctx =
     (if has_confirmed_deposit_signal ctx then evaluate_deposit_stage spend ctx
      else if 1 \<le> row_registrations row then evaluate_registration_stage spend row ctx
      else if 1 \<le> row_leads row then evaluate_lead_stage spend row ctx
      else evaluate_click_stage spend row ctx)"

section \<open>Progress to the nearest stop\<close>

definition stop_progress_hit ::
    "string \<Rightarrow> rat \<Rightarrow> rat \<Rightarrow> alert_stage option \<Rightarrow> rule_hit result" where
  "stop_progress_hit code value stop_threshold stage =
     (if value < 0 then Inl (ValueError ''rule progress value must be finite and non-negative'')
      else if stop_threshold \<le> 0 then Inl (ValueError ''stop threshold must be finite and positive'')
      else Inr \<lparr>hit_code = code, hit_title = rule_label code False, hit_stage = stage,
             hit_value = value, hit_threshold = stop_threshold,
             hit_summary = ProgressToStop (rule_metric_label code) value stop_threshold,
             hit_reason_text = ProgressToStop (rule_metric_label code) value stop_threshold\<rparr>)"

definition threshold_stage :: "rat \<Rightarrow> rat \<Rightarrow> rat \<Rightarrow> alert_stage option" where
  "threshold_stage current stop warning =
     (if stop \<le> current then Some STOP else if warning \<le> current then Some WARNING else None)"

definition decimal_stop_candidate ::
    "rat \<Rightarrow> bool \<Rightarrow> rat \<Rightarrow> rat \<Rightarrow> string \<Rightarrow> rule_hit option result" where
  "decimal_stop_candidate value enabled stop warning code =
     (if \<not> enabled then Inr None
      else ebind (stop_progress_hit code value stop (threshold_stage value stop warning))
             (\<lambda>h. Inr (Some h)))"

definition money_stop_candidate ::
    "decimal option \<Rightarrow> bool \<Rightarrow> rat \<Rightarrow> rat \<Rightarrow> string \<Rightarrow> rule_hit option result" where
  "money_stop_candidate value enabled stop warning code =
     (case value of
        None \<Rightarrow> Inr None
      | Some v \<Rightarrow> ebind (exact_derived_money v) (\<lambda>x. decimal_stop_candidate x enabled stop warning code))"

definition registrations_without_deposit_stop_candidate ::
    "'r scanned_ad_row_scheme \<Rightarrow> rule_context \<Rightarrow> rule_hit option result" where
  "registrations_without_deposit_stop_candidate row ctx =
     (if \<not> regs_no_dep_enabled ctx \<or> external_deposits ctx \<noteq> 0 then Inr None
      else let stop = of_int (regs_no_dep_stop_count ctx)
           in decimal_stop_candidate (of_int (row_registrations row)) True stop
                (coalesce (warning_count (regs_no_dep_stop_count ctx)) stop) ''regs_no_dep_stop'')"

definition spend_range_stop_candidate ::
    "bool \<Rightarrow> rat \<Rightarrow> rat \<Rightarrow> rat \<Rightarrow> rat \<Rightarrow> string \<Rightarrow> rule_hit option result" where
  "spend_range_stop_candidate enabled current_value stop_from warning_pct stop_pct code =
     (if \<not> enabled then Inr None
      else ebind (round_percent current_value) (\<lambda>current.
           let stop = apply_downward_stop stop_from stop_pct;
               warning = warning_threshold stop warning_pct
           in ebind (round_percent stop) (\<lambda>rounded_stop.
              ebind (stop_progress_hit code current rounded_stop (threshold_stage current stop warning))
                (\<lambda>h. Inr (Some h)))))"

definition spend_without_deposit_stop_candidate :: "rat \<Rightarrow> rule_context \<Rightarrow> rule_hit option result" where
  "spend_without_deposit_stop_candidate spend ctx =
     spend_range_stop_candidate (spend_no_dep_enabled ctx) (ratio_percent spend (cpa_amount ctx))
       (spend_no_dep_from_percent ctx) (effective_spend_no_dep_warning_percent_of_stop ctx)
       (stop_percent_of_base ctx) ''spend_no_dep_range''"

definition spend_with_deposit_stop_candidate :: "rat \<Rightarrow> rule_context \<Rightarrow> rule_hit option result" where
  "spend_with_deposit_stop_candidate spend ctx =
     spend_range_stop_candidate (spend_with_dep_enabled ctx) (ratio_percent spend (cpa_amount ctx))
       (spend_with_dep_from_percent ctx) (effective_spend_with_dep_warning_percent_of_stop ctx)
       (stop_percent_of_base ctx) ''spend_with_dep_range''"

definition frequency_stop_candidate :: "rule_context \<Rightarrow> rule_hit option result" where
  "frequency_stop_candidate ctx =
     (case confirmed_frequency ctx of
        None \<Rightarrow> Inr None
      | Some current \<Rightarrow>
          ebind (stop_progress_hit ''frequency_anomaly'' current (frequency_stop_threshold ctx)
                   (if frequency_stop_threshold ctx < current then Some STOP
                    else if frequency_warning_threshold ctx < current then Some WARNING else None))
            (\<lambda>h. Inr (Some h)))"

definition funnel_stop_candidates ::
    "rat \<Rightarrow> 'r scanned_ad_row_scheme \<Rightarrow> rule_context \<Rightarrow> rule_hit option list result" where
  "funnel_stop_candidates spend row ctx =
     (if has_confirmed_deposit_signal ctx
      then ebind (spend_with_deposit_stop_candidate spend ctx) (\<lambda>s. Inr [s])
      else if 1 \<le> row_registrations row
      then ebind (should_apply_registration_spend_guardrail row ctx) (\<lambda>applies.
           ebind (if applies then spend_without_deposit_stop_candidate spend ctx else Inr None)
             (\<lambda>spend_candidate.
           ebind (money_stop_candidate (row_cost_per_registration row) (cpr_enabled ctx)
                    (cpr_stop_threshold ctx) (cpr_warning_threshold ctx) ''cpr_stop'') (\<lambda>m.
           ebind (registrations_without_deposit_stop_candidate row ctx) (\<lambda>r.
           Inr [m, r, spend_candidate]))))
      else if 1 \<le> row_leads row
      then ebind (money_stop_candidate (row_cost_per_lead row) (cpl_enabled ctx)
                    (cpl_stop_threshold ctx) (cpl_warning_threshold ctx) ''cpl_stop'') (\<lambda>m.
           ebind (decimal_stop_candidate spend (cpr_enabled ctx) (cpr_stop_threshold ctx)
                    (cpr_warning_threshold ctx) ''cpr_stop'') (\<lambda>g. Inr [m, g]))
      else if 1 \<le> row_clicks row
      then ebind (money_stop_candidate (row_cpc row) (cpc_enabled ctx)
                    (cpc_stop_threshold ctx) (cpc_warning_threshold ctx) ''cpc_stop'') (\<lambda>m.
           ebind (decimal_stop_candidate spend (cpl_enabled ctx) (cpl_stop_threshold ctx)
                    (cpl_warning_threshold ctx) ''cpl_stop'') (\<lambda>g. Inr [m, g]))
      else ebind (decimal_stop_candidate spend (cpc_enabled ctx) (cpc_stop_threshold ctx)
                    (cpc_warning_threshold ctx) ''cpc_stop'') (\<lambda>g. Inr [g]))"

text \<open>\<open>max(confirmed, key=...)\<close>: the first element with the greatest key.\<close>

fun max_by :: "('a \<Rightarrow> rat) \<Rightarrow> 'a \<Rightarrow> 'a list \<Rightarrow> 'a" where
  "max_by key best [] = best"
| "max_by key best (x # xs) = max_by key (if key best < key x then x else best) xs"

definition progress_ratio :: "rule_hit \<Rightarrow> rat" where
  "progress_ratio h = ddiv (hit_value h) (hit_threshold h)"

definition nearest_stop_hit ::
    "rat \<Rightarrow> 'r scanned_ad_row_scheme \<Rightarrow> rule_context \<Rightarrow> rule_hit option result" where
  "nearest_stop_hit spend row ctx =
     ebind (funnel_stop_candidates spend row ctx) (\<lambda>funnel.
     ebind (frequency_stop_candidate ctx) (\<lambda>freq.
     case List.map_filter id (funnel @ [freq]) of
       [] \<Rightarrow> Inr None
     | h # hs \<Rightarrow> Inr (Some (max_by progress_ratio h hs))))"

section \<open>The evaluation\<close>

definition evaluate_stop_rules ::
    "'r scanned_ad_row_scheme \<Rightarrow> rule_context \<Rightarrow> rule_evaluation result" where
  "evaluate_stop_rules row ctx =
     ebind (require_exact_currency_amount (AmDecimal (row_spend row)) (Some (rc_currency ctx))
              (ExpInt (rc_currency_exponent ctx)) ''spend'' True) (\<lambda>spend.
     ebind (evaluate_funnel_ladder spend row ctx) (\<lambda>funnel_hit.
     let freq_hit = evaluate_frequency_anomaly ctx in
     ebind (nearest_stop_hit spend row ctx) (\<lambda>nearest_stop.
     case pick_highest_priority_hit [funnel_hit, freq_hit] of
       None \<Rightarrow> Inr \<lparr>ev_stage = None, ev_warning_hits = [], ev_stop_hits = [],
                     ev_nearest_stop = nearest_stop\<rparr>
     | Some final_hit \<Rightarrow>
         if hit_stage final_hit = Some STOP
         then Inr \<lparr>ev_stage = Some STOP, ev_warning_hits = [], ev_stop_hits = [final_hit],
                    ev_nearest_stop = nearest_stop\<rparr>
         else Inr \<lparr>ev_stage = Some WARNING, ev_warning_hits = [final_hit], ev_stop_hits = [],
                    ev_nearest_stop = nearest_stop\<rparr>)))"

end
