(* ===== verification/RuleProps.thy ===== *)
theory RuleProps
  imports Rules
begin

text \<open>
  Correctness of the stop-rule evaluator. Severity is a number (0 nothing, 1 warning, 2 stop);
  each rule's hit is related to the comparison the rule makes, to the progress candidate the
  evaluator computes for the same rule, and to what more spend does to it.
\<close>

section \<open>Severity\<close>

fun stage_level :: "alert_stage option \<Rightarrow> nat" where
  "stage_level None = 0"
| "stage_level (Some WARNING) = 1"
| "stage_level (Some STOP) = 2"

definition hit_level :: "rule_hit option \<Rightarrow> nat" where
  "hit_level h = (case h of None \<Rightarrow> 0 | Some h \<Rightarrow> stage_level (hit_stage h))"

fun max_level :: "rule_hit option list \<Rightarrow> nat" where
  "max_level [] = 0"
| "max_level (h # hs) = max (hit_level h) (max_level hs)"

lemma max_level_append: "max_level (xs @ ys) = max (max_level xs) (max_level ys)"
  by (induction xs) simp_all

text \<open>The comparison behind every rule: at or above the stop, at or above the warning.\<close>

definition threshold_level :: "rat \<Rightarrow> rat \<Rightarrow> rat \<Rightarrow> nat" where
  "threshold_level current stop warning =
     (if stop \<le> current then 2 else if warning \<le> current then 1 else 0)"

lemma hit_level_simps [simp]:
  "hit_level None = 0" "hit_level (Some h) = stage_level (hit_stage h)"
  by (simp_all add: hit_level_def)

lemma stage_level_le [simp]: "stage_level s \<le> 2"
  by (cases s rule: stage_level.cases) simp_all

lemma stage_level_eq:
  "stage_level s = 2 \<longleftrightarrow> s = Some STOP" "stage_level s = Suc 0 \<longleftrightarrow> s = Some WARNING"
  "stage_level s = 0 \<longleftrightarrow> s = None"
  by (cases s rule: stage_level.cases; simp)+

lemma hit_level_le [simp]: "hit_level h \<le> 2"
  by (cases h) simp_all

lemma max_level_le [simp]: "max_level hs \<le> 2"
  by (induction hs) simp_all

lemma threshold_stage_level [simp]: "stage_level (threshold_stage c s w) = threshold_level c s w"
  by (simp add: threshold_stage_def threshold_level_def)

lemma threshold_level_mono: "x \<le> y \<Longrightarrow> threshold_level x s w \<le> threshold_level y s w"
  by (simp add: threshold_level_def)

lemma max_level_2: "max_level hs = 2 \<longleftrightarrow> (\<exists>h. Some h \<in> set hs \<and> hit_stage h = Some STOP)"
proof (induction hs)
  case (Cons x hs)
  have "max (hit_level x) (max_level hs) = 2 \<longleftrightarrow> hit_level x = 2 \<or> max_level hs = 2"
    using hit_level_le [of x] max_level_le [of hs] by linarith
  moreover have "hit_level x = 2 \<longleftrightarrow> (\<exists>h. Some h = x \<and> hit_stage h = Some STOP)"
    by (cases x) (auto simp: stage_level_eq)
  ultimately show ?case using Cons by auto
qed simp

lemma first_with_stage_eq:
  "first_with_stage s hs = Some h \<Longrightarrow> hit_stage h = Some s \<and> h \<in> set hs"
  "first_with_stage s hs = None \<longleftrightarrow> (\<forall>h \<in> set hs. hit_stage h \<noteq> Some s)"
  by (induction hs) (auto split: if_splits)

lemma pick_stage:
  "pick_highest_priority_hit hs = Some f \<Longrightarrow> hit_stage f = Some STOP \<or> hit_stage f = Some WARNING"
  by (auto simp: pick_highest_priority_hit_def Let_def dest: first_with_stage_eq(1)
      split: option.splits)

text \<open>Picking by priority gives a hit of the greatest severity present.\<close>

lemma pick_level: "hit_level (pick_highest_priority_hit hs) = max_level hs"
proof -
  let ?c = "List.map_filter id hs"
  have set_c: "h \<in> set ?c \<longleftrightarrow> Some h \<in> set hs" for h
    by (induction hs) (auto simp: List.map_filter_def)
  have le1: "max_level gs \<le> 1" if "\<forall>h. Some h \<in> set gs \<longrightarrow> hit_stage h \<noteq> Some STOP" for gs
  proof -
    have "max_level gs \<noteq> 2" using that max_level_2 by blast
    with max_level_le [of gs] show ?thesis by linarith
  qed
  have ge1: "1 \<le> max_level gs" if "Some h \<in> set gs" "hit_stage h = Some WARNING" for gs h
    using that by (induction gs) auto
  have zero: "max_level gs = 0" if "\<forall>h. Some h \<in> set gs \<longrightarrow> hit_stage h = None" for gs
    using that
  proof (induction gs)
    case (Cons x gs)
    from Cons.prems have "\<forall>h. Some h \<in> set gs \<longrightarrow> hit_stage h = None"
      "hit_level x = 0" by (auto simp: hit_level_def stage_level_eq split: option.split)
    with Cons.IH show ?case by (metis max_level.simps(2) max_0L)
  qed simp
  show ?thesis
  proof (cases "first_with_stage STOP ?c")
    case (Some h)
    then have "max_level hs = 2"
      using max_level_2 first_with_stage_eq(1) [OF Some] set_c by blast
    with Some show ?thesis
      using first_with_stage_eq(1) [OF Some] by (simp add: pick_highest_priority_hit_def Let_def)
  next
    case None
    then have no_stop: "\<forall>h. Some h \<in> set hs \<longrightarrow> hit_stage h \<noteq> Some STOP"
      unfolding first_with_stage_eq(2) Ball_def set_c by blast
    show ?thesis
    proof (cases "first_with_stage WARNING ?c")
      case (Some h)
      then have "max_level hs = 1"
        using le1 [OF no_stop] ge1 [of h hs] first_with_stage_eq(1) [OF Some] set_c
        by (simp add: le_antisym)
      with Some None show ?thesis
        using first_with_stage_eq(1) [OF Some] by (simp add: pick_highest_priority_hit_def Let_def)
    next
      case wnone: None
      then have "\<forall>h. Some h \<in> set hs \<longrightarrow> hit_stage h = None"
        unfolding first_with_stage_eq(2) Ball_def set_c
        using no_stop by (metis alert_stage.exhaust not_Some_eq)
      with zero None wnone show ?thesis by (simp add: pick_highest_priority_hit_def Let_def)
    qed
  qed
qed

section \<open>What each rule compares\<close>

lemma metric_only_level:
  assumes "evaluate_metric_only v enabled base stop warn code ctx = Inr h"
  shows "hit_level h =
    (if enabled then (case v of Some (Finite x) \<Rightarrow> threshold_level x stop warn | _ \<Rightarrow> 0) else 0)"
  using assms
  by (auto simp: evaluate_metric_only_def exact_derived_money_def err_simps threshold_level_def
      split: bool.splits option.splits decimal.splits if_splits)

lemma guardrail_only_level:
  assumes "evaluate_guardrail_only spend enabled base stop warn code missing ctx = Inr h"
  shows "hit_level h = (if enabled then threshold_level spend stop warn else 0)"
  using assms
  by (auto simp: evaluate_guardrail_only_def err_simps threshold_level_def split: if_splits)

lemma regs_level:
  "hit_level (evaluate_regs_without_deposits row ctx) =
     (if regs_no_dep_enabled ctx \<and> external_deposits ctx = 0
      then threshold_level (of_int (row_registrations row)) (of_int (regs_no_dep_stop_count ctx))
             (coalesce (warning_count (regs_no_dep_stop_count ctx)) (of_int (regs_no_dep_stop_count ctx)))
      else 0)"
  by (auto simp: evaluate_regs_without_deposits_def threshold_level_def Let_def split: option.splits)

text \<open>The spend rules compare the share of the CPA, rounded to hundredths of a percent.\<close>

definition spend_level :: "bool \<Rightarrow> rat \<Rightarrow> rat \<Rightarrow> rat \<Rightarrow> rat \<Rightarrow> nat" where
  "spend_level enabled share from_pct warning_pct stop_pct =
     (if \<not> enabled then 0
      else let stop = apply_downward_stop from_pct stop_pct;
               current = of_int (round_half_up (share * 100)) / 100
           in threshold_level current stop (warning_threshold stop warning_pct))"

lemma round_percent_Inr:
  "round_percent x = Inr y \<Longrightarrow> y = of_int (round_half_up (x * 100)) / 100"
  by (simp add: round_percent_def quantize_eq_Inr PERCENT_STEP_def round_int_def)

lemma spend_range_level:
  assumes "evaluate_spend_range enabled share from_pct warning_pct code suffix ctx = Inr h"
  shows "hit_level h = spend_level enabled share from_pct warning_pct (stop_percent_of_base ctx)"
  using assms
  by (auto simp: evaluate_spend_range_def spend_level_def err_simps threshold_level_def Let_def
      split: if_splits dest!: round_percent_Inr)

lemma frequency_level:
  "hit_level (evaluate_frequency_anomaly ctx) =
     (case confirmed_frequency ctx of
        None \<Rightarrow> 0
      | Some f \<Rightarrow> if frequency_stop_threshold ctx < f then 2
                  else if frequency_warning_threshold ctx < f then 1 else 0)"
  by (simp add: evaluate_frequency_anomaly_def Let_def split: option.splits)

lemmas rule_levels = metric_only_level guardrail_only_level regs_level spend_range_level
  frequency_level pick_level

section \<open>The ladder against its specification\<close>

definition metric_level :: "bool \<Rightarrow> decimal option \<Rightarrow> rat \<Rightarrow> rat \<Rightarrow> nat" where
  "metric_level enabled v stop warn =
     (if enabled then (case v of Some (Finite x) \<Rightarrow> threshold_level x stop warn | _ \<Rightarrow> 0) else 0)"

definition guardrail_level :: "bool \<Rightarrow> rat \<Rightarrow> rat \<Rightarrow> rat \<Rightarrow> nat" where
  "guardrail_level enabled spend stop warn = (if enabled then threshold_level spend stop warn else 0)"

definition price_known_above_stop :: "'r scanned_ad_row_scheme \<Rightarrow> rule_context \<Rightarrow> bool" where
  "price_known_above_stop row ctx \<longleftrightarrow>
     (case row_cost_per_registration row of Some (Finite x) \<Rightarrow> cpr_stop_threshold ctx < x | _ \<Rightarrow> False)"

text \<open>
  The policy in one table: the deepest funnel event reached decides which rules apply; a
  deposit is one the external tracker reported.
\<close>

definition policy_level :: "rat \<Rightarrow> 'r scanned_ad_row_scheme \<Rightarrow> rule_context \<Rightarrow> nat" where
  "policy_level spend row ctx =
     (let share = ratio_percent spend (cpa_amount ctx)
      in if 1 \<le> external_deposits ctx
         then spend_level (spend_with_dep_enabled ctx) share (spend_with_dep_from_percent ctx)
                (effective_spend_with_dep_warning_percent_of_stop ctx) (stop_percent_of_base ctx)
         else if 1 \<le> row_registrations row
         then max (metric_level (cpr_enabled ctx) (row_cost_per_registration row)
                     (cpr_stop_threshold ctx) (cpr_warning_threshold ctx))
             (max (hit_level (evaluate_regs_without_deposits row ctx))
                  (if price_known_above_stop row ctx then 0
                   else spend_level (spend_no_dep_enabled ctx) share (spend_no_dep_from_percent ctx)
                          (effective_spend_no_dep_warning_percent_of_stop ctx)
                          (stop_percent_of_base ctx)))
         else if 1 \<le> row_leads row
         then max (metric_level (cpl_enabled ctx) (row_cost_per_lead row)
                     (cpl_stop_threshold ctx) (cpl_warning_threshold ctx))
                  (guardrail_level (cpr_enabled ctx) spend
                     (cpr_stop_threshold ctx) (cpr_warning_threshold ctx))
         else if row_clicks row \<noteq> 0
         then max (metric_level (cpc_enabled ctx) (row_cpc row)
                     (cpc_stop_threshold ctx) (cpc_warning_threshold ctx))
                  (guardrail_level (cpl_enabled ctx) spend
                     (cpl_stop_threshold ctx) (cpl_warning_threshold ctx))
         else guardrail_level (cpc_enabled ctx) spend
                (cpc_stop_threshold ctx) (cpc_warning_threshold ctx))"

lemma guardrail_applies:
  "should_apply_registration_spend_guardrail row ctx = Inr b \<Longrightarrow> 1 \<le> row_registrations row \<Longrightarrow>
     b = (\<not> price_known_above_stop row ctx)"
  by (auto simp: should_apply_registration_spend_guardrail_def price_known_above_stop_def
      exact_derived_money_def err_simps split: option.splits decimal.splits if_splits)

lemma ladder_level:
  assumes "evaluate_funnel_ladder spend row ctx = Inr h"
  shows "hit_level h = policy_level spend row ctx"
proof -
  have mo: "evaluate_metric_only v en b st w code ctx = Inr h \<Longrightarrow> hit_level h = metric_level en v st w"
    for v en b st w code h
    using metric_only_level by (simp add: metric_level_def)
  have go: "evaluate_guardrail_only s en b st w code m ctx = Inr h \<Longrightarrow> hit_level h = guardrail_level en s st w"
    for s en b st w code m h
    using guardrail_only_level by (simp add: guardrail_level_def)
  consider (dep) "1 \<le> external_deposits ctx"
    | (reg) "\<not> 1 \<le> external_deposits ctx" "1 \<le> row_registrations row"
    | (lead) "\<not> 1 \<le> external_deposits ctx" "\<not> 1 \<le> row_registrations row" "1 \<le> row_leads row"
    | (click) "\<not> 1 \<le> external_deposits ctx" "\<not> 1 \<le> row_registrations row" "\<not> 1 \<le> row_leads row"
    by blast
  then show ?thesis
  proof cases
    case dep
    with assms have "evaluate_deposit_stage spend ctx = Inr h"
      by (simp add: evaluate_funnel_ladder_def has_confirmed_deposit_signal_def)
    then show ?thesis
      using dep by (simp add: evaluate_deposit_stage_def Let_def spend_range_level policy_level_def)
  next
    case reg
    with assms have "evaluate_registration_stage spend row ctx = Inr h"
      by (simp add: evaluate_funnel_ladder_def has_confirmed_deposit_signal_def)
    then obtain m s where parts:
      "evaluate_metric_only (row_cost_per_registration row) (cpr_enabled ctx)
         (cpr_base_stop_threshold ctx) (cpr_stop_threshold ctx) (cpr_warning_threshold ctx)
         ''cpr_stop'' ctx = Inr m"
      "(if \<not> price_known_above_stop row ctx
        then evaluate_spend_range (spend_no_dep_enabled ctx) (ratio_percent spend (cpa_amount ctx))
               (spend_no_dep_from_percent ctx) (effective_spend_no_dep_warning_percent_of_stop ctx)
               ''spend_no_dep_range'' NoDepositsPriceNormal ctx
        else Inr None) = Inr s"
      "h = pick_highest_priority_hit [m, evaluate_regs_without_deposits row ctx, s]"
      unfolding evaluate_registration_stage_def Let_def ebind_eq_Inr
      using guardrail_applies [OF _ reg(2)] by blast
    show ?thesis
    proof (cases "price_known_above_stop row ctx")
      case True
      with parts(2) have "s = None" by simp
      with parts True reg mo [OF parts(1)] show ?thesis by (simp add: policy_level_def Let_def pick_level)
    next
      case False
      with parts(2) have "hit_level s = spend_level (spend_no_dep_enabled ctx)
          (ratio_percent spend (cpa_amount ctx)) (spend_no_dep_from_percent ctx)
          (effective_spend_no_dep_warning_percent_of_stop ctx) (stop_percent_of_base ctx)"
        using spend_range_level by simp
      with parts(3) False reg mo [OF parts(1)] show ?thesis
        by (simp add: policy_level_def Let_def pick_level)
    qed
  next
    case lead
    with assms have "evaluate_lead_stage spend row ctx = Inr h"
      by (simp add: evaluate_funnel_ladder_def has_confirmed_deposit_signal_def)
    then show ?thesis
      using lead by (auto simp: evaluate_lead_stage_def policy_level_def err_simps pick_level mo go)
  next
    case click
    with assms have "evaluate_click_stage spend row ctx = Inr h"
      by (simp add: evaluate_funnel_ladder_def has_confirmed_deposit_signal_def)
    then show ?thesis
      using click
      by (auto simp: evaluate_click_stage_def policy_level_def err_simps pick_level mo go
          split: if_splits)
  qed
qed

text \<open>What a returned evaluation consists of.\<close>

lemma evaluate_stop_rules_Inr:
  assumes "evaluate_stop_rules row ctx = Inr ev"
  obtains spend h n where "row_spend row = Finite spend" "0 \<le> spend"
    "evaluate_funnel_ladder spend row ctx = Inr h" "nearest_stop_hit spend row ctx = Inr n"
    "ev_nearest_stop ev = n"
    "stage_level (ev_stage ev) = max (hit_level h) (hit_level (evaluate_frequency_anomaly ctx))"
    "matched_hits ev = (case pick_highest_priority_hit [h, evaluate_frequency_anomaly ctx] of
                          None \<Rightarrow> [] | Some f \<Rightarrow> [f])"
proof -
  from assms obtain spend h n where parts:
    "require_exact_currency_amount (AmDecimal (row_spend row)) (Some (rc_currency ctx))
       (ExpInt (rc_currency_exponent ctx)) ''spend'' True = Inr spend"
    "evaluate_funnel_ladder spend row ctx = Inr h" "nearest_stop_hit spend row ctx = Inr n"
    and ev: "(case pick_highest_priority_hit [h, evaluate_frequency_anomaly ctx] of
       None \<Rightarrow> Inr \<lparr>ev_stage = None, ev_warning_hits = [], ev_stop_hits = [], ev_nearest_stop = n\<rparr>
     | Some f \<Rightarrow>
         if hit_stage f = Some STOP
         then Inr \<lparr>ev_stage = Some STOP, ev_warning_hits = [], ev_stop_hits = [f], ev_nearest_stop = n\<rparr>
         else Inr \<lparr>ev_stage = Some WARNING, ev_warning_hits = [f], ev_stop_hits = [], ev_nearest_stop = n\<rparr>)
       = (Inr ev :: rule_evaluation result)"
    unfolding evaluate_stop_rules_def ebind_eq_Inr Let_def by blast
  let ?p = "pick_highest_priority_hit [h, evaluate_frequency_anomaly ctx]"
  have lvl: "hit_level ?p = max (hit_level h) (hit_level (evaluate_frequency_anomaly ctx))"
    by (simp add: pick_level)
  note stage = pick_stage [of "[h, evaluate_frequency_anomaly ctx]"]
  show thesis
  proof (rule that)
    show "row_spend row = Finite spend" "0 \<le> spend"
      using parts(1) by (auto simp: require_exact_Inr decimal_of_arg_def)
    show "stage_level (ev_stage ev) = max (hit_level h) (hit_level (evaluate_frequency_anomaly ctx))"
      using ev lvl stage by (auto split: option.splits if_splits)
    show "matched_hits ev = (case ?p of None \<Rightarrow> [] | Some f \<Rightarrow> [f])"
      using ev by (auto simp: matched_hits_def split: option.splits if_splits)
    show "ev_nearest_stop ev = n"
      using ev by (auto split: option.splits if_splits)
  qed (use parts in auto)
qed

text \<open>The progress candidate of a rule carries the severity the rule itself reports.\<close>

lemma stop_progress_hit_Inr:
  "stop_progress_hit code v stop stage = Inr h \<Longrightarrow>
     hit_stage h = stage \<and> hit_value h = v \<and> hit_threshold h = stop \<and> 0 \<le> v \<and> 0 < stop"
  by (auto simp: stop_progress_hit_def split: if_splits)

text \<open>A candidate is sound: its severity is a stop only at full progress.\<close>

definition sound_candidate :: "rule_hit option \<Rightarrow> bool" where
  "sound_candidate c \<longleftrightarrow>
     (case c of None \<Rightarrow> True
      | Some h \<Rightarrow> 0 \<le> hit_value h \<and> 0 < hit_threshold h \<and>
          (hit_stage h = Some STOP \<longrightarrow> hit_threshold h \<le> hit_value h))"

lemma sound_None [simp]: "sound_candidate None"
  by (simp add: sound_candidate_def)

lemma decimal_candidate:
  assumes "decimal_stop_candidate v enabled stop warn code = Inr c"
  shows "hit_level c = guardrail_level enabled v stop warn" "sound_candidate c"
  using assms
  by (auto simp: decimal_stop_candidate_def guardrail_level_def err_simps sound_candidate_def
      threshold_stage_def dest!: stop_progress_hit_Inr split: if_splits simp del: hit_level_simps)
    (auto simp: threshold_level_def)

lemma money_candidate:
  assumes "money_stop_candidate v enabled stop warn code = Inr c"
  shows "hit_level c = metric_level enabled v stop warn" "sound_candidate c"
  using assms
  by (auto simp: money_stop_candidate_def metric_level_def guardrail_level_def err_simps
      exact_derived_money_def decimal_candidate split: option.splits decimal.splits if_splits)

lemma regs_candidate:
  assumes "registrations_without_deposit_stop_candidate row ctx = Inr c"
  shows "hit_level c = hit_level (evaluate_regs_without_deposits row ctx)" "sound_candidate c"
  using assms
  by (auto simp: registrations_without_deposit_stop_candidate_def regs_level Let_def
      guardrail_level_def decimal_candidate split: if_splits)

lemma round_percent_le:
  assumes "round_percent x = Inr c" "round_percent s = Inr r" "s \<le> c"
  shows "r \<le> c"
proof -
  have c: "c = of_int (round_half_up (x * 100)) / 100" using round_percent_Inr [OF assms(1)] .
  then have "round_half_up (c * 100) = round_half_up (x * 100)" by simp
  moreover have "round_half_up (s * 100) \<le> round_half_up (c * 100)"
    using assms(3) by (intro round_half_up_mono) simp
  ultimately show ?thesis using c round_percent_Inr [OF assms(2)] by simp
qed

lemma spend_candidate:
  assumes "spend_range_stop_candidate enabled share from_pct warning_pct stop_pct code = Inr c"
  shows "hit_level c = spend_level enabled share from_pct warning_pct stop_pct" "sound_candidate c"
proof -
  consider "\<not> enabled" "c = None"
    | cur r h where "enabled" "round_percent share = Inr cur"
        "round_percent (apply_downward_stop from_pct stop_pct) = Inr r" "c = Some h"
        "stop_progress_hit code cur r (threshold_stage cur (apply_downward_stop from_pct stop_pct)
           (warning_threshold (apply_downward_stop from_pct stop_pct) warning_pct)) = Inr h"
    using assms by (auto simp: spend_range_stop_candidate_def err_simps Let_def split: if_splits)
  then have "hit_level c = spend_level enabled share from_pct warning_pct stop_pct \<and> sound_candidate c"
  proof cases
    case 1
    then show ?thesis by (simp add: spend_level_def)
  next
    case 2
    from 2(5) have h: "hit_stage h = threshold_stage cur (apply_downward_stop from_pct stop_pct)
           (warning_threshold (apply_downward_stop from_pct stop_pct) warning_pct)"
      "hit_value h = cur" "hit_threshold h = r" "0 \<le> cur" "0 < r"
      by (auto dest: stop_progress_hit_Inr)
    have "apply_downward_stop from_pct stop_pct \<le> cur \<Longrightarrow> r \<le> cur"
      using round_percent_le 2 by blast
    with h 2 show ?thesis
      using round_percent_Inr [OF 2(2)]
      by (auto simp: sound_candidate_def spend_level_def Let_def threshold_stage_def
          threshold_level_def)
  qed
  then show "hit_level c = spend_level enabled share from_pct warning_pct stop_pct"
    "sound_candidate c" by blast+
qed

lemma frequency_candidate:
  assumes "frequency_stop_candidate ctx = Inr c"
  shows "hit_level c = hit_level (evaluate_frequency_anomaly ctx)" "sound_candidate c"
  using assms
  by (auto simp: frequency_stop_candidate_def frequency_level err_simps sound_candidate_def
      dest!: stop_progress_hit_Inr split: option.splits if_splits)

lemmas candidate_facts = decimal_candidate money_candidate regs_candidate spend_candidate

text \<open>The candidates of the current funnel step report together what the ladder reports.\<close>

lemma funnel_candidates:
  assumes "funnel_stop_candidates spend row ctx = Inr cs" "0 \<le> row_clicks row"
  shows "max_level cs = policy_level spend row ctx" "list_all sound_candidate cs"
proof -
  consider (dep) "1 \<le> external_deposits ctx"
    | (reg) "\<not> 1 \<le> external_deposits ctx" "1 \<le> row_registrations row"
    | (lead) "\<not> 1 \<le> external_deposits ctx" "\<not> 1 \<le> row_registrations row" "1 \<le> row_leads row"
    | (click) "\<not> 1 \<le> external_deposits ctx" "\<not> 1 \<le> row_registrations row" "\<not> 1 \<le> row_leads row"
    by blast
  then have "max_level cs = policy_level spend row ctx \<and> list_all sound_candidate cs"
  proof cases
    case dep
    with assms show ?thesis
      by (auto simp: funnel_stop_candidates_def has_confirmed_deposit_signal_def err_simps
          policy_level_def Let_def spend_with_deposit_stop_candidate_def candidate_facts)
  next
    case reg
    then obtain m r s where parts: "cs = [m, r, s]"
      "(if \<not> price_known_above_stop row ctx then spend_without_deposit_stop_candidate spend ctx
        else Inr None) = Inr s"
      "money_stop_candidate (row_cost_per_registration row) (cpr_enabled ctx)
         (cpr_stop_threshold ctx) (cpr_warning_threshold ctx) ''cpr_stop'' = Inr m"
      "registrations_without_deposit_stop_candidate row ctx = Inr r"
      using assms guardrail_applies [OF _ reg(2)]
      by (simp add: funnel_stop_candidates_def has_confirmed_deposit_signal_def ebind_eq_Inr) blast
    have "hit_level s = (if price_known_above_stop row ctx then 0 else
        spend_level (spend_no_dep_enabled ctx) (ratio_percent spend (cpa_amount ctx))
          (spend_no_dep_from_percent ctx) (effective_spend_no_dep_warning_percent_of_stop ctx)
          (stop_percent_of_base ctx)) \<and> sound_candidate s"
      using parts(2)
      by (auto simp: spend_without_deposit_stop_candidate_def candidate_facts split: if_splits)
    with parts reg show ?thesis
      by (simp add: policy_level_def Let_def candidate_facts)
  next
    case lead
    with assms show ?thesis
      by (auto simp: funnel_stop_candidates_def has_confirmed_deposit_signal_def err_simps
          policy_level_def Let_def candidate_facts)
  next
    case click
    with assms show ?thesis
      by (auto simp: funnel_stop_candidates_def has_confirmed_deposit_signal_def err_simps
          policy_level_def Let_def candidate_facts split: if_splits)
  qed
  then show "max_level cs = policy_level spend row ctx" "list_all sound_candidate cs" by blast+
qed

section \<open>Properties of the evaluation\<close>

definition frequency_policy :: "rule_context \<Rightarrow> nat" where
  "frequency_policy ctx =
     (case (frequency_current ctx, reach ctx) of
        (Some f, Some r) \<Rightarrow>
          if frequency_anomaly_enabled ctx \<and> min_ratio_denominator ctx \<le> r \<and>
             f \<le> max (frequency_outlier_cap ctx) (dmul (frequency_stop_threshold ctx) 3)
          then if frequency_stop_threshold ctx < f then 2
               else if frequency_warning_threshold ctx < f then 1 else 0
          else 0
      | _ \<Rightarrow> 0)"

lemma frequency_policy_level: "hit_level (evaluate_frequency_anomaly ctx) = frequency_policy ctx"
  by (auto simp: frequency_level frequency_policy_def confirmed_frequency_def Let_def
      significant_ratio_denominator_def FREQUENCY_CAP_MULTIPLIER_def split: option.splits)

text \<open>
  C28. The evaluator implements the policy table: when it returns, the stage of the evaluation
  is the greater of the severity the funnel policy gives for the deepest event reached and of
  the severity of the frequency rule, and the matched hits are one hit of that stage (none
  when nothing fired).
\<close>

theorem evaluation_refines_policy:
  assumes "evaluate_stop_rules row ctx = Inr ev" "row_spend row = Finite spend"
  shows "stage_level (ev_stage ev) = max (policy_level spend row ctx) (frequency_policy ctx) \<and>
    map hit_stage (matched_hits ev) = (if ev_stage ev = None then [] else [ev_stage ev])"
proof -
  obtain h n where ev: "evaluate_funnel_ladder spend row ctx = Inr h"
    "stage_level (ev_stage ev) = max (hit_level h) (hit_level (evaluate_frequency_anomaly ctx))"
    "matched_hits ev = (case pick_highest_priority_hit [h, evaluate_frequency_anomaly ctx] of
                          None \<Rightarrow> [] | Some f \<Rightarrow> [f])"
    using assms evaluate_stop_rules_Inr [OF assms(1)] by (metis decimal.inject(1))
  then have "stage_level (ev_stage ev) = max (policy_level spend row ctx) (frequency_policy ctx)"
    by (simp add: ladder_level frequency_policy_level)
  moreover have "hit_level (pick_highest_priority_hit [h, evaluate_frequency_anomaly ctx])
      = stage_level (ev_stage ev)"
    using ev(2) by (simp add: pick_level)
  with ev(3) have "map hit_stage (matched_hits ev) = (if ev_stage ev = None then [] else [ev_stage ev])"
    using pick_stage [of "[h, evaluate_frequency_anomaly ctx]"]
    by (cases "ev_stage ev" rule: stage_level.cases)
      (auto simp: stage_level_eq split: option.splits)
  ultimately show ?thesis by blast
qed

lemma ratio_percent_mono: "x \<le> y \<Longrightarrow> ratio_percent x t \<le> ratio_percent y t"
  by (simp add: ratio_percent_def HUNDRED_def dmul_mono ddiv_mono)

lemma spend_level_mono: "x \<le> y \<Longrightarrow> spend_level e x f w p \<le> spend_level e y f w p"
  by (simp add: spend_level_def Let_def threshold_level_mono divide_right_mono round_half_up_mono)

lemma guardrail_level_mono: "x \<le> y \<Longrightarrow> guardrail_level e x s w \<le> guardrail_level e y s w"
  by (simp add: guardrail_level_def threshold_level_mono)

lemma if_mono: "a \<le> a' \<Longrightarrow> b \<le> b' \<Longrightarrow> (if c then a else b) \<le> (if c then a' else b' :: nat)"
  by simp

lemma policy_level_mono:
  assumes "x \<le> y" shows "policy_level x row ctx \<le> policy_level y row ctx"
  unfolding policy_level_def Let_def
  by (intro if_mono max.mono order_refl spend_level_mono guardrail_level_mono ratio_percent_mono assms)

lemma policy_level_spend_field [simp]:
  "policy_level s (row_spend_update f row) ctx = policy_level s row ctx"
  by (simp add: policy_level_def price_known_above_stop_def evaluate_regs_without_deposits_def
      Let_def)

lemma policy_level_deposits_field [simp]:
  "policy_level s (row_deposits_update f row) ctx = policy_level s row ctx"
  by (simp add: policy_level_def price_known_above_stop_def evaluate_regs_without_deposits_def
      Let_def)

text \<open>
  C29. More spend is never judged more mildly: with everything else equal, raising the spend of
  a row cannot lower the stage (nothing, warning, stop) of its evaluation.
\<close>

theorem severity_monotone_in_spend:
  assumes "evaluate_stop_rules (row\<lparr>row_spend := Finite x\<rparr>) ctx = Inr ev"
    "evaluate_stop_rules (row\<lparr>row_spend := Finite y\<rparr>) ctx = Inr ev'" "x \<le> y"
  shows "stage_level (ev_stage ev) \<le> stage_level (ev_stage ev')"
proof -
  have "stage_level (ev_stage e) = max (policy_level z row ctx) (frequency_policy ctx)"
    if "evaluate_stop_rules (row\<lparr>row_spend := Finite z\<rparr>) ctx = Inr e" for z e
  proof -
    from evaluate_stop_rules_Inr [OF that] obtain h where
      "evaluate_funnel_ladder z (row\<lparr>row_spend := Finite z\<rparr>) ctx = Inr h"
      "stage_level (ev_stage e) = max (hit_level h) (hit_level (evaluate_frequency_anomaly ctx))"
      by auto
    then show ?thesis by (simp add: ladder_level frequency_policy_level)
  qed
  with assms policy_level_mono [OF assms(3), of row ctx] show ?thesis
    by (metis max.mono order_refl)
qed

lemma max_by_mem: "max_by key b xs \<in> insert b (set xs)"
  by (induction xs arbitrary: b) auto

lemma max_by_ge: "key b \<le> key (max_by key b xs) \<and> (\<forall>x \<in> set xs. key x \<le> key (max_by key b xs))"
proof (induction xs arbitrary: b)
  case (Cons y ys)
  from Cons.IH [of "if key b < key y then y else b"] show ?case by auto
qed simp

lemma map_filter_id [simp]: "h \<in> set (List.map_filter id hs) \<longleftrightarrow> Some h \<in> set hs"
  by (induction hs) (auto simp: List.map_filter_def)

text \<open>
  The progress the operator sees is consistent with the decision: the nearest stop is one
  of the applicable candidates with the greatest value/threshold ratio, its threshold is
  positive, and whenever the evaluation says stop a nearest stop exists and is at full
  progress (ratio at least one).
\<close>

theorem nearest_stop_is_maximal:
  assumes "evaluate_stop_rules row ctx = Inr ev" "row_spend row = Finite spend" "0 \<le> row_clicks row"
    "funnel_stop_candidates spend row ctx = Inr funnel" "frequency_stop_candidate ctx = Inr freq"
  shows "(\<forall>h. ev_nearest_stop ev = Some h \<longrightarrow> Some h \<in> set (funnel @ [freq]) \<and> 0 < hit_threshold h \<and>
           (\<forall>g. Some g \<in> set (funnel @ [freq]) \<longrightarrow> progress_ratio g \<le> progress_ratio h)) \<and>
    (ev_stage ev = Some STOP \<longrightarrow> (\<exists>h. ev_nearest_stop ev = Some h \<and> 1 \<le> progress_ratio h))"
proof -
  obtain h0 n where ev: "evaluate_funnel_ladder spend row ctx = Inr h0"
    "nearest_stop_hit spend row ctx = Inr n" "ev_nearest_stop ev = n"
    "stage_level (ev_stage ev) = max (hit_level h0) (hit_level (evaluate_frequency_anomaly ctx))"
    using assms(2) evaluate_stop_rules_Inr [OF assms(1)] by (metis decimal.inject(1))
  let ?cs = "funnel @ [freq]"
  have n: "n = (case List.map_filter id ?cs of [] \<Rightarrow> None | h # hs \<Rightarrow> Some (max_by progress_ratio h hs))"
    using ev(2) assms(4,5) by (auto simp: nearest_stop_hit_def split: list.splits)
  have sound: "list_all sound_candidate ?cs"
    using funnel_candidates(2) [OF assms(4,3)] frequency_candidate(2) [OF assms(5)] by simp
  have maximal: "Some h \<in> set ?cs \<and> (\<forall>g. Some g \<in> set ?cs \<longrightarrow> progress_ratio g \<le> progress_ratio h)"
    if nh: "n = Some h" for h
  proof -
    obtain b xs where bx: "List.map_filter id ?cs = b # xs" "h = max_by progress_ratio b xs"
      using nh unfolding n by (cases "List.map_filter id ?cs") simp_all
    have "Some g \<in> set ?cs \<longleftrightarrow> g \<in> insert b (set xs)" for g
      using map_filter_id [of g ?cs] unfolding bx(1) by simp
    with bx(2) max_by_mem [of progress_ratio b xs] max_by_ge [of progress_ratio b xs] show ?thesis by auto
  qed
  with sound ev(3) have "\<forall>h. ev_nearest_stop ev = Some h \<longrightarrow> Some h \<in> set ?cs \<and> 0 < hit_threshold h \<and>
           (\<forall>g. Some g \<in> set ?cs \<longrightarrow> progress_ratio g \<le> progress_ratio h)"
    by (fastforce simp: list_all_iff sound_candidate_def)
  moreover have "\<exists>h. ev_nearest_stop ev = Some h \<and> 1 \<le> progress_ratio h"
    if stop: "ev_stage ev = Some STOP"
  proof -
    have "max_level ?cs = 2"
      using stop ev(1,4) funnel_candidates(1) [OF assms(4,3)] frequency_candidate(1) [OF assms(5)]
      ladder_level [OF ev(1)] by (simp add: max_level_append)
  then obtain g where g: "Some g \<in> set ?cs" "hit_stage g = Some STOP" unfolding max_level_2 by blast
  with sound have "1 \<le> progress_ratio g"
    unfolding progress_ratio_def
    by (intro ddiv_ge_one) (force simp: list_all_iff sound_candidate_def)+
  moreover obtain h where "n = Some h"
    using g(1) n map_filter_id [of g ?cs] by (cases "List.map_filter id ?cs") auto
  ultimately show ?thesis
    using maximal g(1) ev(3) order_trans by blast
  qed
  ultimately show ?thesis by blast
qed

text \<open>
  Deposits count only when the external tracker reports them, and only as present or
  absent: the deposits Meta shows on the row never change the evaluation, and with at least
  one tracked deposit the whole evaluation (stage, hits, texts, progress) is the same for
  every number of them.
\<close>

theorem deposits_only_from_tracker:
  "evaluate_stop_rules (row\<lparr>row_deposits := d\<rparr>) ctx = evaluate_stop_rules row ctx \<and>
   (1 \<le> n \<longrightarrow> evaluate_stop_rules row (ctx\<lparr>external_deposits := n\<rparr>)
              = evaluate_stop_rules row (ctx\<lparr>external_deposits := 1\<rparr>))"
proof
  show "evaluate_stop_rules (row\<lparr>row_deposits := d\<rparr>) ctx = evaluate_stop_rules row ctx"
    by (simp add: evaluate_stop_rules_def evaluate_funnel_ladder_def evaluate_registration_stage_def
        evaluate_lead_stage_def evaluate_click_stage_def evaluate_regs_without_deposits_def
        should_apply_registration_spend_guardrail_def nearest_stop_hit_def funnel_stop_candidates_def
        registrations_without_deposit_stop_candidate_def cong: if_cong option.case_cong)
  have "confirmed_frequency (ctx\<lparr>external_deposits := n\<rparr>) = confirmed_frequency ctx" for n
    by (simp add: confirmed_frequency_def Let_def split: option.split)
  then have "evaluate_frequency_anomaly (ctx\<lparr>external_deposits := n\<rparr>) = evaluate_frequency_anomaly ctx"
    "frequency_stop_candidate (ctx\<lparr>external_deposits := n\<rparr>) = frequency_stop_candidate ctx" for n
    by (simp_all add: evaluate_frequency_anomaly_def frequency_stop_candidate_def Let_def split: option.split)
  moreover have "evaluate_spend_range e v f w c s (ctx\<lparr>external_deposits := n\<rparr>)
      = evaluate_spend_range e v f w c s ctx" for e v f w c s n
    by (simp add: evaluate_spend_range_def)
  ultimately show "1 \<le> n \<longrightarrow> evaluate_stop_rules row (ctx\<lparr>external_deposits := n\<rparr>)
              = evaluate_stop_rules row (ctx\<lparr>external_deposits := 1\<rparr>)"
    by (simp add: evaluate_stop_rules_def evaluate_funnel_ladder_def has_confirmed_deposit_signal_def
        evaluate_deposit_stage_def nearest_stop_hit_def
        funnel_stop_candidates_def spend_with_deposit_stop_candidate_def
        effective_spend_with_dep_warning_percent_of_stop_def)
qed

text \<open>A share of at least a whole number of basis points survives the rounding.\<close>

lemma share_reaches:
  assumes "0 < cpa" "of_int k / 10000 * cpa \<le> spend" "\<bar>k\<bar> < 10 ^ 28"
  shows "of_int k / 100 \<le> of_int (round_half_up (ratio_percent spend cpa * 100)) / (100 :: rat)"
proof -
  have scaled: "(of_int k :: rat) / 10000 = of_int k * 10 powi - 4"
    "(of_int k :: rat) / 100 = of_int k * 10 powi - 2"
    by (simp_all add: power_int_def field_simps)
  have "ctx_round (of_int k / 10000) = of_int k / 10000"
    by (rule ctx_round_exact [OF scaled(1) assms(3)])
  moreover have "of_int k / 10000 \<le> spend / cpa"
    using assms by (simp add: pos_le_divide_eq)
  ultimately have "of_int k / 10000 \<le> ddiv spend cpa"
    unfolding ddiv_def by (metis ctx_round_mono)
  then have "dmul (of_int k / 10000) 100 \<le> dmul (ddiv spend cpa) 100"
    by (rule dmul_mono [rotated]) simp
  moreover have "dmul (of_int k / 10000) 100 = of_int k / 100"
    unfolding dmul_def using ctx_round_exact [OF scaled(2) assms(3)] by simp
  ultimately have "of_int k / 100 \<le> ratio_percent spend cpa"
    using assms by (simp add: ratio_percent_def HUNDRED_def)
  then have "round_half_up (of_int k) \<le> round_half_up (ratio_percent spend cpa * 100)"
    by (intro round_half_up_mono) simp
  then show ?thesis by (simp add: divide_right_mono)
qed

text \<open>
  The spend backstop without a known registration price: an advertisement with
  registrations, no tracked deposit and no cost per registration yet is stopped as soon as its
  spend reaches the configured share of the CPA (a whole number \<open>k\<close> of basis points after the
  downward correction).
\<close>

theorem spend_backstop_when_price_unknown:
  assumes "evaluate_stop_rules row ctx = Inr ev" "row_spend row = Finite spend"
    and "1 \<le> row_registrations row" "external_deposits ctx = 0" "row_cost_per_registration row = None"
    and "spend_no_dep_enabled ctx" "0 < cpa_amount ctx" "\<bar>k\<bar> < 10 ^ 28"
    and "apply_downward_stop (spend_no_dep_from_percent ctx) (stop_percent_of_base ctx) = of_int k / 100"
    and "of_int k / 10000 * cpa_amount ctx \<le> spend"
  shows "ev_stage ev = Some STOP"
proof -
  have "spend_level (spend_no_dep_enabled ctx) (ratio_percent spend (cpa_amount ctx))
      (spend_no_dep_from_percent ctx) (effective_spend_no_dep_warning_percent_of_stop ctx)
      (stop_percent_of_base ctx) = 2"
    using share_reaches [OF assms(7,10,8)] assms(6,9)
    by (simp add: spend_level_def threshold_level_def)
  with assms(3-5) have "2 \<le> policy_level spend row ctx"
    by (simp add: policy_level_def price_known_above_stop_def)
  moreover obtain h where "evaluate_funnel_ladder spend row ctx = Inr h"
    "stage_level (ev_stage ev) = max (hit_level h) (hit_level (evaluate_frequency_anomaly ctx))"
    using assms(2) evaluate_stop_rules_Inr [OF assms(1)] by (metis decimal.inject(1))
  ultimately have "2 \<le> stage_level (ev_stage ev)" by (simp add: ladder_level)
  with stage_level_le [of "ev_stage ev"] have "stage_level (ev_stage ev) = 2" by linarith
  then show ?thesis by (simp only: stage_level_eq)
qed

section \<open>Thresholds\<close>

lemma percent_threshold_Inr:
  assumes "percent_threshold step x pct = Inr y" "0 < step" "0 \<le> x" "0 \<le> pct"
  shows "0 \<le> y" "\<exists>c. y = of_int c * step \<and> \<bar>c\<bar> < 10 ^ 28"
proof -
  have "0 \<le> ddiv (dmul x pct) 100" using assms by (simp add: ddiv_nonneg dmul_nonneg)
  with assms show "0 \<le> y" unfolding percent_threshold_def by (meson quantize_nonneg)
  from assms(1) show "\<exists>c. y = of_int c * step \<and> \<bar>c\<bar> < 10 ^ 28"
    unfolding percent_threshold_def quantize_eq_Inr by blast
qed

text \<open>A share of at most the whole of an amount in the currency's step does not exceed it.\<close>

lemma percent_threshold_le:
  assumes "percent_threshold step x pct = Inr y" "step = 10 powi (- e)"
    "x = of_int c * step" "\<bar>c\<bar> < 10 ^ 28" "0 \<le> x" "0 \<le> pct" "pct \<le> 100"
  shows "y \<le> x"
proof -
  have x: "ctx_round x = x" "ctx_round (x * 100) = x * 100"
  proof -
    show "ctx_round x = x"
      using ctx_round_exact [of x c "- e"] assms(2-4) by blast
    have "(10 :: rat) powi (2 - e) = 10 powi (- e) * 100"
      using power_int_add [of "10 :: rat" "- e" 2] by simp
    then have "x * 100 = of_int c * 10 powi (2 - e)" by (simp add: assms(2,3))
    then show "ctx_round (x * 100) = x * 100" by (rule ctx_round_exact) (rule assms(4))
  qed
  have "x * pct \<le> x * 100" using assms by (intro mult_left_mono)
  then have "dmul x pct \<le> x * 100" unfolding dmul_def by (metis ctx_round_mono x(2))
  then have "ddiv (dmul x pct) 100 \<le> ctx_round (x * 100 / 100)"
    unfolding ddiv_def by (intro ctx_round_mono divide_right_mono) simp_all
  then have le: "ddiv (dmul x pct) 100 \<le> x" using x(1) by simp
  have step: "0 < step" by (simp add: assms(2))
  then have "quantize ROUND_HALF_UP x step = Inr x"
    using assms(3,4) quantize_id_iff [of step] by auto
  then show ?thesis
    using quantize_mono [OF step le] assms(1) unfolding percent_threshold_def by blast
qed

definition whole_units :: "rat \<Rightarrow> rat \<Rightarrow> bool" where
  "whole_units step x \<longleftrightarrow> (\<exists>c. x = of_int c * step \<and> \<bar>c\<bar> < 10 ^ 28)"

definition ordered_thresholds :: "rat \<Rightarrow> rat \<times> rat \<times> rat \<Rightarrow> bool" where
  "ordered_thresholds step t \<longleftrightarrow>
     (case t of (base, stop, warn) \<Rightarrow> 0 \<le> warn \<and> warn \<le> stop \<and> stop \<le> base \<and>
        whole_units step base \<and> whole_units step stop \<and> whole_units step warn)"

lemma threshold_triple_ordered:
  assumes "threshold_triple step cpa pct sp wp = Inr t" "step = 10 powi (- e)"
    "0 \<le> cpa" "0 \<le> pct" "0 \<le> sp" "sp \<le> 100" "0 \<le> wp" "wp \<le> 100"
  shows "ordered_thresholds step t"
proof -
  obtain base stop warn where t: "t = (base, stop, warn)" by (cases t)
  have q: "percent_threshold step cpa pct = Inr base" "percent_threshold step base sp = Inr stop"
    "percent_threshold step stop wp = Inr warn"
    using assms(1) by (auto simp: t threshold_triple_def err_simps)
  have "0 < step" using assms(2) by simp
  note b = percent_threshold_Inr [OF q(1) this assms(3,4)]
  note s = percent_threshold_Inr [OF q(2) \<open>0 < step\<close> b(1) assms(5)]
  note w = percent_threshold_Inr [OF q(3) \<open>0 < step\<close> s(1) assms(7)]
  from b s have "stop \<le> base" "warn \<le> stop"
    using percent_threshold_le [OF q(2) assms(2)] percent_threshold_le [OF q(3) assms(2)] assms
    by metis+
  with b s w show ?thesis by (simp add: t ordered_thresholds_def whole_units_def)
qed

definition percents_valid :: "'a rule_settings_scheme \<Rightarrow> bool" where
  "percents_valid s \<longleftrightarrow>
     list_all (\<lambda>p. 0 \<le> p \<and> p \<le> 100)
       [effective_cpc_stop_percent_of_base s, effective_cpc_warning_percent_of_stop s,
        effective_cpl_stop_percent_of_base s, effective_cpl_warning_percent_of_stop s,
        effective_cpr_stop_percent_of_base s, effective_cpr_warning_percent_of_stop s] \<and>
     list_all (\<lambda>p. 0 \<le> p) [cpc_percent_of_cpa s, cpl_percent_of_cpa s, cpr_percent_of_cpa s]"

lemma post_init_Inr:
  assumes "post_init p = Inr ctx"
  obtains cur e where "require_currency_exponent (Some (rc_currency ctx)) (ExpInt e) = Inr (rc_currency ctx, e)"
    "rc_currency_exponent ctx = e" "money_quantum ctx = 10 powi (- e)" "0 < cpa_amount ctx"
    "\<exists>c. cpa_amount ctx = of_int c * 10 powi (- e) \<and> \<bar>c\<bar> < 10 ^ 28"
    "rule_settings.truncate ctx = rule_settings.truncate p"
    "threshold_triple (10 powi (- e)) (cpa_amount ctx) (cpc_percent_of_cpa p)
       (effective_cpc_stop_percent_of_base p) (effective_cpc_warning_percent_of_stop p)
       = Inr (cpc_base_stop_threshold ctx, cpc_stop_threshold ctx, cpc_warning_threshold ctx)"
    "threshold_triple (10 powi (- e)) (cpa_amount ctx) (cpl_percent_of_cpa p)
       (effective_cpl_stop_percent_of_base p) (effective_cpl_warning_percent_of_stop p)
       = Inr (cpl_base_stop_threshold ctx, cpl_stop_threshold ctx, cpl_warning_threshold ctx)"
    "threshold_triple (10 powi (- e)) (cpa_amount ctx) (cpr_percent_of_cpa p)
       (effective_cpr_stop_percent_of_base p) (effective_cpr_warning_percent_of_stop p)
       = Inr (cpr_base_stop_threshold ctx, cpr_stop_threshold ctx, cpr_warning_threshold ctx)"
proof -
  obtain cur e cpa a b c where
    r: "require_currency_exponent (Some (rp_currency p)) (ExpInt (rp_currency_exponent p)) = Inr (cur, e)"
    "require_exact_currency_amount (AmDecimal (rp_cpa_amount p)) (Some cur) (ExpInt e) ''cpa_amount'' False = Inr cpa"
    and ctx: "threshold_triple (10 powi (- e)) cpa (cpc_percent_of_cpa p)
       (effective_cpc_stop_percent_of_base p) (effective_cpc_warning_percent_of_stop p) = Inr a"
    "threshold_triple (10 powi (- e)) cpa (cpl_percent_of_cpa p)
       (effective_cpl_stop_percent_of_base p) (effective_cpl_warning_percent_of_stop p) = Inr b"
    "threshold_triple (10 powi (- e)) cpa (cpr_percent_of_cpa p)
       (effective_cpr_stop_percent_of_base p) (effective_cpr_warning_percent_of_stop p) = Inr c"
    "rc_currency ctx = cur" "rc_currency_exponent ctx = e" "cpa_amount ctx = cpa"
    "money_quantum ctx = 10 powi (- e)"
    "rule_settings.truncate ctx = rule_settings.truncate p"
    "(cpc_base_stop_threshold ctx, cpc_stop_threshold ctx, cpc_warning_threshold ctx) = a"
    "(cpl_base_stop_threshold ctx, cpl_stop_threshold ctx, cpl_warning_threshold ctx) = b"
    "(cpr_base_stop_threshold ctx, cpr_stop_threshold ctx, cpr_warning_threshold ctx) = c"
    using assms
    by (auto simp: post_init_def ebind_eq_Inr currency_quantum_Inr require_currency_exponent_Inr
        rule_settings.defs rule_context.defs split: prod.splits)
  note canon = require_currency_exponent_canonical [OF r(1)]
  have "0 < cpa" using r(2) by (rule require_exact_pos)
  moreover have "\<exists>c. cpa = of_int c * 10 powi (- e) \<and> \<bar>c\<bar> < 10 ^ 28"
    using r(2) canon by (auto simp: require_exact_Inr)
  ultimately show thesis
    using that canon ctx by simp
qed

text \<open>
  A rule context that \<open>__post_init__\<close> accepts has usable thresholds: for percentages
  within 0..100 every rule's thresholds are whole multiples of the currency's smallest unit
  and satisfy 0 <= warning <= stop <= base, so a warning never needs more money than the stop
  and the stop never more than the base price.
\<close>

theorem thresholds_ordered:
  assumes "post_init p = Inr ctx" "percents_valid p"
  shows "list_all (ordered_thresholds (money_quantum ctx))
     [(cpc_base_stop_threshold ctx, cpc_stop_threshold ctx, cpc_warning_threshold ctx),
      (cpl_base_stop_threshold ctx, cpl_stop_threshold ctx, cpl_warning_threshold ctx),
      (cpr_base_stop_threshold ctx, cpr_stop_threshold ctx, cpr_warning_threshold ctx)]"
proof -
  obtain e where e: "money_quantum ctx = 10 powi (- e)" "0 < cpa_amount ctx"
    and t: "threshold_triple (10 powi (- e)) (cpa_amount ctx) (cpc_percent_of_cpa p)
       (effective_cpc_stop_percent_of_base p) (effective_cpc_warning_percent_of_stop p)
       = Inr (cpc_base_stop_threshold ctx, cpc_stop_threshold ctx, cpc_warning_threshold ctx)"
    "threshold_triple (10 powi (- e)) (cpa_amount ctx) (cpl_percent_of_cpa p)
       (effective_cpl_stop_percent_of_base p) (effective_cpl_warning_percent_of_stop p)
       = Inr (cpl_base_stop_threshold ctx, cpl_stop_threshold ctx, cpl_warning_threshold ctx)"
    "threshold_triple (10 powi (- e)) (cpa_amount ctx) (cpr_percent_of_cpa p)
       (effective_cpr_stop_percent_of_base p) (effective_cpr_warning_percent_of_stop p)
       = Inr (cpr_base_stop_threshold ctx, cpr_stop_threshold ctx, cpr_warning_threshold ctx)"
    by (rule post_init_Inr [OF assms(1)])
  have cpa: "0 \<le> cpa_amount ctx" using e(2) by simp
  show ?thesis
    using threshold_triple_ordered [OF t(1) refl cpa] threshold_triple_ordered [OF t(2) refl cpa]
      threshold_triple_ordered [OF t(3) refl cpa] assms(2)
    by (simp add: percents_valid_def e(1))
qed

section \<open>No spurious errors\<close>

text \<open>
  Conditions on the inputs under which nothing raises: amounts below \<open>10\<^sup>1\<^sup>5\<close>, metrics finite and
  non-negative, counts and thresholds positive.
\<close>

definition metric_ok :: "decimal option \<Rightarrow> bool" where
  "metric_ok v \<longleftrightarrow> (case v of None \<Rightarrow> True | Some (Finite x) \<Rightarrow> 0 \<le> x \<and> x < 10 ^ 15 | _ \<Rightarrow> False)"

definition row_ok :: "rule_context \<Rightarrow> 'r scanned_ad_row_scheme \<Rightarrow> bool" where
  "row_ok ctx row \<longleftrightarrow>
     (case row_spend row of
        Finite s \<Rightarrow> 0 \<le> s \<and> s < 10 ^ 15 \<and> quantize ROUND_HALF_EVEN s (money_quantum ctx) = Inr s
      | _ \<Rightarrow> False) \<and>
     metric_ok (row_cpc row) \<and> metric_ok (row_cost_per_lead row) \<and>
     metric_ok (row_cost_per_registration row)"

definition spend_rule_ok :: "rule_context \<Rightarrow> rat \<Rightarrow> bool" where
  "spend_rule_ok ctx from_pct \<longleftrightarrow>
     (let stop = apply_downward_stop from_pct (stop_percent_of_base ctx)
      in 1 / 100 \<le> stop \<and> stop \<le> 10 ^ 15)"

definition settings_ok :: "rule_context \<Rightarrow> bool" where
  "settings_ok ctx \<longleftrightarrow>
     0 < cpc_stop_threshold ctx \<and> 0 < cpl_stop_threshold ctx \<and> 0 < cpr_stop_threshold ctx \<and>
     0 < regs_no_dep_stop_count ctx \<and> 0 < frequency_stop_threshold ctx \<and>
     0 \<le> coalesce (frequency_current ctx) 0 \<and>
     spend_rule_ok ctx (spend_no_dep_from_percent ctx) \<and>
     spend_rule_ok ctx (spend_with_dep_from_percent ctx) \<and>
     0 \<le> effective_spend_no_dep_warning_percent_of_stop ctx \<and>
     0 \<le> effective_spend_with_dep_warning_percent_of_stop ctx"

lemma round_int_bound:
  assumes "0 \<le> x" "x \<le> of_int n" shows "\<bar>round_int m x\<bar> \<le> n"
  using round_int_mono [OF assms(1), of m] round_int_mono [OF assms(2), of m] round_int_of_int [of m 0]
    round_int_of_int [of m n] by simp

lemma quantize_returns:
  assumes "0 \<le> x" "x / step \<le> of_int n" "n < 10 ^ 28" "0 < step"
  shows "\<exists>y. quantize m x step = Inr y"
  using round_int_bound [of "x / step" n m] assms by (simp add: quantize_eq_Inr)

lemma round_percent_returns:
  assumes "0 \<le> x" "x \<le> 10 ^ 25" shows "\<exists>y. round_percent x = Inr y"
  unfolding round_percent_def
  by (rule quantize_returns [where n = "10 ^ 27"]) (use assms in \<open>simp_all add: PERCENT_STEP_def\<close>)

lemma percent_step_range: "e = 0 \<or> e = 2 \<or> e = 3 \<Longrightarrow> 1 / 1000 \<le> (10 :: rat) powi (- e) \<and> (10 :: rat) powi (- e) \<le> 1"
  by (auto simp: power_int_def field_simps)

lemma format_money_returns:
  assumes "0 \<le> x" "x < 10 ^ 15" "e = 0 \<or> e = 2 \<or> e = 3"
  shows "\<exists>t. format_money_with_currency x cur e = Inr t"
proof -
  have "\<exists>y. quantize ROUND_HALF_UP x (10 powi (- e)) = Inr y"
    by (rule quantize_returns [where n = "10 ^ 18"])
      (use assms in \<open>auto simp: power_int_def field_simps\<close>)
  then show ?thesis
    by (auto simp: format_money_with_currency_def format_money_value_def err_simps)
qed

lemma format_whole_returns:
  assumes "whole_units (10 powi (- e)) x"
  shows "\<exists>t. format_money_with_currency x cur e = Inr t"
proof -
  have "quantize ROUND_HALF_UP x (10 powi (- e)) = Inr x"
    using assms by (subst quantize_id_iff) (auto simp: whole_units_def)
  then show ?thesis
    by (auto simp: format_money_with_currency_def format_money_value_def err_simps)
qed

lemma format_threshold_returns:
  assumes "whole_units (10 powi (- e)) x" "whole_units (10 powi (- e)) y"
  shows "\<exists>t. format_threshold_value x y cur e = Inr t"
  using format_whole_returns [OF assms(1), of cur] format_whole_returns [OF assms(2), of cur]
  by (auto simp: format_threshold_value_def err_simps)

text \<open>What the evaluator needs of its context, and that an accepted context has it.\<close>

definition ctx_ok :: "rule_context \<Rightarrow> bool" where
  "ctx_ok ctx \<longleftrightarrow>
     require_currency_exponent (Some (rc_currency ctx)) (ExpInt (rc_currency_exponent ctx))
       = Inr (rc_currency ctx, rc_currency_exponent ctx) \<and>
     money_quantum ctx = 10 powi (- rc_currency_exponent ctx) \<and>
     0 < cpa_amount ctx \<and> whole_units (money_quantum ctx) (cpa_amount ctx) \<and>
     list_all (ordered_thresholds (money_quantum ctx))
       [(cpc_base_stop_threshold ctx, cpc_stop_threshold ctx, cpc_warning_threshold ctx),
        (cpl_base_stop_threshold ctx, cpl_stop_threshold ctx, cpl_warning_threshold ctx),
        (cpr_base_stop_threshold ctx, cpr_stop_threshold ctx, cpr_warning_threshold ctx)]"

lemma post_init_ctx_ok:
  assumes "post_init p = Inr ctx" "percents_valid p"
  shows "ctx_ok ctx"
proof -
  obtain e where e: "require_currency_exponent (Some (rc_currency ctx)) (ExpInt e) = Inr (rc_currency ctx, e)"
    "rc_currency_exponent ctx = e" "money_quantum ctx = 10 powi (- e)" "0 < cpa_amount ctx"
    "\<exists>c. cpa_amount ctx = of_int c * 10 powi (- e) \<and> \<bar>c\<bar> < 10 ^ 28"
    and t: "threshold_triple (10 powi (- e)) (cpa_amount ctx) (cpc_percent_of_cpa p)
       (effective_cpc_stop_percent_of_base p) (effective_cpc_warning_percent_of_stop p)
       = Inr (cpc_base_stop_threshold ctx, cpc_stop_threshold ctx, cpc_warning_threshold ctx)"
    "threshold_triple (10 powi (- e)) (cpa_amount ctx) (cpl_percent_of_cpa p)
       (effective_cpl_stop_percent_of_base p) (effective_cpl_warning_percent_of_stop p)
       = Inr (cpl_base_stop_threshold ctx, cpl_stop_threshold ctx, cpl_warning_threshold ctx)"
    "threshold_triple (10 powi (- e)) (cpa_amount ctx) (cpr_percent_of_cpa p)
       (effective_cpr_stop_percent_of_base p) (effective_cpr_warning_percent_of_stop p)
       = Inr (cpr_base_stop_threshold ctx, cpr_stop_threshold ctx, cpr_warning_threshold ctx)"
    by (rule post_init_Inr [OF assms(1)])
  have cpa: "0 \<le> cpa_amount ctx" using e(4) by simp
  show ?thesis
    using threshold_triple_ordered [OF t(1) refl cpa] threshold_triple_ordered [OF t(2) refl cpa]
      threshold_triple_ordered [OF t(3) refl cpa] assms(2) e
    by (simp add: percents_valid_def ctx_ok_def whole_units_def)
qed

lemma cpa_lower:
  assumes "ctx_ok ctx" shows "1 / 1000 \<le> cpa_amount ctx"
proof -
  let ?q = "money_quantum ctx"
  have q: "1 / 1000 \<le> ?q"
    using assms require_exponent_range percent_step_range by (auto simp: ctx_ok_def)
  obtain c where c: "cpa_amount ctx = of_int c * ?q" using assms by (auto simp: ctx_ok_def whole_units_def)
  have "0 < c" using c q assms by (auto simp: ctx_ok_def zero_less_mult_iff)
  then have "1 * ?q \<le> of_int c * ?q" using q by (intro mult_right_mono) simp_all
  with q c show ?thesis by linarith
qed

lemma ratio_percent_range:
  assumes "ctx_ok ctx" "0 \<le> s" "s < 10 ^ 15"
  shows "0 \<le> ratio_percent s (cpa_amount ctx)" "ratio_percent s (cpa_amount ctx) \<le> 10 ^ 25"
proof -
  note cpa = cpa_lower [OF assms(1)]
  then show "0 \<le> ratio_percent s (cpa_amount ctx)"
    using assms(2) by (simp add: ratio_percent_def HUNDRED_def dmul_nonneg ddiv_nonneg)
  have exact: "ctx_round (10 ^ 18) = 10 ^ 18" "ctx_round (10 ^ 20) = 10 ^ 20"
    using ctx_round_exact [of "10 ^ 18" 1 18] ctx_round_exact [of "10 ^ 20" 1 20] by simp_all
  have "s / cpa_amount ctx \<le> 10 ^ 15 / (1 / 1000)"
    using assms cpa by (intro frac_le) simp_all
  then have "ddiv s (cpa_amount ctx) \<le> 10 ^ 18"
    unfolding ddiv_def using ctx_round_mono [of "s / cpa_amount ctx" "10 ^ 18"] exact by simp
  then have "ddiv s (cpa_amount ctx) * 100 \<le> 10 ^ 20" by simp
  then have "dmul (ddiv s (cpa_amount ctx)) 100 \<le> 10 ^ 20"
    unfolding dmul_def using ctx_round_mono [of "ddiv s (cpa_amount ctx) * 100" "10 ^ 20"] exact
    by (simp add: order_trans)
  with cpa show "ratio_percent s (cpa_amount ctx) \<le> 10 ^ 25"
    by (simp add: ratio_percent_def HUNDRED_def)
qed

text \<open>Each rule returns.\<close>

lemma metric_only_returns:
  assumes "metric_ok v" "e = 0 \<or> e = 2 \<or> e = 3" "e = rc_currency_exponent ctx"
    "ordered_thresholds (10 powi (- e)) (base, stop, warn)"
  shows "\<exists>h. evaluate_metric_only v enabled base stop warn code ctx = Inr h"
proof (cases "enabled \<and> v \<noteq> None")
  case True
  then obtain x where x: "v = Some (Finite x)" "0 \<le> x" "x < 10 ^ 15"
    using assms(1) by (auto simp: metric_ok_def split: option.splits decimal.splits)
  moreover have "whole_units (10 powi (- e)) stop" "whole_units (10 powi (- e)) base"
    using assms(4) by (simp_all add: ordered_thresholds_def)
  ultimately show ?thesis
    using True format_money_returns [OF x(2,3) assms(2), of "rc_currency ctx"]
      format_threshold_returns [of e stop base "rc_currency ctx"] assms(3)
    by (auto simp: evaluate_metric_only_def exact_derived_money_def)
qed (auto simp: evaluate_metric_only_def split: bool.splits option.splits)

lemma guardrail_only_returns:
  assumes "0 \<le> x" "x < 10 ^ 15" "e = 0 \<or> e = 2 \<or> e = 3" "e = rc_currency_exponent ctx"
    "ordered_thresholds (10 powi (- e)) (base, stop, warn)"
  shows "\<exists>h. evaluate_guardrail_only x enabled base stop warn code m ctx = Inr h"
proof -
  have "whole_units (10 powi (- e)) stop" "whole_units (10 powi (- e)) base"
    using assms(5) by (simp_all add: ordered_thresholds_def)
  then show ?thesis
    using format_money_returns [OF assms(1-3), of "rc_currency ctx"]
      format_threshold_returns [of e stop base "rc_currency ctx"] assms(4)
    by (auto simp: evaluate_guardrail_only_def)
qed

lemma round_percent_pos:
  assumes "1 / 100 \<le> x" "round_percent x = Inr y" shows "0 < y"
  using round_half_up_mono [of 1 "x * 100"] round_half_up_of_int [of 1] assms
  by (auto dest!: round_percent_Inr)

lemma warning_rounds:
  assumes "warning_threshold s w \<le> c" "round_percent x = Inr c" "0 \<le> x" "x \<le> 10 ^ 25" "0 \<le> s" "0 \<le> w"
  shows "\<exists>y. round_percent (warning_threshold s w) = Inr y"
proof (rule round_percent_returns)
  show "0 \<le> warning_threshold s w"
    using assms by (simp add: warning_threshold_def HUNDRED_def dmul_nonneg ddiv_nonneg)
  have "round_half_up (x * 100) \<le> round_half_up (of_int (10 ^ 27))"
    using assms(4) by (intro round_half_up_mono) simp
  then have "(of_int (round_half_up (x * 100)) :: rat) \<le> of_int (10 ^ 27)"
    unfolding round_half_up_of_int of_int_le_iff .
  then have "c \<le> 10 ^ 25" using round_percent_Inr [OF assms(2)] by simp
  with assms(1) show "warning_threshold s w \<le> 10 ^ 25" by simp
qed

lemma spend_range_returns:
  assumes "ctx_ok ctx" "0 \<le> s" "s < 10 ^ 15" "spend_rule_ok ctx from_pct" "0 \<le> w"
  shows "\<exists>h. evaluate_spend_range en (ratio_percent s (cpa_amount ctx)) from_pct w code sfx ctx = Inr h"
    and "\<exists>c. spend_range_stop_candidate en (ratio_percent s (cpa_amount ctx)) from_pct w
              (stop_percent_of_base ctx) code = Inr c"
proof -
  let ?share = "ratio_percent s (cpa_amount ctx)"
  let ?stop = "apply_downward_stop from_pct (stop_percent_of_base ctx)"
  note share = ratio_percent_range [OF assms(1-3)]
  have stop: "1 / 100 \<le> ?stop" "?stop \<le> 10 ^ 15" "0 \<le> ?stop"
    using assms(4) by (simp_all add: spend_rule_ok_def Let_def)
  obtain c where c: "round_percent ?share = Inr c" using round_percent_returns [OF share] by blast
  obtain r where r: "round_percent ?stop = Inr r" using round_percent_returns [of ?stop] stop by force
  obtain t where t: "format_money_with_currency (cpa_amount ctx) (rc_currency ctx) (rc_currency_exponent ctx) = Inr t"
    using format_whole_returns assms(1) by (fastforce simp: ctx_ok_def)
  have warn: "warning_threshold ?stop w \<le> c \<Longrightarrow> \<exists>y. round_percent (warning_threshold ?stop w) = Inr y"
    using warning_rounds [OF _ c share stop(3) assms(5)] by blast
  show "\<exists>h. evaluate_spend_range en ?share from_pct w code sfx ctx = Inr h"
    using warn by (auto simp: evaluate_spend_range_def Let_def c r t)
  have "0 \<le> c" using c share(1) round_half_up_mono [of 0 "?share * 100"] round_half_up_of_int [of 0]
    by (auto dest!: round_percent_Inr)
  then show "\<exists>c. spend_range_stop_candidate en ?share from_pct w (stop_percent_of_base ctx) code = Inr c"
    using round_percent_pos [OF stop(1) r]
    by (auto simp: spend_range_stop_candidate_def Let_def c r stop_progress_hit_def)
qed

lemma ebind_returns:
  "\<exists>x. r = Inr x \<Longrightarrow> \<forall>x. \<exists>y. f x = Inr y \<Longrightarrow> \<exists>y. ebind r f = Inr y"
  by (auto simp: ebind_eq_Inr)

lemma decimal_candidate_returns:
  "0 \<le> v \<Longrightarrow> 0 < stop \<Longrightarrow> \<exists>c. decimal_stop_candidate v en stop warn code = Inr c"
  by (simp add: decimal_stop_candidate_def stop_progress_hit_def)

lemma money_candidate_returns:
  "metric_ok v \<Longrightarrow> 0 < stop \<Longrightarrow> \<exists>c. money_stop_candidate v en stop warn code = Inr c"
  using decimal_candidate_returns
  by (auto simp: money_stop_candidate_def metric_ok_def exact_derived_money_def
      split: option.splits decimal.splits)

lemma guardrail_question_returns:
  "metric_ok (row_cost_per_registration row) \<Longrightarrow>
     \<exists>b. should_apply_registration_spend_guardrail row ctx = Inr b"
  by (auto simp: should_apply_registration_spend_guardrail_def metric_ok_def exact_derived_money_def
      split: option.splits decimal.splits)

lemma frequency_candidate_returns:
  assumes "settings_ok ctx" shows "\<exists>c. frequency_stop_candidate ctx = Inr c"
proof (cases "confirmed_frequency ctx")
  case (Some f)
  then have "frequency_current ctx = Some f"
    by (auto simp: confirmed_frequency_def Let_def split: option.splits if_splits)
  with assms Some show ?thesis
    by (simp add: settings_ok_def frequency_stop_candidate_def stop_progress_hit_def)
qed (simp add: frequency_stop_candidate_def)

lemma ladder_returns:
  assumes ok: "ctx_ok ctx" "settings_ok ctx" "row_ok ctx row" and spend: "row_spend row = Finite s"
  shows "\<exists>h. evaluate_funnel_ladder s row ctx = Inr h"
proof -
  let ?e = "rc_currency_exponent ctx"
  have s: "0 \<le> s" "s < 10 ^ 15" using ok(3) spend by (simp_all add: row_ok_def)
  have e: "?e = 0 \<or> ?e = 2 \<or> ?e = 3" using ok(1) require_exponent_range by (auto simp: ctx_ok_def)
  have metrics: "metric_ok (row_cpc row)" "metric_ok (row_cost_per_lead row)"
    "metric_ok (row_cost_per_registration row)" using ok(3) by (simp_all add: row_ok_def)
  have q: "10 powi (- ?e) = money_quantum ctx" using ok(1) by (simp add: ctx_ok_def)
  have thr: "ordered_thresholds (10 powi (- ?e))
      (cpc_base_stop_threshold ctx, cpc_stop_threshold ctx, cpc_warning_threshold ctx)"
    "ordered_thresholds (10 powi (- ?e))
      (cpl_base_stop_threshold ctx, cpl_stop_threshold ctx, cpl_warning_threshold ctx)"
    "ordered_thresholds (10 powi (- ?e))
      (cpr_base_stop_threshold ctx, cpr_stop_threshold ctx, cpr_warning_threshold ctx)"
    unfolding q using ok(1) unfolding ctx_ok_def list.pred_inject by blast+
  note m = metric_only_returns [OF _ e refl] and g = guardrail_only_returns [OF s e refl]
  note sp = spend_range_returns(1) [OF ok(1) s]
  have st: "spend_rule_ok ctx (spend_no_dep_from_percent ctx)"
    "spend_rule_ok ctx (spend_with_dep_from_percent ctx)"
    "0 \<le> effective_spend_no_dep_warning_percent_of_stop ctx"
    "0 \<le> effective_spend_with_dep_warning_percent_of_stop ctx"
    using ok(2) by (simp_all add: settings_ok_def)
  have "\<exists>h. evaluate_deposit_stage s ctx = Inr h"
    unfolding evaluate_deposit_stage_def Let_def by (rule sp [OF st(2,4)])
  moreover have "\<exists>h. evaluate_click_stage s row ctx = Inr h"
    using m [OF metrics(1) thr(1)] g [OF thr(2)] g [OF thr(1)]
    unfolding evaluate_click_stage_def ebind_eq_Inr by (simp add: ebind_eq_Inr) blast
  moreover have "\<exists>h. evaluate_lead_stage s row ctx = Inr h"
    using m [OF metrics(2) thr(2)] g [OF thr(3)]
    unfolding evaluate_lead_stage_def ebind_eq_Inr by blast
  moreover have "\<exists>h. evaluate_registration_stage s row ctx = Inr h"
  proof -
    obtain b where "should_apply_registration_spend_guardrail row ctx = Inr b"
      using guardrail_question_returns [OF metrics(3)] by blast
    then show ?thesis
      using m [OF metrics(3) thr(3)] sp [OF st(1,3)]
      unfolding evaluate_registration_stage_def ebind_eq_Inr Let_def by (cases b) (simp, blast)+
  qed
  ultimately show ?thesis by (simp add: evaluate_funnel_ladder_def)
qed

lemma candidates_return:
  assumes ok: "ctx_ok ctx" "settings_ok ctx" "row_ok ctx row" and spend: "row_spend row = Finite s"
  shows "\<exists>cs. funnel_stop_candidates s row ctx = Inr cs"
proof -
  have s: "0 \<le> s" "s < 10 ^ 15" using ok(3) spend by (simp_all add: row_ok_def)
  have metrics: "metric_ok (row_cpc row)" "metric_ok (row_cost_per_lead row)"
    "metric_ok (row_cost_per_registration row)" using ok(3) by (simp_all add: row_ok_def)
  have st: "spend_rule_ok ctx (spend_no_dep_from_percent ctx)"
    "spend_rule_ok ctx (spend_with_dep_from_percent ctx)"
    "0 \<le> effective_spend_no_dep_warning_percent_of_stop ctx"
    "0 \<le> effective_spend_with_dep_warning_percent_of_stop ctx"
    "0 < cpc_stop_threshold ctx" "0 < cpl_stop_threshold ctx" "0 < cpr_stop_threshold ctx"
    "0 < regs_no_dep_stop_count ctx"
    using ok(2) by (simp_all add: settings_ok_def)
  note sp = spend_range_returns(2) [OF ok(1) s]
  have regs: "\<exists>c. registrations_without_deposit_stop_candidate row ctx = Inr c" if "1 \<le> row_registrations row"
    using that st(8) decimal_candidate_returns
    by (simp add: registrations_without_deposit_stop_candidate_def Let_def)
  obtain b where b: "should_apply_registration_spend_guardrail row ctx = Inr b"
    using guardrail_question_returns [OF metrics(3)] by blast
  have spend_cand: "\<exists>c. (if b then spend_without_deposit_stop_candidate s ctx else Inr None) = Inr c"
    using sp [OF st(1,3)] by (simp add: spend_without_deposit_stop_candidate_def)
  consider (dep) "has_confirmed_deposit_signal ctx"
    | (reg) "\<not> has_confirmed_deposit_signal ctx" "1 \<le> row_registrations row"
    | (rest) "\<not> has_confirmed_deposit_signal ctx" "\<not> 1 \<le> row_registrations row"
    by blast
  then show ?thesis
  proof cases
    case dep
    then show ?thesis
      using sp [OF st(2,4)]
      by (simp add: funnel_stop_candidates_def spend_with_deposit_stop_candidate_def ebind_eq_Inr)
  next
    case reg
    then show ?thesis
      using regs spend_cand money_candidate_returns [OF metrics(3) st(7)] b
      by (cases b) (simp_all add: funnel_stop_candidates_def ebind_eq_Inr, blast+)
  next
    case rest
    then show ?thesis
      by (cases "1 \<le> row_leads row"; cases "1 \<le> row_clicks row"; simp add: funnel_stop_candidates_def;
          intro ebind_returns allI money_candidate_returns decimal_candidate_returns metrics st s; simp)
  qed
qed

lemma evaluate_returns:
  assumes ok: "ctx_ok ctx" "settings_ok ctx" "row_ok ctx row"
  shows "\<exists>ev. evaluate_stop_rules row ctx = Inr ev"
proof -
  obtain s where s: "row_spend row = Finite s" using ok(3)
    by (auto simp: row_ok_def split: decimal.splits)
  have q: "quantize ROUND_HALF_EVEN s (money_quantum ctx) = Inr s" "0 \<le> s"
    using ok(3) s by (simp_all add: row_ok_def)
  have "\<exists>c. s = of_int c * 10 powi - rc_currency_exponent ctx \<and> \<bar>c\<bar> < 10 ^ 28"
    using q(1) ok(1) quantize_id_iff [of "money_quantum ctx"] by (simp add: ctx_ok_def)
  then have "require_exact_currency_amount (AmDecimal (row_spend row)) (Some (rc_currency ctx))
      (ExpInt (rc_currency_exponent ctx)) ''spend'' True = Inr s"
    using ok(1) q(2) by (simp add: require_exact_Inr decimal_of_arg_def s ctx_ok_def)
  moreover obtain h cs f where parts: "evaluate_funnel_ladder s row ctx = Inr h"
    "funnel_stop_candidates s row ctx = Inr cs" "frequency_stop_candidate ctx = Inr f"
    using ladder_returns [OF ok s] candidates_return [OF ok s] frequency_candidate_returns [OF ok(2)]
    by blast
  moreover have "\<exists>n. nearest_stop_hit s row ctx = Inr n"
    using parts by (simp add: nearest_stop_hit_def split: list.splits)
  ultimately show ?thesis
    by (auto simp: evaluate_stop_rules_def Let_def split: option.splits)
qed

text \<open>
  C33. Evaluation never fails on sane input: for a context the constructor accepted, with
  percentages within 0..100 and positive thresholds, every row whose spend is exact in the
  currency and whose cost metrics are finite and non-negative gets an evaluation; no rounding,
  formatting or progress computation raises.
\<close>

theorem evaluation_total:
  assumes "post_init p = Inr ctx" "percents_valid p" "settings_ok ctx" "row_ok ctx row"
  shows "\<exists>ev. evaluate_stop_rules row ctx = Inr ev"
  using evaluate_returns [OF post_init_ctx_ok [OF assms(1,2)] assms(3,4)] .

section \<open>A worked context\<close>

text \<open>CPA 20 USD with the default settings and a warning at 80% of the stop.\<close>

definition sample_params :: "string \<Rightarrow> int \<Rightarrow> rat \<Rightarrow> rule_params" where
  "sample_params currency e cpa =
     rule_settings.extend (default_settings 80)
       \<lparr>rp_currency = currency, rp_currency_exponent = e, rp_cpa_amount = Finite cpa\<rparr>"

definition sample_row :: "rat \<Rightarrow> int \<Rightarrow> int \<Rightarrow> int \<Rightarrow> scanned_ad_row" where
  "sample_row spend clicks leads regs = \<lparr>
     row_fb_ad_id = ''1'', row_campaign_name = [], row_adset_name = [], row_ad_name = [],
     row_delivery_status = ''ACTIVE'', row_spend = Finite spend, row_moderation_reason = None,
     row_budget = [], row_campaign_id = [], row_adset_id = [], row_reach = 0,
     row_impressions = 0, row_clicks = clicks, row_cpc = None, row_ctr = None,
     row_outbound_clicks = 0, row_outbound_ctr = None, row_landing_page_views = 0,
     row_cost_per_landing_page_view = None, row_cost_per_result = None, row_cpm = None,
     row_frequency = None, row_leads = leads, row_cost_per_lead = None,
     row_registrations = regs, row_cost_per_registration = None, row_deposits = 0,
     row_resolved_offer_code = None \<rparr>"

definition sample_ctx :: rule_context where
  "sample_ctx = rule_settings.extend (default_settings 80) \<lparr>
     rc_currency = ''USD'', rc_currency_exponent = 2, cpa_amount = 20, money_quantum = 1 / 100,
     cpc_percent_stop = 2, cpl_percent_stop = 10, cpr_percent_stop = 20,
     cpc_base_stop_threshold = 2 / 5, cpc_stop_threshold = 8 / 25, cpc_warning_threshold = 13 / 50,
     cpl_base_stop_threshold = 2, cpl_stop_threshold = 8 / 5, cpl_warning_threshold = 32 / 25,
     cpr_base_stop_threshold = 4, cpr_stop_threshold = 16 / 5, cpr_warning_threshold = 64 / 25 \<rparr>"

lemma usd_thresholds:
  "percent_threshold (1 / 100) 20 2 = Inr (2 / 5)" "percent_threshold (1 / 100) (2 / 5) 80 = Inr (8 / 25)"
  "percent_threshold (1 / 100) (8 / 25) 80 = Inr (13 / 50)"
  "percent_threshold (1 / 100) 20 10 = Inr 2" "percent_threshold (1 / 100) 2 80 = Inr (8 / 5)"
  "percent_threshold (1 / 100) (8 / 5) 80 = Inr (32 / 25)"
  "percent_threshold (1 / 100) 20 20 = Inr 4" "percent_threshold (1 / 100) 4 80 = Inr (16 / 5)"
  "percent_threshold (1 / 100) (16 / 5) 80 = Inr (64 / 25)"
  by code_simp+

lemmas effective_defs =
  effective_cpc_stop_percent_of_base_def effective_cpc_warning_percent_of_stop_def
  effective_cpl_stop_percent_of_base_def effective_cpl_warning_percent_of_stop_def
  effective_cpr_stop_percent_of_base_def effective_cpr_warning_percent_of_stop_def
  effective_spend_no_dep_warning_percent_of_stop_def
  effective_spend_with_dep_warning_percent_of_stop_def

lemmas sample_defs = sample_params_def sample_ctx_def sample_row_def rule_settings.defs
  default_settings_def effective_defs CPC_PERCENT_OF_CPA_def CPL_PERCENT_OF_CPA_def
  CPR_PERCENT_OF_CPA_def SPEND_NO_DEP_FROM_PERCENT_def SPEND_WITH_DEP_FROM_PERCENT_def
  REGS_NO_DEP_STOP_COUNT_def MIN_RATIO_DENOMINATOR_def

lemma sample_ctx_built: "post_init (sample_params ''USD'' 2 20) = Inr sample_ctx"
proof -
  have "require_currency_exponent (Some ''USD'') (ExpInt 2) = Inr (''USD'', 2)"
    "currency_quantum (Some ''USD'') (ExpInt 2) = Inr (1 / 100)"
    "require_exact_currency_amount (AmDecimal (Finite 20)) (Some ''USD'') (ExpInt 2) ''cpa_amount'' False
      = Inr 20"
    by code_simp+
  then show ?thesis
    by (simp add: post_init_def sample_defs usd_thresholds threshold_triple_def)
qed

lemma sample_percents: "percents_valid (sample_params c e x)"
  by (simp add: percents_valid_def sample_defs)

lemma sample_spend_shares:
  "apply_downward_stop 50 80 = 40" "apply_downward_stop 70 80 = 56"
  by code_simp+

lemma sample_settings_ok: "settings_ok sample_ctx"
proof -
  have "spend_rule_ok sample_ctx 50" "spend_rule_ok sample_ctx 70"
    by (simp_all add: spend_rule_ok_def sample_defs sample_spend_shares)
  then show ?thesis by (simp add: settings_ok_def sample_defs)
qed

lemma sample_row_ok: "c \<in> {0 ..< 10 ^ 16} \<Longrightarrow> row_ok sample_ctx (sample_row (of_int c / 100) k l r)"
proof -
  assume c: "c \<in> {0 ..< 10 ^ 16}"
  have "quantize ROUND_HALF_EVEN (of_int c / 100) (1 / 100) = Inr (of_int c / 100)"
    using c by (subst quantize_id_iff) auto
  moreover have "(of_int c :: rat) < of_int (10 ^ 16)" using c by (simp only: of_int_less_iff) simp
  ultimately show ?thesis using c by (simp add: row_ok_def metric_ok_def sample_defs)
qed

lemma sample_evaluates:
  "c \<in> {0 ..< 10 ^ 16} \<Longrightarrow> \<exists>ev. evaluate_stop_rules (sample_row (of_int c / 100) k l r) sample_ctx = Inr ev"
  using evaluate_returns [OF post_init_ctx_ok [OF sample_ctx_built sample_percents]
      sample_settings_ok sample_row_ok] .

theorem evaluation_refines_policy_witness:
  "\<exists>ev. evaluate_stop_rules (sample_row 8 10 3 1) sample_ctx = Inr ev \<and>
     stage_level (ev_stage ev) = 2 \<and> map hit_stage (matched_hits ev) = [Some STOP]"
proof -
  obtain ev where ev: "evaluate_stop_rules (sample_row 8 10 3 1) sample_ctx = Inr ev"
    using sample_evaluates [of 800 10 3 1] by auto
  have "policy_level 8 (sample_row 8 10 3 1) sample_ctx = 2" "frequency_policy sample_ctx = 0"
    by code_simp+
  with evaluation_refines_policy [OF ev, of 8] have *: "stage_level (ev_stage ev) = 2"
    "map hit_stage (matched_hits ev) = (if ev_stage ev = None then [] else [ev_stage ev])"
    by (simp_all add: sample_row_def)
  from this(1) have "ev_stage ev = Some STOP" by (simp only: stage_level_eq)
  with ev * show ?thesis by simp
qed

lemma sample_row_spend: "(sample_row x k l r)\<lparr>row_spend := Finite y\<rparr> = sample_row y k l r"
  by (simp add: sample_row_def)

theorem severity_monotone_in_spend_witness:
  "\<exists>ev ev'. evaluate_stop_rules ((sample_row 0 10 3 0)\<lparr>row_spend := Finite 1\<rparr>) sample_ctx = Inr ev \<and>
     evaluate_stop_rules ((sample_row 0 10 3 0)\<lparr>row_spend := Finite 8\<rparr>) sample_ctx = Inr ev' \<and>
     (1 :: rat) \<le> 8 \<and> stage_level (ev_stage ev) \<le> stage_level (ev_stage ev')"
proof -
  obtain ev ev' where
    "evaluate_stop_rules ((sample_row 0 10 3 0)\<lparr>row_spend := Finite 1\<rparr>) sample_ctx = Inr ev"
    "evaluate_stop_rules ((sample_row 0 10 3 0)\<lparr>row_spend := Finite 8\<rparr>) sample_ctx = Inr ev'"
    unfolding sample_row_spend using sample_evaluates [of 100 10 3 0] sample_evaluates [of 800 10 3 0]
    by auto
  with severity_monotone_in_spend [OF this] show ?thesis by simp
qed

theorem nearest_stop_is_maximal_witness:
  "\<exists>ev h. evaluate_stop_rules (sample_row 8 10 3 1) sample_ctx = Inr ev \<and>
     ev_stage ev = Some STOP \<and> ev_nearest_stop ev = Some h \<and> 1 \<le> progress_ratio h"
proof -
  obtain ev where ev: "evaluate_stop_rules (sample_row 8 10 3 1) sample_ctx = Inr ev"
    using sample_evaluates [of 800 10 3 1] by auto
  obtain cs f where c: "funnel_stop_candidates 8 (sample_row 8 10 3 1) sample_ctx = Inr cs"
    "frequency_stop_candidate sample_ctx = Inr f"
    using candidates_return [OF post_init_ctx_ok [OF sample_ctx_built sample_percents]
        sample_settings_ok, of "sample_row 8 10 3 1" 8] sample_row_ok [of 800 10 3 1]
      frequency_candidate_returns [OF sample_settings_ok]
    by (auto simp: sample_row_def)
  have "policy_level 8 (sample_row 8 10 3 1) sample_ctx = 2" by code_simp
  moreover obtain h where "evaluate_funnel_ladder 8 (sample_row 8 10 3 1) sample_ctx = Inr h"
    "stage_level (ev_stage ev) = max (hit_level h) (hit_level (evaluate_frequency_anomaly sample_ctx))"
    using evaluate_stop_rules_Inr [OF ev] by (auto simp: sample_row_def)
  ultimately have "2 \<le> stage_level (ev_stage ev)" by (simp add: ladder_level)
  with stage_level_le [of "ev_stage ev"] have "stage_level (ev_stage ev) = 2" by linarith
  then have "ev_stage ev = Some STOP" by (simp only: stage_level_eq)
  with nearest_stop_is_maximal [OF ev _ _ c] ev show ?thesis by (auto simp: sample_row_def)
qed

theorem deposits_only_from_tracker_witness:
  "(1 :: int) \<le> 7 \<and>
   evaluate_stop_rules (sample_row 8 10 3 1) (sample_ctx\<lparr>external_deposits := 7\<rparr>)
     = evaluate_stop_rules (sample_row 8 10 3 1) (sample_ctx\<lparr>external_deposits := 1\<rparr>)"
  using deposits_only_from_tracker [where row = "sample_row 8 10 3 1" and ctx = sample_ctx and n = 7]
  by simp

theorem spend_backstop_when_price_unknown_witness:
  "\<exists>ev. evaluate_stop_rules (sample_row 8 10 3 1) sample_ctx = Inr ev \<and> ev_stage ev = Some STOP"
proof -
  obtain ev where ev: "evaluate_stop_rules (sample_row 8 10 3 1) sample_ctx = Inr ev"
    using sample_evaluates [of 800 10 3 1] by auto
  have "ev_stage ev = Some STOP"
    by (rule spend_backstop_when_price_unknown [OF ev, of 8 4000])
      (simp_all add: sample_defs sample_spend_shares)
  with ev show ?thesis by blast
qed

theorem thresholds_ordered_witness:
  "post_init (sample_params ''USD'' 2 20) = Inr sample_ctx \<and>
   ordered_thresholds (1 / 100) (2 / 5, 8 / 25, 13 / 50)"
  using thresholds_ordered [OF sample_ctx_built sample_percents] sample_ctx_built
  by (simp add: sample_defs)

theorem evaluation_total_witness:
  "\<exists>ev. evaluate_stop_rules (sample_row 8 10 3 1) sample_ctx = Inr ev"
  using evaluation_total [OF sample_ctx_built sample_percents sample_settings_ok
      sample_row_ok [of 800 10 3 1]] by simp

text \<open>
  A boundary of the threshold arithmetic: in a currency without minor units a CPA of 20 is
  accepted, its 2% click threshold rounds to zero, and evaluating any advertisement without
  events then raises the progress check's error instead of returning an evaluation.
\<close>

theorem zero_threshold_raises:
  "\<exists>ctx. post_init (sample_params ''JPY'' 0 20) = Inr ctx \<and> cpc_stop_threshold ctx = 0 \<and>
     evaluate_stop_rules (sample_row 0 0 0 0) ctx
       = Inl (ValueError ''stop threshold must be finite and positive'')"
proof -
  have q: "require_currency_exponent (Some ''JPY'') (ExpInt 0) = Inr (''JPY'', 0)"
    "currency_quantum (Some ''JPY'') (ExpInt 0) = Inr 1"
    "require_exact_currency_amount (AmDecimal (Finite 20)) (Some ''JPY'') (ExpInt 0) ''cpa_amount'' False
      = Inr 20"
    "require_exact_currency_amount (AmDecimal (Finite 0)) (Some ''JPY'') (ExpInt 0) ''spend'' True = Inr 0"
    by code_simp+
  have t: "percent_threshold 1 20 2 = Inr 0" "percent_threshold 1 0 80 = Inr 0"
    "percent_threshold 1 20 10 = Inr 2" "percent_threshold 1 2 80 = Inr 2"
    "percent_threshold 1 20 20 = Inr 4" "percent_threshold 1 4 80 = Inr 3" "percent_threshold 1 3 80 = Inr 2"
    by code_simp+
  have f: "format_money_with_currency 0 ''JPY'' 0 = Inr ''0 JPY''" by code_simp
  obtain ctx where ctx: "post_init (sample_params ''JPY'' 0 20) = Inr ctx" "rc_currency ctx = ''JPY''"
    "rc_currency_exponent ctx = 0" "cpc_stop_threshold ctx = 0" "cpc_base_stop_threshold ctx = 0"
    "cpc_warning_threshold ctx = 0" "cpc_enabled ctx" "external_deposits ctx = 0"
    by (simp add: post_init_def sample_defs q t threshold_triple_def)
  have "evaluate_stop_rules (sample_row 0 0 0 0) ctx
      = Inl (ValueError ''stop threshold must be finite and positive'')"
    by (simp add: evaluate_stop_rules_def sample_row_def ctx q f evaluate_funnel_ladder_def
        has_confirmed_deposit_signal_def evaluate_click_stage_def evaluate_guardrail_only_def
        format_threshold_value_def nearest_stop_hit_def funnel_stop_candidates_def
        decimal_stop_candidate_def stop_progress_hit_def)
  with ctx show ?thesis by blast
qed

end
