(* ===== verification/AlertFsm.thy ===== *)
theory AlertFsm
  imports Money
begin

text \<open>
  The alert state machine of an advertisement: the delivery statuses of
  \<open>core/scanner/status.py\<close>, the pure decision function of \<open>core/observer/state_machine.py\<close>, and
  the statements of \<open>core/observer/writers.py\<close> that change a row of \<open>ad_alert_state\<close>. Open-state
  tokens (UUIDs) are integers; a call of \<open>uuid4()\<close> is an argument \<open>fresh\<close>. Times are
  microseconds. A transition's log text is one constructor per format string.
\<close>

section \<open>core/scanner/status.py\<close>

definition DELIVERY_ACTIVE_STATUSES :: "string set" where
  "DELIVERY_ACTIVE_STATUSES = {''ACTIVE'', ''WITH_ISSUES''}"

definition DELIVERY_ACTIVATABLE_STATUSES :: "string set" where
  "DELIVERY_ACTIVATABLE_STATUSES = {''OFF'', ''PAUSED''}"

definition DELIVERY_DISABLED_STATUSES :: "string set" where
  "DELIVERY_DISABLED_STATUSES =
     {''OFF'', ''PAUSED'', ''ADSET_PAUSED'', ''CAMPAIGN_PAUSED'', ''CAMPAIGN_GROUP_PAUSED'',
      ''ARCHIVED'', ''DELETED''}"

definition DELIVERY_REJECTED_STATUSES :: "string set" where
  "DELIVERY_REJECTED_STATUSES = {''DISAPPROVED''}"

definition DELIVERY_ATTENTION_STATUSES :: "string set" where
  "DELIVERY_ATTENTION_STATUSES =
     {''WITH_ISSUES'', ''PENDING_REVIEW'', ''IN_REVIEW'', ''PREAPPROVED'', ''IN_PROCESS'',
      ''PROCESSING'', ''PENDING_BILLING_INFO'', ''NOT_DELIVERING'', ''ADSET_PAUSED_NOT_DELIVERING''}"

definition normalized_delivery_status :: "string option \<Rightarrow> string" where
  "normalized_delivery_status v = py_upper (py_strip (or_empty v))"

definition is_delivery_active :: "string option \<Rightarrow> bool" where
  "is_delivery_active v \<longleftrightarrow> normalized_delivery_status v \<in> DELIVERY_ACTIVE_STATUSES"

definition is_delivery_disabled :: "string option \<Rightarrow> bool" where
  "is_delivery_disabled v \<longleftrightarrow> normalized_delivery_status v \<in> DELIVERY_DISABLED_STATUSES"

definition is_delivery_activatable :: "string option \<Rightarrow> bool" where
  "is_delivery_activatable v \<longleftrightarrow> normalized_delivery_status v \<in> DELIVERY_ACTIVATABLE_STATUSES"

definition is_moderation_rejected :: "string option \<Rightarrow> bool" where
  "is_moderation_rejected v \<longleftrightarrow> normalized_delivery_status v \<in> DELIVERY_REJECTED_STATUSES"

section \<open>core/observer/state_machine.py\<close>

datatype alert_state = Normal | WarningSent | StopSent | Claimed | Disabled

datatype fsm_stage = WarningStage | StopStage

type_synonym token = int

record fsm_input =
  current_state :: alert_state
  current_stage :: "fsm_stage option"
  current_open_token :: "token option"
  in_warning_rule_codes :: "string list"
  in_stop_rule_codes :: "string list"
  is_cabinet_reset :: bool

datatype transition_reason =
    Escalated | NewStopIncident | StopRecovery | StopAwaitsFinal alert_state
  | NewWarning | WarningRepeated | Deescalated | WarningIgnored alert_state
  | CabinetReset alert_state | Recovered alert_state | NoChange alert_state
  | Suppressed transition_reason

record fsm_transition =
  new_state :: alert_state
  new_stage :: "fsm_stage option"
  new_open_token :: "token option"
  emit_alert :: bool
  tr_alert_stage :: "fsm_stage option"
  alert_rule_codes :: "string list"
  create_disable_task :: bool
  tr_reason :: transition_reason

definition quiet :: "alert_state \<Rightarrow> fsm_stage option \<Rightarrow> token option \<Rightarrow> transition_reason \<Rightarrow> fsm_transition" where
  "quiet st stage tok reason = \<lparr>new_state = st, new_stage = stage, new_open_token = tok,
     emit_alert = False, tr_alert_stage = None, alert_rule_codes = [], create_disable_task = False,
     tr_reason = reason\<rparr>"

definition has_warnings :: "fsm_input \<Rightarrow> bool" where
  "has_warnings inp \<longleftrightarrow> in_warning_rule_codes inp \<noteq> []"

definition has_stops :: "fsm_input \<Rightarrow> bool" where
  "has_stops inp \<longleftrightarrow> in_stop_rule_codes inp \<noteq> []"

definition stop_alert :: "token \<Rightarrow> string list \<Rightarrow> transition_reason \<Rightarrow> fsm_transition" where
  "stop_alert tok codes reason = \<lparr>new_state = StopSent, new_stage = Some StopStage,
     new_open_token = Some tok, emit_alert = True, tr_alert_stage = Some StopStage,
     alert_rule_codes = codes, create_disable_task = True, tr_reason = reason\<rparr>"

definition decide :: "token \<Rightarrow> fsm_input \<Rightarrow> fsm_transition" where
  "decide fresh inp =
     (let cur = current_state inp; stage = current_stage inp; tok = current_open_token inp in
      if has_stops inp
      then (case cur of
              WarningSent \<Rightarrow> stop_alert (coalesce tok fresh) (in_stop_rule_codes inp) Escalated
            | Normal \<Rightarrow> stop_alert fresh (in_stop_rule_codes inp) NewStopIncident
            | StopSent \<Rightarrow> (quiet StopSent (Some StopStage) tok StopRecovery)\<lparr>create_disable_task := True\<rparr>
            | _ \<Rightarrow> quiet cur stage tok (StopAwaitsFinal cur))
      else if has_warnings inp
      then (case cur of
              Normal \<Rightarrow> \<lparr>new_state = WarningSent, new_stage = Some WarningStage,
                 new_open_token = Some fresh, emit_alert = True, tr_alert_stage = Some WarningStage,
                 alert_rule_codes = in_warning_rule_codes inp, create_disable_task = False,
                 tr_reason = NewWarning\<rparr>
            | WarningSent \<Rightarrow> quiet WarningSent (Some WarningStage) tok WarningRepeated
            | StopSent \<Rightarrow> quiet WarningSent (Some WarningStage) tok Deescalated
            | _ \<Rightarrow> quiet cur stage tok (WarningIgnored cur))
      else if cur = WarningSent \<or> cur = StopSent
      then if is_cabinet_reset inp then quiet cur stage tok (CabinetReset cur)
           else quiet Normal None None (Recovered cur)
      else quiet cur stage tok (NoChange cur))"

definition should_reopen_disabled :: "alert_state \<Rightarrow> string option \<Rightarrow> bool" where
  "should_reopen_disabled cur delivery_status \<longleftrightarrow>
     cur = Disabled \<and> py_upper (py_strip (or_empty delivery_status)) = ''ACTIVE''"

definition should_sync_disabled :: "alert_state \<Rightarrow> string option \<Rightarrow> bool" where
  "should_sync_disabled cur delivery_status \<longleftrightarrow>
     (cur = WarningSent \<or> cur = StopSent) \<and> is_delivery_disabled delivery_status"

section \<open>Rows of ad\_alert\_state\<close>

text \<open>
  The columns the modelled statements read or write; the audit column \<open>updated_at\<close> is left out.
  The six \<open>enable_grace_*\<close> columns are filled by \<open>core/observer/enable_grace.py\<close>.
\<close>

record ad_alert_row =
  ar_state :: alert_state
  ar_stage :: "fsm_stage option"
  ar_token :: "token option"
  ar_warning_rule_codes :: "string list"
  ar_stop_rule_codes :: "string list"
  ar_snoozed_until :: "int option"
  ar_last_transition_at :: int
  ar_last_scan_id :: "int option"
  ar_grace_until :: "int option"
  ar_grace_spend_cap :: "rat option"
  ar_grace_baseline_spend :: "rat option"
  ar_grace_cabinet_day_start :: "int option"
  ar_grace_currency :: "string option"
  ar_grace_currency_exponent :: "int option"

definition REACTIVATION_COOLDOWN_MINUTES :: int where
  "REACTIVATION_COOLDOWN_MINUTES = 15"

definition minutes_us :: "int \<Rightarrow> int" where
  "minutes_us m = m * 60 * 1000000"

definition warnings_from :: "fsm_transition \<Rightarrow> string list" where
  "warnings_from t = (if tr_alert_stage t = Some WarningStage then alert_rule_codes t else [])"

definition stops_from :: "fsm_transition \<Rightarrow> string list" where
  "stops_from t = (if tr_alert_stage t = Some StopStage then alert_rule_codes t else [])"

text \<open>The upsert of \<open>apply_fsm_transition\<close>: a claimed or disabled row is left alone.\<close>

definition upsert_alert_state :: "int \<Rightarrow> int option \<Rightarrow> fsm_transition \<Rightarrow> ad_alert_row option \<Rightarrow> ad_alert_row" where
  "upsert_alert_state now scan_id t existing =
     (case existing of
        None \<Rightarrow> \<lparr>ar_state = new_state t, ar_stage = new_stage t, ar_token = new_open_token t,
           ar_warning_rule_codes = warnings_from t, ar_stop_rule_codes = stops_from t,
           ar_snoozed_until = None, ar_last_transition_at = now, ar_last_scan_id = scan_id,
           ar_grace_until = None, ar_grace_spend_cap = None, ar_grace_baseline_spend = None,
           ar_grace_cabinet_day_start = None, ar_grace_currency = None,
           ar_grace_currency_exponent = None\<rparr>
      | Some row \<Rightarrow>
          if ar_state row = Claimed \<or> ar_state row = Disabled then row
          else row\<lparr>ar_state := new_state t, ar_stage := new_stage t, ar_token := new_open_token t,
             ar_warning_rule_codes := warnings_from t, ar_stop_rule_codes := stops_from t,
             ar_snoozed_until := (if new_state t = Normal then None
                                  else if ar_state row = Normal then None else ar_snoozed_until row),
             ar_last_transition_at := (if ar_state row \<noteq> new_state t then now
                                       else ar_last_transition_at row),
             ar_last_scan_id := scan_id\<rparr>)"

definition reopen_reactivated_alert_state :: "int \<Rightarrow> int \<Rightarrow> ad_alert_row \<Rightarrow> ad_alert_row \<times> bool" where
  "reopen_reactivated_alert_state now cooldown_minutes row =
     (if ar_state row = Disabled \<and> ar_last_transition_at row < now - minutes_us cooldown_minutes
      then (row\<lparr>ar_state := Normal, ar_stage := None, ar_token := None, ar_snoozed_until := None,
               ar_last_transition_at := now\<rparr>, True)
      else (row, False))"

text \<open>
  The offline sync raises when the incident it closes has no token; otherwise it resolves the
  two incident keys of the advertisement and notifies the owners, which are its effects.
\<close>

datatype fsm_effect =
    ResolveIncident string token
  | ResolveUndelivered string
  | NotifySyncDisabled string token

definition mark_disabled_when_offline ::
    "int \<Rightarrow> int \<Rightarrow> string \<Rightarrow> ad_alert_row \<Rightarrow> (ad_alert_row \<times> fsm_effect list \<times> bool) result" where
  "mark_disabled_when_offline now cooldown_minutes fb_ad_id row =
     (if (ar_state row = WarningSent \<or> ar_state row = StopSent) \<and>
         ar_last_transition_at row < now - minutes_us cooldown_minutes
      then (case ar_token row of
              None \<Rightarrow> Inl (RuntimeError ''offline incident transition has no open_state_token'')
            | Some tok \<Rightarrow>
                Inr (row\<lparr>ar_state := Disabled, ar_last_transition_at := now\<rparr>,
                     [ResolveIncident fb_ad_id tok, ResolveUndelivered fb_ad_id,
                      NotifySyncDisabled fb_ad_id tok], True))
      else Inr (row, [], False))"

definition reset_alert_state_after_disable_succeeded :: "int \<Rightarrow> ad_alert_row \<Rightarrow> ad_alert_row \<times> bool" where
  "reset_alert_state_after_disable_succeeded now row =
     (if ar_state row \<in> {WarningSent, StopSent, Claimed}
      then (row\<lparr>ar_state := Disabled, ar_last_transition_at := now\<rparr>, True) else (row, False))"

definition mark_alert_state_claimed :: "int \<Rightarrow> ad_alert_row \<Rightarrow> ad_alert_row \<times> bool" where
  "mark_alert_state_claimed now row =
     (if ar_state row \<in> {WarningSent, StopSent}
      then (row\<lparr>ar_state := Claimed, ar_last_transition_at := now\<rparr>, True) else (row, False))"

definition reset_alert_state_after_enable_succeeded :: "int \<Rightarrow> ad_alert_row \<Rightarrow> ad_alert_row \<times> bool" where
  "reset_alert_state_after_enable_succeeded now row =
     (if ar_state row \<noteq> Normal
      then (row\<lparr>ar_state := Normal, ar_stage := None, ar_token := None, ar_warning_rule_codes := [],
               ar_stop_rule_codes := [], ar_snoozed_until := None, ar_last_transition_at := now\<rparr>, True)
      else (row, False))"

text \<open>\<open>_suppress_emit\<close> of the pipeline: a snooze silences the alert and nothing else.\<close>

definition suppress_emit :: "fsm_transition \<Rightarrow> fsm_transition" where
  "suppress_emit t = t\<lparr>emit_alert := False, tr_reason := Suppressed (tr_reason t)\<rparr>"

section \<open>Properties of the decision\<close>

lemmas decide_defs = decide_def has_stops_def has_warnings_def stop_alert_def quiet_def Let_def

fun severity :: "alert_state \<Rightarrow> nat" where
  "severity WarningSent = 1"
| "severity StopSent = 2"
| "severity _ = 0"

text \<open>An incident is open exactly in the two sent states, and an open incident has its token.\<close>

definition token_ok :: "alert_state \<Rightarrow> token option \<Rightarrow> bool" where
  "token_ok st tok \<longleftrightarrow> (st = WarningSent \<or> st = StopSent \<longrightarrow> tok \<noteq> None) \<and> (st = Normal \<longrightarrow> tok = None)"

lemma decide_token_ok:
  "token_ok (current_state inp) (current_open_token inp) \<Longrightarrow>
     token_ok (new_state (decide fresh inp)) (new_open_token (decide fresh inp))"
  by (cases "current_state inp") (auto simp: decide_defs token_ok_def)

lemma decide_terminal:
  "current_state inp = Claimed \<or> current_state inp = Disabled \<Longrightarrow>
     new_state (decide fresh inp) = current_state inp \<and>
     new_open_token (decide fresh inp) = current_open_token inp \<and>
     \<not> emit_alert (decide fresh inp) \<and> \<not> create_disable_task (decide fresh inp)"
  by (auto simp: decide_defs)

text \<open>
  Alerts announce rises of severity and nothing else: from every state a decision emits an
  alert exactly when the new state is more severe than the current one (normal, warning, stop
  in this order), the alert then names the rules that fired at the new stage, the decision
  never enters \<open>claimed\<close> or \<open>disabled\<close> on its own, and a pause is requested exactly when stop
  rules fired outside those two states.
\<close>

theorem decide_spec:
  "emit_alert (decide fresh inp) = (severity (current_state inp) < severity (new_state (decide fresh inp))
      \<and> current_state inp \<noteq> Claimed \<and> current_state inp \<noteq> Disabled) \<and>
   (emit_alert (decide fresh inp) \<longrightarrow>
      alert_rule_codes (decide fresh inp) =
        (if new_state (decide fresh inp) = StopSent then in_stop_rule_codes inp else in_warning_rule_codes inp)
      \<and> alert_rule_codes (decide fresh inp) \<noteq> []) \<and>
   (new_state (decide fresh inp) = Claimed \<or> new_state (decide fresh inp) = Disabled \<longrightarrow>
      new_state (decide fresh inp) = current_state inp) \<and>
   create_disable_task (decide fresh inp) =
     (in_stop_rule_codes inp \<noteq> [] \<and> current_state inp \<noteq> Claimed \<and> current_state inp \<noteq> Disabled)"
  by (cases "current_state inp") (auto simp: decide_defs)

theorem decide_spec_witness:
  "emit_alert (decide 7 \<lparr>current_state = WarningSent, current_stage = Some WarningStage,
     current_open_token = Some 5, in_warning_rule_codes = [], in_stop_rule_codes = [''cpc_stop''],
     is_cabinet_reset = False\<rparr>) \<and>
   alert_rule_codes (decide 7 \<lparr>current_state = WarningSent, current_stage = Some WarningStage,
     current_open_token = Some 5, in_warning_rule_codes = [], in_stop_rule_codes = [''cpc_stop''],
     is_cabinet_reset = False\<rparr>) = [''cpc_stop'']"
  using decide_spec [of 7 "\<lparr>current_state = WarningSent, current_stage = Some WarningStage,
     current_open_token = Some 5, in_warning_rule_codes = [], in_stop_rule_codes = [''cpc_stop''],
     is_cabinet_reset = False\<rparr>"]
  by (simp add: decide_defs)

section \<open>Sequences of scans\<close>

text \<open>One scan: the codes that fired, whether it is the zero scan of a new day, and the UUID a
  new incident would get. \<open>run_scans\<close> feeds each decision's result into the next.\<close>

record scan_input =
  sc_warnings :: "string list"
  sc_stops :: "string list"
  sc_reset :: bool
  sc_fresh :: token

fun run_scans :: "alert_state \<times> fsm_stage option \<times> token option \<Rightarrow> scan_input list \<Rightarrow> fsm_transition list" where
  "run_scans s [] = []"
| "run_scans (st, stage, tok) (i # is) =
     (let t = decide (sc_fresh i) \<lparr>current_state = st, current_stage = stage, current_open_token = tok,
                in_warning_rule_codes = sc_warnings i, in_stop_rule_codes = sc_stops i,
                is_cabinet_reset = sc_reset i\<rparr>
      in t # run_scans (new_state t, new_stage t, new_open_token t) is)"

lemma stop_sent_persists:
  assumes "\<forall>i \<in> set is. sc_stops i \<noteq> []"
  shows "\<forall>t \<in> set (run_scans (StopSent, stage, tok) is).
           \<not> emit_alert t \<and> create_disable_task t \<and> new_open_token t = tok"
  using assms
proof (induction "is" arbitrary: stage)
  case (Cons i "is")
  then show ?case by (simp add: decide_defs)
qed simp

text \<open>
  C32. A persisting stop is one incident: from a normal or warning state, if every scan of a
  sequence reports stop rules, then the first scan alerts, no later one does, and every scan
  asks for the pause under one and the same token (the warning's token when there was one), so
  the idempotent pause command is repeated until it succeeds.
\<close>

theorem persisting_stop_is_one_incident:
  assumes "\<forall>i \<in> set (i0 # is). sc_stops i \<noteq> []"
    and "st = Normal \<or> st = WarningSent" "token_ok st tok"
  shows "\<exists>incident. (\<forall>t \<in> set (run_scans (st, stage, tok) (i0 # is)).
            create_disable_task t \<and> new_open_token t = Some incident) \<and>
          (tok \<noteq> None \<longrightarrow> tok = Some incident) \<and>
          map emit_alert (run_scans (st, stage, tok) (i0 # is)) = True # replicate (length is) False"
proof -
  let ?t0 = "decide (sc_fresh i0) \<lparr>current_state = st, current_stage = stage, current_open_token = tok,
                in_warning_rule_codes = sc_warnings i0, in_stop_rule_codes = sc_stops i0,
                is_cabinet_reset = sc_reset i0\<rparr>"
  let ?inc = "coalesce tok (sc_fresh i0)"
  have stops: "sc_stops i0 \<noteq> []" "\<forall>i \<in> set is. sc_stops i \<noteq> []" using assms(1) by simp_all
  have t0: "new_state ?t0 = StopSent" "new_open_token ?t0 = Some ?inc" "emit_alert ?t0" "create_disable_task ?t0"
    using assms(2,3) stops(1) by (auto simp: decide_defs token_ok_def)
  let ?rest = "run_scans (StopSent, new_stage ?t0, Some ?inc) is"
  have run: "run_scans (st, stage, tok) (i0 # is) = ?t0 # ?rest" using t0(1,2) by (simp add: Let_def)
  have rest: "\<forall>t \<in> set ?rest. \<not> emit_alert t \<and> create_disable_task t \<and> new_open_token t = Some ?inc"
    by (rule stop_sent_persists [OF stops(2)])
  have len: "length (run_scans s xs) = length xs" for s xs
    by (induction s xs rule: run_scans.induct) (simp_all add: Let_def)
  have "replicate (length (map emit_alert ?rest)) False = map emit_alert ?rest"
    by (rule replicate_length_same) (use rest in auto)
  then have "map emit_alert ?rest = replicate (length is) False" by (simp add: len)
  with run rest t0 show ?thesis by (intro exI [of _ ?inc]) (auto simp: coalesce_def split: option.splits)
qed

theorem persisting_stop_is_one_incident_witness:
  "\<exists>incident. (\<forall>t \<in> set (run_scans (Normal, None, None)
       [\<lparr>sc_warnings = [], sc_stops = [''cpc_stop''], sc_reset = False, sc_fresh = 7\<rparr>,
        \<lparr>sc_warnings = [], sc_stops = [''cpl_stop''], sc_reset = False, sc_fresh = 8\<rparr>]).
     create_disable_task t \<and> new_open_token t = Some incident)"
  using persisting_stop_is_one_incident [of
      "\<lparr>sc_warnings = [], sc_stops = [''cpc_stop''], sc_reset = False, sc_fresh = 7\<rparr>"
      "[\<lparr>sc_warnings = [], sc_stops = [''cpl_stop''], sc_reset = False, sc_fresh = 8\<rparr>]" Normal None None]
  by (simp add: token_ok_def)

text \<open>
  A gap in the reopening of disabled advertisements: \<open>WITH_ISSUES\<close> counts as delivering, but
  only \<open>ACTIVE\<close> reopens a disabled advertisement, so one that is switched on again outside the
  program and delivers with issues stays \<open>disabled\<close>, and stop rules neither alert nor pause it.
\<close>

theorem reactivated_with_issues_is_not_stopped:
  "is_delivery_active (Some ''WITH_ISSUES'') \<and> \<not> should_reopen_disabled Disabled (Some ''WITH_ISSUES'') \<and>
   new_state (decide fresh \<lparr>current_state = Disabled, current_stage = stage, current_open_token = tok,
     in_warning_rule_codes = ws, in_stop_rule_codes = ss, is_cabinet_reset = r\<rparr>) = Disabled \<and>
   \<not> emit_alert (decide fresh \<lparr>current_state = Disabled, current_stage = stage, current_open_token = tok,
     in_warning_rule_codes = ws, in_stop_rule_codes = ss, is_cabinet_reset = r\<rparr>) \<and>
   \<not> create_disable_task (decide fresh \<lparr>current_state = Disabled, current_stage = stage,
     current_open_token = tok, in_warning_rule_codes = ws, in_stop_rule_codes = ss,
     is_cabinet_reset = r\<rparr>)"
proof -
  have "is_delivery_active (Some ''WITH_ISSUES'')" by code_simp
  moreover have "\<not> should_reopen_disabled Disabled (Some ''WITH_ISSUES'')" by code_simp
  ultimately show ?thesis by (simp add: decide_terminal)
qed

section \<open>The life of a row\<close>

text \<open>
  A history of one row, newest version first (\<open>None\<close> before the first insert). The observer may
  decide on any earlier version it has read; the other statements act on the current row.
\<close>

definition snapshot_input :: "ad_alert_row option \<Rightarrow> string list \<Rightarrow> string list \<Rightarrow> bool \<Rightarrow> fsm_input" where
  "snapshot_input snap ws ss reset =
     \<lparr>current_state = (case snap of None \<Rightarrow> Normal | Some r \<Rightarrow> ar_state r),
      current_stage = (case snap of None \<Rightarrow> None | Some r \<Rightarrow> ar_stage r),
      current_open_token = (case snap of None \<Rightarrow> None | Some r \<Rightarrow> ar_token r),
      in_warning_rule_codes = ws, in_stop_rule_codes = ss, is_cabinet_reset = reset\<rparr>"

inductive row_history :: "ad_alert_row option list \<Rightarrow> bool" where
  start: "row_history [None]"
| observe: "row_history h \<Longrightarrow> snap \<in> set h \<Longrightarrow> t = decide fresh (snapshot_input snap ws ss reset) \<Longrightarrow>
    t' = t \<or> t' = suppress_emit t \<Longrightarrow>
    row_history (Some (upsert_alert_state now scan t' (hd h)) # h)"
| reopen: "row_history (Some r # h) \<Longrightarrow>
    row_history (Some (fst (reopen_reactivated_alert_state now cd r)) # Some r # h)"
| sync: "row_history (Some r # h) \<Longrightarrow> mark_disabled_when_offline now cd ad r = Inr (r', eff, done) \<Longrightarrow>
    row_history (Some r' # Some r # h)"
| claim: "row_history (Some r # h) \<Longrightarrow> row_history (Some (fst (mark_alert_state_claimed now r)) # Some r # h)"
| disabled: "row_history (Some r # h) \<Longrightarrow>
    row_history (Some (fst (reset_alert_state_after_disable_succeeded now r)) # Some r # h)"
| enabled: "row_history (Some r # h) \<Longrightarrow>
    row_history (Some (fst (reset_alert_state_after_enable_succeeded now r)) # Some r # h)"

definition alert_row_ok :: "ad_alert_row \<Rightarrow> bool" where
  "alert_row_ok r \<longleftrightarrow> token_ok (ar_state r) (ar_token r)"

lemma upsert_row_ok:
  assumes "token_ok (new_state t) (new_open_token t)" "case cur of None \<Rightarrow> True | Some r \<Rightarrow> alert_row_ok r"
  shows "alert_row_ok (upsert_alert_state now scan t cur)"
  using assms by (auto simp: upsert_alert_state_def alert_row_ok_def split: option.splits)

lemma sync_row_ok:
  "mark_disabled_when_offline now cd ad r = Inr (r', eff, d) \<Longrightarrow> alert_row_ok r \<Longrightarrow> alert_row_ok r'"
  by (cases "ar_token r")
    (auto simp: mark_disabled_when_offline_def alert_row_ok_def token_ok_def split: if_splits)

lemma statement_row_ok:
  assumes "alert_row_ok r"
  shows "alert_row_ok (fst (reopen_reactivated_alert_state now cd r))" "alert_row_ok (fst (mark_alert_state_claimed now r))"
    "alert_row_ok (fst (reset_alert_state_after_disable_succeeded now r))"
    "alert_row_ok (fst (reset_alert_state_after_enable_succeeded now r))"
  using assms
  by (simp_all add: reopen_reactivated_alert_state_def mark_alert_state_claimed_def alert_row_ok_def
      token_ok_def reset_alert_state_after_disable_succeeded_def
      reset_alert_state_after_enable_succeeded_def)

lemma history_rows_ok:
  "row_history h \<Longrightarrow> h \<noteq> [] \<and> (\<forall>v \<in> set h. pred_option alert_row_ok v)"
proof (induction rule: row_history.induct)
  case (observe h snap t fresh ws ss reset t' now scan)
  have snap: "pred_option alert_row_ok snap" and cur: "pred_option alert_row_ok (hd h)"
    using observe by (cases h; auto)+
  have "token_ok (current_state (snapshot_input snap ws ss reset))
      (current_open_token (snapshot_input snap ws ss reset))"
    using snap by (cases snap) (auto simp: snapshot_input_def alert_row_ok_def token_ok_def)
  then have "token_ok (new_state t') (new_open_token t')"
    using decide_token_ok observe(3,4) by (auto simp: suppress_emit_def)
  then have "alert_row_ok (upsert_alert_state now scan t' (hd h))"
    using cur by (intro upsert_row_ok) (auto split: option.splits)
  with observe show ?case by simp
qed (simp_all add: statement_row_ok sync_row_ok)

text \<open>
  C31. Over every interleaving of observer scans (also on stale snapshots and under a snooze),
  claims, confirmed pauses and activations, reopenings and offline syncs, an open incident
  always has its token and a normal row has none; therefore the offline sync, which raises on
  an incident without a token, never raises.
\<close>

theorem open_incident_has_token:
  assumes "row_history (Some r # h)"
  shows "(ar_state r = WarningSent \<or> ar_state r = StopSent \<longrightarrow> ar_token r \<noteq> None) \<and>
    (ar_state r = Normal \<longrightarrow> ar_token r = None) \<and>
    (\<exists>out. mark_disabled_when_offline now cd ad r = Inr out)"
proof -
  have "alert_row_ok r" using history_rows_ok [OF assms] by simp
  then show ?thesis
    by (auto simp: alert_row_ok_def token_ok_def mark_disabled_when_offline_def split: option.splits)
qed

text \<open>
  The observer never undoes a claim or a confirmed pause: whatever snapshot it decided on,
  writing its transition leaves a \<open>claimed\<close> or \<open>disabled\<close> row exactly as it is; and a snooze
  changes the alert only, not the state, the token or the pause.
\<close>

theorem observer_keeps_final_states:
  "(ar_state r = Claimed \<or> ar_state r = Disabled \<longrightarrow>
      upsert_alert_state now scan (decide fresh (snapshot_input snap ws ss reset)) (Some r) = r) \<and>
   upsert_alert_state now scan (suppress_emit t) cur = upsert_alert_state now scan t cur \<and>
   create_disable_task (suppress_emit t) = create_disable_task t"
  by (auto simp: upsert_alert_state_def suppress_emit_def warnings_from_def stops_from_def
      split: option.splits)

definition sample_alert_row :: "alert_state \<Rightarrow> token option \<Rightarrow> ad_alert_row" where
  "sample_alert_row st tok = \<lparr>ar_state = st, ar_stage = None, ar_token = tok,
     ar_warning_rule_codes = [], ar_stop_rule_codes = [], ar_snoozed_until = None,
     ar_last_transition_at = 0, ar_last_scan_id = None, ar_grace_until = None,
     ar_grace_spend_cap = None, ar_grace_baseline_spend = None,
     ar_grace_cabinet_day_start = None, ar_grace_currency = None, ar_grace_currency_exponent = None\<rparr>"

lemma sample_history:
  "row_history [Some (upsert_alert_state 0 None
     (decide 7 (snapshot_input None [] [''cpc_stop''] False)) None), None]"
  using row_history.observe [OF row_history.start, of None _ 7 "[]" "[''cpc_stop'']" False _ 0 None] by simp

theorem open_incident_has_token_witness:
  "ar_state (upsert_alert_state 0 None (decide 7 (snapshot_input None [] [''cpc_stop''] False)) None) = StopSent \<and>
   ar_token (upsert_alert_state 0 None (decide 7 (snapshot_input None [] [''cpc_stop''] False)) None) \<noteq> None"
proof -
  have "ar_state (upsert_alert_state 0 None (decide 7 (snapshot_input None [] [''cpc_stop''] False)) None) = StopSent"
    by (simp add: upsert_alert_state_def decide_defs snapshot_input_def)
  with open_incident_has_token [OF sample_history] show ?thesis by simp
qed

theorem observer_keeps_final_states_witness:
  "upsert_alert_state 9 None (decide 7 (snapshot_input None [] [''cpc_stop''] False))
     (Some (sample_alert_row Claimed (Some 5))) = sample_alert_row Claimed (Some 5)"
  using observer_keeps_final_states [where r = "sample_alert_row Claimed (Some 5)" and snap = None]
  by (simp add: sample_alert_row_def)

end
