(* ===== verification/EnableGrace.thy ===== *)
theory EnableGrace
  imports AlertFsm
begin

text \<open>
  The curator's grace after a confirmed activation, \<open>core/observer/enable_grace.py\<close>: while a
  grace record is active the observer suppresses the rules of that advertisement. A timestamp
  is a number of microseconds with or without a timezone. What \<open>prepare_enable_grace\<close> reads
  through other modules and SQL is its argument: the cabinet day and the currency of the
  account (\<open>None\<close> where the resolver raises its unknown-error), the joined row, and the
  metrics of the advertisement, from which the latest of the day is selected here.
\<close>

section \<open>Records\<close>

datatype timestamp = Aware int | Naive int

fun ts_us :: "timestamp \<Rightarrow> int" where
  "ts_us (Aware t) = t"
| "ts_us (Naive t) = t"

fun is_naive :: "timestamp \<Rightarrow> bool" where
  "is_naive (Aware _) = False"
| "is_naive (Naive _) = True"

record enable_grace =
  eg_until :: int
  eg_spend_cap :: rat
  eg_baseline_spend :: rat
  eg_cabinet_day_start :: int
  eg_currency :: string
  eg_currency_exponent :: int

record prepared_enable_grace =
  pg_ad_id :: int
  pg_fb_ad_id :: string
  pg_grace :: enable_grace

section \<open>Activity\<close>

definition grace_is_active ::
    "enable_grace \<Rightarrow> timestamp \<Rightarrow> decimal option \<Rightarrow> timestamp \<Rightarrow> string option \<Rightarrow> exponent_arg \<Rightarrow> bool result" where
  "grace_is_active grace now spend cabinet_day_start currency ex =
     (if is_naive now \<or> is_naive cabinet_day_start
      then Inl (ValueError ''grace evaluation timestamps must be timezone-aware'')
      else if eg_cabinet_day_start grace \<noteq> ts_us cabinet_day_start then Inr False
      else ebind (require_currency_exponent currency ex) (\<lambda>(confirmed_currency, confirmed_exponent).
        if eg_currency grace \<noteq> confirmed_currency \<or> eg_currency_exponent grace \<noteq> confirmed_exponent
        then Inr False
        else case spend of
               None \<Rightarrow> Inr False
             | Some amount \<Rightarrow>
                 if eg_until grace \<le> ts_us now then Inr False
                 else ebind (require_exact_currency_amount (AmDecimal amount) (Some confirmed_currency)
                        (ExpInt confirmed_exponent) ''spend'' True) (\<lambda>current_spend.
                   Inr (\<not> current_spend < eg_baseline_spend grace \<and> current_spend < eg_spend_cap grace))))"

section \<open>Preparation\<close>

record grace_source =
  gs_ad_id :: int
  gs_delivery_status :: "string option"
  gs_alert_state :: "alert_state option"
  gs_metrics :: "(int \<times> decimal \<times> string option) list"
  gs_cpa_threshold :: "decimal option"
  gs_rule_currency :: "string option"

record cabinet_day =
  day_starts_at :: int
  day_ends_at :: int

text \<open>The lateral subquery: the latest metric of the cabinet day.\<close>

fun latest_metric ::
    "int \<Rightarrow> int \<Rightarrow> (int \<times> decimal \<times> string option) list \<Rightarrow> (int \<times> decimal \<times> string option) option" where
  "latest_metric from_ts to_ts [] = None"
| "latest_metric from_ts to_ts (m # ms) =
     (let rest = latest_metric from_ts to_ts ms
      in if from_ts \<le> fst m \<and> fst m \<le> to_ts
         then (case rest of None \<Rightarrow> Some m | Some n \<Rightarrow> if fst n < fst m then Some m else Some n)
         else rest)"

definition canonical_account_id :: "string option \<Rightarrow> string" where
  "canonical_account_id v =
     (let s = py_strip (or_empty v) in if take 4 s = ''act_'' then drop 4 s else s)"

text \<open>\<open>InvalidCurrencyAmountError\<close> is re-raised as the grace error; other errors pass through.\<close>

definition unsafe_amount :: "'a result \<Rightarrow> 'a result" where
  "unsafe_amount r =
     (case r of Inl (InvalidCurrencyAmountError m) \<Rightarrow> Inl (EnableGraceUnsafeError m) | _ \<Rightarrow> r)"

definition prepare_enable_grace ::
    "string \<Rightarrow> string option \<Rightarrow> amount_arg \<Rightarrow> int \<Rightarrow> timestamp \<Rightarrow> bool \<Rightarrow>
     cabinet_day option \<Rightarrow> string option \<Rightarrow> grace_source option \<Rightarrow> prepared_enable_grace result" where
  "prepare_enable_grace fb_ad_id ad_account_id requested_spend_cap grace_seconds now require_disabled
       cabinet_day account_currency source =
     (if is_naive now then Inl (ValueError ''now must be timezone-aware'')
      else if grace_seconds \<le> 0 then Inl (EnableGraceUnsafeError ''grace_seconds must be positive'')
      else if canonical_account_id ad_account_id = []
      then Inl (EnableGraceUnsafeError ''ad account identity is missing'')
      else case cabinet_day of
        None \<Rightarrow> Inl (EnableGraceUnsafeError ''IANA timezone is not confirmed'')
      | Some day \<Rightarrow>
      (case account_currency of
        None \<Rightarrow> Inl (EnableGraceUnsafeError ''currency is not confirmed'')
      | Some cur \<Rightarrow>
      (case currency_exponent (Some cur) of
        Inl _ \<Rightarrow> Inl (EnableGraceUnsafeError ''currency is not confirmed'')
      | Inr e \<Rightarrow>
      (case source of
        None \<Rightarrow> Inl (EnableGraceUnsafeError ''ad is absent from the requested cabinet'')
      | Some row \<Rightarrow>
          if require_disabled \<and>
             (\<not> is_delivery_activatable (gs_delivery_status row) \<or> gs_alert_state row \<noteq> Some Disabled)
          then Inl (EnableGraceUnsafeError ''ad is no longer confirmed OFF and disabled'')
          else (case latest_metric (day_starts_at day) (ts_us now) (gs_metrics row) of
            None \<Rightarrow> Inl (EnableGraceUnsafeError ''current cabinet-day spend is unknown'')
          | Some (_, spend, metric_currency) \<Rightarrow>
              if validated_currency_code metric_currency \<noteq> Some cur
              then Inl (EnableGraceUnsafeError ''latest spend currency does not match the cabinet'')
              else if validated_currency_code (gs_rule_currency row) \<noteq> Some cur
              then Inl (EnableGraceUnsafeError ''offer CPA currency does not match the cabinet'')
              else
                ebind (unsafe_amount (require_exact_currency_amount (AmDecimal spend) (Some cur)
                         (ExpInt e) ''baseline_spend'' True)) (\<lambda>baseline_spend.
                ebind (unsafe_amount (require_exact_currency_amount requested_spend_cap (Some cur)
                         (ExpInt e) ''spend_cap'' False)) (\<lambda>requested.
                ebind (case gs_cpa_threshold row of
                         None \<Rightarrow> Inr requested
                       | Some cpa \<Rightarrow>
                           ebind (unsafe_amount (require_exact_currency_amount (AmDecimal cpa) (Some cur)
                                    (ExpInt e) ''current_cpa'' False)) (\<lambda>current_cpa.
                             Inr (min requested current_cpa))) (\<lambda>spend_cap.
                if spend_cap \<le> baseline_spend
                then Inl (EnableGraceUnsafeError
                       ''current cabinet-day spend has already reached the absolute grace cap'')
                else let until = min (ts_us now + grace_seconds * 1000000) (day_ends_at day)
                     in if until \<le> ts_us now
                        then Inl (EnableGraceUnsafeError ''cabinet day ended before grace could start'')
                        else Inr \<lparr>pg_ad_id = gs_ad_id row, pg_fb_ad_id = fb_ad_id,
                               pg_grace = \<lparr>eg_until = until, eg_spend_cap = spend_cap,
                                 eg_baseline_spend = baseline_spend,
                                 eg_cabinet_day_start = day_starts_at day,
                                 eg_currency = cur, eg_currency_exponent = e\<rparr>\<rparr>))))))))"

section \<open>Storage\<close>

definition grace_columns :: "enable_grace \<Rightarrow> ad_alert_row \<Rightarrow> ad_alert_row" where
  "grace_columns g row = row\<lparr>
     ar_grace_until := Some (eg_until g), ar_grace_spend_cap := Some (eg_spend_cap g),
     ar_grace_baseline_spend := Some (eg_baseline_spend g),
     ar_grace_cabinet_day_start := Some (eg_cabinet_day_start g),
     ar_grace_currency := Some (eg_currency g),
     ar_grace_currency_exponent := Some (eg_currency_exponent g)\<rparr>"

text \<open>An inserted row takes the column defaults; \<open>now\<close> is the default of the transition time.\<close>

definition persist_enable_grace :: "int \<Rightarrow> prepared_enable_grace \<Rightarrow> ad_alert_row option \<Rightarrow> ad_alert_row" where
  "persist_enable_grace now prepared existing =
     grace_columns (pg_grace prepared)
       (case existing of
          Some row \<Rightarrow> row
        | None \<Rightarrow> \<lparr>ar_state = Normal, ar_stage = None, ar_token = None, ar_warning_rule_codes = [],
            ar_stop_rule_codes = [], ar_snoozed_until = None, ar_last_transition_at = now,
            ar_last_scan_id = None, ar_grace_until = None, ar_grace_spend_cap = None,
            ar_grace_baseline_spend = None, ar_grace_cabinet_day_start = None,
            ar_grace_currency = None, ar_grace_currency_exponent = None\<rparr>)"

definition clear_grace_columns :: "ad_alert_row \<Rightarrow> ad_alert_row" where
  "clear_grace_columns row = row\<lparr>
     ar_grace_until := None, ar_grace_spend_cap := None, ar_grace_baseline_spend := None,
     ar_grace_cabinet_day_start := None, ar_grace_currency := None,
     ar_grace_currency_exponent := None\<rparr>"

text \<open>\<open>fence_held\<close>: no lease was passed, or the locked lease row is still the caller's.\<close>

definition clear_enable_grace_for_currency_mismatch ::
    "bool \<Rightarrow> string option \<Rightarrow> exponent_arg \<Rightarrow> ad_alert_row \<Rightarrow> (ad_alert_row \<times> bool) result" where
  "clear_enable_grace_for_currency_mismatch fence_held currency ex row =
     ebind (require_currency_exponent currency ex) (\<lambda>(cur, e).
       if \<not> fence_held then Inl (RuntimeError ''cabinet fence rejected'')
       else if ar_grace_until row \<noteq> None \<and>
               (ar_grace_currency row \<noteq> Some cur \<or> ar_grace_currency_exponent row \<noteq> Some e)
       then Inr (clear_grace_columns row, True)
       else Inr (row, False))"

text \<open>The grace the observer rebuilds from a row: only a complete set of columns counts.\<close>

definition stored_grace :: "ad_alert_row \<Rightarrow> enable_grace option" where
  "stored_grace row =
     (case (ar_grace_until row, ar_grace_spend_cap row, ar_grace_baseline_spend row,
            ar_grace_cabinet_day_start row, ar_grace_currency row, ar_grace_currency_exponent row) of
        (Some u, Some cap, Some base, Some d, Some c, Some e) \<Rightarrow>
          Some \<lparr>eg_until = u, eg_spend_cap = cap, eg_baseline_spend = base,
                eg_cabinet_day_start = d, eg_currency = c, eg_currency_exponent = e\<rparr>
      | _ \<Rightarrow> None)"

section \<open>Properties\<close>

text \<open>
  Grace suppresses rules only on complete evidence: with timezone-aware times the check
  answers yes exactly when the record belongs to the current cabinet day, its currency and
  exponent are the confirmed ones, its time is not over, and a known, exact spend lies at or
  above the baseline and below the cap. Unknown spend, a spend that fell below the baseline,
  another day or another currency end the grace.
\<close>

theorem grace_active_iff:
  "grace_is_active g (Aware now) spend (Aware day) currency ex = Inr True \<longleftrightarrow>
     eg_cabinet_day_start g = day \<and>
     require_currency_exponent currency ex = Inr (eg_currency g, eg_currency_exponent g) \<and>
     now < eg_until g \<and>
     (\<exists>s. spend = Some (Finite s) \<and>
        require_exact_currency_amount (AmDecimal (Finite s)) (Some (eg_currency g))
          (ExpInt (eg_currency_exponent g)) ''spend'' True = Inr s \<and>
        eg_baseline_spend g \<le> s \<and> s < eg_spend_cap g)" (is "?L \<longleftrightarrow> ?R")
proof -
  have exact: "require_exact_currency_amount (AmDecimal d) c e f z = Inr s \<Longrightarrow> d = Finite s" for d c e f z s
    by (auto simp: require_exact_Inr decimal_of_arg_def)
  show ?thesis
  proof
    assume ?L
    then show ?R
      by (auto simp: grace_is_active_def ebind_eq_Inr split: if_splits option.splits)
        (metis exact not_less)
  next
    assume ?R
    then show ?L by (auto simp: grace_is_active_def)
  qed
qed

lemma unsafe_amount_Inr [simp]: "unsafe_amount r = Inr a \<longleftrightarrow> r = Inr a"
  by (auto simp: unsafe_amount_def split: sum.splits error.splits)

lemma unsafe_amount_cases: "unsafe_amount r = Inl e \<Longrightarrow> \<exists>e'. r = Inl e'"
  by (auto simp: unsafe_amount_def split: sum.splits error.splits)

lemma prepare_Inr:
  assumes "prepare_enable_grace ad acct req secs (Aware now) rd (Some day) (Some cur) (Some row) = Inr p"
  obtains e ts spend mc base cap0 where "currency_exponent (Some cur) = Inr e"
    "rd \<longrightarrow> is_delivery_activatable (gs_delivery_status row) \<and> gs_alert_state row = Some Disabled"
    "latest_metric (day_starts_at day) now (gs_metrics row) = Some (ts, spend, mc)"
    "validated_currency_code mc = Some cur"
    "require_exact_currency_amount (AmDecimal spend) (Some cur) (ExpInt e) ''baseline_spend'' True = Inr base"
    "require_exact_currency_amount req (Some cur) (ExpInt e) ''spend_cap'' False = Inr cap0"
    "eg_baseline_spend (pg_grace p) = base" "base < eg_spend_cap (pg_grace p)"
    "eg_spend_cap (pg_grace p) \<le> cap0"
    "\<forall>cpa. gs_cpa_threshold row = Some (Finite cpa) \<longrightarrow> eg_spend_cap (pg_grace p) \<le> cpa"
    "eg_until (pg_grace p) = min (now + secs * 1000000) (day_ends_at day)" "now < eg_until (pg_grace p)"
    "eg_cabinet_day_start (pg_grace p) = day_starts_at day" "eg_currency (pg_grace p) = cur"
    "eg_currency_exponent (pg_grace p) = e" "0 < secs"
proof -
  from assms have secs: "0 < secs" by (auto simp: prepare_enable_grace_def split: if_splits)
  from assms obtain e where src: "currency_exponent (Some cur) = Inr e"
    by (auto simp: prepare_enable_grace_def split: if_splits option.splits sum.splits)
  from assms src obtain ts spend mc where
    m: "latest_metric (day_starts_at day) now (gs_metrics row) = Some (ts, spend, mc)"
    "rd \<longrightarrow> is_delivery_activatable (gs_delivery_status row) \<and> gs_alert_state row = Some Disabled"
    "validated_currency_code mc = Some cur"
    by (auto simp: prepare_enable_grace_def split: if_splits option.splits)
  from assms src m obtain base cap0 cap where
    a: "require_exact_currency_amount (AmDecimal spend) (Some cur) (ExpInt e) ''baseline_spend'' True = Inr base"
    "require_exact_currency_amount req (Some cur) (ExpInt e) ''spend_cap'' False = Inr cap0"
    "(case gs_cpa_threshold row of
         None \<Rightarrow> Inr cap0
       | Some cpa \<Rightarrow>
           ebind (unsafe_amount (require_exact_currency_amount (AmDecimal cpa) (Some cur)
                    (ExpInt e) ''current_cpa'' False)) (\<lambda>current_cpa. Inr (min cap0 current_cpa))) = Inr cap"
    and rest: "\<not> cap \<le> base" "\<not> min (now + secs * 1000000) (day_ends_at day) \<le> now"
    "p = \<lparr>pg_ad_id = gs_ad_id row, pg_fb_ad_id = ad,
            pg_grace = \<lparr>eg_until = min (now + secs * 1000000) (day_ends_at day), eg_spend_cap = cap,
              eg_baseline_spend = base, eg_cabinet_day_start = day_starts_at day,
              eg_currency = cur, eg_currency_exponent = e\<rparr>\<rparr>"
    by (auto simp: prepare_enable_grace_def ebind_eq_Inr Let_def split: if_splits)
  have "cap \<le> cap0" "\<forall>cpa. gs_cpa_threshold row = Some (Finite cpa) \<longrightarrow> cap \<le> cpa"
    using a(3) by (auto simp: ebind_eq_Inr require_exact_Inr decimal_of_arg_def split: option.splits)
  with that [OF src m(2,1,3) a(1,2)] rest secs show thesis by simp
qed

lemma latest_metric_Some:
  "latest_metric a b ms = Some m \<Longrightarrow>
     m \<in> set ms \<and> a \<le> fst m \<and> fst m \<le> b \<and> (\<forall>n \<in> set ms. a \<le> fst n \<and> fst n \<le> b \<longrightarrow> fst n \<le> fst m)"
proof (induction a b ms arbitrary: m rule: latest_metric.induct)
  case (2 a b n ns)
  show ?case
  proof (cases "latest_metric a b ns")
    case None
    then have "\<forall>k \<in> set ns. \<not> (a \<le> fst k \<and> fst k \<le> b)"
      by (induction a b ns rule: latest_metric.induct) (auto simp: Let_def split: if_splits option.splits)
    then show ?thesis
      using 2(2) None by (auto simp: Let_def split: if_splits)
  next
    case (Some k)
    show ?thesis
      using 2(1) [OF Some] 2(2) Some by (auto simp: Let_def split: if_splits)
  qed
qed simp

text \<open>
  C35. A prepared grace is safe to store. Its baseline is the spend of the latest metric of the
  advertisement in the cabinet day up to now, in the currency of the cabinet, and its cap is above that
  spend, at most the cap that was asked for and at most the current CPA. It ends after now, within the
  asked duration and no later than the cabinet day, the advertisement was confirmed off and disabled
  where that is required, and at the moment of preparation it is active for that very spend.
\<close>

theorem prepared_grace_safe:
  assumes "prepare_enable_grace ad acct req secs (Aware now) rd (Some day) (Some cur) (Some row) = Inr p"
    and "g = pg_grace p"
  shows "(\<exists>ts mc. (ts, Finite (eg_baseline_spend g), mc) \<in> set (gs_metrics row) \<and>
       day_starts_at day \<le> ts \<and> ts \<le> now \<and> validated_currency_code mc = Some cur \<and>
       (\<forall>(ts', _) \<in> set (gs_metrics row). day_starts_at day \<le> ts' \<and> ts' \<le> now \<longrightarrow> ts' \<le> ts)) \<and>
    eg_baseline_spend g < eg_spend_cap g \<and>
    (\<forall>a. decimal_of_arg req = Some (Finite a) \<longrightarrow> eg_spend_cap g \<le> a) \<and>
    (\<forall>cpa. gs_cpa_threshold row = Some (Finite cpa) \<longrightarrow> eg_spend_cap g \<le> cpa) \<and>
    now < eg_until g \<and> eg_until g \<le> now + secs * 1000000 \<and> eg_until g \<le> day_ends_at day \<and>
    (rd \<longrightarrow> is_delivery_activatable (gs_delivery_status row) \<and> gs_alert_state row = Some Disabled) \<and>
    grace_is_active g (Aware now) (Some (Finite (eg_baseline_spend g))) (Aware (day_starts_at day))
      (Some cur) (ExpInt (eg_currency_exponent g)) = Inr True"
proof -
  obtain e ts spend mc base cap0 where p: "currency_exponent (Some cur) = Inr e"
    "rd \<longrightarrow> is_delivery_activatable (gs_delivery_status row) \<and> gs_alert_state row = Some Disabled"
    "latest_metric (day_starts_at day) now (gs_metrics row) = Some (ts, spend, mc)"
    "validated_currency_code mc = Some cur"
    "require_exact_currency_amount (AmDecimal spend) (Some cur) (ExpInt e) ''baseline_spend'' True = Inr base"
    "require_exact_currency_amount req (Some cur) (ExpInt e) ''spend_cap'' False = Inr cap0"
    "eg_baseline_spend (pg_grace p) = base" "base < eg_spend_cap (pg_grace p)"
    "eg_spend_cap (pg_grace p) \<le> cap0"
    "\<forall>cpa. gs_cpa_threshold row = Some (Finite cpa) \<longrightarrow> eg_spend_cap (pg_grace p) \<le> cpa"
    "eg_until (pg_grace p) = min (now + secs * 1000000) (day_ends_at day)" "now < eg_until (pg_grace p)"
    "eg_cabinet_day_start (pg_grace p) = day_starts_at day" "eg_currency (pg_grace p) = cur"
    "eg_currency_exponent (pg_grace p) = e" "0 < secs"
    by (rule prepare_Inr [OF assms(1)])
  note p = p [folded assms(2)]
  have "validated_currency_code (Some cur) = Some cur" using p(4) by (rule validated_normal)
  then have rce: "require_currency_exponent (Some cur) (ExpInt e) = Inr (cur, e)"
    using p(1) by (auto simp: require_currency_exponent_Inr currency_exponent_def split: option.splits)
  have exact: "require_exact_currency_amount (AmDecimal (Finite base)) (Some cur) (ExpInt e) ''spend'' True
      = Inr base"
    using p(5) by (auto simp: require_exact_Inr decimal_of_arg_def)
  have "decimal_of_arg req = Some (Finite a) \<Longrightarrow> a = cap0" for a
    using p(6) by (auto simp: require_exact_Inr)
  moreover have "grace_is_active g (Aware now) (Some (Finite (eg_baseline_spend g)))
      (Aware (day_starts_at day)) (Some cur) (ExpInt (eg_currency_exponent g)) = Inr True"
    unfolding grace_active_iff using p rce exact by auto
  moreover have "spend = Finite base"
    using p(5) by (auto simp: require_exact_Inr decimal_of_arg_def)
  then have "\<exists>ts mc. (ts, Finite (eg_baseline_spend g), mc) \<in> set (gs_metrics row) \<and>
       day_starts_at day \<le> ts \<and> ts \<le> now \<and> validated_currency_code mc = Some cur \<and>
       (\<forall>(ts', _) \<in> set (gs_metrics row). day_starts_at day \<le> ts' \<and> ts' \<le> now \<longrightarrow> ts' \<le> ts)"
    using latest_metric_Some [OF p(3)] p(4,7) by force
  ultimately show ?thesis using p by auto
qed

text \<open>Storing and reading back.\<close>

lemma stored_grace_columns [simp]: "stored_grace (grace_columns g row) = Some g"
  by (simp add: stored_grace_def grace_columns_def)

lemma stored_grace_cleared [simp]: "stored_grace (clear_grace_columns row) = None"
  by (simp add: stored_grace_def clear_grace_columns_def)

text \<open>
  The grace record survives storage unchanged: what the observer rebuilds from the row
  after \<open>persist_enable_grace\<close> is the prepared record, the alert state and token of an existing
  row are untouched, and the currency cleanup removes the record precisely when its currency
  or exponent is not the confirmed one.
\<close>

theorem grace_storage_roundtrip:
  "stored_grace (persist_enable_grace now p existing) = Some (pg_grace p) \<and>
   (existing = Some row \<longrightarrow>
      ar_state (persist_enable_grace now p existing) = ar_state row \<and>
      ar_token (persist_enable_grace now p existing) = ar_token row) \<and>
   (require_currency_exponent c ex = Inr (cur, e) \<longrightarrow>
      clear_enable_grace_for_currency_mismatch True c ex (persist_enable_grace now p existing)
        = (if eg_currency (pg_grace p) = cur \<and> eg_currency_exponent (pg_grace p) = e
           then Inr (persist_enable_grace now p existing, False)
           else Inr (clear_grace_columns (persist_enable_grace now p existing), True)))"
proof -
  have "stored_grace (persist_enable_grace now p existing) = Some (pg_grace p)"
    by (simp add: persist_enable_grace_def)
  moreover have "existing = Some row \<longrightarrow>
      ar_state (persist_enable_grace now p existing) = ar_state row \<and>
      ar_token (persist_enable_grace now p existing) = ar_token row"
    by (simp add: persist_enable_grace_def grace_columns_def)
  moreover have "ar_grace_until (persist_enable_grace now p existing) \<noteq> None"
    "ar_grace_currency (persist_enable_grace now p existing) = Some (eg_currency (pg_grace p))"
    "ar_grace_currency_exponent (persist_enable_grace now p existing) = Some (eg_currency_exponent (pg_grace p))"
    by (simp_all add: persist_enable_grace_def grace_columns_def)
  ultimately show ?thesis by (simp add: clear_enable_grace_for_currency_mismatch_def)
qed

definition sample_source :: grace_source where
  "sample_source = \<lparr>gs_ad_id = 1, gs_delivery_status = Some ''PAUSED'', gs_alert_state = Some Disabled,
     gs_metrics = [(5, Finite 4, Some ''USD''), (3, Finite 2, Some ''USD'')],
     gs_cpa_threshold = Some (Finite 20), gs_rule_currency = Some ''USD''\<rparr>"

definition sample_prepared :: prepared_enable_grace where
  "sample_prepared = \<lparr>pg_ad_id = 1, pg_fb_ad_id = ''1'', pg_grace = \<lparr>eg_until = 60000010, eg_spend_cap = 20,
     eg_baseline_spend = 4, eg_cabinet_day_start = 0, eg_currency = ''USD'', eg_currency_exponent = 2\<rparr>\<rparr>"

lemma sample_prepare:
  "prepare_enable_grace ''1'' (Some ''act_9'') (AmDecimal (Finite 30)) 60 (Aware 10) True
     (Some \<lparr>day_starts_at = 0, day_ends_at = 86400000000\<rparr>) (Some ''USD'') (Some sample_source)
   = Inr sample_prepared"
proof -
  have "require_exact_currency_amount (AmDecimal (Finite 4)) (Some ''USD'') (ExpInt 2) ''baseline_spend'' True = Inr 4"
    "require_exact_currency_amount (AmDecimal (Finite 30)) (Some ''USD'') (ExpInt 2) ''spend_cap'' False = Inr 30"
    "require_exact_currency_amount (AmDecimal (Finite 20)) (Some ''USD'') (ExpInt 2) ''current_cpa'' False = Inr 20"
    "currency_exponent (Some ''USD'') = Inr 2" "validated_currency_code (Some ''USD'') = Some ''USD''"
    "canonical_account_id (Some ''act_9'') = ''9''" "is_delivery_activatable (Some ''PAUSED'')"
    by code_simp+
  then show ?thesis
    by (simp add: prepare_enable_grace_def sample_source_def sample_prepared_def unsafe_amount_def)
qed

theorem prepared_grace_safe_witness:
  "prepare_enable_grace ''1'' (Some ''act_9'') (AmDecimal (Finite 30)) 60 (Aware 10) True
     (Some \<lparr>day_starts_at = 0, day_ends_at = 86400000000\<rparr>) (Some ''USD'') (Some sample_source)
   = Inr sample_prepared \<and>
   grace_is_active (pg_grace sample_prepared) (Aware 10) (Some (Finite 4)) (Aware 0) (Some ''USD'')
     (ExpInt 2) = Inr True \<and>
   (\<exists>mc. (5, Finite (eg_baseline_spend (pg_grace sample_prepared)), mc) \<in> set (gs_metrics sample_source))"
  using prepared_grace_safe [OF sample_prepare refl] sample_prepare by (simp add: sample_prepared_def sample_source_def)

theorem grace_storage_roundtrip_witness:
  "ar_state (persist_enable_grace 0 sample_prepared (Some (sample_alert_row Disabled (Some 5)))) = Disabled \<and>
   clear_enable_grace_for_currency_mismatch True (Some ''USD'') (ExpInt 2)
     (persist_enable_grace 0 sample_prepared None) = Inr (persist_enable_grace 0 sample_prepared None, False)"
proof -
  have "require_currency_exponent (Some ''USD'') (ExpInt 2) = Inr (''USD'', 2)" by code_simp
  then show ?thesis
    using grace_storage_roundtrip [of 0 sample_prepared None]
      grace_storage_roundtrip [of 0 sample_prepared "Some (sample_alert_row Disabled (Some 5))"]
    by (simp add: sample_prepared_def sample_alert_row_def)
qed

end
