(* ===== verification/ObserverRow.thy ===== *)
theory ObserverRow
  imports RuleProps EnableGrace
begin

text \<open>
  One scanned row through the observer, \<open>core/observer/pipeline.py\<close>: the rule context built from
  the matched offer, the evaluation, the grace that suppresses it, reopening and offline sync,
  the decision, the snooze, and what \<open>apply_fsm_transition\<close> writes. The offer of the row is the
  result of the matcher; the catalogue and metrics writes are represented by whether the
  metrics were stored. \<open>snap\<close> is the alert row as read at the start of the cycle and \<open>db\<close> the
  row at the time of the writes, so that a stale snapshot is covered. The refresh of a repeated
  warning whose risk grew is not part of this model.
\<close>

section \<open>Rule context of an offer\<close>

record offer_rules =
  of_code :: string
  of_cpa_threshold :: "decimal option"
  of_frequency_threshold :: "rat option"
  of_currency :: "string option"
  of_stop_percent_of_rule :: "decimal option"
  of_warning_percent_of_stop :: "decimal option"
  of_cpc_percent_of_cpa :: "rat option"
  of_cpl_percent_of_cpa :: "rat option"
  of_cpr_percent_of_cpa :: "rat option"
  of_regs_no_dep_stop_count :: "int option"
  of_spend_no_dep_from_percent :: "rat option"
  of_spend_no_dep_to_percent :: "rat option"
  of_spend_with_dep_from_percent :: "rat option"
  of_spend_with_dep_to_percent :: "rat option"
  of_min_ratio_denominator :: "int option"

definition with_effective_tracker_registrations :: "scanned_ad_row \<Rightarrow> int \<Rightarrow> scanned_ad_row" where
  "with_effective_tracker_registrations row tracker =
     (let effective = max (row_registrations row) tracker
      in if effective = row_registrations row then row else row\<lparr>row_registrations := effective\<rparr>)"

fun valid_percent :: "decimal option \<Rightarrow> rat option" where
  "valid_percent (Some (Finite p)) = (if p \<le> 0 \<or> 100 < p then None else Some p)"
| "valid_percent _ = None"

definition offer_settings ::
    "offer_rules \<Rightarrow> rat \<Rightarrow> rat \<Rightarrow> int \<Rightarrow> int option \<Rightarrow> rat option \<Rightarrow> int option \<Rightarrow> int option \<Rightarrow> bool \<Rightarrow> rat \<Rightarrow> rat \<Rightarrow> rule_settings" where
  "offer_settings offer warning_pct stop_pct ext_deposits td freq_cur impr rch freq_enabled freq_stop freq_warning =
     (default_settings warning_pct)\<lparr>
       stop_percent_of_base := stop_pct,
       external_deposits := ext_deposits, today_deposits := td,
       frequency_anomaly_enabled := freq_enabled,
       frequency_current := (if freq_enabled then freq_cur else None),
       frequency_stop_threshold := freq_stop, frequency_warning_threshold := freq_warning,
       impressions := impr, reach := rch,
       cpc_percent_of_cpa := coalesce (of_cpc_percent_of_cpa offer) CPC_PERCENT_OF_CPA,
       cpl_percent_of_cpa := coalesce (of_cpl_percent_of_cpa offer) CPL_PERCENT_OF_CPA,
       cpr_percent_of_cpa := coalesce (of_cpr_percent_of_cpa offer) CPR_PERCENT_OF_CPA,
       regs_no_dep_stop_count := coalesce (of_regs_no_dep_stop_count offer) REGS_NO_DEP_STOP_COUNT,
       spend_no_dep_from_percent := coalesce (of_spend_no_dep_from_percent offer) SPEND_NO_DEP_FROM_PERCENT,
       spend_no_dep_to_percent := coalesce (of_spend_no_dep_to_percent offer) SPEND_NO_DEP_TO_PERCENT,
       spend_with_dep_from_percent := coalesce (of_spend_with_dep_from_percent offer) SPEND_WITH_DEP_FROM_PERCENT,
       spend_with_dep_to_percent := coalesce (of_spend_with_dep_to_percent offer) SPEND_WITH_DEP_TO_PERCENT,
       min_ratio_denominator := coalesce (of_min_ratio_denominator offer) MIN_RATIO_DENOMINATOR\<rparr>"

text \<open>The \<open>except\<close> clause around the constructor.\<close>

definition invalid_cpa :: "'a result \<Rightarrow> 'a result" where
  "invalid_cpa r =
     (case r of Inl (InvalidCurrencyAmountError _) \<Rightarrow> Inl (MissingOfferCpaError ''invalid CPA precision'')
      | _ \<Rightarrow> r)"

definition build_rule_context ::
    "offer_rules \<Rightarrow> string option \<Rightarrow> exponent_arg \<Rightarrow> int \<Rightarrow> int option \<Rightarrow> rat option \<Rightarrow> int option \<Rightarrow> int option \<Rightarrow> rule_context result" where
  "build_rule_context offer account_currency ex ext_deposits td freq_cur impr rch =
     (case of_cpa_threshold offer of
        Some (Finite cpa) \<Rightarrow>
          if cpa \<le> 0 then Inl (MissingOfferCpaError ''no positive finite cpa_threshold'')
          else ebind (require_currency_exponent account_currency ex) (\<lambda>(cur, e).
            if validated_currency_code (of_currency offer) \<noteq> Some cur
            then Inl (OfferCurrencyMismatchError ''currency does not match cabinet'')
            else case (valid_percent (of_warning_percent_of_stop offer), valid_percent (of_stop_percent_of_rule offer)) of
                (Some warning_pct, Some stop_pct) \<Rightarrow>
                  let freq_enabled = (case of_frequency_threshold offer of None \<Rightarrow> False | Some t \<Rightarrow> 0 < t);
                      freq_stop = (if freq_enabled then coalesce (of_frequency_threshold offer) 0 else 7 / 2)
                  in ebind (if freq_enabled
                            then quantize ROUND_HALF_EVEN (ddiv (dmul freq_stop warning_pct) 100) (1 / 100)
                            else Inr (5 / 2)) (\<lambda>freq_warning.
                       invalid_cpa (post_init (rule_settings.extend
                              (offer_settings offer warning_pct stop_pct ext_deposits td freq_cur impr rch
                                 freq_enabled freq_stop freq_warning)
                              \<lparr>rp_currency = cur, rp_currency_exponent = e, rp_cpa_amount = Finite cpa\<rparr>)))
              | _ \<Rightarrow> Inl (InvalidOfferSensitivityError ''no confirmed sensitivity configuration''))
      | _ \<Rightarrow> Inl (MissingOfferCpaError ''no positive finite cpa_threshold''))"

section \<open>The row\<close>

record row_env =
  env_fb_ad_id :: string
  env_scan_id :: "int option"
  env_cycle_ts :: int
  env_db_now :: int
  env_cabinet_day_start :: int
  env_currency :: string
  env_exponent :: int
  env_reset :: bool
  env_fresh :: token
  env_fresh_task :: token
  env_fence_held :: bool
  env_metrics_inserted :: bool
  env_ext_deposits :: int
  env_today_deposits :: "int option"
  env_tracker_registrations :: int
  env_command :: "token \<Rightarrow> error option"

datatype row_effect =
    AlertEvent fsm_stage alert_state "string list" "token option"
  | OpenIncident token fsm_stage "string list"
  | RecoverIncident token
  | PauseCommand token
  | SyncEffect fsm_effect

record row_outcome =
  ro_error :: "error option"
  ro_db :: "ad_alert_row option"
  ro_effects :: "row_effect list"
  ro_transition :: "fsm_transition option"
  ro_grace_suppressed :: bool

definition failed_row :: "error \<Rightarrow> ad_alert_row option \<Rightarrow> row_outcome" where
  "failed_row e db = \<lparr>ro_error = Some e, ro_db = db, ro_effects = [], ro_transition = None,
     ro_grace_suppressed = False\<rparr>"

text \<open>What \<open>apply_fsm_transition\<close> writes beside the state: the alert event, the incident, the
  recovery and the pause command, all in the one transaction. \<open>env_command\<close> is what
  \<open>CommandService.enqueue_ad_action\<close> raises for the command of an incident token, if anything:
  the exception leaves the transaction, so that nothing of it is committed. The theory
  \<open>Commands\<close> gives that function.\<close>

definition open_incident_token :: "fsm_transition \<Rightarrow> ad_alert_row option \<Rightarrow> token option" where
  "open_incident_token t db =
     (case new_open_token t of Some k \<Rightarrow> Some k | None \<Rightarrow> (case db of None \<Rightarrow> None | Some r \<Rightarrow> ar_token r))"

definition transition_effects :: "token \<Rightarrow> fsm_transition \<Rightarrow> ad_alert_row option \<Rightarrow> row_effect list" where
  "transition_effects fresh_task t db =
     (let previous = (case db of None \<Rightarrow> None | Some r \<Rightarrow> ar_token r);
          open_token = open_incident_token t db
      in (case (emit_alert t, tr_alert_stage t) of
            (True, Some stage) \<Rightarrow>
              AlertEvent stage (new_state t) (alert_rule_codes t) (new_open_token t) #
              (case open_token of None \<Rightarrow> [] | Some k \<Rightarrow> [OpenIncident k stage (alert_rule_codes t)])
          | _ \<Rightarrow> []) @
         (case (new_state t, previous) of (Normal, Some k) \<Rightarrow> [RecoverIncident k] | _ \<Rightarrow> []) @
         (if create_disable_task t then [PauseCommand (coalesce open_token fresh_task)] else []))"

definition apply_fsm_transition ::
    "row_env \<Rightarrow> fsm_transition \<Rightarrow> ad_alert_row option \<Rightarrow> (ad_alert_row \<times> row_effect list) result" where
  "apply_fsm_transition env t db =
     (case validated_currency_code (Some (env_currency env)) of
        None \<Rightarrow> Inl (ValueError ''observer incident currency must be confirmed'')
      | Some _ \<Rightarrow>
          if \<not> env_fence_held env then Inl (CabinetFenceRejected ''cabinet fence rejected'')
          else case (if create_disable_task t
                     then env_command env (coalesce (open_incident_token t db) (env_fresh_task env)) else None) of
            Some e \<Rightarrow> Inl e
          | None \<Rightarrow> Inr (upsert_alert_state (env_db_now env) (env_scan_id env) t db,
                         transition_effects (env_fresh_task env) t db))"

definition finish_row ::
    "row_env \<Rightarrow> string list \<Rightarrow> string list \<Rightarrow> bool \<Rightarrow> ad_alert_row option \<Rightarrow> ad_alert_row option \<Rightarrow> row_outcome" where
  "finish_row env warning_codes stop_codes suppressed snap db =
     (let t0 = decide (env_fresh env) (snapshot_input snap warning_codes stop_codes (env_reset env));
          snoozed = (case snap of None \<Rightarrow> False
                     | Some r \<Rightarrow> (case ar_snoozed_until r of None \<Rightarrow> False | Some u \<Rightarrow> env_cycle_ts env < u));
          t = (if snoozed then suppress_emit t0 else t0)
      in case apply_fsm_transition env t db of
           Inl e \<Rightarrow> (failed_row e db)\<lparr>ro_grace_suppressed := suppressed\<rparr>
         | Inr (row, effects) \<Rightarrow>
             \<lparr>ro_error = None, ro_db = Some row, ro_effects = effects, ro_transition = Some t,
              ro_grace_suppressed = suppressed\<rparr>)"

text \<open>Reopening, offline sync, then the decision.\<close>

definition sync_and_finish ::
    "row_env \<Rightarrow> string option \<Rightarrow> string list \<Rightarrow> string list \<Rightarrow> bool \<Rightarrow> ad_alert_row option \<Rightarrow> ad_alert_row option \<Rightarrow> row_outcome" where
  "sync_and_finish env delivery warning_codes stop_codes suppressed snap db =
     (case (snap, db) of
        (Some s, Some d) \<Rightarrow>
          if should_reopen_disabled (ar_state s) delivery
          then if \<not> env_fence_held env
               then (failed_row (CabinetFenceRejected ''cabinet fence rejected'') db)\<lparr>ro_grace_suppressed := suppressed\<rparr>
               else (case reopen_reactivated_alert_state (env_db_now env) REACTIVATION_COOLDOWN_MINUTES d of
                 (d', reopened) \<Rightarrow>
                   finish_row env warning_codes stop_codes suppressed (if reopened then None else snap) (Some d'))
          else if should_sync_disabled (ar_state s) delivery
          then if \<not> env_fence_held env
               then (failed_row (CabinetFenceRejected ''cabinet fence rejected'') db)\<lparr>ro_grace_suppressed := suppressed\<rparr>
               else (case mark_disabled_when_offline (env_db_now env) REACTIVATION_COOLDOWN_MINUTES (env_fb_ad_id env) d of
                  Inl e \<Rightarrow> (failed_row e db)\<lparr>ro_grace_suppressed := suppressed\<rparr>
                | Inr (d', effects, done) \<Rightarrow>
                    if done
                    then \<lparr>ro_error = None, ro_db = Some d', ro_effects = map SyncEffect effects,
                          ro_transition = None, ro_grace_suppressed = suppressed\<rparr>
                    else finish_row env warning_codes stop_codes suppressed snap db)
          else finish_row env warning_codes stop_codes suppressed snap db
      | _ \<Rightarrow> finish_row env warning_codes stop_codes suppressed snap db)"

text \<open>Grace in another currency is removed before anything is decided.\<close>

definition drop_foreign_grace ::
    "row_env \<Rightarrow> ad_alert_row option \<Rightarrow> ad_alert_row option \<Rightarrow> (ad_alert_row option \<times> ad_alert_row option) result" where
  "drop_foreign_grace env snap db =
     (case snap of
        Some s \<Rightarrow>
          if ar_grace_until s \<noteq> None \<and>
             (ar_grace_currency s \<noteq> Some (env_currency env) \<or> ar_grace_currency_exponent s \<noteq> Some (env_exponent env))
          then (case db of
                  None \<Rightarrow> ebind (require_currency_exponent (Some (env_currency env)) (ExpInt (env_exponent env)))
                            (\<lambda>_. if env_fence_held env then Inr (Some (clear_grace_columns s), None)
                                 else Inl (RuntimeError ''cabinet fence rejected''))
                | Some d \<Rightarrow>
                    ebind (clear_enable_grace_for_currency_mismatch (env_fence_held env)
                             (Some (env_currency env)) (ExpInt (env_exponent env)) d) (\<lambda>(d', _).
                      Inr (Some (clear_grace_columns s), Some d')))
          else Inr (snap, db)
      | None \<Rightarrow> Inr (snap, db))"

definition grace_suppresses ::
    "row_env \<Rightarrow> decimal \<Rightarrow> string list \<Rightarrow> string list \<Rightarrow> ad_alert_row option \<Rightarrow> bool result" where
  "grace_suppresses env spend warning_codes stop_codes snap =
     (case snap of
        None \<Rightarrow> Inr False
      | Some s \<Rightarrow>
          (case stored_grace s of
             None \<Rightarrow> Inr False
           | Some g \<Rightarrow>
               if stop_codes = [] \<and> warning_codes = [] then Inr False
               else grace_is_active g (Aware (env_cycle_ts env)) (Some spend)
                      (Aware (env_cabinet_day_start env)) (Some (env_currency env))
                      (ExpInt (env_exponent env))))"

fun finite_part :: "decimal option \<Rightarrow> rat option" where
  "finite_part (Some (Finite f)) = Some f"
| "finite_part _ = None"

definition process_matched_row ::
    "row_env \<Rightarrow> offer_rules \<Rightarrow> scanned_ad_row \<Rightarrow> ad_alert_row option \<Rightarrow> ad_alert_row option \<Rightarrow> row_outcome" where
  "process_matched_row env offer row0 snap db =
     (let row = with_effective_tracker_registrations row0 (env_tracker_registrations env);
          evaluation = ebind (build_rule_context offer (Some (env_currency env)) (ExpInt (env_exponent env))
                         (env_ext_deposits env) (env_today_deposits env) (finite_part (row_frequency row))
                         (Some (row_impressions row)) (Some (row_reach row)))
                       (\<lambda>ctx. evaluate_stop_rules row ctx)
      in if \<not> env_metrics_inserted env then failed_row (RuntimeError ''ad_metrics_insert_failed'') db
         else case evaluation of
           Inl (OfferCurrencyMismatchError m) \<Rightarrow> failed_row (OfferCurrencyMismatchError m) db
         | _ \<Rightarrow>
             (case drop_foreign_grace env snap db of
                Inl e \<Rightarrow> failed_row e db
              | Inr (snap', db') \<Rightarrow>
                  (case evaluation of
                     Inl e \<Rightarrow> failed_row e db'
                   | Inr ev \<Rightarrow>
                       (case grace_suppresses env (row_spend row) (warning_rule_codes ev) (stop_rule_codes ev) snap' of
                          Inl e \<Rightarrow> failed_row e db'
                        | Inr True \<Rightarrow> sync_and_finish env (Some (row_delivery_status row)) [] [] True snap' db'
                        | Inr False \<Rightarrow>
                            sync_and_finish env (Some (row_delivery_status row)) (warning_rule_codes ev)
                              (stop_rule_codes ev) False snap' db'))))"

section \<open>Contexts built from offers\<close>

lemma valid_percent_Some: "valid_percent d = Some p \<Longrightarrow> 0 < p \<and> p \<le> 100"
  by (cases d rule: valid_percent.cases) (auto split: if_splits)

lemma invalid_cpa_Inr [simp]: "invalid_cpa r = Inr x \<longleftrightarrow> r = Inr x"
  by (auto simp: invalid_cpa_def split: sum.splits error.splits)

lemma build_rule_context_Inr:
  assumes "build_rule_context offer cur ex ed td fc im rc = Inr ctx"
  obtains cpa code e wp sp fe fs fw where "of_cpa_threshold offer = Some (Finite cpa)" "0 < cpa"
    "require_currency_exponent cur ex = Inr (code, e)" "validated_currency_code (of_currency offer) = Some code"
    "0 < wp" "wp \<le> 100" "0 < sp" "sp \<le> 100"
    "post_init (rule_settings.extend (offer_settings offer wp sp ed td fc im rc fe fs fw)
       \<lparr>rp_currency = code, rp_currency_exponent = e, rp_cpa_amount = Finite cpa\<rparr>) = Inr ctx"
proof -
  from assms obtain cpa where cpa: "of_cpa_threshold offer = Some (Finite cpa)" "0 < cpa"
    by (cases "of_cpa_threshold offer" rule: valid_percent.cases)
      (simp_all add: build_rule_context_def split: if_splits)
  from assms obtain code e where cur: "require_currency_exponent cur ex = Inr (code, e)"
    "validated_currency_code (of_currency offer) = Some code"
    using cpa by (auto simp: build_rule_context_def ebind_eq_Inr split: if_splits)
  from assms cpa cur obtain wp sp where p: "valid_percent (of_warning_percent_of_stop offer) = Some wp"
    "valid_percent (of_stop_percent_of_rule offer) = Some sp"
    by (cases "valid_percent (of_warning_percent_of_stop offer)";
        cases "valid_percent (of_stop_percent_of_rule offer)")
      (simp_all add: build_rule_context_def)
  from assms cpa cur p obtain fe fs fw where
    "post_init (rule_settings.extend (offer_settings offer wp sp ed td fc im rc fe fs fw)
       \<lparr>rp_currency = code, rp_currency_exponent = e, rp_cpa_amount = Finite cpa\<rparr>) = Inr ctx"
    by (auto simp: build_rule_context_def ebind_eq_Inr Let_def)
  with that cpa cur valid_percent_Some [OF p(1)] valid_percent_Some [OF p(2)] show thesis by blast
qed

definition offer_shares_nonneg :: "offer_rules \<Rightarrow> bool" where
  "offer_shares_nonneg offer \<longleftrightarrow>
     list_all (\<lambda>p. 0 \<le> coalesce p 0)
       [of_cpc_percent_of_cpa offer, of_cpl_percent_of_cpa offer, of_cpr_percent_of_cpa offer]"

text \<open>
  C34. Rules are only evaluated on a confirmed monetary baseline: a context built from an offer
  has the cabinet's own reviewed currency, the offer's currency agrees with it, the CPA is
  positive and exact in it, and (with non-negative shares of the CPA) every threshold triple
  is ordered; otherwise building the context raises and no decision is made.
\<close>

theorem built_context_sound:
  assumes "build_rule_context offer cur ex ed td fc im rc = Inr ctx" "offer_shares_nonneg offer"
  shows "ctx_ok ctx \<and> validated_currency_code (of_currency offer) = Some (rc_currency ctx) \<and>
    validated_currency_code cur = Some (rc_currency ctx) \<and>
    of_cpa_threshold offer = Some (Finite (cpa_amount ctx)) \<and> external_deposits ctx = ed"
proof -
  from assms(1) obtain cpa code e wp sp fe fs fw where
    b: "of_cpa_threshold offer = Some (Finite cpa)" "0 < cpa"
    "require_currency_exponent cur ex = Inr (code, e)" "validated_currency_code (of_currency offer) = Some code"
    "0 < wp" "wp \<le> 100" "0 < sp" "sp \<le> 100"
    "post_init (rule_settings.extend (offer_settings offer wp sp ed td fc im rc fe fs fw)
       \<lparr>rp_currency = code, rp_currency_exponent = e, rp_cpa_amount = Finite cpa\<rparr>) = Inr ctx"
    by (rule build_rule_context_Inr)
  let ?p = "rule_settings.extend (offer_settings offer wp sp ed td fc im rc fe fs fw)
       \<lparr>rp_currency = code, rp_currency_exponent = e, rp_cpa_amount = Finite cpa\<rparr>"
  have "percents_valid ?p"
    using assms(2) b(5-8)
    by (auto simp: percents_valid_def offer_shares_nonneg_def offer_settings_def default_settings_def
        effective_defs rule_settings.defs coalesce_def CPC_PERCENT_OF_CPA_def CPL_PERCENT_OF_CPA_def
        CPR_PERCENT_OF_CPA_def split: option.splits)
  with b(9) have ok: "ctx_ok ctx" by (rule post_init_ctx_ok)
  have "rc_currency ctx = code \<and> cpa_amount ctx = cpa \<and> external_deposits ctx = ed"
    using b(9) require_currency_exponent_canonical [OF b(3)]
    by (auto simp: post_init_def ebind_eq_Inr rule_settings.defs offer_settings_def require_exact_Inr
        decimal_of_arg_def default_settings_def split: prod.splits)
  with ok b(1,3,4) show ?thesis by (auto simp: require_currency_exponent_Inr)
qed

section \<open>Properties of the row\<close>

lemma stop_codes_nonempty:
  assumes "evaluate_stop_rules row ctx = Inr ev" "ev_stage ev = Some STOP"
  shows "stop_rule_codes ev \<noteq> []"
proof -
  from evaluate_stop_rules_Inr [OF assms(1)] obtain h where
    "stage_level (ev_stage ev) = max (hit_level h) (hit_level (evaluate_frequency_anomaly ctx))"
    "matched_hits ev = (case pick_highest_priority_hit [h, evaluate_frequency_anomaly ctx] of
                          None \<Rightarrow> [] | Some f \<Rightarrow> [f])" by metis
  moreover from this have "hit_level (pick_highest_priority_hit [h, evaluate_frequency_anomaly ctx]) = 2"
    using assms(2) by (simp add: pick_level)
  ultimately show ?thesis
    using assms(2) by (auto simp: stop_rule_codes_def matched_hits_def split: option.splits)
qed

lemma apply_Inr:
  "apply_fsm_transition env t db = Inr (row, eff) \<Longrightarrow>
     row = upsert_alert_state (env_db_now env) (env_scan_id env) t db \<and>
     eff = transition_effects (env_fresh_task env) t db"
  by (auto simp: apply_fsm_transition_def split: option.splits if_splits)

lemma transition_pause:
  "create_disable_task t \<Longrightarrow> \<exists>k. PauseCommand k \<in> set (transition_effects f t db)"
  by (simp add: transition_effects_def Let_def)

lemma decide_stop_disables:
  "has_stops inp \<Longrightarrow> current_state inp \<in> {Normal, WarningSent, StopSent} \<Longrightarrow> create_disable_task (decide f inp)"
  by (auto simp: decide_def stop_alert_def Let_def)

lemma finish_row_ok:
  assumes "ro_error (finish_row env ws ss g snap db) = None"
  shows "\<exists>t. (t = decide (env_fresh env) (snapshot_input snap ws ss (env_reset env)) \<or>
      t = suppress_emit (decide (env_fresh env) (snapshot_input snap ws ss (env_reset env)))) \<and>
    ro_db (finish_row env ws ss g snap db) = Some (upsert_alert_state (env_db_now env) (env_scan_id env) t db) \<and>
    ro_effects (finish_row env ws ss g snap db) = transition_effects (env_fresh_task env) t db"
proof -
  define t0 where "t0 = decide (env_fresh env) (snapshot_input snap ws ss (env_reset env))"
  define t where "t = (if case snap of None \<Rightarrow> False
      | Some r \<Rightarrow> (case ar_snoozed_until r of None \<Rightarrow> False | Some u \<Rightarrow> env_cycle_ts env < u)
    then suppress_emit t0 else t0)"
  note F = finish_row_def [of env ws ss g snap db, unfolded Let_def, folded t0_def, folded t_def]
  obtain row eff where r: "apply_fsm_transition env t db = Inr (row, eff)"
    using assms by (auto simp: F failed_row_def split: sum.splits)
  have "t = t0 \<or> t = suppress_emit t0"
    by (simp add: t_def)
  then show ?thesis
    using apply_Inr [OF r] r by (intro exI [of _ t]) (simp add: F t0_def)
qed

lemma finish_row_stop:
  assumes "ro_error (finish_row env ws ss g snap db) = None" "ss \<noteq> []"
    "case snap of None \<Rightarrow> True | Some s \<Rightarrow> ar_state s \<in> {Normal, WarningSent, StopSent}"
  shows "\<exists>k. PauseCommand k \<in> set (ro_effects (finish_row env ws ss g snap db))"
proof -
  have "create_disable_task (decide (env_fresh env) (snapshot_input snap ws ss (env_reset env)))"
    using assms(2,3) by (intro decide_stop_disables) (auto simp: has_stops_def snapshot_input_def split: option.splits)
  then have "create_disable_task t" if "t = decide (env_fresh env) (snapshot_input snap ws ss (env_reset env)) \<or>
      t = suppress_emit (decide (env_fresh env) (snapshot_input snap ws ss (env_reset env)))" for t
    using that by (auto simp: suppress_emit_def)
  then show ?thesis
    using finish_row_ok [OF assms(1)] transition_pause by metis
qed

lemma finish_row_fields [simp]:
  "ro_grace_suppressed (finish_row env ws ss g snap db) = g"
  by (auto simp: finish_row_def Let_def split: sum.splits)

lemma sync_and_finish_fields [simp]:
  "ro_grace_suppressed (sync_and_finish env dl ws ss g snap db) = g"
  by (auto simp: sync_and_finish_def split: option.splits sum.splits prod.splits)

text \<open>How a returned row got there.\<close>

lemma process_matched_row_ok:
  assumes "ro_error (process_matched_row env offer row0 snap db) = None"
    and "row = with_effective_tracker_registrations row0 (env_tracker_registrations env)"
  obtains ctx ev snap' db' where
    "build_rule_context offer (Some (env_currency env)) (ExpInt (env_exponent env)) (env_ext_deposits env)
       (env_today_deposits env) (finite_part (row_frequency row)) (Some (row_impressions row))
       (Some (row_reach row)) = Inr ctx"
    "evaluate_stop_rules row ctx = Inr ev" "drop_foreign_grace env snap db = Inr (snap', db')"
    "process_matched_row env offer row0 snap db
       = (if ro_grace_suppressed (process_matched_row env offer row0 snap db)
          then sync_and_finish env (Some (row_delivery_status row)) [] [] True snap' db'
          else sync_and_finish env (Some (row_delivery_status row)) (warning_rule_codes ev)
                 (stop_rule_codes ev) False snap' db')"
    "grace_suppresses env (row_spend row) (warning_rule_codes ev) (stop_rule_codes ev) snap'
       = Inr (ro_grace_suppressed (process_matched_row env offer row0 snap db))"
proof -
  let ?ctx = "build_rule_context offer (Some (env_currency env)) (ExpInt (env_exponent env)) (env_ext_deposits env)
       (env_today_deposits env) (finite_part (row_frequency row)) (Some (row_impressions row))
       (Some (row_reach row))"
  have fail: "ro_error (failed_row e d) = Some e" for e d by (simp add: failed_row_def)
  note P = assms(1)[unfolded process_matched_row_def Let_def, folded assms(2)]
  from P obtain ev where ev: "ebind ?ctx (\<lambda>ctx. evaluate_stop_rules row ctx) = Inr ev"
    by (auto simp: fail split: if_splits sum.splits error.splits prod.splits)
  from P ev obtain snap' db' where d: "drop_foreign_grace env snap db = Inr (snap', db')"
    by (auto simp: fail split: if_splits sum.splits prod.splits)
  from P ev d obtain b where b: "grace_suppresses env (row_spend row) (warning_rule_codes ev) (stop_rule_codes ev) snap' = Inr b"
    by (auto simp: fail split: if_splits sum.splits)
  have m: "env_metrics_inserted env" using P by (auto simp: fail split: if_splits)
  have "process_matched_row env offer row0 snap db
      = (if b then sync_and_finish env (Some (row_delivery_status row)) [] [] True snap' db'
          else sync_and_finish env (Some (row_delivery_status row)) (warning_rule_codes ev)
                 (stop_rule_codes ev) False snap' db')"
    unfolding process_matched_row_def Let_def assms(2)[symmetric] using ev d b m by simp
  moreover from this have "ro_grace_suppressed (process_matched_row env offer row0 snap db) = b" by simp
  ultimately show thesis using that ev d b by (auto simp: ebind_eq_Inr)
qed

lemma drop_foreign_grace_keeps:
  assumes "drop_foreign_grace env snap db = Inr (snap', db')"
  shows "map_option ar_state snap' = map_option ar_state snap"
    "map_option ar_state db' = map_option ar_state db" "map_option ar_token db' = map_option ar_token db"
  using assms
  by (auto simp: drop_foreign_grace_def clear_enable_grace_for_currency_mismatch_def ebind_eq_Inr
      clear_grace_columns_def split: option.splits if_splits)

lemma stop_row_pauses:
  assumes "ro_error (process_matched_row env offer row0 snap db) = None"
    "\<not> ro_grace_suppressed (process_matched_row env offer row0 snap db)"
    and row: "row = with_effective_tracker_registrations row0 (env_tracker_registrations env)"
    and ctx: "build_rule_context offer (Some (env_currency env)) (ExpInt (env_exponent env)) (env_ext_deposits env)
       (env_today_deposits env) (finite_part (row_frequency row)) (Some (row_impressions row))
       (Some (row_reach row)) = Inr ctx"
    and ev: "evaluate_stop_rules row ctx = Inr ev" "ev_stage ev = Some STOP"
    and "\<not> is_delivery_disabled (Some (row_delivery_status row))"
    and "case snap of None \<Rightarrow> True | Some s \<Rightarrow> ar_state s \<in> {Normal, WarningSent, StopSent}"
  shows "\<exists>k. PauseCommand k \<in> set (ro_effects (process_matched_row env offer row0 snap db))"
proof -
  obtain ctx' ev' snap' db' where
    c: "build_rule_context offer (Some (env_currency env)) (ExpInt (env_exponent env)) (env_ext_deposits env)
       (env_today_deposits env) (finite_part (row_frequency row)) (Some (row_impressions row))
       (Some (row_reach row)) = Inr ctx'"
    "evaluate_stop_rules row ctx' = Inr ev'" "drop_foreign_grace env snap db = Inr (snap', db')"
    "process_matched_row env offer row0 snap db
       = (if ro_grace_suppressed (process_matched_row env offer row0 snap db)
          then sync_and_finish env (Some (row_delivery_status row)) [] [] True snap' db'
          else sync_and_finish env (Some (row_delivery_status row)) (warning_rule_codes ev')
                 (stop_rule_codes ev') False snap' db')"
    by (rule process_matched_row_ok [OF assms(1) row])
  with ctx ev have "ctx' = ctx" "ev' = ev" by simp_all
  with c(4) assms(2) have eq: "process_matched_row env offer row0 snap db
      = sync_and_finish env (Some (row_delivery_status row)) (warning_rule_codes ev) (stop_rule_codes ev) False snap' db'"
    by simp
  have st: "case snap' of None \<Rightarrow> True | Some s \<Rightarrow> ar_state s \<in> {Normal, WarningSent, StopSent}"
    using drop_foreign_grace_keeps(1) [OF c(3)] assms(8) by (auto split: option.splits)
  then have "sync_and_finish env (Some (row_delivery_status row)) (warning_rule_codes ev) (stop_rule_codes ev) False snap' db'
      = finish_row env (warning_rule_codes ev) (stop_rule_codes ev) False snap' db'"
    using assms(7)
    by (auto simp: sync_and_finish_def should_reopen_disabled_def should_sync_disabled_def split: option.splits)
  with eq finish_row_stop [OF _ stop_codes_nonempty [OF ev] st] assms(1) show ?thesis by simp
qed

text \<open>
  C30. A stop becomes a pause: when a row is processed without an error, its rules say stop, no
  active grace suppresses them, the advertisement is not already off in Meta and its snapshot
  is not claimed or disabled, then a pause command is among the effects, whether or not the
  advertisement is snoozed.
\<close>

theorem stop_becomes_pause:
  assumes "ro_error (process_matched_row env offer row0 snap db) = None"
    "\<not> ro_grace_suppressed (process_matched_row env offer row0 snap db)"
    and row: "row = with_effective_tracker_registrations row0 (env_tracker_registrations env)"
    and ctx: "build_rule_context offer (Some (env_currency env)) (ExpInt (env_exponent env)) (env_ext_deposits env)
       (env_today_deposits env) (finite_part (row_frequency row)) (Some (row_impressions row))
       (Some (row_reach row)) = Inr ctx"
    and ev: "evaluate_stop_rules row ctx = Inr ev" "ev_stage ev = Some STOP"
    and "\<not> is_delivery_disabled (Some (row_delivery_status row))"
    and "case snap of None \<Rightarrow> True | Some s \<Rightarrow> ar_state s \<in> {Normal, WarningSent, StopSent}"
  shows "\<exists>k. PauseCommand k \<in> set (ro_effects (process_matched_row env offer row0 snap db))"
  by (rule stop_row_pauses [OF assms])

lemma apply_accepted:
  "validated_currency_code (Some (env_currency env)) \<noteq> None \<Longrightarrow> env_fence_held env \<Longrightarrow> env_command env = (\<lambda>k. None) \<Longrightarrow>
   apply_fsm_transition env t db = Inr (upsert_alert_state (env_db_now env) (env_scan_id env) t db,
     transition_effects (env_fresh_task env) t db)"
  by (auto simp: apply_fsm_transition_def)

lemma finish_row_error:
  assumes "ro_error (finish_row env ws ss g snap db) = Some e"
  shows "ro_effects (finish_row env ws ss g snap db) = []" "ro_db (finish_row env ws ss g snap db) = db"
  using assms by (auto simp: finish_row_def Let_def failed_row_def split: sum.splits)

text \<open>The alert state as \<open>reopen_reactivated_alert_state\<close> leaves it, or untouched.\<close>

definition kept_or_reopened :: "ad_alert_row option \<Rightarrow> ad_alert_row option \<Rightarrow> bool" where
  "kept_or_reopened db db' \<longleftrightarrow>
     map_option ar_state db' = map_option ar_state db \<and> map_option ar_token db' = map_option ar_token db \<or>
     map_option ar_state db = Some Disabled \<and> map_option ar_state db' = Some Normal \<and>
     map_option ar_token db' = Some None"

lemma kept_cong:
  "map_option ar_state db' = map_option ar_state db \<Longrightarrow> map_option ar_token db' = map_option ar_token db \<Longrightarrow>
     kept_or_reopened db' = kept_or_reopened db"
  by (simp add: kept_or_reopened_def fun_eq_iff)

lemma reopen_kept: "kept_or_reopened (Some d) (Some (fst (reopen_reactivated_alert_state now m d)))"
  by (simp add: kept_or_reopened_def reopen_reactivated_alert_state_def)

lemma sync_and_finish_error:
  assumes "ro_error (sync_and_finish env dl ws ss g snap db) = Some e"
  shows "ro_effects (sync_and_finish env dl ws ss g snap db) = [] \<and>
    kept_or_reopened db (ro_db (sync_and_finish env dl ws ss g snap db))"
proof -
  have refl: "kept_or_reopened db db" for db
    by (simp add: kept_or_reopened_def)
  show ?thesis
  proof (cases "\<exists>s d. snap = Some s \<and> db = Some d \<and> should_reopen_disabled (ar_state s) dl \<and> env_fence_held env")
    case True
    then obtain s d where sd: "snap = Some s" "db = Some d" "should_reopen_disabled (ar_state s) dl" "env_fence_held env"
      by blast
    obtain d' r where d': "reopen_reactivated_alert_state (env_db_now env) REACTIVATION_COOLDOWN_MINUTES d = (d', r)"
      by fastforce
    have "sync_and_finish env dl ws ss g snap db = finish_row env ws ss g (if r then None else snap) (Some d')"
      using sd d' by (simp add: sync_and_finish_def)
    then show ?thesis
      using assms finish_row_error reopen_kept [of d "env_db_now env" REACTIVATION_COOLDOWN_MINUTES] sd(2) d'
      by simp
  next
    case False
    then show ?thesis
      using assms finish_row_error
      by (auto simp: sync_and_finish_def failed_row_def refl split: option.splits if_splits sum.splits prod.splits)
  qed
qed

text \<open>
  A failing row is harmless: when processing a row ends in an error (metrics not stored,
  offer without a valid CPA or currency, an evaluation error, a lost cabinet lease, a command the
  command service refuses), it has no effect - no alert, incident, recovery or pause - and the
  advertisement's alert state and token are what they were, except that a disabled advertisement
  that delivers again may have been reopened to normal before the error.
\<close>

theorem failing_row_is_harmless:
  assumes "ro_error (process_matched_row env offer row0 snap db) = Some e"
  shows "ro_effects (process_matched_row env offer row0 snap db) = [] \<and>
    kept_or_reopened db (ro_db (process_matched_row env offer row0 snap db))"
proof -
  define row where "row = with_effective_tracker_registrations row0 (env_tracker_registrations env)"
  define ctx where "ctx = build_rule_context offer (Some (env_currency env)) (ExpInt (env_exponent env)) (env_ext_deposits env)
       (env_today_deposits env) (finite_part (row_frequency row)) (Some (row_impressions row)) (Some (row_reach row))"
  define evaluation where "evaluation = ebind ctx (\<lambda>c. evaluate_stop_rules row c)"
  note P = process_matched_row_def [of env offer row0 snap db, unfolded Let_def, folded row_def,
      folded ctx_def, folded evaluation_def]
  let ?out = "process_matched_row env offer row0 snap db"
  have early: ?thesis if "?out = failed_row x d" "map_option ar_state d = map_option ar_state db"
    "map_option ar_token d = map_option ar_token db" for x d
    using that by (simp add: failed_row_def kept_or_reopened_def)
  show ?thesis
  proof (cases "env_metrics_inserted env")
    case False
    then show ?thesis by (intro early) (simp_all add: P)
  next
    case m: True
    show ?thesis
    proof (cases "drop_foreign_grace env snap db")
      case (Inl x)
      then have "\<exists>y. ?out = failed_row y db"
        using m by (auto simp: P split: sum.splits error.splits)
      then show ?thesis using early by blast
    next
      case (Inr p)
      obtain snap' db' where d: "drop_foreign_grace env snap db = Inr (snap', db')" using Inr by (cases p) simp
      note keep = drop_foreign_grace_keeps(2,3) [OF d]
      show ?thesis
      proof (cases evaluation)
        case (Inl x)
        then have "?out = failed_row x db \<or> ?out = failed_row x db'"
          using m d by (auto simp: P split: error.splits)
        then show ?thesis using early keep by blast
      next
        case (Inr ev)
        show ?thesis
        proof (cases "grace_suppresses env (row_spend row) (warning_rule_codes ev) (stop_rule_codes ev) snap'")
          case (Inl x)
          then have "?out = failed_row x db'" using m d \<open>evaluation = Inr ev\<close> by (simp add: P)
          then show ?thesis using early keep by blast
        next
          case b: (Inr b)
          obtain ws ss where "?out = sync_and_finish env (Some (row_delivery_status row)) ws ss b snap' db'"
            using m d \<open>evaluation = Inr ev\<close> b by (cases b) (simp_all add: P)
          with assms have "ro_effects ?out = [] \<and> kept_or_reopened db' (ro_db ?out)"
            using sync_and_finish_error by metis
          then show ?thesis by (simp add: kept_cong [OF keep])
        qed
      qed
    qed
  qed
qed

text \<open>
  A stale snooze loses the stop alert: for an advertisement that is normal but still has a
  snooze running, the scan that opens the stop incident requests the pause and clears the
  snooze, yet emits no alert event and opens no incident, and the following scans in the stop
  state do not alert either, although the snooze is meant to act only inside the incident it
  was set for.
\<close>

theorem stale_snooze_loses_stop_alert:
  assumes "ar_state r = Normal" "ar_snoozed_until r = Some u" "env_cycle_ts env < u" "ss \<noteq> []"
    "validated_currency_code (Some (env_currency env)) \<noteq> None" "env_fence_held env"
    and "validated_currency_code (Some (env_currency env')) \<noteq> None" "env_fence_held env'" "ss' \<noteq> []"
    and "env_command env = (\<lambda>k. None)" "env_command env' = (\<lambda>k. None)"
    and "out = finish_row env ws ss False (Some r) (Some r)" "ro_db out = Some r'"
  shows "ar_state r' = StopSent \<and> ar_snoozed_until r' = None \<and>
    (\<exists>k. ro_effects out = [PauseCommand k] \<and>
         ro_effects (finish_row env' ws' ss' False (Some r') (Some r')) = [PauseCommand k])"
proof -
  have r': "r' = upsert_alert_state (env_db_now env) (env_scan_id env)
      (suppress_emit (decide (env_fresh env) (snapshot_input (Some r) ws ss (env_reset env)))) (Some r)"
    "ro_effects out = transition_effects (env_fresh_task env)
      (suppress_emit (decide (env_fresh env) (snapshot_input (Some r) ws ss (env_reset env)))) (Some r)"
    using assms(1-6,10,12,13) by (simp_all add: finish_row_def apply_accepted Let_def)
  have d: "suppress_emit (decide (env_fresh env) (snapshot_input (Some r) ws ss (env_reset env)))
      = suppress_emit (stop_alert (env_fresh env) ss NewStopIncident)"
    using assms(1,4) by (simp add: decide_def has_stops_def snapshot_input_def Let_def)
  have st: "ar_state r' = StopSent" "ar_snoozed_until r' = None" "ar_token r' = Some (env_fresh env)"
    using assms(1) unfolding r'(1) d by (simp_all add: upsert_alert_state_def suppress_emit_def stop_alert_def)
  have "ro_effects out = [PauseCommand (env_fresh env)]"
    unfolding r'(2) d by (simp add: transition_effects_def open_incident_token_def suppress_emit_def stop_alert_def)
  moreover have "ro_effects (finish_row env' ws' ss' False (Some r') (Some r')) = [PauseCommand (env_fresh env)]"
    using assms(7-9,11) st
    by (simp add: finish_row_def apply_accepted Let_def decide_def has_stops_def
        snapshot_input_def quiet_def transition_effects_def open_incident_token_def)
  ultimately show ?thesis using st by blast
qed

section \<open>A worked row\<close>

definition sample_offer :: offer_rules where
  "sample_offer = \<lparr>of_code = ''X'', of_cpa_threshold = Some (Finite 20), of_frequency_threshold = None,
     of_currency = Some ''USD'', of_stop_percent_of_rule = Some (Finite 80),
     of_warning_percent_of_stop = Some (Finite 80), of_cpc_percent_of_cpa = None,
     of_cpl_percent_of_cpa = None, of_cpr_percent_of_cpa = None, of_regs_no_dep_stop_count = None,
     of_spend_no_dep_from_percent = None, of_spend_no_dep_to_percent = None,
     of_spend_with_dep_from_percent = None, of_spend_with_dep_to_percent = None,
     of_min_ratio_denominator = None\<rparr>"

definition sample_env :: row_env where
  "sample_env = \<lparr>env_fb_ad_id = ''1'', env_scan_id = Some 1, env_cycle_ts = 100, env_db_now = 100,
     env_cabinet_day_start = 0, env_currency = ''USD'', env_exponent = 2, env_reset = False,
     env_fresh = 7, env_fresh_task = 8, env_fence_held = True, env_metrics_inserted = True,
     env_ext_deposits = 0, env_today_deposits = None, env_tracker_registrations = 1,
     env_command = (\<lambda>k. None)\<rparr>"

definition offer_ctx :: rule_context where
  "offer_ctx = sample_ctx\<lparr>frequency_anomaly_enabled := False, impressions := Some 0, reach := Some 0\<rparr>"

lemma usd_facts:
  "require_currency_exponent (Some ''USD'') (ExpInt 2) = Inr (''USD'', 2)"
  "currency_quantum (Some ''USD'') (ExpInt 2) = Inr (1 / 100)"
  "require_exact_currency_amount (AmDecimal (Finite 20)) (Some ''USD'') (ExpInt 2) ''cpa_amount'' False = Inr 20"
  "validated_currency_code (Some ''USD'') = Some ''USD''"
  by code_simp+

lemma sample_build: "build_rule_context sample_offer (Some ''USD'') (ExpInt 2) 0 None None (Some 0) (Some 0) = Inr offer_ctx"
  by (simp add: build_rule_context_def sample_offer_def usd_facts offer_settings_def default_settings_def
      post_init_def rule_settings.defs effective_defs usd_thresholds threshold_triple_def offer_ctx_def
      sample_ctx_def CPC_PERCENT_OF_CPA_def CPL_PERCENT_OF_CPA_def CPR_PERCENT_OF_CPA_def)

theorem built_context_sound_witness:
  "build_rule_context sample_offer (Some ''USD'') (ExpInt 2) 0 None None (Some 0) (Some 0) = Inr offer_ctx \<and>
   ctx_ok offer_ctx"
proof -
  have "offer_shares_nonneg sample_offer" by (simp add: offer_shares_nonneg_def sample_offer_def)
  then show ?thesis using built_context_sound [OF sample_build] sample_build by blast
qed

lemma offer_evaluates:
  "\<exists>ev. evaluate_stop_rules (sample_row 8 10 3 1) offer_ctx = Inr ev \<and> ev_stage ev = Some STOP"
proof -
  have "ctx_ok offer_ctx \<longleftrightarrow> ctx_ok sample_ctx" by (simp add: ctx_ok_def offer_ctx_def)
  then have ok: "ctx_ok offer_ctx"
    using post_init_ctx_ok [OF sample_ctx_built sample_percents] by blast
  have set: "settings_ok offer_ctx"
    using sample_settings_ok
    by (simp add: settings_ok_def offer_ctx_def spend_rule_ok_def effective_defs)
  have row: "row_ok offer_ctx (sample_row 8 10 3 1)"
    using sample_row_ok [of 800 10 3 1]
    by (simp add: row_ok_def offer_ctx_def split: decimal.splits)
  obtain ev where ev: "evaluate_stop_rules (sample_row 8 10 3 1) offer_ctx = Inr ev"
    using evaluate_returns [OF ok set row] by blast
  have "policy_level 8 (sample_row 8 10 3 1) offer_ctx = 2" by code_simp
  moreover obtain h where "evaluate_funnel_ladder 8 (sample_row 8 10 3 1) offer_ctx = Inr h"
    "stage_level (ev_stage ev) = max (hit_level h) (hit_level (evaluate_frequency_anomaly offer_ctx))"
    using evaluate_stop_rules_Inr [OF ev] by (auto simp: sample_row_def)
  ultimately have "2 \<le> stage_level (ev_stage ev)" by (simp add: ladder_level)
  with stage_level_le [of "ev_stage ev"] have "stage_level (ev_stage ev) = 2" by linarith
  with ev show ?thesis by (simp only: stage_level_eq) blast
qed

lemma sample_tracker: "with_effective_tracker_registrations (sample_row 8 10 3 0) 1 = sample_row 8 10 3 1"
  by (simp add: with_effective_tracker_registrations_def sample_row_def)

lemma sample_process:
  assumes "evaluate_stop_rules (sample_row 8 10 3 1) offer_ctx = Inr ev"
  shows "process_matched_row sample_env sample_offer (sample_row 8 10 3 0) None None
    = finish_row sample_env (warning_rule_codes ev) (stop_rule_codes ev) False None None"
proof -
  have "row_frequency (sample_row 8 10 3 1) = None" "row_impressions (sample_row 8 10 3 1) = 0"
    "row_reach (sample_row 8 10 3 1) = 0" by (simp_all add: sample_row_def)
  with assms show ?thesis
    by (simp add: process_matched_row_def sample_env_def sample_tracker sample_build drop_foreign_grace_def
        grace_suppresses_def sync_and_finish_def)
qed

lemma sample_process_ok:
  assumes "evaluate_stop_rules (sample_row 8 10 3 1) offer_ctx = Inr ev"
  shows "ro_error (process_matched_row sample_env sample_offer (sample_row 8 10 3 0) None None) = None"
    "\<not> ro_grace_suppressed (process_matched_row sample_env sample_offer (sample_row 8 10 3 0) None None)"
  unfolding sample_process [OF assms]
  by (simp_all add: finish_row_def apply_fsm_transition_def usd_facts sample_env_def Let_def)

theorem stop_becomes_pause_witness:
  "\<exists>k. PauseCommand k \<in> set (ro_effects (process_matched_row sample_env sample_offer (sample_row 8 10 3 0) None None))"
proof -
  obtain ev where ev: "evaluate_stop_rules (sample_row 8 10 3 1) offer_ctx = Inr ev" "ev_stage ev = Some STOP"
    using offer_evaluates by blast
  have env: "env_tracker_registrations sample_env = 1" "env_currency sample_env = ''USD''" "env_exponent sample_env = 2"
    "env_ext_deposits sample_env = 0" "env_today_deposits sample_env = None" by (simp_all add: sample_env_def)
  have row: "row_frequency (sample_row 8 10 3 1) = None" "row_impressions (sample_row 8 10 3 1) = 0"
    "row_reach (sample_row 8 10 3 1) = 0" "row_delivery_status (sample_row 8 10 3 1) = ''ACTIVE''"
    by (simp_all add: sample_row_def)
  have "\<not> is_delivery_disabled (Some ''ACTIVE'')" by code_simp
  then show ?thesis
    by (intro stop_becomes_pause [OF sample_process_ok [OF ev(1)], of "sample_row 8 10 3 1" offer_ctx ev])
      (simp_all add: env row sample_tracker sample_build ev)
qed

theorem failing_row_is_harmless_witness:
  "ro_error (process_matched_row (sample_env\<lparr>env_metrics_inserted := False\<rparr>) sample_offer (sample_row 8 10 3 0)
     (Some (sample_alert_row StopSent (Some 5))) (Some (sample_alert_row StopSent (Some 5))))
     = Some (RuntimeError ''ad_metrics_insert_failed'') \<and>
   ro_effects (process_matched_row (sample_env\<lparr>env_metrics_inserted := False\<rparr>) sample_offer (sample_row 8 10 3 0)
     (Some (sample_alert_row StopSent (Some 5))) (Some (sample_alert_row StopSent (Some 5)))) = []"
proof -
  have "ro_error (process_matched_row (sample_env\<lparr>env_metrics_inserted := False\<rparr>) sample_offer (sample_row 8 10 3 0)
     (Some (sample_alert_row StopSent (Some 5))) (Some (sample_alert_row StopSent (Some 5))))
     = Some (RuntimeError ''ad_metrics_insert_failed'')"
    by (simp add: process_matched_row_def Let_def sample_env_def failed_row_def)
  with failing_row_is_harmless [OF this] show ?thesis by simp
qed

theorem stale_snooze_loses_stop_alert_witness:
  "\<exists>r'. ro_db (finish_row sample_env [] [''cpc_stop''] False
       (Some (sample_alert_row Normal None\<lparr>ar_snoozed_until := Some 200\<rparr>))
       (Some (sample_alert_row Normal None\<lparr>ar_snoozed_until := Some 200\<rparr>))) = Some r' \<and>
     ar_state r' = StopSent \<and>
     ro_effects (finish_row sample_env [] [''cpc_stop''] False (Some r') (Some r')) = [PauseCommand 7]"
proof -
  let ?r = "sample_alert_row Normal None\<lparr>ar_snoozed_until := Some 200\<rparr>"
  let ?out = "finish_row sample_env [] [''cpc_stop''] False (Some ?r) (Some ?r)"
  have out: "\<exists>r'. ro_db ?out = Some r'" "ro_effects ?out = [PauseCommand 7]"
    by (simp_all add: finish_row_def apply_fsm_transition_def usd_facts sample_env_def Let_def
        sample_alert_row_def snapshot_input_def decide_defs suppress_emit_def transition_effects_def
        open_incident_token_def)
  then obtain r' where r': "ro_db ?out = Some r'" by blast
  have h: "ar_state ?r = Normal" "ar_snoozed_until ?r = Some 200" "env_cycle_ts sample_env < 200"
    "[''cpc_stop''] \<noteq> []" "validated_currency_code (Some (env_currency sample_env)) \<noteq> None"
    "env_fence_held sample_env" "env_command sample_env = (\<lambda>k. None)"
    by (simp_all add: sample_alert_row_def sample_env_def usd_facts)
  from stale_snooze_loses_stop_alert [OF h(1-6) h(5,6,4,7,7) refl r', of "[]"] out(2) r' show ?thesis by auto
qed

end
