(* ===== verification/ScanInterval.thy ===== *)
theory ScanInterval
  imports Money
begin

text \<open>
  The adaptive scan interval, \<open>core/observer/adaptive_interval.py\<close>, and the deadline-bounded
  timeouts of \<open>core/deadlines.py\<close>. Floating-point numbers are rationals; a product or a
  difference rounds to 53 significant bits (\<open>fl\<close>), comparisons are exact. The monotonic clock
  is an argument.
\<close>

section \<open>core/observer/adaptive\_interval.py\<close>

definition DEFAULT_BASE_INTERVAL_SECONDS :: rat where "DEFAULT_BASE_INTERVAL_SECONDS = 30"
definition MIN_INTERVAL_SECONDS :: rat where "MIN_INTERVAL_SECONDS = 10"
definition MAX_INTERVAL_SECONDS :: rat where "MAX_INTERVAL_SECONDS = 600"

definition SCAN_MODE_MULTIPLIERS :: "string \<Rightarrow> rat option" where
  "SCAN_MODE_MULTIPLIERS mode =
     (if mode = ''CRITICAL'' then Some (fl (1 / 5))
      else if mode = ''ELEVATED'' then Some (1 / 2)
      else if mode = ''CALM'' then Some 1
      else if mode = ''IDLE'' then Some (3 / 2) else None)"

record scan_summary =
  su_outcome :: "string option"
  su_alerts_stop :: int
  su_alerts_warning :: int
  su_rows_with_offer :: int
  su_ads_in_stop_state :: int
  su_ads_in_warning_state :: int

definition select_scan_mode :: "int \<Rightarrow> int \<Rightarrow> int \<Rightarrow> int \<Rightarrow> int \<Rightarrow> string" where
  "select_scan_mode alerts_stop alerts_warning rows_with_offer ads_in_stop_state ads_in_warning_state =
     (if alerts_stop > 0 \<or> ads_in_stop_state > 0 then ''CRITICAL''
      else if alerts_warning > 0 \<or> ads_in_warning_state > 0 then ''ELEVATED''
      else if rows_with_offer > 0 then ''CALM'' else ''IDLE'')"

definition resolve_scan_mode :: "scan_summary \<Rightarrow> string" where
  "resolve_scan_mode summary =
     (if su_outcome summary = Some ''paused'' then ''IDLE''
      else if su_outcome summary = Some ''error'' then ''CALM''
      else select_scan_mode (su_alerts_stop summary) (su_alerts_warning summary)
             (su_rows_with_offer summary) (su_ads_in_stop_state summary) (su_ads_in_warning_state summary))"

definition clamp_interval :: "rat \<Rightarrow> rat" where
  "clamp_interval seconds = max MIN_INTERVAL_SECONDS (min MAX_INTERVAL_SECONDS seconds)"

definition compute_adaptive_interval :: "rat \<Rightarrow> string \<Rightarrow> rat" where
  "compute_adaptive_interval base mode =
     clamp_interval (fl (base * coalesce (SCAN_MODE_MULTIPLIERS mode) 1))"

definition compute_remaining_sleep :: "rat \<Rightarrow> rat \<Rightarrow> rat" where
  "compute_remaining_sleep target elapsed = max 0 (fl (target - max 0 elapsed))"

section \<open>core/deadlines.py\<close>

text \<open>The context variable is a state component; \<open>bind\<close> returns the new value and the token
  (the old value) that leaving the block restores.\<close>

definition bind_absolute_deadline :: "rat option \<Rightarrow> rat \<Rightarrow> rat \<Rightarrow> rat option \<Rightarrow> rat option \<times> rat option" where
  "bind_absolute_deadline deadline_at utc_now monotonic_now old =
     (case deadline_at of
        None \<Rightarrow> (None, old)
      | Some d \<Rightarrow> (Some (fl (monotonic_now + max 0 (fl (d - utc_now)))), old))"

definition remaining_deadline_seconds :: "rat option \<Rightarrow> rat \<Rightarrow> rat option" where
  "remaining_deadline_seconds deadline monotonic_now =
     map_option (\<lambda>d. max 0 (fl (d - monotonic_now))) deadline"

definition bounded_timeout_seconds :: "rat option \<Rightarrow> rat \<Rightarrow> rat \<Rightarrow> rat \<Rightarrow> rat" where
  "bounded_timeout_seconds deadline monotonic_now default_s floor_s =
     (case remaining_deadline_seconds deadline monotonic_now of
        None \<Rightarrow> default_s
      | Some remaining \<Rightarrow> max floor_s (min default_s remaining))"

definition bounded_timeout_ms :: "rat option \<Rightarrow> rat \<Rightarrow> int \<Rightarrow> int \<Rightarrow> int" where
  "bounded_timeout_ms deadline monotonic_now default_ms floor_ms =
     (case remaining_deadline_seconds deadline monotonic_now of
        None \<Rightarrow> default_ms
      | Some remaining \<Rightarrow> max floor_ms (min default_ms \<lfloor>fl (remaining * 1000)\<rfloor>))"

section \<open>Properties\<close>

lemma fl_mono: "x \<le> y \<Longrightarrow> fl x \<le> fl y"
  unfolding fl_def by (rule f64.round_sig_mono)

lemma fl_nonneg: "0 \<le> x \<Longrightarrow> 0 \<le> fl x"
  unfolding fl_def by (rule f64.round_sig_nonneg)

lemma fl_0 [simp]: "fl 0 = 0"
  unfolding fl_def by simp

definition mode_rank :: "string \<Rightarrow> nat" where
  "mode_rank mode = (if mode = ''CRITICAL'' then 0 else if mode = ''ELEVATED'' then 1
                     else if mode = ''IDLE'' then 3 else 2)"

lemma multiplier_rank:
  "mode_rank m \<le> mode_rank m' \<Longrightarrow>
     coalesce (SCAN_MODE_MULTIPLIERS m) 1 \<le> coalesce (SCAN_MODE_MULTIPLIERS m') 1"
proof -
  have "fl (1 / 5) \<le> 1 / 2"
  proof -
    have "fl (1 / 2) = 1 / 2" by code_simp
    moreover have "fl (1 / 5) \<le> fl (1 / 2)" by (rule fl_mono) simp
    ultimately show ?thesis by simp
  qed
  then show "mode_rank m \<le> mode_rank m' \<Longrightarrow> ?thesis"
    by (auto simp: mode_rank_def SCAN_MODE_MULTIPLIERS_def split: if_splits)
qed

text \<open>
  The scan interval stays within 10 to 600 seconds for every base and mode, a more urgent
  mode (critical, elevated, calm, idle in this order; an unknown mode counts as calm) never
  gives a longer interval, and after a successful or empty cycle the mode is critical exactly
  when a stop is open or was just raised.
\<close>

theorem interval_bounds_and_urgency:
  "10 \<le> compute_adaptive_interval base mode \<and> compute_adaptive_interval base mode \<le> 600 \<and>
   (0 \<le> base \<and> mode_rank mode \<le> mode_rank mode' \<longrightarrow>
      compute_adaptive_interval base mode \<le> compute_adaptive_interval base mode') \<and>
   (resolve_scan_mode s = ''CRITICAL'' \<longleftrightarrow>
      su_outcome s \<noteq> Some ''paused'' \<and> su_outcome s \<noteq> Some ''error'' \<and>
      (0 < su_alerts_stop s \<or> 0 < su_ads_in_stop_state s))"
proof -
  have "10 \<le> compute_adaptive_interval base mode" "compute_adaptive_interval base mode \<le> 600"
    by (simp_all add: compute_adaptive_interval_def clamp_interval_def MIN_INTERVAL_SECONDS_def
        MAX_INTERVAL_SECONDS_def)
  moreover have "compute_adaptive_interval base mode \<le> compute_adaptive_interval base mode'"
    if "0 \<le> base" "mode_rank mode \<le> mode_rank mode'"
  proof -
    have "fl (base * coalesce (SCAN_MODE_MULTIPLIERS mode) 1)
        \<le> fl (base * coalesce (SCAN_MODE_MULTIPLIERS mode') 1)"
      using that multiplier_rank by (intro fl_mono mult_left_mono)
    then show ?thesis
      unfolding compute_adaptive_interval_def clamp_interval_def by (intro max.mono min.mono order_refl)
  qed
  ultimately show ?thesis by (auto simp: resolve_scan_mode_def select_scan_mode_def)
qed

theorem interval_bounds_and_urgency_witness:
  "compute_adaptive_interval 30 ''CRITICAL'' \<le> compute_adaptive_interval 30 ''IDLE''"
  using interval_bounds_and_urgency [of 30 "''CRITICAL''" "''IDLE''"] by (simp add: mode_rank_def)

text \<open>
  A deadline only shortens a timeout: with a floor not above the default, the bounded
  timeout lies between the floor and the default, a later clock never lengthens it, and the
  scheduler's remaining sleep is never negative nor longer than the (rounded) period.
\<close>

theorem timeouts_bounded:
  assumes "floor_s \<le> default_s" "0 \<le> target"
  shows "floor_s \<le> bounded_timeout_seconds deadline now default_s floor_s \<and>
    bounded_timeout_seconds deadline now default_s floor_s \<le> default_s \<and>
    (now \<le> later \<longrightarrow> bounded_timeout_seconds deadline later default_s floor_s
                    \<le> bounded_timeout_seconds deadline now default_s floor_s) \<and>
    0 \<le> compute_remaining_sleep target elapsed \<and> compute_remaining_sleep target elapsed \<le> fl target"
proof -
  have "bounded_timeout_seconds deadline later default_s floor_s
      \<le> bounded_timeout_seconds deadline now default_s floor_s" if "now \<le> later"
  proof (cases deadline)
    case (Some d)
    have "fl (d - later) \<le> fl (d - now)" using that by (intro fl_mono) simp
    then show ?thesis
      unfolding bounded_timeout_seconds_def remaining_deadline_seconds_def Some
      by (simp add: max.coboundedI2 min.coboundedI2 max.mono min.mono)
  qed (simp add: bounded_timeout_seconds_def remaining_deadline_seconds_def)
  moreover have "fl (target - max 0 elapsed) \<le> fl target" by (intro fl_mono) simp
  moreover have "0 \<le> fl target" by (rule fl_nonneg) (rule assms(2))
  ultimately show ?thesis
    using assms(1)
    by (auto simp: bounded_timeout_seconds_def compute_remaining_sleep_def split: option.splits)
qed

theorem timeouts_bounded_witness:
  "1 / 1000 \<le> bounded_timeout_seconds (Some 100) 99 30 (1 / 1000) \<and>
   bounded_timeout_seconds (Some 100) 99 30 (1 / 1000) \<le> 30"
  using timeouts_bounded [of "1 / 1000" 30 0 "Some 100" 99] by simp

end
