(* ===== verification/CircuitBreaker.thy ===== *)
theory CircuitBreaker
  imports Complex_Main Prelude
begin

text \<open>
  The asynchronous circuit breaker of \<open>core/browser/circuit_breaker.py\<close>. Each critical section
  under the lock is one step; a call is two of them, admission and recording, and the awaited
  function runs in between, so calls interleave. The monotonic clock is read at each step and
  only grows.
\<close>

section \<open>State and critical sections\<close>

datatype circuit_state = CLOSED | OPEN | HALF_OPEN

record breaker_config =
  cb_name :: string
  failure_threshold :: int
  recovery_timeout :: rat

record breaker =
  cb_state :: circuit_state
  cb_failure_count :: int
  cb_opened_at :: "rat option"

definition new_breaker :: breaker where
  "new_breaker = \<lparr>cb_state = CLOSED, cb_failure_count = 0, cb_opened_at = None\<rparr>"

definition get_retry_after :: "breaker_config \<Rightarrow> rat \<Rightarrow> breaker \<Rightarrow> rat option" where
  "get_retry_after cfg now b =
     (case (cb_state b, cb_opened_at b) of
        (OPEN, Some t) \<Rightarrow> Some (max 0 (recovery_timeout cfg - (now - t)))
      | _ \<Rightarrow> None)"

definition maybe_transition_to_half_open :: "breaker_config \<Rightarrow> rat \<Rightarrow> breaker \<Rightarrow> breaker" where
  "maybe_transition_to_half_open cfg now b =
     (if cb_state b \<noteq> OPEN then b
      else case cb_opened_at b of
             None \<Rightarrow> b
           | Some t \<Rightarrow> if recovery_timeout cfg \<le> now - t then b\<lparr>cb_state := HALF_OPEN\<rparr> else b)"

text \<open>\<open>check_open\<close> and the first critical section of \<open>call\<close>: the new state and whether the call
  is admitted (\<open>Inl\<close> is \<open>CircuitOpenError\<close> with its retry time).\<close>

definition check_open :: "breaker_config \<Rightarrow> rat \<Rightarrow> breaker \<Rightarrow> breaker \<times> (rat + unit)" where
  "check_open cfg now b =
     (let b' = maybe_transition_to_half_open cfg now b
      in if cb_state b' = OPEN
         then let elapsed = (case cb_opened_at b' of None \<Rightarrow> 0 | Some t \<Rightarrow> now - t)
              in (b', Inl (max 0 (recovery_timeout cfg - elapsed)))
         else (b', Inr ()))"

definition record_success :: "breaker \<Rightarrow> breaker" where
  "record_success b = b\<lparr>cb_state := CLOSED, cb_failure_count := 0, cb_opened_at := None\<rparr>"

definition record_failure :: "breaker_config \<Rightarrow> rat \<Rightarrow> breaker \<Rightarrow> breaker" where
  "record_failure cfg now b =
     (if cb_state b = HALF_OPEN then b\<lparr>cb_opened_at := Some now, cb_state := OPEN\<rparr>
      else let n = cb_failure_count b + 1
           in if failure_threshold cfg \<le> n
              then b\<lparr>cb_failure_count := n, cb_state := OPEN, cb_opened_at := Some now\<rparr>
              else b\<lparr>cb_failure_count := n\<rparr>)"

text \<open>A whole \<open>call\<close> that nothing interrupts: \<open>func\<close> is the outcome of the awaited function and
  the time at which it ends.\<close>

definition call :: "breaker_config \<Rightarrow> rat \<Rightarrow> (error + 'a) \<times> rat \<Rightarrow> breaker \<Rightarrow> breaker \<times> 'a result" where
  "call cfg now func b =
     (case check_open cfg now b of
        (b', Inl _) \<Rightarrow> (b', Inl (CircuitOpenError (cb_name cfg)))
      | (b', Inr _) \<Rightarrow>
          (case func of
             (Inl e, t) \<Rightarrow> (record_failure cfg t b', Inl e)
           | (Inr x, t) \<Rightarrow> (record_success b', Inr x)))"

section \<open>Interleaved calls\<close>

text \<open>The system: the clock, the breaker and the number of admitted calls in flight.\<close>

record cb_system =
  sys_now :: rat
  sys_breaker :: breaker
  sys_in_flight :: nat

inductive cb_step :: "breaker_config \<Rightarrow> cb_system \<Rightarrow> cb_system \<Rightarrow> bool" for cfg where
  admit: "sys_now s \<le> t \<Longrightarrow> check_open cfg t (sys_breaker s) = (b, Inr ()) \<Longrightarrow>
    cb_step cfg s \<lparr>sys_now = t, sys_breaker = b, sys_in_flight = Suc (sys_in_flight s)\<rparr>"
| reject: "sys_now s \<le> t \<Longrightarrow> check_open cfg t (sys_breaker s) = (b, Inl r) \<Longrightarrow>
    cb_step cfg s \<lparr>sys_now = t, sys_breaker = b, sys_in_flight = sys_in_flight s\<rparr>"
| succeed: "sys_now s \<le> t \<Longrightarrow> sys_in_flight s = Suc n \<Longrightarrow>
    cb_step cfg s \<lparr>sys_now = t, sys_breaker = record_success (sys_breaker s), sys_in_flight = n\<rparr>"
| fail: "sys_now s \<le> t \<Longrightarrow> sys_in_flight s = Suc n \<Longrightarrow>
    cb_step cfg s \<lparr>sys_now = t, sys_breaker = record_failure cfg t (sys_breaker s), sys_in_flight = n\<rparr>"

inductive cb_reachable :: "breaker_config \<Rightarrow> cb_system \<Rightarrow> bool" for cfg where
  init: "cb_reachable cfg \<lparr>sys_now = t, sys_breaker = new_breaker, sys_in_flight = 0\<rparr>"
| step: "cb_reachable cfg s \<Longrightarrow> cb_step cfg s s' \<Longrightarrow> cb_reachable cfg s'"

definition breaker_inv :: "breaker_config \<Rightarrow> rat \<Rightarrow> breaker \<Rightarrow> bool" where
  "breaker_inv cfg now b \<longleftrightarrow>
     0 \<le> cb_failure_count b \<and>
     (cb_state b = CLOSED \<longrightarrow> cb_opened_at b = None \<and> cb_failure_count b < failure_threshold cfg) \<and>
     (cb_state b \<noteq> CLOSED \<longrightarrow> (\<exists>t. cb_opened_at b = Some t \<and> t \<le> now) \<and>
        failure_threshold cfg \<le> cb_failure_count b) \<and>
     (\<forall>t. cb_state b = HALF_OPEN \<and> cb_opened_at b = Some t \<longrightarrow> recovery_timeout cfg \<le> now - t)"

lemma inv_later: "breaker_inv cfg now b \<Longrightarrow> now \<le> t \<Longrightarrow> breaker_inv cfg t b"
  unfolding breaker_inv_def by (auto intro: order_trans)

lemma half_open_inv:
  "breaker_inv cfg now b \<Longrightarrow> breaker_inv cfg now (maybe_transition_to_half_open cfg now b)"
  by (auto simp: breaker_inv_def maybe_transition_to_half_open_def split: if_splits option.splits)

lemma check_open_inv: "breaker_inv cfg now b \<Longrightarrow> breaker_inv cfg now (fst (check_open cfg now b))"
  using half_open_inv by (simp add: check_open_def Let_def)

lemma success_inv: "0 < failure_threshold cfg \<Longrightarrow> breaker_inv cfg now (record_success b)"
  by (simp add: breaker_inv_def record_success_def)

lemma failure_inv: "breaker_inv cfg now b \<Longrightarrow> breaker_inv cfg now (record_failure cfg now b)"
  by (cases "cb_state b") (auto simp: breaker_inv_def record_failure_def Let_def)

lemma step_inv:
  assumes "0 < failure_threshold cfg" "breaker_inv cfg (sys_now s) (sys_breaker s)" "cb_step cfg s s'"
  shows "breaker_inv cfg (sys_now s') (sys_breaker s') \<and> sys_now s \<le> sys_now s'"
  using assms(3)
proof (cases rule: cb_step.cases)
  case (admit t b)
  with check_open_inv [OF inv_later [OF assms(2) admit(2)]] show ?thesis by simp
next
  case (reject t b r)
  with check_open_inv [OF inv_later [OF assms(2) reject(2)]] show ?thesis by simp
next
  case (succeed t n)
  with success_inv [OF assms(1)] show ?thesis by simp
next
  case (fail t n)
  with failure_inv [OF inv_later [OF assms(2) fail(2)]] show ?thesis by simp
qed

lemma reachable_inv:
  "cb_reachable cfg s \<Longrightarrow> 0 < failure_threshold cfg \<Longrightarrow> breaker_inv cfg (sys_now s) (sys_breaker s)"
proof (induction rule: cb_reachable.induct)
  case (init t)
  then show ?case by (simp add: breaker_inv_def new_breaker_def)
next
  case (step s s')
  then show ?case using step_inv by blast
qed

text \<open>
  Over every interleaving of calls: an open or half-open breaker has its opening time and at
  least the threshold of failures behind it, a closed one has fewer failures than the
  threshold; a call is rejected exactly while the breaker is open and the recovery time has
  not passed, and the rejection names the time that is left, which is positive.
\<close>

theorem breaker_rejects_exactly_while_open:
  assumes "cb_reachable cfg s" "0 < failure_threshold cfg" "sys_now s \<le> t"
  shows "breaker_inv cfg (sys_now s) (sys_breaker s) \<and>
    (snd (check_open cfg t (sys_breaker s)) = Inl r \<longleftrightarrow>
       cb_state (sys_breaker s) = OPEN \<and>
       (\<exists>opn. cb_opened_at (sys_breaker s) = Some opn \<and> t - opn < recovery_timeout cfg \<and>
            r = recovery_timeout cfg - (t - opn) \<and> 0 < r))"
proof -
  have inv: "breaker_inv cfg (sys_now s) (sys_breaker s)" using reachable_inv assms(1,2) .
  then have "cb_state (sys_breaker s) = OPEN \<longrightarrow> (\<exists>opn. cb_opened_at (sys_breaker s) = Some opn)"
    by (auto simp: breaker_inv_def)
  with inv show ?thesis
    by (auto simp: check_open_def maybe_transition_to_half_open_def Let_def not_le
        split: if_splits)
qed

lemma failures_fold:
  assumes "0 < failure_threshold cfg" "int (length ts) \<le> failure_threshold cfg"
  shows "fold (record_failure cfg) ts new_breaker =
    (if int (length ts) < failure_threshold cfg
     then \<lparr>cb_state = CLOSED, cb_failure_count = int (length ts), cb_opened_at = None\<rparr>
     else \<lparr>cb_state = OPEN, cb_failure_count = int (length ts), cb_opened_at = Some (last ts)\<rparr>)"
  using assms
proof (induction ts rule: rev_induct)
  case (snoc t ts)
  then show ?case by (simp add: record_failure_def Let_def)
qed (simp add: new_breaker_def)

text \<open>
  Consecutive failures open the breaker and one success closes it: from a closed breaker
  with no failures, fewer than the threshold of failures in a row keep it closed with the
  failures counted, the threshold opens it at the time of the last failure, and any success
  resets it to the initial state.
\<close>

theorem failures_open_success_closes:
  assumes "0 < failure_threshold cfg"
  shows "(int (length ts) < failure_threshold cfg \<longrightarrow>
      fold (record_failure cfg) ts new_breaker
        = \<lparr>cb_state = CLOSED, cb_failure_count = int (length ts), cb_opened_at = None\<rparr>) \<and>
    (int (length ts) = failure_threshold cfg \<longrightarrow>
      fold (record_failure cfg) ts new_breaker
        = \<lparr>cb_state = OPEN, cb_failure_count = failure_threshold cfg, cb_opened_at = Some (last ts)\<rparr>) \<and>
    record_success b = new_breaker"
  using failures_fold [OF assms, of ts] by (auto simp: record_success_def new_breaker_def)

definition sample_cfg :: breaker_config where
  "sample_cfg = \<lparr>cb_name = ''browser-agent'', failure_threshold = 3, recovery_timeout = 60\<rparr>"

theorem failures_open_success_closes_witness:
  "fold (record_failure sample_cfg) [1, 2, 5] new_breaker
     = \<lparr>cb_state = OPEN, cb_failure_count = 3, cb_opened_at = Some 5\<rparr>"
  using failures_open_success_closes [of sample_cfg "[1, 2, 5]"] by (simp add: sample_cfg_def)

definition half_open_at :: "rat \<Rightarrow> nat \<Rightarrow> cb_system" where
  "half_open_at t n = \<lparr>sys_now = t, sys_breaker = \<lparr>cb_state = HALF_OPEN, cb_failure_count = 3,
     cb_opened_at = Some 0\<rparr>, sys_in_flight = n\<rparr>"

lemma admitted_when_closed:
  "cb_state b = CLOSED \<Longrightarrow> check_open cfg t b = (b, Inr ())"
  by (simp add: check_open_def maybe_transition_to_half_open_def)

lemma three_failures_reachable:
  "cb_reachable sample_cfg \<lparr>sys_now = 0, sys_breaker = \<lparr>cb_state = OPEN, cb_failure_count = 3,
     cb_opened_at = Some 0\<rparr>, sys_in_flight = 0\<rparr>"
proof -
  let ?b = "\<lambda>k. \<lparr>cb_state = CLOSED, cb_failure_count = k, cb_opened_at = None\<rparr>"
  let ?s = "\<lambda>b n. \<lparr>sys_now = 0 :: rat, sys_breaker = b, sys_in_flight = n\<rparr>"
  have r0: "cb_reachable sample_cfg (?s (?b 0) 0)"
    using cb_reachable.init [of sample_cfg 0] by (simp add: new_breaker_def)
  have adm: "cb_step sample_cfg (?s (?b k) n) (?s (?b k) (Suc n))" for k n
    using cb_step.admit [of "?s (?b k) n" 0 sample_cfg "?b k"] admitted_when_closed [of "?b k"] by simp
  have flt: "cb_step sample_cfg (?s b (Suc n)) (?s (record_failure sample_cfg 0 b) n)" for b n
    using cb_step.fail [of "?s b (Suc n)" 0 n sample_cfg] by simp
  have f: "record_failure sample_cfg 0 (?b 0) = ?b 1" "record_failure sample_cfg 0 (?b 1) = ?b 2"
    "record_failure sample_cfg 0 (?b 2) = \<lparr>cb_state = OPEN, cb_failure_count = 3, cb_opened_at = Some 0\<rparr>"
    by (simp_all add: record_failure_def sample_cfg_def)
  have again: "cb_reachable sample_cfg (?s (?b k) 0) \<Longrightarrow>
      cb_reachable sample_cfg (?s (record_failure sample_cfg 0 (?b k)) 0)" for k
    using cb_reachable.step [OF cb_reachable.step [OF _ adm] flt] .
  show ?thesis using again [OF again [OF again [OF r0, unfolded f], unfolded f], unfolded f] .
qed

text \<open>
  The half-open state admits any number of concurrent probes: after three failures and the
  recovery time, for every number there is a reachable state with that many admitted calls in
  flight while the breaker is half open, although the call's contract speaks of one.
\<close>

theorem half_open_admits_many:
  "cb_reachable sample_cfg (half_open_at 60 (Suc n))"
proof (induction n)
  case 0
  have "check_open sample_cfg 60 \<lparr>cb_state = OPEN, cb_failure_count = 3, cb_opened_at = Some 0\<rparr>
      = (\<lparr>cb_state = HALF_OPEN, cb_failure_count = 3, cb_opened_at = Some 0\<rparr>, Inr ())"
    by (simp add: check_open_def maybe_transition_to_half_open_def sample_cfg_def)
  then have "cb_step sample_cfg \<lparr>sys_now = 0, sys_breaker = \<lparr>cb_state = OPEN, cb_failure_count = 3,
      cb_opened_at = Some 0\<rparr>, sys_in_flight = 0\<rparr> (half_open_at 60 (Suc 0))"
    unfolding half_open_at_def
    using cb_step.admit [where s = "\<lparr>sys_now = 0, sys_breaker = \<lparr>cb_state = OPEN, cb_failure_count = 3,
      cb_opened_at = Some 0\<rparr>, sys_in_flight = 0\<rparr>" and t = 60] by simp
  with three_failures_reachable show ?case by (rule cb_reachable.step)
next
  case (Suc n)
  have "check_open sample_cfg 60 (sys_breaker (half_open_at 60 (Suc n))) = (sys_breaker (half_open_at 60 (Suc n)), Inr ())"
    by (simp add: check_open_def maybe_transition_to_half_open_def half_open_at_def)
  then have "cb_step sample_cfg (half_open_at 60 (Suc n)) (half_open_at 60 (Suc (Suc n)))"
    using cb_step.admit [where s = "half_open_at 60 (Suc n)" and t = 60] by (simp add: half_open_at_def)
  with Suc show ?case by (rule cb_reachable.step)
qed

theorem breaker_rejects_exactly_while_open_witness:
  "snd (check_open sample_cfg 20 \<lparr>cb_state = OPEN, cb_failure_count = 3, cb_opened_at = Some 0\<rparr>) = Inl 40"
  using breaker_rejects_exactly_while_open [OF three_failures_reachable, of 20 40]
  by (simp add: sample_cfg_def)

end
