(* ===== verification/Json.thy ===== *)
theory Json
  imports Decimals
begin

text \<open>
  The JSON objects the task queue stores in its \<open>payload\<close> and \<open>result\<close> columns, with the
  operations the sources use on them: Python's \<open>dict.get\<close>, truthiness and \<open>str\<close>, and the
  operators of PostgreSQL's \<open>jsonb\<close> (\<open>->>\<close>, \<open>||\<close>, \<open>-\<close>). Numbers are integers: no modelled
  code reads a fraction from these columns. The text of a nested container keeps the
  brackets and elements but no escapes; the code only compares such text with identifiers.
\<close>

datatype json =
    JNull
  | JBool bool
  | JNum int
  | JStr string
  | JArr "json list"
  | JObj "(string \<times> json) list"

type_synonym jobj = "(string \<times> json) list"

section \<open>Reading an object\<close>

definition jget :: "jobj \<Rightarrow> string \<Rightarrow> json" where
  "jget ob k = (case map_of ob k of None \<Rightarrow> JNull | Some v \<Rightarrow> v)"

fun truthy :: "json \<Rightarrow> bool" where
  "truthy JNull = False"
| "truthy (JBool b) = b"
| "truthy (JNum n) = (n \<noteq> 0)"
| "truthy (JStr s) = (s \<noteq> [])"
| "truthy (JArr vs) = (vs \<noteq> [])"
| "truthy (JObj ob) = (ob \<noteq> [])"

definition is_dict :: "json \<Rightarrow> bool" where
  "is_dict v \<longleftrightarrow> (case v of JObj _ \<Rightarrow> True | _ \<Rightarrow> False)"

text \<open>\<open>v if isinstance(v, dict) else {}\<close>\<close>

definition as_dict :: "json \<Rightarrow> jobj" where
  "as_dict v = (case v of JObj ob \<Rightarrow> ob | _ \<Rightarrow> [])"

fun commas :: "string list \<Rightarrow> string" where
  "commas [] = []"
| "commas [s] = s"
| "commas (s # ss) = s @ '', '' @ commas ss"

text \<open>Python's \<open>str\<close> of a value; inside a container strings are quoted.\<close>

fun py_repr :: "json \<Rightarrow> string" where
  "py_repr JNull = ''None''"
| "py_repr (JBool b) = (if b then ''True'' else ''False'')"
| "py_repr (JNum n) = string_of_int n"
| "py_repr (JStr s) = [CHR 0x27] @ s @ [CHR 0x27]"
| "py_repr (JArr vs) = ''['' @ commas (map py_repr vs) @ '']''"
| "py_repr (JObj ob) =
     ''{'' @ commas (map (\<lambda>(k, v). [CHR 0x27] @ k @ [CHR 0x27] @ '': '' @ py_repr v) ob) @ ''}''"

definition py_str :: "json \<Rightarrow> string" where
  "py_str v = (case v of JStr s \<Rightarrow> s | _ \<Rightarrow> py_repr v)"

text \<open>\<open>str(v or "")\<close>\<close>

definition str_or_empty :: "json \<Rightarrow> string" where
  "str_or_empty v = (if truthy v then py_str v else [])"

text \<open>\<open>int(v or 0)\<close>; None stands for the TypeError or ValueError of \<open>int\<close>.\<close>

definition int_or_zero :: "json \<Rightarrow> int option" where
  "int_or_zero v =
     (if \<not> truthy v then Some 0 else
      case v of
        JBool b \<Rightarrow> Some 1
      | JNum n \<Rightarrow> Some n
      | JStr s \<Rightarrow> parse_exponent (py_strip s)
      | _ \<Rightarrow> None)"

section \<open>PostgreSQL jsonb\<close>

fun jsonb_text :: "json \<Rightarrow> string" where
  "jsonb_text JNull = ''null''"
| "jsonb_text (JBool b) = (if b then ''true'' else ''false'')"
| "jsonb_text (JNum n) = string_of_int n"
| "jsonb_text (JStr s) = [CHR 0x22] @ s @ [CHR 0x22]"
| "jsonb_text (JArr vs) = ''['' @ commas (map jsonb_text vs) @ '']''"
| "jsonb_text (JObj ob) =
     ''{'' @ commas (map (\<lambda>(k, v). [CHR 0x22] @ k @ [CHR 0x22] @ '': '' @ jsonb_text v) ob) @ ''}''"

text \<open>\<open>ob ->> k\<close>: NULL for an absent key and for a JSON null.\<close>

definition arrow_text :: "jobj \<Rightarrow> string \<Rightarrow> string option" where
  "arrow_text ob k =
     (case jget ob k of JNull \<Rightarrow> None | JStr s \<Rightarrow> Some s | v \<Rightarrow> Some (jsonb_text v))"

text \<open>\<open>ob - k\<close> and \<open>ob || ob'\<close>.\<close>

definition jdel :: "jobj \<Rightarrow> string \<Rightarrow> jobj" where
  "jdel ob k = filter (\<lambda>(k', _). k' \<noteq> k) ob"

definition jmerge :: "jobj \<Rightarrow> jobj \<Rightarrow> jobj" where
  "jmerge ob new = filter (\<lambda>(k, _). k \<notin> set (map fst new)) ob @ new"

text \<open>\<open>COALESCE(result, '{}'::jsonb)\<close>\<close>

definition obj_or_empty :: "jobj option \<Rightarrow> jobj" where
  "obj_or_empty r = (case r of None \<Rightarrow> [] | Some ob \<Rightarrow> ob)"

section \<open>Laws\<close>

lemma map_of_filter_key:
  "map_of (filter (\<lambda>(k', _). P k') ob) k = (if P k then map_of ob k else None)"
  by (induction ob) auto

lemma jget_Cons [simp]: "jget ((k', v) # ob) k = (if k' = k then v else jget ob k)"
  by (simp add: jget_def)

lemma jget_Nil [simp]: "jget [] k = JNull"
  by (simp add: jget_def)

lemma jget_jdel [simp]: "jget (jdel ob k') k = (if k = k' then JNull else jget ob k)"
  by (simp add: jget_def jdel_def map_of_filter_key)

lemma jget_jmerge:
  "jget (jmerge ob new) k = (if k \<in> set (map fst new) then jget new k else jget ob k)"
proof (cases "map_of new k")
  case None
  then have "k \<notin> set (map fst new)"
    by (simp add: map_of_eq_None_iff)
  then show ?thesis
    using None by (simp add: jget_def jmerge_def map_of_filter_key map_add_def split: option.split)
next
  case (Some v)
  then have "k \<in> set (map fst new)"
    by (metis map_of_eq_None_iff option.distinct(1) set_map)
  then show ?thesis
    using Some by (simp add: jget_def jmerge_def map_of_filter_key map_add_def)
qed

lemma arrow_text_JStr [simp]: "jget ob k = JStr s \<Longrightarrow> arrow_text ob k = Some s"
  by (simp add: arrow_text_def)

lemma arrow_text_JBool [simp]:
  "jget ob k = JBool b \<Longrightarrow> arrow_text ob k = Some (if b then ''true'' else ''false'')"
  by (simp add: arrow_text_def)

lemma arrow_text_JNull [simp]: "jget ob k = JNull \<Longrightarrow> arrow_text ob k = None"
  by (simp add: arrow_text_def)

lemma obj_or_empty_simps [simp]: "obj_or_empty None = []" "obj_or_empty (Some ob) = ob"
  by (simp_all add: obj_or_empty_def)

end
