(* ===== verification/Incidents.thy ===== *)
theory Incidents
  imports Json
begin

text \<open>
  The operator-facing tables that a task transition updates inside its own transaction:
  incidents with their generations, the notification outbox, the campaign runs and the names
  of the catalogue (\<open>fb_ads\<close>). The
  functions are those of \<open>core/telegram/worker_notify.py\<close>, \<open>core/meta_api/duplicate_incidents.py\<close>,
  \<open>core/observer/login_required.py\<close> and \<open>core/meta_api/identity.py\<close>, and the event insert of
  \<open>core/telegram/notifications.py\<close>; the per-recipient deliveries that follow that insert are
  not modelled. A card is its template name with the values shown on it (the Russian text
  is left out). A UUID is an integer; \<open>next_uuid\<close> is the next one \<open>gen_random_uuid\<close> draws.
  A function returns the updated tables, or the exception that rolls the transaction back.
\<close>

section \<open>Tables\<close>

datatype incident_status = IncOpen | IncAcknowledged | IncExecuting | IncResolved | IncFailed

record incident =
  inc_id :: int
  inc_key :: string
  inc_generation :: int
  inc_resource_type :: string
  inc_resource_id :: string
  inc_severity :: string
  inc_status :: incident_status
  inc_corr :: int
  inc_opened_at :: int
  inc_resolved_at :: "int option"
  inc_updated_at :: int

type_synonym card = "string list"

datatype dedupe_key =
    TaskEvent int string
  | IncidentSnapshot int int incident_status string card
  | IncidentResolvedKey int int

record event =
  ev_type :: string
  ev_severity :: string
  ev_audience :: string
  ev_card :: card
  ev_dedupe :: dedupe_key
  ev_incident :: "int option"
  ev_corr :: int

record campaign_run =
  run_uuid :: int
  run_status :: string
  run_error :: "string option"
  run_updated_at :: int

record ops_db =
  incidents :: "incident list"
  runs :: "campaign_run list"
  outbox :: "event list"
  fb_ads :: "(string \<times> string option) list"
  next_uuid :: int

definition inc_active :: "incident \<Rightarrow> bool" where
  "inc_active i \<longleftrightarrow> inc_status i \<in> {IncOpen, IncAcknowledged, IncExecuting}"

text \<open>The unique index \<open>uq_incidents_active_key\<close>: one active generation per key.\<close>

definition uq_active_key :: "incident list \<Rightarrow> bool" where
  "uq_active_key is \<longleftrightarrow> distinct (map inc_key (filter inc_active is))"

section \<open>Notification outbox\<close>

definition enqueue_notification ::
  "string \<Rightarrow> string \<Rightarrow> string \<Rightarrow> card \<Rightarrow> dedupe_key \<Rightarrow> int option \<Rightarrow> int option \<Rightarrow> ops_db \<Rightarrow> ops_db" where
  "enqueue_notification etype severity audience crd dedupe incident corr db =
     (let fresh = next_uuid db;
          db1 = (case corr of None \<Rightarrow> db\<lparr>next_uuid := fresh + 1\<rparr> | Some _ \<Rightarrow> db)
      in if dedupe \<in> set (map ev_dedupe (outbox db1)) then db1
         else db1\<lparr>outbox := outbox db1 @
           [\<lparr>ev_type = etype, ev_severity = severity, ev_audience = audience, ev_card = crd,
             ev_dedupe = dedupe, ev_incident = incident, ev_corr = coalesce corr fresh\<rparr>]\<rparr>)"

section \<open>Recurring incidents\<close>

text \<open>\<open>_event_type\<close>: runs of other characters become one underscore, and the ends are trimmed.\<close>

definition event_char :: "char \<Rightarrow> bool" where
  "event_char c \<longleftrightarrow>
     (let n = of_char c :: int in 97 \<le> n \<and> n \<le> 122 \<or> 48 \<le> n \<and> n \<le> 57) \<or> c \<in> set ''_.-''"

fun sub_event_runs :: "bool \<Rightarrow> string \<Rightarrow> string" where
  "sub_event_runs inrun [] = []"
| "sub_event_runs inrun (c # cs) =
     (if event_char c then c # sub_event_runs False cs
      else if inrun then sub_event_runs True cs
      else CHR ''_'' # sub_event_runs True cs)"

definition strip_chars :: "string \<Rightarrow> string \<Rightarrow> string" where
  "strip_chars cs s = rev (dropWhile (\<lambda>c. c \<in> set cs) (rev (dropWhile (\<lambda>c. c \<in> set cs) s)))"

definition event_type :: "string \<Rightarrow> string" where
  "event_type value =
     (let normalized = strip_chars ''_.-'' (sub_event_runs False (py_lower (py_strip value)))
      in take 64 (''worker_'' @ (if normalized = [] then ''notification'' else normalized)))"

definition max_generation :: "string \<Rightarrow> incident list \<Rightarrow> int" where
  "max_generation key is =
     fold (\<lambda>i m. if inc_key i = key then max m (inc_generation i) else m) is 0"

definition notify_recurring_incident_in_transaction ::
  "int \<Rightarrow> string \<Rightarrow> string \<Rightarrow> string \<Rightarrow> string \<Rightarrow> card \<Rightarrow> string \<Rightarrow> string option \<Rightarrow> int option \<Rightarrow> ops_db \<Rightarrow>
   ops_db result" where
  "notify_recurring_incident_in_transaction now incident_key audience etype severity crd
       resource_type resource_id corr db =
     (let key = py_strip incident_key;
          rtype = py_strip resource_type;
          rid = py_strip (if or_empty resource_id = [] then key else or_empty resource_id)
      in if key = [] \<or> length key > 160
         then Inl (ValueError ''incident_key must contain 1..160 characters'')
         else if severity \<notin> {''warning'', ''critical''}
         then Inl (ValueError ''recurring worker incidents must be warning or critical'')
         else if rtype = [] \<or> length rtype > 32
         then Inl (ValueError ''resource_type must contain 1..32 characters'')
         else if rid = [] \<or> length rid > 160
         then Inl (ValueError ''resource_id must contain 1..160 characters'')
         else
           let etype' = event_type etype;
               snapshot = (\<lambda>i. IncidentSnapshot (inc_id i) (inc_generation i) (inc_status i) etype' crd)
           in case find (\<lambda>i. inc_key i = key \<and> inc_active i) (incidents db) of
                None \<Rightarrow>
                  let i = \<lparr>inc_id = next_uuid db, inc_key = key,
                           inc_generation = max_generation key (incidents db) + 1,
                           inc_resource_type = rtype, inc_resource_id = rid,
                           inc_severity = severity, inc_status = IncOpen,
                           inc_corr = coalesce corr (next_uuid db + 1),
                           inc_opened_at = now, inc_resolved_at = None, inc_updated_at = now\<rparr>
                  in Inr (enqueue_notification etype' severity audience crd (snapshot i)
                       (Some (inc_id i)) (Some (inc_corr i))
                       (db\<lparr>incidents := incidents db @ [i], next_uuid := next_uuid db + 2\<rparr>))
              | Some i \<Rightarrow>
                  Inr (enqueue_notification ''incident_snapshot_updated'' severity audience crd
                       (snapshot i) (Some (inc_id i)) (Some (inc_corr i))
                       (db\<lparr>incidents := map (\<lambda>j. if inc_id j = inc_id i
                           then j\<lparr>inc_resource_type := rtype, inc_resource_id := rid,
                                  inc_severity := severity, inc_updated_at := now\<rparr>
                           else j) (incidents db)\<rparr>)))"

definition resolve_recurring_incident_in_transaction ::
  "int \<Rightarrow> string \<Rightarrow> string \<Rightarrow> card \<Rightarrow> ops_db \<Rightarrow> (ops_db \<times> bool) result" where
  "resolve_recurring_incident_in_transaction now incident_key audience crd db =
     (let key = py_strip incident_key
      in if key = [] \<or> length key > 160
         then Inl (ValueError ''incident_key must contain 1..160 characters'')
         else
           case find (\<lambda>i. inc_key i = key \<and> inc_active i) (incidents db) of
             None \<Rightarrow> Inr (db, False)
           | Some i \<Rightarrow>
               Inr (enqueue_notification ''incident_recovered'' ''ok'' audience crd
                    (IncidentResolvedKey (inc_id i) (inc_generation i))
                    (Some (inc_id i)) (Some (inc_corr i))
                    (db\<lparr>incidents := map (\<lambda>j. if inc_key j = key \<and> inc_active j
                        then j\<lparr>inc_status := IncResolved, inc_resolved_at := Some now,
                               inc_updated_at := now\<rparr>
                        else j) (incidents db)\<rparr>), True))"

section \<open>Cabinet identity and the re-login incident\<close>

definition require_ad_account_id :: "json \<Rightarrow> string result" where
  "require_ad_account_id v =
     (let check = (\<lambda>s.
        let n1 = py_strip s;
            n2 = (if py_lower (take 4 n1) = ''act_'' then drop 4 n1 else n1);
            n3 = py_strip n2
        in if 1 \<le> length n3 \<and> length n3 \<le> 32 \<and> list_all is_digit n3 then Inr n3
           else Inl (ValueError ''ad_account_id must be an explicit numeric account id''))
      in case v of
           JStr s \<Rightarrow> check s
         | JNum n \<Rightarrow> check (string_of_int n)
         | _ \<Rightarrow> Inl (ValueError ''ad_account_id must be an explicit numeric account id''))"

definition login_required_incident_key :: "string \<Rightarrow> string result" where
  "login_required_incident_key account =
     ebind (require_ad_account_id (JStr account))
       (\<lambda>a. Inr (''observer:login_required:'' @ a))"

definition notify_login_required_incident_in_transaction ::
  "int \<Rightarrow> string \<Rightarrow> ops_db \<Rightarrow> ops_db result" where
  "notify_login_required_incident_in_transaction now account db =
     ebind (require_ad_account_id (JStr account)) (\<lambda>a.
     ebind (login_required_incident_key a) (\<lambda>key.
       notify_recurring_incident_in_transaction now key ''all'' ''observer_login_required''
         ''critical'' [''login_required'', a] ''ad_account'' (Some a) None db))"

section \<open>Incidents of partial ad-set duplication\<close>

datatype duplicate_stage =
  DupPartial | RecoveryScheduled | RecoveryRetrying | RecoveryInvalid | CheckpointMissing

fun stage_name :: "duplicate_stage \<Rightarrow> string" where
  "stage_name DupPartial = ''partial''"
| "stage_name RecoveryScheduled = ''recovery_scheduled''"
| "stage_name RecoveryRetrying = ''recovery_retrying''"
| "stage_name RecoveryInvalid = ''recovery_invalid''"
| "stage_name CheckpointMissing = ''checkpoint_missing''"

definition duplicate_incident_key :: "int \<Rightarrow> string result" where
  "duplicate_incident_key task_id =
     (if task_id \<le> 0 then Inl (ValueError ''task_id must be positive'')
      else Inr (''task:duplicate-adset:'' @ string_of_int task_id))"

definition list_len :: "json \<Rightarrow> int" where
  "list_len v = (case v of JArr vs \<Rightarrow> int (length vs) | _ \<Rightarrow> 0)"

definition created_object_count :: "jobj \<Rightarrow> int" where
  "created_object_count checkpoint =
     sum_list (map (list_len \<circ> snd) (as_dict (jget checkpoint ''created_ids'')))"

definition cleanup_failure_count :: "jobj \<Rightarrow> int" where
  "cleanup_failure_count checkpoint = list_len (jget checkpoint ''cleanup_failures'')"

definition duplicate_requeue_stage :: "jobj \<Rightarrow> duplicate_stage" where
  "duplicate_requeue_stage checkpoint =
     (if jget checkpoint ''partial_fail'' = JBool True
         \<and> \<not> truthy (jget checkpoint ''recovery_attempt'')
      then DupPartial else RecoveryRetrying)"

text \<open>The counts each stage shows on its card.\<close>

definition duplicate_card :: "int \<Rightarrow> jobj \<Rightarrow> duplicate_stage \<Rightarrow> card" where
  "duplicate_card task_id checkpoint stage =
     (let created = string_of_int (created_object_count checkpoint);
          failures = string_of_int (cleanup_failure_count checkpoint);
          task = string_of_int task_id
      in case stage of
           DupPartial \<Rightarrow> [stage_name stage, task, created, failures]
         | RecoveryScheduled \<Rightarrow> [stage_name stage, task, created]
         | RecoveryRetrying \<Rightarrow> [stage_name stage, task, failures]
         | _ \<Rightarrow> [stage_name stage, task])"

definition project_duplicate_incident_in_transaction ::
  "int \<Rightarrow> int \<Rightarrow> jobj \<Rightarrow> duplicate_stage \<Rightarrow> ops_db \<Rightarrow> ops_db result" where
  "project_duplicate_incident_in_transaction now task_id checkpoint stage db =
     ebind (duplicate_incident_key task_id) (\<lambda>key.
       notify_recurring_incident_in_transaction now key ''owners''
         (''duplicate_adset_'' @ stage_name stage) ''critical''
         (duplicate_card task_id checkpoint stage)
         ''task'' (Some (string_of_int task_id)) None db)"

definition resolve_duplicate_incident_in_transaction ::
  "int \<Rightarrow> int \<Rightarrow> jobj \<Rightarrow> ops_db \<Rightarrow> ops_db result" where
  "resolve_duplicate_incident_in_transaction now task_id checkpoint db =
     ebind (duplicate_incident_key task_id) (\<lambda>key.
     ebind (resolve_recurring_incident_in_transaction now key ''owners''
         [''duplicate_resolved'', string_of_int task_id,
          string_of_int (created_object_count checkpoint)] db)
       (\<lambda>(db', resolved).
          if resolved then Inr db'
          else Inl (RuntimeError ''duplicate recovery task has no active incident to resolve'')))"

section \<open>Invariant\<close>

text \<open>
  Incident ids are distinct and below the next fresh one, a key has at most one active
  generation and no generation twice, and no dedupe key is in the outbox twice.
\<close>

definition ops_ok :: "ops_db \<Rightarrow> bool" where
  "ops_ok db \<longleftrightarrow>
     distinct (map inc_id (incidents db)) \<and>
     (\<forall>i \<in> set (incidents db). inc_id i < next_uuid db) \<and>
     uq_active_key (incidents db) \<and>
     distinct (map (\<lambda>i. (inc_key i, inc_generation i)) (incidents db)) \<and>
     distinct (map ev_dedupe (outbox db))"

lemma enqueue_notification_simps [simp]:
  "incidents (enqueue_notification et sv au cd dk ic co db) = incidents db"
  "runs (enqueue_notification et sv au cd dk ic co db) = runs db"
  by (simp_all add: enqueue_notification_def Let_def split: option.splits)

lemma next_uuid_enqueue: "next_uuid db \<le> next_uuid (enqueue_notification et sv au cd dk ic co db)"
  by (simp add: enqueue_notification_def Let_def split: option.splits)

lemma enqueue_notification_ok [intro]:
  assumes "ops_ok db"
  shows "ops_ok (enqueue_notification et sv au cd dk ic co db)"
proof -
  have "distinct (map ev_dedupe (outbox (enqueue_notification et sv au cd dk ic co db)))"
    using assms by (auto simp: ops_ok_def enqueue_notification_def Let_def split: option.splits)
  then show ?thesis
    using assms next_uuid_enqueue order_less_le_trans
    unfolding ops_ok_def by (metis enqueue_notification_simps(1))
qed

lemma enqueue_notification_present:
  "dk \<in> set (map ev_dedupe (outbox (enqueue_notification et sv au cd dk ic co db)))"
  by (auto simp: enqueue_notification_def Let_def split: option.splits)

lemma enqueue_notification_keeps:
  "e \<in> set (outbox db) \<Longrightarrow> e \<in> set (outbox (enqueue_notification et sv au cd dk ic co db))"
  by (auto simp: enqueue_notification_def Let_def split: option.splits)

text \<open>A row update that keeps the identity columns and never activates keeps the unique index.\<close>

lemma uq_active_key_map:
  assumes "\<And>i. inc_key (f i) = inc_key i" "\<And>i. inc_active (f i) \<Longrightarrow> inc_active i"
  shows "uq_active_key is \<Longrightarrow> uq_active_key (map f is)"
  unfolding uq_active_key_def
proof (induction "is")
  case (Cons i "is")
  have "set (map inc_key (filter inc_active (map f is))) \<subseteq> set (map inc_key (filter inc_active is))"
    using assms by auto
  moreover have "distinct (map inc_key (filter inc_active is))"
    using Cons.prems by (simp split: if_splits)
  ultimately show ?case
    using Cons assms by (auto split: if_splits)
qed simp

lemma map_update_ok:
  assumes "ops_ok db"
    and "\<And>i. inc_id (f i) = inc_id i" "\<And>i. inc_key (f i) = inc_key i"
    and "\<And>i. inc_generation (f i) = inc_generation i"
    and "uq_active_key (map f (incidents db))"
  shows "ops_ok (db\<lparr>incidents := map f (incidents db)\<rparr>)"
  using assms by (auto simp: ops_ok_def comp_def)

lemma fold_max_ge:
  "(m::int) \<le> fold (\<lambda>i m. if P i then max m (g i) else m) is m"
proof (induction "is" arbitrary: m)
  case (Cons i "is")
  have "m \<le> (if P i then max m (g i) else m)"
    by simp
  also have "\<dots> \<le> fold (\<lambda>i m. if P i then max m (g i) else m) is (if P i then max m (g i) else m)"
    by (rule Cons.IH)
  finally show ?case
    by simp
qed simp

lemma max_generation_ge:
  assumes "i \<in> set is" "inc_key i = key"
  shows "inc_generation i \<le> max_generation key is"
proof -
  have "inc_generation i \<le> fold (\<lambda>i m. if inc_key i = key then max m (inc_generation i) else m) is m"
    if "i \<in> set is" for "is" m
    using that
  proof (induction "is" arbitrary: m)
    case (Cons j "is")
    show ?case
    proof (cases "j = i")
      case True
      then have "inc_generation i \<le> (if inc_key j = key then max m (inc_generation j) else m)"
        using assms by simp
      also have "\<dots> \<le> fold (\<lambda>i m. if inc_key i = key then max m (inc_generation i) else m) is
          (if inc_key j = key then max m (inc_generation j) else m)"
        by (rule fold_max_ge)
      finally show ?thesis
        by simp
    qed (use Cons in auto)
  qed simp
  then show ?thesis
    using assms by (simp add: max_generation_def)
qed

lemma insert_incident_ok:
  assumes "ops_ok db" "find (\<lambda>i. inc_key i = key \<and> inc_active i) (incidents db) = None"
    and "inc_key i = key" "inc_id i = next_uuid db" "next_uuid db < n"
    and "inc_generation i = max_generation key (incidents db) + 1"
  shows "ops_ok (db\<lparr>incidents := incidents db @ [i], next_uuid := n\<rparr>)"
proof -
  have "key \<notin> inc_key ` {j \<in> set (incidents db). inc_active j}"
    using assms(2) by (auto simp: find_None_iff)
  moreover have "(key, inc_generation i) \<notin> (\<lambda>j. (inc_key j, inc_generation j)) ` set (incidents db)"
    using max_generation_ge assms(6) by fastforce
  ultimately show ?thesis
    using assms by (auto simp: ops_ok_def uq_active_key_def)
qed

lemma notify_recurring_ok:
  assumes "notify_recurring_incident_in_transaction now key au et sv cd rt ri co db = Inr db'" "ops_ok db"
  shows "ops_ok db'"
proof -
  let ?key = "py_strip key"
  have step: "ops_ok (db\<lparr>incidents := map (\<lambda>j. if inc_id j = n
      then j\<lparr>inc_resource_type := a, inc_resource_id := b, inc_severity := sv, inc_updated_at := now\<rparr>
      else j) (incidents db)\<rparr>)" for n a b
    using assms(2) by (intro map_update_ok uq_active_key_map) (auto simp: ops_ok_def inc_active_def split: if_splits)
  show ?thesis
  proof (cases "find (\<lambda>i. inc_key i = ?key \<and> inc_active i) (incidents db)")
    case None
    then show ?thesis
      using assms
      by (auto simp: notify_recurring_incident_in_transaction_def Let_def split: if_splits
          intro!: enqueue_notification_ok insert_incident_ok [where key = ?key])
  next
    case (Some i)
    then show ?thesis
      using assms step
      by (auto simp: notify_recurring_incident_in_transaction_def Let_def split: if_splits
          intro!: enqueue_notification_ok)
  qed
qed

lemma resolve_recurring_ok:
  assumes "resolve_recurring_incident_in_transaction now key au cd db = Inr (db', b)" "ops_ok db"
  shows "ops_ok db'"
proof -
  have step: "ops_ok (db\<lparr>incidents := map (\<lambda>j. if inc_key j = k \<and> inc_active j
      then j\<lparr>inc_status := IncResolved, inc_resolved_at := Some now, inc_updated_at := now\<rparr>
      else j) (incidents db)\<rparr>)" for k
    using assms(2) by (intro map_update_ok uq_active_key_map) (auto simp: ops_ok_def inc_active_def split: if_splits)
  then show ?thesis
    using assms
    by (auto simp: resolve_recurring_incident_in_transaction_def Let_def split: if_splits option.splits
        intro!: enqueue_notification_ok)
qed

lemma duplicate_projection_ok:
  "project_duplicate_incident_in_transaction now t cp st db = Inr db' \<Longrightarrow> ops_ok db \<Longrightarrow> ops_ok db'"
  "resolve_duplicate_incident_in_transaction now t cp db = Inr db' \<Longrightarrow> ops_ok db \<Longrightarrow> ops_ok db'"
  by (auto simp: project_duplicate_incident_in_transaction_def
      resolve_duplicate_incident_in_transaction_def err_simps
      split: if_splits intro: notify_recurring_ok resolve_recurring_ok)

lemma login_projection_ok:
  "notify_login_required_incident_in_transaction now a db = Inr db' \<Longrightarrow> ops_ok db \<Longrightarrow> ops_ok db'"
  by (auto simp: notify_login_required_incident_in_transaction_def err_simps intro: notify_recurring_ok)

end
