(* ===== verification/TaskTypes.thy ===== *)
theory TaskTypes
  imports Incidents
begin

text \<open>
  The data of \<open>core/tasks/queue.py\<close>: the row of \<open>task_queue\<close>, its closed vocabularies (kept as
  strings with a CHECK constraint in the database, here as datatypes with the strings they
  stand for), the lane constants, and the database state one transaction works on. Times are
  integers in microseconds; \<open>secs\<close> converts. A transaction reads three clocks:
  \<open>tx_now\<close> is PostgreSQL's \<open>NOW()\<close> (the start of the transaction), \<open>clk\<close> its
  \<open>clock_timestamp()\<close> (read once per statement), \<open>py_now\<close> the clock of the worker.
\<close>

section \<open>Vocabulary\<close>

datatype task_type = MetaApiMutation | ObserverScan | CampaignCreate | TrackerEventProcess

datatype task_status = Pending | Running | Succeeded | Failed | Retrying | Cancelled

datatype lane = LMoney | LInteractive | LBulk | LBackground

definition TASK_TYPES :: "(string \<times> task_type) list" where
  "TASK_TYPES =
     [(''meta_api_mutation'', MetaApiMutation), (''observer_scan'', ObserverScan),
      (''campaign_create'', CampaignCreate), (''tracker_event_process'', TrackerEventProcess)]"

definition TASK_STATUSES :: "(string \<times> task_status) list" where
  "TASK_STATUSES =
     [(''pending'', Pending), (''running'', Running), (''succeeded'', Succeeded),
      (''failed'', Failed), (''retrying'', Retrying), (''cancelled'', Cancelled)]"

definition TASK_LANES :: "(string \<times> lane) list" where
  "TASK_LANES =
     [(''money'', LMoney), (''interactive'', LInteractive), (''bulk'', LBulk), (''background'', LBackground)]"

definition BROWSER_BACKED_TASK_TYPES :: "task_type list" where
  "BROWSER_BACKED_TASK_TYPES = [MetaApiMutation, ObserverScan, CampaignCreate]"

definition BROWSER_READY_CLAIM_TASK_TYPES :: "task_type list" where
  "BROWSER_READY_CLAIM_TASK_TYPES = [MetaApiMutation, CampaignCreate]"

definition IRREVERSIBLE_TASK_TYPES :: "task_type list" where
  "IRREVERSIBLE_TASK_TYPES = [CampaignCreate]"

text \<open>The string a vocabulary stores for a value.\<close>

definition name_in :: "(string \<times> 'a) list \<Rightarrow> 'a \<Rightarrow> string" where
  "name_in voc v = (case find (\<lambda>(_, w). w = v) voc of None \<Rightarrow> [] | Some (n, _) \<Rightarrow> n)"

definition terminal :: "task_status \<Rightarrow> bool" where
  "terminal s \<longleftrightarrow> s \<in> {Succeeded, Failed, Cancelled}"

definition claimable :: "task_status \<Rightarrow> bool" where
  "claimable s \<longleftrightarrow> s \<in> {Pending, Retrying}"

section \<open>Lane constants\<close>

definition secs :: "int \<Rightarrow> int" where
  "secs n = n * 1000000"

fun LANE_QUEUE_WAIT_SECONDS :: "lane \<Rightarrow> int option" where
  "LANE_QUEUE_WAIT_SECONDS LMoney = None"
| "LANE_QUEUE_WAIT_SECONDS LInteractive = Some 120"
| "LANE_QUEUE_WAIT_SECONDS LBulk = Some 1800"
| "LANE_QUEUE_WAIT_SECONDS LBackground = Some 120"

fun LANE_EXECUTION_WINDOW_SECONDS :: "lane \<Rightarrow> int" where
  "LANE_EXECUTION_WINDOW_SECONDS LMoney = 30"
| "LANE_EXECUTION_WINDOW_SECONDS LInteractive = 120"
| "LANE_EXECUTION_WINDOW_SECONDS LBulk = 1800"
| "LANE_EXECUTION_WINDOW_SECONDS LBackground = 120"

definition FINALIZE_HEADROOM_SECONDS :: int where
  "FINALIZE_HEADROOM_SECONDS = 60"

fun LANE_DEFAULT_PRIORITY :: "lane \<Rightarrow> int" where
  "LANE_DEFAULT_PRIORITY LMoney = 100"
| "LANE_DEFAULT_PRIORITY LInteractive = 50"
| "LANE_DEFAULT_PRIORITY LBulk = 20"
| "LANE_DEFAULT_PRIORITY LBackground = 0"

definition RETRY_BASE_SECONDS :: int where
  "RETRY_BASE_SECONDS = 30"

definition RETRY_MAX_SECONDS :: int where
  "RETRY_MAX_SECONDS = 300"

definition queue_wait_seconds :: "lane \<Rightarrow> int" where
  "queue_wait_seconds l = coalesce (LANE_QUEUE_WAIT_SECONDS l) 120"

text \<open>\<open>2**attempt\<close> of a count that is never negative.\<close>

definition retry_delay_seconds :: "int \<Rightarrow> int" where
  "retry_delay_seconds attempt = min (RETRY_BASE_SECONDS * 2 ^ nat attempt) RETRY_MAX_SECONDS"

definition calc_retry_available_at :: "int \<Rightarrow> int \<Rightarrow> int" where
  "calc_retry_available_at now attempt = now + secs (retry_delay_seconds attempt)"

section \<open>State\<close>

record task =
  t_id :: int
  t_type :: task_type
  t_status :: task_status
  t_idempotency_key :: string
  t_payload :: jobj
  t_attempt_count :: int
  t_max_attempts :: int
  t_requested_by :: string
  t_created_by_chat_id :: "int option"
  t_last_error :: "string option"
  t_created_at :: int
  t_updated_at :: int
  t_completed_at :: "int option"
  t_external_started_at :: "int option"
  t_result :: "jobj option"
  t_lane :: lane
  t_priority :: int
  t_available_at :: int
  t_deadline_at :: "int option"
  t_lease_owner :: "int option"
  t_lease_token :: int
  t_lease_expires_at :: "int option"
  t_cancel_requested_at :: "int option"
  t_cancel_reason :: "string option"
  t_correlation_id :: int
  t_review_observation :: "string option"
  t_review_at :: "int option"
  t_review_by :: "string option"

text \<open>
  The rows a browser claim reads: the singleton Vision configuration, the readiness row of the
  \<open>meta_api\<close> channel and the maintenance gate of \<open>system_config\<close> (its expiry).
\<close>

record vision_config =
  vc_id :: int
  vc_profile_id :: string
  vc_updated_at :: int

record channel_readiness =
  rd_config_id :: int
  rd_config_updated_at :: int
  rd_expected_profile :: string
  rd_observed_profile :: "string option"
  rd_session :: "string option"
  rd_contract :: "int option"
  rd_state :: string
  rd_reason_code :: string
  rd_expires_at :: "int option"
  rd_generation :: int

record qdb =
  tasks :: "task list"
  next_id :: int
  ops :: ops_db
  wakeups :: "(int \<times> task_type \<times> lane) list"
  vision :: "vision_config option"
  readiness :: "channel_readiness option"
  maintenance_until :: "int option"

record clock =
  tx_now :: int
  clk :: int
  py_now :: int

section \<open>Row statements\<close>

text \<open>\<open>UPDATE task_queue SET f WHERE P RETURNING *\<close>\<close>

definition update_tasks :: "(task \<Rightarrow> bool) \<Rightarrow> (task \<Rightarrow> task) \<Rightarrow> qdb \<Rightarrow> qdb \<times> task list" where
  "update_tasks P f db =
     (db\<lparr>tasks := map (\<lambda>t. if P t then f t else t) (tasks db)\<rparr>, map f (filter P (tasks db)))"

definition task_by_id :: "int \<Rightarrow> qdb \<Rightarrow> task option" where
  "task_by_id i db = find (\<lambda>t. t_id t = i) (tasks db)"

text \<open>A projection of a task transition works on the operator tables only.\<close>

definition on_ops :: "(ops_db \<Rightarrow> ops_db result) \<Rightarrow> qdb \<Rightarrow> qdb result" where
  "on_ops f db = ebind (f (ops db)) (\<lambda>o'. Inr (db\<lparr>ops := o'\<rparr>))"

section \<open>Fence and lane\<close>

definition has_valid_fence :: "int option \<Rightarrow> int option \<Rightarrow> bool" where
  "has_valid_fence lease_owner lease_token \<longleftrightarrow>
     lease_owner \<noteq> None \<and> (case lease_token of None \<Rightarrow> False | Some k \<Rightarrow> k > 0)"

text \<open>\<open>status = 'running' AND lease_owner = :o AND lease_token = :k AND lease_expires_at > clock_timestamp()\<close>\<close>

definition fence_live :: "clock \<Rightarrow> int \<Rightarrow> int option \<Rightarrow> int option \<Rightarrow> task \<Rightarrow> bool" where
  "fence_live c task_id lease_owner lease_token t \<longleftrightarrow>
     t_id t = task_id \<and> t_status t = Running \<and>
     lease_owner \<noteq> None \<and> t_lease_owner t = lease_owner \<and> Some (t_lease_token t) = lease_token \<and>
     (case t_lease_expires_at t of None \<Rightarrow> False | Some x \<Rightarrow> x > clk c)"

text \<open>\<open>lease_expires_at <= NOW()\<close>, or no lease and no update for \<open>sec\<close> seconds.\<close>

definition lease_lost :: "clock \<Rightarrow> int \<Rightarrow> task \<Rightarrow> bool" where
  "lease_lost c sec t \<longleftrightarrow>
     (case t_lease_expires_at t of
        Some x \<Rightarrow> x \<le> tx_now c
      | None \<Rightarrow> t_updated_at t < tx_now c - secs sec)"

definition mutation_kind :: "jobj \<Rightarrow> string" where
  "mutation_kind payload = str_or_empty (jget payload ''mutation_kind'')"

definition infer_task_lane :: "task_type \<Rightarrow> jobj \<Rightarrow> string \<Rightarrow> lane" where
  "infer_task_lane tt payload requested_by =
     (let mk = mutation_kind payload
      in if tt = MetaApiMutation \<and> mk = ''pause_ad'' \<and> requested_by = ''bot_auto_stop'' then LMoney
         else if tt = CampaignCreate
              \<or> tt = MetaApiMutation \<and> mk \<in> {''bulk_status_change'', ''duplicate_adset_structure''}
         then LBulk
         else if tt = TrackerEventProcess then LBackground
         else LInteractive)"

text \<open>\<open>COALESCE(result->>'reconcile_required', 'false') = 'true'\<close>\<close>

definition reconcile_flag :: "task \<Rightarrow> bool" where
  "reconcile_flag t \<longleftrightarrow> arrow_text (obj_or_empty (t_result t)) ''reconcile_required'' = Some ''true''"

text \<open>\<open>outcome == "UNKNOWN" or reconcile_required is True\<close> of a result in Python.\<close>

definition is_unknown :: "jobj \<Rightarrow> bool" where
  "is_unknown r \<longleftrightarrow> jget r ''outcome'' = JStr ''UNKNOWN'' \<or> jget r ''reconcile_required'' = JBool True"

section \<open>Laws\<close>

lemma retry_delay_bounds: "0 \<le> attempt \<Longrightarrow> 30 \<le> retry_delay_seconds attempt \<and> retry_delay_seconds attempt \<le> 300"
  by (simp add: retry_delay_seconds_def RETRY_BASE_SECONDS_def RETRY_MAX_SECONDS_def)

lemma update_tasks_simps [simp]:
  "tasks (fst (update_tasks P f db)) = map (\<lambda>t. if P t then f t else t) (tasks db)"
  "next_id (fst (update_tasks P f db)) = next_id db"
  "ops (fst (update_tasks P f db)) = ops db"
  "snd (update_tasks P f db) = map f (filter P (tasks db))"
  by (simp_all add: update_tasks_def)

lemma update_tasks_none:
  assumes "filter P (tasks db) = []"
  shows "update_tasks P f db = (db, [])"
proof -
  have "map (\<lambda>t. if P t then f t else t) (tasks db) = tasks db"
    using assms by (intro map_idI) (auto simp: filter_empty_conv)
  then show ?thesis
    using assms by (simp add: update_tasks_def)
qed

lemma on_ops_Inr [err_simps]: "on_ops f db = Inr db' \<longleftrightarrow> (\<exists>x. f (ops db) = Inr x \<and> db' = db\<lparr>ops := x\<rparr>)"
  by (auto simp: on_ops_def err_simps)

lemma on_ops_frame: "on_ops f db = Inr db' \<Longrightarrow> tasks db' = tasks db \<and> next_id db' = next_id db"
  by (auto simp: err_simps)

lemma reconcile_flag_None: "t_result t = None \<Longrightarrow> \<not> reconcile_flag t"
  by (simp add: reconcile_flag_def)

end
