(* ===== verification/TaskProjection.thy ===== *)
theory TaskProjection
  imports TaskTypes
begin

text \<open>
  What a task transition writes for the operator inside its own transaction
  (\<open>core/tasks/queue.py\<close>, from \<open>_transition_correlated_incident\<close> to
  \<open>_transition_returned_terminal_tasks\<close>): the correlated incident, the standalone money
  card, the campaign reconciliation incident, the campaign run and the session incidents.
\<close>

section \<open>Correlated incident\<close>

datatype phase = PhExecuting | PhConfirmed | PhFailed | PhCancelled | PhUnknown | PhRecovered

fun phase_name :: "phase \<Rightarrow> string" where
  "phase_name PhExecuting = ''executing''"
| "phase_name PhConfirmed = ''confirmed''"
| "phase_name PhFailed = ''failed''"
| "phase_name PhCancelled = ''cancelled''"
| "phase_name PhUnknown = ''unknown''"
| "phase_name PhRecovered = ''recovered''"

text \<open>Incident status, event type and severity of a phase.\<close>

definition phase_projection :: "phase \<Rightarrow> bool \<Rightarrow> incident_status \<times> string \<times> string" where
  "phase_projection ph keep_open =
     (let closed = (if keep_open then IncOpen else IncFailed)
      in case ph of
           PhExecuting \<Rightarrow> (IncExecuting, ''action_executing'', ''warning'')
         | PhConfirmed \<Rightarrow> (IncResolved, ''action_confirmed'', ''ok'')
         | PhRecovered \<Rightarrow> (IncResolved, ''incident_recovered'', ''ok'')
         | PhUnknown \<Rightarrow> (closed, ''action_unknown'', ''critical'')
         | PhCancelled \<Rightarrow> (closed, ''action_cancelled'', ''warning'')
         | PhFailed \<Rightarrow> (closed, ''action_failed'', ''critical''))"

text \<open>
  Every incident of the correlation that is not resolved takes the new status. Moving a
  closed generation back to an active status fails on the unique index when its key has
  another active generation.
\<close>

definition transition_correlated_incident ::
  "clock \<Rightarrow> int \<Rightarrow> int option \<Rightarrow> phase \<Rightarrow> jobj \<Rightarrow> bool \<Rightarrow> ops_db \<Rightarrow> (ops_db \<times> bool) result" where
  "transition_correlated_incident c task_id correlation_id ph payload keep_open db =
     (case correlation_id of
        None \<Rightarrow> Inr (db, False)
      | Some cor \<Rightarrow>
          let (st, etype, severity) = phase_projection ph keep_open;
              hit = (\<lambda>i. inc_corr i = cor \<and> inc_status i \<noteq> IncResolved);
              rows = map (\<lambda>i. if hit i
                  then i\<lparr>inc_status := st,
                         inc_resolved_at := (if st \<in> {IncResolved, IncFailed} then Some (tx_now c) else None),
                         inc_updated_at := tx_now c\<rparr>
                  else i) (incidents db)
          in case find hit (incidents db) of
               None \<Rightarrow> Inr (db, False)
             | Some i \<Rightarrow>
                 if \<not> uq_active_key rows then Inl (IntegrityError ''uq_incidents_active_key'')
                 else Inr (enqueue_notification etype severity ''owners''
                        [phase_name ph, string_of_int task_id, mutation_kind payload]
                        (TaskEvent task_id (phase_name ph)) (Some (inc_id i)) (Some cor)
                        (db\<lparr>incidents := rows\<rparr>), True))"

section \<open>Money classification\<close>

definition params_action :: "jobj \<Rightarrow> string" where
  "params_action payload =
     py_upper (str_or_empty (jget (as_dict (jget payload ''params'')) ''action''))"

definition is_money_stop_payload :: "jobj \<Rightarrow> bool" where
  "is_money_stop_payload payload \<longleftrightarrow>
     mutation_kind payload = ''pause_ad'' \<or>
     mutation_kind payload = ''bulk_status_change'' \<and> params_action payload \<in> {''PAUSE'', ''PAUSED''}"

definition is_money_changing_task :: "task_type \<Rightarrow> jobj \<Rightarrow> bool" where
  "is_money_changing_task tt payload \<longleftrightarrow>
     tt = MetaApiMutation \<and>
     (mutation_kind payload \<in> {''pause_ad'', ''activate_ad''} \<or>
      mutation_kind payload = ''bulk_status_change'' \<and>
        params_action payload \<in> {''PAUSE'', ''PAUSED'', ''ACTIVATE'', ''ACTIVE''})"

definition is_partial_money_result :: "jobj \<Rightarrow> jobj \<Rightarrow> bool" where
  "is_partial_money_result payload res \<longleftrightarrow>
     mutation_kind payload = ''bulk_status_change'' \<and>
     (case int_or_zero (jget res ''succeeded'') of
        Some n \<Rightarrow> n > 0 \<and> (case int_or_zero (jget res ''failed'') of Some m \<Rightarrow> m > 0 | None \<Rightarrow> False)
      | None \<Rightarrow> False)"

section \<open>Standalone cards\<close>

definition ad_name_by_fb_ad_id :: "string \<Rightarrow> ops_db \<Rightarrow> string option" where
  "ad_name_by_fb_ad_id fb_ad_id db =
     (if fb_ad_id = [] then None
      else case find (\<lambda>(k, _). k = fb_ad_id) (fb_ads db) of
             Some (_, Some name) \<Rightarrow> (let n = py_strip name in if n = [] then None else Some n)
           | _ \<Rightarrow> None)"

definition enqueue_standalone_money_failure ::
  "int \<Rightarrow> int option \<Rightarrow> phase \<Rightarrow> jobj \<Rightarrow> string \<Rightarrow> task_type \<Rightarrow> string option \<Rightarrow> ops_db \<Rightarrow> ops_db" where
  "enqueue_standalone_money_failure task_id correlation_id ph payload requested_by tt dedupe_suffix db =
     (if \<not> is_money_changing_task tt payload then db
      else
        let mk = (if truthy (jget payload ''mutation_kind'') then mutation_kind payload
                  else if truthy (jget payload ''action'') then py_str (jget payload ''action'')
                  else name_in TASK_TYPES tt);
            target = str_or_empty (jget payload ''target_id'');
            label = coalesce (ad_name_by_fb_ad_id target db) target;
            title = (if is_money_stop_payload payload
                     then (if requested_by = ''bot_auto_stop'' then ''auto_stop'' else ''stop'')
                     else ''money_action'')
        in enqueue_notification
             (if ph = PhUnknown then ''action_unknown'' else ''action_failed'') ''critical'' ''owners''
             [title, take 120 label, string_of_int task_id, mk, target, phase_name ph]
             (TaskEvent task_id (if or_empty dedupe_suffix = [] then phase_name ph else or_empty dedupe_suffix))
             None correlation_id db)"

definition created_kind_count :: "json \<Rightarrow> int" where
  "created_kind_count v = (case v of JArr vs \<Rightarrow> int (length vs) | _ \<Rightarrow> if truthy v then 1 else 0)"

text \<open>The closed table of browser rejections: each code with its retry verdict.\<close>

datatype browser_rejection_retry = RetryHelps | RetryDoesNotHelp | RetryUnknown

definition BROWSER_OPERATION_REJECTION_TABLE :: "(string \<times> browser_rejection_retry) list" where
  "BROWSER_OPERATION_REJECTION_TABLE =
     [(''capability_authority_unavailable'', RetryHelps),
      (''capability_contract_incompatible'', RetryDoesNotHelp),
      (''capability_secret_unavailable'', RetryHelps),
      (''capability_cabinet_mismatch'', RetryDoesNotHelp),
      (''caller_not_authorized'', RetryDoesNotHelp),
      (''capability_task_binding_invalid'', RetryDoesNotHelp),
      (''capability_lease_binding_invalid'', RetryDoesNotHelp),
      (''capability_expired'', RetryHelps),
      (''capability_malformed'', RetryDoesNotHelp),
      (''capability_signature_invalid'', RetryDoesNotHelp),
      (''capability_expiry_missing'', RetryDoesNotHelp),
      (''capability_reason_unknown'', RetryUnknown),
      (''ownership_preflight_rejected'', RetryDoesNotHelp),
      (''graph_method_override'', RetryDoesNotHelp),
      (''graph_method_semantics'', RetryDoesNotHelp),
      (''graph_get_body'', RetryDoesNotHelp),
      (''graph_endpoint_query'', RetryDoesNotHelp),
      (''ad_account_id_not_numeric'', RetryDoesNotHelp),
      (''ad_account_id_missing'', RetryDoesNotHelp)]"

text \<open>The values of the campaign card: created counts, and the rejection when it is proven.\<close>

definition campaign_unknown_card :: "int \<Rightarrow> jobj \<Rightarrow> card" where
  "campaign_unknown_card task_id res =
     (let created = as_dict (jget res ''created_ids'');
          counts = map (\<lambda>k. created_kind_count (jget created k))
            [''campaigns'', ''adsets'', ''ads'', ''creatives''];
          nonempty = (\<exists>n \<in> set counts. n > 0);
          pre_dispatch = (jget res ''pre_dispatch'' = JBool True \<and> nonempty);
          code = str_or_empty (jget res ''pre_dispatch_reason_code'');
          known = (map_of BROWSER_OPERATION_REJECTION_TABLE code \<noteq> None)
      in (if nonempty then map (\<lambda>n. string_of_int n) counts else [''nothing'', string_of_int task_id]) @
         (if pre_dispatch then ''pre_dispatch'' # (if known then [code] else []) else []))"

definition enqueue_standalone_campaign_unknown ::
  "clock \<Rightarrow> int \<Rightarrow> int option \<Rightarrow> phase \<Rightarrow> jobj \<Rightarrow> jobj \<Rightarrow> task_type \<Rightarrow> ops_db \<Rightarrow> ops_db result" where
  "enqueue_standalone_campaign_unknown c task_id correlation_id ph payload res tt db =
     (if tt \<noteq> CampaignCreate \<or> ph \<noteq> PhUnknown then Inr db
      else
        let run = py_strip (if truthy (jget payload ''run_id'') then py_str (jget payload ''run_id'')
                            else str_or_empty (jget res ''run_id''))
        in if run = [] then Inl (ValueError ''campaign_create UNKNOWN projection requires run_id'')
           else notify_recurring_incident_in_transaction (tx_now c)
                  (''campaign-create:'' @ run @ '':unknown'') ''owners''
                  ''campaign_create_reconciliation_required'' ''critical''
                  (campaign_unknown_card task_id res) ''campaign_run'' (Some run) correlation_id db)"

section \<open>Campaign run\<close>

definition is_hex :: "char \<Rightarrow> bool" where
  "is_hex ch \<longleftrightarrow> is_digit ch \<or> (let n = of_char (lower_char ch) :: int in 97 \<le> n \<and> n \<le> 102)"

definition hex_val :: "char \<Rightarrow> int" where
  "hex_val ch = (if is_digit ch then digit_val ch else of_char (lower_char ch) - 87)"

text \<open>
  \<open>uuid.UUID(text)\<close>: braces at the ends and dashes are dropped, 32 hexadecimal digits must
  remain. (The \<open>urn:uuid:\<close> prefix, which PostgreSQL's cast refuses, is not accepted.)
\<close>

definition uuid_of_string :: "string \<Rightarrow> int option" where
  "uuid_of_string s =
     (let h = filter (\<lambda>ch. ch \<noteq> CHR ''-'') (strip_chars ''{}'' s)
      in if length h = 32 \<and> list_all is_hex h
         then Some (foldl (\<lambda>a ch. 16 * a + hex_val ch) 0 h) else None)"

datatype run_reason =
    RunCancelled | RunUnknown | RunQueueWaitExceeded | RunDeadlineExceeded | RunRejected

definition campaign_run_terminal_reason :: "phase \<Rightarrow> jobj option \<Rightarrow> run_reason" where
  "campaign_run_terminal_reason ph res =
     (if ph = PhCancelled then RunCancelled
      else if ph = PhUnknown then RunUnknown
      else
        let reason = str_or_empty (jget (obj_or_empty res) ''reason'')
        in if reason = ''queue_wait_limit_exceeded'' then RunQueueWaitExceeded
           else if reason = ''absolute_deadline_exceeded'' then RunDeadlineExceeded
           else RunRejected)"

fun run_reason_text :: "run_reason \<Rightarrow> string" where
  "run_reason_text RunCancelled = ''cancelled''"
| "run_reason_text RunUnknown = ''unconfirmed''"
| "run_reason_text RunQueueWaitExceeded = ''queue wait limit''"
| "run_reason_text RunDeadlineExceeded = ''deadline''"
| "run_reason_text RunRejected = ''rejected''"

definition terminalize_campaign_run ::
  "clock \<Rightarrow> phase \<Rightarrow> jobj \<Rightarrow> jobj option \<Rightarrow> ops_db \<Rightarrow> ops_db" where
  "terminalize_campaign_run c ph payload res db =
     (let run = py_strip (str_or_empty (jget payload ''run_id''))
      in case (if run = [] then None else uuid_of_string run) of
           None \<Rightarrow> db
         | Some u \<Rightarrow>
             db\<lparr>runs := map (\<lambda>r.
               if run_uuid r = u \<and> run_status r \<notin> {''succeeded'', ''failed'', ''cancelled''}
               then r\<lparr>run_status := (if ph = PhCancelled then ''cancelled'' else ''failed''),
                      run_error := (if or_empty (run_error r) = []
                        then Some (run_reason_text (campaign_run_terminal_reason ph res))
                        else run_error r),
                      run_updated_at := tx_now c\<rparr>
               else r) (runs db)\<rparr>)"

section \<open>Terminal projection\<close>

definition transition_terminal_task ::
  "clock \<Rightarrow> int \<Rightarrow> int option \<Rightarrow> phase \<Rightarrow> jobj \<Rightarrow> jobj option \<Rightarrow> string \<Rightarrow> task_type \<Rightarrow> ops_db \<Rightarrow> ops_db result" where
  "transition_terminal_task c task_id correlation_id ph payload res requested_by tt db =
     ebind (transition_correlated_incident c task_id correlation_id ph payload
         (requested_by = ''bot_auto_stop'' \<and> is_money_stop_payload payload)
         (terminalize_campaign_run c ph payload res db))
       (\<lambda>(db1, has_incident_event).
          if \<not> has_incident_event \<and> ph \<in> {PhFailed, PhUnknown}
          then enqueue_standalone_campaign_unknown c task_id correlation_id ph payload (obj_or_empty res) tt
                 (enqueue_standalone_money_failure task_id correlation_id ph payload requested_by tt None db1)
          else Inr db1)"

definition project_duplicate_terminal_incident ::
  "clock \<Rightarrow> int \<Rightarrow> jobj \<Rightarrow> jobj \<Rightarrow> ops_db \<Rightarrow> ops_db result" where
  "project_duplicate_terminal_incident c task_id payload res db =
     (if jget payload ''mutation_kind'' \<noteq> JStr ''duplicate_adset_structure''
         \<or> jget res ''checkpoint_type'' \<noteq> JStr ''duplicate_adset_structure'' then Inr db
      else
        let ph = str_or_empty (jget res ''phase'')
        in if ph = ''recovery_paused''
           then resolve_duplicate_incident_in_transaction (tx_now c) task_id res db
           else project_duplicate_incident_in_transaction (tx_now c) task_id res
                  (if ph = ''recovery_checkpoint_invalid'' then RecoveryInvalid else DupPartial) db)"

definition resolve_confirmed_autostop_incidents_in_transaction ::
  "clock \<Rightarrow> jobj \<Rightarrow> jobj \<Rightarrow> string \<Rightarrow> ops_db \<Rightarrow> ops_db result" where
  "resolve_confirmed_autostop_incidents_in_transaction c payload res requested_by db =
     (if requested_by \<noteq> ''bot_auto_stop''
         \<or> jget payload ''mutation_kind'' \<noteq> JStr ''pause_ad''
         \<or> jget res ''outcome'' \<noteq> JStr ''CONFIRMED'' then Inr db
      else
        let target = py_strip (str_or_empty (jget payload ''target_id''))
        in if target = [] then Inl (ValueError ''confirmed auto-stop pause_ad requires target_id'')
           else ebind (resolve_recurring_incident_in_transaction (tx_now c)
                  (''autostop:undelivered:'' @ target) ''owners''
                  [''autostop_confirmed'', coalesce (ad_name_by_fb_ad_id target db) target] db)
                  (\<lambda>(db', _). Inr db'))"

definition META_TOKEN_INVALID_INCIDENT_KEY :: string where
  "META_TOKEN_INVALID_INCIDENT_KEY = ''meta:token-invalid''"

definition project_meta_token_incident_in_transaction ::
  "clock \<Rightarrow> task_type \<Rightarrow> jobj \<Rightarrow> ops_db \<Rightarrow> ops_db result" where
  "project_meta_token_incident_in_transaction c tt res db =
     (if tt \<noteq> MetaApiMutation \<or> jget res ''requires_meta_reauth'' \<noteq> JBool True then Inr db
      else notify_recurring_incident_in_transaction (tx_now c) META_TOKEN_INVALID_INCIDENT_KEY
             ''owners'' ''meta_token_invalid'' ''critical'' [''meta_token_invalid'']
             ''meta_session'' (Some ''marketing-api'') None db)"

definition project_facebook_login_incident_in_transaction ::
  "clock \<Rightarrow> task_type \<Rightarrow> jobj \<Rightarrow> jobj \<Rightarrow> ops_db \<Rightarrow> ops_db result" where
  "project_facebook_login_incident_in_transaction c tt payload res db =
     (if tt \<noteq> MetaApiMutation \<or> jget res ''requires_facebook_login'' \<noteq> JBool True then Inr db
      else
        let account = py_strip (str_or_empty (jget payload ''ad_account_id''))
        in if account = [] then Inl (ValueError ''facebook login incident requires ad_account_id'')
           else notify_login_required_incident_in_transaction (tx_now c) account db)"

definition resolve_meta_token_incident_in_transaction ::
  "clock \<Rightarrow> task_type \<Rightarrow> ops_db \<Rightarrow> ops_db result" where
  "resolve_meta_token_incident_in_transaction c tt db =
     (if tt \<noteq> MetaApiMutation then Inr db
      else ebind (resolve_recurring_incident_in_transaction (tx_now c) META_TOKEN_INVALID_INCIDENT_KEY
             ''owners'' [''meta_token_restored''] db) (\<lambda>(db', _). Inr db'))"

section \<open>Rows returned by a reconciler\<close>

definition returned_phase :: "phase option \<Rightarrow> task \<Rightarrow> phase" where
  "returned_phase force_phase t =
     (case force_phase of
        Some ph \<Rightarrow> ph
      | None \<Rightarrow>
          if t_status t = Cancelled then PhCancelled
          else if is_unknown (obj_or_empty (t_result t)) then PhUnknown else PhFailed)"

fun transition_returned_terminal_tasks ::
  "clock \<Rightarrow> phase option \<Rightarrow> task list \<Rightarrow> ops_db \<Rightarrow> ops_db result" where
  "transition_returned_terminal_tasks c force_phase [] db = Inr db"
| "transition_returned_terminal_tasks c force_phase (t # ts) db =
     (if t_status t \<notin> {Failed, Cancelled} then transition_returned_terminal_tasks c force_phase ts db
      else ebind (transition_terminal_task c (t_id t) (Some (t_correlation_id t))
               (returned_phase force_phase t) (t_payload t) (Some (obj_or_empty (t_result t)))
               (t_requested_by t) (t_type t) db)
             (transition_returned_terminal_tasks c force_phase ts))"

section \<open>Laws\<close>

lemma transition_correlated_incident_ok:
  assumes "transition_correlated_incident c i cor ph pl ko db = Inr (db', b)" "ops_ok db"
  shows "ops_ok db'"
proof (cases cor)
  case (Some k)
  obtain st et sv where proj: "phase_projection ph ko = (st, et, sv)"
    by (cases "phase_projection ph ko")
  let ?hit = "\<lambda>i. inc_corr i = k \<and> inc_status i \<noteq> IncResolved"
  let ?f = "\<lambda>i. if ?hit i
      then i\<lparr>inc_status := st,
             inc_resolved_at := (if st \<in> {IncResolved, IncFailed} then Some (tx_now c) else None),
             inc_updated_at := tx_now c\<rparr> else i"
  have upd: "ops_ok (db\<lparr>incidents := map ?f (incidents db)\<rparr>)" if "uq_active_key (map ?f (incidents db))"
    using assms(2) that by (intro map_update_ok) auto
  show ?thesis
  proof (cases "find ?hit (incidents db)")
    case None
    then show ?thesis
      using assms Some proj by (simp add: transition_correlated_incident_def Let_def)
  next
    case (Some j)
    then show ?thesis
      using assms \<open>cor = Some k\<close> proj upd
      by (auto simp: transition_correlated_incident_def Let_def split: if_splits)
  qed
qed (use assms in \<open>simp add: transition_correlated_incident_def\<close>)

lemma transition_correlated_incident_event:
  assumes "transition_correlated_incident c i cor ph pl ko db = Inr (db', True)"
  shows "TaskEvent i (phase_name ph) \<in> set (map ev_dedupe (outbox db'))"
  using assms enqueue_notification_present
  by (auto simp: transition_correlated_incident_def Let_def simp del: set_map
      split: option.splits prod.splits if_splits)

lemma money_failure_ok: "ops_ok db \<Longrightarrow> ops_ok (enqueue_standalone_money_failure i cor ph pl rb tt ds db)"
  by (auto simp: enqueue_standalone_money_failure_def Let_def)

lemma campaign_unknown_ok:
  "enqueue_standalone_campaign_unknown c i cor ph pl r tt db = Inr db' \<Longrightarrow> ops_ok db \<Longrightarrow> ops_ok db'"
  by (auto simp: enqueue_standalone_campaign_unknown_def Let_def split: if_splits intro: notify_recurring_ok)

lemma terminalize_campaign_run_simps [simp]:
  "incidents (terminalize_campaign_run c ph pl r db) = incidents db"
  "outbox (terminalize_campaign_run c ph pl r db) = outbox db"
  "next_uuid (terminalize_campaign_run c ph pl r db) = next_uuid db"
  by (simp_all add: terminalize_campaign_run_def Let_def split: option.splits)

lemma terminalize_campaign_run_ok: "ops_ok db \<Longrightarrow> ops_ok (terminalize_campaign_run c ph pl r db)"
  by (simp add: ops_ok_def)

lemma transition_terminal_task_ok:
  assumes "transition_terminal_task c i cor ph pl r rb tt db = Inr db'" "ops_ok db"
  shows "ops_ok db'"
proof -
  obtain db1 b where 1: "transition_correlated_incident c i cor ph pl
      (rb = ''bot_auto_stop'' \<and> is_money_stop_payload pl) (terminalize_campaign_run c ph pl r db) = Inr (db1, b)"
    using assms(1) by (auto simp: transition_terminal_task_def err_simps)
  have ok: "ops_ok db1"
    using transition_correlated_incident_ok [OF 1] terminalize_campaign_run_ok [OF assms(2)] by simp
  show ?thesis
  proof (cases "\<not> b \<and> ph \<in> {PhFailed, PhUnknown}")
    case True
    then have "enqueue_standalone_campaign_unknown c i cor ph pl (obj_or_empty r) tt
        (enqueue_standalone_money_failure i cor ph pl rb tt None db1) = Inr db'"
      using assms(1) 1 by (simp add: transition_terminal_task_def)
    then show ?thesis
      using ok by (rule campaign_unknown_ok [OF _ money_failure_ok])
  next
    case False
    then have "db' = db1"
      using assms(1) 1 by (auto simp: transition_terminal_task_def split: if_splits)
    then show ?thesis
      using ok by simp
  qed
qed

lemma transition_terminal_task_money_card:
  assumes "transition_terminal_task c i cor ph pl r rb tt db = Inr db'"
    and "is_money_changing_task tt pl" "ph \<in> {PhFailed, PhUnknown}"
  shows "TaskEvent i (phase_name ph) \<in> set (map ev_dedupe (outbox db'))"
proof -
  obtain db1 b where 1: "transition_correlated_incident c i cor ph pl
      (rb = ''bot_auto_stop'' \<and> is_money_stop_payload pl) (terminalize_campaign_run c ph pl r db) = Inr (db1, b)"
    using assms(1) by (auto simp: transition_terminal_task_def err_simps)
  show ?thesis
  proof (cases b)
    case True
    then have "db' = db1"
      using assms(1) 1 by (simp add: transition_terminal_task_def)
    then show ?thesis
      using 1 True transition_correlated_incident_event by simp
  next
    case False
    then have "db' = enqueue_standalone_money_failure i cor ph pl rb tt None db1"
      using assms 1 by (auto simp: transition_terminal_task_def enqueue_standalone_campaign_unknown_def
          is_money_changing_task_def)
    then show ?thesis
      using assms(2) by (simp add: enqueue_standalone_money_failure_def Let_def enqueue_notification_present
          del: set_map)
  qed
qed

lemma transition_returned_terminal_tasks_ok:
  "transition_returned_terminal_tasks c fp ts db = Inr db' \<Longrightarrow> ops_ok db \<Longrightarrow> ops_ok db'"
proof (induction ts arbitrary: db)
  case (Cons t ts)
  then show ?case
    by (auto simp: err_simps split: if_splits intro: Cons.IH transition_terminal_task_ok)
qed simp

lemma duplicate_terminal_ok:
  "project_duplicate_terminal_incident c i pl r db = Inr db' \<Longrightarrow> ops_ok db \<Longrightarrow> ops_ok db'"
  by (auto simp: project_duplicate_terminal_incident_def Let_def split: if_splits
      intro: duplicate_projection_ok)

lemma session_projection_ok:
  "project_meta_token_incident_in_transaction c tt r db = Inr db' \<Longrightarrow> ops_ok db \<Longrightarrow> ops_ok db'"
  "project_facebook_login_incident_in_transaction c tt pl r db = Inr db' \<Longrightarrow> ops_ok db \<Longrightarrow> ops_ok db'"
  "resolve_meta_token_incident_in_transaction c tt db = Inr db' \<Longrightarrow> ops_ok db \<Longrightarrow> ops_ok db'"
  "resolve_confirmed_autostop_incidents_in_transaction c pl r rb db = Inr db' \<Longrightarrow> ops_ok db \<Longrightarrow> ops_ok db'"
     apply (auto simp: project_meta_token_incident_in_transaction_def split: if_splits intro: notify_recurring_ok) [1]
    apply (auto simp: project_facebook_login_incident_in_transaction_def Let_def split: if_splits intro: login_projection_ok) [1]
   apply (auto simp: resolve_meta_token_incident_in_transaction_def err_simps split: if_splits intro: resolve_recurring_ok) [1]
  apply (auto simp: resolve_confirmed_autostop_incidents_in_transaction_def Let_def err_simps split: if_splits
      intro: resolve_recurring_ok) [1]
  done

lemmas projection_ok =
  transition_correlated_incident_ok transition_terminal_task_ok transition_returned_terminal_tasks_ok
  money_failure_ok duplicate_terminal_ok session_projection_ok

end
