(* ===== verification/TaskQueue.thy ===== *)
theory TaskQueue
  imports TaskProjection
begin

text \<open>
  The operations of \<open>core/tasks/queue.py\<close>, in the order of the file. Each takes the clocks of
  its transaction and the database and returns the database it commits with its value, or the
  exception after which the transaction is rolled back (so the database stays as it was).
  \<open>locked\<close> are the rows that \<open>FOR UPDATE SKIP LOCKED\<close> skips because a concurrent transaction
  holds them. A \<open>transactional_effect\<close> may read every table; as modelled here it writes
  operator tables. The effects that write \<open>ad_alert_state\<close> are composed with these operations in
  \<open>MetaCommands\<close>. One caller, \<open>_compensate_confirmed_activation_without_grace\<close> of the Meta worker,
  also writes \<open>task_queue\<close> in its effect; it is not an instance of these definitions. Advisory locks order transactions
  and have no other effect; log lines and metrics are left out.
\<close>

type_synonym effect = "qdb \<Rightarrow> ops_db result"

definition run_effect :: "effect option \<Rightarrow> qdb \<Rightarrow> qdb result" where
  "run_effect eff db =
     (case eff of None \<Rightarrow> Inr db | Some e \<Rightarrow> ebind (e db) (\<lambda>o'. Inr (db\<lparr>ops := o'\<rparr>)))"

text \<open>The slice \<open>[:8000]\<close> of an error text.\<close>

definition clip :: "string \<Rightarrow> string" where
  "clip s = take 8000 s"

section \<open>Creating a task\<close>

record create_args =
  ca_task_type :: string
  ca_idempotency_key :: string
  ca_payload :: jobj
  ca_requested_by :: string
  ca_status :: string
  ca_max_attempts :: int
  ca_created_by_chat_id :: "int option"
  ca_target_lock_key :: "string option"
  ca_target_lock_keys :: "string list"
  ca_lane :: "string option"
  ca_priority :: "int option"
  ca_available_at :: "int option"
  ca_deadline_at :: "int option"
  ca_correlation_id :: "int option"

text \<open>The CHECK \<open>ck_task_queue_meta_account_identity\<close> of the table.\<close>

definition meta_account_identity :: "task_type \<Rightarrow> jobj \<Rightarrow> bool" where
  "meta_account_identity tt payload \<longleftrightarrow>
     tt \<noteq> MetaApiMutation \<or>
     (case jget payload ''ad_account_id'' of JStr s \<Rightarrow> s \<noteq> [] \<and> list_all is_digit s | _ \<Rightarrow> False)"

definition create_lane :: "task_type \<Rightarrow> create_args \<Rightarrow> lane option" where
  "create_lane tt a =
     (if or_empty (ca_lane a) = [] then Some (infer_task_lane tt (ca_payload a) (ca_requested_by a))
      else map_of TASK_LANES (or_empty (ca_lane a)))"

text \<open>The row the INSERT writes.\<close>

definition new_task :: "clock \<Rightarrow> create_args \<Rightarrow> task_type \<Rightarrow> task_status \<Rightarrow> lane \<Rightarrow> int \<Rightarrow> int \<Rightarrow> task" where
  "new_task c a tt st l i corr =
     \<lparr>t_id = i, t_type = tt, t_status = st, t_idempotency_key = ca_idempotency_key a,
      t_payload = ca_payload a, t_attempt_count = 0, t_max_attempts = ca_max_attempts a,
      t_requested_by = ca_requested_by a, t_created_by_chat_id = ca_created_by_chat_id a,
      t_last_error = None, t_created_at = tx_now c, t_updated_at = tx_now c,
      t_completed_at = None, t_external_started_at = None, t_result = None,
      t_lane = l, t_priority = coalesce (ca_priority a) (LANE_DEFAULT_PRIORITY l),
      t_available_at = coalesce (ca_available_at a) (py_now c),
      t_deadline_at = (case ca_deadline_at a of
          Some d \<Rightarrow> Some d
        | None \<Rightarrow> if l = LMoney then None else Some (py_now c + secs (queue_wait_seconds l))),
      t_lease_owner = None, t_lease_token = 0, t_lease_expires_at = None,
      t_cancel_requested_at = None, t_cancel_reason = None, t_correlation_id = corr,
      t_review_observation = None, t_review_at = None, t_review_by = None\<rparr>"

text \<open>
  A conflict on the idempotency key inserts nothing and returns None; the sequence has moved
  on by then. The new row is announced on the wake-up channel.
\<close>

definition create_task :: "clock \<Rightarrow> create_args \<Rightarrow> qdb \<Rightarrow> (qdb \<times> int option) result" where
  "create_task c a db =
     (case map_of TASK_TYPES (ca_task_type a) of
        None \<Rightarrow> Inl (ValueError ''Unknown task_type'')
      | Some tt \<Rightarrow>
      case map_of TASK_STATUSES (ca_status a) of
        None \<Rightarrow> Inl (ValueError ''Unknown status'')
      | Some st \<Rightarrow>
      case create_lane tt a of
        None \<Rightarrow> Inl (ValueError ''Unknown task lane'')
      | Some l \<Rightarrow>
        let lock_keys = (case ca_target_lock_key a of None \<Rightarrow> [] | Some k \<Rightarrow> [k]) @ ca_target_lock_keys a;
            i = next_id db;
            corr = coalesce (ca_correlation_id a) (next_uuid (ops db));
            db1 = db\<lparr>next_id := i + 1, ops := (ops db)\<lparr>next_uuid := next_uuid (ops db) + 1\<rparr>\<rparr>
        in if [] \<in> set lock_keys then Inl (ValueError ''target lock keys must not be empty'')
           else if \<not> meta_account_identity tt (ca_payload a)
           then Inl (IntegrityError ''ck_task_queue_meta_account_identity'')
           else if ca_idempotency_key a \<in> set (map t_idempotency_key (tasks db)) then Inr (db1, None)
           else Inr (db1\<lparr>tasks := tasks db @ [new_task c a tt st l i corr],
                         wakeups := wakeups db @ [(i, tt, l)]\<rparr>, Some i))"

section \<open>Expiry of overdue tasks\<close>

definition ambiguous :: "task \<Rightarrow> bool" where
  "ambiguous t \<longleftrightarrow> t_external_started_at t \<noteq> None \<or> reconcile_flag t"

definition overdue :: "clock \<Rightarrow> task \<Rightarrow> bool" where
  "overdue c t \<longleftrightarrow>
     claimable (t_status t) \<and> t_lane t \<noteq> LMoney \<and>
     (case t_deadline_at t of None \<Rightarrow> False | Some d \<Rightarrow> d \<le> tx_now c)"

definition expire_row :: "clock \<Rightarrow> task \<Rightarrow> task" where
  "expire_row c t =
     t\<lparr>t_status := Failed, t_completed_at := Some (tx_now c),
       t_last_error := Some (if ambiguous t
         then ''absolute deadline exceeded while external outcome remained unknown''
         else ''queue wait limit exceeded before any external call''),
       t_result := Some (jmerge (obj_or_empty (t_result t))
         [(''outcome'', JStr (if ambiguous t then ''UNKNOWN'' else ''REJECTED'')),
          (''reconcile_required'', JBool (ambiguous t)),
          (''reason'', JStr (if ambiguous t then ''absolute_deadline_exceeded'' else ''queue_wait_limit_exceeded'')),
          (''operator_reason'', JStr (if ambiguous t then ''interrupted, reconcile'' else ''never started''))]),
       t_updated_at := tx_now c\<rparr>"

definition expire_where :: "clock \<Rightarrow> (task \<Rightarrow> bool) \<Rightarrow> qdb \<Rightarrow> (qdb \<times> int) result" where
  "expire_where c scope db =
     (case update_tasks (\<lambda>t. overdue c t \<and> scope t) (expire_row c) db of (db1, rows) \<Rightarrow>
        ebind (on_ops (transition_returned_terminal_tasks c None rows) db1)
          (\<lambda>db2. Inr (db2, int (length rows))))"

definition expire_overdue_claimable_tasks ::
  "clock \<Rightarrow> task_type \<Rightarrow> lane list \<Rightarrow> qdb \<Rightarrow> (qdb \<times> int) result" where
  "expire_overdue_claimable_tasks c tt lanes =
     expire_where c (\<lambda>t. t_type t = tt \<and> t_lane t \<in> set lanes)"

definition expire_overdue_tasks :: "clock \<Rightarrow> qdb \<Rightarrow> (qdb \<times> int) result" where
  "expire_overdue_tasks c = expire_where c (\<lambda>t. True)"

section \<open>Claiming\<close>

text \<open>\<open>ORDER BY priority DESC, available_at, created_at, id\<close>\<close>

definition claim_before :: "task \<Rightarrow> task \<Rightarrow> bool" where
  "claim_before s t \<longleftrightarrow>
     t_priority s > t_priority t \<or> t_priority s = t_priority t \<and>
     (t_available_at s < t_available_at t \<or> t_available_at s = t_available_at t \<and>
      (t_created_at s < t_created_at t \<or> t_created_at s = t_created_at t \<and> t_id s < t_id t))"

fun first_of :: "task list \<Rightarrow> task option" where
  "first_of [] = None"
| "first_of (t # ts) =
     (case first_of ts of None \<Rightarrow> Some t | Some u \<Rightarrow> Some (if claim_before u t then u else t))"

definition maintenance :: "clock \<Rightarrow> qdb \<Rightarrow> bool" where
  "maintenance c db \<longleftrightarrow> (case maintenance_until db of None \<Rightarrow> False | Some x \<Rightarrow> x > clk c)"

text \<open>The conditions both claim statements share, and the gate of the first one.\<close>

definition claim_candidate :: "clock \<Rightarrow> task_type \<Rightarrow> lane list \<Rightarrow> task \<Rightarrow> bool" where
  "claim_candidate c tt lanes t \<longleftrightarrow>
     t_type t = tt \<and> claimable (t_status t) \<and> t_lane t \<in> set lanes \<and>
     t_available_at t \<le> clk c \<and>
     (t_lane t = LMoney \<or> (case t_deadline_at t of None \<Rightarrow> True | Some d \<Rightarrow> d > clk c)) \<and>
     (t_cancel_requested_at t = None \<or> reconcile_flag t)"

definition claim_row :: "clock \<Rightarrow> int \<Rightarrow> int \<Rightarrow> task \<Rightarrow> task" where
  "claim_row c worker_id lease_seconds t =
     t\<lparr>t_status := Running, t_lease_owner := Some worker_id, t_lease_token := t_lease_token t + 1,
       t_deadline_at := Some (clk c + secs (LANE_EXECUTION_WINDOW_SECONDS (t_lane t))),
       t_lease_expires_at := Some (clk c + secs (max lease_seconds
         (LANE_EXECUTION_WINDOW_SECONDS (t_lane t) + FINALIZE_HEADROOM_SECONDS))),
       t_updated_at := clk c\<rparr>"

record task_claim =
  cl_task :: "task option"
  cl_profile :: "string option"
  cl_session :: "string option"
  cl_generation :: "int option"

definition no_claim :: task_claim where
  "no_claim = \<lparr>cl_task = None, cl_profile = None, cl_session = None, cl_generation = None\<rparr>"

text \<open>\<open>_row_to_task\<close>: a stored attempt limit of 0 reads as 5.\<close>

definition row_to_task :: "task \<Rightarrow> task" where
  "row_to_task t = t\<lparr>t_max_attempts := (if t_max_attempts t = 0 then 5 else t_max_attempts t)\<rparr>"

text \<open>
  The body both claims share after their gate: take the first candidate and project the
  executing phase, or close the overdue rows of this consumer when there is none.
\<close>

definition claim_first ::
  "clock \<Rightarrow> int list \<Rightarrow> bool \<Rightarrow> task_type \<Rightarrow> lane list \<Rightarrow> int \<Rightarrow> int \<Rightarrow> qdb \<Rightarrow> (qdb \<times> task option) result" where
  "claim_first c locked gate tt lanes worker_id lease_seconds db =
     (case first_of (filter (\<lambda>t. gate \<and> claim_candidate c tt lanes t \<and> t_id t \<notin> set locked) (tasks db)) of
        Some t \<Rightarrow>
          (let t' = claim_row c worker_id (max 5 lease_seconds) t;
               db1 = db\<lparr>tasks := map (\<lambda>u. if t_id u = t_id t
                 then claim_row c worker_id (max 5 lease_seconds) u else u) (tasks db)\<rparr>
           in ebind (transition_correlated_incident c (t_id t) (Some (t_correlation_id t)) PhExecuting
                  (t_payload t) False (ops db1))
                (\<lambda>(o', _). Inr (db1\<lparr>ops := o'\<rparr>, Some t')))
      | None \<Rightarrow>
          ebind (expire_overdue_claimable_tasks c tt lanes db) (\<lambda>(db1, _). Inr (db1, None)))"

text \<open>The readiness evidence: configured profile, live session, readiness generation.\<close>

definition readiness_evidence :: "clock \<Rightarrow> qdb \<Rightarrow> (string \<times> string \<times> int) option" where
  "readiness_evidence c db =
     (case (vision db, readiness db) of
        (Some v, Some r) \<Rightarrow>
          if rd_config_id r = vc_id v \<and> rd_config_updated_at r = vc_updated_at v
             \<and> rd_expected_profile r = vc_profile_id v
             \<and> rd_state r = ''ready'' \<and> rd_contract r = Some 5
             \<and> rd_observed_profile r = Some (vc_profile_id v)
             \<and> or_empty (rd_session r) \<noteq> []
             \<and> (case rd_expires_at r of None \<Rightarrow> False | Some x \<Rightarrow> x > clk c)
             \<and> \<not> maintenance c db
          then Some (vc_profile_id v, or_empty (rd_session r), rd_generation r) else None
      | _ \<Rightarrow> None)"

definition browser_claim :: "task option \<Rightarrow> (string \<times> string \<times> int) option \<Rightarrow> task_claim" where
  "browser_claim row evidence =
     (case (row, evidence) of
        (Some t, Some (profile, session, gen)) \<Rightarrow>
          \<lparr>cl_task = Some (row_to_task t), cl_profile = Some profile,
           cl_session = (if py_strip session = [] then None else Some (py_strip session)),
           cl_generation = Some gen\<rparr>
      | _ \<Rightarrow> no_claim)"

definition claim_browser_ready_task ::
  "clock \<Rightarrow> int list \<Rightarrow> string \<Rightarrow> string list \<Rightarrow> int \<Rightarrow> int \<Rightarrow> qdb \<Rightarrow> (qdb \<times> task_claim) result" where
  "claim_browser_ready_task c locked task_type lanes worker_id lease_seconds db =
     (case map_of TASK_TYPES task_type of
        None \<Rightarrow> Inl (ValueError ''claim_browser_ready_task authorizes only Meta mutation task types'')
      | Some tt \<Rightarrow>
        if tt \<notin> set BROWSER_READY_CLAIM_TASK_TYPES
        then Inl (ValueError ''claim_browser_ready_task authorizes only Meta mutation task types'')
        else if lanes = [] \<or> (\<exists>l \<in> set lanes. map_of TASK_LANES l = None)
        then Inl (ValueError ''claim_browser_ready_task requires valid non-empty lanes'')
        else
          ebind (claim_first c locked (readiness_evidence c db \<noteq> None) tt
              (List.map_filter (map_of TASK_LANES) lanes) worker_id lease_seconds db)
            (\<lambda>(db1, row). Inr (db1, browser_claim row (readiness_evidence c db))))"

definition claim_next_task ::
  "clock \<Rightarrow> int list \<Rightarrow> string \<Rightarrow> string list option \<Rightarrow> int \<Rightarrow> int \<Rightarrow> qdb \<Rightarrow> (qdb \<times> task_claim) result" where
  "claim_next_task c locked task_type lanes worker_id lease_seconds db =
     (case map_of TASK_TYPES task_type of
        None \<Rightarrow> Inl (ValueError ''Unknown task_type'')
      | Some tt \<Rightarrow>
        let ls = (case lanes of None \<Rightarrow> [''interactive'', ''bulk'', ''background''] | Some xs \<Rightarrow> xs)
        in if ls = [] \<or> (\<exists>l \<in> set ls. map_of TASK_LANES l = None)
           then Inl (ValueError ''claim_next_task requires valid non-empty lanes'')
           else if tt \<in> set BROWSER_READY_CLAIM_TASK_TYPES
           then claim_browser_ready_task c locked task_type ls worker_id lease_seconds db
           else
             ebind (claim_first c locked
                 (\<not> (tt \<in> set BROWSER_BACKED_TASK_TYPES \<and> maintenance c db)) tt
                 (List.map_filter (map_of TASK_LANES) ls) worker_id lease_seconds db)
               (\<lambda>(db1, row). Inr (db1, no_claim\<lparr>cl_task := map_option row_to_task row\<rparr>)))"

section \<open>Why a browser task waits\<close>

record browser_claim_block =
  bl_waiting :: int
  bl_run_ids :: "string list"
  bl_reason_code :: string

definition readiness_verdict :: "clock \<Rightarrow> qdb \<Rightarrow> vision_config \<Rightarrow> string option" where
  "readiness_verdict c db v =
     (if maintenance c db then Some ''browser_maintenance'' else
      case readiness db of
        None \<Rightarrow> Some ''readiness_missing''
      | Some r \<Rightarrow>
        if rd_config_id r \<noteq> vc_id v then Some ''readiness_missing''
        else if rd_state r \<noteq> ''ready'' then Some (''state:'' @ rd_state r)
        else if coalesce (rd_contract r) 0 \<noteq> 5 then Some ''browser_contract_incompatible''
        else if or_empty (rd_observed_profile r) \<noteq> vc_profile_id v then Some ''vision_profile_mismatch''
        else if or_empty (rd_session r) = [] then Some ''browser_session_missing''
        else if \<not> (case rd_expires_at r of None \<Rightarrow> False | Some x \<Rightarrow> x > clk c) then Some ''readiness_stale''
        else None)"

definition explain_browser_claim_block ::
  "clock \<Rightarrow> task_type \<Rightarrow> lane list \<Rightarrow> qdb \<Rightarrow> browser_claim_block option" where
  "explain_browser_claim_block c tt lanes db =
     (if lanes = [] then None else
      case vision db of
        None \<Rightarrow> None
      | Some v \<Rightarrow>
        let queued = filter (\<lambda>t. t_type t = tt \<and> claimable (t_status t) \<and> t_lane t \<in> set lanes) (tasks db);
            waiting = int (length (filter (\<lambda>t. t_available_at t \<le> clk c) queued));
            run_ids = filter (\<lambda>s. s \<noteq> []) (remdups
              (List.map_filter (\<lambda>t. arrow_text (t_payload t) ''run_id'') queued))
        in if waiting = 0 then None
           else map_option (\<lambda>code. \<lparr>bl_waiting = waiting, bl_run_ids = run_ids, bl_reason_code = code\<rparr>)
                  (readiness_verdict c db v))"

end
