(* ===== verification/TaskFinalize.thy ===== *)
theory TaskFinalize
  imports TaskQueue
begin

text \<open>
  The operations of a worker that holds a lease (\<open>core/tasks/queue.py\<close>, from
  \<open>mark_succeeded\<close> to \<open>defer_unknown_reconciliation\<close>). All of them are one fenced UPDATE
  followed by projections in the same transaction.
\<close>

section \<open>The fenced statement\<close>

text \<open>
  \<open>_has_valid_fence\<close>, then the UPDATE of the row whose live lease the caller holds and which
  satisfies \<open>P\<close>; \<open>cont\<close> continues with the returned row, \<open>miss\<close> is the value when no row matched.
\<close>

definition fenced ::
  "clock \<Rightarrow> int \<Rightarrow> int option \<Rightarrow> int option \<Rightarrow> (task \<Rightarrow> bool) \<Rightarrow> (task \<Rightarrow> task) \<Rightarrow>
   (task \<Rightarrow> qdb \<Rightarrow> (qdb \<times> 'a) result) \<Rightarrow> 'a \<Rightarrow> qdb \<Rightarrow> (qdb \<times> 'a) result" where
  "fenced c task_id lease_owner lease_token P f cont miss db =
     (if \<not> has_valid_fence lease_owner lease_token then Inr (db, miss)
      else case update_tasks (\<lambda>t. fence_live c task_id lease_owner lease_token t \<and> P t) f db of
             (db1, []) \<Rightarrow> Inr (db, miss)
           | (db1, t # _) \<Rightarrow> cont t db1)"

text \<open>Committing with a value after a projection of the operator tables.\<close>

definition commit :: "(ops_db \<Rightarrow> ops_db result) \<Rightarrow> 'a \<Rightarrow> qdb \<Rightarrow> (qdb \<times> 'a) result" where
  "commit proj v db = ebind (on_ops proj db) (\<lambda>db'. Inr (db', v))"

definition then_ops :: "(ops_db \<Rightarrow> ops_db result) \<Rightarrow> (ops_db \<Rightarrow> ops_db result) \<Rightarrow> ops_db \<Rightarrow> ops_db result" where
  "then_ops f g db = ebind (f db) g"

section \<open>Success\<close>

definition project_succeeded :: "clock \<Rightarrow> jobj \<Rightarrow> task \<Rightarrow> ops_db \<Rightarrow> ops_db result" where
  "project_succeeded c res t db =
     ebind (transition_correlated_incident c (t_id t) (Some (t_correlation_id t))
         (if is_unknown res then PhUnknown else PhConfirmed) (t_payload t) False db) (\<lambda>(db1, _).
     let db2 = (if is_partial_money_result (t_payload t) res
          then enqueue_standalone_money_failure (t_id t) (Some (t_correlation_id t)) PhFailed
                 (t_payload t) (t_requested_by t) (t_type t) (Some ''partial'') db1
          else db1)
     in ebind (resolve_confirmed_autostop_incidents_in_transaction c (t_payload t) res (t_requested_by t) db2)
          (resolve_meta_token_incident_in_transaction c (t_type t)))"

definition mark_succeeded ::
  "clock \<Rightarrow> int \<Rightarrow> jobj option \<Rightarrow> int option \<Rightarrow> int option \<Rightarrow> effect option \<Rightarrow> qdb \<Rightarrow> (qdb \<times> bool) result" where
  "mark_succeeded c task_id res lease_owner lease_token eff =
     fenced c task_id lease_owner lease_token (\<lambda>t. True)
       (\<lambda>t. t\<lparr>t_status := Succeeded, t_result := Some (obj_or_empty res),
              t_completed_at := Some (tx_now c), t_last_error := None, t_updated_at := tx_now c\<rparr>)
       (\<lambda>t db1. ebind (run_effect eff db1) (commit (project_succeeded c (obj_or_empty res) t) True))
       False"

section \<open>Failure\<close>

text \<open>
  The projection of a failed row. \<open>mark_failed\<close> leaves the \<open>result\<close> argument of
  \<open>_transition_terminal_task\<close> at its default None; \<open>mark_task_failed_or_cancelled\<close> passes it.
\<close>

definition project_failed :: "clock \<Rightarrow> jobj option \<Rightarrow> task \<Rightarrow> ops_db \<Rightarrow> ops_db result" where
  "project_failed c passed t =
     (let res = obj_or_empty (t_result t)
      in then_ops (project_duplicate_terminal_incident c (t_id t) (t_payload t) res)
        (then_ops (transition_terminal_task c (t_id t) (Some (t_correlation_id t))
             (if is_unknown res then PhUnknown else PhFailed) (t_payload t) passed
             (t_requested_by t) (t_type t))
        (then_ops (project_meta_token_incident_in_transaction c (t_type t) res)
           (project_facebook_login_incident_in_transaction c (t_type t) (t_payload t) res))))"

definition mark_failed ::
  "clock \<Rightarrow> int \<Rightarrow> string \<Rightarrow> jobj option \<Rightarrow> int option \<Rightarrow> int option \<Rightarrow> effect option \<Rightarrow> qdb \<Rightarrow> (qdb \<times> bool) result" where
  "mark_failed c task_id err res lease_owner lease_token eff =
     fenced c task_id lease_owner lease_token (\<lambda>t. True)
       (\<lambda>t. t\<lparr>t_status := Failed, t_last_error := Some (clip err),
              t_result := (case res of None \<Rightarrow> t_result t | Some r \<Rightarrow> Some r),
              t_completed_at := Some (tx_now c), t_updated_at := tx_now c\<rparr>)
       (\<lambda>t db1. ebind (run_effect eff db1) (commit (project_failed c None t) True))
       False"

definition mark_cancelled ::
  "clock \<Rightarrow> int \<Rightarrow> string \<Rightarrow> int option \<Rightarrow> int option \<Rightarrow> qdb \<Rightarrow> (qdb \<times> bool) result" where
  "mark_cancelled c task_id reason lease_owner lease_token =
     fenced c task_id lease_owner lease_token (\<lambda>t. t_external_started_at t = None)
       (\<lambda>t. t\<lparr>t_status := Cancelled, t_completed_at := Some (tx_now c),
              t_last_error := Some (clip reason),
              t_result := Some (jmerge (obj_or_empty (t_result t))
                [(''outcome'', JStr ''REJECTED''), (''reason'', JStr ''cancel_requested'')]),
              t_lease_owner := None, t_lease_expires_at := None, t_updated_at := tx_now c\<rparr>)
       (\<lambda>t. commit (transition_terminal_task c (t_id t) (Some (t_correlation_id t)) PhCancelled
              (t_payload t) (Some (obj_or_empty (t_result t))) (t_requested_by t) (t_type t)) True)
       False"

definition mark_task_failed_or_cancelled ::
  "clock \<Rightarrow> int \<Rightarrow> string \<Rightarrow> string \<Rightarrow> jobj option \<Rightarrow> int option \<Rightarrow> int option \<Rightarrow> qdb \<Rightarrow>
   (qdb \<times> task_status option) result" where
  "mark_task_failed_or_cancelled c task_id target_lock_key err res lease_owner lease_token db =
     (if target_lock_key = [] then Inl (ValueError ''target_lock_key must not be empty'')
      else fenced c task_id lease_owner lease_token (\<lambda>t. True)
       (\<lambda>t. t\<lparr>t_status := (if t_cancel_requested_at t \<noteq> None then Cancelled else Failed),
              t_last_error := Some (if t_cancel_requested_at t \<noteq> None
                then coalesce (t_cancel_reason t) (clip err) else clip err),
              t_result := (case res of None \<Rightarrow> t_result t | Some r \<Rightarrow> Some r),
              t_completed_at := Some (tx_now c), t_updated_at := tx_now c\<rparr>)
       (\<lambda>t. commit (if t_status t = Cancelled
              then transition_terminal_task c (t_id t) (Some (t_correlation_id t)) PhCancelled
                     (t_payload t) (Some (obj_or_empty (t_result t))) (t_requested_by t) (t_type t)
              else project_failed c (Some (obj_or_empty (t_result t))) t) (Some (t_status t)))
       None db)"

section \<open>Reconciliation of an unknown write\<close>

definition resolved_row :: "clock \<Rightarrow> string \<Rightarrow> task \<Rightarrow> task" where
  "resolved_row c effective_status t =
     (let eff = (''effective_status'', JStr (take 100 effective_status));
          r = jdel (obj_or_empty (t_result t)) ''reconcile_required''
      in if t_cancel_requested_at t \<noteq> None then
           t\<lparr>t_status := Cancelled, t_completed_at := Some (tx_now c),
             t_result := Some (jmerge r [(''outcome'', JStr ''REJECTED''),
               (''reason'', JStr ''cancelled_after_verified_not_applied''),
               (''reconciled_after_unknown'', JBool True), eff]),
             t_last_error := Some (coalesce (t_cancel_reason t) ''cancelled after reconciliation''),
             t_lease_owner := None, t_lease_expires_at := None, t_updated_at := tx_now c\<rparr>
         else if t_attempt_count t \<ge> t_max_attempts t then
           t\<lparr>t_status := Failed, t_completed_at := Some (tx_now c),
             t_result := Some (jmerge r [(''outcome'', JStr ''REJECTED''),
               (''reason'', JStr ''attempts_exhausted_after_verified_not_applied''),
               (''reconciled_after_unknown'', JBool True), (''reconcile_required'', JBool False), eff]),
             t_last_error := Some ''status write was verified not applied; attempts exhausted'',
             t_lease_owner := None, t_lease_expires_at := None, t_updated_at := tx_now c\<rparr>
         else
           t\<lparr>t_status := Running, t_completed_at := None, t_external_started_at := None,
             t_result := Some (jmerge (jdel r ''outcome'')
               [(''reconciled_not_applied'', JBool True), eff]),
             t_last_error := None, t_updated_at := tx_now c\<rparr>)"

definition resolve_status_reconciliation_not_applied ::
  "clock \<Rightarrow> int \<Rightarrow> string \<Rightarrow> int option \<Rightarrow> int option \<Rightarrow> qdb \<Rightarrow> (qdb \<times> task_status option) result" where
  "resolve_status_reconciliation_not_applied c task_id effective_status lease_owner lease_token =
     fenced c task_id lease_owner lease_token
       (\<lambda>t. t_external_started_at t \<noteq> None \<and> reconcile_flag t)
       (resolved_row c effective_status)
       (\<lambda>t. commit (transition_returned_terminal_tasks c None [t]) (Some (t_status t)))
       None"

section \<open>Progress\<close>

definition touch_task_running ::
  "clock \<Rightarrow> int \<Rightarrow> int option \<Rightarrow> int option \<Rightarrow> int \<Rightarrow> qdb \<Rightarrow> (qdb \<times> bool) result" where
  "touch_task_running c task_id lease_owner lease_token lease_seconds =
     fenced c task_id lease_owner lease_token (\<lambda>t. True)
       (\<lambda>t. t\<lparr>t_updated_at := tx_now c,
              t_lease_expires_at := Some (tx_now c + secs (max 5 lease_seconds))\<rparr>)
       (\<lambda>t db1. Inr (db1, True)) False"

definition checkpoint_duplicate_adset_structure ::
  "clock \<Rightarrow> int \<Rightarrow> jobj \<Rightarrow> int option \<Rightarrow> int option \<Rightarrow> qdb \<Rightarrow> (qdb \<times> bool) result" where
  "checkpoint_duplicate_adset_structure c task_id checkpoint lease_owner lease_token db =
     (if jget checkpoint ''checkpoint_type'' \<noteq> JStr ''duplicate_adset_structure''
      then Inl (ValueError ''invalid duplicate checkpoint type'')
      else fenced c task_id lease_owner lease_token
       (\<lambda>t. t_type t = MetaApiMutation
            \<and> arrow_text (t_payload t) ''mutation_kind'' = Some ''duplicate_adset_structure''
            \<and> arrow_text (obj_or_empty (t_result t)) ''recovery_requested'' \<noteq> Some ''true'')
       (\<lambda>t. t\<lparr>t_result := Some checkpoint, t_updated_at := tx_now c\<rparr>)
       (\<lambda>t db1. Inr (db1, True)) False db)"

definition mark_external_call_started ::
  "clock \<Rightarrow> int \<Rightarrow> string \<Rightarrow> int option \<Rightarrow> int option \<Rightarrow> qdb \<Rightarrow> (qdb \<times> bool) result" where
  "mark_external_call_started c task_id target_lock_key lease_owner lease_token db =
     (if target_lock_key = [] then Inl (ValueError ''target_lock_key must not be empty'')
      else fenced c task_id lease_owner lease_token
       (\<lambda>t. t_cancel_requested_at t = None
            \<and> (case t_deadline_at t of None \<Rightarrow> True | Some d \<Rightarrow> d > clk c))
       (\<lambda>t. t\<lparr>t_external_started_at := Some (coalesce (t_external_started_at t) (tx_now c)),
              t_updated_at := tx_now c\<rparr>)
       (\<lambda>t db1. Inr (db1, True)) False db)"

end
