(* ===== verification/TaskRequeue.thy ===== *)
theory TaskRequeue
  imports TaskFinalize
begin

text \<open>
  Returning a claimed task to the queue (\<open>core/tasks/queue.py\<close>, from \<open>requeue_duplicate_recovery\<close>
  to \<open>defer_unknown_reconciliation\<close>) with the checkpoint validation of
  \<open>core/meta_api/mutations/duplicate_adset_structure.py\<close>. Every one of these is fenced.
\<close>

section \<open>Checkpoint of a partial duplication\<close>

definition require_numeric_id :: "json \<Rightarrow> string result" where
  "require_numeric_id v =
     (case v of
        JStr s \<Rightarrow> if s = [] then Inl (MutationValidationError ''numeric id expected'')
                  else if list_all is_digit s then Inr s
                  else Inl (MutationValidationError ''digits expected'')
      | _ \<Rightarrow> Inl (MutationValidationError ''numeric id expected''))"

definition checkpoint_bucket :: "jobj \<Rightarrow> string \<Rightarrow> nat \<Rightarrow> string list result" where
  "checkpoint_bucket raw key limit =
     (case jget raw key of
        JArr vs \<Rightarrow>
          if length vs > limit then Inl (MutationValidationError ''invalid duplicate recovery bucket'')
          else ebind (emap require_numeric_id vs) (\<lambda>ids.
            if distinct ids then Inr ids
            else Inl (MutationValidationError ''duplicate ids in recovery bucket''))
      | _ \<Rightarrow> Inl (MutationValidationError ''invalid duplicate recovery bucket''))"

definition created_ids_from_checkpoint :: "jobj \<Rightarrow> (string list \<times> string list \<times> string list) result" where
  "created_ids_from_checkpoint checkpoint =
     (if jget checkpoint ''checkpoint_type'' \<noteq> JStr ''duplicate_adset_structure''
         \<or> jget checkpoint ''checkpoint_version'' \<noteq> JNum 2
      then Inl (MutationValidationError ''invalid duplicate recovery checkpoint type'')
      else case jget checkpoint ''created_ids'' of
        JObj raw \<Rightarrow>
          if set (map fst raw) \<noteq> {''campaigns'', ''adsets'', ''ads''}
          then Inl (MutationValidationError ''duplicate recovery checkpoint has no created_ids'')
          else
            ebind (checkpoint_bucket raw ''campaigns'' 5) (\<lambda>campaigns.
            ebind (checkpoint_bucket raw ''adsets'' 50) (\<lambda>adsets.
            ebind (checkpoint_bucket raw ''ads'' 50) (\<lambda>ads.
              if set campaigns \<inter> set adsets \<noteq> {} \<or> set campaigns \<inter> set ads \<noteq> {}
                 \<or> set adsets \<inter> set ads \<noteq> {}
              then Inl (MutationValidationError ''duplicate recovery checkpoint buckets overlap'')
              else if campaigns = [] \<and> adsets = [] \<and> ads = []
              then Inl (MutationValidationError ''duplicate recovery checkpoint is empty'')
              else Inr (campaigns, adsets, ads))))
      | _ \<Rightarrow> Inl (MutationValidationError ''duplicate recovery checkpoint has no created_ids''))"

text \<open>The literal \<open>CASE lane WHEN 'money' THEN 30 WHEN 'bulk' THEN 1800 ELSE 120\<close>.\<close>

definition recovery_window :: "lane \<Rightarrow> int" where
  "recovery_window l = (if l = LMoney then 30 else if l = LBulk then 1800 else 120)"

definition requeue_duplicate_recovery ::
  "clock \<Rightarrow> int \<Rightarrow> jobj \<Rightarrow> string \<Rightarrow> int \<Rightarrow> int option \<Rightarrow> int option \<Rightarrow> qdb \<Rightarrow> (qdb \<times> bool) result" where
  "requeue_duplicate_recovery c task_id checkpoint err delay_seconds lease_owner lease_token db =
     (if jget checkpoint ''recovery_requested'' \<noteq> JBool True
      then Inl (ValueError ''invalid duplicate recovery checkpoint'')
      else ebind (created_ids_from_checkpoint checkpoint) (\<lambda>_.
        fenced c task_id lease_owner lease_token
          (\<lambda>t. t_type t = MetaApiMutation
               \<and> arrow_text (t_payload t) ''mutation_kind'' = Some ''duplicate_adset_structure'')
          (\<lambda>t. t\<lparr>t_status := Retrying,
                 t_available_at := tx_now c + secs (max 1 delay_seconds),
                 t_deadline_at := Some (tx_now c + secs (max 1 delay_seconds + recovery_window (t_lane t))),
                 t_last_error := Some (clip err), t_result := Some checkpoint,
                 t_lease_owner := None, t_lease_expires_at := None, t_updated_at := tx_now c\<rparr>)
          (\<lambda>t. commit (project_duplicate_incident_in_transaction (tx_now c) task_id checkpoint
                 (duplicate_requeue_stage checkpoint)) True)
          False db))"

section \<open>Retry\<close>

definition retry_deadline :: "lane \<Rightarrow> int \<Rightarrow> int option" where
  "retry_deadline l next_at = (if l = LMoney then None else Some (next_at + secs (queue_wait_seconds l)))"

definition requeue_for_retry ::
  "clock \<Rightarrow> int \<Rightarrow> string \<Rightarrow> int \<Rightarrow> int \<Rightarrow> lane \<Rightarrow> int option \<Rightarrow> int option \<Rightarrow> qdb \<Rightarrow> (qdb \<times> bool) result" where
  "requeue_for_retry c task_id err attempt_count max_attempts l lease_owner lease_token db =
     (if \<not> has_valid_fence lease_owner lease_token then Inr (db, False)
      else
        let new_attempt = attempt_count + 1
        in if new_attempt \<ge> max_attempts
           then ebind (mark_failed c task_id err (Some [(''outcome'', JStr ''REJECTED'')])
                  lease_owner lease_token None db) (\<lambda>(db', _). Inr (db', False))
           else
             let next_at = calc_retry_available_at (py_now c) new_attempt
             in fenced c task_id lease_owner lease_token (\<lambda>t. True)
                  (\<lambda>t. t\<lparr>t_status := Retrying, t_attempt_count := new_attempt,
                         t_available_at := next_at, t_deadline_at := retry_deadline l next_at,
                         t_last_error := Some (clip err),
                         t_lease_owner := None, t_lease_expires_at := None, t_updated_at := tx_now c\<rparr>)
                  (\<lambda>t db1. Inr (db1, True)) False db)"

definition not_committed_row :: "clock \<Rightarrow> string \<Rightarrow> int \<Rightarrow> int option \<Rightarrow> task \<Rightarrow> task" where
  "not_committed_row c err next_at deadline t =
     (let cancelled = (t_cancel_requested_at t \<noteq> None);
          exhausted = (t_attempt_count t + 1 \<ge> t_max_attempts t);
          r = jdel (jdel (obj_or_empty (t_result t)) ''reconcile_required'') ''manual_review_required''
      in t\<lparr>t_status := (if cancelled then Cancelled else if exhausted then Failed else Retrying),
           t_attempt_count := (if cancelled then t_attempt_count t else t_attempt_count t + 1),
           t_available_at := (if \<not> cancelled \<and> \<not> exhausted then next_at else t_available_at t),
           t_deadline_at := (if \<not> cancelled \<and> \<not> exhausted then deadline else t_deadline_at t),
           t_completed_at := (if cancelled \<or> exhausted then Some (tx_now c) else None),
           t_external_started_at := None,
           t_last_error := Some (if cancelled
             then coalesce (t_cancel_reason t) ''cancelled after proven pre-send reject'' else clip err),
           t_result := (if cancelled then Some (jmerge r [(''outcome'', JStr ''REJECTED''),
                (''reason'', JStr ''cancelled_after_proven_not_committed'')])
              else if exhausted then Some (jmerge r [(''outcome'', JStr ''REJECTED''),
                (''reason'', JStr ''attempts_exhausted_proven_not_committed'')])
              else t_result t),
           t_lease_owner := None, t_lease_expires_at := None, t_updated_at := tx_now c\<rparr>)"

definition requeue_proven_not_committed ::
  "clock \<Rightarrow> int \<Rightarrow> string \<Rightarrow> string \<Rightarrow> int \<Rightarrow> lane \<Rightarrow> int option \<Rightarrow> int option \<Rightarrow> qdb \<Rightarrow>
   (qdb \<times> task_status option) result" where
  "requeue_proven_not_committed c task_id target_lock_key err attempt_count l lease_owner lease_token db =
     (if target_lock_key = [] then Inl (ValueError ''target_lock_key must not be empty'')
      else
        let next_at = calc_retry_available_at (py_now c) (attempt_count + 1)
        in fenced c task_id lease_owner lease_token
             (\<lambda>t. t_external_started_at t \<noteq> None
                  \<and> arrow_text (t_payload t) ''target_id'' = Some target_lock_key)
             (not_committed_row c err next_at (retry_deadline l next_at))
             (\<lambda>t. commit (transition_returned_terminal_tasks c None [t]) (Some (t_status t)))
             None db)"

section \<open>Rejected browser readiness\<close>

definition readiness_rejected_row :: "clock \<Rightarrow> string \<Rightarrow> int \<Rightarrow> task \<Rightarrow> task" where
  "readiness_rejected_row c err deadline_seconds t =
     (let money = (t_lane t = LMoney);
          cancelled = (t_cancel_requested_at t \<noteq> None \<and> \<not> reconcile_flag t);
          exhausted = (money \<and> t_attempt_count t + 1 \<ge> t_max_attempts t);
          base = jdel (jdel (obj_or_empty (t_result t)) ''external_boundary_operation'') ''external_boundary_target'';
          clean = jdel (jdel base ''reconcile_required'') ''manual_review_required''
      in t\<lparr>t_status := (if cancelled then Cancelled else if exhausted then Failed else Retrying),
           t_attempt_count := (if cancelled \<or> \<not> money then t_attempt_count t else t_attempt_count t + 1),
           t_available_at := (if \<not> cancelled \<and> \<not> exhausted then clk c else t_available_at t),
           t_deadline_at := (if \<not> cancelled \<and> \<not> exhausted
             then (if money then None else Some (clk c + secs deadline_seconds)) else t_deadline_at t),
           t_completed_at := (if cancelled \<or> exhausted then Some (clk c) else None),
           t_external_started_at := None,
           t_last_error := Some (if cancelled
             then coalesce (t_cancel_reason t) ''cancelled after browser readiness rejection'' else clip err),
           t_result := Some (if cancelled then jmerge clean [(''outcome'', JStr ''REJECTED''),
                (''reason'', JStr ''cancelled_after_browser_readiness_rejection'')]
              else if exhausted \<and> reconcile_flag t then jmerge base [(''outcome'', JStr ''UNKNOWN''),
                (''reconcile_required'', JBool True),
                (''reason'', JStr ''browser_readiness_reconciliation_attempts_exhausted'')]
              else if exhausted then jmerge clean [(''outcome'', JStr ''REJECTED''),
                (''reason'', JStr ''browser_readiness_attempts_exhausted'')]
              else base),
           t_lease_owner := None, t_lease_expires_at := None, t_updated_at := clk c\<rparr>)"

text \<open>The snapshot \<open>task\<close> is the claimed row with the readiness generation of its claim.\<close>

definition release_after_browser_readiness_rejection ::
  "clock \<Rightarrow> task \<Rightarrow> int option \<Rightarrow> string \<Rightarrow> string option \<Rightarrow> (task_status \<Rightarrow> effect) option \<Rightarrow> qdb \<Rightarrow>
   (qdb \<times> task_status option) result" where
  "release_after_browser_readiness_rejection c task generation err target_lock_key eff db =
     (if \<not> has_valid_fence (t_lease_owner task) (Some (t_lease_token task))
         \<or> (case generation of None \<Rightarrow> True | Some g \<Rightarrow> g \<le> 0) then Inr (db, None)
      else if (case target_lock_key of None \<Rightarrow> False | Some k \<Rightarrow> py_strip k = [])
      then Inl (ValueError ''target_lock_key must not be empty'')
      else fenced c (t_id task) (t_lease_owner task) (Some (t_lease_token task)) (\<lambda>t. True)
             (readiness_rejected_row c err (queue_wait_seconds (t_lane task)))
             (\<lambda>t db1. ebind (run_effect (map_option (\<lambda>e. e (t_status t)) eff) db1)
                (commit (transition_returned_terminal_tasks c None [t]) (Some (t_status t))))
             None db)"

section \<open>Unknown outcome\<close>

definition requeue_unknown_for_reconciliation ::
  "clock \<Rightarrow> task \<Rightarrow> string \<Rightarrow> qdb \<Rightarrow> (qdb \<times> bool) result" where
  "requeue_unknown_for_reconciliation c task err db =
     (let next_attempt = t_attempt_count task + 1;
          already = (jget (obj_or_empty (t_result task)) ''reconcile_required'' = JBool True)
      in if already \<and> next_attempt \<ge> t_max_attempts task
         then ebind (mark_failed c (t_id task) err
                (Some [(''outcome'', JStr ''UNKNOWN''), (''reconcile_required'', JBool False),
                       (''reconciliation_exhausted'', JBool True)])
                (t_lease_owner task) (Some (t_lease_token task)) None db)
              (\<lambda>(db', _). Inr (db', False))
         else
           case update_tasks (fence_live c (t_id task) (t_lease_owner task) (Some (t_lease_token task)))
               (\<lambda>t. t\<lparr>t_status := Retrying, t_attempt_count := next_attempt, t_available_at := tx_now c,
                      t_deadline_at := (if t_lane task = LMoney then None
                        else Some (py_now c + secs (queue_wait_seconds (t_lane task)))),
                      t_last_error := Some (clip err),
                      t_result := Some (jmerge (obj_or_empty (t_result t))
                        [(''outcome'', JStr ''UNKNOWN''), (''reconcile_required'', JBool True),
                         (''unknown_at'', JNum (tx_now c))]),
                      t_lease_owner := None, t_lease_expires_at := None, t_updated_at := tx_now c\<rparr>) db of
             (db1, rows) \<Rightarrow> Inr (db1, rows \<noteq> []))"

definition defer_unknown_reconciliation ::
  "clock \<Rightarrow> task \<Rightarrow> string \<Rightarrow> int \<Rightarrow> qdb \<Rightarrow> (qdb \<times> bool) result" where
  "defer_unknown_reconciliation c task err delay_seconds =
     fenced c (t_id task) (t_lease_owner task) (Some (t_lease_token task)) (\<lambda>t. True)
       (\<lambda>t. t\<lparr>t_status := Retrying,
              t_available_at := tx_now c + secs (max 1 delay_seconds),
              t_deadline_at := (if t_lane t = LMoney then None
                else Some (tx_now c + secs (max 1 delay_seconds + queue_wait_seconds (t_lane task)))),
              t_last_error := Some (clip err),
              t_result := Some (jmerge (obj_or_empty (t_result t))
                [(''outcome'', JStr ''UNKNOWN''), (''reconcile_required'', JBool True)]),
              t_lease_owner := None, t_lease_expires_at := None, t_updated_at := tx_now c\<rparr>)
       (\<lambda>t db1. Inr (db1, True)) False"

end
