(* ===== verification/TaskReconcile.thy ===== *)
theory TaskReconcile
  imports TaskRequeue
begin

text \<open>
  The transitions nobody holds a lease for (\<open>core/tasks/queue.py\<close>): recovery and closing of
  rows whose worker was lost, cancellation requests, and the operator's manual review of an
  unknown outcome.
\<close>

section \<open>Lost duplicate tasks\<close>

definition stuck_duplicate :: "clock \<Rightarrow> int \<Rightarrow> task \<Rightarrow> bool" where
  "stuck_duplicate c sec t \<longleftrightarrow>
     t_type t = MetaApiMutation \<and> t_status t = Running \<and> lease_lost c sec t \<and>
     arrow_text (t_payload t) ''mutation_kind'' = Some ''duplicate_adset_structure''"

text \<open>\<open>result->>'checkpoint_type' = 'duplicate_adset_structure' AND jsonb_typeof(result->'created_ids') = 'object'\<close>\<close>

definition has_checkpoint :: "task \<Rightarrow> bool" where
  "has_checkpoint t \<longleftrightarrow>
     arrow_text (obj_or_empty (t_result t)) ''checkpoint_type'' = Some ''duplicate_adset_structure'' \<and>
     is_dict (jget (obj_or_empty (t_result t)) ''created_ids'')"

fun project_duplicates ::
  "clock \<Rightarrow> duplicate_stage \<Rightarrow> task list \<Rightarrow> ops_db \<Rightarrow> ops_db result" where
  "project_duplicates c stage [] db = Inr db"
| "project_duplicates c stage (t # ts) db =
     ebind (project_duplicate_incident_in_transaction (tx_now c) (t_id t) (obj_or_empty (t_result t)) stage db)
       (project_duplicates c stage ts)"

definition recovery_row :: "clock \<Rightarrow> task \<Rightarrow> task" where
  "recovery_row c t =
     t\<lparr>t_status := Retrying, t_available_at := tx_now c,
       t_deadline_at := Some (tx_now c + secs (recovery_window (t_lane t))),
       t_last_error := Some (or_empty (t_last_error t) @
         '' [stuck duplicate_adset_structure: scheduled PAUSE recovery]''),
       t_result := Some (jmerge (obj_or_empty (t_result t))
         [(''recovery_requested'', JBool True), (''phase'', JStr ''recovery_pending'')]),
       t_lease_owner := None, t_lease_expires_at := None, t_updated_at := tx_now c\<rparr>"

definition prepare_stuck_duplicate_recovery :: "clock \<Rightarrow> int \<Rightarrow> qdb \<Rightarrow> (qdb \<times> int) result" where
  "prepare_stuck_duplicate_recovery c sec db =
     (case update_tasks (\<lambda>t. stuck_duplicate c sec t \<and> has_checkpoint t) (recovery_row c) db of (db1, rows) \<Rightarrow>
        commit (project_duplicates c RecoveryScheduled rows) (int (length rows)) db1)"

definition lost_duplicate_row :: "clock \<Rightarrow> task \<Rightarrow> task" where
  "lost_duplicate_row c t =
     t\<lparr>t_status := Failed, t_completed_at := Some (tx_now c),
       t_last_error := Some (or_empty (t_last_error t) @
         '' [stuck duplicate_adset_structure without recoverable checkpoint: not retried]''),
       t_lease_owner := None, t_lease_expires_at := None,
       t_result := Some (jmerge (obj_or_empty (t_result t))
         [(''outcome'', JStr ''UNKNOWN''), (''reconcile_required'', JBool True),
          (''reason'', JStr ''stuck_duplicate_without_checkpoint'')]),
       t_updated_at := tx_now c\<rparr>"

definition fail_stuck_duplicate_without_checkpoint :: "clock \<Rightarrow> int \<Rightarrow> qdb \<Rightarrow> (qdb \<times> int) result" where
  "fail_stuck_duplicate_without_checkpoint c sec db =
     (case update_tasks (\<lambda>t. stuck_duplicate c sec t \<and> \<not> has_checkpoint t) (lost_duplicate_row c) db of (db1, rows) \<Rightarrow>
        commit (project_duplicates c CheckpointMissing rows) (int (length rows)) db1)"

section \<open>Lost campaign creations\<close>

definition lost_campaign_row :: "clock \<Rightarrow> task \<Rightarrow> task" where
  "lost_campaign_row c t =
     t\<lparr>t_status := Failed, t_completed_at := Some (tx_now c),
       t_last_error := Some (or_empty (t_last_error t) @ '' [stuck campaign_create: not retried]''),
       t_lease_owner := None, t_lease_expires_at := None,
       t_result := Some (jmerge (obj_or_empty (t_result t))
         [(''outcome'', JStr ''UNKNOWN''), (''reconcile_required'', JBool True),
          (''reason'', JStr ''stuck_campaign_create_after_worker_loss'')]),
       t_updated_at := tx_now c\<rparr>"

definition fail_stuck_campaign_create :: "clock \<Rightarrow> int \<Rightarrow> qdb \<Rightarrow> (qdb \<times> int) result" where
  "fail_stuck_campaign_create c sec db =
     (case update_tasks (\<lambda>t. t_type t = CampaignCreate \<and> t_status t = Running \<and> lease_lost c sec t)
         (lost_campaign_row c) db of (db1, rows) \<Rightarrow>
        commit (transition_returned_terminal_tasks c (Some PhUnknown) rows) (int (length rows)) db1)"

section \<open>Lost status actions and everything else\<close>

definition status_action :: "task \<Rightarrow> bool" where
  "status_action t \<longleftrightarrow>
     t_type t = MetaApiMutation \<and>
     arrow_text (t_payload t) ''mutation_kind'' \<in>
       {Some ''pause_ad'', Some ''activate_ad'', Some ''bulk_status_change''}"

definition stuck_row :: "clock \<Rightarrow> task \<Rightarrow> task" where
  "stuck_row c t =
     (let started = (t_external_started_at t \<noteq> None);
          verify = (started \<and> status_action t);
          exhausted = (t_attempt_count t + 1 \<ge> t_max_attempts t);
          again = (verify \<or> \<not> started \<and> \<not> exhausted)
      in t\<lparr>t_status := (if verify then Retrying else if exhausted then Failed
             else if started then Failed else Retrying),
           t_attempt_count := t_attempt_count t + 1,
           t_available_at := (if again then tx_now c else t_available_at t),
           t_deadline_at := (if again then (if t_lane t = LMoney then None
               else Some (tx_now c + secs (if t_lane t = LBulk then queue_wait_seconds LBulk
                 else queue_wait_seconds LInteractive)))
             else t_deadline_at t),
           t_completed_at := (if verify then t_completed_at t
             else if exhausted \<or> started then Some (tx_now c) else t_completed_at t),
           t_result := (if started then Some (jmerge (obj_or_empty (t_result t))
                [(''outcome'', JStr ''UNKNOWN''), (''reconcile_required'', JBool True),
                 (''reason'', JStr ''worker_lease_expired_after_external_start'')])
              else if exhausted then Some (jmerge (obj_or_empty (t_result t))
                [(''outcome'', JStr ''REJECTED''),
                 (''reason'', JStr ''attempts_exhausted_before_external_start'')])
              else t_result t),
           t_last_error := Some (or_empty (t_last_error t) @
             (if started then '' [lease expired after external start: result unknown]''
              else '' [stuck timeout reconciled before external start]'')),
           t_lease_owner := None, t_lease_expires_at := None, t_updated_at := tx_now c\<rparr>)"

definition reconcilable :: "clock \<Rightarrow> int \<Rightarrow> string list \<Rightarrow> task \<Rightarrow> bool" where
  "reconcilable c sec exclude_kinds t \<longleftrightarrow>
     t_status t = Running \<and> lease_lost c sec t \<and> t_type t \<notin> set IRREVERSIBLE_TASK_TYPES \<and>
     (let exclude = filter (\<lambda>k. k \<noteq> []) exclude_kinds
      in exclude \<noteq> [] \<longrightarrow>
         \<not> (t_type t = MetaApiMutation \<and>
            (case arrow_text (t_payload t) ''mutation_kind'' of
               None \<Rightarrow> True | Some k \<Rightarrow> k \<in> set exclude)))"

definition reconcile_stuck_running :: "clock \<Rightarrow> int \<Rightarrow> string list \<Rightarrow> qdb \<Rightarrow> (qdb \<times> int) result" where
  "reconcile_stuck_running c sec exclude_kinds db =
     (case update_tasks (reconcilable c sec exclude_kinds) (stuck_row c) db of (db1, rows) \<Rightarrow>
        commit (transition_returned_terminal_tasks c None rows) (int (length rows)) db1)"

section \<open>Cancellation\<close>

definition cancel_row :: "clock \<Rightarrow> string \<Rightarrow> task \<Rightarrow> task" where
  "cancel_row c reason t =
     (let now_terminal = (claimable (t_status t) \<and> t_external_started_at t = None)
      in t\<lparr>t_cancel_requested_at := Some (coalesce (t_cancel_requested_at t) (tx_now c)),
           t_cancel_reason := Some (clip reason),
           t_status := (if now_terminal then Cancelled else t_status t),
           t_completed_at := (if now_terminal then Some (tx_now c) else t_completed_at t),
           t_last_error := (if now_terminal then Some (clip reason) else t_last_error t),
           t_result := (if now_terminal then Some (jmerge (obj_or_empty (t_result t))
                [(''outcome'', JStr ''REJECTED''),
                 (''reason'', JStr ''cancel_requested_before_external_call'')]) else t_result t),
           t_updated_at := tx_now c\<rparr>)"

definition request_task_cancel :: "clock \<Rightarrow> int \<Rightarrow> string \<Rightarrow> qdb \<Rightarrow> (qdb \<times> bool) result" where
  "request_task_cancel c task_id reason db =
     (case update_tasks (\<lambda>t. t_id t = task_id \<and> \<not> terminal (t_status t)) (cancel_row c reason) db of (db1, rows) \<Rightarrow>
        commit (transition_returned_terminal_tasks c None rows) (rows \<noteq> []) db1)"

section \<open>Manual review\<close>

definition MANUAL_REVIEW_OBSERVATIONS :: "string list" where
  "MANUAL_REVIEW_OBSERVATIONS = [''stopped'', ''active'', ''missing'']"

definition MANUAL_REVIEW_CLOSING_OBSERVATIONS :: "string list" where
  "MANUAL_REVIEW_CLOSING_OBSERVATIONS = [''stopped'', ''missing'']"

definition manual_review_closes_question :: "string \<Rightarrow> bool" where
  "manual_review_closes_question observation \<longleftrightarrow> observation \<in> set MANUAL_REVIEW_CLOSING_OBSERVATIONS"

record manual_reconciliation =
  mr_task_id :: int
  mr_observation :: string
  mr_reviewed_at :: "int option"
  mr_reviewed_by :: string
  mr_question_closed :: bool
  mr_was_changed :: bool
  mr_correlation_id :: int

definition record_manual_reconciliation ::
  "clock \<Rightarrow> int \<Rightarrow> string \<Rightarrow> string \<Rightarrow> qdb \<Rightarrow> (qdb \<times> manual_reconciliation) result" where
  "record_manual_reconciliation c task_id observation reviewed_by db =
     (if observation \<notin> set MANUAL_REVIEW_OBSERVATIONS
      then Inl (ValueError ''unsupported manual review observation'')
      else
      let principal = py_strip reviewed_by;
          closed = manual_review_closes_question observation
      in if principal = [] then Inl (ValueError ''reviewed_by is required'')
      else if length principal > 128 then Inl (ValueError ''reviewed_by exceeds 128 characters'')
      else case task_by_id task_id db of
        None \<Rightarrow> Inl ManualReviewTaskNotFoundError
      | Some t \<Rightarrow>
        if py_upper (str_or_empty (jget (obj_or_empty (t_result t)) ''outcome'')) \<noteq> ''UNKNOWN''
        then Inl (ManualReviewNotApplicableError ''outcome_is_not_unknown'')
        else if t_status t \<in> {Pending, Retrying, Running}
        then Inl (ManualReviewNotApplicableError ''task_is_still_running'')
        else
        let fact = \<lparr>mr_task_id = task_id, mr_observation = observation,
              mr_reviewed_at = t_review_at t,
              mr_reviewed_by = (if or_empty (t_review_by t) = [] then principal else or_empty (t_review_by t)),
              mr_question_closed = closed, mr_was_changed = False,
              mr_correlation_id = t_correlation_id t\<rparr>
        in if t_review_observation t = Some observation then Inr (db, fact)
           else
             let db1 = fst (update_tasks (\<lambda>u. t_id u = task_id)
                   (\<lambda>u. u\<lparr>t_review_observation := Some observation, t_review_at := Some (tx_now c),
                          t_review_by := Some principal, t_updated_at := tx_now c\<rparr>) db);
                 o1 = enqueue_notification ''task_manual_review'' (if closed then ''ok'' else ''critical'') ''all''
                        [''manual_review'', string_of_int task_id, principal, observation]
                        (TaskEvent task_id (''manual-review:'' @ observation)) None
                        (Some (t_correlation_id t)) (ops db1)
             in Inr (db1\<lparr>ops := o1\<rparr>, fact\<lparr>mr_reviewed_at := Some (tx_now c),
                    mr_reviewed_by := principal, mr_was_changed := True\<rparr>))"

section \<open>Lookup\<close>

definition get_task_by_idempotency_key :: "string \<Rightarrow> qdb \<Rightarrow> task option" where
  "get_task_by_idempotency_key k db =
     map_option row_to_task (find (\<lambda>t. t_idempotency_key t = k) (tasks db))"

end
