(* ===== verification/TaskRows.thy ===== *)
theory TaskRows
  imports TaskReconcile
begin

text \<open>
  How one transaction may change one row. Two contracts are stated as locales: \<open>fenced_op\<close>
  for the operations of a lease holder and \<open>system_op\<close> for the operations that hold no
  lease. Both are interpreted on every operation of the queue.
\<close>

section \<open>Evolution of a row\<close>

definition same_identity :: "task \<Rightarrow> task \<Rightarrow> bool" where
  "same_identity t t' \<longleftrightarrow>
     t_id t' = t_id t \<and> t_type t' = t_type t \<and> t_idempotency_key t' = t_idempotency_key t \<and>
     t_payload t' = t_payload t \<and> t_requested_by t' = t_requested_by t \<and> t_lane t' = t_lane t \<and>
     t_priority t' = t_priority t \<and> t_created_at t' = t_created_at t \<and>
     t_correlation_id t' = t_correlation_id t \<and> t_max_attempts t' = t_max_attempts t"

text \<open>Nothing but the manual review and the update time differs.\<close>

definition frozen :: "task \<Rightarrow> task \<Rightarrow> bool" where
  "frozen t t' \<longleftrightarrow>
     t' = t\<lparr>t_review_observation := t_review_observation t', t_review_at := t_review_at t',
            t_review_by := t_review_by t', t_updated_at := t_updated_at t'\<rparr>"

definition claimed :: "task \<Rightarrow> task \<Rightarrow> bool" where
  "claimed t t' \<longleftrightarrow>
     claimable (t_status t) \<and> t_status t' = Running \<and> t_lease_token t' = t_lease_token t + 1"

definition row_next :: "task \<Rightarrow> task \<Rightarrow> bool" where
  "row_next t t' \<longleftrightarrow>
     same_identity t t' \<and>
     (terminal (t_status t) \<longrightarrow> frozen t t') \<and>
     (claimed t t' \<or> t_lease_token t' = t_lease_token t) \<and>
     (t_status t' = Running \<longrightarrow> t_status t = Running \<or> claimed t t') \<and>
     (claimable (t_status t') \<longrightarrow> t_status t' = t_status t \<or> t_status t = Running)"

definition lease_live :: "clock \<Rightarrow> task \<Rightarrow> bool" where
  "lease_live c t \<longleftrightarrow> (case t_lease_expires_at t of None \<Rightarrow> False | Some x \<Rightarrow> x > tx_now c)"

text \<open>What an operation without a lease may do: it leaves a live lease alone.\<close>

definition outcome :: "task \<Rightarrow> json" where
  "outcome t = jget (obj_or_empty (t_result t)) ''outcome''"

definition system_row :: "clock \<Rightarrow> task \<Rightarrow> task \<Rightarrow> bool" where
  "system_row c t t' \<longleftrightarrow>
     row_next t t' \<and>
     (t_status t' = Succeeded \<longrightarrow> t_status t = Succeeded) \<and>
     (t_status t = Running \<and> lease_live c t \<longrightarrow>
        t_status t' = Running \<and> t_lease_owner t' = t_lease_owner t \<and> t_lease_token t' = t_lease_token t \<and>
        t_lease_expires_at t' = t_lease_expires_at t \<and>
        t_external_started_at t' = t_external_started_at t) \<and>
     (t_type t = CampaignCreate \<and> t_status t = Running \<longrightarrow>
        t_status t' = Running \<or> t_status t' = Failed \<and> outcome t' = JStr ''UNKNOWN'') \<and>
     (t_lane t = LMoney \<and> claimable (t_status t) \<longrightarrow>
        t_status t' \<in> {t_status t, Running, Cancelled}) \<and>
     (claimable (t_status t) \<and> t_status t' = Failed \<longrightarrow>
        outcome t' = JStr (if ambiguous t then ''UNKNOWN'' else ''REJECTED'') \<and>
        t_deadline_at t \<noteq> None \<and> the (t_deadline_at t) \<le> tx_now c)"

lemmas row_defs = row_next_def same_identity_def frozen_def claimed_def claimable_def terminal_def

lemma row_next_refl [simp]: "row_next t t"
  by (simp add: row_defs)

lemma system_row_refl [simp]: "system_row c t t"
  by (auto simp: system_row_def claimable_def)

lemma row_next_id: "row_next t t' \<Longrightarrow> t_id t' = t_id t \<and> t_idempotency_key t' = t_idempotency_key t"
  by (simp add: row_next_def same_identity_def)

section \<open>Integrity of the table\<close>

definition queue_inv :: "qdb \<Rightarrow> bool" where
  "queue_inv db \<longleftrightarrow>
     distinct (map t_id (tasks db)) \<and> (\<forall>t \<in> set (tasks db). t_id t < next_id db) \<and>
     distinct (map t_idempotency_key (tasks db))"

lemma queue_inv_map:
  assumes "queue_inv db" "tasks db' = map g (tasks db)" "next_id db' = next_id db"
    and "\<And>t. t \<in> set (tasks db) \<Longrightarrow> row_next t (g t)"
  shows "queue_inv db'"
proof -
  have eq: "map t_id (tasks db') = map t_id (tasks db)"
    "map t_idempotency_key (tasks db') = map t_idempotency_key (tasks db)"
    using assms(2,4) row_next_id by auto
  moreover have "t_id t < next_id db'" if "t \<in> set (tasks db')" for t
  proof -
    have "t_id t \<in> set (map t_id (tasks db))"
      using that eq(1) by (metis image_eqI set_map)
    then show ?thesis
      using assms(1,3) by (auto simp: queue_inv_def)
  qed
  ultimately show ?thesis
    using assms(1) unfolding queue_inv_def by metis
qed

section \<open>Contract of a fenced operation\<close>

locale fenced_op =
  fixes run :: "clock \<Rightarrow> int \<Rightarrow> int option \<Rightarrow> int option \<Rightarrow> qdb \<Rightarrow> (qdb \<times> 'a) result"
    and miss :: 'a
  assumes refuses:
    "\<lbrakk>run c i ow k db = Inr (db', r); \<And>t. t \<in> set (tasks db) \<Longrightarrow> \<not> fence_live c i ow k t\<rbrakk>
       \<Longrightarrow> db' = db \<and> r = miss"
    and touches:
    "run c i ow k db = Inr (db', r) \<Longrightarrow>
       \<exists>g. tasks db' = map g (tasks db) \<and> next_id db' = next_id db \<and>
           (\<forall>t. row_next t (g t)) \<and> (\<forall>t. \<not> fence_live c i ow k t \<longrightarrow> g t = t)"
begin

lemma others_untouched:
  assumes "run c i ow k db = Inr (db', r)" "t \<in> set (tasks db)" "\<not> fence_live c i ow k t"
  shows "t \<in> set (tasks db')"
proof -
  obtain g where g: "tasks db' = map g (tasks db)" "g t = t"
    using touches [OF assms(1)] assms(3) by blast
  show ?thesis
    using assms(2) g by (metis image_eqI set_map)
qed

lemma keeps_inv:
  assumes "run c i ow k db = Inr (db', r)" "queue_inv db"
  shows "queue_inv db'"
proof -
  obtain g where "tasks db' = map g (tasks db)" "next_id db' = next_id db" "\<forall>t. row_next t (g t)"
    using touches [OF assms(1)] by blast
  then show ?thesis
    using assms(2) by (intro queue_inv_map [of db db' g]) auto
qed

text \<open>A worker whose lease has expired changes nothing, whatever it reports.\<close>

lemma expired_worker_refused:
  assumes "run c i ow k db = Inr (db', r)" "queue_inv db" "t \<in> set (tasks db)" "t_id t = i"
    and "t_lease_expires_at t = Some x" "x \<le> clk c"
  shows "db' = db \<and> r = miss"
proof (rule refuses [OF assms(1)])
  fix u assume "u \<in> set (tasks db)"
  then have "u = t" if "t_id u = i"
    using assms(2-4) that unfolding queue_inv_def by (auto simp: distinct_map dest: inj_onD)
  then show "\<not> fence_live c i ow k u"
    using assms(5,6) by (auto simp: fence_live_def)
qed

end

section \<open>Contract of an operation without a lease\<close>

locale system_op =
  fixes run :: "clock \<Rightarrow> qdb \<Rightarrow> (qdb \<times> 'a) result"
  assumes rows:
    "\<lbrakk>run c db = Inr (db', r); queue_inv db\<rbrakk> \<Longrightarrow>
       \<exists>g. tasks db' = map g (tasks db) \<and> next_id db' = next_id db \<and>
           (\<forall>t \<in> set (tasks db). system_row c t (g t))"
begin

lemma keeps_inv:
  assumes "run c db = Inr (db', r)" "queue_inv db"
  shows "queue_inv db'"
proof -
  obtain g where "tasks db' = map g (tasks db)" "next_id db' = next_id db"
    "\<forall>t \<in> set (tasks db). system_row c t (g t)"
    using rows [OF assms] by blast
  then show ?thesis
    using assms(2) by (intro queue_inv_map [of db db' g]) (auto simp: system_row_def)
qed

text \<open>A worker that holds a live lease still holds it afterwards.\<close>

lemma live_lease_survives:
  assumes "run c db = Inr (db', r)" "queue_inv db" "t \<in> set (tasks db)"
    and "fence_live c i ow k t" "tx_now c \<le> clk c"
  shows "\<exists>t' \<in> set (tasks db'). fence_live c i ow k t' \<and> t_external_started_at t' = t_external_started_at t"
proof -
  obtain g where g: "tasks db' = map g (tasks db)" "system_row c t (g t)"
    using rows [OF assms(1,2)] assms(3) by blast
  have "lease_live c t" "t_status t = Running"
    using assms(4,5) by (auto simp: lease_live_def fence_live_def split: option.splits)
  then have "fence_live c i ow k (g t) \<and> t_external_started_at (g t) = t_external_started_at t"
    using g(2) assms(4) by (auto simp: system_row_def row_next_def same_identity_def fence_live_def)
  then show ?thesis
    using g(1) assms(3) by auto
qed

end

end
