(* ===== verification/TaskFences.thy ===== *)
theory TaskFences
  imports TaskRows
begin

text \<open>
  The contract \<open>fenced_op\<close> holds of every operation a worker calls: without the live lease of
  the row nothing changes, and with it only that row changes, within \<open>row_next\<close>.
\<close>

section \<open>Continuations that keep the task table\<close>

definition keeps_tasks :: "(task \<Rightarrow> qdb \<Rightarrow> (qdb \<times> 'a) result) \<Rightarrow> bool" where
  "keeps_tasks cont \<longleftrightarrow>
     (\<forall>t db db' r. cont t db = Inr (db', r) \<longrightarrow> tasks db' = tasks db \<and> next_id db' = next_id db)"

lemma commit_frame:
  "commit proj v db = Inr (db', r) \<Longrightarrow> tasks db' = tasks db \<and> next_id db' = next_id db \<and> r = v"
  by (auto simp: commit_def err_simps)

lemma run_effect_frame:
  "run_effect eff db = Inr db' \<Longrightarrow> tasks db' = tasks db \<and> next_id db' = next_id db"
  by (auto simp: run_effect_def err_simps split: option.splits)

lemma keeps_commit [intro]: "keeps_tasks (\<lambda>t. commit (proj t) (v t))"
  using commit_frame by (fastforce simp: keeps_tasks_def)

lemma keeps_return [intro]: "keeps_tasks (\<lambda>t db. Inr (db, v))"
  by (simp add: keeps_tasks_def)

lemma keeps_effect [intro]:
  "keeps_tasks (\<lambda>t db. ebind (run_effect (eff t) db) (commit (proj t) (v t)))"
  unfolding keeps_tasks_def ebind_eq_Inr by (metis commit_frame run_effect_frame)

section \<open>The fenced statement\<close>

lemma fenced_refuses:
  assumes "fenced c i ow k P f cont miss db = Inr (db', r)"
    and "\<And>t. t \<in> set (tasks db) \<Longrightarrow> \<not> fence_live c i ow k t"
  shows "db' = db \<and> r = miss"
proof -
  have "filter (\<lambda>t. fence_live c i ow k t \<and> P t) (tasks db) = []"
    using assms(2) by (simp add: filter_empty_conv)
  then show ?thesis
    using assms(1) by (simp add: fenced_def update_tasks_none split: if_splits)
qed

lemma fenced_touches:
  assumes "fenced c i ow k P f cont miss db = Inr (db', r)" "keeps_tasks cont"
    and "\<And>t. fence_live c i ow k t \<Longrightarrow> P t \<Longrightarrow> row_next t (f t)"
  shows "\<exists>g. tasks db' = map g (tasks db) \<and> next_id db' = next_id db \<and>
             (\<forall>t. row_next t (g t)) \<and> (\<forall>t. \<not> fence_live c i ow k t \<longrightarrow> g t = t)"
proof -
  let ?Q = "\<lambda>t. fence_live c i ow k t \<and> P t"
  let ?g = "\<lambda>t. if ?Q t then f t else t"
  have id: "\<exists>g. tasks db = map g (tasks db) \<and> next_id db = next_id db \<and>
      (\<forall>t. row_next t (g t)) \<and> (\<forall>t. \<not> fence_live c i ow k t \<longrightarrow> g t = t)"
    by (rule exI [of _ "\<lambda>t. t"]) simp
  show ?thesis
  proof (cases "has_valid_fence ow k \<and> filter ?Q (tasks db) \<noteq> []")
    case True
    then obtain t ts where "map f (filter ?Q (tasks db)) = t # ts"
      by (cases "filter ?Q (tasks db)") auto
    then have "cont t (fst (update_tasks ?Q f db)) = Inr (db', r)"
      using assms(1) True by (simp add: fenced_def update_tasks_def)
    then have "tasks db' = tasks (fst (update_tasks ?Q f db)) \<and> next_id db' = next_id (fst (update_tasks ?Q f db))"
      using assms(2) unfolding keeps_tasks_def by blast
    then have "tasks db' = map ?g (tasks db) \<and> next_id db' = next_id db"
      by simp
    then show ?thesis
      using assms(3) by (intro exI [of _ ?g]) auto
  next
    case False
    then have "db' = db"
      using assms(1) by (auto simp: fenced_def update_tasks_def split: if_splits)
    then show ?thesis
      using id by simp
  qed
qed

lemma fenced_op_fenced:
  assumes "\<And>c i ow k. keeps_tasks (cont c i ow k)"
    and "\<And>c i ow k t. fence_live c i ow k t \<Longrightarrow> P c i ow k t \<Longrightarrow> row_next t (f c i ow k t)"
  shows "fenced_op (\<lambda>c i ow k. fenced c i ow k (P c i ow k) (f c i ow k) (cont c i ow k) miss) miss"
proof (unfold_locales, goal_cases)
  case (1 c i ow k db db' r)
  then show ?case
    by (rule fenced_refuses)
next
  case (2 c i ow k db db' r)
  then show ?case
    using assms by (rule fenced_touches)
qed

text \<open>Argument checks that raise, or refuse, before the statement keep the contract.\<close>

lemma fenced_op_guard_raise:
  assumes "fenced_op run miss"
  shows "fenced_op (\<lambda>c i ow k db. if b then Inl e else run c i ow k db) miss"
proof (cases b)
  case True
  then show ?thesis
    by unfold_locales simp_all
qed (use assms in simp)

lemma live_running:
  "fence_live c i ow k t \<Longrightarrow> t_status t = Running"
  by (simp add: fence_live_def)

lemmas live_row = live_running row_defs

lemma row_next_running:
  "fence_live c i ow k t \<Longrightarrow> same_identity t t' \<Longrightarrow> t_lease_token t' = t_lease_token t \<Longrightarrow> row_next t t'"
  by (simp add: row_next_def live_running terminal_def)

lemma resolved_row_identity:
  "same_identity t (resolved_row c st t) \<and> t_lease_token (resolved_row c st t) = t_lease_token t"
  by (simp add: resolved_row_def same_identity_def Let_def)

lemma not_committed_row_identity:
  "same_identity t (not_committed_row c err n d t) \<and> t_lease_token (not_committed_row c err n d t) = t_lease_token t"
  by (simp add: not_committed_row_def same_identity_def Let_def)

lemma readiness_rejected_row_identity:
  "same_identity t (readiness_rejected_row c err n t) \<and>
   t_lease_token (readiness_rejected_row c err n t) = t_lease_token t"
  by (simp add: readiness_rejected_row_def same_identity_def Let_def)

section \<open>Interpretations\<close>

interpretation succeed: fenced_op "\<lambda>c i ow k. mark_succeeded c i res ow k eff" False
  for res :: "jobj option" and eff :: "effect option"
  unfolding mark_succeeded_def by (rule fenced_op_fenced) (auto simp: live_row)

interpretation fail: fenced_op "\<lambda>c i ow k. mark_failed c i err res ow k eff" False
  for err :: string and res :: "jobj option" and eff :: "effect option"
  unfolding mark_failed_def by (rule fenced_op_fenced) (auto simp: live_row)

interpretation cancel: fenced_op "\<lambda>c i ow k. mark_cancelled c i reason ow k" False
  for reason :: string
  unfolding mark_cancelled_def by (rule fenced_op_fenced) (auto simp: live_row)

interpretation fail_or_cancel: fenced_op
  "\<lambda>c i ow k. mark_task_failed_or_cancelled c i key err res ow k" None
  for key err :: string and res :: "jobj option"
  unfolding mark_task_failed_or_cancelled_def
  by (rule fenced_op_guard_raise, rule fenced_op_fenced) (auto simp: live_row)

interpretation not_applied: fenced_op
  "\<lambda>c i ow k. resolve_status_reconciliation_not_applied c i st ow k" None
  for st :: string
  unfolding resolve_status_reconciliation_not_applied_def
  by (rule fenced_op_fenced, rule keeps_commit)
    (rule row_next_running, assumption, simp_all add: resolved_row_identity)

interpretation touch: fenced_op "\<lambda>c i ow k. touch_task_running c i ow k n" False
  for n :: int
  unfolding touch_task_running_def
  by (rule fenced_op_fenced, rule keeps_return)
    (rule row_next_running, assumption, simp_all add: same_identity_def)

interpretation checkpoint: fenced_op
  "\<lambda>c i ow k. checkpoint_duplicate_adset_structure c i cp ow k" False
  for cp :: jobj
  unfolding checkpoint_duplicate_adset_structure_def
  by (rule fenced_op_guard_raise, rule fenced_op_fenced) (auto simp: live_row)

interpretation external_start: fenced_op
  "\<lambda>c i ow k. mark_external_call_started c i key ow k" False
  for key :: string
  unfolding mark_external_call_started_def
  by (rule fenced_op_guard_raise, rule fenced_op_fenced) (auto simp: live_row)

lemma fenced_op_cond:
  assumes "fenced_op run miss" "fenced_op run' miss"
  shows "fenced_op (\<lambda>c i ow k db. if b then run c i ow k db else run' c i ow k db) miss"
  using assms by (cases b) simp_all

lemma fenced_op_refuse:
  "fenced_op (\<lambda>c i ow k db. Inr (db, miss)) miss"
  by unfold_locales (auto intro: exI [of _ "\<lambda>t. t"])

text \<open>An operation that delegates to another fenced one and reports \<open>miss\<close>.\<close>

lemma fenced_op_delegate:
  assumes "fenced_op run m"
  shows "fenced_op (\<lambda>c i ow k db. ebind (run c i ow k db) (\<lambda>(db', _). Inr (db', miss))) miss"
proof (unfold_locales, goal_cases)
  case (1 c i ow k db db' r)
  then show ?case
    using fenced_op.refuses [OF assms, of c i ow k db db'] by (auto simp: err_simps)
next
  case (2 c i ow k db db' r)
  then show ?case
    using fenced_op.touches [OF assms, of c i ow k db db'] by (auto simp: err_simps)
qed

lemma fenced_op_checked:
  assumes "fenced_op run miss"
  shows "fenced_op (\<lambda>c i ow k db. ebind x (\<lambda>_. run c i ow k db)) miss"
proof (cases x)
  case (Inl e)
  then show ?thesis
    by unfold_locales simp_all
qed (use assms in simp)

interpretation duplicate_requeue: fenced_op
  "\<lambda>c i ow k. requeue_duplicate_recovery c i cp err n ow k" False
  for cp :: jobj and err :: string and n :: int
  unfolding requeue_duplicate_recovery_def
  by (rule fenced_op_guard_raise, rule fenced_op_checked, rule fenced_op_fenced) (auto simp: live_row)

interpretation retry: fenced_op
  "\<lambda>c i ow k. requeue_for_retry c i err a m l ow k" False
  for err :: string and a m :: int and l :: lane
proof (unfold_locales, goal_cases)
  case (1 c i ow k db db' r)
  then show ?case
    using fail.refuses [of c i err _ ow k None db db'] fenced_refuses [of c i ow k _ _ _ False db db' r]
    by (auto simp: requeue_for_retry_def Let_def err_simps split: if_splits)
next
  case (2 c i ow k db db' r)
  show ?case
  proof (cases "has_valid_fence ow k")
    case True
    show ?thesis
    proof (cases "a + 1 \<ge> m")
      case True
      then show ?thesis
        using 2 \<open>has_valid_fence ow k\<close> fail.touches [of c i err _ ow k None db db']
        by (auto simp: requeue_for_retry_def Let_def err_simps)
    next
      case False
      let ?f = "\<lambda>t. t\<lparr>t_status := Retrying, t_attempt_count := a + 1,
          t_available_at := calc_retry_available_at (py_now c) (a + 1),
          t_deadline_at := retry_deadline l (calc_retry_available_at (py_now c) (a + 1)),
          t_last_error := Some (clip err),
          t_lease_owner := None, t_lease_expires_at := None, t_updated_at := tx_now c\<rparr>"
      have "fenced c i ow k (\<lambda>t. True) ?f (\<lambda>t db1. Inr (db1, True)) False db = Inr (db', r)"
        using 2 \<open>has_valid_fence ow k\<close> False by (simp add: requeue_for_retry_def Let_def)
      then show ?thesis
        by (rule fenced_touches) (auto simp: live_row)
    qed
  next
    case False
    then show ?thesis
      using 2 by (auto simp: requeue_for_retry_def intro: exI [of _ "\<lambda>t. t"])
  qed
qed

interpretation not_committed: fenced_op
  "\<lambda>c i ow k. requeue_proven_not_committed c i key err a l ow k" None
  for key err :: string and a :: int and l :: lane
  unfolding requeue_proven_not_committed_def Let_def
  by (rule fenced_op_guard_raise, rule fenced_op_fenced, rule keeps_commit)
    (rule row_next_running, assumption, simp_all add: not_committed_row_identity)

section \<open>Operations on a claimed snapshot\<close>

text \<open>The fence of these is the one in the snapshot the worker holds.\<close>

definition held :: "task \<Rightarrow> int \<Rightarrow> int option \<Rightarrow> int \<Rightarrow> task" where
  "held snap i ow n = snap\<lparr>t_id := i, t_lease_owner := ow, t_lease_token := n\<rparr>"

definition on_held ::
  "'a \<Rightarrow> (clock \<Rightarrow> task \<Rightarrow> qdb \<Rightarrow> (qdb \<times> 'a) result) \<Rightarrow> task \<Rightarrow>
   clock \<Rightarrow> int \<Rightarrow> int option \<Rightarrow> int option \<Rightarrow> qdb \<Rightarrow> (qdb \<times> 'a) result" where
  "on_held miss run snap c i ow k db =
     (case k of None \<Rightarrow> Inr (db, miss) | Some n \<Rightarrow> run c (held snap i ow n) db)"

lemma held_simps [simp]:
  "t_id (held snap i ow n) = i" "t_lease_owner (held snap i ow n) = ow"
  "t_lease_token (held snap i ow n) = n" "t_lane (held snap i ow n) = t_lane snap"
  "t_attempt_count (held snap i ow n) = t_attempt_count snap"
  "t_max_attempts (held snap i ow n) = t_max_attempts snap" "t_result (held snap i ow n) = t_result snap"
  by (simp_all add: held_def)

lemma held_self: "on_held miss run t c (t_id t) (t_lease_owner t) (Some (t_lease_token t)) = run c t"
  by (simp add: on_held_def held_def fun_eq_iff)

lemma fenced_op_held:
  assumes "\<And>c i ow n db db' r. run c (held snap i ow n) db = Inr (db', r) \<Longrightarrow>
      (\<And>t. t \<in> set (tasks db) \<Longrightarrow> \<not> fence_live c i ow (Some n) t) \<Longrightarrow> db' = db \<and> r = miss"
    and "\<And>c i ow n db db' r. run c (held snap i ow n) db = Inr (db', r) \<Longrightarrow>
      \<exists>g. tasks db' = map g (tasks db) \<and> next_id db' = next_id db \<and>
          (\<forall>t. row_next t (g t)) \<and> (\<forall>t. \<not> fence_live c i ow (Some n) t \<longrightarrow> g t = t)"
  shows "fenced_op (on_held miss run snap) miss"
proof (unfold_locales, goal_cases)
  case (1 c i ow k db db' r)
  then show ?case
    using assms(1) by (cases k) (auto simp: on_held_def)
next
  case (2 c i ow k db db' r)
  show ?case
  proof (cases k)
    case None
    then show ?thesis
      using 2 by (auto simp: on_held_def intro: exI [of _ "\<lambda>t. t"])
  next
    case (Some n)
    then show ?thesis
      using 2 assms(2) by (auto simp: on_held_def)
  qed
qed

interpretation deferral: fenced_op
  "on_held False (\<lambda>c t. defer_unknown_reconciliation c t err n) snap" False
  for err :: string and n :: int and snap :: task
proof (rule fenced_op_held, goal_cases)
  case (1 c i ow m db db' r)
  then show ?case
    unfolding defer_unknown_reconciliation_def held_simps by (rule fenced_refuses)
next
  case (2 c i ow m db db' r)
  then show ?case
    unfolding defer_unknown_reconciliation_def held_simps by (rule fenced_touches) (auto simp: live_row)
qed

lemma release_cases:
  assumes "release_after_browser_readiness_rejection c task gen err key eff db = Inr (db', r)"
  shows "db' = db \<and> r = None \<or>
    fenced c (t_id task) (t_lease_owner task) (Some (t_lease_token task)) (\<lambda>t. True)
      (readiness_rejected_row c err (queue_wait_seconds (t_lane task)))
      (\<lambda>t db1. ebind (run_effect (map_option (\<lambda>e. e (t_status t)) eff) db1)
         (commit (transition_returned_terminal_tasks c None [t]) (Some (t_status t))))
      None db = Inr (db', r)"
proof -
  have split: "(if b then Inr (db, None) else if b' then Inl e else x) = Inr (db', r) \<Longrightarrow>
      db' = db \<and> r = None \<or> x = Inr (db', r)" for b b' e x
    by (simp split: if_splits)
  show ?thesis
    by (rule split [OF assms [unfolded release_after_browser_readiness_rejection_def]])
qed

interpretation readiness_release: fenced_op
  "on_held None (\<lambda>c t. release_after_browser_readiness_rejection c t gen err key eff) snap" None
  for gen :: "int option" and err :: string and key :: "string option"
    and eff :: "(task_status \<Rightarrow> effect) option" and snap :: task
proof (rule fenced_op_held, goal_cases)
  case (1 c i ow m db db' r)
  from release_cases [OF 1(1), unfolded held_simps] show ?case
    using 1(2) by (elim disjE) (simp, rule fenced_refuses)
next
  case (2 c i ow m db db' r)
  from release_cases [OF 2, unfolded held_simps] show ?case
  proof (elim disjE)
    assume "db' = db \<and> r = None"
    then show ?thesis
      by (auto intro: exI [of _ "\<lambda>t. t"])
  next
    assume "fenced c i ow (Some m) (\<lambda>t. True)
      (readiness_rejected_row c err (queue_wait_seconds (t_lane snap)))
      (\<lambda>t db1. ebind (run_effect (map_option (\<lambda>e. e (t_status t)) eff) db1)
         (commit (transition_returned_terminal_tasks c None [t]) (Some (t_status t))))
      None db = Inr (db', r)"
    then show ?thesis
      by (rule fenced_touches, intro keeps_effect)
        (rule row_next_running, assumption, simp_all add: readiness_rejected_row_identity)
  qed
qed

lemma update_refuses:
  assumes "(case update_tasks (fence_live c i ow k) f db of (db1, rows) \<Rightarrow> Inr (db1, rows \<noteq> [])) = Inr (db', r)"
    and "\<And>t. t \<in> set (tasks db) \<Longrightarrow> \<not> fence_live c i ow k t"
  shows "db' = db \<and> r = False"
proof -
  have "filter (fence_live c i ow k) (tasks db) = []"
    using assms(2) by (simp add: filter_empty_conv)
  then show ?thesis
    using assms(1) by (simp add: update_tasks_none)
qed

interpretation unknown_requeue: fenced_op
  "on_held False (\<lambda>c t. requeue_unknown_for_reconciliation c t err) snap" False
  for err :: string and snap :: task
proof (rule fenced_op_held, goal_cases)
  case (1 c i ow m db db' r)
  show ?case
  proof (cases "jget (obj_or_empty (t_result snap)) ''reconcile_required'' = JBool True \<and>
      t_attempt_count snap + 1 \<ge> t_max_attempts snap")
    case True
    then show ?thesis
      using 1 fail.refuses [of c i err _ ow "Some m" None db db']
      by (auto simp: requeue_unknown_for_reconciliation_def Let_def err_simps)
  next
    case False
    then show ?thesis
      using 1 unfolding requeue_unknown_for_reconciliation_def Let_def held_simps
      by (simp only: if_False) (rule update_refuses)
  qed
next
  case (2 c i ow m db db' r)
  show ?case
  proof (cases "jget (obj_or_empty (t_result snap)) ''reconcile_required'' = JBool True \<and>
      t_attempt_count snap + 1 \<ge> t_max_attempts snap")
    case True
    then show ?thesis
      using 2 fail.touches [of c i err _ ow "Some m" None db db']
      by (auto simp: requeue_unknown_for_reconciliation_def Let_def err_simps)
  next
    case False
    let ?f = "\<lambda>t. t\<lparr>t_status := Retrying, t_attempt_count := t_attempt_count snap + 1, t_available_at := tx_now c,
        t_deadline_at := (if t_lane snap = LMoney then None
          else Some (py_now c + secs (queue_wait_seconds (t_lane snap)))),
        t_last_error := Some (clip err),
        t_result := Some (jmerge (obj_or_empty (t_result t))
          [(''outcome'', JStr ''UNKNOWN''), (''reconcile_required'', JBool True),
           (''unknown_at'', JNum (tx_now c))]),
        t_lease_owner := None, t_lease_expires_at := None, t_updated_at := tx_now c\<rparr>"
    have "db' = fst (update_tasks (fence_live c i ow (Some m)) ?f db)"
      using 2 False by (auto simp: requeue_unknown_for_reconciliation_def Let_def split: prod.splits)
    then show ?thesis
      by (intro exI [of _ "\<lambda>t. if fence_live c i ow (Some m) t then ?f t else t"])
        (auto simp: live_row)
  qed
qed

end
