(* ===== verification/TaskSystem.thy ===== *)
theory TaskSystem
  imports TaskFences
begin

text \<open>
  The contract \<open>system_op\<close> holds of every operation that holds no lease: claims, expiry, the
  reconcilers, cancellation requests and manual reviews.
\<close>

section \<open>Row transitions\<close>

lemma lost_system_row:
  assumes "t_status t = Running" "lease_lost c sec t" "same_identity t t'" "t_lease_token t' = t_lease_token t"
    and "t_status t' \<noteq> Succeeded"
    and "t_type t = CampaignCreate \<Longrightarrow> t_status t' = Failed \<and> outcome t' = JStr ''UNKNOWN''"
  shows "system_row c t t'"
proof -
  have "\<not> lease_live c t"
    using assms(2) by (auto simp: lease_lost_def lease_live_def split: option.splits)
  then show ?thesis
    using assms by (auto simp: system_row_def row_next_def terminal_def claimable_def)
qed

lemma outcome_merge [simp]:
  "outcome (t\<lparr>t_result := Some (jmerge ob ((''outcome'', v) # kvs))\<rparr>) = v"
  by (simp add: outcome_def jget_jmerge)

lemma expire_system_row: "overdue c t \<Longrightarrow> system_row c t (expire_row c t)"
  by (auto simp: overdue_def expire_row_def system_row_def row_defs outcome_def jget_jmerge
      split: option.splits)

lemma recovery_system_row: "stuck_duplicate c sec t \<Longrightarrow> system_row c t (recovery_row c t)"
  by (rule lost_system_row [of _ c sec]) (auto simp: stuck_duplicate_def recovery_row_def same_identity_def)

lemma lost_duplicate_system_row: "stuck_duplicate c sec t \<Longrightarrow> system_row c t (lost_duplicate_row c t)"
  by (rule lost_system_row [of _ c sec]) (auto simp: stuck_duplicate_def lost_duplicate_row_def same_identity_def)

lemma lost_campaign_system_row:
  "t_status t = Running \<Longrightarrow> lease_lost c sec t \<Longrightarrow> system_row c t (lost_campaign_row c t)"
  by (rule lost_system_row [of _ c sec])
    (auto simp: lost_campaign_row_def same_identity_def outcome_def jget_jmerge)

lemma stuck_row_identity:
  "same_identity t (stuck_row c t) \<and> t_lease_token (stuck_row c t) = t_lease_token t \<and>
   t_status (stuck_row c t) \<noteq> Succeeded"
  by (simp add: stuck_row_def same_identity_def Let_def)

lemma stuck_system_row: "reconcilable c sec ks t \<Longrightarrow> system_row c t (stuck_row c t)"
  by (rule lost_system_row [of _ c sec])
    (auto simp: reconcilable_def stuck_row_identity IRREVERSIBLE_TASK_TYPES_def)

lemma cancel_system_row:
  assumes "\<not> terminal (t_status t)"
  shows "system_row c t (cancel_row c reason t)"
proof (cases "claimable (t_status t) \<and> t_external_started_at t = None")
  case True
  then show ?thesis
    by (auto simp: cancel_row_def Let_def system_row_def row_defs)
next
  case False
  then have "cancel_row c reason t =
      t\<lparr>t_cancel_requested_at := Some (coalesce (t_cancel_requested_at t) (tx_now c)),
        t_cancel_reason := Some (clip reason), t_updated_at := tx_now c\<rparr>"
    by (auto simp: cancel_row_def Let_def)
  then show ?thesis
    using assms by (auto simp: system_row_def row_defs)
qed

lemma claim_system_row: "claimable (t_status t) \<Longrightarrow> system_row c t (claim_row c w n t)"
  by (auto simp: claim_row_def system_row_def row_defs)

lemma review_system_row:
  assumes "terminal (t_status t)"
  shows "system_row c t (t\<lparr>t_review_observation := a, t_review_at := b, t_review_by := d, t_updated_at := n\<rparr>)"
  using assms by (auto simp: system_row_def row_defs)

section \<open>Statements\<close>

lemma update_rows:
  assumes "db1 = fst (update_tasks P f db)" "tasks db' = tasks db1" "next_id db' = next_id db1"
    and "\<And>t. t \<in> set (tasks db) \<Longrightarrow> P t \<Longrightarrow> system_row c t (f t)"
  shows "\<exists>g. tasks db' = map g (tasks db) \<and> next_id db' = next_id db \<and>
             (\<forall>t \<in> set (tasks db). system_row c t (g t))"
  using assms by (intro exI [of _ "\<lambda>t. if P t then f t else t"]) auto

lemma update_commit_rows:
  assumes "(case update_tasks P f db of (db1, rs) \<Rightarrow> commit (proj rs) (v rs) db1) = Inr (db', r)"
    and "\<And>t. P t \<Longrightarrow> system_row c t (f t)"
  shows "\<exists>g. tasks db' = map g (tasks db) \<and> next_id db' = next_id db \<and>
             (\<forall>t \<in> set (tasks db). system_row c t (g t))"
proof (rule update_rows [OF refl])
  let ?u = "update_tasks P f db"
  have "commit (proj (snd ?u)) (v (snd ?u)) (fst ?u) = Inr (db', r)"
    using assms(1) by (simp add: case_prod_unfold)
  then have frame: "tasks db' = tasks (fst ?u) \<and> next_id db' = next_id (fst ?u) \<and> r = v (snd ?u)"
    by (rule commit_frame)
  show "tasks db' = tasks (fst ?u)"
    using frame by (rule conjunct1)
  show "next_id db' = next_id (fst ?u)"
    using frame by (rule conjunct1 [OF conjunct2])
qed (use assms(2) in blast)

lemma expire_where_rows:
  assumes "expire_where c scope db = Inr (db', r)"
  shows "\<exists>g. tasks db' = map g (tasks db) \<and> next_id db' = next_id db \<and>
             (\<forall>t \<in> set (tasks db). system_row c t (g t))"
proof (rule update_commit_rows)
  show "(case update_tasks (\<lambda>t. overdue c t \<and> scope t) (expire_row c) db of (db1, rs) \<Rightarrow>
      commit (transition_returned_terminal_tasks c None rs) (int (length rs)) db1) = Inr (db', r)"
    using assms by (simp add: expire_where_def commit_def case_prod_unfold)
qed (simp add: expire_system_row)

section \<open>Claims\<close>

lemma first_of_in: "first_of ts = Some t \<Longrightarrow> t \<in> set ts"
  by (induction ts arbitrary: t) (auto split: option.splits if_splits)

lemma first_of_None: "first_of ts = None \<longleftrightarrow> ts = []"
  by (cases ts) (auto split: option.splits)

lemma claim_first_rows:
  assumes "claim_first c locked gate tt lanes w n db = Inr (db', r)" "queue_inv db"
  shows "\<exists>g. tasks db' = map g (tasks db) \<and> next_id db' = next_id db \<and>
             (\<forall>t \<in> set (tasks db). system_row c t (g t))"
proof (cases "first_of (filter (\<lambda>t. gate \<and> claim_candidate c tt lanes t \<and> t_id t \<notin> set locked) (tasks db))")
  case None
  then show ?thesis
    using assms(1) expire_where_rows
    by (auto simp: claim_first_def expire_overdue_claimable_tasks_def err_simps)
next
  case (Some t)
  have t: "t \<in> set (tasks db)" "claimable (t_status t)"
    using first_of_in [OF Some] by (auto simp: claim_candidate_def)
  have uniq: "u = t" if "u \<in> set (tasks db)" "t_id u = t_id t" for u
    using assms(2) that t(1) by (auto simp: queue_inv_def distinct_map dest: inj_onD)
  let ?g = "\<lambda>u. if t_id u = t_id t then claim_row c w (max 5 n) u else u"
  have "tasks db' = map ?g (tasks db)" "next_id db' = next_id db"
    using assms(1) Some by (auto simp: claim_first_def Let_def err_simps)
  moreover have "system_row c u (?g u)" if "u \<in> set (tasks db)" for u
    using uniq [OF that] t(2) claim_system_row by (auto split: if_splits)
  ultimately show ?thesis
    by blast
qed

lemma claim_browser_ready_first:
  assumes "claim_browser_ready_task c locked tn ls w n db = Inr (db', r)"
  obtains tt row where "map_of TASK_TYPES tn = Some tt"
    "claim_first c locked (readiness_evidence c db \<noteq> None) tt (List.map_filter (map_of TASK_LANES) ls) w n db
       = Inr (db', row)"
    "cl_task r = (if readiness_evidence c db = None then None else map_option row_to_task row)"
proof -
  from assms obtain tt where tt: "map_of TASK_TYPES tn = Some tt"
    by (auto simp: claim_browser_ready_task_def split: option.splits)
  with assms obtain row where
    row: "claim_first c locked (readiness_evidence c db \<noteq> None) tt (List.map_filter (map_of TASK_LANES) ls) w n db
       = Inr (db', row)"
    and r: "r = browser_claim row (readiness_evidence c db)"
    by (auto simp: claim_browser_ready_task_def ebind_eq_Inr split: if_splits)
  have "cl_task r = (if readiness_evidence c db = None then None else map_option row_to_task row)"
    using r by (auto simp: browser_claim_def no_claim_def split: option.splits)
  then show ?thesis
    using that tt row by blast
qed

interpretation ready_claim: system_op
  "\<lambda>c. claim_browser_ready_task c locked tn ls w n"
  for locked :: "int list" and tn :: string and ls :: "string list" and w n :: int
  by unfold_locales (elim claim_browser_ready_first, rule claim_first_rows)

interpretation next_claim: system_op
  "\<lambda>c. claim_next_task c locked tn ls w n"
  for locked :: "int list" and tn :: string and ls :: "string list option" and w n :: int
proof (unfold_locales, goal_cases)
  case (1 c db db' r)
  then show ?case
    using ready_claim.rows [of c locked tn _ w n db db' r] claim_first_rows [OF _ 1(2)]
    by (auto simp: claim_next_task_def Let_def err_simps split: option.splits if_splits)
qed

section \<open>The other operations\<close>

interpretation expiry: system_op "\<lambda>c. expire_overdue_tasks c"
  unfolding expire_overdue_tasks_def by unfold_locales (rule expire_where_rows)

interpretation duplicate_recovery: system_op "\<lambda>c. prepare_stuck_duplicate_recovery c sec"
  for sec :: int
  unfolding prepare_stuck_duplicate_recovery_def
  by unfold_locales (erule update_commit_rows, auto intro: recovery_system_row)

interpretation duplicate_failure: system_op "\<lambda>c. fail_stuck_duplicate_without_checkpoint c sec"
  for sec :: int
  unfolding fail_stuck_duplicate_without_checkpoint_def
  by unfold_locales (erule update_commit_rows, auto intro: lost_duplicate_system_row)

interpretation campaign_failure: system_op "\<lambda>c. fail_stuck_campaign_create c sec"
  for sec :: int
  unfolding fail_stuck_campaign_create_def
  by unfold_locales (erule update_commit_rows, auto intro: lost_campaign_system_row)

interpretation reconciler: system_op "\<lambda>c. reconcile_stuck_running c sec kinds"
  for sec :: int and kinds :: "string list"
  unfolding reconcile_stuck_running_def
  by unfold_locales (erule update_commit_rows, auto intro: stuck_system_row)

interpretation cancellation: system_op "\<lambda>c. request_task_cancel c i reason"
  for i :: int and reason :: string
  unfolding request_task_cancel_def
  by unfold_locales (erule update_commit_rows, auto intro: cancel_system_row)

interpretation review: system_op "\<lambda>c. record_manual_reconciliation c i observation reviewer"
  for i :: int and observation reviewer :: string
proof (unfold_locales, goal_cases)
  case (1 c db db' r)
  then obtain t where t: "task_by_id i db = Some t" "t_status t \<notin> {Pending, Retrying, Running}"
    by (auto simp: record_manual_reconciliation_def Let_def split: if_splits option.splits)
  then have row: "t \<in> set (tasks db)" "t_id t = i" "terminal (t_status t)"
    by (auto simp: task_by_id_def find_Some_iff terminal_def) (metis task_status.exhaust)
  have uniq: "u = t" if "u \<in> set (tasks db)" "t_id u = i" for u
    using 1(2) that row(1,2) by (auto simp: queue_inv_def distinct_map dest: inj_onD)
  show ?case
  proof (cases "t_review_observation t = Some observation")
    case True
    then have "db' = db"
      using 1(1) t by (auto simp: record_manual_reconciliation_def Let_def split: if_splits)
    then show ?thesis
      by (auto intro: exI [of _ "\<lambda>t. t"])
  next
    case False
    let ?f = "\<lambda>u. u\<lparr>t_review_observation := Some observation, t_review_at := Some (tx_now c),
        t_review_by := Some (py_strip reviewer), t_updated_at := tx_now c\<rparr>"
    have "tasks db' = tasks (fst (update_tasks (\<lambda>u. t_id u = i) ?f db))"
      "next_id db' = next_id (fst (update_tasks (\<lambda>u. t_id u = i) ?f db))"
      using 1(1) t False by (auto simp: record_manual_reconciliation_def Let_def split: if_splits)
    then show ?thesis
    proof (rule update_rows [OF refl])
      fix u assume "u \<in> set (tasks db)" "t_id u = i"
      then have "u = t"
        by (rule uniq)
      then show "system_row c u (?f u)"
        using row(3) review_system_row by simp
    qed
  qed
qed

end
