(* ===== verification/TrackerCancel.thy ===== *)
theory TrackerCancel
  imports TaskSystem
begin

text \<open>
  The one writer of the queue outside \<open>core/tasks/queue.py\<close> that closes a task of a worker: a positive
  event of the tracker cancels the automatic stop of its advertisement
  (\<open>cancel_unstarted_auto_pause\<close> of \<open>core/adset_pro/processing.py\<close>), also under a live lease, as long as
  the external call has not started; after that it only leaves a request.
\<close>

section \<open>core/adset\_pro/processing.py\<close>

record cancel_result =
  cr_cancelled_task_ids :: "int list"
  cr_meta_snapshot_fresh :: bool
  cr_needs_scan_refresh :: bool

definition auto_pause_of :: "string \<Rightarrow> task \<Rightarrow> bool" where
  "auto_pause_of fb_ad_id t \<longleftrightarrow>
     t_type t = MetaApiMutation \<and> arrow_text (t_payload t) ''mutation_kind'' = Some ''pause_ad''
     \<and> arrow_text (t_payload t) ''target_id'' = Some fb_ad_id \<and> t_requested_by t = ''bot_auto_stop''"

definition unstarted_auto_pause :: "string \<Rightarrow> task \<Rightarrow> bool" where
  "unstarted_auto_pause fb_ad_id t \<longleftrightarrow>
     auto_pause_of fb_ad_id t \<and> t_status t \<in> {Pending, Retrying, Running} \<and> t_external_started_at t = None"

definition started_auto_pause :: "string \<Rightarrow> task \<Rightarrow> bool" where
  "started_auto_pause fb_ad_id t \<longleftrightarrow>
     auto_pause_of fb_ad_id t \<and> t_status t \<in> {Running, Retrying} \<and> t_external_started_at t \<noteq> None \<and> t_cancel_requested_at t = None"

definition tracker_cancelled_row :: "clock \<Rightarrow> task \<Rightarrow> task" where
  "tracker_cancelled_row c t =
     t\<lparr>t_status := Cancelled, t_last_error := Some ''cancelled_by_positive_tracker_event'',
       t_result := Some (jmerge (obj_or_empty (t_result t))
         [(''outcome'', JStr ''REJECTED''), (''reason'', JStr ''positive_tracker_event_before_external_call'')]),
       t_completed_at := Some (tx_now c), t_lease_owner := None, t_lease_expires_at := None, t_updated_at := tx_now c\<rparr>"

definition tracker_marked_row :: "clock \<Rightarrow> task \<Rightarrow> task" where
  "tracker_marked_row c t =
     t\<lparr>t_cancel_requested_at := Some (tx_now c),
       t_cancel_reason := Some (coalesce (t_cancel_reason t) ''positive_tracker_event_after_external_boundary''),
       t_updated_at := tx_now c\<rparr>"

fun recover_incidents :: "clock \<Rightarrow> task list \<Rightarrow> ops_db \<Rightarrow> ops_db result" where
  "recover_incidents c [] db = Inr db"
| "recover_incidents c (t # ts) db =
     ebind (transition_correlated_incident c (t_id t) (Some (t_correlation_id t)) PhRecovered (t_payload t) False db)
       (\<lambda>(db1, _). recover_incidents c ts db1)"

text \<open>The latest metric of the advertisement is fresh within two scan intervals.\<close>

definition tracker_snapshot_fresh :: "int option \<Rightarrow> int option \<Rightarrow> int \<Rightarrow> bool" where
  "tracker_snapshot_fresh latest_cycle interval_seconds now \<longleftrightarrow>
     (case latest_cycle of None \<Rightarrow> False | Some ts \<Rightarrow> ts \<ge> now - secs (max (coalesce interval_seconds 90) 1 * 2))"

definition cancel_unstarted_auto_pause ::
  "clock \<Rightarrow> string \<Rightarrow> int option \<Rightarrow> int option \<Rightarrow> int \<Rightarrow> qdb \<Rightarrow> (qdb \<times> cancel_result) result" where
  "cancel_unstarted_auto_pause c fb_ad_id latest_cycle interval_seconds now db =
     (let is_fresh = tracker_snapshot_fresh latest_cycle interval_seconds now;
          (db1, rows) = update_tasks (unstarted_auto_pause fb_ad_id) (tracker_cancelled_row c) db;
          (db2, _) = update_tasks (started_auto_pause fb_ad_id) (tracker_marked_row c) db1
      in commit (recover_incidents c rows)
           \<lparr>cr_cancelled_task_ids = map t_id rows, cr_meta_snapshot_fresh = is_fresh, cr_needs_scan_refresh = \<not> is_fresh\<rparr> db2)"

section \<open>Rows\<close>

definition tracker_row :: "clock \<Rightarrow> string \<Rightarrow> task \<Rightarrow> task" where
  "tracker_row c fb_ad_id t =
     (if unstarted_auto_pause fb_ad_id t then tracker_cancelled_row c t
      else if started_auto_pause fb_ad_id t then tracker_marked_row c t else t)"

lemma tracker_row_next: "row_next t (tracker_row c fb_ad_id t)"
  by (auto simp: tracker_row_def tracker_cancelled_row_def tracker_marked_row_def unstarted_auto_pause_def started_auto_pause_def
      row_defs)

lemma tracker_rows:
  assumes "cancel_unstarted_auto_pause c fb_ad_id lc iv now db = Inr (db', r)"
  shows "tasks db' = map (tracker_row c fb_ad_id) (tasks db)" and "next_id db' = next_id db"
proof -
  have closed: "\<not> started_auto_pause fb_ad_id (tracker_cancelled_row c t)" for t
    by (simp add: started_auto_pause_def tracker_cancelled_row_def)
  have "tasks db' = map (\<lambda>t. if started_auto_pause fb_ad_id t then tracker_marked_row c t else t)
      (map (\<lambda>t. if unstarted_auto_pause fb_ad_id t then tracker_cancelled_row c t else t) (tasks db)) \<and> next_id db' = next_id db"
    using assms by (auto simp: cancel_unstarted_auto_pause_def update_tasks_def Let_def dest!: commit_frame)
  then show "tasks db' = map (tracker_row c fb_ad_id) (tasks db)" "next_id db' = next_id db"
    using closed by (auto simp: tracker_row_def)
qed

text \<open>A live lease is kept unless the row is an automatic stop whose external call has not started.\<close>

lemma tracker_row_lease:
  assumes "\<not> unstarted_auto_pause fb_ad_id t" "fence_live c i ow k t"
  shows "fence_live c i ow k (tracker_row c fb_ad_id t) \<and> t_external_started_at (tracker_row c fb_ad_id t) = t_external_started_at t"
  using assms by (auto simp: tracker_row_def tracker_marked_row_def fence_live_def)

end
