(* ===== verification/TaskSteps.thy ===== *)
theory TaskSteps
  imports TrackerCancel
begin

text \<open>
  The queue as a state machine: a step is one committed transaction of \<open>core/tasks/queue.py\<close>,
  by a worker under a fence, by a process without a lease, the creation of a task, or the
  cancellation of an automatic stop by the tracker, in any order and any number. Rows are not
  deleted. (A transaction that raises commits nothing and is no step.)
\<close>

inductive worker_step :: "clock \<Rightarrow> int \<Rightarrow> int option \<Rightarrow> int option \<Rightarrow> qdb \<Rightarrow> qdb \<Rightarrow> bool" where
  "mark_succeeded c i res ow k eff db = Inr (db', r) \<Longrightarrow> worker_step c i ow k db db'"
| "mark_failed c i err res ow k eff db = Inr (db', r) \<Longrightarrow> worker_step c i ow k db db'"
| "mark_cancelled c i reason ow k db = Inr (db', r) \<Longrightarrow> worker_step c i ow k db db'"
| "mark_task_failed_or_cancelled c i key err res ow k db = Inr (db', s) \<Longrightarrow> worker_step c i ow k db db'"
| "resolve_status_reconciliation_not_applied c i st ow k db = Inr (db', s) \<Longrightarrow> worker_step c i ow k db db'"
| "touch_task_running c i ow k n db = Inr (db', r) \<Longrightarrow> worker_step c i ow k db db'"
| "checkpoint_duplicate_adset_structure c i cp ow k db = Inr (db', r) \<Longrightarrow> worker_step c i ow k db db'"
| "mark_external_call_started c i key ow k db = Inr (db', r) \<Longrightarrow> worker_step c i ow k db db'"
| "requeue_duplicate_recovery c i cp err n ow k db = Inr (db', r) \<Longrightarrow> worker_step c i ow k db db'"
| "requeue_for_retry c i err a m l ow k db = Inr (db', r) \<Longrightarrow> worker_step c i ow k db db'"
| "requeue_proven_not_committed c i key err a l ow k db = Inr (db', s) \<Longrightarrow> worker_step c i ow k db db'"
| "release_after_browser_readiness_rejection c t gen err tk reff db = Inr (db', s) \<Longrightarrow>
     worker_step c (t_id t) (t_lease_owner t) (Some (t_lease_token t)) db db'"
| "requeue_unknown_for_reconciliation c t err db = Inr (db', r) \<Longrightarrow>
     worker_step c (t_id t) (t_lease_owner t) (Some (t_lease_token t)) db db'"
| "defer_unknown_reconciliation c t err n db = Inr (db', r) \<Longrightarrow>
     worker_step c (t_id t) (t_lease_owner t) (Some (t_lease_token t)) db db'"

inductive system_step :: "clock \<Rightarrow> qdb \<Rightarrow> qdb \<Rightarrow> bool" where
  "claim_next_task c locked tn ls w n db = Inr (db', cl) \<Longrightarrow> system_step c db db'"
| "claim_browser_ready_task c locked tn lns w n db = Inr (db', cl) \<Longrightarrow> system_step c db db'"
| "expire_overdue_tasks c db = Inr (db', m) \<Longrightarrow> system_step c db db'"
| "prepare_stuck_duplicate_recovery c sec db = Inr (db', m) \<Longrightarrow> system_step c db db'"
| "fail_stuck_duplicate_without_checkpoint c sec db = Inr (db', m) \<Longrightarrow> system_step c db db'"
| "fail_stuck_campaign_create c sec db = Inr (db', m) \<Longrightarrow> system_step c db db'"
| "reconcile_stuck_running c sec kinds db = Inr (db', m) \<Longrightarrow> system_step c db db'"
| "request_task_cancel c i reason db = Inr (db', b) \<Longrightarrow> system_step c db db'"
| "record_manual_reconciliation c i observation reviewer db = Inr (db', mr) \<Longrightarrow> system_step c db db'"

inductive queue_step :: "qdb \<Rightarrow> qdb \<Rightarrow> bool" where
  worker: "worker_step c i ow k db db' \<Longrightarrow> queue_step db db'"
| system: "system_step c db db' \<Longrightarrow> queue_step db db'"
| create: "create_task c a db = Inr (db', r) \<Longrightarrow> queue_step db db'"
| tracker: "cancel_unstarted_auto_pause c fb_ad_id lc iv now db = Inr (db', cr) \<Longrightarrow> queue_step db db'"

section \<open>Rows under a step\<close>

lemmas held_touches =
  readiness_release.touches [where snap = t and i = "t_id t" and ow = "t_lease_owner t"
    and k = "Some (t_lease_token t)" for t, unfolded held_self]
  unknown_requeue.touches [where snap = t and i = "t_id t" and ow = "t_lease_owner t"
    and k = "Some (t_lease_token t)" for t, unfolded held_self]
  deferral.touches [where snap = t and i = "t_id t" and ow = "t_lease_owner t"
    and k = "Some (t_lease_token t)" for t, unfolded held_self]

lemmas held_refuses =
  readiness_release.refuses [where snap = t and i = "t_id t" and ow = "t_lease_owner t"
    and k = "Some (t_lease_token t)" for t, unfolded held_self, THEN conjunct1]
  unknown_requeue.refuses [where snap = t and i = "t_id t" and ow = "t_lease_owner t"
    and k = "Some (t_lease_token t)" for t, unfolded held_self, THEN conjunct1]
  deferral.refuses [where snap = t and i = "t_id t" and ow = "t_lease_owner t"
    and k = "Some (t_lease_token t)" for t, unfolded held_self, THEN conjunct1]

lemma worker_step_touches:
  assumes "worker_step c i ow k db db'"
  shows "\<exists>g. tasks db' = map g (tasks db) \<and> next_id db' = next_id db \<and>
             (\<forall>t. row_next t (g t)) \<and> (\<forall>t. \<not> fence_live c i ow k t \<longrightarrow> g t = t)"
  using assms
  by (induction rule: worker_step.induct)
    (erule succeed.touches fail.touches cancel.touches fail_or_cancel.touches not_applied.touches
      touch.touches checkpoint.touches external_start.touches duplicate_requeue.touches retry.touches
      not_committed.touches held_touches)+

lemma worker_step_refused:
  assumes "worker_step c i ow k db db'" "\<And>t. t \<in> set (tasks db) \<Longrightarrow> \<not> fence_live c i ow k t"
  shows "db' = db"
  using assms
  by (induction rule: worker_step.induct)
    (erule succeed.refuses [THEN conjunct1] fail.refuses [THEN conjunct1] cancel.refuses [THEN conjunct1]
      fail_or_cancel.refuses [THEN conjunct1] not_applied.refuses [THEN conjunct1]
      touch.refuses [THEN conjunct1] checkpoint.refuses [THEN conjunct1]
      external_start.refuses [THEN conjunct1] duplicate_requeue.refuses [THEN conjunct1]
      retry.refuses [THEN conjunct1] not_committed.refuses [THEN conjunct1] held_refuses, blast)+

lemma system_step_rows:
  assumes "system_step c db db'" "queue_inv db"
  shows "\<exists>g. tasks db' = map g (tasks db) \<and> next_id db' = next_id db \<and>
             (\<forall>t \<in> set (tasks db). system_row c t (g t))"
  using assms
  by (induction rule: system_step.induct)
    (erule next_claim.rows ready_claim.rows expiry.rows duplicate_recovery.rows
      duplicate_failure.rows campaign_failure.rows reconciler.rows cancellation.rows review.rows,
     assumption)+

lemma new_task_simps [simp]:
  "t_id (new_task c a tt st l i corr) = i"
  "t_idempotency_key (new_task c a tt st l i corr) = ca_idempotency_key a"
  by (simp_all add: new_task_def)

lemma create_cases:
  assumes "create_task c a db = Inr (db', r)"
  shows "next_id db' = next_id db + 1 \<and>
    (r = None \<and> tasks db' = tasks db \<and> ca_idempotency_key a \<in> set (map t_idempotency_key (tasks db)) \<or>
     r = Some (next_id db) \<and> ca_idempotency_key a \<notin> set (map t_idempotency_key (tasks db)) \<and>
     (\<exists>tt st l corr. map_of TASK_TYPES (ca_task_type a) = Some tt \<and> map_of TASK_STATUSES (ca_status a) = Some st \<and>
        create_lane tt a = Some l \<and>
        tasks db' = tasks db @ [new_task c a tt st l (next_id db) corr]))"
  using assms by (auto simp: create_task_def Let_def split: option.splits if_splits)

lemma create_rows:
  assumes "create_task c a db = Inr (db', r)" "queue_inv db"
  shows "queue_inv db' \<and> set (tasks db) \<subseteq> set (tasks db')"
  using create_cases [OF assms(1)]
proof (elim conjE disjE exE)
  assume "next_id db' = next_id db + 1" "tasks db' = tasks db"
  then show ?thesis
    using assms(2) by (fastforce simp: queue_inv_def)
next
  fix tt st l corr
  assume new: "next_id db' = next_id db + 1" "tasks db' = tasks db @ [new_task c a tt st l (next_id db) corr]"
    "ca_idempotency_key a \<notin> set (map t_idempotency_key (tasks db))"
  have "next_id db \<notin> t_id ` set (tasks db)"
    using assms(2) by (auto simp: queue_inv_def)
  then show ?thesis
    using new assms(2) by (fastforce simp: queue_inv_def)
qed

lemma queue_step_row:
  assumes "queue_step db db'" "queue_inv db"
  shows "queue_inv db' \<and> (\<forall>t \<in> set (tasks db). \<exists>t' \<in> set (tasks db'). row_next t t')"
  using assms(1)
proof cases
  case (worker c i ow k)
  then obtain g where g: "tasks db' = map g (tasks db)" "next_id db' = next_id db" "\<forall>t. row_next t (g t)"
    using worker_step_touches by metis
  then have "queue_inv db'"
    using assms(2) by (intro queue_inv_map [of db db' g]) auto
  then show ?thesis
    using g by auto
next
  case (system c)
  then obtain g where g: "tasks db' = map g (tasks db)" "next_id db' = next_id db"
      "\<forall>t \<in> set (tasks db). system_row c t (g t)"
    using system_step_rows assms(2) by metis
  then have "queue_inv db'"
    using assms(2) by (intro queue_inv_map [of db db' g]) (auto simp: system_row_def)
  then show ?thesis
    using g by (auto simp: system_row_def)
next
  case (create c a r)
  then show ?thesis
    using create_rows assms(2) row_next_refl by blast
next
  case (tracker c fb_ad_id lc iv now cr)
  then have g: "tasks db' = map (tracker_row c fb_ad_id) (tasks db)" "next_id db' = next_id db"
    by (rule tracker_rows)+
  then have "queue_inv db'"
    using assms(2) tracker_row_next by (intro queue_inv_map [of db db' "tracker_row c fb_ad_id"]) auto
  then show ?thesis
    using g tracker_row_next by auto
qed

lemma queue_steps_inv: "queue_step\<^sup>*\<^sup>* db db' \<Longrightarrow> queue_inv db \<Longrightarrow> queue_inv db'"
  by (induction rule: rtranclp_induct) (auto dest: queue_step_row)

text \<open>A property of rows that every step keeps holds of the row for ever.\<close>

lemma queue_steps_row:
  assumes "queue_step\<^sup>*\<^sup>* db db'" "queue_inv db" "t \<in> set (tasks db)" "R t"
    and "\<And>u u'. R u \<Longrightarrow> row_next u u' \<Longrightarrow> R u'"
  shows "\<exists>t' \<in> set (tasks db'). t_id t' = t_id t \<and> R t'"
  using assms(1)
proof (induction rule: rtranclp_induct)
  case base
  then show ?case
    using assms(3,4) by blast
next
  case (step db1 db2)
  then obtain u where u: "u \<in> set (tasks db1)" "t_id u = t_id t" "R u"
    by blast
  moreover obtain u' where "u' \<in> set (tasks db2)" "row_next u u'"
    using queue_step_row [OF step(2)] queue_steps_inv [OF step(1) assms(2)] u(1) by blast
  ultimately show ?case
    using assms(5) row_next_id by metis
qed

lemma row_unique:
  "queue_inv db \<Longrightarrow> t \<in> set (tasks db) \<Longrightarrow> u \<in> set (tasks db) \<Longrightarrow> t_id t = t_id u \<Longrightarrow> t = u"
  by (auto simp: queue_inv_def distinct_map dest: inj_onD)

lemma frozen_iff:
  "frozen t t' \<longleftrightarrow> (\<exists>a b d n. t' = t\<lparr>t_review_observation := a, t_review_at := b, t_review_by := d,
     t_updated_at := n\<rparr>)"
  by (auto simp: frozen_def)

lemma frozen_refl [simp]: "frozen t t"
  by (simp add: frozen_def)

lemma frozen_trans: "frozen t t' \<Longrightarrow> frozen t' t'' \<Longrightarrow> frozen t t''"
  unfolding frozen_iff by (elim exE, hypsubst, simp, blast)

lemma frozen_status: "frozen t t' \<Longrightarrow> t_status t' = t_status t"
  by (auto simp: frozen_iff)

end
