(* ===== verification/TaskQueueProps.thy ===== *)
theory TaskQueueProps
  imports TaskSteps
begin

text \<open>
  The correctness properties of the task queue and their witnesses: what fencing, claiming,
  expiry, reconciliation and the operator projections guarantee over every interleaving of
  transactions.
\<close>

section \<open>A concrete queue\<close>

definition q_clock :: "int \<Rightarrow> clock" where
  "q_clock s = \<lparr>tx_now = secs s, clk = secs s, py_now = secs s\<rparr>"

definition q_ops :: ops_db where
  "q_ops = \<lparr>incidents = [], runs = [], outbox = [], fb_ads = [], next_uuid = 100\<rparr>"

definition q_empty :: qdb where
  "q_empty = \<lparr>tasks = [], next_id = 1, ops = q_ops, wakeups = [],
     vision = Some \<lparr>vc_id = 1, vc_profile_id = ''p'', vc_updated_at = 0\<rparr>,
     readiness = Some \<lparr>rd_config_id = 1, rd_config_updated_at = 0, rd_expected_profile = ''p'',
       rd_observed_profile = Some ''p'', rd_session = Some ''s'', rd_contract = Some 5,
       rd_state = ''ready'', rd_reason_code = ''ready'', rd_expires_at = Some (secs 1000), rd_generation = 3\<rparr>,
     maintenance_until = None\<rparr>"

text \<open>An automatic stop: pause one advertisement.\<close>

definition q_stop_args :: create_args where
  "q_stop_args =
     \<lparr>ca_task_type = ''meta_api_mutation'', ca_idempotency_key = ''k1'',
      ca_payload = [(''mutation_kind'', JStr ''pause_ad''), (''target_id'', JStr ''42''), (''ad_account_id'', JStr ''9'')],
      ca_requested_by = ''bot_auto_stop'', ca_status = ''pending'', ca_max_attempts = 5,
      ca_created_by_chat_id = None, ca_target_lock_key = Some ''42'', ca_target_lock_keys = [],
      ca_lane = None, ca_priority = None, ca_available_at = None, ca_deadline_at = None,
      ca_correlation_id = Some 7\<rparr>"

definition q_stop :: task where
  "q_stop = new_task (q_clock 0) q_stop_args MetaApiMutation Pending LMoney 1 7"

definition q_running :: task where
  "q_running = claim_row (q_clock 10) 77 60 q_stop"

definition q_db :: "task list \<Rightarrow> qdb" where
  "q_db ts = q_empty\<lparr>tasks := ts, next_id := 10\<rparr>"

lemmas q_defs = q_clock_def q_ops_def q_empty_def q_stop_args_def q_stop_def q_running_def q_db_def
  new_task_def claim_row_def secs_def FINALIZE_HEADROOM_SECONDS_def queue_wait_seconds_def

lemma q_inv: "queue_inv (q_db [q_stop])" "queue_inv (q_db [q_running])"
  by (simp_all add: queue_inv_def q_defs)

lemma q_running_live: "fence_live (q_clock 20) 1 (Some 77) (Some 1) q_running"
  by (simp add: fence_live_def q_defs)

section \<open>Fencing\<close>

text \<open>
  C1. Fencing: an operation of a worker whose fence (task, lease owner, lease token) is not the
  live one of a row - the lease expired, the task was claimed again, was closed, or the fence
  never existed - leaves the whole database as it was. This holds of all fourteen operations
  a worker may call.
\<close>

theorem stale_worker_changes_nothing:
  assumes "worker_step c i ow k db db'"
    and "\<And>t. t \<in> set (tasks db) \<Longrightarrow> t_id t = i \<Longrightarrow>
      t_status t \<noteq> Running \<or> t_lease_owner t \<noteq> ow \<or> Some (t_lease_token t) \<noteq> k \<or>
      t_lease_expires_at t = None \<or> the (t_lease_expires_at t) \<le> clk c"
  shows "db' = db"
  using assms(1)
proof (rule worker_step_refused)
  fix t assume "t \<in> set (tasks db)"
  then show "\<not> fence_live c i ow k t"
    using assms(2) by (fastforce simp: fence_live_def split: option.splits)
qed

lemma q_stale_touch:
  "touch_task_running (q_clock 100) 1 (Some 77) (Some 2) 30 (q_db [q_running]) = Inr (q_db [q_running], False)"
  by (simp add: touch_task_running_def fenced_def has_valid_fence_def update_tasks_def fence_live_def q_defs)

theorem stale_worker_changes_nothing_witness:
  "worker_step (q_clock 100) 1 (Some 77) (Some 2) (q_db [q_running]) (q_db [q_running]) \<and>
   t_lease_token q_running = 1"
proof -
  have "worker_step (q_clock 100) 1 (Some 77) (Some 2) (q_db [q_running]) (q_db [q_running])"
    using q_stale_touch by (rule worker_step.intros)
  moreover from this have "q_db [q_running] = q_db [q_running]"
    by (rule stale_worker_changes_nothing) (simp add: q_defs)
  ultimately show ?thesis
    by (simp add: q_defs)
qed

text \<open>
  C2. Exclusive ownership: while the lease of a worker is live no transaction without a lease
  (claim, expiry, any reconciler, a cancellation request, a review) and no worker with another
  fence takes the task away, closes it, moves its lease or its external-call boundary. The one
  exception is the tracker: it closes an automatic stop of its advertisement whose external call
  has not started, as rejected before the call; every other live task it leaves in its lease.
\<close>

theorem live_lease_is_exclusive:
  assumes "queue_inv db" "t \<in> set (tasks db)" "fence_live c i ow k t" "tx_now c \<le> clk c"
    and "system_step c db db' \<or> (\<exists>i' ow' k'. worker_step c i' ow' k' db db' \<and> (i', ow', k') \<noteq> (i, ow, k))
      \<or> (\<exists>cr. cancel_unstarted_auto_pause c fb_ad_id lc iv now db = Inr (db', cr))"
  shows "\<exists>t' \<in> set (tasks db'). t_id t' = i \<and> t_external_started_at t' = t_external_started_at t \<and>
     (fence_live c i ow k t' \<or>
      (\<exists>cr. cancel_unstarted_auto_pause c fb_ad_id lc iv now db = Inr (db', cr)) \<and> unstarted_auto_pause fb_ad_id t \<and>
      t_status t' = Cancelled \<and> outcome t' = JStr ''REJECTED'')"
  using assms(5)
proof (elim disjE exE conjE)
  assume "system_step c db db'"
  then obtain g where g: "tasks db' = map g (tasks db)" "system_row c t (g t)"
    using system_step_rows assms(1,2) by blast
  have "lease_live c t" "t_status t = Running"
    using assms(3,4) by (auto simp: lease_live_def fence_live_def split: option.splits)
  then have "fence_live c i ow k (g t) \<and> t_external_started_at (g t) = t_external_started_at t"
    using g(2) assms(3) by (auto simp: system_row_def row_next_def same_identity_def fence_live_def)
  then show ?thesis
    using g(1) assms(2) by (auto simp: fence_live_def)
next
  fix i' ow' k' assume step: "worker_step c i' ow' k' db db'" and other: "(i', ow', k') \<noteq> (i, ow, k)"
  have "\<not> fence_live c i' ow' k' t"
    using assms(3) other by (auto simp: fence_live_def)
  then obtain g where "tasks db' = map g (tasks db)" "g t = t"
    using worker_step_touches [OF step] by blast
  then have "t \<in> set (tasks db')"
    using assms(2) by (metis image_eqI set_map)
  then show ?thesis
    using assms(3) by (auto simp: fence_live_def)
next
  fix cr assume step: "cancel_unstarted_auto_pause c fb_ad_id lc iv now db = Inr (db', cr)"
  let ?t = "tracker_row c fb_ad_id t"
  have "?t \<in> set (tasks db')" using tracker_rows(1) [OF step] assms(2) by simp
  moreover have "t_id ?t = i \<and> t_external_started_at ?t = t_external_started_at t \<and>
     (fence_live c i ow k ?t \<or> unstarted_auto_pause fb_ad_id t \<and> t_status ?t = Cancelled \<and> outcome ?t = JStr ''REJECTED'')"
  proof (cases "unstarted_auto_pause fb_ad_id t")
    case True
    then show ?thesis
      using assms(3) by (simp add: tracker_row_def tracker_cancelled_row_def outcome_def obj_or_empty_def jget_jmerge fence_live_def)
  next
    case False
    then show ?thesis using tracker_row_lease [OF False assms(3)] by (auto simp: fence_live_def)
  qed
  ultimately show ?thesis using step by blast
qed

lemma q_cancel_running:
  "request_task_cancel (q_clock 20) 1 ''stop'' (q_db [q_running]) =
     Inr (q_db [cancel_row (q_clock 20) ''stop'' q_running], True)"
  by (simp add: request_task_cancel_def update_tasks_def commit_def on_ops_def cancel_row_def
      terminal_def claimable_def q_defs Let_def)

theorem live_lease_is_exclusive_witness:
  "\<exists>t' \<in> set (tasks (q_db [cancel_row (q_clock 20) ''stop'' q_running])).
     fence_live (q_clock 20) 1 (Some 77) (Some 1) t' \<and> t_external_started_at t' = None"
proof -
  have "system_step (q_clock 20) (q_db [q_running]) (q_db [cancel_row (q_clock 20) ''stop'' q_running])"
    using q_cancel_running by (rule system_step.intros)
  moreover have "q_running \<in> set (tasks (q_db [q_running]))" "tx_now (q_clock 20) \<le> clk (q_clock 20)"
    "t_external_started_at q_running = None"
    by (simp_all add: q_defs)
  moreover have "\<not> unstarted_auto_pause ''99'' q_running"
    by (simp add: unstarted_auto_pause_def auto_pause_of_def arrow_text_def q_defs)
  ultimately show ?thesis
    using live_lease_is_exclusive [OF q_inv(2) _ q_running_live, where fb_ad_id = "''99''"] by metis
qed

text \<open>
  C4. Final states are final: once a task succeeded, failed or was cancelled, no sequence of
  transactions of the queue - late workers, reconcilers, cancellations - changes its status,
  result, error, attempt count, lease or completion time; only a manual review may be added.
\<close>

theorem terminal_task_is_final:
  assumes "queue_inv db" "queue_step\<^sup>*\<^sup>* db db'" "t \<in> set (tasks db)" "terminal (t_status t)"
  shows "\<exists>t' \<in> set (tasks db'). t_id t' = t_id t \<and> frozen t t'"
proof -
  let ?R = "\<lambda>u. frozen t u \<and> terminal (t_status u)"
  have "?R u'" if R: "?R u" and "row_next u u'" for u u'
  proof -
    have "frozen u u'"
      using that by (simp add: row_next_def)
    then show ?thesis
      using R frozen_trans [of t u u'] frozen_status [of u u'] by simp
  qed
  moreover have "?R t"
    using assms(4) by simp
  ultimately have "\<exists>t' \<in> set (tasks db'). t_id t' = t_id t \<and> ?R t'"
    by (intro queue_steps_row [OF assms(2,1,3)])
  then show ?thesis
    by blast
qed

definition q_done :: task where
  "q_done = q_running\<lparr>t_status := Succeeded, t_result := Some [(''outcome'', JStr ''CONFIRMED'')]\<rparr>"

theorem terminal_task_is_final_witness:
  "\<exists>t' \<in> set (tasks (q_db [q_done])). t_id t' = t_id q_done \<and> frozen q_done t'"
proof (rule terminal_task_is_final)
  have "mark_failed (q_clock 20) 1 ''late'' None (Some 77) (Some 1) None (q_db [q_done]) = Inr (q_db [q_done], False)"
    by (simp add: mark_failed_def fenced_def has_valid_fence_def update_tasks_def fence_live_def q_done_def q_defs)
  then have "queue_step (q_db [q_done]) (q_db [q_done])"
    by (intro queue_step.worker) (rule worker_step.intros)
  then show "queue_step\<^sup>*\<^sup>* (q_db [q_done]) (q_db [q_done])"
    by (rule r_into_rtranclp)
qed (simp_all add: queue_inv_def q_done_def q_defs terminal_def)

section \<open>Integrity of the table\<close>

text \<open>
  Over every sequence of transactions task ids and idempotency keys stay unique, and no
  task that was ever created is lost: its row is still there with the same id, type, payload,
  lane, priority, requester and attempt limit.
\<close>

theorem queue_integrity:
  assumes "queue_inv db" "queue_step\<^sup>*\<^sup>* db db'"
  shows "queue_inv db' \<and> (\<forall>t. t \<in> set (tasks db) \<longrightarrow> (\<exists>t'. t' \<in> set (tasks db') \<and> same_identity t t'))"
proof -
  have "\<exists>t' \<in> set (tasks db'). t_id t' = t_id t \<and> same_identity t t'" if t: "t \<in> set (tasks db)" for t
  proof (rule queue_steps_row [OF assms(2,1) t])
    show "same_identity t t"
      by (simp add: same_identity_def)
    show "same_identity t u'" if "same_identity t u" "row_next u u'" for u u'
      using that by (simp add: row_next_def same_identity_def)
  qed
  then show ?thesis
    using queue_steps_inv [OF assms(2,1)] by blast
qed

theorem queue_integrity_witness:
  "queue_inv (q_db [q_running]) \<and>
   (\<exists>t'. t' \<in> set (tasks (q_db [q_running])) \<and> same_identity q_running t')"
proof -
  have "worker_step (q_clock 100) 1 (Some 77) (Some 2) (q_db [q_running]) (q_db [q_running])"
    using q_stale_touch by (rule worker_step.intros)
  then have "queue_step\<^sup>*\<^sup>* (q_db [q_running]) (q_db [q_running])"
    by (intro r_into_rtranclp queue_step.worker)
  from queue_integrity [OF q_inv(2) this] show ?thesis
    by (simp add: q_db_def)
qed

end
