(* ===== verification/TaskClaims.thy ===== *)
theory TaskClaims
  imports TaskQueueProps
begin

text \<open>
  Properties of creating and claiming: which task a claim takes and on what terms, that two
  claims never share a fence, and that an idempotency key creates one task.
\<close>

section \<open>The order of claims\<close>

lemma claim_before_irrefl: "\<not> claim_before t t"
  by (simp add: claim_before_def)

lemma claim_before_asym: "claim_before s t \<Longrightarrow> \<not> claim_before t s"
  unfolding claim_before_def by linarith

lemma claim_before_negtrans: "\<not> claim_before s t \<Longrightarrow> \<not> claim_before t u \<Longrightarrow> \<not> claim_before s u"
  unfolding claim_before_def by linarith

lemma first_of_least: "first_of ts = Some t \<Longrightarrow> u \<in> set ts \<Longrightarrow> \<not> claim_before u t"
proof (induction ts arbitrary: t u)
  case (Cons s ts)
  show ?case
  proof (cases "first_of ts")
    case None
    then have "ts = []"
      by (simp only: first_of_None)
    then show ?thesis
      using Cons.prems claim_before_irrefl by simp
  next
    case (Some v)
    then have t: "t = (if claim_before v s then v else s)"
      using Cons.prems(1) by simp
    show ?thesis
    proof (cases "u = s")
      case True
      then show ?thesis
        using t claim_before_irrefl claim_before_asym [of v s] by simp
    next
      case False
      then have "\<not> claim_before u v"
        using Cons.IH [OF Some] Cons.prems(2) by simp
      then show ?thesis
        using t claim_before_negtrans [of u v s] by simp
    qed
  qed
qed simp

text \<open>The gate of a claim: readiness for Meta mutations, no maintenance for other browser work.\<close>

definition claim_gate :: "clock \<Rightarrow> task_type \<Rightarrow> qdb \<Rightarrow> bool" where
  "claim_gate c tt db \<longleftrightarrow>
     (if tt \<in> set BROWSER_READY_CLAIM_TASK_TYPES then readiness_evidence c db \<noteq> None
      else \<not> (tt \<in> set BROWSER_BACKED_TASK_TYPES \<and> maintenance c db))"

definition claim_lanes :: "string list option \<Rightarrow> lane list" where
  "claim_lanes ls = List.map_filter (map_of TASK_LANES)
     (case ls of None \<Rightarrow> [''interactive'', ''bulk'', ''background''] | Some xs \<Rightarrow> xs)"

lemma claim_first_gate_off:
  "claim_first c locked False tt lanes w n db = Inr (db', row) \<Longrightarrow> row = None"
  by (auto simp: claim_first_def err_simps)

lemma claim_next_first:
  assumes "claim_next_task c locked tn ls w n db = Inr (db', r)"
  obtains tt row where "map_of TASK_TYPES tn = Some tt"
    "claim_first c locked (claim_gate c tt db) tt (claim_lanes ls) w n db = Inr (db', row)"
    "cl_task r = map_option row_to_task row"
proof -
  obtain tt where tt: "map_of TASK_TYPES tn = Some tt"
    using assms by (auto simp: claim_next_task_def split: option.splits)
  let ?ls = "case ls of None \<Rightarrow> [''interactive'', ''bulk'', ''background''] | Some xs \<Rightarrow> xs"
  show ?thesis
  proof (cases "tt \<in> set BROWSER_READY_CLAIM_TASK_TYPES")
    case True
    then have "claim_browser_ready_task c locked tn ?ls w n db = Inr (db', r)"
      using assms tt by (auto simp: claim_next_task_def Let_def split: if_splits)
    then obtain tt' row where *: "map_of TASK_TYPES tn = Some tt'"
      "claim_first c locked (readiness_evidence c db \<noteq> None) tt' (List.map_filter (map_of TASK_LANES) ?ls) w n db
         = Inr (db', row)"
      "cl_task r = (if readiness_evidence c db = None then None else map_option row_to_task row)"
      by (rule claim_browser_ready_first)
    have "cl_task r = map_option row_to_task row"
    proof (cases "readiness_evidence c db")
      case None
      then show ?thesis
        using *(2,3) claim_first_gate_off by fastforce
    qed (use *(3) in simp)
    then show ?thesis
      using that [of tt row] tt * True by (simp add: claim_gate_def claim_lanes_def)
  next
    case False
    then obtain row where
      "claim_first c locked (\<not> (tt \<in> set BROWSER_BACKED_TASK_TYPES \<and> maintenance c db)) tt
         (List.map_filter (map_of TASK_LANES) ?ls) w n db = Inr (db', row)"
      "r = no_claim\<lparr>cl_task := map_option row_to_task row\<rparr>"
      using assms tt by (auto simp: claim_next_task_def Let_def ebind_eq_Inr split: if_splits)
    then show ?thesis
      using that [of tt row] tt False by (simp add: claim_gate_def claim_lanes_def)
  qed
qed

definition eligible :: "clock \<Rightarrow> int list \<Rightarrow> task_type \<Rightarrow> lane list \<Rightarrow> qdb \<Rightarrow> task \<Rightarrow> bool" where
  "eligible c locked tt lanes db t \<longleftrightarrow>
     t \<in> set (tasks db) \<and> claim_gate c tt db \<and> claim_candidate c tt lanes t \<and> t_id t \<notin> set locked"

lemma claim_first_Some:
  assumes "claim_first c locked (claim_gate c tt db) tt lanes w n db = Inr (db', Some t)"
  obtains u where "eligible c locked tt lanes db u" "t = claim_row c w (max 5 n) u"
    "\<forall>v. eligible c locked tt lanes db v \<longrightarrow> \<not> claim_before v u"
    "tasks db' = map (\<lambda>v. if t_id v = t_id u then claim_row c w (max 5 n) v else v) (tasks db)"
proof -
  let ?F = "filter (\<lambda>t. claim_gate c tt db \<and> claim_candidate c tt lanes t \<and> t_id t \<notin> set locked) (tasks db)"
  obtain u where u: "first_of ?F = Some u"
    using assms by (cases "first_of ?F") (auto simp: claim_first_def err_simps)
  have el: "eligible c locked tt lanes db v \<longleftrightarrow> v \<in> set ?F" for v
    by (auto simp: eligible_def)
  have "t = claim_row c w (max 5 n) u"
    "tasks db' = map (\<lambda>v. if t_id v = t_id u then claim_row c w (max 5 n) v else v) (tasks db)"
    using assms u by (auto simp: claim_first_def Let_def ebind_eq_Inr)
  moreover have "eligible c locked tt lanes db u"
    using first_of_in [OF u] el by blast
  moreover have "\<forall>v. eligible c locked tt lanes db v \<longrightarrow> \<not> claim_before v u"
    using first_of_least [OF u] el by blast
  ultimately show ?thesis
    using that by blast
qed

lemma claim_first_None:
  assumes "claim_first c locked (claim_gate c tt db) tt lanes w n db = Inr (db', None)"
  shows "\<not> eligible c locked tt lanes db t"
proof -
  let ?F = "filter (\<lambda>t. claim_gate c tt db \<and> claim_candidate c tt lanes t \<and> t_id t \<notin> set locked) (tasks db)"
  have "first_of ?F = None"
    using assms by (cases "first_of ?F") (auto simp: claim_first_def Let_def ebind_eq_Inr)
  then have "?F = []"
    by (simp only: first_of_None)
  then show ?thesis
    by (auto simp: eligible_def filter_empty_conv)
qed

lemma claimed_terms:
  assumes t_def: "t = row_to_task (claim_row c w m u)"
  shows "t_id t = t_id u \<and> t_payload t = t_payload u \<and> t_status t = Running \<and> t_lease_owner t = Some w \<and>
    t_lease_token t = t_lease_token u + 1 \<and>
    t_deadline_at t = Some (clk c + secs (LANE_EXECUTION_WINDOW_SECONDS (t_lane u))) \<and>
    the (t_lease_expires_at t) \<ge> the (t_deadline_at t) + secs 60"
proof -
  define win where "win = LANE_EXECUTION_WINDOW_SECONDS (t_lane u)"
  have "win + 60 \<le> max m (win + 60)"
    by simp
  then show ?thesis
    by (simp add: t_def row_to_task_def claim_row_def secs_def FINALIZE_HEADROOM_SECONDS_def win_def
        del: max.cobounded2)
qed

text \<open>
  C3. A claim that commits takes, among the unlocked tasks that are due, alive, not cancelled
  and open to this consumer, one that no other precedes in the order of priority, readiness
  time, age and id - and takes nothing only when there is none. The claimed task is running
  under the worker, its token is one more than before, it has the whole execution window of
  its lane from now, and a lease that outlives the window by at least a minute.
\<close>

theorem claim_takes_first_eligible:
  assumes "claim_next_task c locked tn ls w n db = Inr (db', r)" "map_of TASK_TYPES tn = Some tt"
  shows "case cl_task r of
      None \<Rightarrow> \<not> (\<exists>u. eligible c locked tt (claim_lanes ls) db u)
    | Some t \<Rightarrow> (\<exists>u. eligible c locked tt (claim_lanes ls) db u \<and>
         \<not> (\<exists>v. eligible c locked tt (claim_lanes ls) db v \<and>
              (t_priority v > t_priority u \<or> t_priority v = t_priority u \<and>
               (t_available_at v < t_available_at u \<or> t_available_at v = t_available_at u \<and>
                (t_created_at v < t_created_at u \<or> t_created_at v = t_created_at u \<and> t_id v < t_id u)))) \<and>
         t_id t = t_id u \<and> t_payload t = t_payload u \<and> t_status t = Running \<and>
         t_lease_owner t = Some w \<and> t_lease_token t = t_lease_token u + 1 \<and>
         t_deadline_at t = Some (clk c + secs (LANE_EXECUTION_WINDOW_SECONDS (t_lane u))) \<and>
         the (t_lease_expires_at t) \<ge> the (t_deadline_at t) + secs 60)"
proof -
  obtain row where row: "claim_first c locked (claim_gate c tt db) tt (claim_lanes ls) w n db = Inr (db', row)"
    "cl_task r = map_option row_to_task row"
    using claim_next_first [OF assms(1)] assms(2) by (metis option.inject)
  show ?thesis
  proof (cases row)
    case None
    then show ?thesis
      using row claim_first_None by auto
  next
    case (Some t)
    then obtain u where "eligible c locked tt (claim_lanes ls) db u" "t = claim_row c w (max 5 n) u"
      "\<forall>v. eligible c locked tt (claim_lanes ls) db v \<longrightarrow> \<not> claim_before v u"
      using claim_first_Some [OF row(1) [unfolded Some]] by blast
    then show ?thesis
      using row(2) Some claimed_terms [OF refl, of c w "max 5 n" u] unfolding claim_before_def by auto
  qed
qed

lemma q_claim:
  "claim_next_task (q_clock 10) [] ''meta_api_mutation'' (Some [''money'']) 77 60 (q_db [q_stop]) =
     Inr (q_db [q_running],
       \<lparr>cl_task = Some q_running, cl_profile = Some ''p'', cl_session = Some ''s'', cl_generation = Some 3\<rparr>)"
  by (simp add: claim_next_task_def claim_browser_ready_task_def claim_first_def claim_candidate_def
      TASK_TYPES_def TASK_LANES_def BROWSER_READY_CLAIM_TASK_TYPES_def readiness_evidence_def maintenance_def
      claimable_def transition_correlated_incident_def phase_projection_def browser_claim_def row_to_task_def
      reconcile_flag_def py_strip_def py_space_def List.map_filter_def Let_def q_defs)

theorem claim_takes_first_eligible_witness:
  "\<exists>u. eligible (q_clock 10) [] MetaApiMutation (claim_lanes (Some [''money''])) (q_db [q_stop]) u \<and>
       t_id q_running = t_id u \<and> t_lease_token q_running = t_lease_token u + 1 \<and>
       the (t_lease_expires_at q_running) \<ge> the (t_deadline_at q_running) + secs 60"
proof -
  have "map_of TASK_TYPES ''meta_api_mutation'' = Some MetaApiMutation"
    by (simp add: TASK_TYPES_def)
  from claim_takes_first_eligible [OF q_claim this] show ?thesis
    by auto
qed

section \<open>Tokens\<close>

lemma claimed_row_present:
  assumes "claim_next_task c locked tn ls w n db = Inr (db', r)" "cl_task r = Some t"
  obtains u u' where "u \<in> set (tasks db)" "u' \<in> set (tasks db')" "t_id u = t_id t" "t_id u' = t_id t"
    "t_lease_token t = t_lease_token u + 1" "t_lease_token u' = t_lease_token t"
proof -
  obtain tt row where row: "claim_first c locked (claim_gate c tt db) tt (claim_lanes ls) w n db = Inr (db', row)"
    "cl_task r = map_option row_to_task row"
    using assms(1) by (rule claim_next_first)
  then obtain s where s: "row = Some s" "t = row_to_task s"
    using assms(2) by (cases row) auto
  obtain u where u: "eligible c locked tt (claim_lanes ls) db u" "s = claim_row c w (max 5 n) u"
    "tasks db' = map (\<lambda>v. if t_id v = t_id u then claim_row c w (max 5 n) v else v) (tasks db)"
    using claim_first_Some [OF row(1) [unfolded s(1)]] by blast
  have mem: "u \<in> set (tasks db)" "s \<in> set (tasks db')"
    using u by (auto simp: eligible_def)
  have "t_id u = t_id t" "t_id s = t_id t" "t_lease_token t = t_lease_token u + 1"
    "t_lease_token s = t_lease_token t"
    using s(2) u(2) by (simp_all add: row_to_task_def claim_row_def)
  then show ?thesis
    using that mem by blast
qed

text \<open>
  C7. Fencing tokens are never reused: whatever happens between two claims of the same task,
  the later claim gets a strictly greater token, so the fences of two claims differ.
\<close>

theorem claim_tokens_increase:
  assumes "queue_inv db" "claim_next_task c1 l1 tn1 ls1 w1 n1 db = Inr (db1, r1)" "cl_task r1 = Some t1"
    and "queue_step\<^sup>*\<^sup>* db1 db2"
    and "claim_next_task c2 l2 tn2 ls2 w2 n2 db2 = Inr (db3, r2)" "cl_task r2 = Some t2"
    and "t_id t2 = t_id t1"
  shows "t_lease_token t1 < t_lease_token t2"
proof -
  have inv1: "queue_inv db1"
    using assms(1,2) by (rule next_claim.keeps_inv [rotated])
  obtain s where s: "s \<in> set (tasks db1)" "t_id s = t_id t1" "t_lease_token s = t_lease_token t1"
    using claimed_row_present [OF assms(2,3)] by metis
  obtain u where u: "u \<in> set (tasks db2)" "t_id u = t_id t2" "t_lease_token t2 = t_lease_token u + 1"
    using claimed_row_present [OF assms(5,6)] by metis
  have "\<exists>s' \<in> set (tasks db2). t_id s' = t_id s \<and> t_lease_token s \<le> t_lease_token s'"
  proof (rule queue_steps_row [OF assms(4) inv1 s(1)])
    show "t_lease_token s \<le> t_lease_token v'" if "t_lease_token s \<le> t_lease_token v" "row_next v v'" for v v'
      using that by (auto simp: row_next_def claimed_def)
  qed simp
  then obtain s' where "s' \<in> set (tasks db2)" "t_id s' = t_id u" "t_lease_token s \<le> t_lease_token s'"
    using s(2) u(2) assms(7) by auto
  moreover have "s' = u"
    using row_unique [OF queue_steps_inv [OF assms(4) inv1]] calculation(1,2) u(1) by blast
  ultimately show ?thesis
    using s(3) u(3) by simp
qed

definition q_retrying :: task where
  "q_retrying = q_running\<lparr>t_status := Retrying, t_attempt_count := 1, t_available_at := secs 80,
     t_deadline_at := None, t_last_error := Some ''busy'', t_lease_owner := None,
     t_lease_expires_at := None, t_updated_at := secs 20\<rparr>"

definition q_reclaimed :: task where
  "q_reclaimed = claim_row (q_clock 100) 78 60 q_retrying"

lemma q_requeue:
  "requeue_for_retry (q_clock 20) 1 ''busy'' 0 5 LMoney (Some 77) (Some 1) (q_db [q_running]) =
     Inr (q_db [q_retrying], True)"
  by (simp add: requeue_for_retry_def fenced_def has_valid_fence_def update_tasks_def fence_live_def
      calc_retry_available_at_def retry_delay_seconds_def RETRY_BASE_SECONDS_def RETRY_MAX_SECONDS_def
      retry_deadline_def clip_def q_retrying_def q_defs Let_def)

lemma q_reclaim:
  "claim_next_task (q_clock 100) [] ''meta_api_mutation'' (Some [''money'']) 78 60 (q_db [q_retrying]) =
     Inr (q_db [q_reclaimed],
       \<lparr>cl_task = Some q_reclaimed, cl_profile = Some ''p'', cl_session = Some ''s'', cl_generation = Some 3\<rparr>)"
  by (simp add: claim_next_task_def claim_browser_ready_task_def claim_first_def claim_candidate_def
      TASK_TYPES_def TASK_LANES_def BROWSER_READY_CLAIM_TASK_TYPES_def readiness_evidence_def maintenance_def
      claimable_def transition_correlated_incident_def phase_projection_def browser_claim_def row_to_task_def
      reconcile_flag_def py_strip_def py_space_def List.map_filter_def Let_def q_retrying_def q_reclaimed_def q_defs)

theorem claim_tokens_increase_witness:
  "t_lease_token q_running < t_lease_token q_reclaimed"
proof (rule claim_tokens_increase [OF q_inv(1) q_claim _ _ q_reclaim])
  have "worker_step (q_clock 20) 1 (Some 77) (Some 1) (q_db [q_running]) (q_db [q_retrying])"
    using q_requeue by (rule worker_step.intros)
  then show "queue_step\<^sup>*\<^sup>* (q_db [q_running]) (q_db [q_retrying])"
    by (intro r_into_rtranclp queue_step.worker)
qed (simp_all add: q_reclaimed_def q_retrying_def q_defs)

section \<open>Creation\<close>

lemma find_append_new:
  "k \<notin> set (map f ts) \<Longrightarrow> f t = k \<Longrightarrow> find (\<lambda>u. f u = k) (ts @ [t]) = Some t"
  by (induction ts) auto

text \<open>
  One task per idempotency key: a creation that returns an id stores exactly that task at
  the end of the table, pending work of a non-money lane gets its queue limit and money work
  none; the task is found under its key, and creating with the same key again creates nothing
  and returns None.
\<close>

theorem create_task_once:
  assumes "create_task c a db = Inr (db', Some i)" "queue_inv db"
    and "create_task c' a db' = Inr (db'', r)"
  shows "r = None \<and> tasks db'' = tasks db' \<and>
    (\<exists>t. tasks db' = tasks db @ [t] \<and> t_id t = i \<and> t_payload t = ca_payload a \<and> t_attempt_count t = 0 \<and>
         t_lease_token t = 0 \<and>
         (ca_deadline_at a = None \<longrightarrow>
            t_deadline_at t = (if t_lane t = LMoney then None else Some (py_now c + secs (queue_wait_seconds (t_lane t))))) \<and>
         get_task_by_idempotency_key (ca_idempotency_key a) db'' = Some (row_to_task t))"
proof -
  obtain tt st l corr where new: "tasks db' = tasks db @ [new_task c a tt st l i corr]"
    "ca_idempotency_key a \<notin> set (map t_idempotency_key (tasks db))"
    using create_cases [OF assms(1)] by auto
  then have again: "r = None" "tasks db'' = tasks db'"
    using create_cases [OF assms(3)] by auto
  let ?t = "new_task c a tt st l i corr"
  have "find (\<lambda>u. t_idempotency_key u = ca_idempotency_key a) (tasks db @ [?t]) = Some ?t"
    using find_append_new [OF new(2), of ?t] by simp
  then have "get_task_by_idempotency_key (ca_idempotency_key a) db'' = Some (row_to_task ?t)"
    using again(2) new(1) by (simp add: get_task_by_idempotency_key_def)
  moreover have "t_payload ?t = ca_payload a" "t_attempt_count ?t = 0" "t_lease_token ?t = 0"
    "ca_deadline_at a = None \<Longrightarrow> t_deadline_at ?t =
       (if t_lane ?t = LMoney then None else Some (py_now c + secs (queue_wait_seconds (t_lane ?t))))"
    by (simp_all add: new_task_def)
  ultimately show ?thesis
    using again new(1) by auto
qed

definition q_created :: qdb where
  "q_created = q_empty\<lparr>tasks := [q_stop], next_id := 2, ops := q_ops\<lparr>next_uuid := 101\<rparr>,
     wakeups := [(1, MetaApiMutation, LMoney)]\<rparr>"

lemma q_create: "create_task (q_clock 0) q_stop_args q_empty = Inr (q_created, Some 1)"
  by (simp add: create_task_def TASK_TYPES_def TASK_STATUSES_def create_lane_def infer_task_lane_def
      meta_account_identity_def mutation_kind_def str_or_empty_def py_str_def is_digit_def q_created_def
      q_defs Let_def)

lemma q_create_again:
  "create_task (q_clock 5) q_stop_args q_created =
     Inr (q_created\<lparr>next_id := 3, ops := q_ops\<lparr>next_uuid := 102\<rparr>\<rparr>, None)"
  by (simp add: create_task_def TASK_TYPES_def TASK_STATUSES_def create_lane_def infer_task_lane_def
      meta_account_identity_def mutation_kind_def str_or_empty_def py_str_def is_digit_def q_created_def
      q_defs Let_def)

theorem create_task_once_witness:
  "\<exists>t. tasks q_created = [t] \<and> t_id t = 1 \<and> t_lane t = LMoney \<and>
       get_task_by_idempotency_key ''k1'' (q_created\<lparr>next_id := 3, ops := q_ops\<lparr>next_uuid := 102\<rparr>\<rparr>)
         = Some (row_to_task t)"
proof -
  have inv: "queue_inv q_empty"
    by (simp add: queue_inv_def q_defs)
  have key: "ca_idempotency_key q_stop_args = ''k1''" "tasks q_empty = []"
    by (simp_all add: q_defs)
  have "t_lane t = LMoney" if "tasks q_created = [] @ [t]" for t
    using that by (auto simp: q_created_def q_defs)
  then show ?thesis
    using create_task_once [OF q_create inv q_create_again] unfolding key by auto
qed

end
