(* ===== verification/TaskOutcomes.thy ===== *)
theory TaskOutcomes
  imports TaskClaims
begin

text \<open>
  Properties of how tasks end: money work is not dropped, campaign creation is never replayed
  by a reconciler, an unknown outcome stays unknown on expiry, failures reach the operator,
  retries are bounded, and the operator tables stay consistent.
\<close>

section \<open>Queued work\<close>

text \<open>
  C5. Queued work ends only by a cancellation or, outside the money lane, by its queue limit:
  in one transaction of a worker, a claim, the expiry or a reconciler a queued task stays
  queued, is claimed, or is cancelled; it fails only when its lane is not the money lane and its
  deadline has passed, and then its outcome is UNKNOWN exactly when an external call was
  started or a reconciliation is still required, and REJECTED otherwise.
\<close>

theorem queued_task_fate:
  assumes "queue_inv db" "system_step c db db' \<or> (\<exists>i ow k. worker_step c i ow k db db')"
    and "t \<in> set (tasks db)" "claimable (t_status t)"
  shows "\<exists>t' \<in> set (tasks db'). t_id t' = t_id t \<and>
    (t_status t' = t_status t \<or> claimed t t' \<or> t_status t' = Cancelled \<or>
     t_status t' = Failed \<and> t_lane t \<noteq> LMoney \<and> t_deadline_at t \<noteq> None \<and> the (t_deadline_at t) \<le> tx_now c \<and>
       outcome t' = JStr (if ambiguous t then ''UNKNOWN'' else ''REJECTED''))"
  using assms(2)
proof (elim disjE exE)
  fix i ow k assume step: "worker_step c i ow k db db'"
  have "\<not> fence_live c i ow k t"
    using assms(4) by (auto simp: fence_live_def claimable_def)
  then obtain g where "tasks db' = map g (tasks db)" "g t = t"
    using worker_step_touches [OF step] by blast
  then have "t \<in> set (tasks db')"
    using assms(3) by (metis image_eqI set_map)
  then show ?thesis
    by blast
next
  assume "system_step c db db'"
  then obtain g where g: "tasks db' = map g (tasks db)" "system_row c t (g t)"
    using system_step_rows assms(1,3) by blast
  have "t_status (g t) = t_status t \<or> claimed t (g t) \<or> t_status (g t) = Cancelled \<or>
     t_status (g t) = Failed \<and> t_lane t \<noteq> LMoney \<and> t_deadline_at t \<noteq> None \<and> the (t_deadline_at t) \<le> tx_now c \<and>
       outcome (g t) = JStr (if ambiguous t then ''UNKNOWN'' else ''REJECTED'')"
    using g(2) assms(4) unfolding system_row_def row_next_def
    by (cases "t_status (g t)") (auto simp: claimable_def)
  moreover have "t_id (g t) = t_id t"
    using g(2) row_next_id by (simp add: system_row_def)
  ultimately show ?thesis
    using g(1) assms(3) by auto
qed

lemma q_expire_money: "expire_overdue_tasks (q_clock 500) (q_db [q_stop]) = Inr (q_db [q_stop], 0)"
  by (simp add: expire_overdue_tasks_def expire_where_def update_tasks_def overdue_def on_ops_def q_defs)

theorem queued_task_fate_witness:
  "\<exists>t' \<in> set (tasks (q_db [q_stop])). t_id t' = 1 \<and>
    (t_status t' = Pending \<or> claimed q_stop t' \<or> t_status t' = Cancelled)"
proof -
  have "system_step (q_clock 500) (q_db [q_stop]) (q_db [q_stop])"
    using q_expire_money by (rule system_step.intros)
  then have "system_step (q_clock 500) (q_db [q_stop]) (q_db [q_stop]) \<or>
      (\<exists>i ow k. worker_step (q_clock 500) i ow k (q_db [q_stop]) (q_db [q_stop]))"
    by simp
  moreover have "q_stop \<in> set (tasks (q_db [q_stop]))" "claimable (t_status q_stop)"
    "t_id q_stop = 1" "t_status q_stop = Pending" "t_lane q_stop = LMoney"
    by (simp_all add: q_defs claimable_def)
  ultimately show ?thesis
    using queued_task_fate [OF q_inv(1)] by metis
qed

section \<open>Campaign creation\<close>

text \<open>
  C6. A campaign creation that lost its worker is never replayed: no transaction without a
  lease moves a running campaign creation anywhere but to failed with the outcome UNKNOWN, and
  the campaign finalizer closes every running campaign creation with a lost lease: it ends failed
  without a lease, with the outcome UNKNOWN and the requirement to reconcile it.
\<close>

theorem campaign_create_never_replayed:
  assumes "queue_inv db" "t \<in> set (tasks db)" "t_type t = CampaignCreate" "t_status t = Running"
  shows "(\<forall>db'. system_step c db db' \<longrightarrow> (\<exists>t' \<in> set (tasks db'). t_id t' = t_id t \<and>
            (t_status t' = Running \<or> t_status t' = Failed \<and> outcome t' = JStr ''UNKNOWN''))) \<and>
         (\<forall>db' n. fail_stuck_campaign_create c sec db = Inr (db', n) \<longrightarrow> lease_lost c sec t \<longrightarrow>
            (\<exists>t' \<in> set (tasks db'). t_id t' = t_id t \<and> t_status t' = Failed \<and> outcome t' = JStr ''UNKNOWN'' \<and>
               jget (obj_or_empty (t_result t')) ''reconcile_required'' = JBool True \<and> t_lease_owner t' = None \<and>
               t_lease_expires_at t' = None \<and> t_completed_at t' = Some (tx_now c)))"
proof (intro conjI allI impI)
  fix db' assume "system_step c db db'"
  then obtain g where g: "tasks db' = map g (tasks db)" "system_row c t (g t)"
    using system_step_rows assms(1,2) by blast
  then have "t_id (g t) = t_id t"
    "t_status (g t) = Running \<or> t_status (g t) = Failed \<and> outcome (g t) = JStr ''UNKNOWN''"
    using assms(3,4) row_next_id by (auto simp: system_row_def)
  then show "\<exists>t' \<in> set (tasks db'). t_id t' = t_id t \<and>
      (t_status t' = Running \<or> t_status t' = Failed \<and> outcome t' = JStr ''UNKNOWN'')"
    using g(1) assms(2) by auto
next
  fix db' n assume run: "fail_stuck_campaign_create c sec db = Inr (db', n)" and lost: "lease_lost c sec t"
  let ?P = "\<lambda>t. t_type t = CampaignCreate \<and> t_status t = Running \<and> lease_lost c sec t"
  have "tasks db' = map (\<lambda>t. if ?P t then lost_campaign_row c t else t) (tasks db)"
    using run commit_frame unfolding fail_stuck_campaign_create_def update_tasks_def by fastforce
  then have "lost_campaign_row c t \<in> set (tasks db')"
    using assms(2-4) lost by force
  then show "\<exists>t' \<in> set (tasks db'). t_id t' = t_id t \<and> t_status t' = Failed \<and> outcome t' = JStr ''UNKNOWN'' \<and>
      jget (obj_or_empty (t_result t')) ''reconcile_required'' = JBool True \<and> t_lease_owner t' = None \<and>
      t_lease_expires_at t' = None \<and> t_completed_at t' = Some (tx_now c)"
    by (rule bexI [rotated]) (simp add: lost_campaign_row_def outcome_def obj_or_empty_def jget_jmerge)
qed

definition q_campaign :: task where
  "q_campaign = q_running\<lparr>t_id := 2, t_type := CampaignCreate, t_idempotency_key := ''k2'', t_lane := LBulk,
     t_requested_by := ''operator'', t_correlation_id := 8, t_payload := [(''run_id'', JStr ''r1'')]\<rparr>"

lemma q_inv_campaign: "queue_inv (q_db [q_campaign])"
  by (simp add: queue_inv_def q_campaign_def q_defs)

lemma q_reconcile_campaign:
  "reconcile_stuck_running (q_clock 5000) 1800 [] (q_db [q_campaign]) = Inr (q_db [q_campaign], 0)"
  by (simp add: reconcile_stuck_running_def update_tasks_def reconcilable_def IRREVERSIBLE_TASK_TYPES_def
      commit_def on_ops_def q_campaign_def q_defs)

lemma q_finalize_campaign:
  "\<exists>db' n. fail_stuck_campaign_create (q_clock 5000) 1800 (q_db [q_campaign]) = Inr (db', n)"
proof -
  have "(case fail_stuck_campaign_create (q_clock 5000) 1800 (q_db [q_campaign]) of Inr _ \<Rightarrow> True | Inl _ \<Rightarrow> False)"
    by code_simp
  then show ?thesis by (auto split: sum.splits)
qed

theorem campaign_create_never_replayed_witness:
  "lease_lost (q_clock 5000) 1800 q_campaign \<and>
   (\<exists>t' \<in> set (tasks (q_db [q_campaign])). t_id t' = 2 \<and>
      (t_status t' = Running \<or> t_status t' = Failed \<and> outcome t' = JStr ''UNKNOWN'')) \<and>
   (\<exists>db' n. fail_stuck_campaign_create (q_clock 5000) 1800 (q_db [q_campaign]) = Inr (db', n) \<and>
      (\<exists>t' \<in> set (tasks db'). t_id t' = 2 \<and> t_status t' = Failed \<and> outcome t' = JStr ''UNKNOWN''))"
proof -
  have "q_campaign \<in> set (tasks (q_db [q_campaign]))" "t_type q_campaign = CampaignCreate"
    "t_status q_campaign = Running" and id: "t_id q_campaign = 2" and lost: "lease_lost (q_clock 5000) 1800 q_campaign"
    by (simp_all add: q_campaign_def q_defs lease_lost_def)
  note all = campaign_create_never_replayed [OF q_inv_campaign this(1-3), unfolded id]
  have "system_step (q_clock 5000) (q_db [q_campaign]) (q_db [q_campaign])"
    using q_reconcile_campaign by (rule system_step.intros)
  then have 1: "\<exists>t' \<in> set (tasks (q_db [q_campaign])). t_id t' = 2 \<and>
      (t_status t' = Running \<or> t_status t' = Failed \<and> outcome t' = JStr ''UNKNOWN'')"
    using all [THEN conjunct1] by blast
  obtain db' n where run: "fail_stuck_campaign_create (q_clock 5000) 1800 (q_db [q_campaign]) = Inr (db', n)"
    using q_finalize_campaign by blast
  then have "\<exists>t' \<in> set (tasks db'). t_id t' = 2 \<and> t_status t' = Failed \<and> outcome t' = JStr ''UNKNOWN''"
    using all [THEN conjunct2, rule_format, OF run lost] by blast
  with run 1 lost show ?thesis
    by blast
qed

section \<open>The operator hears of failures\<close>

definition told :: "ops_db \<Rightarrow> dedupe_key set" where
  "told db = set (map ev_dedupe (outbox db))"

lemma told_enqueue: "told db \<subseteq> told (enqueue_notification et sv au cd dk ic co db)"
  by (auto simp: told_def enqueue_notification_def Let_def split: option.splits)

lemma told_ops_update [simp]:
  "told (db\<lparr>incidents := x\<rparr>) = told db" "told (db\<lparr>next_uuid := n\<rparr>) = told db"
  by (simp_all add: told_def)

lemma told_notify:
  assumes "notify_recurring_incident_in_transaction now key au et sv cd rt ri co db = Inr db'"
  shows "told db \<subseteq> told db'"
proof (cases "find (\<lambda>i. inc_key i = py_strip key \<and> inc_active i) (incidents db)")
  case None
  then obtain et' crd dk ic co x n where
    "db' = enqueue_notification et' sv au crd dk ic co (db\<lparr>incidents := x, next_uuid := n\<rparr>)"
    using assms by (auto simp: notify_recurring_incident_in_transaction_def Let_def split: if_splits)
  then show ?thesis
    using told_enqueue [of "db\<lparr>incidents := x, next_uuid := n\<rparr>"] by simp
next
  case (Some i)
  then obtain et' crd dk ic co x where
    "db' = enqueue_notification et' sv au crd dk ic co (db\<lparr>incidents := x\<rparr>)"
    using assms by (auto simp: notify_recurring_incident_in_transaction_def Let_def split: if_splits)
  then show ?thesis
    using told_enqueue [of "db\<lparr>incidents := x\<rparr>"] by simp
qed

lemma told_session:
  "project_meta_token_incident_in_transaction c tt r db = Inr db' \<Longrightarrow> told db \<subseteq> told db'"
  "project_facebook_login_incident_in_transaction c tt pl r db = Inr db' \<Longrightarrow> told db \<subseteq> told db'"
   apply (auto simp: project_meta_token_incident_in_transaction_def split: if_splits dest: told_notify) [1]
  apply (auto simp: project_facebook_login_incident_in_transaction_def Let_def err_simps
      notify_login_required_incident_in_transaction_def split: if_splits dest: told_notify) [1]
  done

lemma project_failed_told:
  assumes "project_failed c passed t db = Inr db'" "is_money_changing_task (t_type t) (t_payload t)"
  shows "TaskEvent (t_id t) (phase_name (if is_unknown (obj_or_empty (t_result t)) then PhUnknown else PhFailed))
    \<in> told db'"
proof -
  let ?res = "obj_or_empty (t_result t)"
  let ?ph = "if is_unknown ?res then PhUnknown else PhFailed"
  obtain db1 db2 db3 where
    "transition_terminal_task c (t_id t) (Some (t_correlation_id t)) ?ph (t_payload t) passed
       (t_requested_by t) (t_type t) db1 = Inr db2"
    and rest: "project_meta_token_incident_in_transaction c (t_type t) ?res db2 = Inr db3"
      "project_facebook_login_incident_in_transaction c (t_type t) (t_payload t) ?res db3 = Inr db'"
    using assms(1) by (auto simp: project_failed_def then_ops_def Let_def ebind_eq_Inr simp del: obj_or_empty_simps)
  then have "TaskEvent (t_id t) (phase_name ?ph) \<in> told db2"
    using transition_terminal_task_money_card [of c "t_id t" "Some (t_correlation_id t)" ?ph] assms(2)
    by (simp add: told_def del: set_map split: if_split)
  then show ?thesis
    using told_session(1) [OF rest(1)] told_session(2) [OF rest(2)] by blast
qed

lemma fenced_applied:
  assumes "fenced c i ow k P f cont miss db = Inr (db', r)" "r \<noteq> miss"
  obtains t where "t \<in> set (tasks db)" "fence_live c i ow k t" "P t"
    "cont (f t) (fst (update_tasks (\<lambda>t. fence_live c i ow k t \<and> P t) f db)) = Inr (db', r)"
proof -
  let ?Q = "\<lambda>t. fence_live c i ow k t \<and> P t"
  show ?thesis
  proof (cases "filter ?Q (tasks db)")
    case Nil
    then show ?thesis
      using assms by (auto simp: fenced_def update_tasks_def split: if_splits)
  next
    case (Cons t ts)
    then have "cont (f t) (fst (update_tasks ?Q f db)) = Inr (db', r)"
      using assms by (auto simp: fenced_def update_tasks_def split: if_splits)
    moreover have "t \<in> set (filter ?Q (tasks db))"
      using Cons by simp
    ultimately show ?thesis
      using that by auto
  qed
qed

lemma commit_Inr: "commit proj v db = Inr (db', r) \<longleftrightarrow> r = v \<and> (\<exists>x. proj (ops db) = Inr x \<and> db' = db\<lparr>ops := x\<rparr>)"
  by (auto simp: commit_def err_simps)

text \<open>
  C8. A failed money command is never silent: when \<open>mark_failed\<close> closes a task that pauses or
  activates advertisements, the notification outbox holds the card of that task, as unknown or
  as failed according to the stored result, whether or not an incident is correlated.
\<close>

theorem failed_money_task_is_announced:
  assumes "mark_failed c i err res ow k eff db = Inr (db', True)" "queue_inv db"
    and "t \<in> set (tasks db)" "t_id t = i" "is_money_changing_task (t_type t) (t_payload t)"
  shows "TaskEvent i (if is_unknown (obj_or_empty (case res of None \<Rightarrow> t_result t | Some r \<Rightarrow> Some r))
      then ''unknown'' else ''failed'') \<in> told (ops db')"
proof -
  let ?f = "\<lambda>t. t\<lparr>t_status := Failed, t_last_error := Some (clip err),
              t_result := (case res of None \<Rightarrow> t_result t | Some r \<Rightarrow> Some r),
              t_completed_at := Some (tx_now c), t_updated_at := tx_now c\<rparr>"
  obtain u where u: "u \<in> set (tasks db)" "fence_live c i ow k u"
    and cont: "ebind (run_effect eff (fst (update_tasks (\<lambda>t. fence_live c i ow k t \<and> True) ?f db)))
      (commit (project_failed c None (?f u)) True) = Inr (db', True)"
    using fenced_applied [OF assms(1) [unfolded mark_failed_def]] by auto
  have "u = t"
    using row_unique [OF assms(2) u(1) assms(3)] u(2) assms(4) by (simp add: fence_live_def)
  moreover obtain x where "project_failed c None (?f u) x = Inr (ops db')"
    using cont by (auto simp: ebind_eq_Inr commit_Inr)
  ultimately show ?thesis
    using project_failed_told [of c None "?f t" x "ops db'"] assms(4,5) by auto
qed

definition q_failed_ops :: ops_db where
  "q_failed_ops = q_ops\<lparr>outbox := [\<lparr>ev_type = ''action_failed'', ev_severity = ''critical'', ev_audience = ''owners'',
     ev_card = [''auto_stop'', ''42'', ''1'', ''pause_ad'', ''42'', ''failed''],
     ev_dedupe = TaskEvent 1 ''failed'', ev_incident = None, ev_corr = 7\<rparr>]\<rparr>"

definition q_failed :: task where
  "q_failed = q_running\<lparr>t_status := Failed, t_last_error := Some ''gone'', t_completed_at := Some (secs 20),
     t_updated_at := secs 20\<rparr>"

lemma q_one: "string_of_int 1 = ''1''"
  by code_simp

lemma q_mark_failed:
  "mark_failed (q_clock 20) 1 ''gone'' None (Some 77) (Some 1) None (q_db [q_running]) =
     Inr ((q_db [q_failed])\<lparr>ops := q_failed_ops\<rparr>, True)"
  by (simp add: mark_failed_def fenced_def has_valid_fence_def update_tasks_def fence_live_def run_effect_def
      commit_def on_ops_def project_failed_def then_ops_def project_duplicate_terminal_incident_def
      transition_terminal_task_def transition_correlated_incident_def phase_projection_def
      terminalize_campaign_run_def enqueue_standalone_campaign_unknown_def
      enqueue_standalone_money_failure_def is_money_changing_task_def mutation_kind_def
      is_money_stop_payload_def ad_name_by_fb_ad_id_def enqueue_notification_def
      project_meta_token_incident_in_transaction_def project_facebook_login_incident_in_transaction_def
      is_unknown_def str_or_empty_def py_str_def py_strip_def clip_def q_one
      q_failed_ops_def q_failed_def q_defs Let_def)

theorem failed_money_task_is_announced_witness:
  "TaskEvent 1 ''failed'' \<in> told (ops ((q_db [q_failed])\<lparr>ops := q_failed_ops\<rparr>))"
proof -
  have "q_running \<in> set (tasks (q_db [q_running]))" "t_id q_running = 1"
    "is_money_changing_task (t_type q_running) (t_payload q_running)" "\<not> is_unknown (obj_or_empty (t_result q_running))"
    by (simp_all add: q_defs is_money_changing_task_def mutation_kind_def str_or_empty_def py_str_def is_unknown_def)
  then show ?thesis
    using failed_money_task_is_announced [OF q_mark_failed q_inv(2)] by fastforce
qed

section \<open>Retries\<close>

text \<open>
  C9. Retries are bounded: \<open>requeue_for_retry\<close> puts the task back only while attempts are
  left, with one attempt more, between one and five minutes from now and, outside the money
  lane, with a new queue limit; when the last attempt is used the task of the caller fails
  with the outcome REJECTED instead.
\<close>

theorem retry_is_bounded:
  assumes "requeue_for_retry c i err a m l ow k db = Inr (db', r)" "queue_inv db" "0 \<le> a"
    and "t \<in> set (tasks db)" "fence_live c i ow k t" "has_valid_fence ow k"
  shows "\<exists>t' \<in> set (tasks db'). t_id t' = i \<and> t_lease_owner t' = (if r then None else t_lease_owner t) \<and>
    (if a + 1 < m
     then r \<and> t_status t' = Retrying \<and> t_attempt_count t' = a + 1 \<and>
          py_now c + secs 60 \<le> t_available_at t' \<and> t_available_at t' \<le> py_now c + secs 300 \<and>
          t_deadline_at t' = (if l = LMoney then None else Some (t_available_at t' + secs (queue_wait_seconds l)))
     else \<not> r \<and> t_status t' = Failed \<and> outcome t' = JStr ''REJECTED'')"
proof (cases "a + 1 < m")
  case True
  let ?at = "calc_retry_available_at (py_now c) (a + 1)"
  let ?f = "\<lambda>t. t\<lparr>t_status := Retrying, t_attempt_count := a + 1, t_available_at := ?at,
          t_deadline_at := retry_deadline l ?at, t_last_error := Some (clip err),
          t_lease_owner := None, t_lease_expires_at := None, t_updated_at := tx_now c\<rparr>"
  have "fenced c i ow k (\<lambda>t. True) ?f (\<lambda>t db1. Inr (db1, True)) False db = Inr (db', r)"
    using assms(1,6) True by (simp add: requeue_for_retry_def Let_def)
  moreover have "filter (fence_live c i ow k) (tasks db) \<noteq> []"
    using assms(4,5) by (auto simp: filter_empty_conv)
  ultimately have "r" "tasks db' = map (\<lambda>t. if fence_live c i ow k t then ?f t else t) (tasks db)"
    using assms(6) by (auto simp: fenced_def update_tasks_def neq_Nil_conv split: list.splits)
  then have "r" "?f t \<in> set (tasks db')"
    using assms(4,5) by (auto simp: image_iff intro!: bexI [of _ t])
  moreover have "t_id t = i"
    using assms(5) by (simp add: fence_live_def)
  moreover have "secs 60 \<le> secs (retry_delay_seconds (a + 1))" "secs (retry_delay_seconds (a + 1)) \<le> secs 300"
  proof -
    have "(2::int) ^ 1 \<le> 2 ^ nat (a + 1)"
      using assms(3) by (intro power_increasing) auto
    then show "secs 60 \<le> secs (retry_delay_seconds (a + 1))" "secs (retry_delay_seconds (a + 1)) \<le> secs 300"
      by (simp_all add: secs_def retry_delay_seconds_def RETRY_BASE_SECONDS_def RETRY_MAX_SECONDS_def)
  qed
  ultimately show ?thesis
    using True by (intro bexI [of _ "?f t"]) (simp_all add: calc_retry_available_at_def retry_deadline_def)
next
  case False
  then obtain b where run: "mark_failed c i err (Some [(''outcome'', JStr ''REJECTED'')]) ow k None db = Inr (db', b)"
    and r: "\<not> r"
    using assms(1,6) by (auto simp: requeue_for_retry_def Let_def ebind_eq_Inr)
  let ?f = "\<lambda>t. t\<lparr>t_status := Failed, t_last_error := Some (clip err),
      t_result := Some [(''outcome'', JStr ''REJECTED'')],
      t_completed_at := Some (tx_now c), t_updated_at := tx_now c\<rparr>"
  have ne: "filter (fence_live c i ow k) (tasks db) \<noteq> []"
    using assms(4,5) by (auto simp: filter_empty_conv)
  have "tasks db' = map (\<lambda>t. if fence_live c i ow k t then ?f t else t) (tasks db)"
    using run ne assms(6)
    by (auto simp: mark_failed_def fenced_def update_tasks_def neq_Nil_conv run_effect_def commit_Inr
        split: list.splits)
  then have "?f t \<in> set (tasks db')"
    using assms(4,5) by (auto simp: image_iff intro!: bexI [of _ t])
  moreover have "t_id t = i"
    using assms(5) by (simp add: fence_live_def)
  ultimately show ?thesis
    using False r by (intro bexI [of _ "?f t"]) (simp_all add: outcome_def)
qed

theorem retry_is_bounded_witness:
  "\<exists>t' \<in> set (tasks (q_db [q_retrying])). t_status t' = Retrying \<and> t_attempt_count t' = 1 \<and>
     secs 80 \<le> t_available_at t' \<and> t_available_at t' \<le> secs 320"
proof -
  have "q_running \<in> set (tasks (q_db [q_running]))" "has_valid_fence (Some 77) (Some (1::int))" "(0::int) \<le> 0"
    by (simp_all add: q_defs has_valid_fence_def)
  from retry_is_bounded [OF q_requeue q_inv(2) this(3) this(1) q_running_live this(2)] show ?thesis
    by (auto simp: q_clock_def secs_def)
qed

section \<open>Consistency of the operator tables\<close>

lemma commit_ok:
  assumes "commit proj v db = Inr (db', r)" "ops_ok (ops db)"
    and "\<And>x y. proj x = Inr y \<Longrightarrow> ops_ok x \<Longrightarrow> ops_ok y"
  shows "ops_ok (ops db')"
  using assms by (auto simp: commit_Inr)

lemma update_commit_ok:
  assumes "(case update_tasks P f db of (db1, rs) \<Rightarrow> commit (proj rs) (v rs) db1) = Inr (db', r)"
    and "ops_ok (ops db)" "\<And>rs x y. proj rs x = Inr y \<Longrightarrow> ops_ok x \<Longrightarrow> ops_ok y"
  shows "ops_ok (ops db')"
proof -
  let ?u = "update_tasks P f db"
  have "commit (proj (snd ?u)) (v (snd ?u)) (fst ?u) = Inr (db', r)"
    using assms(1) by (simp add: case_prod_unfold)
  then show ?thesis
    by (rule commit_ok) (use assms(2,3) in simp_all)
qed

lemma project_duplicates_ok:
  "project_duplicates c st ts db = Inr db' \<Longrightarrow> ops_ok db \<Longrightarrow> ops_ok db'"
  by (induction ts arbitrary: db) (auto simp: err_simps intro: duplicate_projection_ok)

lemma expire_where_ok:
  assumes "expire_where c scope db = Inr (db', r)" "ops_ok (ops db)"
  shows "ops_ok (ops db')"
proof (rule update_commit_ok)
  show "(case update_tasks (\<lambda>t. overdue c t \<and> scope t) (expire_row c) db of (db1, rs) \<Rightarrow>
      commit (transition_returned_terminal_tasks c None rs) (int (length rs)) db1) = Inr (db', r)"
    using assms by (simp add: expire_where_def commit_def case_prod_unfold)
qed (use assms(2) transition_returned_terminal_tasks_ok in auto)

lemma claim_first_ok:
  assumes "claim_first c locked gate tt lanes w n db = Inr (db', r)" "ops_ok (ops db)"
  shows "ops_ok (ops db')"
  using assms expire_where_ok transition_correlated_incident_ok
  by (auto simp: claim_first_def expire_overdue_claimable_tasks_def Let_def ebind_eq_Inr split: option.splits)

lemma review_ok:
  assumes "record_manual_reconciliation c i ob rv db = Inr (db', r)" "ops_ok (ops db)"
  shows "ops_ok (ops db')"
  using assms
  by (auto simp: record_manual_reconciliation_def Let_def split: if_splits option.splits)

text \<open>
  C10. The operator tables stay consistent under every claim, expiry, reconciliation,
  cancellation and review: one active generation per incident key, no generation twice, unique
  incident ids and no notification twice under one dedupe key.
\<close>

theorem incident_tables_consistent:
  assumes "system_step c db db'" "ops_ok (ops db)"
  shows "ops_ok (ops db')"
  using assms
proof (induction rule: system_step.induct)
  case (1 c locked tn ls w n db db' cl)
  then show ?case
    using claim_first_ok by (elim claim_next_first) blast
next
  case (2 c locked tn lns w n db db' cl)
  then show ?case
    using claim_first_ok by (elim claim_browser_ready_first) blast
next
  case (3 c db db' m)
  then show ?case
    unfolding expire_overdue_tasks_def by (rule expire_where_ok)
next
  case (4 c sec db db' m)
  then show ?case
    unfolding prepare_stuck_duplicate_recovery_def by (rule update_commit_ok) (rule project_duplicates_ok)
next
  case (5 c sec db db' m)
  then show ?case
    unfolding fail_stuck_duplicate_without_checkpoint_def by (rule update_commit_ok) (rule project_duplicates_ok)
next
  case (6 c sec db db' m)
  then show ?case
    unfolding fail_stuck_campaign_create_def
    by (rule update_commit_ok) (rule transition_returned_terminal_tasks_ok)
next
  case (7 c sec kinds db db' m)
  then show ?case
    unfolding reconcile_stuck_running_def
    by (rule update_commit_ok) (rule transition_returned_terminal_tasks_ok)
next
  case (8 c i reason db db' b)
  then show ?case
    unfolding request_task_cancel_def
    by (rule update_commit_ok) (rule transition_returned_terminal_tasks_ok)
next
  case (9 c i observation reviewer db db' mr)
  then show ?case
    by (rule review_ok)
qed

theorem incident_tables_consistent_witness: "ops_ok (ops (q_db [cancel_row (q_clock 20) ''stop'' q_running]))"
proof (rule incident_tables_consistent)
  show "system_step (q_clock 20) (q_db [q_running]) (q_db [cancel_row (q_clock 20) ''stop'' q_running])"
    using q_cancel_running by (rule system_step.intros)
  show "ops_ok (ops (q_db [q_running]))"
    by (simp add: ops_ok_def uq_active_key_def q_defs)
qed

section \<open>Manual review\<close>

lemma task_by_id_present:
  assumes "queue_inv db" "t \<in> set (tasks db)" "t_id t = i"
  shows "task_by_id i db = Some t"
proof (cases "task_by_id i db")
  case None
  then show ?thesis
    using assms by (auto simp: task_by_id_def find_None_iff)
next
  case (Some u)
  then have "u \<in> set (tasks db)" "t_id u = i"
    by (auto simp: task_by_id_def find_Some_iff)
  then show ?thesis
    using Some row_unique [OF assms(1,2)] assms(3) by simp
qed

text \<open>
  A manual review is a separate axis: it is recorded only for a closed task whose outcome
  is UNKNOWN, never changes the status or the result, names its reviewer, and repeating the
  same observation changes nothing and keeps the first reviewer.
\<close>

theorem manual_review_is_separate:
  assumes "record_manual_reconciliation c i ob rv db = Inr (db', m)" "queue_inv db"
    and "record_manual_reconciliation c' i ob rv' db' = Inr (db'', m')"
  shows "(\<exists>t t'. t \<in> set (tasks db) \<and> t' \<in> set (tasks db') \<and> t_id t = i \<and> terminal (t_status t) \<and>
            py_upper (str_or_empty (outcome t)) = ''UNKNOWN'' \<and> frozen t t' \<and>
            t_review_observation t' = Some ob) \<and>
         db'' = db' \<and> \<not> mr_was_changed m' \<and> mr_question_closed m = manual_review_closes_question ob"
proof -
  let ?f = "\<lambda>u. u\<lparr>t_review_observation := Some ob, t_review_at := Some (tx_now c),
      t_review_by := Some (py_strip rv), t_updated_at := tx_now c\<rparr>"
  obtain t where t: "task_by_id i db = Some t" "t_status t \<notin> {Pending, Retrying, Running}"
    "py_upper (str_or_empty (jget (obj_or_empty (t_result t)) ''outcome'')) = ''UNKNOWN''"
    using assms(1) by (auto simp: record_manual_reconciliation_def Let_def split: if_splits option.splits)
  then have row: "t \<in> set (tasks db)" "t_id t = i"
    by (auto simp: task_by_id_def find_Some_iff)
  have closed_task: "terminal (t_status t)"
    using t(2) by (cases "t_status t") (auto simp: terminal_def)
  have closed: "mr_question_closed m = manual_review_closes_question ob"
    using assms(1) t by (auto simp: record_manual_reconciliation_def Let_def split: if_splits)
  define t' where "t' = (if t_review_observation t = Some ob then t else ?f t)"
  have "t' \<in> set (tasks db')"
  proof (cases "t_review_observation t = Some ob")
    case True
    then have "db' = db"
      using assms(1) t by (auto simp: record_manual_reconciliation_def Let_def split: if_splits)
    then show ?thesis
      using True row(1) by (simp add: t'_def)
  next
    case False
    then have "tasks db' = map (\<lambda>u. if t_id u = i then ?f u else u) (tasks db)"
      using assms(1) t by (auto simp: record_manual_reconciliation_def Let_def update_tasks_def split: if_splits)
    then show ?thesis
      using False row by (auto simp: t'_def image_iff intro!: bexI [of _ t])
  qed
  moreover have "t_review_observation t' = Some ob" "frozen t t'"
    by (simp_all add: t'_def frozen_def)
  moreover have "t_id t' = i"
    using row(2) by (simp add: t'_def)
  moreover have "queue_inv db'"
    using assms(1,2) by (rule review.keeps_inv)
  ultimately have "task_by_id i db' = Some t'"
    by (intro task_by_id_present)
  then have "db'' = db' \<and> \<not> mr_was_changed m'"
    using assms(3) \<open>t_review_observation t' = Some ob\<close>
    by (auto simp: record_manual_reconciliation_def Let_def split: if_splits)
  then show ?thesis
    using row closed_task t(3) \<open>t' \<in> set (tasks db')\<close> \<open>frozen t t'\<close> \<open>t_review_observation t' = Some ob\<close> closed
    unfolding outcome_def by blast
qed

definition q_unknown :: task where
  "q_unknown = q_running\<lparr>t_status := Failed, t_result := Some [(''outcome'', JStr ''UNKNOWN'')]\<rparr>"

definition q_reviewed :: qdb where
  "q_reviewed = (q_db [q_unknown\<lparr>t_review_observation := Some ''stopped'', t_review_at := Some (secs 30),
      t_review_by := Some ''ann'', t_updated_at := secs 30\<rparr>])\<lparr>ops := q_ops\<lparr>outbox :=
     [\<lparr>ev_type = ''task_manual_review'', ev_severity = ''ok'', ev_audience = ''all'',
       ev_card = [''manual_review'', ''1'', ''ann'', ''stopped''],
       ev_dedupe = TaskEvent 1 ''manual-review:stopped'', ev_incident = None, ev_corr = 7\<rparr>]\<rparr>\<rparr>"

lemmas review_eval = record_manual_reconciliation_def MANUAL_REVIEW_OBSERVATIONS_def
  manual_review_closes_question_def MANUAL_REVIEW_CLOSING_OBSERVATIONS_def task_by_id_def
  str_or_empty_def py_str_def py_upper_def upper_char_def py_strip_def py_space_def
  update_tasks_def enqueue_notification_def q_unknown_def q_reviewed_def q_one

lemma q_review:
  "record_manual_reconciliation (q_clock 30) 1 ''stopped'' ''ann'' (q_db [q_unknown]) =
     Inr (q_reviewed, \<lparr>mr_task_id = 1, mr_observation = ''stopped'', mr_reviewed_at = Some (secs 30),
       mr_reviewed_by = ''ann'', mr_question_closed = True, mr_was_changed = True, mr_correlation_id = 7\<rparr>)"
  by (simp add: review_eval q_defs Let_def)

lemma q_review_again:
  "record_manual_reconciliation (q_clock 40) 1 ''stopped'' ''bob'' q_reviewed =
     Inr (q_reviewed, \<lparr>mr_task_id = 1, mr_observation = ''stopped'', mr_reviewed_at = Some (secs 30),
       mr_reviewed_by = ''ann'', mr_question_closed = True, mr_was_changed = False, mr_correlation_id = 7\<rparr>)"
  by (simp add: review_eval q_defs Let_def)

theorem manual_review_is_separate_witness:
  "\<exists>t t'. t \<in> set (tasks (q_db [q_unknown])) \<and> t' \<in> set (tasks q_reviewed) \<and> t_id t = 1 \<and> frozen t t' \<and>
     t_review_observation t' = Some ''stopped''"
proof -
  have "queue_inv (q_db [q_unknown])"
    by (simp add: queue_inv_def q_unknown_def q_defs)
  from manual_review_is_separate [OF q_review this q_review_again] show ?thesis
    by blast
qed

end
