(* ===== verification/TaskGaps.thy ===== *)
theory TaskGaps
  imports TaskOutcomes
begin

text \<open>
  Where the queue does less than its comments promise: an unknown outcome that a cancellation
  turns into a rejection, a readiness gate that the diagnosis does not explain, a review event
  that is lost, and a campaign card without the created objects. Each gap is a theorem about
  the modelled code; the positive part of the diagnosis is proved beside it.
\<close>

section \<open>Cancelling after a rejected readiness\<close>

text \<open>An automatic stop whose write may have reached Meta, claimed again to verify it.\<close>

definition q_ambiguous :: task where
  "q_ambiguous = q_running\<lparr>t_external_started_at := Some (secs 5), t_attempt_count := 1,
     t_result := Some [(''outcome'', JStr ''UNKNOWN''), (''reconcile_required'', JBool True)]\<rparr>"

lemma q_ambiguous_fields:
  "t_id q_ambiguous = 1" "t_status q_ambiguous = Running" "t_lease_owner q_ambiguous = Some 77"
  "t_lease_token q_ambiguous = 1" "t_lease_expires_at q_ambiguous = Some (secs 100)"
  "queue_wait_seconds (t_lane q_ambiguous) = 120" "clk (q_clock 20) = secs 20" "secs 20 < secs 100"
  by (simp_all add: q_ambiguous_def q_defs)

lemma q_ambiguous_payload: "jget (t_payload q_ambiguous) ''run_id'' = JNull"
  by (simp add: q_ambiguous_def q_defs)

lemma q_db_fields:
  "tasks (q_db ts) = ts" "(q_db ts)\<lparr>tasks := us\<rparr> = q_db us" "db\<lparr>ops := ops db\<rparr> = db"
  "incidents (ops (q_db ts)) = []"
  by (simp_all add: q_db_def q_empty_def q_ops_def)

text \<open>
  An unknown outcome can be lost, on one concrete history: the verification claim of an ambiguous stop
  is released after a readiness rejection (which clears the external-call boundary but keeps the
  reconciliation requirement), then a cancellation request closes the task as REJECTED with the
  reason that no external call was made.
\<close>

theorem cancel_erases_unknown_outcome:
  "\<exists>db1 db2.
     release_after_browser_readiness_rejection (q_clock 20) q_ambiguous (Some 3) ''stale'' (Some ''42'') None
       (q_db [q_ambiguous]) = Inr (db1, Some Retrying) \<and>
     map ambiguous (tasks db1) = [True] \<and> map outcome (tasks db1) = [JStr ''UNKNOWN''] \<and>
     request_task_cancel (q_clock 30) 1 ''operator'' db1 = Inr (db2, True) \<and>
     map t_status (tasks db2) = [Cancelled] \<and> map outcome (tasks db2) = [JStr ''REJECTED''] \<and>
     map (\<lambda>t. jget (obj_or_empty (t_result t)) ''reason'') (tasks db2) =
       [JStr ''cancel_requested_before_external_call'']"
proof -
  let ?r = "readiness_rejected_row (q_clock 20) ''stale'' 120 q_ambiguous"
  let ?x = "cancel_row (q_clock 30) ''operator'' ?r"
  have row: "?r = q_ambiguous\<lparr>t_status := Retrying, t_attempt_count := 2, t_available_at := secs 20,
      t_deadline_at := None, t_completed_at := None, t_external_started_at := None, t_last_error := Some ''stale'',
      t_result := Some [(''outcome'', JStr ''UNKNOWN''), (''reconcile_required'', JBool True)],
      t_lease_owner := None, t_lease_expires_at := None, t_updated_at := secs 20\<rparr>"
    by (simp add: readiness_rejected_row_def reconcile_flag_def jdel_def clip_def q_ambiguous_def q_defs Let_def)
  have r_status: "t_status ?r = Retrying"
    by (simp add: row)
  have release: "release_after_browser_readiness_rejection (q_clock 20) q_ambiguous (Some 3) ''stale'' (Some ''42'') None
      (q_db [q_ambiguous]) = Inr (q_db [?r], Some Retrying)"
    by (simp add: release_after_browser_readiness_rejection_def fenced_def has_valid_fence_def
        update_tasks_def fence_live_def run_effect_def commit_def on_ops_def py_strip_def py_space_def
        q_ambiguous_fields q_db_fields r_status)
  have r_id: "t_id ?r = 1"
    by (simp add: row q_ambiguous_fields)
  have x: "t_status ?x = Cancelled" "t_id ?x = 1" "t_payload ?x = t_payload q_ambiguous"
    by (simp_all add: row cancel_row_def claimable_def q_ambiguous_fields Let_def)
  have cancel: "request_task_cancel (q_clock 30) 1 ''operator'' (q_db [?r]) = Inr (q_db [?x], True)"
    by (simp add: request_task_cancel_def update_tasks_def commit_def on_ops_def terminal_def
        transition_terminal_task_def transition_correlated_incident_def phase_projection_def
        terminalize_campaign_run_def returned_phase_def str_or_empty_def py_strip_def
        q_db_fields q_ambiguous_payload r_status r_id x)
  have before: "map ambiguous (tasks (q_db [?r])) = [True]" "map outcome (tasks (q_db [?r])) = [JStr ''UNKNOWN'']"
    by (simp_all add: row ambiguous_def reconcile_flag_def outcome_def q_db_def)
  have after: "map t_status (tasks (q_db [?x])) = [Cancelled]" "map outcome (tasks (q_db [?x])) = [JStr ''REJECTED'']"
    "map (\<lambda>t. jget (obj_or_empty (t_result t)) ''reason'') (tasks (q_db [?x])) =
       [JStr ''cancel_requested_before_external_call'']"
    by (simp_all add: row cancel_row_def claimable_def outcome_def jget_jmerge q_db_def Let_def)
  show ?thesis
    by (rule exI [of _ "q_db [?r]"], rule exI [of _ "q_db [?x]"]) (intro conjI release before cancel after)
qed

section \<open>The diagnosis of a closed gate\<close>

text \<open>
  The diagnosis explains every closed gate whose readiness row was written for the current
  configuration: when a task waits, the gate is closed, and the row of this configuration
  (if there is one) carries its update time and expected profile, a reason is named; and when
  the gate is open no reason is named.
\<close>

theorem claim_block_explained:
  assumes "vision db = Some v" "lanes \<noteq> []"
    and "\<exists>t. t \<in> set (tasks db) \<and> t_type t = tt \<and> claimable (t_status t) \<and> t_lane t \<in> set lanes \<and> t_available_at t \<le> clk c"
    and "case readiness db of None \<Rightarrow> True
         | Some r \<Rightarrow> rd_config_updated_at r = vc_updated_at v \<and> rd_expected_profile r = vc_profile_id v \<and>
                    vc_profile_id v \<noteq> []"
  shows "explain_browser_claim_block c tt lanes db = None \<longleftrightarrow> readiness_evidence c db \<noteq> None"
proof -
  let ?queued = "filter (\<lambda>t. t_type t = tt \<and> claimable (t_status t) \<and> t_lane t \<in> set lanes) (tasks db)"
  have "filter (\<lambda>t. t_available_at t \<le> clk c) ?queued \<noteq> []"
    using assms(3) by (auto simp: filter_empty_conv)
  then have "int (length (filter (\<lambda>t. t_available_at t \<le> clk c) ?queued)) \<noteq> 0"
    by simp
  then have "explain_browser_claim_block c tt lanes db = None \<longleftrightarrow> readiness_verdict c db v = None"
    using assms(1,2) by (simp add: explain_browser_claim_block_def Let_def del: of_nat_eq_0_iff length_0_conv)
  also have "\<dots> \<longleftrightarrow> readiness_evidence c db \<noteq> None"
  proof (cases "readiness db")
    case None
    then show ?thesis
      using assms(1) by (simp add: readiness_verdict_def readiness_evidence_def)
  next
    case (Some r)
    then show ?thesis
      using assms(1,4)
      by (auto simp: readiness_verdict_def readiness_evidence_def coalesce_def or_empty_def split: option.splits if_splits)
  qed
  finally show ?thesis .
qed

theorem claim_block_explained_witness:
  "explain_browser_claim_block (q_clock 2000) MetaApiMutation [LMoney] (q_db [q_stop]) \<noteq> None \<and>
   explain_browser_claim_block (q_clock 10) MetaApiMutation [LMoney] (q_db [q_stop]) = None"
proof -
  have wait: "\<exists>t. t \<in> set (tasks (q_db [q_stop])) \<and> t_type t = MetaApiMutation \<and> claimable (t_status t) \<and>
      t_lane t \<in> set [LMoney] \<and> t_available_at t \<le> clk (q_clock n)" if "0 \<le> n" for n
    using that by (simp add: q_defs claimable_def)
  let ?v = "\<lparr>vc_id = 1, vc_profile_id = ''p'', vc_updated_at = 0\<rparr>"
  have cfg: "vision (q_db [q_stop]) = Some ?v" "[LMoney] \<noteq> []"
    "case readiness (q_db [q_stop]) of None \<Rightarrow> True
         | Some r \<Rightarrow> rd_config_updated_at r = vc_updated_at ?v \<and> rd_expected_profile r = vc_profile_id ?v \<and>
                    vc_profile_id ?v \<noteq> []"
    by (simp_all add: q_defs)
  have "readiness_evidence (q_clock 2000) (q_db [q_stop]) = None" "readiness_evidence (q_clock 10) (q_db [q_stop]) \<noteq> None"
    by (simp_all add: readiness_evidence_def maintenance_def q_defs)
  then show ?thesis
    using claim_block_explained [OF cfg(1,2) wait [of 2000] cfg(3)] claim_block_explained [OF cfg(1,2) wait [of 10] cfg(3)]
    by simp
qed

text \<open>
  The diagnosis is silent on a stale configuration: after the Vision configuration was
  saved again a waiting task cannot be claimed, because the readiness row belongs to the older
  version of the configuration, yet no reason is named.
\<close>

theorem stale_config_not_explained:
  "let db = (q_db [q_stop])\<lparr>vision := Some \<lparr>vc_id = 1, vc_profile_id = ''p'', vc_updated_at = secs 5\<rparr>\<rparr>
   in claim_candidate (q_clock 10) MetaApiMutation [LMoney] q_stop \<and>
      readiness_evidence (q_clock 10) db = None \<and>
      explain_browser_claim_block (q_clock 10) MetaApiMutation [LMoney] db = None"
  by (simp add: Let_def claim_candidate_def readiness_evidence_def explain_browser_claim_block_def
      readiness_verdict_def maintenance_def claimable_def reconcile_flag_def q_defs List.map_filter_def)

section \<open>Reviews that return to an earlier observation\<close>

text \<open>
  A review that returns to an earlier observation writes no event: after stopped, active,
  stopped the row says stopped and the third call reports a change, but the outbox is the one
  after the second call, so the last card the operators got still says the object is active.
\<close>

theorem review_return_is_silent:
  "\<exists>db2 db3 m2 m3.
     record_manual_reconciliation (q_clock 40) 1 ''active'' ''ann'' q_reviewed = Inr (db2, m2) \<and>
     record_manual_reconciliation (q_clock 50) 1 ''stopped'' ''ann'' db2 = Inr (db3, m3) \<and>
     mr_was_changed m3 \<and> map t_review_observation (tasks db3) = [Some ''stopped''] \<and>
     outbox (ops db3) = outbox (ops db2) \<and>
     ev_card (last (outbox (ops db3))) = [''manual_review'', ''1'', ''ann'', ''active'']"
  by (simp add: review_eval q_defs Let_def)

section \<open>The card of a partly created campaign\<close>

definition q_partial :: jobj where
  "q_partial = [(''outcome'', JStr ''UNKNOWN''), (''created_ids'', JObj [(''campaigns'', JArr [JStr ''5''])])]"

lemma q_numbers: "string_of_int 0 = ''0''" "string_of_int 2 = ''2''"
  by code_simp+

lemmas card_eval = fenced_def has_valid_fence_def update_tasks_def fence_live_def run_effect_def
  commit_def on_ops_def project_failed_def then_ops_def project_duplicate_terminal_incident_def
  transition_terminal_task_def transition_correlated_incident_def phase_projection_def
  terminalize_campaign_run_def uuid_of_string_def strip_chars_def
  enqueue_standalone_campaign_unknown_def enqueue_standalone_money_failure_def is_money_changing_task_def
  notify_recurring_incident_in_transaction_def max_generation_def campaign_unknown_card_def
  created_kind_count_def as_dict_def enqueue_notification_def
  project_meta_token_incident_in_transaction_def project_facebook_login_incident_in_transaction_def
  is_unknown_def str_or_empty_def py_str_def py_strip_def py_space_def clip_def
  BROWSER_OPERATION_REJECTION_TABLE_def q_one q_numbers q_partial_def q_campaign_def q_defs Let_def

text \<open>
  The card of a partly created campaign depends on the finalizer: when the outcome of a
  campaign creation is UNKNOWN and the result names a created campaign, the card written by
  \<open>mark_task_failed_or_cancelled\<close> counts it, while the card written by \<open>mark_failed\<close>, which does
  not pass the result on, says that nothing is known to be created.
\<close>

theorem mark_failed_card_omits_created:
  "\<exists>db1 db2.
     mark_failed (q_clock 20) 2 ''lost'' (Some q_partial) (Some 77) (Some 1) None (q_db [q_campaign]) = Inr (db1, True) \<and>
     mark_task_failed_or_cancelled (q_clock 20) 2 ''r1'' ''lost'' (Some q_partial) (Some 77) (Some 1)
       (q_db [q_campaign]) = Inr (db2, Some Failed) \<and>
     map t_result (tasks db1) = map t_result (tasks db2) \<and>
     map ev_card (outbox (ops db1)) = [[''nothing'', ''2'']] \<and>
     map ev_card (outbox (ops db2)) = [[''1'', ''0'', ''0'', ''0'']]"
  by (simp add: mark_failed_def mark_task_failed_or_cancelled_def card_eval)

end
