(* ===== verification/Sha256.thy ===== *)
theory Sha256
  imports Json "HOL-Library.Word"
begin

unbundle bit_operations_syntax

text \<open>
  \<open>hashlib.sha256(text.encode("utf-8")).hexdigest()\<close> of Python's standard library, which the
  idempotency keys are built from: the function of FIPS 180-4 on 32-bit words. A string is ASCII
  text, so its UTF-8 encoding is its character codes.
\<close>

type_synonym u32 = "32 word"

section \<open>Constants\<close>

text \<open>The first 32 bits of the fractional parts of the cube roots of the first 64 primes.\<close>

definition sha_k :: "u32 list" where
  "sha_k =
    [1116352408, 1899447441, 3049323471, 3921009573, 961987163, 1508970993, 2453635748, 2870763221,
     3624381080, 310598401, 607225278, 1426881987, 1925078388, 2162078206, 2614888103, 3248222580,
     3835390401, 4022224774, 264347078, 604807628, 770255983, 1249150122, 1555081692, 1996064986,
     2554220882, 2821834349, 2952996808, 3210313671, 3336571891, 3584528711, 113926993, 338241895,
     666307205, 773529912, 1294757372, 1396182291, 1695183700, 1986661051, 2177026350, 2456956037,
     2730485921, 2820302411, 3259730800, 3345764771, 3516065817, 3600352804, 4094571909, 275423344,
     430227734, 506948616, 659060556, 883997877, 958139571, 1322822218, 1537002063, 1747873779,
     1955562222, 2024104815, 2227730452, 2361852424, 2428436474, 2756734187, 3204031479, 3329325298]"

record sha_state =
  sh_a :: u32
  sh_b :: u32
  sh_c :: u32
  sh_d :: u32
  sh_e :: u32
  sh_f :: u32
  sh_g :: u32
  sh_h :: u32

definition sha_init :: sha_state where
  "sha_init = \<lparr>sh_a = 0x6a09e667, sh_b = 0xbb67ae85, sh_c = 0x3c6ef372, sh_d = 0xa54ff53a,
     sh_e = 0x510e527f, sh_f = 0x9b05688c, sh_g = 0x1f83d9ab, sh_h = 0x5be0cd19\<rparr>"

section \<open>Compression\<close>

definition sha_small :: "nat \<Rightarrow> nat \<Rightarrow> nat \<Rightarrow> u32 \<Rightarrow> u32" where
  "sha_small i j k w = word_rotr i w XOR word_rotr j w XOR drop_bit k w"

definition sha_big :: "nat \<Rightarrow> nat \<Rightarrow> nat \<Rightarrow> u32 \<Rightarrow> u32" where
  "sha_big i j k w = word_rotr i w XOR word_rotr j w XOR word_rotr k w"

text \<open>The message schedule, extended by \<open>n\<close> words.\<close>

fun sha_schedule :: "nat \<Rightarrow> u32 list \<Rightarrow> u32 list" where
  "sha_schedule 0 ws = ws"
| "sha_schedule (Suc n) ws =
     (let l = length ws
      in sha_schedule n (ws @ [sha_small 17 19 10 (ws ! (l - 2)) + ws ! (l - 7)
                               + sha_small 7 18 3 (ws ! (l - 15)) + ws ! (l - 16)]))"

definition sha_round :: "sha_state \<Rightarrow> u32 \<times> u32 \<Rightarrow> sha_state" where
  "sha_round s kw =
     (let ch = (sh_e s AND sh_f s) XOR (NOT (sh_e s) AND sh_g s);
          t1 = sh_h s + sha_big 6 11 25 (sh_e s) + ch + fst kw + snd kw;
          maj = (sh_a s AND sh_b s) XOR (sh_a s AND sh_c s) XOR (sh_b s AND sh_c s);
          t2 = sha_big 2 13 22 (sh_a s) + maj
      in \<lparr>sh_a = t1 + t2, sh_b = sh_a s, sh_c = sh_b s, sh_d = sh_c s,
          sh_e = sh_d s + t1, sh_f = sh_e s, sh_g = sh_f s, sh_h = sh_g s\<rparr>)"

definition sha_block :: "sha_state \<Rightarrow> u32 list \<Rightarrow> sha_state" where
  "sha_block s ws =
     (let r = foldl sha_round s (zip sha_k (sha_schedule 48 ws))
      in \<lparr>sh_a = sh_a s + sh_a r, sh_b = sh_b s + sh_b r, sh_c = sh_c s + sh_c r,
          sh_d = sh_d s + sh_d r, sh_e = sh_e s + sh_e r, sh_f = sh_f s + sh_f r,
          sh_g = sh_g s + sh_g r, sh_h = sh_h s + sh_h r\<rparr>)"

section \<open>Padding and the digest\<close>

fun be_bytes :: "nat \<Rightarrow> nat \<Rightarrow> nat list" where
  "be_bytes 0 n = []"
| "be_bytes (Suc k) n = be_bytes k (n div 256) @ [n mod 256]"

definition sha_pad :: "nat list \<Rightarrow> nat list" where
  "sha_pad bs =
     (let l = length bs
      in bs @ [128] @ replicate ((119 - l mod 64) mod 64) 0 @ be_bytes 8 (8 * l))"

fun be_words :: "nat list \<Rightarrow> u32 list" where
  "be_words (b0 # b1 # b2 # b3 # bs) =
     word_of_nat (((b0 * 256 + b1) * 256 + b2) * 256 + b3) # be_words bs"
| "be_words _ = []"

function sha_blocks :: "u32 list \<Rightarrow> u32 list list" where
  "sha_blocks ws = (if ws = [] then [] else take 16 ws # sha_blocks (drop 16 ws))"
  by auto
termination
  by (relation "measure length") auto

declare sha_blocks.simps [simp del]

definition hex_digits :: string where
  "hex_digits = ''0123456789abcdef''"

fun hex_of :: "nat \<Rightarrow> nat \<Rightarrow> string" where
  "hex_of 0 n = []"
| "hex_of (Suc k) n = hex_of k (n div 16) @ [hex_digits ! (n mod 16)]"

definition sha_words :: "sha_state \<Rightarrow> u32 list" where
  "sha_words s = [sh_a s, sh_b s, sh_c s, sh_d s, sh_e s, sh_f s, sh_g s, sh_h s]"

definition sha256_hexdigest :: "string \<Rightarrow> string" where
  "sha256_hexdigest s =
     concat (map (\<lambda>w. hex_of 8 (unat w))
       (sha_words (foldl sha_block sha_init (sha_blocks (be_words (sha_pad (map of_char s)))))))"

section \<open>Laws\<close>

lemma length_hex_of [simp]: "length (hex_of k n) = k"
  by (induction k arbitrary: n) auto

lemma set_hex_of: "set (hex_of k n) \<subseteq> set hex_digits"
proof (induction k arbitrary: n)
  case (Suc k)
  have "hex_digits ! (n mod 16) \<in> set hex_digits"
    by (intro nth_mem) (simp add: hex_digits_def)
  then show ?case
    using Suc.IH by simp
qed simp

lemma length_sha256_hexdigest [simp]: "length (sha256_hexdigest s) = 64"
  by (simp add: sha256_hexdigest_def sha_words_def)

lemma set_sha256_hexdigest: "set (sha256_hexdigest s) \<subseteq> set hex_digits"
  using set_hex_of by (auto simp: sha256_hexdigest_def sha_words_def)

end
