(* ===== verification/MetaCommands.thy ===== *)
theory MetaCommands
  imports EnableGrace TaskSteps Sha256 "HOL-Library.List_Lexorder" "HOL-Library.Char_ord"
begin

text \<open>
  Meta mutation commands: the payload of \<open>core/meta_api/schemas.py\<close> with its JSON form, the outbox
  helpers of \<open>core/meta_api/queue.py\<close>, and the projection of a confirmed mutation onto
  \<open>ad_alert_state\<close> (\<open>core/meta_api/fsm_sync.py\<close>), committed in the same transaction as the terminal
  state of the task (\<open>_mark_confirmed_with_grace\<close> and \<open>_mark_failed_with_fsm\<close> of
  \<open>apps/meta_api_worker/main.py\<close>).
\<close>

section \<open>Values of the standard library\<close>

text \<open>\<open>for x in v or []\<close> over a decoded JSON value.\<close>

definition json_iter :: "json \<Rightarrow> json list result" where
  "json_iter v =
     (if \<not> truthy v then Inr []
      else case v of
        JArr vs \<Rightarrow> Inr vs
      | JStr s \<Rightarrow> Inr (map (\<lambda>ch. JStr [ch]) s)
      | JObj ob \<Rightarrow> Inr (map (\<lambda>(k, _). JStr k) ob)
      | _ \<Rightarrow> Inl (TypeError ''object is not iterable''))"

text \<open>\<open>json.dumps(v, sort_keys=True)\<close>: ASCII output, control characters and DEL escaped.\<close>

definition json_char :: "char \<Rightarrow> string" where
  "json_char ch =
     (let n = of_char ch :: nat
      in if n = 34 then [CHR 0x5C, CHR 0x22] else if n = 92 then [CHR 0x5C, CHR 0x5C]
         else if n = 10 then [CHR 0x5C] @ ''n'' else if n = 13 then [CHR 0x5C] @ ''r''
         else if n = 9 then [CHR 0x5C] @ ''t'' else if n = 12 then [CHR 0x5C] @ ''f''
         else if n = 8 then [CHR 0x5C] @ ''b''
         else if n < 32 \<or> n > 126 then [CHR 0x5C] @ ''u'' @ hex_of 4 n else [ch])"

definition json_string :: "string \<Rightarrow> string" where
  "json_string s = [CHR 0x22] @ concat (map json_char s) @ [CHR 0x22]"

fun json_dumps :: "json \<Rightarrow> string" where
  "json_dumps JNull = ''null''"
| "json_dumps (JBool b) = (if b then ''true'' else ''false'')"
| "json_dumps (JNum n) = string_of_int n"
| "json_dumps (JStr s) = json_string s"
| "json_dumps (JArr vs) = ''['' @ commas (map json_dumps vs) @ '']''"
| "json_dumps (JObj ob) =
     ''{'' @ commas (map (\<lambda>(k, s). json_string k @ '': '' @ s)
       (sort_key fst (map (\<lambda>(k, v). (k, json_dumps v)) ob))) @ ''}''"

section \<open>core/meta\_api/schemas.py\<close>

definition MUTATION_KINDS :: "string list" where
  "MUTATION_KINDS = [''pause_ad'', ''activate_ad'', ''duplicate_adset_structure'', ''bulk_status_change'']"

definition IRREVERSIBLE_MUTATION_KINDS :: "string list" where
  "IRREVERSIBLE_MUTATION_KINDS = [''duplicate_adset_structure'']"

record meta_payload =
  mp_mutation_kind :: string
  mp_target_id :: string
  mp_ad_account_id :: string
  mp_params :: jobj
  mp_currency :: "string option"
  mp_cabinet_timezone :: "string option"
  mp_account_context_observed_at :: "string option"
  mp_account_context_issues :: "string list"

text \<open>The constructor with its \<open>__post_init__\<close>; the account id may be any JSON value.\<close>

definition make_payload ::
  "string \<Rightarrow> string \<Rightarrow> json \<Rightarrow> jobj \<Rightarrow> string option \<Rightarrow> string option \<Rightarrow> string option \<Rightarrow> string list \<Rightarrow>
   meta_payload result" where
  "make_payload kind target account params currency tz observed issues =
     (if kind \<notin> set MUTATION_KINDS then Inl (ValueError ''unknown mutation_kind'')
      else ebind (require_ad_account_id account) (\<lambda>a.
        Inr \<lparr>mp_mutation_kind = kind, mp_target_id = target, mp_ad_account_id = a, mp_params = params,
             mp_currency = currency, mp_cabinet_timezone = tz, mp_account_context_observed_at = observed,
             mp_account_context_issues = issues\<rparr>))"

definition opt_json :: "string option \<Rightarrow> json" where
  "opt_json v = (case v of None \<Rightarrow> JNull | Some s \<Rightarrow> JStr s)"

definition to_dict :: "meta_payload \<Rightarrow> jobj" where
  "to_dict p =
     [(''mutation_kind'', JStr (mp_mutation_kind p)), (''target_id'', JStr (mp_target_id p)),
      (''params'', JObj (mp_params p)), (''ad_account_id'', JStr (mp_ad_account_id p)),
      (''account_id'', JStr (mp_ad_account_id p)), (''currency'', opt_json (mp_currency p)),
      (''cabinet_timezone'', opt_json (mp_cabinet_timezone p)),
      (''account_context_observed_at'', opt_json (mp_account_context_observed_at p)),
      (''account_context_issues'', JArr (map JStr (mp_account_context_issues p)))]"

text \<open>\<open>str(data[k]) if data.get(k) else None\<close>\<close>

definition opt_str :: "json \<Rightarrow> string option" where
  "opt_str v = (if truthy v then Some (py_str v) else None)"

text \<open>\<open>dict(data.get("params") or {})\<close>; a truthy value that is no object is an error here.\<close>

definition params_dict :: "json \<Rightarrow> jobj result" where
  "params_dict v =
     (if \<not> truthy v then Inr []
      else case v of
        JObj ob \<Rightarrow> Inr ob
      | JStr _ \<Rightarrow> Inl (ValueError ''dictionary update sequence'')
      | JArr _ \<Rightarrow> Inl (ValueError ''dictionary update sequence'')
      | _ \<Rightarrow> Inl (TypeError ''object is not iterable''))"

definition from_dict :: "jobj \<Rightarrow> meta_payload result" where
  "from_dict d =
     (let account = (if truthy (jget d ''ad_account_id'') then jget d ''ad_account_id'' else jget d ''account_id'')
      in if account = JNull then Inl (KeyError ''ad_account_id'')
         else case map_of d ''mutation_kind'' of
           None \<Rightarrow> Inl (KeyError ''mutation_kind'')
         | Some kind \<Rightarrow>
         (case map_of d ''target_id'' of
           None \<Rightarrow> Inl (KeyError ''target_id'')
         | Some target \<Rightarrow>
           ebind (params_dict (jget d ''params'')) (\<lambda>params.
           ebind (json_iter (jget d ''account_context_issues'')) (\<lambda>issues.
             make_payload (py_str kind) (py_str target) account params (opt_str (jget d ''currency''))
               (opt_str (jget d ''cabinet_timezone'')) (opt_str (jget d ''account_context_observed_at''))
               (map py_str issues)))))"

section \<open>core/meta\_api/queue.py\<close>

definition default_idempotency_key :: "meta_payload \<Rightarrow> string \<Rightarrow> string" where
  "default_idempotency_key p requested_by =
     (let body = json_dumps (JObj [(''kind'', JStr (mp_mutation_kind p)), (''target'', JStr (mp_target_id p)),
            (''account'', JStr (mp_ad_account_id p)), (''params'', JObj (mp_params p)), (''by'', JStr requested_by)])
      in take 128 (''meta:'' @ mp_mutation_kind p @ '':'' @ mp_ad_account_id p @ '':'' @ mp_target_id p @ '':'' @
           take 16 (sha256_hexdigest body)))"

definition bulk_target_lock_keys :: "meta_payload \<Rightarrow> string list" where
  "bulk_target_lock_keys p =
     (if mp_mutation_kind p \<noteq> ''bulk_status_change'' then []
      else case jget (mp_params p) ''ad_ids'' of
        JArr vs \<Rightarrow> sort (remdups (filter (\<lambda>s. s \<noteq> []) (map (\<lambda>v. py_strip (py_str v)) vs)))
      | _ \<Rightarrow> [])"

definition mutation_create_args ::
  "meta_payload \<Rightarrow> string \<Rightarrow> string \<Rightarrow> int \<Rightarrow> int option \<Rightarrow> int option \<Rightarrow> int option \<Rightarrow> create_args" where
  "mutation_create_args p requested_by key max_attempts chat priority corr =
     \<lparr>ca_task_type = ''meta_api_mutation'', ca_idempotency_key = key, ca_payload = to_dict p,
      ca_requested_by = requested_by, ca_status = ''pending'', ca_max_attempts = max_attempts,
      ca_created_by_chat_id = chat,
      ca_target_lock_key = (if mp_mutation_kind p \<in> {''pause_ad'', ''activate_ad''}
        then Some (mp_target_id p) else None),
      ca_target_lock_keys = bulk_target_lock_keys p, ca_lane = None, ca_priority = priority,
      ca_available_at = None, ca_deadline_at = None, ca_correlation_id = corr\<rparr>"

definition create_mutation_task ::
  "clock \<Rightarrow> meta_payload \<Rightarrow> string \<Rightarrow> string \<Rightarrow> string option \<Rightarrow> int \<Rightarrow> int option \<Rightarrow> int option \<Rightarrow> int option \<Rightarrow> qdb \<Rightarrow>
   (qdb \<times> int option) result" where
  "create_mutation_task c p requested_by status idempotency_key max_attempts chat priority corr db =
     (if status \<noteq> ''pending'' then Inl (ValueError ''create_mutation_task: status is not supported'')
      else
        let key = (if or_empty idempotency_key \<noteq> [] then or_empty idempotency_key
                   else default_idempotency_key p requested_by)
        in create_task c (mutation_create_args p requested_by key max_attempts chat priority corr) db)"

definition cancel_task :: "clock \<Rightarrow> int \<Rightarrow> string \<Rightarrow> qdb \<Rightarrow> (qdb \<times> bool) result" where
  "cancel_task c task_id reason db =
     (if list_ex (\<lambda>t. t_id t = task_id \<and> t_type t = MetaApiMutation) (tasks db)
      then request_task_cancel c task_id (take 8000 (if reason = [] then ''cancelled'' else reason)) db
      else Inr (db, False))"

definition claim_browser_ready_mutation_task ::
  "clock \<Rightarrow> int list \<Rightarrow> string list \<Rightarrow> int \<Rightarrow> int \<Rightarrow> qdb \<Rightarrow> (qdb \<times> task_claim) result" where
  "claim_browser_ready_mutation_task c locked = claim_browser_ready_task c locked ''meta_api_mutation''"

definition requeue_task :: "clock \<Rightarrow> task \<Rightarrow> string \<Rightarrow> qdb \<Rightarrow> (qdb \<times> bool) result" where
  "requeue_task c task err =
     requeue_for_retry c (t_id task) err (t_attempt_count task) (t_max_attempts task) (t_lane task)
       (t_lease_owner task) (Some (t_lease_token task))"

definition requeue_task_proven_not_committed ::
  "clock \<Rightarrow> task \<Rightarrow> string \<Rightarrow> string \<Rightarrow> qdb \<Rightarrow> (qdb \<times> task_status option) result" where
  "requeue_task_proven_not_committed c task target_lock_key err =
     requeue_proven_not_committed c (t_id task) target_lock_key err (t_attempt_count task) (t_lane task)
       (t_lease_owner task) (Some (t_lease_token task))"

definition release_task_after_browser_readiness_rejection ::
  "clock \<Rightarrow> task \<Rightarrow> int option \<Rightarrow> string \<Rightarrow> string \<Rightarrow> qdb \<Rightarrow> (qdb \<times> task_status option) result" where
  "release_task_after_browser_readiness_rejection c task generation target_lock_key err =
     release_after_browser_readiness_rejection c task generation err (Some target_lock_key) None"

section \<open>core/meta\_api/fsm\_sync.py\<close>

text \<open>The rows of \<open>ad_alert_state\<close> by the Facebook id of their advertisement.\<close>

type_synonym alert_table = "string \<Rightarrow> ad_alert_row option"

definition bulk_action :: "jobj \<Rightarrow> string" where
  "bulk_action params = py_strip (py_lower (str_or_empty (jget params ''action'')))"

definition is_deactivating_bulk :: "jobj \<Rightarrow> bool" where
  "is_deactivating_bulk params \<longleftrightarrow> bulk_action params \<in> {''pause'', ''paused''}"

definition resolve_bulk_ad_toggle :: "jobj \<Rightarrow> (string list \<times> bool) result" where
  "resolve_bulk_ad_toggle params =
     ebind (json_iter (jget params ''ad_ids'')) (\<lambda>vs.
       let ids = filter (\<lambda>s. s \<noteq> []) (map (\<lambda>v. py_strip (py_str v)) vs)
       in if bulk_action params \<in> {''activate'', ''active''} then Inr (ids, True)
          else if bulk_action params \<in> {''pause'', ''paused''} then Inr (ids, False)
          else Inr ([], False))"

definition disabled_row :: "int \<Rightarrow> ad_alert_row \<Rightarrow> ad_alert_row" where
  "disabled_row now r =
     (if ar_state r \<in> {WarningSent, StopSent, Claimed}
      then r\<lparr>ar_state := Disabled, ar_last_transition_at := now\<rparr> else r)"

definition enabled_row :: "int \<Rightarrow> ad_alert_row \<Rightarrow> ad_alert_row" where
  "enabled_row now r =
     (if ar_state r = Disabled
      then r\<lparr>ar_state := Normal, ar_stage := None, ar_token := None, ar_warning_rule_codes := [],
             ar_stop_rule_codes := [], ar_snoozed_until := None, ar_last_transition_at := now\<rparr> else r)"

definition reset_disabled_in_transaction :: "int \<Rightarrow> string \<Rightarrow> alert_table \<Rightarrow> alert_table" where
  "reset_disabled_in_transaction now ad tbl = tbl(ad := map_option (disabled_row now) (tbl ad))"

definition reset_enabled_in_transaction :: "int \<Rightarrow> string \<Rightarrow> alert_table \<Rightarrow> alert_table" where
  "reset_enabled_in_transaction now ad tbl = tbl(ad := map_option (enabled_row now) (tbl ad))"

definition sync_fsm_after_mutation_in_transaction ::
  "int \<Rightarrow> meta_payload \<Rightarrow> jobj option \<Rightarrow> alert_table \<Rightarrow> alert_table result" where
  "sync_fsm_after_mutation_in_transaction now p result tbl =
     (let kind = mp_mutation_kind p
      in if kind = ''pause_ad'' then Inr (reset_disabled_in_transaction now (mp_target_id p) tbl)
         else if kind = ''activate_ad'' then Inr (reset_enabled_in_transaction now (mp_target_id p) tbl)
         else if kind \<noteq> ''bulk_status_change'' then Inr tbl
         else
           ebind (resolve_bulk_ad_toggle (mp_params p)) (\<lambda>(ad_ids, is_enable).
             if ad_ids = [] then Inr tbl
             else case jget (obj_or_empty result) ''modified_ids'' of
               JArr vs \<Rightarrow>
                 (let applied = map (\<lambda>v. py_strip (py_str v)) vs;
                      step = (if is_enable then reset_enabled_in_transaction now else reset_disabled_in_transaction now)
                  in Inr (fold step (filter (\<lambda>i. i \<in> set applied) ad_ids) tbl))
             | _ \<Rightarrow> Inl (ValueError ''bulk_status_change result contract violated: modified_ids is required'')))"

section \<open>Terminal transitions of the Meta worker\<close>

record meta_db =
  mq :: qdb
  alerts :: alert_table

text \<open>
  A queue operation whose \<open>transactional_effect\<close> writes \<open>ad_alert_state\<close>: the effect runs when the
  fenced statement matched, and an exception in it rolls back the whole transaction.
\<close>

definition with_alerts ::
  "(effect option \<Rightarrow> qdb \<Rightarrow> (qdb \<times> bool) result) \<Rightarrow> (alert_table \<Rightarrow> alert_table result) \<Rightarrow> meta_db \<Rightarrow>
   (meta_db \<times> bool) result" where
  "with_alerts queue_op eff db =
     ebind (queue_op (Some (\<lambda>q. ebind (eff (alerts db)) (\<lambda>_. Inr (ops q)))) (mq db)) (\<lambda>(q, applied).
       if applied then ebind (eff (alerts db)) (\<lambda>tbl. Inr (\<lparr>mq = q, alerts = tbl\<rparr>, True))
       else Inr (db\<lparr>mq := q\<rparr>, False))"

definition grace_effect :: "int \<Rightarrow> prepared_enable_grace option \<Rightarrow> alert_table \<Rightarrow> alert_table" where
  "grace_effect now prepared tbl =
     (case prepared of
        None \<Rightarrow> tbl
      | Some g \<Rightarrow> tbl(pg_fb_ad_id g := Some (persist_enable_grace now g (tbl (pg_fb_ad_id g)))))"

definition mark_confirmed_with_grace ::
  "clock \<Rightarrow> task \<Rightarrow> meta_payload \<Rightarrow> jobj \<Rightarrow> prepared_enable_grace option \<Rightarrow> meta_db \<Rightarrow> (meta_db \<times> bool) result" where
  "mark_confirmed_with_grace c task p result prepared =
     with_alerts (\<lambda>eff. mark_succeeded c (t_id task) (Some result) (t_lease_owner task) (Some (t_lease_token task)) eff)
       (\<lambda>tbl. sync_fsm_after_mutation_in_transaction (tx_now c) p (Some result) (grace_effect (tx_now c) prepared tbl))"

definition mark_failed_with_fsm ::
  "clock \<Rightarrow> task \<Rightarrow> meta_payload \<Rightarrow> string \<Rightarrow> jobj \<Rightarrow> meta_db \<Rightarrow> (meta_db \<times> bool) result" where
  "mark_failed_with_fsm c task p err result =
     with_alerts (\<lambda>eff. mark_failed c (t_id task) err (Some result) (t_lease_owner task) (Some (t_lease_token task)) eff)
       (sync_fsm_after_mutation_in_transaction (tx_now c) p (Some result))"

end
