(* ===== verification/ScanTasks.thy ===== *)
theory ScanTasks
  imports TaskSteps Sha256
begin

text \<open>
  The control plane of observer scans (\<open>core/observer/scan_tasks.py\<close>) and the operator's scan
  command (\<open>CommandService.enqueue_scan_retry\<close> of \<open>core/commands/service.py\<close>): publishing a scan
  task, the scheduler that keeps one outstanding scan, the barrier that holds a scan until the
  tasks it depends on are closed, and the check a running scan repeats. The advisory lock of the
  publishers orders their transactions and has no other effect.
\<close>

section \<open>Constants and keys\<close>

definition OBSERVER_SCAN_TASK_TYPE :: string where
  "OBSERVER_SCAN_TASK_TYPE = ''observer_scan''"

definition OBSERVER_SCAN_DEADLINE_SECONDS :: int where
  "OBSERVER_SCAN_DEADLINE_SECONDS = 120"

definition OBSERVER_SCAN_LEASE_SECONDS :: int where
  "OBSERVER_SCAN_LEASE_SECONDS = 150"

definition OBSERVER_SCAN_BARRIER_PARK_DAYS :: int where
  "OBSERVER_SCAN_BARRIER_PARK_DAYS = 36500"

definition observer_scan_idempotency_key :: "string \<Rightarrow> string \<Rightarrow> string result" where
  "observer_scan_idempotency_key namespace value =
     (let scope = take 32 (map (\<lambda>ch. if ch = CHR ''_'' then CHR ''-'' else ch) (py_lower (py_strip namespace)))
      in if scope = [] then Inl (ValueError ''observer scan namespace must not be empty'')
         else Inr (''observer-scan:'' @ scope @ '':'' @ take 32 (sha256_hexdigest value)))"

section \<open>Publishing a scan\<close>

record scan_request =
  sr_requested_by :: string
  sr_reason :: string
  sr_idempotency_key :: string
  sr_available_at :: "int option"
  sr_dependency_task_ids :: "int list"
  sr_lane :: string
  sr_priority :: int

record scan_receipt =
  rc_task_id :: int
  rc_created :: bool
  rc_correlation_id :: int

definition scan_dependencies :: "scan_request \<Rightarrow> int list" where
  "scan_dependencies r = sort (remdups (sr_dependency_task_ids r))"

definition scan_payload :: "string \<Rightarrow> int list \<Rightarrow> jobj" where
  "scan_payload reason dependencies =
     (''reason'', JStr reason) #
     (if dependencies = [] then [] else
       [(''dependency_task_ids'', JArr (map JNum dependencies)), (''dependency_state'', JStr ''waiting'')])"

text \<open>\<open>int(v)\<close> of a stored value; None stands for its TypeError or ValueError.\<close>

definition py_int :: "json \<Rightarrow> int option" where
  "py_int v =
     (case v of
        JBool b \<Rightarrow> Some (if b then 1 else 0)
      | JNum n \<Rightarrow> Some n
      | JStr s \<Rightarrow> parse_exponent (py_strip s)
      | _ \<Rightarrow> None)"

text \<open>The receipt of the scan that already holds the key, when it means the same.\<close>

definition load_existing_scan :: "scan_request \<Rightarrow> string \<Rightarrow> qdb \<Rightarrow> scan_receipt result" where
  "load_existing_scan r reason_value db =
     (case find (\<lambda>t. t_idempotency_key t = sr_idempotency_key r) (tasks db) of
        None \<Rightarrow> Inl (RuntimeError ''observer scan idempotency row disappeared'')
      | Some t \<Rightarrow>
        if t_type t \<noteq> ObserverScan
        then Inl (RuntimeError ''observer scan idempotency key is bound to another task type'')
        else if jget (t_payload t) ''reason'' \<noteq> JStr reason_value
        then Inl (RuntimeError ''observer scan idempotency key is bound to another reason'')
        else if name_in TASK_LANES (t_lane t) \<noteq> sr_lane r \<or> t_priority t \<noteq> sr_priority r
        then Inl (RuntimeError ''observer scan idempotency key is bound to another scheduling class'')
        else
          case (case map_of (t_payload t) ''dependency_task_ids'' of None \<Rightarrow> JArr [] | Some v \<Rightarrow> v) of
            JArr vs \<Rightarrow>
              if None \<in> set (map py_int vs) then Inl (ValueError ''invalid literal for int'')
              else if sort (List.map_filter py_int vs) \<noteq> scan_dependencies r
              then Inl (RuntimeError ''observer scan idempotency key is bound to other dependencies'')
              else Inr \<lparr>rc_task_id = t_id t, rc_created = False, rc_correlation_id = t_correlation_id t\<rparr>
          | _ \<Rightarrow> Inl (RuntimeError ''observer scan dependency payload is malformed''))"

definition scan_available_at :: "clock \<Rightarrow> scan_request \<Rightarrow> int" where
  "scan_available_at c r =
     (if scan_dependencies r \<noteq> [] then py_now c + secs (OBSERVER_SCAN_BARRIER_PARK_DAYS * 86400)
      else coalesce (sr_available_at r) (py_now c))"

definition scan_create_args :: "clock \<Rightarrow> scan_request \<Rightarrow> string \<Rightarrow> string \<Rightarrow> int \<Rightarrow> create_args" where
  "scan_create_args c r requested_by reason corr =
     \<lparr>ca_task_type = OBSERVER_SCAN_TASK_TYPE, ca_idempotency_key = sr_idempotency_key r,
      ca_payload = scan_payload reason (scan_dependencies r), ca_requested_by = requested_by,
      ca_status = ''pending'', ca_max_attempts = 1, ca_created_by_chat_id = None,
      ca_target_lock_key = None, ca_target_lock_keys = [], ca_lane = Some (sr_lane r),
      ca_priority = Some (sr_priority r), ca_available_at = Some (scan_available_at c r),
      ca_deadline_at = Some (max (py_now c) (scan_available_at c r) + secs OBSERVER_SCAN_DEADLINE_SECONDS),
      ca_correlation_id = Some corr\<rparr>"

definition enqueue_observer_scan :: "clock \<Rightarrow> scan_request \<Rightarrow> qdb \<Rightarrow> (qdb \<times> scan_receipt) result" where
  "enqueue_observer_scan c r db =
     (let requested_by = take 64 (py_strip (sr_requested_by r));
          reason = take 256 (py_strip (sr_reason r));
          corr = next_uuid (ops db)
      in if requested_by = [] then Inl (ValueError ''requested_by must not be empty'')
         else if reason = [] then Inl (ValueError ''reason must not be empty'')
         else if sr_idempotency_key r = [] \<or> length (sr_idempotency_key r) > 128
         then Inl (ValueError ''idempotency_key must contain 1..128 characters'')
         else if sr_lane r \<notin> {''interactive'', ''background''}
         then Inl (ValueError ''observer scan lane must be interactive or background'')
         else if list_ex (\<lambda>i. i \<le> 0) (scan_dependencies r)
         then Inl (ValueError ''observer scan dependency task ids must be positive'')
         else if scan_dependencies r \<noteq> [] \<and> sr_available_at r \<noteq> None
         then Inl (ValueError ''dependency-gated observer scans cannot set available_at'')
         else
           ebind (create_task c (scan_create_args c r requested_by reason corr) db) (\<lambda>(db1, task_id).
             case task_id of
               Some i \<Rightarrow> Inr (db1, \<lparr>rc_task_id = i, rc_created = True, rc_correlation_id = corr\<rparr>)
             | None \<Rightarrow> ebind (load_existing_scan r reason db1) (\<lambda>receipt. Inr (db1, receipt))))"

section \<open>The scheduler\<close>

text \<open>\<open>COALESCE(payload->>'dependency_state', '') <> 'waiting'\<close> among the open scans.\<close>

definition runnable_scan :: "task \<Rightarrow> bool" where
  "runnable_scan t \<longleftrightarrow>
     t_type t = ObserverScan \<and> t_status t \<in> {Pending, Retrying, Running} \<and> t_cancel_requested_at t = None \<and>
     or_empty (arrow_text (t_payload t) ''dependency_state'') \<noteq> ''waiting''"

text \<open>\<open>ORDER BY CASE status WHEN 'running' THEN 0 ELSE 1 END, priority DESC, created_at, id\<close>\<close>

definition scan_before :: "task \<Rightarrow> task \<Rightarrow> bool" where
  "scan_before s t \<longleftrightarrow>
     (let rs = (t_status s = Running); rt = (t_status t = Running)
      in rs \<and> \<not> rt \<or> rs = rt \<and>
         (t_priority s > t_priority t \<or> t_priority s = t_priority t \<and>
          (t_created_at s < t_created_at t \<or> t_created_at s = t_created_at t \<and> t_id s < t_id t)))"

fun first_scan :: "task list \<Rightarrow> task option" where
  "first_scan [] = None"
| "first_scan (t # ts) =
     (case first_scan ts of None \<Rightarrow> Some t | Some u \<Rightarrow> Some (if scan_before u t then u else t))"

text \<open>\<open>GREATEST(COALESCE(deadline_at, '-infinity'), available_at + 120 s, clock_timestamp() + 120 s)\<close>\<close>

definition extended_deadline :: "clock \<Rightarrow> task \<Rightarrow> int" where
  "extended_deadline c t =
     (let d = max (t_available_at t) (clk c) + secs OBSERVER_SCAN_DEADLINE_SECONDS
      in case t_deadline_at t of None \<Rightarrow> d | Some x \<Rightarrow> max x d)"

definition open_scan :: "int \<Rightarrow> task \<Rightarrow> bool" where
  "open_scan i t \<longleftrightarrow> t_id t = i \<and> claimable (t_status t) \<and> t_cancel_requested_at t = None"

definition is_scheduled_scan :: "task \<Rightarrow> bool" where
  "is_scheduled_scan t \<longleftrightarrow>
     t_requested_by t = ''observer_scheduler'' \<and> jget (t_payload t) ''reason'' = JStr ''adaptive_schedule''"

definition scheduled_class_valid :: "task \<Rightarrow> bool" where
  "scheduled_class_valid t \<longleftrightarrow>
     t_lane t = LBackground \<and> t_priority t = 10 \<or> t_lane t = LInteractive \<and> t_priority t \<ge> 75"

definition receipt_of :: "task \<Rightarrow> scan_receipt" where
  "receipt_of t = \<lparr>rc_task_id = t_id t, rc_created = False, rc_correlation_id = t_correlation_id t\<rparr>"

definition scheduled_request :: "string \<Rightarrow> scan_request" where
  "scheduled_request key =
     \<lparr>sr_requested_by = ''observer_scheduler'', sr_reason = ''adaptive_schedule'', sr_idempotency_key = key,
      sr_available_at = None, sr_dependency_task_ids = [], sr_lane = ''background'', sr_priority = 10\<rparr>"

text \<open>
  \<open>scanning_enabled\<close> is what \<open>load_scanning_enabled\<close> read; \<open>tick\<close> is the text
  \<open>f"{scheduled_at.isoformat()}:{uuid.uuid4().hex}"\<close>.
\<close>

definition enqueue_scheduled_observer_scan ::
  "clock \<Rightarrow> bool \<Rightarrow> string \<Rightarrow> qdb \<Rightarrow> (qdb \<times> scan_receipt option) result" where
  "enqueue_scheduled_observer_scan c scanning_enabled tick db =
     (if \<not> scanning_enabled then Inr (db, None)
      else case filter runnable_scan (tasks db) of
        t # u # _ \<Rightarrow> Inl (RuntimeError ''multiple runnable observer scans violate the singleton contract'')
      | [t] \<Rightarrow>
          if is_scheduled_scan t \<and> \<not> scheduled_class_valid t
          then Inl (RuntimeError ''outstanding scheduled observer scan has an invalid scheduling class'')
          else if is_scheduled_scan t \<and> claimable (t_status t)
          then Inr (fst (update_tasks (open_scan (t_id t))
                 (\<lambda>u. u\<lparr>t_deadline_at := Some (extended_deadline c u), t_updated_at := clk c\<rparr>) db),
                 Some (receipt_of t))
          else Inr (db, Some (receipt_of t))
      | [] \<Rightarrow>
          ebind (observer_scan_idempotency_key ''scheduler'' tick) (\<lambda>key.
          ebind (enqueue_observer_scan c (scheduled_request key) db) (\<lambda>(db1, receipt). Inr (db1, Some receipt))))"

section \<open>Claiming behind the barrier\<close>

text \<open>
  The elements of \<open>dependency_task_ids\<close> as \<open>jsonb_array_elements_text\<close> casts them to BIGINT; a JSON
  null joins no row, None is a cast that fails.
\<close>

fun dependency_id :: "json \<Rightarrow> int list option" where
  "dependency_id JNull = Some []"
| "dependency_id (JNum n) = Some [n]"
| "dependency_id (JStr s) = map_option (\<lambda>n. [n]) (parse_exponent (py_strip s))"
| "dependency_id _ = None"

definition waiting_scan :: "task \<Rightarrow> bool" where
  "waiting_scan t \<longleftrightarrow>
     t_type t = ObserverScan \<and> claimable (t_status t) \<and>
     jget (t_payload t) ''dependency_state'' = JStr ''waiting'' \<and>
     (case jget (t_payload t) ''dependency_task_ids'' of JArr vs \<Rightarrow> vs \<noteq> [] | _ \<Rightarrow> False)"

definition dependency_values :: "task \<Rightarrow> json list" where
  "dependency_values t = (case jget (t_payload t) ''dependency_task_ids'' of JArr vs \<Rightarrow> vs | _ \<Rightarrow> [])"

text \<open>A child that is not closed holds the barrier; one that was deleted does not.\<close>

definition barrier_open :: "qdb \<Rightarrow> task \<Rightarrow> bool" where
  "barrier_open db t \<longleftrightarrow>
     list_all (\<lambda>v. list_all (\<lambda>child.
       t_id child \<notin> set (case dependency_id v of Some is \<Rightarrow> is | None \<Rightarrow> []) \<or> terminal (t_status child))
       (tasks db)) (dependency_values t)"

definition release_row :: "clock \<Rightarrow> task \<Rightarrow> task" where
  "release_row c t =
     t\<lparr>t_available_at := clk c, t_deadline_at := Some (clk c + secs OBSERVER_SCAN_DEADLINE_SECONDS),
       t_payload := jmerge (t_payload t) [(''dependency_state'', JStr ''ready''),
         (''dependencies_released_at'', JNum (clk c))],
       t_updated_at := clk c\<rparr>"

definition release_scan_barriers :: "clock \<Rightarrow> qdb \<Rightarrow> qdb result" where
  "release_scan_barriers c db =
     (if list_ex (\<lambda>t. waiting_scan t \<and> None \<in> set (map dependency_id (dependency_values t))) (tasks db)
      then Inl (ValueError ''invalid input syntax for type bigint'')
      else Inr (fst (update_tasks (\<lambda>t. waiting_scan t \<and> barrier_open db t) (release_row c) db)))"

text \<open>Two transactions: the release, then the claim (with its own clock).\<close>

definition claim_observer_scan ::
  "clock \<Rightarrow> clock \<Rightarrow> int list \<Rightarrow> int \<Rightarrow> qdb \<Rightarrow> (qdb \<times> task option) result" where
  "claim_observer_scan c c' locked worker_id db =
     ebind (release_scan_barriers c db) (\<lambda>db1.
     ebind (claim_next_task c' locked OBSERVER_SCAN_TASK_TYPE (Some [''interactive'', ''background''])
         worker_id OBSERVER_SCAN_LEASE_SECONDS db1) (\<lambda>(db2, claim). Inr (db2, cl_task claim)))"

section \<open>Control of a running scan\<close>

definition assert_scan_control :: "clock \<Rightarrow> task \<Rightarrow> qdb \<Rightarrow> unit result" where
  "assert_scan_control c task db =
     (if t_lease_owner task = None \<or> t_lease_token task \<le> 0
      then Inl (ValueError ''observer scan task requires a valid lease fence'')
      else case find (fence_live c (t_id task) (t_lease_owner task) (Some (t_lease_token task))) (tasks db) of
        None \<Rightarrow> Inl ObserverScanFenceLost
      | Some t \<Rightarrow>
        if t_cancel_requested_at t \<noteq> None then Inl (ObserverScanCancelled ''cancel_requested'')
        else case t_deadline_at t of
          None \<Rightarrow> Inr ()
        | Some d \<Rightarrow> guard_err (d > py_now c) (ObserverScanCancelled ''deadline_exceeded''))"

text \<open>
  The scan runs beside a monitor that repeats the check and can only end by raising.
  \<open>monitor\<close> is the exception it had raised when the first of the two finished, \<open>operation\<close> what
  the scan returned or raised.
\<close>

definition run_with_observer_scan_control ::
  "clock \<Rightarrow> task \<Rightarrow> qdb \<Rightarrow> error option \<Rightarrow> 'a result \<Rightarrow> 'a result" where
  "run_with_observer_scan_control c task db monitor operation =
     ebind (assert_scan_control c task db) (\<lambda>_.
       case monitor of Some e \<Rightarrow> Inl e | None \<Rightarrow> operation)"

section \<open>The operator's scan command\<close>

datatype command_state = CQueued | CRunning | CConfirmed | CFailed | CCancelled | CUnknown

definition command_state :: "task_status \<Rightarrow> jobj \<Rightarrow> command_state" where
  "command_state status result =
     (if py_upper (str_or_empty (jget result ''outcome'')) = ''UNKNOWN''
         \<or> jget result ''reconcile_required'' = JBool True then CUnknown
      else case status of
        Pending \<Rightarrow> CQueued
      | Retrying \<Rightarrow> CQueued
      | Running \<Rightarrow> CRunning
      | Succeeded \<Rightarrow> CConfirmed
      | Cancelled \<Rightarrow> CCancelled
      | Failed \<Rightarrow> CFailed)"

record command_receipt =
  cr_task_id :: int
  cr_created :: bool
  cr_state :: command_state
  cr_correlation_id :: int

definition task_receipt :: "bool \<Rightarrow> task \<Rightarrow> command_receipt" where
  "task_receipt created t =
     \<lparr>cr_task_id = t_id t, cr_created = created,
      cr_state = command_state (t_status t) (obj_or_empty (t_result t)),
      cr_correlation_id = t_correlation_id t\<rparr>"

definition operator_scan_request :: "string \<Rightarrow> string \<Rightarrow> string \<Rightarrow> scan_request" where
  "operator_scan_request requested_by reason key =
     \<lparr>sr_requested_by = requested_by, sr_reason = reason, sr_idempotency_key = key,
      sr_available_at = None, sr_dependency_task_ids = [], sr_lane = ''interactive'', sr_priority = 75\<rparr>"

text \<open>\<open>except RuntimeError\<close>: a conflict of the key becomes the service's own error.\<close>

definition scan_conflict :: "error \<Rightarrow> error" where
  "scan_conflict e =
     (case e of RuntimeError m \<Rightarrow>
        if m \<in> {''observer scan idempotency key is bound to another task type'',
                ''observer scan idempotency key is bound to another reason'',
                ''observer scan idempotency key is bound to another scheduling class'',
                ''observer scan idempotency key is bound to other dependencies''}
        then CommandConflictError m else e
      | _ \<Rightarrow> e)"

definition enqueue_scan_retry ::
  "clock \<Rightarrow> string \<Rightarrow> string \<Rightarrow> string \<Rightarrow> qdb \<Rightarrow> (qdb \<times> command_receipt) result" where
  "enqueue_scan_retry c requested_by idempotency_key reason db =
     (let by_value = py_strip requested_by; key = py_strip idempotency_key
      in if by_value = [] \<or> length by_value > 64
         then Inl (ValueError ''requested_by must contain 1..64 characters'')
         else if key = [] \<or> length key > 128
         then Inl (ValueError ''idempotency_key must contain 1..128 characters'')
         else case first_scan (filter runnable_scan (tasks db)) of
           Some t \<Rightarrow>
             Inr (if claimable (t_status t)
                  then fst (update_tasks (open_scan (t_id t))
                    (\<lambda>u. u\<lparr>t_lane := LInteractive, t_priority := max (t_priority u) 75,
                           t_deadline_at := Some (extended_deadline c u), t_updated_at := clk c\<rparr>) db)
                  else db, task_receipt False t)
         | None \<Rightarrow>
             (case enqueue_observer_scan c (operator_scan_request by_value reason key) db of
                Inl e \<Rightarrow> Inl (scan_conflict e)
              | Inr (db1, receipt) \<Rightarrow>
                  (case task_by_id (rc_task_id receipt) db1 of
                     None \<Rightarrow> Inl (RuntimeError ''observer scan command row disappeared'')
                   | Some t \<Rightarrow> Inr (db1, task_receipt (rc_created receipt) t))))"

end
