(* ===== verification/AutoStopGate.thy ===== *)
theory AutoStopGate
  imports ObserverRow MetaCommands ScanTasks
begin

text \<open>
  The last gate before an automatic stop reaches Meta: \<open>core/meta_api/freshness.py\<close> and the branch of
  \<open>process_one_task\<close> in \<open>apps/meta_api_worker/main.py\<close> that calls it. A pause requested by the
  observer is executed only on a decision confirmed by the latest complete scan of its cabinet and
  at most sixty seconds old; otherwise the claimed task goes back to the queue and a scan is
  requested.
\<close>

section \<open>The evidence\<close>

text \<open>
  The tables the query reads: the metric rows with the Facebook id of their advertisement, the
  campaign of an advertisement (cabinet and offer), the scan runs, the alert states, \<open>is_active\<close> of
  an offer, \<open>updated_at\<close> of its rules and the singleton \<open>is_scanning_enabled\<close>.
\<close>

record ad_metric =
  am_fb_ad_id :: string
  am_cycle_ts :: int
  am_scan_id :: "int option"
  am_currency :: "string option"

record scan_run =
  sn_scan_id :: int
  sn_ad_account_id :: "string option"
  sn_started_at :: int
  sn_finished_at :: "int option"
  sn_outcome :: "string option"

record evidence_db =
  ed_metrics :: "ad_metric list"
  ed_campaign :: "string \<Rightarrow> (string option \<times> int option) option"
  ed_scan_runs :: "scan_run list"
  ed_alerts :: alert_table
  ed_offer_active :: "int \<Rightarrow> bool option"
  ed_rules_updated_at :: "int \<Rightarrow> int option"
  ed_scanning_enabled :: "bool option"

definition MAX_AUTO_PAUSE_SNAPSHOT_AGE_SECONDS :: int where
  "MAX_AUTO_PAUSE_SNAPSHOT_AGE_SECONDS = 60"

record snapshot_freshness =
  sf_fresh :: bool
  sf_latest_cycle_at :: "int option"
  sf_scan_id :: "int option"
  sf_decision_confirmed :: bool

definition snapshot_is_fresh :: "int option \<Rightarrow> bool \<Rightarrow> int \<Rightarrow> bool" where
  "snapshot_is_fresh latest_cycle_at decision_confirmed now \<longleftrightarrow>
     decision_confirmed \<and>
     (case latest_cycle_at of
        None \<Rightarrow> False
      | Some t \<Rightarrow> now - secs MAX_AUTO_PAUSE_SNAPSHOT_AGE_SECONDS \<le> t \<and> t \<le> now)"

text \<open>\<open>ORDER BY m.cycle_ts DESC LIMIT 1\<close>\<close>

fun snapshot_metric :: "string \<Rightarrow> ad_metric list \<Rightarrow> ad_metric option" where
  "snapshot_metric ad [] = None"
| "snapshot_metric ad (m # ms) =
     (case snapshot_metric ad ms of
        None \<Rightarrow> if am_fb_ad_id m = ad then Some m else None
      | Some n \<Rightarrow> if am_fb_ad_id m = ad \<and> am_cycle_ts m \<ge> am_cycle_ts n then Some m else Some n)"

text \<open>\<open>ORDER BY started_at DESC, scan_id DESC LIMIT 1\<close> of one cabinet; NULL matches no cabinet.\<close>

fun latest_scan_run :: "string option \<Rightarrow> scan_run list \<Rightarrow> scan_run option" where
  "latest_scan_run account [] = None"
| "latest_scan_run account (s # ss) =
     (let own = (account \<noteq> None \<and> sn_ad_account_id s = account)
      in case latest_scan_run account ss of
           None \<Rightarrow> if own then Some s else None
         | Some u \<Rightarrow>
             if own \<and> (sn_started_at s > sn_started_at u \<or>
                sn_started_at s = sn_started_at u \<and> sn_scan_id s \<ge> sn_scan_id u) then Some s else Some u)"

text \<open>\<open>COALESCE(a AND b AND ..., FALSE)\<close>: a NULL anywhere counts as false.\<close>

definition decision_confirmed :: "int \<Rightarrow> ad_metric \<Rightarrow> string option \<Rightarrow> int option \<Rightarrow> evidence_db \<Rightarrow> bool" where
  "decision_confirmed checked_at m account offer ev \<longleftrightarrow>
     am_currency m = Some ''USD'' \<and>
     (case (am_scan_id m, latest_scan_run account (ed_scan_runs ev)) of
        (Some sid, Some scan) \<Rightarrow>
          sn_scan_id scan = sid \<and> sn_outcome scan = Some ''success'' \<and>
          (case sn_finished_at scan of None \<Rightarrow> False | Some f \<Rightarrow> f \<le> checked_at) \<and>
          (case ed_alerts ev (am_fb_ad_id m) of
             None \<Rightarrow> False
           | Some r \<Rightarrow> ar_state r = StopSent \<and> ar_stage r = Some StopStage \<and> ar_last_scan_id r = Some sid \<and>
               ar_stop_rule_codes r \<noteq> [])
      | _ \<Rightarrow> False) \<and>
     (case offer of
        None \<Rightarrow> False
      | Some i \<Rightarrow> ed_offer_active ev i = Some True \<and>
          (case ed_rules_updated_at ev i of None \<Rightarrow> False | Some u \<Rightarrow> u \<le> am_cycle_ts m)) \<and>
     ed_scanning_enabled ev = Some True"

definition load_meta_snapshot_freshness :: "int \<Rightarrow> string \<Rightarrow> evidence_db \<Rightarrow> snapshot_freshness" where
  "load_meta_snapshot_freshness checked_at fb_ad_id ev =
     (case (ed_campaign ev fb_ad_id, snapshot_metric fb_ad_id (ed_metrics ev)) of
        (Some (account, offer), Some m) \<Rightarrow>
          (let confirmed = decision_confirmed checked_at m account offer ev
           in \<lparr>sf_fresh = snapshot_is_fresh (Some (am_cycle_ts m)) confirmed checked_at,
               sf_latest_cycle_at = Some (am_cycle_ts m), sf_scan_id = am_scan_id m,
               sf_decision_confirmed = confirmed\<rparr>)
      | _ \<Rightarrow> \<lparr>sf_fresh = False, sf_latest_cycle_at = None, sf_scan_id = None, sf_decision_confirmed = False\<rparr>)"

section \<open>Deferral\<close>

definition refresh_request :: "string \<Rightarrow> scan_request" where
  "refresh_request key =
     \<lparr>sr_requested_by = ''meta_api_worker'', sr_reason = ''auto_stop_requires_fresh_meta'', sr_idempotency_key = key,
      sr_available_at = None, sr_dependency_task_ids = [], sr_lane = ''interactive'', sr_priority = 75\<rparr>"

definition deferred_row :: "clock \<Rightarrow> int \<Rightarrow> task \<Rightarrow> task" where
  "deferred_row c delay_seconds t =
     t\<lparr>t_status := Retrying, t_available_at := tx_now c + secs (max delay_seconds 1), t_deadline_at := None,
       t_external_started_at := None, t_last_error := Some ''stale_meta_snapshot: observer refresh requested'',
       t_lease_owner := None, t_lease_expires_at := None, t_updated_at := tx_now c\<rparr>"

definition request_refresh_scan :: "clock \<Rightarrow> int \<Rightarrow> qdb \<Rightarrow> (qdb \<times> bool) result" where
  "request_refresh_scan c task_id db =
     ebind (observer_scan_idempotency_key ''auto-stop-refresh'' (string_of_int task_id)) (\<lambda>key.
     ebind (enqueue_observer_scan c (refresh_request key) db) (\<lambda>(db1, _). Inr (db1, True)))"

definition defer_auto_stop_for_fresh_snapshot ::
  "clock \<Rightarrow> int \<Rightarrow> int \<Rightarrow> int option \<Rightarrow> int option \<Rightarrow> qdb \<Rightarrow> (qdb \<times> bool) result" where
  "defer_auto_stop_for_fresh_snapshot c task_id delay_seconds lease_owner lease_token =
     fenced c task_id lease_owner lease_token (\<lambda>t. t_external_started_at t = None)
       (deferred_row c delay_seconds) (\<lambda>t. request_refresh_scan c task_id) False"

section \<open>The gate of the Meta worker\<close>

definition is_safety_compensation :: "meta_payload \<Rightarrow> bool" where
  "is_safety_compensation p \<longleftrightarrow>
     mp_mutation_kind p = ''pause_ad'' \<and>
     jget (mp_params p) ''safety_compensation'' = JStr ''activation_without_grace'' \<and>
     (case jget (mp_params p) ''supersedes_activation_task_id'' of JNum n \<Rightarrow> n > 0 | _ \<Rightarrow> False)"

definition needs_fresh_snapshot :: "task \<Rightarrow> meta_payload \<Rightarrow> bool" where
  "needs_fresh_snapshot task p \<longleftrightarrow>
     mp_mutation_kind p = ''pause_ad'' \<and> t_requested_by task = ''bot_auto_stop'' \<and> \<not> is_safety_compensation p"

text \<open>The value says whether processing goes on to the external call.\<close>

definition auto_stop_gate :: "clock \<Rightarrow> task \<Rightarrow> meta_payload \<Rightarrow> evidence_db \<Rightarrow> qdb \<Rightarrow> (qdb \<times> bool) result" where
  "auto_stop_gate c task p ev db =
     (if needs_fresh_snapshot task p \<and> \<not> sf_fresh (load_meta_snapshot_freshness (py_now c) (mp_target_id p) ev)
      then ebind (defer_auto_stop_for_fresh_snapshot c (t_id task) 15 (t_lease_owner task) (Some (t_lease_token task)) db)
             (\<lambda>(db', _). Inr (db', False))
      else Inr (db, True))"

end
