(* ===== verification/ScanProps.thy ===== *)
theory ScanProps
  imports ScanTasks TaskClaims
begin

text \<open>
  What the scan control plane guarantees: publishing is idempotent, the scheduler and the operator
  keep at most one runnable scan, and a scan with dependencies is claimed exactly after they are
  closed.
\<close>

section \<open>Publishing\<close>

lemma enqueue_scan_Inr:
  assumes "enqueue_observer_scan c r db = Inr (db', rc)"
  obtains (created) t where "rc_created rc" "tasks db' = tasks db @ [t]" "t_id t = rc_task_id rc"
      "rc_task_id rc = next_id db" "sr_idempotency_key r \<notin> set (map t_idempotency_key (tasks db))"
      "t_idempotency_key t = sr_idempotency_key r" "t_type t = ObserverScan" "t_status t = Pending"
      "t_payload t = scan_payload (take 256 (py_strip (sr_reason r))) (scan_dependencies r)"
      "t_cancel_requested_at t = None" "t_available_at t = scan_available_at c r"
      "name_in TASK_LANES (t_lane t) = sr_lane r" "t_priority t = sr_priority r"
      "rc_correlation_id rc = t_correlation_id t"
    | (existing) t where "\<not> rc_created rc" "tasks db' = tasks db"
      "find (\<lambda>t. t_idempotency_key t = sr_idempotency_key r) (tasks db) = Some t"
      "rc_task_id rc = t_id t" "t_type t = ObserverScan" "rc_correlation_id rc = t_correlation_id t"
proof -
  define by_value where "by_value = take 64 (py_strip (sr_requested_by r))"
  define reason where "reason = take 256 (py_strip (sr_reason r))"
  define a where "a = scan_create_args c r by_value reason (next_uuid (ops db))"
  have a: "ca_task_type a = ''observer_scan''" "ca_status a = ''pending''" "ca_lane a = Some (sr_lane r)"
    "ca_idempotency_key a = sr_idempotency_key r" "ca_payload a = scan_payload reason (scan_dependencies r)"
    "ca_priority a = Some (sr_priority r)" "ca_available_at a = Some (scan_available_at c r)"
    "ca_correlation_id a = Some (next_uuid (ops db))"
    by (simp_all add: a_def scan_create_args_def OBSERVER_SCAN_TASK_TYPE_def)
  from assms obtain ti where cr: "create_task c a db = Inr (db', ti)"
    and rc: "case ti of Some i \<Rightarrow> rc = \<lparr>rc_task_id = i, rc_created = True, rc_correlation_id = next_uuid (ops db)\<rparr>
      | None \<Rightarrow> load_existing_scan r reason db' = Inr rc"
    and lane: "sr_lane r \<in> {''interactive'', ''background''}"
    unfolding enqueue_observer_scan_def Let_def by_value_def [symmetric] reason_def [symmetric] a_def [symmetric]
    by (auto simp: err_simps split: if_splits option.splits)
  have lane': "sr_lane r \<noteq> []" using lane by auto
  have ob: "map_of TASK_TYPES ''observer_scan'' = Some ObserverScan" "map_of TASK_STATUSES ''pending'' = Some Pending"
    by (simp_all add: TASK_TYPES_def TASK_STATUSES_def)
  have corr: "create_task c a db = Inr (db', Some i) \<Longrightarrow> \<exists>l. create_lane ObserverScan a = Some l \<and>
      tasks db' = tasks db @ [new_task c a ObserverScan Pending l (next_id db) (next_uuid (ops db))]" for i
    using a ob by (auto simp: create_task_def Let_def split: option.splits if_splits)
  show thesis
  proof (cases ti)
    case None
    then have db': "tasks db' = tasks db" "load_existing_scan r reason db' = Inr rc"
      using create_cases [OF cr] rc by auto
    then obtain t where "find (\<lambda>t. t_idempotency_key t = sr_idempotency_key r) (tasks db) = Some t"
      "t_type t = ObserverScan"
      "rc = \<lparr>rc_task_id = t_id t, rc_created = False, rc_correlation_id = t_correlation_id t\<rparr>"
      by (auto simp: load_existing_scan_def split: option.splits if_splits json.splits)
    then show thesis
      using db'(1) by (intro existing [of t]) simp_all
  next
    case (Some i)
    then obtain l where l: "create_lane ObserverScan a = Some l"
      "tasks db' = tasks db @ [new_task c a ObserverScan Pending l (next_id db) (next_uuid (ops db))]"
      using cr corr by blast
    have "name_in TASK_LANES l = sr_lane r"
      using l(1) lane a(3) lane' by (auto simp: create_lane_def TASK_LANES_def name_in_def split: if_splits)
    moreover have "i = next_id db" "sr_idempotency_key r \<notin> set (map t_idempotency_key (tasks db))"
      using create_cases [OF cr] Some a(4) by auto
    ultimately show thesis
      using Some rc l(2) a by (intro created [OF _ l(2)]) (simp_all add: new_task_def reason_def)
  qed
qed


lemma same_identity_trans: "same_identity t u \<Longrightarrow> same_identity u v \<Longrightarrow> same_identity t v"
  by (simp add: same_identity_def)

lemma find_by_key:
  assumes "queue_inv db" "t \<in> set (tasks db)"
  shows "find (\<lambda>u. t_idempotency_key u = t_idempotency_key t) (tasks db) = Some t"
proof -
  have "distinct (map t_idempotency_key ts) \<Longrightarrow> t \<in> set ts \<Longrightarrow>
      find (\<lambda>u. t_idempotency_key u = t_idempotency_key t) ts = Some t" for ts
    by (induction ts) (auto simp: image_iff)
  then show ?thesis
    using assms by (simp add: queue_inv_def)
qed

lemma dependencies_read_back: "sort (List.map_filter py_int (map JNum ds)) = sort ds" "None \<notin> set (map py_int (map JNum ds))"
  by (induction ds) (auto simp: py_int_def map_filter_simps)

lemma sort_dependencies [simp]: "sort (scan_dependencies r) = scan_dependencies r"
  by (simp add: scan_dependencies_def sorted_sort_id)

text \<open>A row that still carries what a request wrote answers that request.\<close>

lemma load_existing_same:
  assumes "find (\<lambda>t. t_idempotency_key t = sr_idempotency_key r) (tasks db) = Some t" "t_type t = ObserverScan"
    "t_payload t = scan_payload reason (scan_dependencies r)" "name_in TASK_LANES (t_lane t) = sr_lane r"
    "t_priority t = sr_priority r"
  shows "load_existing_scan r reason db =
    Inr \<lparr>rc_task_id = t_id t, rc_created = False, rc_correlation_id = t_correlation_id t\<rparr>"
proof -
  have "(case map_of (t_payload t) ''dependency_task_ids'' of None \<Rightarrow> JArr [] | Some v \<Rightarrow> v)
      = JArr (map JNum (scan_dependencies r))" "jget (t_payload t) ''reason'' = JStr reason"
    using assms(3) by (simp_all add: scan_payload_def)
  then show ?thesis
    using assms dependencies_read_back [of "scan_dependencies r"] by (simp add: load_existing_scan_def)
qed

lemma enqueue_scan_again:
  assumes "enqueue_observer_scan c r db = Inr p" "sr_idempotency_key r \<in> set (map t_idempotency_key (tasks db2))"
    and "load_existing_scan r (take 256 (py_strip (sr_reason r))) db2 = Inr rc"
  shows "\<exists>db3. enqueue_observer_scan c' r db2 = Inr (db3, rc) \<and> tasks db3 = tasks db2"
proof -
  define by_value where "by_value = take 64 (py_strip (sr_requested_by r))"
  define reason where "reason = take 256 (py_strip (sr_reason r))"
  define a where "a = scan_create_args c r by_value reason (next_uuid (ops db))"
  define a' where "a' = scan_create_args c' r by_value reason (next_uuid (ops db2))"
  have ok: "by_value \<noteq> []" "reason \<noteq> []" "sr_idempotency_key r \<noteq> []" "length (sr_idempotency_key r) \<le> 128"
      "sr_lane r \<in> {''interactive'', ''background''}" "\<not> list_ex (\<lambda>i. i \<le> 0) (scan_dependencies r)"
      "\<not> (scan_dependencies r \<noteq> [] \<and> sr_available_at r \<noteq> None)"
    using assms(1) unfolding enqueue_observer_scan_def Let_def by_value_def [symmetric] reason_def [symmetric]
    by (auto split: if_splits)
  have "create_lane ObserverScan a' \<noteq> None"
    using ok(5) by (auto simp: a'_def scan_create_args_def create_lane_def TASK_LANES_def)
  then obtain db3 where db3: "create_task c' a' db2 = Inr (db3, None)" "tasks db3 = tasks db2"
    using assms(2)
    by (fastforce simp: create_task_def a'_def scan_create_args_def OBSERVER_SCAN_TASK_TYPE_def TASK_TYPES_def
        TASK_STATUSES_def Let_def meta_account_identity_def)
  then have "load_existing_scan r reason db3 = Inr rc"
    using assms(3) by (simp add: load_existing_scan_def reason_def)
  then show ?thesis
    using ok db3 unfolding enqueue_observer_scan_def Let_def by_value_def [symmetric] reason_def [symmetric]
      a'_def [symmetric]
    by (intro exI [of _ db3]) auto
qed

text \<open>
  Publishing a scan is idempotent over the queue's own transactions: once a request created a scan
  task, the same request made after any number of queue transactions returns that task (its id and
  correlation id, reported as not created) and adds no row, whatever became of the scan in between.
  (A retry of the operator that promotes the scan and the retention of closed rows are no steps of
  this relation.)
\<close>

theorem scan_publication_idempotent:
  assumes "queue_inv db" "enqueue_observer_scan c r db = Inr (db1, rc)" "rc_created rc"
    and "queue_step\<^sup>*\<^sup>* db1 db2"
  shows "\<exists>db3. enqueue_observer_scan c' r db2 = Inr (db3, rc\<lparr>rc_created := False\<rparr>) \<and> tasks db3 = tasks db2"
  using assms(2)
proof (cases rule: enqueue_scan_Inr)
  case (created t)
  have "t_id t = next_id db" using created by simp
  moreover have "next_id db1 = next_id db + 1"
    using assms(2) created(1)
    by (auto simp: enqueue_observer_scan_def Let_def err_simps split: if_splits option.splits dest!: create_cases)
  ultimately have inv: "queue_inv db1"
    using assms(1) created(2,5,6) by (fastforce simp: queue_inv_def)
  then obtain t' where t': "t' \<in> set (tasks db2)" "same_identity t t'"
    using queue_steps_row [OF assms(4) inv, of t "same_identity t"] created(2)
    by (auto simp: row_next_def same_identity_def intro: same_identity_trans)
  have "find (\<lambda>u. t_idempotency_key u = sr_idempotency_key r) (tasks db2) = Some t'"
    using find_by_key [OF queue_steps_inv [OF assms(4) inv] t'(1)] t'(2) created(6)
    by (simp add: same_identity_def)
  then have "load_existing_scan r (take 256 (py_strip (sr_reason r))) db2 =
      Inr \<lparr>rc_task_id = t_id t', rc_created = False, rc_correlation_id = t_correlation_id t'\<rparr>"
    using t'(2) created by (intro load_existing_same) (simp_all add: same_identity_def)
  moreover have "\<lparr>rc_task_id = t_id t', rc_created = False, rc_correlation_id = t_correlation_id t'\<rparr>
      = rc\<lparr>rc_created := False\<rparr>"
    using t'(2) created by (simp add: same_identity_def)
  moreover have "sr_idempotency_key r \<in> set (map t_idempotency_key (tasks db2))"
    using t' created(6) by (force simp: same_identity_def)
  ultimately show ?thesis
    using enqueue_scan_again [OF assms(2)] by simp
next
  case existing
  then show ?thesis
    using assms(3) by simp
qed

section \<open>One outstanding scan\<close>

definition runnable_scans :: "qdb \<Rightarrow> nat" where
  "runnable_scans db = length (filter runnable_scan (tasks db))"

lemma runnable_scans_update:
  assumes "\<And>t. runnable_scan (f t) = runnable_scan t"
  shows "runnable_scans (fst (update_tasks P f db)) = runnable_scans db"
proof -
  have "length (filter runnable_scan (map (\<lambda>t. if P t then f t else t) ts)) = length (filter runnable_scan ts)" for ts
    using assms by (induction ts) auto
  then show ?thesis
    by (simp add: runnable_scans_def)
qed

lemma new_scan_runnable:
  "t_type t = ObserverScan \<Longrightarrow> t_status t = Pending \<Longrightarrow> t_cancel_requested_at t = None \<Longrightarrow>
   t_payload t = scan_payload reason ds \<Longrightarrow> runnable_scan t \<longleftrightarrow> ds = []"
  by (auto simp: runnable_scan_def scan_payload_def arrow_text_def)

lemma enqueue_scan_runnable:
  assumes "enqueue_observer_scan c r db = Inr (db', rc)"
  shows "runnable_scans db' = runnable_scans db + (if rc_created rc \<and> scan_dependencies r = [] then 1 else 0)"
  using assms
proof (cases rule: enqueue_scan_Inr)
  case (created t)
  then show ?thesis
    using new_scan_runnable [of t "take 256 (py_strip (sr_reason r))" "scan_dependencies r"]
    by (simp add: runnable_scans_def)
next
  case existing
  then show ?thesis
    by (simp add: runnable_scans_def)
qed

lemma no_dependencies [simp]:
  "scan_dependencies (scheduled_request key) = []" "scan_dependencies (operator_scan_request w reason key) = []"
  by (simp_all add: scan_dependencies_def scheduled_request_def operator_scan_request_def)

lemma create_task_error: "create_task c a db = Inl e \<Longrightarrow> \<exists>m. e = ValueError m \<or> e = IntegrityError m"
  by (auto simp: create_task_def Let_def split: option.splits if_splits)

lemma load_existing_error:
  "load_existing_scan r reason db = Inl e \<Longrightarrow>
     e \<noteq> RuntimeError ''multiple runnable observer scans violate the singleton contract''"
  by (auto simp: load_existing_scan_def split: option.splits if_splits json.splits)

lemma enqueue_scan_error:
  assumes "enqueue_observer_scan c r db = Inl e"
  shows "e \<noteq> RuntimeError ''multiple runnable observer scans violate the singleton contract''"
  using assms unfolding enqueue_observer_scan_def Let_def
  by (auto simp: err_simps dest!: create_task_error dest: load_existing_error split: if_splits option.splits)

lemma first_scan_None: "first_scan ts = None \<longleftrightarrow> ts = []"
  by (cases ts) (auto split: option.splits)

lemma scheduler_never_sees_two:
  assumes "runnable_scans db \<le> 1"
  shows "enqueue_scheduled_observer_scan c en tick db
     \<noteq> Inl (RuntimeError ''multiple runnable observer scans violate the singleton contract'')"
proof (cases "filter runnable_scan (tasks db)")
  case Nil
  then show ?thesis
    using enqueue_scan_error
    by (fastforce simp: enqueue_scheduled_observer_scan_def err_simps observer_scan_idempotency_key_def Let_def
        split: if_splits)
next
  case (Cons t ts)
  then show ?thesis
    using assms by (cases ts) (auto simp: enqueue_scheduled_observer_scan_def runnable_scans_def)
qed

lemma scheduler_publishes_one:
  assumes "runnable_scans db \<le> 1" "enqueue_scheduled_observer_scan c en tick db = Inr (db', r)"
  shows "runnable_scans db' = (case r of Some rc \<Rightarrow> runnable_scans db + (if rc_created rc then 1 else 0)
      | None \<Rightarrow> runnable_scans db) \<and> (filter runnable_scan (tasks db) = [] \<or> runnable_scans db' = runnable_scans db)"
proof (cases "filter runnable_scan (tasks db)")
  case Nil
  then show ?thesis
    using assms(2) by (auto simp: enqueue_scheduled_observer_scan_def err_simps dest!: enqueue_scan_runnable split: if_splits)
next
  case (Cons t ts)
  have keep: "runnable_scans (fst (update_tasks P (\<lambda>u. u\<lparr>t_deadline_at := d u, t_updated_at := n\<rparr>) db)) = runnable_scans db"
    for P d n
    by (rule runnable_scans_update) (simp add: runnable_scan_def)
  have "ts = []"
    using assms(1) Cons by (cases ts) (auto simp: runnable_scans_def)
  then show ?thesis
    using assms(2) Cons keep by (auto simp: enqueue_scheduled_observer_scan_def receipt_of_def split: if_splits)
qed

lemma retry_publishes_one:
  assumes "enqueue_scan_retry c w key reason db = Inr (db', rc)"
  shows "runnable_scans db' = runnable_scans db + (if cr_created rc then 1 else 0) \<and>
    (filter runnable_scan (tasks db) = [] \<or> \<not> cr_created rc)"
proof (cases "first_scan (filter runnable_scan (tasks db))")
  case None
  then have "filter runnable_scan (tasks db) = []"
    by (simp add: first_scan_None)
  then show ?thesis
    using assms None
    by (auto simp: enqueue_scan_retry_def Let_def task_receipt_def dest!: enqueue_scan_runnable
        split: if_splits sum.splits option.splits)
next
  case (Some t)
  have keep: "runnable_scans (fst (update_tasks P (\<lambda>u. u\<lparr>t_lane := l, t_priority := q u, t_deadline_at := d u,
      t_updated_at := n\<rparr>) db)) = runnable_scans db" for P l q d n
    by (rule runnable_scans_update) (simp add: runnable_scan_def)
  then show ?thesis
    using assms Some by (auto simp: enqueue_scan_retry_def Let_def task_receipt_def split: if_splits)
qed

text \<open>
  C24. The two publishers that take the publication lock keep the singleton contract: with at most
  one runnable scan in the queue, the scheduler does not report a violation of the contract, and
  after the scheduler or the operator's scan command at most one scan is runnable; when scanning
  is enabled (or the operator asked) and the command returned, exactly one is, unless its key
  belongs to a scan published before.
\<close>

theorem scan_publishers_keep_singleton:
  assumes "runnable_scans db \<le> 1"
  shows "enqueue_scheduled_observer_scan c en tick db
           \<noteq> Inl (RuntimeError ''multiple runnable observer scans violate the singleton contract'') \<and>
    (\<forall>db' r. enqueue_scheduled_observer_scan c en tick db = Inr (db', r) \<longrightarrow>
       runnable_scans db' = (case r of Some rc \<Rightarrow> runnable_scans db + (if rc_created rc then 1 else 0)
                             | None \<Rightarrow> runnable_scans db) \<and> runnable_scans db' \<le> 1) \<and>
    (\<forall>db' rc. enqueue_scan_retry c w key reason db = Inr (db', rc) \<longrightarrow>
       runnable_scans db' = runnable_scans db + (if cr_created rc then 1 else 0) \<and> runnable_scans db' \<le> 1)"
proof (intro conjI allI impI)
  show "enqueue_scheduled_observer_scan c en tick db
           \<noteq> Inl (RuntimeError ''multiple runnable observer scans violate the singleton contract'')"
    by (rule scheduler_never_sees_two [OF assms])
next
  fix db' r
  assume "enqueue_scheduled_observer_scan c en tick db = Inr (db', r)"
  note one = scheduler_publishes_one [OF assms this]
  show "runnable_scans db' = (case r of Some rc \<Rightarrow> runnable_scans db + (if rc_created rc then 1 else 0)
      | None \<Rightarrow> runnable_scans db)" "runnable_scans db' \<le> 1"
    using assms one by (auto simp: runnable_scans_def split: option.splits if_splits)
next
  fix db' rc
  assume "enqueue_scan_retry c w key reason db = Inr (db', rc)"
  note one = retry_publishes_one [OF this]
  show "runnable_scans db' = runnable_scans db + (if cr_created rc then 1 else 0)" "runnable_scans db' \<le> 1"
    using assms one by (auto simp: runnable_scans_def split: if_splits)
qed

text \<open>
  A publisher that does not look for an outstanding scan (the Meta worker, the tracker worker and
  the health watchdog call \<open>enqueue_observer_scan\<close> directly) breaks the contract: with one runnable
  scan outstanding its new scan is the second, and the scheduler raises until one of them is closed.
\<close>

theorem second_publisher_blocks_scheduler:
  assumes "runnable_scans db \<ge> 1" "enqueue_observer_scan c r db = Inr (db', rc)" "rc_created rc"
    and "scan_dependencies r = []"
  shows "enqueue_scheduled_observer_scan c' True tick db' =
    Inl (RuntimeError ''multiple runnable observer scans violate the singleton contract'')"
proof -
  have "runnable_scans db' \<ge> 2"
    using enqueue_scan_runnable [OF assms(2)] assms(1,3,4) by simp
  then obtain t u ts where "filter runnable_scan (tasks db') = t # u # ts"
    unfolding runnable_scans_def by (metis One_nat_def Suc_1 Suc_le_length_iff)
  then show ?thesis
    by (simp add: enqueue_scheduled_observer_scan_def)
qed

section \<open>The dependency barrier\<close>

lemma release_Inr:
  "release_scan_barriers c db = Inr db1 \<Longrightarrow>
     tasks db1 = map (\<lambda>t. if waiting_scan t \<and> barrier_open db t then release_row c t else t) (tasks db) \<and>
     maintenance_until db1 = maintenance_until db"
  by (auto simp: release_scan_barriers_def update_tasks_def split: if_splits)

lemma claim_scan_Inr:
  assumes "claim_observer_scan c c' locked w db = Inr (db', tk)"
  obtains db1 row where "release_scan_barriers c db = Inr db1"
    "claim_first c' locked (claim_gate c' ObserverScan db1) ObserverScan [LInteractive, LBackground] w
       OBSERVER_SCAN_LEASE_SECONDS db1 = Inr (db', row)" "tk = map_option row_to_task row"
proof -
  obtain db1 cl where 1: "release_scan_barriers c db = Inr db1"
    "claim_next_task c' locked OBSERVER_SCAN_TASK_TYPE (Some [''interactive'', ''background'']) w
       OBSERVER_SCAN_LEASE_SECONDS db1 = Inr (db', cl)" "tk = cl_task cl"
    using assms by (auto simp: claim_observer_scan_def err_simps)
  have "map_of TASK_TYPES OBSERVER_SCAN_TASK_TYPE = Some ObserverScan"
    "claim_lanes (Some [''interactive'', ''background'']) = [LInteractive, LBackground]"
    by (simp_all add: TASK_TYPES_def OBSERVER_SCAN_TASK_TYPE_def claim_lanes_def TASK_LANES_def map_filter_simps)
  then show thesis
    using 1 claim_next_first [OF 1(2)] that by (metis option.inject)
qed

lemma released_candidate:
  assumes "waiting_scan s" "t_cancel_requested_at s = None" "t_lane s \<in> {LInteractive, LBackground}"
    and "clk c \<le> clk c'" "clk c' < clk c + secs OBSERVER_SCAN_DEADLINE_SECONDS"
  shows "claim_candidate c' ObserverScan [LInteractive, LBackground] (release_row c s)"
  using assms by (auto simp: claim_candidate_def waiting_scan_def release_row_def)

text \<open>What the barrier promises, with the three closing statuses spelled out.\<close>

definition dependencies_closed :: "qdb \<Rightarrow> task \<Rightarrow> bool" where
  "dependencies_closed db s \<longleftrightarrow>
     (\<forall>child \<in> set (tasks db). \<forall>v \<in> set (dependency_values s).
        dependency_id v = Some [t_id child] \<longrightarrow> t_status child \<in> {Succeeded, Failed, Cancelled})"

lemma barrier_open_iff:
  assumes "None \<notin> set (map dependency_id (dependency_values s))"
  shows "barrier_open db s \<longleftrightarrow> dependencies_closed db s"
proof -
  have one: "i \<in> set (case dependency_id v of Some is \<Rightarrow> is | None \<Rightarrow> []) \<longleftrightarrow> dependency_id v = Some [i]" for i v
    by (cases v rule: dependency_id.cases) (auto split: option.splits)
  show ?thesis
    unfolding barrier_open_def dependencies_closed_def list_all_iff one terminal_def by blast
qed

lemma released_none_bad:
  "release_scan_barriers c db = Inr db1 \<Longrightarrow> s \<in> set (tasks db) \<Longrightarrow> waiting_scan s \<Longrightarrow>
     None \<notin> set (map dependency_id (dependency_values s))"
  by (auto simp: release_scan_barriers_def list_ex_iff split: if_splits)

text \<open>The claim takes a row of the database as it was, released first when its barrier is open.\<close>

lemma claim_scan_row:
  assumes "queue_inv db" "claim_observer_scan c c' locked w db = Inr (db', Some t)"
  obtains v where "v \<in> set (tasks db)" "t_id v = t_id t" "t_type v = ObserverScan" "claimable (t_status v)"
    "t_status t = Running" "t_available_at v \<le> clk c' \<or> waiting_scan v \<and> barrier_open db v"
proof -
  obtain db1 row where db1: "release_scan_barriers c db = Inr db1"
    and row: "claim_first c' locked (claim_gate c' ObserverScan db1) ObserverScan [LInteractive, LBackground] w
       OBSERVER_SCAN_LEASE_SECONDS db1 = Inr (db', row)" "Some t = map_option row_to_task row"
    by (rule claim_scan_Inr [OF assms(2)])
  obtain u0 where u0: "row = Some u0" "t = row_to_task u0"
    using row(2) by (cases row) auto
  obtain u where u: "eligible c' locked ObserverScan [LInteractive, LBackground] db1 u"
    "u0 = claim_row c' w (max 5 OBSERVER_SCAN_LEASE_SECONDS) u"
    using claim_first_Some [OF row(1) [unfolded u0(1)]] by blast
  then obtain v where v: "v \<in> set (tasks db)"
    "u = (if waiting_scan v \<and> barrier_open db v then release_row c v else v)"
    using release_Inr [OF db1] by (auto simp: eligible_def)
  have "t_id v = t_id t" "t_type v = ObserverScan" "claimable (t_status v)" "t_status t = Running"
    "t_available_at v \<le> clk c' \<or> waiting_scan v \<and> barrier_open db v"
    using u v(2) u0(2)
    by (auto simp: eligible_def claim_candidate_def claim_row_def row_to_task_def release_row_def split: if_splits)
  then show thesis
    using that v(1) by blast
qed

lemma open_barrier_claimed:
  assumes "claim_observer_scan c c' locked w db = Inr (db', tk)" "s \<in> set (tasks db)" "waiting_scan s" "barrier_open db s"
    and "t_cancel_requested_at s = None" "t_lane s \<in> {LInteractive, LBackground}" "clk c \<le> clk c'"
    and "clk c' < clk c + secs OBSERVER_SCAN_DEADLINE_SECONDS" "t_id s \<notin> set locked" "\<not> maintenance c' db"
  shows "tk \<noteq> None"
proof
  assume none: "tk = None"
  obtain db1 row where db1: "release_scan_barriers c db = Inr db1"
    and row: "claim_first c' locked (claim_gate c' ObserverScan db1) ObserverScan [LInteractive, LBackground] w
       OBSERVER_SCAN_LEASE_SECONDS db1 = Inr (db', row)" "tk = map_option row_to_task row"
    by (rule claim_scan_Inr [OF assms(1)])
  have "\<not> eligible c' locked ObserverScan [LInteractive, LBackground] db1 (release_row c s)"
    using row none claim_first_None by auto
  moreover have "release_row c s \<in> set (tasks db1)"
    using release_Inr [OF db1] assms(2-4) by force
  moreover have "claim_gate c' ObserverScan db1"
    using assms(10) release_Inr [OF db1]
    by (simp add: claim_gate_def BROWSER_READY_CLAIM_TASK_TYPES_def maintenance_def)
  moreover have "t_id (release_row c s) = t_id s"
    by (simp add: release_row_def)
  ultimately show False
    using released_candidate [OF assms(3,5-8)] assms(9) by (simp add: eligible_def)
qed

text \<open>
  C25. The dependency barrier: a scan parked until other tasks are closed is claimed only when no task
  it names is left in the queue in a status other than succeeded, failed or cancelled. Conversely, once
  that is so, a claim that is not held up (the browser is not under maintenance, no other transaction
  holds the row, the scan is not cancelled) finds work, and takes this very scan when it is the only scan
  in the queue that waits to be claimed.
\<close>

theorem scan_waits_exactly_for_dependencies:
  assumes "queue_inv db" "s \<in> set (tasks db)" "waiting_scan s" "clk c' < t_available_at s"
    and "claim_observer_scan c c' locked w db = Inr (db', tk)"
  shows "(\<forall>t. tk = Some t \<and> t_id t = t_id s \<longrightarrow> dependencies_closed db s) \<and>
    (dependencies_closed db s \<and> t_cancel_requested_at s = None \<and> t_lane s \<in> {LInteractive, LBackground} \<and>
     clk c \<le> clk c' \<and> clk c' < clk c + secs OBSERVER_SCAN_DEADLINE_SECONDS \<and>
     t_id s \<notin> set locked \<and> \<not> maintenance c' db \<longrightarrow>
       (\<exists>t. tk = Some t \<and> t_status t = Running \<and>
          ((\<forall>u \<in> set (tasks db). t_type u = ObserverScan \<and> t_status u \<in> {Pending, Retrying} \<longrightarrow> u = s) \<longrightarrow>
           t_id t = t_id s)))"
proof -
  have ok: "None \<notin> set (map dependency_id (dependency_values s))"
    using claim_scan_Inr [OF assms(5)] released_none_bad assms(2,3) by metis
  have closed: "dependencies_closed db s \<longleftrightarrow> barrier_open db s"
    using barrier_open_iff [OF ok] by simp
  have "barrier_open db s" if t: "tk = Some t" "t_id t = t_id s" for t
    using claim_scan_row [OF assms(1) assms(5) [unfolded t(1)]] row_unique [OF assms(1) _ assms(2)] t(2) assms(4)
    by (metis linorder_not_le)
  moreover have "\<exists>t. tk = Some t \<and> t_status t = Running \<and>
      ((\<forall>u \<in> set (tasks db). t_type u = ObserverScan \<and> t_status u \<in> {Pending, Retrying} \<longrightarrow> u = s) \<longrightarrow> t_id t = t_id s)"
    if some: "tk \<noteq> None"
  proof -
    obtain t where t: "tk = Some t"
      using some by blast
    obtain v where "v \<in> set (tasks db)" "t_id v = t_id t" "t_type v = ObserverScan" "claimable (t_status v)"
      "t_status t = Running"
      by (rule claim_scan_row [OF assms(1) assms(5) [unfolded t]])
    then show ?thesis
      using t by (auto simp: claimable_def)
  qed
  ultimately show ?thesis
    using closed open_barrier_claimed [OF assms(5,2,3)] by blast
qed

section \<open>Worked scans\<close>

definition sample_scan :: scan_request where
  "sample_scan = \<lparr>sr_requested_by = ''api'', sr_reason = ''refresh'', sr_idempotency_key = ''scan-1'',
     sr_available_at = None, sr_dependency_task_ids = [1], sr_lane = ''interactive'', sr_priority = 75\<rparr>"

definition parked_scan :: task where
  "parked_scan = new_task (q_clock 20) (scan_create_args (q_clock 20) sample_scan ''api'' ''refresh'' 100)
     ObserverScan Pending LInteractive 10 100"

definition scan_db :: qdb where
  "scan_db = (q_db [q_done, parked_scan])\<lparr>next_id := 11, ops := q_ops\<lparr>next_uuid := 101\<rparr>,
     wakeups := [(10, ObserverScan, LInteractive)]\<rparr>"

lemmas scan_defs = sample_scan_def scan_create_args_def scan_payload_def scan_dependencies_def scan_available_at_def
  OBSERVER_SCAN_TASK_TYPE_def OBSERVER_SCAN_DEADLINE_SECONDS_def OBSERVER_SCAN_BARRIER_PARK_DAYS_def
  OBSERVER_SCAN_LEASE_SECONDS_def

lemma strip_samples: "py_strip ''api'' = ''api''" "py_strip ''refresh'' = ''refresh''" "py_strip ''scan-2'' = ''scan-2''"
  by code_simp+

lemma sample_enqueue:
  "enqueue_observer_scan (q_clock 20) sample_scan (q_db [q_done]) =
     Inr (scan_db, \<lparr>rc_task_id = 10, rc_created = True, rc_correlation_id = 100\<rparr>)"
  by (simp add: enqueue_observer_scan_def create_task_def TASK_TYPES_def TASK_STATUSES_def TASK_LANES_def
      create_lane_def meta_account_identity_def scan_db_def parked_scan_def q_done_def scan_defs q_defs
      strip_samples Let_def)

theorem scan_publication_idempotent_witness:
  "\<exists>db3. enqueue_observer_scan (q_clock 500) sample_scan scan_db =
     Inr (db3, \<lparr>rc_task_id = 10, rc_created = False, rc_correlation_id = 100\<rparr>) \<and> tasks db3 = tasks scan_db"
proof -
  have "queue_inv (q_db [q_done])"
    by (simp add: queue_inv_def q_done_def q_defs)
  then show ?thesis
    using scan_publication_idempotent [OF _ sample_enqueue, of scan_db "q_clock 500"] by simp
qed

lemma sample_retry:
  "\<exists>db' rc. enqueue_scan_retry (q_clock 20) ''api'' ''scan-2'' ''refresh'' (q_db []) = Inr (db', rc) \<and> cr_created rc"
  by (simp add: enqueue_scan_retry_def operator_scan_request_def enqueue_observer_scan_def create_task_def
      TASK_TYPES_def TASK_STATUSES_def TASK_LANES_def create_lane_def meta_account_identity_def
      task_by_id_def task_receipt_def scan_defs q_defs strip_samples Let_def)

theorem scan_publishers_keep_singleton_witness:
  "\<exists>db' rc. enqueue_scan_retry (q_clock 20) ''api'' ''scan-2'' ''refresh'' (q_db []) = Inr (db', rc) \<and>
     runnable_scans db' = 1"
proof -
  have "runnable_scans (q_db []) = 0"
    by (simp add: runnable_scans_def q_db_def)
  then show ?thesis
    using sample_retry scan_publishers_keep_singleton [of "q_db []" "q_clock 20" True "''t''" "''api''" "''scan-2''" "''refresh''"]
    by fastforce
qed

lemma sample_claim:
  "\<exists>db' tk. claim_observer_scan (q_clock 30) (q_clock 31) [] 77 scan_db = Inr (db', tk)"
  by (simp add: claim_observer_scan_def release_scan_barriers_def waiting_scan_def dependency_values_def
      barrier_open_def release_row_def claim_next_task_def claim_first_def claim_candidate_def claimable_def
      TASK_TYPES_def TASK_LANES_def BROWSER_READY_CLAIM_TASK_TYPES_def BROWSER_BACKED_TASK_TYPES_def
      maintenance_def transition_correlated_incident_def phase_projection_def update_tasks_def terminal_def
      map_filter_simps jmerge_def scan_db_def parked_scan_def q_done_def scan_defs q_defs Let_def)

theorem scan_waits_exactly_for_dependencies_witness:
  "\<exists>db' t. claim_observer_scan (q_clock 30) (q_clock 31) [] 77 scan_db = Inr (db', Some t) \<and> t_id t = 10"
proof -
  have rows: "tasks scan_db = [q_done, parked_scan]" "t_type q_done \<noteq> ObserverScan" "t_id parked_scan = 10"
    "t_status q_done = Succeeded" "dependency_values parked_scan = [JNum 1]" "t_id parked_scan \<noteq> 1"
    by (simp_all add: scan_db_def parked_scan_def dependency_values_def q_done_def scan_defs q_defs)
  have "queue_inv scan_db" "waiting_scan parked_scan" "clk (q_clock 31) < t_available_at parked_scan"
    "t_cancel_requested_at parked_scan = None" "t_lane parked_scan = LInteractive" "\<not> maintenance (q_clock 31) scan_db"
    "clk (q_clock 30) \<le> clk (q_clock 31)"
    "clk (q_clock 31) < clk (q_clock 30) + secs OBSERVER_SCAN_DEADLINE_SECONDS"
    by (simp_all add: queue_inv_def scan_db_def parked_scan_def waiting_scan_def claimable_def
        dependency_values_def maintenance_def q_done_def scan_defs q_defs)
  moreover obtain db' tk where claim: "claim_observer_scan (q_clock 30) (q_clock 31) [] 77 scan_db = Inr (db', tk)"
    using sample_claim by blast
  ultimately have "\<exists>t. tk = Some t \<and> t_id t = 10"
    using scan_waits_exactly_for_dependencies [of scan_db parked_scan "q_clock 31" "q_clock 30" "[]" 77 db' tk] rows
    by (auto simp: dependencies_closed_def)
  then show ?thesis
    using claim by blast
qed

end
