(* ===== verification/MetaCommandProps.thy ===== *)
theory MetaCommandProps
  imports MetaCommands TaskQueueProps
begin

text \<open>
  Properties of the Meta command payload and of the transaction that closes a Meta task: the JSON
  form of a payload reads back as the payload, and the terminal state of the task and the alert
  state of the advertisements it touched are committed together or not at all.
\<close>

section \<open>Account identity\<close>

lemma digit_not_space: "is_digit ch \<Longrightarrow> \<not> py_space ch"
  by (auto simp: is_digit_def py_space_def Let_def)

lemma strip_id:
  assumes "list_all (\<lambda>ch. \<not> py_space ch) s"
  shows "py_strip s = s"
proof -
  have "dropWhile py_space xs = xs" if "list_all (\<lambda>ch. \<not> py_space ch) xs" for xs
    using that by (cases xs) auto
  then show ?thesis
    using assms by (simp add: py_strip_def list_all_rev)
qed

lemma digits_strip: "list_all is_digit s \<Longrightarrow> py_strip s = s"
  by (rule strip_id) (auto simp: list_all_iff digit_not_space)

lemma digits_no_prefix:
  assumes "list_all is_digit s"
  shows "py_lower (take 4 s) \<noteq> ''act_''"
proof (cases s)
  case (Cons ch cs)
  have "lower_char ch \<noteq> CHR ''a''"
    using assms Cons by (auto simp: lower_char_def is_digit_def Let_def)
  then show ?thesis
    using Cons by (simp add: py_lower_def)
qed (simp add: py_lower_def)

lemma account_id_digits:
  "require_ad_account_id v = Inr a \<Longrightarrow> 1 \<le> length a \<and> length a \<le> 32 \<and> list_all is_digit a"
  by (auto simp: require_ad_account_id_def Let_def split: json.splits if_splits)

lemma account_id_canonical:
  assumes "require_ad_account_id v = Inr a"
  shows "require_ad_account_id (JStr a) = Inr a"
  using account_id_digits [OF assms] digits_strip digits_no_prefix
  by (simp add: require_ad_account_id_def Let_def)

section \<open>The payload\<close>

definition nonempty_opt :: "string option \<Rightarrow> bool" where
  "nonempty_opt v \<longleftrightarrow> v \<noteq> Some []"

lemma opt_str_json: "nonempty_opt v \<Longrightarrow> opt_str (opt_json v) = v"
  by (cases v) (auto simp: opt_str_def opt_json_def nonempty_opt_def py_str_def)

lemma json_iter_strings: "json_iter (JArr (map JStr ss)) = Inr (map JStr ss)"
  by (cases ss) (simp_all add: json_iter_def)

lemma params_dict_obj: "params_dict (JObj ob) = Inr ob"
  by (cases ob) (simp_all add: params_dict_def)

lemma make_payload_Inr:
  "make_payload kind target account params currency tz observed issues = Inr p \<Longrightarrow>
     kind \<in> set MUTATION_KINDS \<and> require_ad_account_id account = Inr (mp_ad_account_id p) \<and>
     p = \<lparr>mp_mutation_kind = kind, mp_target_id = target, mp_ad_account_id = mp_ad_account_id p, mp_params = params,
          mp_currency = currency, mp_cabinet_timezone = tz, mp_account_context_observed_at = observed,
          mp_account_context_issues = issues\<rparr>"
  by (auto simp: make_payload_def err_simps split: if_splits)

text \<open>
  C21. A payload survives the queue: whatever account notation it was built from, the JSON object a
  payload is stored as reads back as the same payload, with the canonical numeric account; only an
  empty optional text would come back as absent. The stored object also satisfies the table's
  constraint on the account and carries the kind the scheduler derives the lane from, so that an
  automatic pause is queued in the money lane.
\<close>

theorem payload_roundtrip:
  assumes "make_payload kind target account params currency tz observed issues = Inr p"
    and "nonempty_opt currency" "nonempty_opt tz" "nonempty_opt observed"
  shows "from_dict (to_dict p) = Inr p \<and> meta_account_identity MetaApiMutation (to_dict p) \<and>
    mutation_kind (to_dict p) = kind \<and>
    (kind = ''pause_ad'' \<longrightarrow> infer_task_lane MetaApiMutation (to_dict p) ''bot_auto_stop'' = LMoney)"
proof -
  note p = make_payload_Inr [OF assms(1)]
  define a where "a = mp_ad_account_id p"
  have a: "require_ad_account_id (JStr a) = Inr a" "a \<noteq> []" "list_all is_digit a"
    using p account_id_canonical account_id_digits unfolding a_def by fastforce+
  have p': "p = \<lparr>mp_mutation_kind = kind, mp_target_id = target, mp_ad_account_id = a, mp_params = params,
      mp_currency = currency, mp_cabinet_timezone = tz, mp_account_context_observed_at = observed,
      mp_account_context_issues = issues\<rparr>"
    using p unfolding a_def by blast
  have "kind \<noteq> []" "kind \<in> set MUTATION_KINDS"
    using p by (auto simp: MUTATION_KINDS_def)
  then have kind: "mutation_kind (to_dict p) = kind" "kind \<in> set MUTATION_KINDS"
    unfolding p' by (simp_all add: mutation_kind_def str_or_empty_def to_dict_def py_str_def)
  have py: "map py_str (map JStr issues) = issues"
    by (simp add: py_str_def comp_def)
  have "from_dict (to_dict p) = Inr p"
    unfolding p' from_dict_def to_dict_def Let_def
    using a kind(2) assms(2-4)
    by (simp add: params_dict_obj json_iter_strings opt_str_json make_payload_def py py_str_def comp_def)
  moreover have "meta_account_identity MetaApiMutation (to_dict p)"
    unfolding p' using a by (simp add: meta_account_identity_def to_dict_def)
  ultimately show ?thesis
    using kind(1) by (simp add: infer_task_lane_def)
qed

section \<open>The projection\<close>



definition projected :: "bool \<Rightarrow> ad_alert_row \<Rightarrow> ad_alert_row \<Rightarrow> bool" where
  "projected stop r r' \<longleftrightarrow> r' = r \<or>
     (if stop then ar_state r \<in> {WarningSent, StopSent, Claimed} \<and> ar_state r' = Disabled
        \<and> ar_token r' = ar_token r \<and> ar_stop_rule_codes r' = ar_stop_rule_codes r
      else ar_state r = Disabled \<and> ar_state r' = Normal \<and> ar_token r' = None)"

definition projects :: "bool \<Rightarrow> string set \<Rightarrow> alert_table \<Rightarrow> alert_table \<Rightarrow> bool" where
  "projects stop ads tbl tbl' \<longleftrightarrow>
     (\<forall>x. case tbl x of None \<Rightarrow> tbl' x = None
        | Some r \<Rightarrow> (\<exists>r'. tbl' x = Some r' \<and> projected stop r r' \<and> (r' \<noteq> r \<longrightarrow> x \<in> ads)))"

lemma projects_refl [simp]: "projects stop ads tbl tbl"
  by (simp add: projects_def projected_def split: option.split)









section \<open>Closing a Meta task\<close>

lemma fenced_result:
  assumes "fenced c i ow k P f cont miss db = Inr (db', r)"
  shows "db' = db \<and> r = miss \<or>
    (\<exists>t \<in> set (tasks db). fence_live c i ow k t \<and> P t \<and>
       cont (f t) (fst (update_tasks (\<lambda>t. fence_live c i ow k t \<and> P t) f db)) = Inr (db', r))"
proof -
  let ?Q = "\<lambda>t. fence_live c i ow k t \<and> P t"
  show ?thesis
  proof (cases "filter ?Q (tasks db)")
    case Nil
    then show ?thesis
      using assms by (auto simp: fenced_def update_tasks_def split: if_splits)
  next
    case (Cons t ts)
    then have "t \<in> set (tasks db) \<and> ?Q t"
      using filter_set [of ?Q "tasks db"] by auto
    then show ?thesis
      using assms Cons by (auto simp: fenced_def update_tasks_def split: if_splits)
  qed
qed

lemma fenced_row:
  assumes "fenced c i ow k P f cont miss db = Inr (db', r)" "keeps_tasks cont"
  shows "db' = db \<and> r = miss \<or> (\<exists>t \<in> set (tasks db). t_id t = i \<and> P t \<and> f t \<in> set (tasks db'))"
proof -
  let ?Q = "\<lambda>t. fence_live c i ow k t \<and> P t"
  have "f t \<in> set (tasks db')"
    if "t \<in> set (tasks db)" "?Q t" "cont (f t) (fst (update_tasks ?Q f db)) = Inr (db', r)" for t
  proof -
    have "tasks db' = tasks (fst (update_tasks ?Q f db))"
      using that(3) assms(2) unfolding keeps_tasks_def by blast
    then show ?thesis
      using that(1,2) by (auto intro: image_eqI [of _ _ t])
  qed
  then show ?thesis
    using fenced_result [OF assms(1)] by (auto simp: fence_live_def)
qed

lemma mark_succeeded_result:
  assumes "mark_succeeded c i res ow k eff db = Inr (db', r)"
  shows "if r then \<exists>t \<in> set (tasks db'). t_id t = i \<and> t_status t = Succeeded \<and> t_result t = Some (obj_or_empty res)
         else db' = db"
proof (cases r)
  case True
  then show ?thesis
    using fenced_row [OF assms [unfolded mark_succeeded_def] keeps_effect] by (auto intro: rev_bexI)
next
  case False
  then show ?thesis
    using fenced_result [OF assms [unfolded mark_succeeded_def]]
    by (auto simp: err_simps dest!: commit_frame)
qed

lemma mark_failed_result:
  assumes "mark_failed c i err (Some res) ow k eff db = Inr (db', r)"
  shows "if r then \<exists>t \<in> set (tasks db'). t_id t = i \<and> t_status t = Failed \<and> t_result t = Some res
         else db' = db"
proof (cases r)
  case True
  then show ?thesis
    using fenced_row [OF assms [unfolded mark_failed_def] keeps_effect] by (auto intro: rev_bexI)
next
  case False
  then show ?thesis
    using fenced_result [OF assms [unfolded mark_failed_def]]
    by (auto simp: err_simps dest!: commit_frame)
qed

lemma with_alerts_Inr:
  assumes "with_alerts queue_op eff db = Inr (db', r)"
  shows "\<exists>e. queue_op e (mq db) = Inr (mq db', r) \<and>
    (if r then eff (alerts db) = Inr (alerts db') else alerts db' = alerts db)"
  using assms by (auto simp: with_alerts_def err_simps split: if_splits)

text \<open>A live or failing projection: what \<open>persist_enable_grace\<close> adds is not an alert state.\<close>

lemma grace_keeps_state:
  "grace_effect now prepared tbl x = Some r' \<Longrightarrow>
     (case tbl x of Some r \<Rightarrow> ar_state r' = ar_state r \<and> ar_token r' = ar_token r | None \<Rightarrow> ar_state r' = Normal)"
  by (cases prepared)
    (auto simp: grace_effect_def persist_enable_grace_def grace_columns_def split: option.splits if_splits)

text \<open>
  C22. A Meta task is closed atomically: confirming it (or failing it with per-advertisement
  evidence) either raises and commits nothing; or is refused, because the caller's fence is not
  live, and changes neither the queue nor any alert state; or stores the terminal state and result
  of the task together with the projection of that result onto the alert states.
\<close>

theorem meta_task_closes_atomically:
  assumes "mark_confirmed_with_grace c task p res prepared db = Inr (db', applied) \<and> st = Succeeded \<and>
       eff = (\<lambda>tbl. sync_fsm_after_mutation_in_transaction (tx_now c) p (Some res) (grace_effect (tx_now c) prepared tbl)) \<or>
     mark_failed_with_fsm c task p err res db = Inr (db', applied) \<and> st = Failed \<and>
       eff = sync_fsm_after_mutation_in_transaction (tx_now c) p (Some res)"
  shows "if applied
    then (\<exists>t \<in> set (tasks (mq db')). t_id t = t_id task \<and> t_status t = st \<and> t_result t = Some res) \<and>
         eff (alerts db) = Inr (alerts db')
    else db' = db"
  using assms
proof (elim disjE conjE)
  assume h: "mark_confirmed_with_grace c task p res prepared db = Inr (db', applied)" "st = Succeeded"
    and eff: "eff = (\<lambda>tbl. sync_fsm_after_mutation_in_transaction (tx_now c) p (Some res) (grace_effect (tx_now c) prepared tbl))"
  obtain e where e: "mark_succeeded c (t_id task) (Some res) (t_lease_owner task) (Some (t_lease_token task)) e (mq db)
      = Inr (mq db', applied)" "if applied then eff (alerts db) = Inr (alerts db') else alerts db' = alerts db"
    using with_alerts_Inr [OF h(1) [unfolded mark_confirmed_with_grace_def]] unfolding eff by blast
  show ?thesis
    using mark_succeeded_result [OF e(1)] e(2) h(2) by (cases applied) simp_all
next
  assume h: "mark_failed_with_fsm c task p err res db = Inr (db', applied)" "st = Failed"
    and eff: "eff = sync_fsm_after_mutation_in_transaction (tx_now c) p (Some res)"
  obtain e where e: "mark_failed c (t_id task) err (Some res) (t_lease_owner task) (Some (t_lease_token task)) e (mq db)
      = Inr (mq db', applied)" "if applied then eff (alerts db) = Inr (alerts db') else alerts db' = alerts db"
    using with_alerts_Inr [OF h(1) [unfolded mark_failed_with_fsm_def]] unfolding eff by blast
  show ?thesis
    using mark_failed_result [OF e(1)] e(2) h(2) by (cases applied) simp_all
qed


section \<open>A worked command\<close>

definition sample_payload :: meta_payload where
  "sample_payload = \<lparr>mp_mutation_kind = ''pause_ad'', mp_target_id = ''42'', mp_ad_account_id = ''9'', mp_params = [],
     mp_currency = Some ''USD'', mp_cabinet_timezone = None, mp_account_context_observed_at = None,
     mp_account_context_issues = [''cabinet_timezone_unknown'']\<rparr>"

lemma sample_payload_made:
  "make_payload ''pause_ad'' ''42'' (JStr ''act_9'') [] (Some ''USD'') None None [''cabinet_timezone_unknown''] = Inr sample_payload"
  by code_simp

theorem payload_roundtrip_witness:
  "from_dict (to_dict sample_payload) = Inr sample_payload \<and>
   infer_task_lane MetaApiMutation (to_dict sample_payload) ''bot_auto_stop'' = LMoney"
  using payload_roundtrip [OF sample_payload_made] by (simp add: nonempty_opt_def)

definition sample_meta_db :: meta_db where
  "sample_meta_db = \<lparr>mq = q_db [q_running], alerts = (\<lambda>_. None)(''42'' := Some (sample_alert_row StopSent (Some 5)))\<rparr>"

lemma sample_confirm:
  "case mark_confirmed_with_grace (q_clock 20) q_running sample_payload [(''outcome'', JStr ''CONFIRMED'')] None sample_meta_db of
     Inr (_, applied) \<Rightarrow> applied | Inl _ \<Rightarrow> False"
  by code_simp

theorem meta_task_closes_atomically_witness:
  "\<exists>db'. mark_confirmed_with_grace (q_clock 20) q_running sample_payload [(''outcome'', JStr ''CONFIRMED'')] None sample_meta_db
       = Inr (db', True) \<and>
     (\<exists>t \<in> set (tasks (mq db')). t_id t = 1 \<and> t_status t = Succeeded) \<and>
     map_option ar_state (alerts db' ''42'') = Some Disabled"
proof -
  let ?r = "[(''outcome'', JStr ''CONFIRMED'')]"
  obtain db' where ok: "mark_confirmed_with_grace (q_clock 20) q_running sample_payload ?r None sample_meta_db = Inr (db', True)"
    using sample_confirm by (auto split: sum.splits)
  have closed: "(\<exists>t \<in> set (tasks (mq db')). t_id t = t_id q_running \<and> t_status t = Succeeded \<and> t_result t = Some ?r) \<and>
      sync_fsm_after_mutation_in_transaction (tx_now (q_clock 20)) sample_payload (Some ?r)
        (grace_effect (tx_now (q_clock 20)) None (alerts sample_meta_db)) = Inr (alerts db')"
    using meta_task_closes_atomically [OF disjI1, OF conjI, OF ok conjI, OF refl refl] by simp
  have "sync_fsm_after_mutation_in_transaction n sample_payload (Some ?r) (grace_effect n None (alerts sample_meta_db))
      = Inr (reset_disabled_in_transaction n ''42'' (alerts sample_meta_db))" for n
    by (simp add: sync_fsm_after_mutation_in_transaction_def sample_payload_def grace_effect_def)
  then have "alerts db' = reset_disabled_in_transaction (tx_now (q_clock 20)) ''42'' (alerts sample_meta_db)"
    using closed by simp
  then have "map_option ar_state (alerts db' ''42'') = Some Disabled"
    by (simp add: reset_disabled_in_transaction_def sample_meta_db_def sample_alert_row_def disabled_row_def)
  moreover have "t_id q_running = 1"
    by (simp add: q_defs)
  ultimately show ?thesis
    using ok closed by auto
qed


end
