(* ===== verification/AutoStopProps.thy ===== *)
theory AutoStopProps
  imports AutoStopGate ScanProps MetaCommandProps
begin

text \<open>
  What the freshness gate guarantees and what it costs: an automatic stop reaches Meta only on the
  latest confirmed decision, a deferred stop keeps its attempts; but a stop that is not executed
  between two scans is never executed, because the second scan erases the codes the gate asks for.
\<close>

section \<open>The latest row\<close>

lemma snapshot_metric_latest:
  "snapshot_metric ad ms = Some m \<Longrightarrow>
     m \<in> set ms \<and> am_fb_ad_id m = ad \<and> (\<forall>n \<in> set ms. am_fb_ad_id n = ad \<longrightarrow> am_cycle_ts n \<le> am_cycle_ts m)"
proof (induction ms arbitrary: m)
  case (Cons x ms)
  show ?case
  proof (cases "snapshot_metric ad ms")
    case None
    have "am_fb_ad_id n \<noteq> ad" if "n \<in> set ms" for n
    proof -
      have "snapshot_metric ad ns = None \<Longrightarrow> \<forall>n \<in> set ns. am_fb_ad_id n \<noteq> ad" for ns
        by (induction ns) (auto split: option.splits if_splits)
      then show ?thesis
        using None that by blast
    qed
    then show ?thesis
      using Cons.prems None by (auto split: if_splits)
  next
    case (Some n)
    then show ?thesis
      using Cons.prems Cons.IH [OF Some] by (fastforce split: if_splits)
  qed
qed simp

lemma latest_scan_run_None:
  "latest_scan_run account ss = None \<Longrightarrow> s \<in> set ss \<Longrightarrow> account \<noteq> None \<Longrightarrow> sn_ad_account_id s \<noteq> account"
  by (induction ss) (auto simp: Let_def split: option.splits if_splits)

lemma latest_scan_run_latest:
  "latest_scan_run account ss = Some u \<Longrightarrow>
     u \<in> set ss \<and> account \<noteq> None \<and> sn_ad_account_id u = account \<and>
     (\<forall>s \<in> set ss. sn_ad_account_id s = account \<longrightarrow> sn_started_at s \<le> sn_started_at u)"
proof (induction ss arbitrary: u)
  case (Cons x ss)
  show ?case
  proof (cases "latest_scan_run account ss")
    case None
    then show ?thesis
      using Cons.prems latest_scan_run_None [OF None] by (auto simp: Let_def split: if_splits)
  next
    case (Some v)
    then show ?thesis
      using Cons.prems Cons.IH [OF Some] by (fastforce simp: Let_def split: if_splits)
  qed
qed simp

section \<open>Safety\<close>

text \<open>
  C19. An automatic stop is executed on a fresh decision only: when processing of an observer's pause
  goes on to Meta, the newest metric of the advertisement is at most sixty seconds old and in USD,
  the newest scan run of its cabinet is finished, successful and the one that wrote that metric,
  and the alert state is the stop decided by that very scan. A pause is never sent for an
  advertisement that recovered, was disabled or claimed, or whose cabinet is being scanned again.
\<close>

theorem auto_stop_needs_fresh_decision:
  assumes "needs_fresh_snapshot task p" "auto_stop_gate c task p ev db = Inr (db', True)"
  shows "db' = db \<and>
    (\<exists>m \<in> set (ed_metrics ev). am_fb_ad_id m = mp_target_id p \<and> am_currency m = Some ''USD'' \<and>
       (\<forall>n \<in> set (ed_metrics ev). am_fb_ad_id n = mp_target_id p \<longrightarrow> am_cycle_ts n \<le> am_cycle_ts m) \<and>
       py_now c - secs 60 \<le> am_cycle_ts m \<and> am_cycle_ts m \<le> py_now c \<and>
       (\<exists>run \<in> set (ed_scan_runs ev). sn_outcome run = Some ''success'' \<and> am_scan_id m = Some (sn_scan_id run) \<and>
          (\<exists>f. sn_finished_at run = Some f \<and> f \<le> py_now c) \<and>
          (\<forall>s \<in> set (ed_scan_runs ev). sn_ad_account_id s = sn_ad_account_id run \<longrightarrow>
             sn_started_at s \<le> sn_started_at run) \<and>
          (\<exists>r. ed_alerts ev (mp_target_id p) = Some r \<and> ar_state r = StopSent \<and>
             ar_last_scan_id r = Some (sn_scan_id run) \<and> ar_stop_rule_codes r \<noteq> [])))"
proof -
  have gate: "db' = db" "sf_fresh (load_meta_snapshot_freshness (py_now c) (mp_target_id p) ev)"
    using assms by (auto simp: auto_stop_gate_def err_simps split: if_splits)
  then obtain account offer m where m: "snapshot_metric (mp_target_id p) (ed_metrics ev) = Some m"
    "decision_confirmed (py_now c) m account offer ev"
    "snapshot_is_fresh (Some (am_cycle_ts m)) True (py_now c)"
    by (auto simp: load_meta_snapshot_freshness_def Let_def snapshot_is_fresh_def split: option.splits prod.splits)
  note latest = snapshot_metric_latest [OF m(1)]
  from m(2) obtain run r where run: "latest_scan_run account (ed_scan_runs ev) = Some run"
    "am_scan_id m = Some (sn_scan_id run)" "sn_outcome run = Some ''success''"
    "\<exists>f. sn_finished_at run = Some f \<and> f \<le> py_now c" "am_currency m = Some ''USD''"
    "ed_alerts ev (am_fb_ad_id m) = Some r" "ar_state r = StopSent" "ar_last_scan_id r = Some (sn_scan_id run)"
    "ar_stop_rule_codes r \<noteq> []"
    by (auto simp: decision_confirmed_def split: option.splits)
  have "\<exists>r. ed_alerts ev (mp_target_id p) = Some r \<and> ar_state r = StopSent \<and>
      ar_last_scan_id r = Some (sn_scan_id run) \<and> ar_stop_rule_codes r \<noteq> []"
    using run(6-9) latest by simp
  moreover note latest_scan_run_latest [OF run(1)]
  ultimately have "\<exists>run \<in> set (ed_scan_runs ev). sn_outcome run = Some ''success'' \<and> am_scan_id m = Some (sn_scan_id run) \<and>
      (\<exists>f. sn_finished_at run = Some f \<and> f \<le> py_now c) \<and>
      (\<forall>s \<in> set (ed_scan_runs ev). sn_ad_account_id s = sn_ad_account_id run \<longrightarrow> sn_started_at s \<le> sn_started_at run) \<and>
      (\<exists>r. ed_alerts ev (mp_target_id p) = Some r \<and> ar_state r = StopSent \<and>
         ar_last_scan_id r = Some (sn_scan_id run) \<and> ar_stop_rule_codes r \<noteq> [])"
    using run(2-4) by (intro bexI [of _ run]) simp_all
  moreover have "py_now c - secs 60 \<le> am_cycle_ts m \<and> am_cycle_ts m \<le> py_now c"
    using m(3) by (simp add: snapshot_is_fresh_def MAX_AUTO_PAUSE_SNAPSHOT_AGE_SECONDS_def)
  ultimately show ?thesis
    using gate(1) latest run(5) by (intro conjI bexI [of _ m]) simp_all
qed

section \<open>Deferral\<close>

lemma refresh_key:
  "\<exists>key. observer_scan_idempotency_key ''auto-stop-refresh'' v = Inr key \<and> key \<noteq> [] \<and> length key \<le> 128"
  by (auto simp: observer_scan_idempotency_key_def py_strip_def py_space_def py_lower_def Let_def)

lemma refresh_keeps_rows:
  assumes "request_refresh_scan c i db = Inr (db', r)"
  shows "r \<and> (tasks db' = tasks db \<or> (\<exists>s. tasks db' = tasks db @ [s] \<and> t_type s = ObserverScan))"
proof -
  obtain key rc where "enqueue_observer_scan c (refresh_request key) db = Inr (db', rc)" r
    using assms by (auto simp: request_refresh_scan_def err_simps)
  then show ?thesis
    by (cases rule: enqueue_scan_Inr) auto
qed

text \<open>
  A deferred stop keeps its attempts: when the gate holds back a pause whose lease is live, the
  task returns to the queue available in fifteen seconds, without a deadline, with the same attempt
  count, lease token and payload; every other task is as it was, and at most one scan task is added.
\<close>

theorem deferral_costs_no_attempt:
  assumes "auto_stop_gate c task p ev db = Inr (db', False)" "queue_inv db"
    and "t \<in> set (tasks db)" "t_external_started_at t = None" "t_lease_token t > 0"
    and "fence_live c (t_id task) (t_lease_owner task) (Some (t_lease_token task)) t"
  shows "\<exists>t'. t' \<in> set (tasks db') \<and> t_id t' = t_id t \<and> t_status t' = Retrying \<and>
      t_attempt_count t' = t_attempt_count t \<and> t_lease_token t' = t_lease_token t \<and> t_payload t' = t_payload t \<and>
      t_available_at t' = tx_now c + secs 15 \<and> t_deadline_at t' = None \<and>
      (\<exists>extra. tasks db' = map (\<lambda>u. if t_id u = t_id t then t' else u) (tasks db) @ extra \<and>
         length extra \<le> 1 \<and> list_all (\<lambda>s. t_type s = ObserverScan) extra)"
proof -
  let ?Q = "\<lambda>u. fence_live c (t_id task) (t_lease_owner task) (Some (t_lease_token task)) u \<and> t_external_started_at u = None"
  let ?f = "deferred_row c 15"
  have valid: "has_valid_fence (t_lease_owner task) (Some (t_lease_token task))"
    using assms(5,6) by (auto simp: has_valid_fence_def fence_live_def)
  obtain b where b: "defer_auto_stop_for_fresh_snapshot c (t_id task) 15 (t_lease_owner task) (Some (t_lease_token task)) db = Inr (db', b)"
    using assms(1) by (auto simp: auto_stop_gate_def err_simps split: if_splits)
  have "filter ?Q (tasks db) \<noteq> []"
    using assms(3,4,6) by (auto simp: filter_empty_conv)
  then obtain s where s: "request_refresh_scan c (t_id task) (fst (update_tasks ?Q ?f db)) = Inr (db', b)"
    using b valid by (cases "filter ?Q (tasks db)")
      (auto simp: defer_auto_stop_for_fresh_snapshot_def fenced_def update_tasks_def)
  have upd: "map (\<lambda>u. if ?Q u then ?f u else u) (tasks db) = map (\<lambda>u. if t_id u = t_id t then ?f t else u) (tasks db)"
  proof (rule map_cong [OF refl])
    fix u assume u: "u \<in> set (tasks db)"
    show "(if ?Q u then ?f u else u) = (if t_id u = t_id t then ?f t else u)"
    proof (cases "t_id u = t_id t")
      case True
      then have "u = t" using row_unique [OF assms(2) u assms(3)] by simp
      then show ?thesis using assms(4,6) by simp
    next
      case False
      then show ?thesis using assms(6) by (auto simp: fence_live_def)
    qed
  qed
  have "\<exists>extra. tasks db' = map (\<lambda>u. if t_id u = t_id t then ?f t else u) (tasks db) @ extra \<and>
      length extra \<le> 1 \<and> list_all (\<lambda>s. t_type s = ObserverScan) extra"
    using refresh_keeps_rows [OF s] upd by auto
  moreover from this have "?f t \<in> set (tasks db')"
    using assms(3) by auto
  ultimately show ?thesis
    by (intro exI [of _ "?f t"]) (simp add: deferred_row_def)
qed

section \<open>A stop that outlives one scan\<close>

text \<open>The scans of one advertisement, each deciding on the row the one before stored.\<close>

fun observe :: "(row_env \<times> string list \<times> string list) list \<Rightarrow> ad_alert_row option \<Rightarrow> ad_alert_row option" where
  "observe [] r = r"
| "observe ((env, ws, ss) # xs) r = observe xs (ro_db (finish_row env ws ss False r r))"

definition accepted :: "row_env \<Rightarrow> bool" where
  "accepted env \<longleftrightarrow> validated_currency_code (Some (env_currency env)) \<noteq> None \<and> env_fence_held env \<and>
     env_command env = (\<lambda>k. None)"

lemma second_stop_erases_codes:
  assumes "accepted env" "ss \<noteq> []" "ar_state r = StopSent"
  shows "\<exists>r'. ro_db (finish_row env ws ss False (Some r) (Some r)) = Some r' \<and> ar_state r' = StopSent \<and>
    ar_token r' = ar_token r \<and> ar_stop_rule_codes r' = []"
  using assms
  by (simp add: finish_row_def apply_accepted accepted_def Let_def decide_def has_stops_def snapshot_input_def
      quiet_def upsert_alert_state_def stops_from_def suppress_emit_def split: if_splits option.splits)

lemma observe_stops:
  assumes "\<forall>(env, ws, ss) \<in> set xs. accepted env \<and> ss \<noteq> []" "xs \<noteq> []" "ar_state r = StopSent"
  shows "\<exists>r'. observe xs (Some r) = Some r' \<and> ar_state r' = StopSent \<and> ar_token r' = ar_token r \<and>
    ar_stop_rule_codes r' = []"
  using assms
proof (induction xs arbitrary: r)
  case (Cons x xs)
  obtain env ws ss where x: "x = (env, ws, ss)" "accepted env" "ss \<noteq> []"
    using Cons.prems(1) by (cases x) auto
  obtain r1 where r1: "ro_db (finish_row env ws ss False (Some r) (Some r)) = Some r1" "ar_state r1 = StopSent"
    "ar_token r1 = ar_token r" "ar_stop_rule_codes r1 = []"
    using second_stop_erases_codes [OF x(2,3) Cons.prems(3)] by blast
  show ?case
  proof (cases "xs = []")
    case True
    then show ?thesis using x r1 by simp
  next
    case False
    then show ?thesis using Cons.IH [of r1] Cons.prems(1) x r1 by simp
  qed
qed simp

lemma no_codes_not_fresh:
  assumes "ed_alerts ev ad = Some r" "ar_stop_rule_codes r = []"
  shows "\<not> sf_fresh (load_meta_snapshot_freshness checked ad ev)"
  using assms
  by (auto simp: load_meta_snapshot_freshness_def decision_confirmed_def snapshot_is_fresh_def Let_def
      dest: snapshot_metric_latest split: option.splits prod.splits)

text \<open>
  C20. A stop that is not executed before the next scan is never executed: as soon as one more scan of
  an advertisement in the stop state still finds its stop rules broken, the stored decision has an
  empty list of stop codes - however many such scans follow - while its state and token, hence the
  pause command, stay the same; and with that row no clock and no other evidence lets the
  observer's pause pass the gate, which puts it back into the queue instead.
\<close>

theorem repeated_stop_is_never_executed:
  assumes "\<forall>(env, ws, ss) \<in> set xs. accepted env \<and> ss \<noteq> []" "xs \<noteq> []" "ar_state r = StopSent"
    and "observe xs (Some r) = Some r'" "ed_alerts ev (mp_target_id p) = Some r'" "needs_fresh_snapshot task p"
  shows "ar_state r' = StopSent \<and> ar_token r' = ar_token r \<and> auto_stop_gate c task p ev db \<noteq> Inr (db', True)"
proof -
  have r': "ar_state r' = StopSent" "ar_token r' = ar_token r" "ar_stop_rule_codes r' = []"
    using observe_stops [OF assms(1-3)] assms(4) by auto
  then have "\<not> sf_fresh (load_meta_snapshot_freshness (py_now c) (mp_target_id p) ev)"
    using no_codes_not_fresh assms(5) by blast
  then show ?thesis
    using r' assms(6) by (auto simp: auto_stop_gate_def err_simps)
qed

section \<open>The refresh is requested once\<close>

lemma refresh_requested_key:
  assumes "request_refresh_scan c i db = Inr (db', r)"
    and "observer_scan_idempotency_key ''auto-stop-refresh'' (string_of_int i) = Inr key"
  shows "key \<in> set (map t_idempotency_key (tasks db'))"
    "key \<in> set (map t_idempotency_key (tasks db)) \<Longrightarrow> tasks db' = tasks db"
proof -
  obtain rc where rc: "enqueue_observer_scan c (refresh_request key) db = Inr (db', rc)"
    using assms by (auto simp: request_refresh_scan_def err_simps)
  have key: "sr_idempotency_key (refresh_request key) = key"
    by (simp add: refresh_request_def)
  show "key \<in> set (map t_idempotency_key (tasks db'))"
    "key \<in> set (map t_idempotency_key (tasks db)) \<Longrightarrow> tasks db' = tasks db"
    using rc by (cases rule: enqueue_scan_Inr; fastforce simp: key find_Some_iff in_set_conv_nth)+
qed

lemma keys_persist:
  assumes "queue_step\<^sup>*\<^sup>* db db'" "queue_inv db"
  shows "set (map t_idempotency_key (tasks db)) \<subseteq> set (map t_idempotency_key (tasks db'))"
proof
  fix k assume "k \<in> set (map t_idempotency_key (tasks db))"
  then obtain t where "t \<in> set (tasks db)" "t_idempotency_key t = k"
    by auto
  then obtain t' where "t' \<in> set (tasks db')" "t_idempotency_key t' = k"
    using queue_steps_row [OF assms, of t "\<lambda>u. t_idempotency_key u = k"] row_next_id by metis
  then show "k \<in> set (map t_idempotency_key (tasks db'))"
    by auto
qed

lemma enqueue_scan_inv:
  assumes "enqueue_observer_scan c r db = Inr (db', rc)" "queue_inv db"
  shows "queue_inv db'"
proof -
  obtain a ti where "create_task c a db = Inr (db', ti)"
    using assms(1) by (auto simp: enqueue_observer_scan_def Let_def err_simps split: if_splits option.splits)
  then show ?thesis
    using create_rows assms(2) by blast
qed

lemma defer_applied:
  assumes "defer_auto_stop_for_fresh_snapshot c i d ow k db = Inr (db', r)" "queue_inv db"
  shows "queue_inv db' \<and> (db' = db \<and> \<not> r \<or>
    (\<exists>db1. tasks db1 = map (\<lambda>t. if fence_live c i ow k t \<and> t_external_started_at t = None then deferred_row c d t else t) (tasks db) \<and>
       request_refresh_scan c i db1 = Inr (db', r)))"
proof -
  let ?Q = "\<lambda>t. fence_live c i ow k t \<and> t_external_started_at t = None"
  let ?db1 = "fst (update_tasks ?Q (deferred_row c d) db)"
  consider "db' = db" "\<not> r" | "request_refresh_scan c i ?db1 = Inr (db', r)"
    using fenced_result [OF assms(1) [unfolded defer_auto_stop_for_fresh_snapshot_def]] by blast
  then show ?thesis
  proof cases
    case 1
    then show ?thesis using assms(2) by simp
  next
    case 2
    have "row_next t (if ?Q t then deferred_row c d t else t)" for t
      using row_next_running [of c i ow k t "deferred_row c d t"]
      by (simp add: deferred_row_def same_identity_def)
    then have "queue_inv ?db1"
      using assms(2) by (intro queue_inv_map [of db ?db1 "\<lambda>t. if ?Q t then deferred_row c d t else t"]) auto
    then have "queue_inv db'"
      using 2 enqueue_scan_inv by (auto simp: request_refresh_scan_def err_simps)
    moreover have "tasks ?db1 = map (\<lambda>t. if ?Q t then deferred_row c d t else t) (tasks db)"
      by simp
    ultimately show ?thesis using 2 by blast
  qed
qed

text \<open>
  A stop deferred again requests nothing: the key of the refresh scan is the id of the task, so once
  a deferral of a task has been applied, no later deferral of it adds a scan to the queue, not even
  when the first refresh scan has failed, expired or was cancelled long ago.
\<close>

theorem refresh_is_requested_once:
  assumes "queue_inv db" "defer_auto_stop_for_fresh_snapshot c i d ow k db = Inr (db1, True)"
    and "queue_step\<^sup>*\<^sup>* db1 db2" "defer_auto_stop_for_fresh_snapshot c' i d' ow' k' db2 = Inr (db3, r)"
  shows "length (tasks db3) = length (tasks db2)"
proof -
  obtain key where key: "observer_scan_idempotency_key ''auto-stop-refresh'' (string_of_int i) = Inr key"
    using refresh_key by blast
  have inv: "queue_inv db1" "queue_inv db2"
    using defer_applied [OF assms(2,1)] queue_steps_inv [OF assms(3)] by simp_all
  have "key \<in> set (map t_idempotency_key (tasks db1))"
    using defer_applied [OF assms(2,1)] refresh_requested_key(1) [OF _ key] by blast
  then have k2: "key \<in> set (map t_idempotency_key (tasks db2))"
    using keys_persist [OF assms(3) inv(1)] by blast
  have same: "map t_idempotency_key (map (\<lambda>t. if Q t then deferred_row c' d' t else t) ts) = map t_idempotency_key ts" for Q ts
    by (induction ts) (auto simp: deferred_row_def)
  show ?thesis
    using defer_applied [OF assms(4) inv(2)]
  proof (elim conjE disjE exE)
    fix db4 assume db4: "tasks db4 = map (\<lambda>t. if fence_live c' i ow' k' t \<and> t_external_started_at t = None
        then deferred_row c' d' t else t) (tasks db2)" "request_refresh_scan c' i db4 = Inr (db3, r)"
    have "map t_idempotency_key (tasks db4) = map t_idempotency_key (tasks db2)"
      unfolding db4(1) by (rule same)
    then have "tasks db3 = tasks db4"
      using refresh_requested_key(2) [OF db4(2) key] k2 by metis
    then show ?thesis
      unfolding db4(1) by simp
  qed simp
qed

section \<open>A worked stop\<close>

definition stop_row :: ad_alert_row where
  "stop_row = (sample_alert_row StopSent (Some 7))\<lparr>ar_stage := Some StopStage, ar_stop_rule_codes := [''cpc_stop''],
     ar_last_scan_id := Some 1\<rparr>"

definition stop_evidence :: "ad_alert_row \<Rightarrow> evidence_db" where
  "stop_evidence r =
     \<lparr>ed_metrics = [\<lparr>am_fb_ad_id = ''42'', am_cycle_ts = secs 10, am_scan_id = Some 1, am_currency = Some ''USD''\<rparr>],
      ed_campaign = (\<lambda>_. None)(''42'' := Some (Some ''9'', Some 3)),
      ed_scan_runs = [\<lparr>sn_scan_id = 1, sn_ad_account_id = Some ''9'', sn_started_at = secs 9,
         sn_finished_at = Some (secs 11), sn_outcome = Some ''success''\<rparr>],
      ed_alerts = (\<lambda>_. None)(''42'' := Some r), ed_offer_active = (\<lambda>_. Some True),
      ed_rules_updated_at = (\<lambda>_. Some 0), ed_scanning_enabled = Some True\<rparr>"

lemma sample_needs: "needs_fresh_snapshot q_running sample_payload"
  by (simp add: needs_fresh_snapshot_def is_safety_compensation_def sample_payload_def q_defs)

theorem auto_stop_needs_fresh_decision_witness:
  "auto_stop_gate (q_clock 20) q_running sample_payload (stop_evidence stop_row) (q_db [q_running])
     = Inr (q_db [q_running], True) \<and>
   (\<exists>r. ed_alerts (stop_evidence stop_row) ''42'' = Some r \<and> ar_state r = StopSent)"
proof -
  have go: "auto_stop_gate (q_clock 20) q_running sample_payload (stop_evidence stop_row) (q_db [q_running])
      = Inr (q_db [q_running], True)"
    by (simp add: auto_stop_gate_def load_meta_snapshot_freshness_def decision_confirmed_def snapshot_is_fresh_def
        MAX_AUTO_PAUSE_SNAPSHOT_AGE_SECONDS_def stop_evidence_def stop_row_def sample_alert_row_def
        sample_payload_def q_defs Let_def)
  moreover have "mp_target_id sample_payload = ''42''"
    by (simp add: sample_payload_def)
  ultimately show ?thesis
    using auto_stop_needs_fresh_decision [OF sample_needs go] by auto
qed

lemma sample_deferral:
  "\<exists>db'. auto_stop_gate (q_clock 20) q_running sample_payload (stop_evidence (stop_row\<lparr>ar_stop_rule_codes := []\<rparr>))
     (q_db [q_running]) = Inr (db', False)"
proof -
  obtain key where key: "observer_scan_idempotency_key ''auto-stop-refresh'' (string_of_int 1) = Inr key"
      "key \<noteq> []" "\<not> 128 < length key"
    using refresh_key [of "string_of_int 1"] by (auto simp: not_less)
  then have k1: "key \<noteq> ''k1''"
    by (auto simp: observer_scan_idempotency_key_def Let_def split: if_splits)
  have strip: "py_strip ''meta_api_worker'' = ''meta_api_worker''"
    "py_strip ''auto_stop_requires_fresh_meta'' = ''auto_stop_requires_fresh_meta''"
    by code_simp+
  have "\<exists>db'. defer_auto_stop_for_fresh_snapshot (q_clock 20) (t_id q_running) 15 (t_lease_owner q_running)
      (Some (t_lease_token q_running)) (q_db [q_running]) = Inr (db', True)"
    by (simp add: defer_auto_stop_for_fresh_snapshot_def fenced_def
        has_valid_fence_def update_tasks_def fence_live_def request_refresh_scan_def key k1 enqueue_observer_scan_def
        refresh_request_def create_task_def TASK_TYPES_def TASK_STATUSES_def TASK_LANES_def create_lane_def
        meta_account_identity_def deferred_row_def scan_create_args_def OBSERVER_SCAN_TASK_TYPE_def
        scan_dependencies_def strip q_defs Let_def)
  moreover have "\<not> sf_fresh (load_meta_snapshot_freshness n (mp_target_id sample_payload)
      (stop_evidence (stop_row\<lparr>ar_stop_rule_codes := []\<rparr>)))" for n
    by (rule no_codes_not_fresh [of _ _ "stop_row\<lparr>ar_stop_rule_codes := []\<rparr>"])
      (simp_all add: stop_evidence_def sample_payload_def)
  ultimately show ?thesis
    using sample_needs by (auto simp: auto_stop_gate_def)
qed

theorem deferral_costs_no_attempt_witness:
  "\<exists>db' t'. auto_stop_gate (q_clock 20) q_running sample_payload (stop_evidence (stop_row\<lparr>ar_stop_rule_codes := []\<rparr>))
      (q_db [q_running]) = Inr (db', False) \<and>
     t' \<in> set (tasks db') \<and> t_status t' = Retrying \<and> t_attempt_count t' = t_attempt_count q_running"
proof -
  have "q_running \<in> set (tasks (q_db [q_running]))" "t_external_started_at q_running = None" "t_lease_token q_running > 0"
    "fence_live (q_clock 20) (t_id q_running) (t_lease_owner q_running) (Some (t_lease_token q_running)) q_running"
    by (simp_all add: fence_live_def q_defs)
  moreover obtain db' where "auto_stop_gate (q_clock 20) q_running sample_payload
      (stop_evidence (stop_row\<lparr>ar_stop_rule_codes := []\<rparr>)) (q_db [q_running]) = Inr (db', False)"
    using sample_deferral by blast
  ultimately show ?thesis
    using deferral_costs_no_attempt [OF _ q_inv(2), of "q_clock 20" q_running sample_payload _ db' q_running] by auto
qed

theorem repeated_stop_is_never_executed_witness:
  "\<exists>r'. observe [(sample_env, [], [''cpc_stop''])] (Some stop_row) = Some r' \<and> ar_state r' = StopSent \<and>
     auto_stop_gate (q_clock 20) q_running sample_payload (stop_evidence r') (q_db [q_running])
       \<noteq> Inr (q_db [q_running], True)"
proof -
  have h: "\<forall>(env, ws, ss) \<in> set [(sample_env, [], [''cpc_stop''])]. accepted env \<and> ss \<noteq> []" "ar_state stop_row = StopSent"
    by (simp_all add: accepted_def sample_env_def usd_facts stop_row_def sample_alert_row_def)
  obtain r' where r': "observe [(sample_env, [], [''cpc_stop''])] (Some stop_row) = Some r'"
    using observe_stops [OF h(1) _ h(2)] by blast
  have "ed_alerts (stop_evidence r') (mp_target_id sample_payload) = Some r'"
    by (simp add: stop_evidence_def sample_payload_def)
  then show ?thesis
    using repeated_stop_is_never_executed [OF h(1) _ h(2) r' _ sample_needs] r' by simp
qed

end
