(* ===== verification/Commands.thy ===== *)
theory Commands
  imports MetaCommands ScanTasks
begin

text \<open>
  The one entry point of operator and automatic advertisement commands
  (\<open>CommandService._enqueue_ad_action\<close> of \<open>core/commands/service.py\<close>): one task per command key, one
  unresolved command per advertisement, and the checks of the advertisement before a task is
  queued. The whole definition is one transaction under the advisory locks of the key and of the
  advertisement. A time inside a JSON text is its number of microseconds.
\<close>

section \<open>Tables and constants\<close>

text \<open>One row of the target query, with the times of the metrics of the advertisement.\<close>

record ad_target =
  tg_ad_account_id :: "string option"
  tg_ad_name :: "string option"
  tg_delivery_status :: "string option"
  tg_cabinet_timezone :: "string option"
  tg_currency :: "string option"
  tg_currency_observed_at :: "int option"
  tg_metrics :: "int list"

record receipt_row =
  rp_idempotency_key :: string
  rp_task_id :: int
  rp_action_kind :: string
  rp_target_id :: string

record command_db =
  cq :: qdb
  receipts :: "receipt_row list"
  targets :: "string \<Rightarrow> ad_target option"

definition ACTIVE_DELIVERY_STATUSES :: "string list" where
  "ACTIVE_DELIVERY_STATUSES = [''ACTIVE'', ''ON'', ''ENABLED'', ''DELIVERING'']"

definition INACTIVE_DELIVERY_STATUSES :: "string list" where
  "INACTIVE_DELIVERY_STATUSES = [''OFF'', ''PAUSED'', ''INACTIVE'', ''DISABLED'']"

definition ACTION_SOURCE_STATUSES :: "string \<Rightarrow> string list" where
  "ACTION_SOURCE_STATUSES action = (if action = ''pause_ad'' then ACTIVE_DELIVERY_STATUSES else INACTIVE_DELIVERY_STATUSES)"

definition ACTION_RESULT_STATUSES :: "string \<Rightarrow> string list option" where
  "ACTION_RESULT_STATUSES action =
     (if action = ''pause_ad'' then Some INACTIVE_DELIVERY_STATUSES
      else if action = ''activate_ad'' then Some ACTIVE_DELIVERY_STATUSES else None)"

text \<open>\<open>core/meta_api/account_tz.py\<close>\<close>

definition CURRENCY_EVIDENCE_MAX_AGE :: int where
  "CURRENCY_EVIDENCE_MAX_AGE = secs (24 * 3600)"

definition CURRENCY_FUTURE_TOLERANCE :: int where
  "CURRENCY_FUTURE_TOLERANCE = secs 300"

definition currency_evidence_is_fresh :: "int option \<Rightarrow> int \<Rightarrow> bool" where
  "currency_evidence_is_fresh observed_at now \<longleftrightarrow>
     (case observed_at of
        None \<Rightarrow> False
      | Some t \<Rightarrow> now - CURRENCY_EVIDENCE_MAX_AGE \<le> t \<and> t \<le> now + CURRENCY_FUTURE_TOLERANCE)"

text \<open>\<open>zones\<close> are the names the timezone database of the host knows.\<close>

definition validated_timezone_name :: "(string \<Rightarrow> bool) \<Rightarrow> string option \<Rightarrow> string option" where
  "validated_timezone_name zones raw =
     (let name = py_strip (or_empty raw)
      in if name = [] \<or> length name > 128 \<or> \<not> zones name then None else Some name)"

section \<open>Keys\<close>

definition principal_scoped_idempotency_key :: "string \<Rightarrow> string \<Rightarrow> string result" where
  "principal_scoped_idempotency_key who client_key =
     (let p = py_strip who; k = py_strip client_key
      in if p = [] \<or> length p > 64 then Inl (ValueError ''operator principal must contain 1..64 characters'')
         else if k = [] \<or> length k > 128 then Inl (ValueError ''idempotency_key must contain 1..128 characters'')
         else Inr (''operator:v1:'' @
           sha256_hexdigest (''fb-agent:operator-command:v1'' @ [CHR 0x00] @ p @ [CHR 0x00] @ k)))"

definition autostop_retry_idempotency_key :: "string \<Rightarrow> int \<Rightarrow> string" where
  "autostop_retry_idempotency_key command_key predecessor_task_id =
     ''auto:pause_ad:retry:'' @
     sha256_hexdigest (''fb-agent:auto-pause-retry:v1'' @ [CHR 0x00] @ command_key @ [CHR 0x00] @
       string_of_int predecessor_task_id)"

definition status_divergence_incident_key :: "string \<Rightarrow> int \<Rightarrow> string" where
  "status_divergence_incident_key target_id previous_task_id =
     ''meta-status-divergence:'' @ target_id @ '':'' @ string_of_int previous_task_id"

section \<open>Receipts\<close>

definition get_bound_command :: "string \<Rightarrow> command_db \<Rightarrow> (receipt_row \<times> task) option" where
  "get_bound_command key db =
     (case find (\<lambda>r. rp_idempotency_key r = key) (receipts db) of
        None \<Rightarrow> None
      | Some r \<Rightarrow> map_option (\<lambda>t. (r, t)) (task_by_id (rp_task_id r) (cq db)))"

definition queue_key_exists :: "string \<Rightarrow> command_db \<Rightarrow> bool" where
  "queue_key_exists key db \<longleftrightarrow> key \<in> set (map t_idempotency_key (tasks (cq db)))"

definition receipt_for_semantics :: "receipt_row \<Rightarrow> task \<Rightarrow> string \<Rightarrow> string \<Rightarrow> command_receipt result" where
  "receipt_for_semantics r t action target =
     (if t_type t \<noteq> MetaApiMutation \<or> jget (t_payload t) ''mutation_kind'' \<noteq> JStr action
         \<or> str_or_empty (jget (t_payload t) ''target_id'') \<noteq> target
         \<or> rp_action_kind r \<noteq> action \<or> rp_target_id r \<noteq> target
      then Inl (CommandConflictError ''idempotency key is bound to another command'')
      else Inr (task_receipt False t))"

definition bind_command_key :: "string \<Rightarrow> int \<Rightarrow> string \<Rightarrow> string \<Rightarrow> command_db \<Rightarrow> command_db result" where
  "bind_command_key key task_id action target db =
     (if key \<notin> set (map rp_idempotency_key (receipts db))
      then Inr (db\<lparr>receipts := receipts db @ [\<lparr>rp_idempotency_key = key, rp_task_id = task_id,
             rp_action_kind = action, rp_target_id = target\<rparr>]\<rparr>)
      else case get_bound_command key db of
        None \<Rightarrow> Inl (CommandConflictError ''idempotency binding disappeared during reconciliation'')
      | Some (r, t) \<Rightarrow>
          if t_id t \<noteq> task_id \<or> rp_action_kind r \<noteq> action \<or> rp_target_id r \<noteq> target
          then Inl (CommandConflictError ''idempotency key is bound to another command'') else Inr db)"

definition strengthen_active_task :: "clock \<Rightarrow> int \<Rightarrow> int \<Rightarrow> int \<Rightarrow> command_db \<Rightarrow> command_db" where
  "strengthen_active_task c task_id max_attempts priority db =
     db\<lparr>cq := fst (update_tasks (\<lambda>t. t_id t = task_id \<and> t_status t \<in> {Pending, Retrying, Running})
       (\<lambda>t. t\<lparr>t_max_attempts := max (t_max_attempts t) max_attempts, t_priority := max (t_priority t) priority,
              t_updated_at := tx_now c\<rparr>) (cq db))\<rparr>"

section \<open>Barriers\<close>

definition outcome_text :: "task \<Rightarrow> string" where
  "outcome_text t = py_upper (str_or_empty (jget (obj_or_empty (t_result t)) ''outcome''))"

definition reconcile_true :: "task \<Rightarrow> bool" where
  "reconcile_true t \<longleftrightarrow> jget (obj_or_empty (t_result t)) ''reconcile_required'' = JBool True"

definition is_rejected_autostop_retry_source :: "task \<Rightarrow> string \<Rightarrow> string \<Rightarrow> bool" where
  "is_rejected_autostop_retry_source t action requested_by \<longleftrightarrow>
     action = ''pause_ad'' \<and> requested_by = ''bot_auto_stop'' \<and> t_status t \<in> {Failed, Cancelled} \<and>
     outcome_text t = ''REJECTED'' \<and> \<not> reconcile_true t"

definition active_status :: "task_status \<Rightarrow> bool" where
  "active_status s \<longleftrightarrow> s \<in> {Pending, Retrying, Running}"

text \<open>The newest pause or activation of the advertisement, and whether a metric follows it.\<close>

definition is_toggle_of :: "string \<Rightarrow> task \<Rightarrow> bool" where
  "is_toggle_of target t \<longleftrightarrow>
     t_type t = MetaApiMutation \<and>
     arrow_text (t_payload t) ''mutation_kind'' \<in> {Some ''pause_ad'', Some ''activate_ad''} \<and>
     arrow_text (t_payload t) ''target_id'' = Some target"

fun newest :: "task list \<Rightarrow> task option" where
  "newest [] = None"
| "newest (t # ts) = (case newest ts of None \<Rightarrow> Some t | Some u \<Rightarrow> Some (if t_id u > t_id t then u else t))"

definition latest_command :: "string \<Rightarrow> command_db \<Rightarrow> task option" where
  "latest_command target db = newest (filter (is_toggle_of target) (tasks (cq db)))"

definition has_post_evidence :: "string \<Rightarrow> task \<Rightarrow> command_db \<Rightarrow> bool" where
  "has_post_evidence target t db \<longleftrightarrow>
     (case targets db target of
        None \<Rightarrow> False
      | Some tg \<Rightarrow> list_ex (\<lambda>m. m > coalesce (t_completed_at t) (t_updated_at t)) (tg_metrics tg))"

definition target_barrier :: "bool \<Rightarrow> task \<Rightarrow> bool" where
  "target_barrier post_evidence t \<longleftrightarrow>
     (if active_status (t_status t) then True
      else if outcome_text t = ''UNKNOWN'' \<or> reconcile_true t then or_empty (t_review_observation t) = []
      else t_status t = Succeeded \<and> outcome_text t = ''CONFIRMED'' \<and> \<not> post_evidence)"

text \<open>\<open>verified\<close> is the delivery a worker read after its own activation, the proof of a compensation.\<close>

definition verified_safety_supersedes_barrier :: "task \<Rightarrow> string option \<Rightarrow> bool" where
  "verified_safety_supersedes_barrier t verified \<longleftrightarrow> verified \<noteq> None \<and> \<not> active_status (t_status t)"

definition is_reconciled_confirmed :: "bool \<Rightarrow> task \<Rightarrow> bool" where
  "is_reconciled_confirmed post_evidence t \<longleftrightarrow>
     t_status t = Succeeded \<and> outcome_text t = ''CONFIRMED'' \<and> \<not> reconcile_true t \<and> post_evidence"

section \<open>Delivery\<close>

definition normalize_delivery_status :: "string option \<Rightarrow> string" where
  "normalize_delivery_status v = py_upper (py_strip (or_empty v))"

definition require_actionable_delivery :: "string \<Rightarrow> string option \<Rightarrow> string result" where
  "require_actionable_delivery action delivery_status =
     (let s = normalize_delivery_status delivery_status
      in if s \<in> set (ACTION_SOURCE_STATUSES action) then Inr s
         else Inl (CommandPreconditionError (action @ '' is not allowed from delivery status '' @
                (if s = [] then ''UNKNOWN'' else s))))"

definition delivery_matches_result :: "string \<Rightarrow> string \<Rightarrow> bool" where
  "delivery_matches_result action delivery_status \<longleftrightarrow>
     (case ACTION_RESULT_STATUSES action of
        None \<Rightarrow> False
      | Some ss \<Rightarrow> normalize_delivery_status (Some delivery_status) \<in> set ss)"

section \<open>Effects on incidents\<close>

definition reopen_rejected_autostop_incident :: "clock \<Rightarrow> int \<Rightarrow> command_db \<Rightarrow> command_db" where
  "reopen_rejected_autostop_incident c corr db =
     db\<lparr>cq := (cq db)\<lparr>ops := (ops (cq db))\<lparr>incidents := map (\<lambda>i.
       if inc_corr i = corr \<and> inc_status i = IncFailed
       then i\<lparr>inc_status := IncOpen, inc_resolved_at := None, inc_updated_at := tx_now c\<rparr> else i)
       (incidents (ops (cq db)))\<rparr>\<rparr>\<rparr>"

definition open_status_divergence_incident ::
  "clock \<Rightarrow> string \<Rightarrow> string \<Rightarrow> int \<Rightarrow> string \<Rightarrow> string \<Rightarrow> int \<Rightarrow> command_db \<Rightarrow> command_db result" where
  "open_status_divergence_incident c target_id label previous_task_id previous_action observed corr db =
     ebind (notify_recurring_incident_in_transaction (tx_now c)
         (status_divergence_incident_key target_id previous_task_id) ''owners'' ''meta_status_divergence'' ''critical''
         [''status_divergence'', label, string_of_int previous_task_id, observed, previous_action]
         ''fb_ad'' (Some target_id) (Some corr) (ops (cq db)))
       (\<lambda>o'. Inr (db\<lparr>cq := (cq db)\<lparr>ops := o'\<rparr>\<rparr>))"

section \<open>Enqueueing a command\<close>

record ad_action =
  aa_action_kind :: string
  aa_fb_ad_id :: string
  aa_requested_by :: string
  aa_idempotency_key :: string
  aa_correlation_id :: "int option"
  aa_max_attempts :: int
  aa_params :: jobj
  aa_created_by_chat_id :: "int option"
  aa_expected_delivery_status :: "string option"
  aa_expected_as_of :: "int option"
  aa_verified :: "string option"

definition requested_priority :: "ad_action \<Rightarrow> int" where
  "requested_priority a =
     (if aa_action_kind a = ''pause_ad'' \<and> aa_requested_by a = ''bot_auto_stop'' then 200 else 100)"

text \<open>
  The environment of the transaction: the names of the timezone database and the caller's
  \<open>transaction_authorizer\<close>, which may raise (\<open>\<lambda>_. Inr ()\<close> when there is none); what an authorizer
  writes to its own tables is outside the model.
\<close>

record command_env =
  ce_zones :: "string \<Rightarrow> bool"
  ce_authorize :: "string option \<Rightarrow> unit result"

definition max_of :: "int list \<Rightarrow> int option" where
  "max_of ms = (case ms of [] \<Rightarrow> None | m # ns \<Rightarrow> Some (fold max ns m))"

text \<open>The checks of the advertisement, giving its row, delivery, account and currency.\<close>

definition checked_target ::
  "clock \<Rightarrow> ad_action \<Rightarrow> string \<Rightarrow> command_db \<Rightarrow> (ad_target \<times> string \<times> string) result" where
  "checked_target c a target_id db =
     (case targets db target_id of
        None \<Rightarrow> Inl (CommandNotFoundError (''ad '' @ target_id @ '' not found''))
      | Some tg \<Rightarrow>
        if (case (aa_expected_delivery_status a, aa_expected_as_of a) of
              (Some d, Some t) \<Rightarrow> normalize_delivery_status (tg_delivery_status tg) \<noteq> py_upper (py_strip d)
                 \<or> max_of (tg_metrics tg) \<noteq> Some t
            | _ \<Rightarrow> False)
        then Inl (CommandPreconditionError (''ad '' @ target_id @ '' changed after operator confirmation''))
        else
          ebind (require_actionable_delivery (aa_action_kind a)
              (case aa_verified a of Some v \<Rightarrow> Some v | None \<Rightarrow> tg_delivery_status tg)) (\<lambda>delivery.
          case require_ad_account_id (opt_json (tg_ad_account_id tg)) of
            Inl _ \<Rightarrow> Inl (CommandIdentityError (''ad '' @ target_id @ '' has no explicit ad_account_id; command rejected''))
          | Inr account \<Rightarrow>
              if validated_currency_code (tg_currency tg) \<noteq> Some ''USD''
                 \<or> \<not> currency_evidence_is_fresh (tg_currency_observed_at tg) (py_now c)
              then Inl (CommandPreconditionError (''ad '' @ target_id @ '' requires confirmed USD currency before enqueue''))
              else Inr (tg, delivery, account)))"

definition command_payload :: "command_env \<Rightarrow> ad_action \<Rightarrow> string \<Rightarrow> ad_target \<Rightarrow> string \<Rightarrow> meta_payload result" where
  "command_payload env a target_id tg account =
     (let tz = validated_timezone_name (ce_zones env) (tg_cabinet_timezone tg)
      in make_payload (aa_action_kind a) target_id (JStr account)
           (jmerge [(''requested_via'', JStr (take 64 (aa_requested_by a)))] (aa_params a))
           (Some ''USD'') tz (map_option string_of_int (tg_currency_observed_at tg))
           (if tz = None then [''cabinet_timezone_unknown''] else []))"

text \<open>Creating the task of a command whose target is free; \<open>source\<close> is the rejected task it replaces.\<close>

definition create_command ::
  "clock \<Rightarrow> command_env \<Rightarrow> ad_action \<Rightarrow> string \<Rightarrow> string \<Rightarrow> int \<Rightarrow> task option \<Rightarrow> task option \<Rightarrow> command_db \<Rightarrow>
   (command_db \<times> command_receipt) result" where
  "create_command c env a target_id key corr source latest db =
     ebind (checked_target c a target_id db) (\<lambda>(tg, delivery, account).
     let diverged = (case latest of None \<Rightarrow> None | Some t \<Rightarrow>
           if is_reconciled_confirmed (has_post_evidence target_id t db) t
              \<and> \<not> delivery_matches_result (str_or_empty (jget (t_payload t) ''mutation_kind'')) delivery
           then Some t else None)
     in ebind (ce_authorize env (map_option (\<lambda>t. status_divergence_incident_key target_id (t_id t)) diverged)) (\<lambda>_.
        ebind (case diverged of
            None \<Rightarrow> Inr db
          | Some t \<Rightarrow> open_status_divergence_incident c target_id
              (if or_empty (tg_ad_name tg) = [] then ''ad'' else or_empty (tg_ad_name tg)) (t_id t)
              (str_or_empty (jget (t_payload t) ''mutation_kind'')) delivery corr db) (\<lambda>db1.
        ebind (command_payload env a target_id tg account) (\<lambda>p.
        let task_key = (case source of None \<Rightarrow> key | Some s \<Rightarrow>
              autostop_retry_idempotency_key key (t_id (case latest of Some t \<Rightarrow> t | None \<Rightarrow> s)));
            task_corr = (case source of None \<Rightarrow> corr | Some s \<Rightarrow> t_correlation_id s)
        in ebind (create_mutation_task c p (take 64 (aa_requested_by a)) ''pending'' (Some task_key)
               (aa_max_attempts a) (aa_created_by_chat_id a) (Some (requested_priority a)) (Some task_corr) (cq db1))
             (\<lambda>(q, task_id).
               case task_id of
                 None \<Rightarrow> Inl (CommandConflictError ''idempotency key exists outside the command receipt ledger'')
               | Some i \<Rightarrow>
                   ebind (bind_command_key task_key i (aa_action_kind a) target_id (db1\<lparr>cq := q\<rparr>)) (\<lambda>db2.
                     Inr (db2, \<lparr>cr_task_id = i, cr_created = True, cr_state = CQueued,
                               cr_correlation_id = task_corr\<rparr>)))))))"

text \<open>A command that meets a barrier: it joins the task of the same kind, or conflicts.\<close>

definition join_barrier ::
  "clock \<Rightarrow> command_env \<Rightarrow> ad_action \<Rightarrow> string \<Rightarrow> string \<Rightarrow> bool \<Rightarrow> task \<Rightarrow> command_db \<Rightarrow>
   (command_db \<times> command_receipt) result" where
  "join_barrier c env a target_id key rejected_source b db =
     (if arrow_text (t_payload b) ''mutation_kind'' \<noteq> Some (aa_action_kind a)
      then Inl (CommandConflictError (''ad '' @ target_id @ '' already has '' @
             (if active_status (t_status b) then ''active'' else ''unresolved'') @ '' '' @
             or_empty (arrow_text (t_payload b) ''mutation_kind'') @ '' command''))
      else
        let db1 = (if active_status (t_status b)
              then strengthen_active_task c (t_id b) (aa_max_attempts a) (requested_priority a) db else db)
        in ebind (ce_authorize env None) (\<lambda>_.
           ebind (if rejected_source then Inr db1
                  else bind_command_key key (t_id b) (aa_action_kind a) target_id db1) (\<lambda>db2.
             Inr (db2, task_receipt False b))))"

definition enqueue_unbound ::
  "clock \<Rightarrow> command_env \<Rightarrow> ad_action \<Rightarrow> string \<Rightarrow> string \<Rightarrow> int \<Rightarrow> task option \<Rightarrow> command_db \<Rightarrow>
   (command_db \<times> command_receipt) result" where
  "enqueue_unbound c env a target_id key corr source db =
     (if source = None \<and> queue_key_exists key db
      then Inl (CommandConflictError ''idempotency key exists outside the command receipt ledger'')
      else
        let db1 = (case source of None \<Rightarrow> db | Some s \<Rightarrow> reopen_rejected_autostop_incident c (t_correlation_id s) db);
            latest = latest_command target_id db1;
            barrier = (case latest of None \<Rightarrow> None | Some t \<Rightarrow>
              if target_barrier (has_post_evidence target_id t db1) t
                 \<and> \<not> verified_safety_supersedes_barrier t (aa_verified a) then Some t else None)
        in case barrier of
             Some b \<Rightarrow> join_barrier c env a target_id key (source \<noteq> None) b db1
           | None \<Rightarrow> create_command c env a target_id key corr source latest db1)"

definition enqueue_ad_action ::
  "clock \<Rightarrow> command_env \<Rightarrow> ad_action \<Rightarrow> command_db \<Rightarrow> (command_db \<times> command_receipt) result" where
  "enqueue_ad_action c env a db0 =
     (let target_id = py_strip (aa_fb_ad_id a); key = py_strip (aa_idempotency_key a);
          corr = coalesce (aa_correlation_id a) (next_uuid (ops (cq db0)));
          db = (if aa_correlation_id a = None
            then db0\<lparr>cq := (cq db0)\<lparr>ops := (ops (cq db0))\<lparr>next_uuid := next_uuid (ops (cq db0)) + 1\<rparr>\<rparr>\<rparr> else db0)
      in if aa_action_kind a \<notin> {''pause_ad'', ''activate_ad''} then Inl (ValueError (''unsupported ad action: '' @ aa_action_kind a))
         else if target_id = [] then Inl (ValueError ''fb_ad_id must not be empty'')
         else if key = [] \<or> length key > 128
         then Inl (ValueError ''idempotency_key must contain 1..128 characters'')
         else if aa_max_attempts a < 1 then Inl (ValueError ''max_attempts must be positive'')
         else if (aa_expected_delivery_status a = None) \<noteq> (aa_expected_as_of a = None)
         then Inl (ValueError ''command preconditions must be provided together'')
         else case get_bound_command key db of
           None \<Rightarrow> enqueue_unbound c env a target_id key corr None db
         | Some (r, t) \<Rightarrow>
             ebind (receipt_for_semantics r t (aa_action_kind a) target_id) (\<lambda>receipt.
               if is_rejected_autostop_retry_source t (aa_action_kind a) (aa_requested_by a)
               then enqueue_unbound c env a target_id key corr (Some t) db
               else
                 ebind (ce_authorize env None) (\<lambda>_.
                   Inr (strengthen_active_task c (cr_task_id receipt) (aa_max_attempts a) (requested_priority a) db,
                        receipt))))"

text \<open>\<open>enqueue_verified_pause_compensation\<close>, after its reason was checked.\<close>

definition enqueue_verified_pause_compensation ::
  "clock \<Rightarrow> command_env \<Rightarrow> string \<Rightarrow> string \<Rightarrow> string \<Rightarrow> int \<Rightarrow> string \<Rightarrow> int option \<Rightarrow> int \<Rightarrow> command_db \<Rightarrow>
   (command_db \<times> command_receipt) result" where
  "enqueue_verified_pause_compensation c env fb_ad_id key reason source_task_id observed corr max_attempts db =
     (if reason \<noteq> ''activation_without_grace'' then Inl (ValueError ''unsupported safety compensation reason'')
      else if source_task_id \<le> 0 then Inl (ValueError ''source_task_id must be a positive integer'')
      else
        ebind (require_actionable_delivery ''pause_ad'' (Some observed)) (\<lambda>status.
          enqueue_ad_action c env
            \<lparr>aa_action_kind = ''pause_ad'', aa_fb_ad_id = fb_ad_id, aa_requested_by = ''bot_auto_stop'',
             aa_idempotency_key = key, aa_correlation_id = corr, aa_max_attempts = max_attempts,
             aa_params = [(''safety_compensation'', JStr reason),
               (''supersedes_activation_task_id'', JNum source_task_id)],
             aa_created_by_chat_id = None, aa_expected_delivery_status = None, aa_expected_as_of = None,
             aa_verified = Some status\<rparr> db))"

text \<open>The command \<open>apply_fsm_transition\<close> sends for a stop (\<open>core/observer/writers.py\<close>).\<close>

definition auto_stop_action :: "string \<Rightarrow> string \<Rightarrow> int option \<Rightarrow> ad_action" where
  "auto_stop_action fb_ad_id tok corr =
     \<lparr>aa_action_kind = ''pause_ad'', aa_fb_ad_id = fb_ad_id, aa_requested_by = ''bot_auto_stop'',
      aa_idempotency_key = ''auto:pause_ad:'' @ fb_ad_id @ '':'' @ tok, aa_correlation_id = corr,
      aa_max_attempts = 15, aa_params = [], aa_created_by_chat_id = None,
      aa_expected_delivery_status = None, aa_expected_as_of = None, aa_verified = None\<rparr>"

end
