(* ===== verification/CommandRows.thy ===== *)
theory CommandRows
  imports Commands ScanProps MetaCommandProps TaskOutcomes
begin

text \<open>
  The invariant of the command tables - valid receipts, and of the pause and activate tasks of an
  advertisement only the newest may be in flight - and that every accepted command keeps it,
  leaves the rows of all other tasks as they were but for a stronger retry budget, and leaves the
  receipt of its key behind.
\<close>

section \<open>The invariant\<close>

definition named_target :: "task \<Rightarrow> bool" where
  "named_target t \<longleftrightarrow>
     (t_type t = MetaApiMutation \<longrightarrow>
        (\<exists>s. jget (t_payload t) ''target_id'' = JStr s) \<and> (\<exists>k. jget (t_payload t) ''mutation_kind'' = JStr k))"

definition receipt_ok :: "task list \<Rightarrow> receipt_row \<Rightarrow> bool" where
  "receipt_ok ts r \<longleftrightarrow>
     (\<exists>t \<in> set ts. t_id t = rp_task_id r \<and> t_type t = MetaApiMutation \<and>
        jget (t_payload t) ''mutation_kind'' = JStr (rp_action_kind r) \<and>
        jget (t_payload t) ''target_id'' = JStr (rp_target_id r))"

definition only_newest_active :: "task list \<Rightarrow> bool" where
  "only_newest_active ts \<longleftrightarrow>
     (\<forall>t \<in> set ts. \<forall>u \<in> set ts. \<forall>target. is_toggle_of target t \<and> is_toggle_of target u \<and>
        active_status (t_status t) \<longrightarrow> t_id u \<le> t_id t)"

lemma only_newestD:
  "only_newest_active ts \<Longrightarrow> t \<in> set ts \<Longrightarrow> u \<in> set ts \<Longrightarrow> is_toggle_of target t \<Longrightarrow> is_toggle_of target u \<Longrightarrow>
   active_status (t_status t) \<Longrightarrow> t_id u \<le> t_id t"
  unfolding only_newest_active_def by blast

definition command_inv :: "command_db \<Rightarrow> bool" where
  "command_inv db \<longleftrightarrow>
     queue_inv (cq db) \<and> distinct (map rp_idempotency_key (receipts db)) \<and>
     (\<forall>r \<in> set (receipts db). receipt_ok (tasks (cq db)) r) \<and>
     (\<forall>t \<in> set (tasks (cq db)). named_target t) \<and> only_newest_active (tasks (cq db))"

text \<open>What any transaction may do to the row of a command.\<close>

definition command_row :: "task \<Rightarrow> task \<Rightarrow> bool" where
  "command_row t t' \<longleftrightarrow>
     t_id t' = t_id t \<and> t_idempotency_key t' = t_idempotency_key t \<and> t_type t' = t_type t \<and>
     t_payload t' = t_payload t \<and> t_correlation_id t' = t_correlation_id t \<and>
     (active_status (t_status t') \<longrightarrow> active_status (t_status t))"

lemma command_row_refl [simp]: "command_row t t"
  by (simp add: command_row_def)

lemma command_row_trans: "command_row t u \<Longrightarrow> command_row u v \<Longrightarrow> command_row t v"
  by (simp add: command_row_def)

lemma row_next_command: "row_next t t' \<Longrightarrow> command_row t t'"
  by (cases "t_status t") (auto simp: command_row_def row_defs active_status_def)

lemma command_row_toggle: "command_row t t' \<Longrightarrow> is_toggle_of target t' \<longleftrightarrow> is_toggle_of target t"
  by (simp add: command_row_def is_toggle_of_def)

lemma receipt_ok_map:
  assumes "receipt_ok ts r" "\<And>t. t \<in> set ts \<Longrightarrow> command_row t (g t)"
  shows "receipt_ok (map g ts) r"
proof -
  obtain t where t: "t \<in> set ts" "t_id t = rp_task_id r \<and> t_type t = MetaApiMutation \<and>
      jget (t_payload t) ''mutation_kind'' = JStr (rp_action_kind r) \<and>
      jget (t_payload t) ''target_id'' = JStr (rp_target_id r)"
    using assms(1) unfolding receipt_ok_def by blast
  then show ?thesis
    using assms(2) [OF t(1)] unfolding receipt_ok_def command_row_def by (intro bexI [of _ "g t"]) auto
qed

lemma only_newest_map:
  assumes "only_newest_active ts" "\<And>t. t \<in> set ts \<Longrightarrow> command_row t (g t)"
  shows "only_newest_active (map g ts)"
  unfolding only_newest_active_def
proof (intro ballI allI impI)
  fix t' u' target
  assume m: "t' \<in> set (map g ts)" "u' \<in> set (map g ts)"
    and a: "is_toggle_of target t' \<and> is_toggle_of target u' \<and> active_status (t_status t')"
  then obtain t u where tu: "t \<in> set ts" "t' = g t" "u \<in> set ts" "u' = g u" by auto
  then have "command_row t t'" "command_row u u'" using assms(2) by auto
  moreover from this have "t_id u \<le> t_id t"
    using only_newestD [OF assms(1) tu(1,3), of target] a command_row_toggle [of t t'] command_row_toggle [of u u']
    by (simp add: command_row_def)
  ultimately show "t_id u' \<le> t_id t'"
    by (simp add: command_row_def)
qed

lemma command_inv_map:
  assumes "command_inv db" "tasks (cq db') = map g (tasks (cq db))" "next_id (cq db') = next_id (cq db)"
    and "receipts db' = receipts db" "\<And>t. t \<in> set (tasks (cq db)) \<Longrightarrow> command_row t (g t)"
  shows "command_inv db'"
proof -
  have rows: "map t_id (tasks (cq db')) = map t_id (tasks (cq db))"
    "map t_idempotency_key (tasks (cq db')) = map t_idempotency_key (tasks (cq db))"
    using assms(2,5) by (auto simp: command_row_def)
  have "queue_inv (cq db')"
    unfolding queue_inv_def rows
    using assms(1) assms(2,3,5) by (auto simp: command_inv_def queue_inv_def command_row_def)
  moreover have "\<forall>t \<in> set (tasks (cq db')). named_target t"
    using assms(1,2,5) by (auto simp: command_inv_def named_target_def command_row_def)
  ultimately show ?thesis
    using assms receipt_ok_map [of "tasks (cq db)" _ g] only_newest_map [of "tasks (cq db)" g]
    by (simp add: command_inv_def)
qed

lemma receipt_ok_more: "receipt_ok ts r \<Longrightarrow> receipt_ok (ts @ us) r"
  by (auto simp: receipt_ok_def)

lemma command_inv_receipt:
  assumes "command_inv db" "receipts db' = receipts db @ [x]" "cq db' = cq db"
    and "rp_idempotency_key x \<notin> set (map rp_idempotency_key (receipts db))" "receipt_ok (tasks (cq db)) x"
  shows "command_inv db'"
  using assms by (auto simp: command_inv_def)

lemma command_inv_add:
  assumes "command_inv db" "tasks (cq db') = tasks (cq db) @ [t]" "t_id t = next_id (cq db)"
    and "next_id (cq db') = next_id (cq db) + 1" "receipts db' = receipts db" "named_target t"
    and "t_idempotency_key t \<notin> set (map t_idempotency_key (tasks (cq db)))"
    and "\<And>target u. is_toggle_of target t \<Longrightarrow> u \<in> set (tasks (cq db)) \<Longrightarrow> is_toggle_of target u \<Longrightarrow>
      \<not> active_status (t_status u)"
  shows "command_inv db'"
proof -
  have "queue_inv (cq db')"
    using assms by (fastforce simp: command_inv_def queue_inv_def)
  moreover have lt: "t_id u < t_id t" if "u \<in> set (tasks (cq db))" for u
    using that assms(1,3) by (simp add: command_inv_def queue_inv_def)
  have "only_newest_active (tasks (cq db'))"
    unfolding only_newest_active_def assms(2)
  proof (intro ballI allI impI)
    fix v u target
    assume m: "v \<in> set (tasks (cq db) @ [t])" "u \<in> set (tasks (cq db) @ [t])"
      and a: "is_toggle_of target v \<and> is_toggle_of target u \<and> active_status (t_status v)"
    show "t_id u \<le> t_id v"
    proof (cases "v = t")
      case True
      then show ?thesis using m(2) lt [of u] by auto
    next
      case False
      then have v: "v \<in> set (tasks (cq db))" using m(1) by simp
      then have "u \<noteq> t" using assms(8) a by blast
      then show ?thesis
        using only_newestD [OF _ v, of u target] m(2) a assms(1) by (simp add: command_inv_def)
    qed
  qed
  ultimately show ?thesis
    using assms(1,2,5,6) receipt_ok_more by (auto simp: command_inv_def)
qed

section \<open>The newest command\<close>

lemma newest_None: "newest ts = None \<longleftrightarrow> ts = []"
  by (cases ts) (auto split: option.splits)

lemma newest_Some: "newest ts = Some t \<Longrightarrow> t \<in> set ts \<and> (\<forall>u \<in> set ts. t_id u \<le> t_id t)"
proof (induction ts arbitrary: t)
  case (Cons s ts)
  then show ?case
    by (cases "newest ts") (auto simp: newest_None split: if_splits)
qed simp

lemma latest_inactive:
  assumes "command_inv db" "\<And>t. latest_command target db = Some t \<Longrightarrow> \<not> active_status (t_status t)"
    and "u \<in> set (tasks (cq db))" "is_toggle_of target u"
  shows "\<not> active_status (t_status u)"
proof
  assume act: "active_status (t_status u)"
  have "filter (is_toggle_of target) (tasks (cq db)) \<noteq> []"
    using assms(3,4) by (auto simp: filter_empty_conv)
  then obtain t where t: "latest_command target db = Some t"
    unfolding latest_command_def by (cases "newest (filter (is_toggle_of target) (tasks (cq db)))") (auto simp: newest_None)
  then have "t \<in> set (tasks (cq db))" "is_toggle_of target t" "t_id u \<le> t_id t"
    using newest_Some [of "filter (is_toggle_of target) (tasks (cq db))" t] assms(3,4)
    by (simp_all add: latest_command_def)
  moreover have "t_id t \<le> t_id u"
    using only_newestD [of "tasks (cq db)" u t target] assms(1,3,4) act calculation(1,2) by (simp add: command_inv_def)
  ultimately have "t = u"
    using row_unique [of "cq db" t u] assms(1,3) by (simp add: command_inv_def)
  then show False
    using assms(2) [OF t] act by simp
qed

section \<open>The pieces of the transaction\<close>

lemma named_toggle:
  assumes "is_toggle_of target t" "named_target t"
  shows "t_type t = MetaApiMutation" "jget (t_payload t) ''target_id'' = JStr target"
    "arrow_text (t_payload t) ''mutation_kind'' = Some k \<Longrightarrow> jget (t_payload t) ''mutation_kind'' = JStr k"
  using assms by (auto simp: is_toggle_of_def named_target_def)

lemma get_bound_Some:
  assumes "get_bound_command key db = Some (r, t)"
  shows "r \<in> set (receipts db)" "rp_idempotency_key r = key" "t \<in> set (tasks (cq db))" "t_id t = rp_task_id r"
  using assms by (auto simp: get_bound_command_def task_by_id_def find_Some_iff in_set_conv_nth
      split: option.splits)

lemma get_bound_None:
  assumes "get_bound_command key db = None" "command_inv db"
  shows "key \<notin> set (map rp_idempotency_key (receipts db))"
proof
  assume "key \<in> set (map rp_idempotency_key (receipts db))"
  then obtain r where r: "find (\<lambda>r. rp_idempotency_key r = key) (receipts db) = Some r"
    by (cases "find (\<lambda>r. rp_idempotency_key r = key) (receipts db)") (auto simp: find_None_iff)
  then have "r \<in> set (receipts db)"
    by (auto simp: find_Some_iff)
  then obtain t where "t \<in> set (tasks (cq db))" "t_id t = rp_task_id r"
    using assms(2) by (auto simp: command_inv_def receipt_ok_def)
  then have "task_by_id (rp_task_id r) (cq db) = Some t"
    using assms(2) by (intro task_by_id_present) (simp_all add: command_inv_def)
  then show False
    using assms(1) r by (simp add: get_bound_command_def)
qed

lemma bind_Inr:
  assumes "bind_command_key key i kind target db = Inr db'"
  defines "x \<equiv> \<lparr>rp_idempotency_key = key, rp_task_id = i, rp_action_kind = kind, rp_target_id = target\<rparr>"
  shows "cq db' = cq db \<and> targets db' = targets db \<and> x \<in> set (receipts db') \<and>
    (db' = db \<or> key \<notin> set (map rp_idempotency_key (receipts db)) \<and> receipts db' = receipts db @ [x])"
proof (cases "key \<in> set (map rp_idempotency_key (receipts db))")
  case True
  then obtain r t where b: "get_bound_command key db = Some (r, t)" "db' = db" "t_id t = i"
    "rp_action_kind r = kind" "rp_target_id r = target"
    using assms(1) by (auto simp: bind_command_key_def split: option.splits if_splits)
  moreover have "r = x"
    using get_bound_Some [OF b(1)] b unfolding x_def by (intro receipt_row.equality) simp_all
  ultimately show ?thesis
    using get_bound_Some [OF b(1)] by simp
next
  case False
  then show ?thesis
    using assms(1) by (auto simp: bind_command_key_def x_def)
qed

lemma bind_inv:
  assumes "command_inv db" "bind_command_key key i kind target db = Inr db'"
    and "receipt_ok (tasks (cq db))
      \<lparr>rp_idempotency_key = key, rp_task_id = i, rp_action_kind = kind, rp_target_id = target\<rparr>"
  shows "command_inv db'"
  using bind_Inr [OF assms(2)] assms(1,3) command_inv_receipt [of db db'] by auto

lemma strengthen_facts [simp]:
  "receipts (strengthen_active_task c i m p db) = receipts db"
  "targets (strengthen_active_task c i m p db) = targets db"
  "next_id (cq (strengthen_active_task c i m p db)) = next_id (cq db)"
  "map t_id (tasks (cq (strengthen_active_task c i m p db))) = map t_id (tasks (cq db))"
  by (auto simp: strengthen_active_task_def update_tasks_def)

lemma strengthen_rows:
  obtains g where "tasks (cq (strengthen_active_task c i m p db)) = map g (tasks (cq db))"
    "\<And>t. command_row t (g t)"
proof
  show "tasks (cq (strengthen_active_task c i m p db)) = map (\<lambda>t. if t_id t = i \<and> t_status t \<in> {Pending, Retrying, Running}
      then t\<lparr>t_max_attempts := max (t_max_attempts t) m, t_priority := max (t_priority t) p, t_updated_at := tx_now c\<rparr>
      else t) (tasks (cq db))"
    by (simp add: strengthen_active_task_def update_tasks_def)
qed (simp add: command_row_def)

lemma strengthen_inv: "command_inv db \<Longrightarrow> command_inv (strengthen_active_task c i m p db)"
  by (rule strengthen_rows [of c i m p db]) (rule command_inv_map, assumption, assumption, simp_all)

lemma strengthen_receipt_ok:
  "receipt_ok (tasks (cq db)) x \<Longrightarrow> receipt_ok (tasks (cq (strengthen_active_task c i m p db))) x"
  by (rule strengthen_rows [of c i m p db]) (simp add: receipt_ok_map)

lemma reopen_facts [simp]:
  "receipts (reopen_rejected_autostop_incident c corr db) = receipts db"
  "targets (reopen_rejected_autostop_incident c corr db) = targets db"
  "tasks (cq (reopen_rejected_autostop_incident c corr db)) = tasks (cq db)"
  "next_id (cq (reopen_rejected_autostop_incident c corr db)) = next_id (cq db)"
  by (simp_all add: reopen_rejected_autostop_incident_def)

lemma divergence_facts:
  assumes "open_status_divergence_incident c target l i k ob corr db = Inr db'"
  shows "receipts db' = receipts db" "targets db' = targets db" "tasks (cq db') = tasks (cq db)"
    "next_id (cq db') = next_id (cq db)"
  using assms by (auto simp: open_status_divergence_incident_def err_simps)

lemma same_tasks_inv:
  assumes "command_inv db" "tasks (cq db') = tasks (cq db)" "next_id (cq db') = next_id (cq db)"
    "receipts db' = receipts db"
  shows "command_inv db'"
  using assms by (intro command_inv_map [of db db' "\<lambda>t. t"]) simp_all

section \<open>Creating a task\<close>

lemma to_dict_gets [simp]:
  "jget (to_dict p) ''mutation_kind'' = JStr (mp_mutation_kind p)"
  "jget (to_dict p) ''target_id'' = JStr (mp_target_id p)"
  "jget (to_dict p) ''ad_account_id'' = JStr (mp_ad_account_id p)"
  "jget (to_dict p) ''currency'' = opt_json (mp_currency p)"
  "jget (to_dict p) ''params'' = JObj (mp_params p)"
  by (simp_all add: to_dict_def jget_def)

lemma create_mutation_Inr:
  assumes "create_mutation_task c p by_value ''pending'' (Some key) m chat (Some prio) (Some corr) q = Inr (q', Some i)"
    and "key \<noteq> []"
  obtains t where "i = next_id q" "tasks q' = tasks q @ [t]" "next_id q' = next_id q + 1" "t_id t = i"
    "t_idempotency_key t = key" "key \<notin> set (map t_idempotency_key (tasks q))" "t_type t = MetaApiMutation"
    "t_status t = Pending" "t_payload t = to_dict p" "t_correlation_id t = corr" "t_priority t = prio"
    "t_lane t = infer_task_lane MetaApiMutation (to_dict p) by_value" "t_max_attempts t = m"
proof -
  define a where "a = mutation_create_args p by_value key m chat (Some prio) (Some corr)"
  have cr: "create_task c a q = Inr (q', Some i)"
    using assms by (simp add: create_mutation_task_def a_def or_empty_def Let_def)
  have a: "ca_task_type a = ''meta_api_mutation''" "ca_status a = ''pending''" "ca_lane a = None"
    "ca_idempotency_key a = key" "ca_payload a = to_dict p" "ca_priority a = Some prio" "ca_correlation_id a = Some corr"
    "ca_requested_by a = by_value" "ca_max_attempts a = m"
    by (simp_all add: a_def mutation_create_args_def)
  have ty: "map_of TASK_TYPES ''meta_api_mutation'' = Some MetaApiMutation" "map_of TASK_STATUSES ''pending'' = Some Pending"
    by (simp_all add: TASK_TYPES_def TASK_STATUSES_def)
  have new: "tasks q' = tasks q @ [new_task c a MetaApiMutation Pending (infer_task_lane MetaApiMutation (to_dict p) by_value)
      (next_id q) corr]"
    using cr a ty by (auto simp: create_task_def create_lane_def or_empty_def Let_def split: if_splits)
  show thesis
    using create_cases [OF cr] a by (intro that [OF _ new]) (simp_all add: new_task_def)
qed

lemma command_payload_Inr:
  assumes "command_payload env a target tg account = Inr p"
  shows "mp_mutation_kind p = aa_action_kind a" "mp_target_id p = target" "mp_currency p = Some ''USD''"
    "require_ad_account_id (JStr account) = Inr (mp_ad_account_id p)"
  using assms by (auto simp: command_payload_def make_payload_def Let_def err_simps split: if_splits)

lemma create_Inr:
  assumes "create_command c env a target key corr source latest db = Inr (db', r)" "command_inv db" "key \<noteq> []"
  obtains t p tg delivery account where "checked_target c a target db = Inr (tg, delivery, account)"
    "command_payload env a target tg account = Inr p"
    "tasks (cq db') = tasks (cq db) @ [t]" "next_id (cq db') = next_id (cq db) + 1" "t_id t = next_id (cq db)"
    "t_idempotency_key t \<notin> set (map t_idempotency_key (tasks (cq db)))" "t_type t = MetaApiMutation"
    "t_status t = Pending" "t_payload t = to_dict p" "t_priority t = requested_priority a"
    "t_lane t = infer_task_lane MetaApiMutation (to_dict p) (take 64 (aa_requested_by a))"
    "t_max_attempts t = aa_max_attempts a"
    "r = \<lparr>cr_task_id = t_id t, cr_created = True, cr_state = CQueued, cr_correlation_id = t_correlation_id t\<rparr>"
    "source = None \<Longrightarrow> t_idempotency_key t = key" "targets db' = targets db"
    "receipts db' = receipts db @ [\<lparr>rp_idempotency_key = t_idempotency_key t, rp_task_id = t_id t,
       rp_action_kind = aa_action_kind a, rp_target_id = target\<rparr>]"
    "t_idempotency_key t \<notin> set (map rp_idempotency_key (receipts db))"
proof -
  define task_key where "task_key = (case source of None \<Rightarrow> key | Some s \<Rightarrow>
      autostop_retry_idempotency_key key (t_id (case latest of Some t \<Rightarrow> t | None \<Rightarrow> s)))"
  define task_corr where "task_corr = (case source of None \<Rightarrow> corr | Some s \<Rightarrow> t_correlation_id s)"
  have ne: "task_key \<noteq> []"
    using assms(3) by (simp add: task_key_def autostop_retry_idempotency_key_def split: option.splits)
  obtain tg delivery account where ct: "checked_target c a target db = Inr (tg, delivery, account)"
    using assms(1) by (auto simp: create_command_def err_simps)
  define diverged where "diverged = (case latest of None \<Rightarrow> None | Some t \<Rightarrow>
      if is_reconciled_confirmed (has_post_evidence target t db) t
         \<and> \<not> delivery_matches_result (str_or_empty (jget (t_payload t) ''mutation_kind'')) delivery
      then Some t else None)"
  obtain db1 p q ti where
    op: "(case diverged of None \<Rightarrow> Inr db | Some t \<Rightarrow> open_status_divergence_incident c target
        (if or_empty (tg_ad_name tg) = [] then ''ad'' else or_empty (tg_ad_name tg)) (t_id t)
        (str_or_empty (jget (t_payload t) ''mutation_kind'')) delivery corr db) = Inr db1"
    and p: "command_payload env a target tg account = Inr p"
    and cr': "create_mutation_task c p (take 64 (aa_requested_by a)) ''pending'' (Some task_key) (aa_max_attempts a)
       (aa_created_by_chat_id a) (Some (requested_priority a)) (Some task_corr) (cq db1) = Inr (q, ti)"
    and fin: "(case ti of None \<Rightarrow> Inl (CommandConflictError ''idempotency key exists outside the command receipt ledger'')
      | Some i \<Rightarrow> ebind (bind_command_key task_key i (aa_action_kind a) target (db1\<lparr>cq := q\<rparr>)) (\<lambda>db2.
          Inr (db2, \<lparr>cr_task_id = i, cr_created = True, cr_state = CQueued, cr_correlation_id = task_corr\<rparr>)))
      = Inr (db', r)"
    using assms(1) ct unfolding create_command_def Let_def task_key_def [symmetric] task_corr_def [symmetric]
    by (simp add: ebind_eq_Inr diverged_def [symmetric]) blast
  obtain i where ti: "ti = Some i"
    and b: "bind_command_key task_key i (aa_action_kind a) target (db1\<lparr>cq := q\<rparr>) = Inr db'"
    and r: "r = \<lparr>cr_task_id = i, cr_created = True, cr_state = CQueued, cr_correlation_id = task_corr\<rparr>"
    using fin by (auto simp: err_simps split: option.splits)
  note cr = cr' [unfolded ti]
  have d1: "receipts db1 = receipts db" "targets db1 = targets db" "tasks (cq db1) = tasks (cq db)"
    "next_id (cq db1) = next_id (cq db)"
    using op divergence_facts by (auto split: option.splits)
  show thesis
  proof (rule create_mutation_Inr [OF cr ne], goal_cases)
    case (1 t)
    have old: "rp_task_id x \<noteq> i" if x: "x \<in> set (receipts db)" for x
    proof -
      obtain u where "u \<in> set (tasks (cq db))" "t_id u = rp_task_id x"
        using assms(2) x by (auto simp: command_inv_def receipt_ok_def)
      then show ?thesis
        using assms(2) 1(1) d1(4) by (auto simp: command_inv_def queue_inv_def)
    qed
    have fresh: "db' \<noteq> db1\<lparr>cq := q\<rparr>"
    proof
      assume "db' = db1\<lparr>cq := q\<rparr>"
      then have "receipts db' = receipts db"
        using d1(1) by simp
      then show False
        using bind_Inr [OF b] old by force
    qed
    have bound: "cq db' = q" "targets db' = targets db"
      "task_key \<notin> set (map rp_idempotency_key (receipts db)) \<and> receipts db' = receipts db @
        [\<lparr>rp_idempotency_key = task_key, rp_task_id = i, rp_action_kind = aa_action_kind a, rp_target_id = target\<rparr>]"
      using bind_Inr [OF b] d1 fresh by auto
    moreover have new: "tasks (cq db') = tasks (cq db) @ [t]"
      using 1(2) d1(3) bound(1) by simp
    moreover have "source = None \<Longrightarrow> t_idempotency_key t = key"
      using 1(5) by (simp add: task_key_def)
    ultimately show ?case
      using 1 d1 r by (intro that [OF ct p new]) simp_all
  qed
qed

section \<open>A command keeps the invariant\<close>

definition evolves :: "command_db \<Rightarrow> command_db \<Rightarrow> bool" where
  "evolves db db' \<longleftrightarrow>
     (\<forall>t \<in> set (tasks (cq db)). \<exists>t' \<in> set (tasks (cq db')). command_row t t') \<and>
     set (receipts db) \<subseteq> set (receipts db')"

lemma evolves_refl [simp]: "evolves db db"
  by (force simp: evolves_def)

lemma evolves_trans: "evolves db db1 \<Longrightarrow> evolves db1 db2 \<Longrightarrow> evolves db db2"
  unfolding evolves_def by (meson command_row_trans subset_trans)

lemma evolves_same: "tasks (cq db') = tasks (cq db) \<Longrightarrow> set (receipts db) \<subseteq> set (receipts db') \<Longrightarrow> evolves db db'"
  by (force simp: evolves_def)

lemma evolves_map:
  "tasks (cq db') = map g (tasks (cq db)) \<Longrightarrow> (\<And>t. t \<in> set (tasks (cq db)) \<Longrightarrow> command_row t (g t)) \<Longrightarrow>
   receipts db' = receipts db \<Longrightarrow> evolves db db'"
  by (auto simp: evolves_def)

lemma strengthen_evolves: "evolves db (strengthen_active_task c i m p db)"
  by (rule strengthen_rows [of c i m p db]) (rule evolves_map, assumption, simp_all)

lemma bind_evolves: "bind_command_key key i kind target db = Inr db' \<Longrightarrow> evolves db db'"
  using bind_Inr [of key i kind target db db'] by (intro evolves_same) auto

text \<open>What a successful command leaves behind: its receipt and the row it names.\<close>

definition answered :: "string \<Rightarrow> ad_action \<Rightarrow> string \<Rightarrow> command_receipt \<Rightarrow> command_db \<Rightarrow> bool" where
  "answered key a target r db \<longleftrightarrow>
     \<lparr>rp_idempotency_key = key, rp_task_id = cr_task_id r, rp_action_kind = aa_action_kind a,
      rp_target_id = target\<rparr> \<in> set (receipts db) \<and>
     (\<exists>t \<in> set (tasks (cq db)). t_id t = cr_task_id r \<and> t_correlation_id t = cr_correlation_id r)"

lemma answered_evolves: "answered key a target r db \<Longrightarrow> evolves db db' \<Longrightarrow> answered key a target r db'"
  unfolding answered_def evolves_def command_row_def by (metis subsetD)

lemma join_step:
  assumes "join_barrier c env a target key src b db = Inr (db', r)" "command_inv db" "b \<in> set (tasks (cq db))"
    "is_toggle_of target b"
  shows "command_inv db'" "evolves db db'" "\<not> src \<Longrightarrow> answered key a target r db'" "\<not> cr_created r"
    "map t_id (tasks (cq db')) = map t_id (tasks (cq db))" "targets db' = targets db"
proof -
  define db1 where "db1 = (if active_status (t_status b)
      then strengthen_active_task c (t_id b) (aa_max_attempts a) (requested_priority a) db else db)"
  have kind: "arrow_text (t_payload b) ''mutation_kind'' = Some (aa_action_kind a)"
    and b: "(if src then Inr db1 else bind_command_key key (t_id b) (aa_action_kind a) target db1) = Inr db'"
    and r: "r = task_receipt False b"
    using assms(1) by (auto simp: join_barrier_def db1_def Let_def err_simps split: if_splits)
  have n: "named_target b"
    using assms(2,3) by (simp add: command_inv_def)
  let ?x = "\<lparr>rp_idempotency_key = key, rp_task_id = t_id b, rp_action_kind = aa_action_kind a, rp_target_id = target\<rparr>"
  have ok: "receipt_ok (tasks (cq db)) ?x"
    unfolding receipt_ok_def using assms(3) named_toggle [OF assms(4) n] kind by (intro bexI [of _ b]) auto
  have d1: "command_inv db1" "evolves db db1" "receipt_ok (tasks (cq db1)) ?x"
    "map t_id (tasks (cq db1)) = map t_id (tasks (cq db))" "targets db1 = targets db"
    using assms(2) ok strengthen_inv strengthen_evolves strengthen_receipt_ok by (simp_all add: db1_def)
  show inv: "command_inv db'"
    using b d1(1,3) bind_inv by (auto split: if_splits)
  show ev: "evolves db db'"
    using b d1(2) bind_evolves evolves_trans by (auto split: if_splits)
  show "\<not> cr_created r"
    by (simp add: r task_receipt_def)
  show "map t_id (tasks (cq db')) = map t_id (tasks (cq db))" "targets db' = targets db"
    using b d1(4,5) bind_Inr by (auto split: if_splits)
  assume "\<not> src"
  then have "?x \<in> set (receipts db')"
    using b bind_Inr by auto
  moreover obtain t' where "t' \<in> set (tasks (cq db'))" "command_row b t'"
    using ev assms(3) unfolding evolves_def by blast
  ultimately show "answered key a target r db'"
    unfolding answered_def by (auto simp: r task_receipt_def command_row_def)
qed

lemma create_step:
  assumes "create_command c env a target key corr source latest db = Inr (db', r)" "command_inv db" "key \<noteq> []"
    and "\<And>u. u \<in> set (tasks (cq db)) \<Longrightarrow> is_toggle_of target u \<Longrightarrow> \<not> active_status (t_status u)"
  shows "command_inv db' \<and> evolves db db' \<and> (source = None \<longrightarrow> answered key a target r db')"
  using assms(1-3)
proof (rule create_Inr, goal_cases)
  case (1 t p tg delivery account)
  note pl = command_payload_Inr [OF 1(2)]
  have kind: "jget (t_payload t) ''mutation_kind'' = JStr (aa_action_kind a)"
    "jget (t_payload t) ''target_id'' = JStr target"
    using 1(9) pl by simp_all
  have "command_inv (db'\<lparr>receipts := receipts db\<rparr>)"
  proof (rule command_inv_add [OF assms(2)])
    show "named_target t" using kind by (simp add: named_target_def)
    show "\<not> active_status (t_status u)"
      if "is_toggle_of tgt t" "u \<in> set (tasks (cq db))" "is_toggle_of tgt u" for tgt u
      using that assms(4) kind by (auto simp: is_toggle_of_def)
  qed (use 1 in simp_all)
  moreover have "receipt_ok (tasks (cq db')) \<lparr>rp_idempotency_key = t_idempotency_key t, rp_task_id = t_id t,
       rp_action_kind = aa_action_kind a, rp_target_id = target\<rparr>"
    using 1(3,7) kind by (simp add: receipt_ok_def)
  ultimately have "command_inv db'"
    using 1(16,17) command_inv_receipt [of "db'\<lparr>receipts := receipts db\<rparr>" db'] by simp
  moreover have "evolves db db'"
    using 1(3,16) by (force simp: evolves_def)
  moreover have "source = None \<longrightarrow> answered key a target r db'"
    using 1(3,13,14,16) by (auto simp: answered_def)
  ultimately show ?case by blast
qed

lemma latest_Some:
  "latest_command target db = Some t \<Longrightarrow> t \<in> set (tasks (cq db)) \<and> is_toggle_of target t"
  using newest_Some [of "filter (is_toggle_of target) (tasks (cq db))" t] by (simp add: latest_command_def)

text \<open>The task that blocks a command, if there is one.\<close>

definition blocking :: "ad_action \<Rightarrow> string \<Rightarrow> command_db \<Rightarrow> task option" where
  "blocking a target db =
     (case latest_command target db of None \<Rightarrow> None | Some t \<Rightarrow>
        if target_barrier (has_post_evidence target t db) t \<and> \<not> verified_safety_supersedes_barrier t (aa_verified a)
        then Some t else None)"

lemma blocking_None_inactive:
  assumes "command_inv db" "blocking a target db = None" "u \<in> set (tasks (cq db))" "is_toggle_of target u"
  shows "\<not> active_status (t_status u)"
  using assms(2)
  by (intro latest_inactive [OF assms(1) _ assms(3,4)])
    (auto simp: blocking_def target_barrier_def verified_safety_supersedes_barrier_def split: if_splits)

lemma unbound_step:
  assumes "enqueue_unbound c env a target key corr source db = Inr (db', r)" "command_inv db" "key \<noteq> []"
  shows "command_inv db' \<and> evolves db db' \<and> (source = None \<longrightarrow> answered key a target r db')"
proof -
  define db1 where "db1 = (case source of None \<Rightarrow> db | Some s \<Rightarrow> reopen_rejected_autostop_incident c (t_correlation_id s) db)"
  have d1: "tasks (cq db1) = tasks (cq db)" "next_id (cq db1) = next_id (cq db)" "receipts db1 = receipts db"
    by (simp_all add: db1_def split: option.splits)
  then have inv: "command_inv db1" and ev: "evolves db db1"
    using assms(2) same_tasks_inv evolves_same by (metis, simp)
  have run: "(case blocking a target db1 of
      Some b \<Rightarrow> join_barrier c env a target key (source \<noteq> None) b db1
    | None \<Rightarrow> create_command c env a target key corr source (latest_command target db1) db1) = Inr (db', r)"
    using assms(1) unfolding enqueue_unbound_def Let_def blocking_def db1_def [symmetric]
    by (simp split: if_splits)
  show ?thesis
  proof (cases "blocking a target db1")
    case None
    then show ?thesis
      using run create_step [OF _ inv assms(3)] blocking_None_inactive [OF inv None] ev evolves_trans by fastforce
  next
    case (Some b)
    then have "b \<in> set (tasks (cq db1))" "is_toggle_of target b"
      using latest_Some by (auto simp: blocking_def split: option.splits if_splits)
    then show ?thesis
      using run Some join_step [OF _ inv] ev evolves_trans by fastforce
  qed
qed

definition command_key :: "ad_action \<Rightarrow> string" where
  "command_key a = py_strip (aa_idempotency_key a)"

definition command_target :: "ad_action \<Rightarrow> string" where
  "command_target a = py_strip (aa_fb_ad_id a)"

definition well_formed_action :: "ad_action \<Rightarrow> bool" where
  "well_formed_action a \<longleftrightarrow>
     aa_action_kind a \<in> {''pause_ad'', ''activate_ad''} \<and> command_target a \<noteq> [] \<and> command_key a \<noteq> [] \<and>
     length (command_key a) \<le> 128 \<and> 1 \<le> aa_max_attempts a \<and>
     (aa_expected_delivery_status a = None) = (aa_expected_as_of a = None)"

definition with_uuid :: "ad_action \<Rightarrow> command_db \<Rightarrow> command_db" where
  "with_uuid a db = (if aa_correlation_id a = None
     then db\<lparr>cq := (cq db)\<lparr>ops := (ops (cq db))\<lparr>next_uuid := next_uuid (ops (cq db)) + 1\<rparr>\<rparr>\<rparr> else db)"

lemma with_uuid_facts [simp]:
  "tasks (cq (with_uuid a db)) = tasks (cq db)" "next_id (cq (with_uuid a db)) = next_id (cq db)"
  "receipts (with_uuid a db) = receipts db" "targets (with_uuid a db) = targets db"
  by (simp_all add: with_uuid_def)

lemma with_uuid_inv [simp]: "command_inv db \<Longrightarrow> command_inv (with_uuid a db)"
  by (rule same_tasks_inv) simp_all

lemma with_uuid_evolves [simp]: "evolves db (with_uuid a db)"
  by (rule evolves_same) simp_all

lemma enqueue_unfold:
  assumes "well_formed_action a"
  shows "enqueue_ad_action c env a db =
    (let corr = coalesce (aa_correlation_id a) (next_uuid (ops (cq db))); db1 = with_uuid a db
     in case get_bound_command (command_key a) db1 of
          None \<Rightarrow> enqueue_unbound c env a (command_target a) (command_key a) corr None db1
        | Some (x, t) \<Rightarrow>
            ebind (receipt_for_semantics x t (aa_action_kind a) (command_target a)) (\<lambda>receipt.
              if is_rejected_autostop_retry_source t (aa_action_kind a) (aa_requested_by a)
              then enqueue_unbound c env a (command_target a) (command_key a) corr (Some t) db1
              else ebind (ce_authorize env None) (\<lambda>_.
                Inr (strengthen_active_task c (cr_task_id receipt) (aa_max_attempts a) (requested_priority a) db1, receipt))))"
  using assms unfolding enqueue_ad_action_def well_formed_action_def command_key_def command_target_def with_uuid_def Let_def
  by auto

lemma enqueue_well_formed:
  "enqueue_ad_action c env a db = Inr p \<Longrightarrow> well_formed_action a"
  by (auto simp: enqueue_ad_action_def well_formed_action_def command_key_def command_target_def Let_def
      split: if_splits)

lemma bound_answer:
  assumes "get_bound_command key db = Some (x, t)" "receipt_for_semantics x t (aa_action_kind a) target = Inr r"
  shows "answered key a target r db" "r = task_receipt False t"
proof -
  have x: "r = task_receipt False t" "rp_action_kind x = aa_action_kind a" "rp_target_id x = target"
    using assms(2) by (auto simp: receipt_for_semantics_def split: if_splits)
  then have "x = \<lparr>rp_idempotency_key = key, rp_task_id = cr_task_id r, rp_action_kind = aa_action_kind a,
      rp_target_id = target\<rparr>"
    using get_bound_Some [OF assms(1)] by (intro receipt_row.equality) (simp_all add: task_receipt_def)
  then show "answered key a target r db"
    using get_bound_Some [OF assms(1)] x(1) by (auto simp: answered_def task_receipt_def)
  show "r = task_receipt False t" by (rule x)
qed

lemma enqueue_step:
  assumes "enqueue_ad_action c env a db = Inr (db', r)" "command_inv db"
  shows "command_inv db' \<and> evolves db db' \<and>
    (aa_requested_by a \<noteq> ''bot_auto_stop'' \<longrightarrow> answered (command_key a) a (command_target a) r db')"
proof -
  note wf = enqueue_well_formed [OF assms(1)]
  have key: "command_key a \<noteq> []" using wf by (simp add: well_formed_action_def)
  have inv: "command_inv (with_uuid a db)" and ev: "evolves db (with_uuid a db)"
    using assms(2) by simp_all
  note run = assms(1) [unfolded enqueue_unfold [OF wf] Let_def]
  show ?thesis
  proof (cases "get_bound_command (command_key a) (with_uuid a db)")
    case None
    then show ?thesis
      using run unbound_step [OF _ inv key] ev evolves_trans by fastforce
  next
    case (Some xt)
    obtain x t where xt: "xt = (x, t)" by (cases xt)
    then obtain r1 where r1: "receipt_for_semantics x t (aa_action_kind a) (command_target a) = Inr r1"
      using run Some by (auto simp: err_simps)
    show ?thesis
    proof (cases "is_rejected_autostop_retry_source t (aa_action_kind a) (aa_requested_by a)")
      case True
      then have "aa_requested_by a = ''bot_auto_stop''"
        by (simp add: is_rejected_autostop_retry_source_def)
      moreover have "enqueue_unbound c env a (command_target a) (command_key a)
          (coalesce (aa_correlation_id a) (next_uuid (ops (cq db)))) (Some t) (with_uuid a db) = Inr (db', r)"
        using run Some xt r1 True by simp
      ultimately show ?thesis
        using unbound_step [OF _ inv key] ev evolves_trans by blast
    next
      case False
      then have d: "db' = strengthen_active_task c (cr_task_id r1) (aa_max_attempts a) (requested_priority a)
          (with_uuid a db)" "r = r1"
        using run Some xt r1 by (auto simp: err_simps)
      have "answered (command_key a) a (command_target a) r db'"
        using bound_answer(1) [OF Some [unfolded xt] r1] strengthen_evolves answered_evolves unfolding d by blast
      then show ?thesis
        using strengthen_inv [OF inv] strengthen_evolves ev evolves_trans d(1) by blast
    qed
  qed
qed

end
