(* ===== verification/CommandProps.thy ===== *)
theory CommandProps
  imports CommandRows ObserverRow
begin

text \<open>
  What the command service guarantees over every interleaving of commands, workers, reconcilers and
  scans: one command in flight per advertisement, one task per command key, and no task without
  the checks of its advertisement. The last section composes the service with the observer.
\<close>

section \<open>Interleavings\<close>

text \<open>
  The transactions that touch a command: the two entry points of the service, the workers, claims
  and reconcilers of the queue, the tasks of every other kind, the tracker's cancellation of
  automatic stops, and the scans that renew the catalogue the service reads.
\<close>

inductive command_step :: "command_db \<Rightarrow> command_db \<Rightarrow> bool" where
  command: "enqueue_ad_action c env a db = Inr (db', r) \<Longrightarrow> command_step db db'"
| compensate: "enqueue_verified_pause_compensation c env ad key reason i ob corr m db = Inr (db', r) \<Longrightarrow>
    command_step db db'"
| worker: "worker_step c i ow k (cq db) q \<Longrightarrow> command_step db (db\<lparr>cq := q\<rparr>)"
| system: "system_step c (cq db) q \<Longrightarrow> command_step db (db\<lparr>cq := q\<rparr>)"
| other_task: "create_task c x (cq db) = Inr (q, ti) \<Longrightarrow> ca_task_type x \<noteq> ''meta_api_mutation'' \<Longrightarrow>
    command_step db (db\<lparr>cq := q\<rparr>)"
| other_mutation: "create_mutation_task c p by_value st key m chat prio corr (cq db) = Inr (q, ti) \<Longrightarrow>
    mp_mutation_kind p \<notin> {''pause_ad'', ''activate_ad''} \<Longrightarrow> command_step db (db\<lparr>cq := q\<rparr>)"
| tracker: "cancel_unstarted_auto_pause c fb_ad_id lc iv now (cq db) = Inr (q, cr) \<Longrightarrow> command_step db (db\<lparr>cq := q\<rparr>)"
| scan: "command_step db (db\<lparr>targets := tgs\<rparr>)"

lemma queue_map_step:
  assumes "command_inv db" "tasks q = map g (tasks (cq db))" "next_id q = next_id (cq db)"
    and "\<And>t. t \<in> set (tasks (cq db)) \<Longrightarrow> row_next t (g t)"
  shows "command_inv (db\<lparr>cq := q\<rparr>) \<and> evolves db (db\<lparr>cq := q\<rparr>)"
  using command_inv_map [OF assms(1), of "db\<lparr>cq := q\<rparr>" g] evolves_map [of "db\<lparr>cq := q\<rparr>" g db] assms(2-4)
    row_next_command by simp

lemma create_other_step:
  assumes "command_inv db" "create_task c x (cq db) = Inr (q, ti)"
    and "ca_task_type x \<noteq> ''meta_api_mutation'' \<or>
      (\<exists>p. ca_payload x = to_dict p \<and> mp_mutation_kind p \<notin> {''pause_ad'', ''activate_ad''})"
  shows "command_inv (db\<lparr>cq := q\<rparr>) \<and> evolves db (db\<lparr>cq := q\<rparr>)"
proof (cases ti)
  case None
  then have q: "tasks q = tasks (cq db)" "next_id q = next_id (cq db) + 1"
    using create_cases [OF assms(2)] by auto
  have "queue_inv q"
    using assms(1) q by (force simp: command_inv_def queue_inv_def)
  then show ?thesis
    using assms(1) q(1) by (simp add: command_inv_def evolves_same)
next
  case (Some i)
  then obtain tt st l corr where new: "next_id q = next_id (cq db) + 1" "map_of TASK_TYPES (ca_task_type x) = Some tt"
    "ca_idempotency_key x \<notin> set (map t_idempotency_key (tasks (cq db)))"
    "tasks q = tasks (cq db) @ [new_task c x tt st l (next_id (cq db)) corr]"
    using create_cases [OF assms(2)] by auto
  let ?t = "new_task c x tt st l (next_id (cq db)) corr"
  have p: "t_type ?t = tt" "t_payload ?t = ca_payload x"
    by (simp_all add: new_task_def)
  have ty: "tt = MetaApiMutation \<Longrightarrow> ca_task_type x = ''meta_api_mutation''"
    using new(2) by (auto simp: TASK_TYPES_def split: if_splits)
  have "command_inv (db\<lparr>cq := q\<rparr>)"
  proof (rule command_inv_add [OF assms(1)])
    show "named_target ?t"
      using assms(3) ty p by (auto simp: named_target_def)
    have "\<not> is_toggle_of tgt ?t" for tgt
      using assms(3) ty p by (auto simp: is_toggle_of_def)
    then show "\<not> active_status (t_status u)" if "is_toggle_of tgt ?t" for tgt u
      using that by blast
  qed (use new in simp_all)
  then show ?thesis
    using new(4) by (force simp: evolves_def)
qed

lemma command_step_keeps:
  assumes "command_step db db'" "command_inv db"
  shows "command_inv db' \<and> evolves db db'"
  using assms
proof (induction rule: command_step.induct)
  case (command c env a db db' r)
  then show ?case using enqueue_step by blast
next
  case (compensate c env ad key reason i ob corr m db db' r)
  then obtain a where "enqueue_ad_action c env a db = Inr (db', r)"
    by (auto simp: enqueue_verified_pause_compensation_def err_simps split: if_splits)
  then show ?case using compensate.prems enqueue_step by blast
next
  case (worker c i ow k db q)
  then show ?case using worker_step_touches [OF worker.hyps] queue_map_step by metis
next
  case (system c db q)
  then have "queue_inv (cq db)" by (simp add: command_inv_def)
  then obtain g where "tasks q = map g (tasks (cq db))" "next_id q = next_id (cq db)"
    "\<And>t. t \<in> set (tasks (cq db)) \<Longrightarrow> row_next t (g t)"
    using system_step_rows [OF system.hyps] unfolding system_row_def by blast
  then show ?case using system.prems queue_map_step by blast
next
  case (other_task c x db q ti)
  then show ?case using create_other_step by blast
next
  case (other_mutation c p by_value st key m chat prio corr db q ti)
  then obtain k where k: "create_task c (mutation_create_args p by_value k m chat prio corr) (cq db) = Inr (q, ti)"
    by (auto simp: create_mutation_task_def Let_def split: if_splits)
  show ?case
    using other_mutation.hyps(2) by (intro create_other_step [OF other_mutation.prems k])
      (auto simp: mutation_create_args_def)
next
  case (tracker c fb_ad_id lc iv now db q cr)
  then show ?case using tracker_rows [OF tracker.hyps] tracker_row_next queue_map_step by blast
next
  case (scan db tgs)
  then show ?case by (simp add: command_inv_def evolves_same)
qed

lemma command_steps_keep:
  "command_step\<^sup>*\<^sup>* db db' \<Longrightarrow> command_inv db \<Longrightarrow> command_inv db' \<and> evolves db db'"
  by (induction rule: rtranclp_induct) (auto dest: command_step_keeps intro: evolves_trans)

text \<open>
  C15. At most one command per advertisement is in flight: over every interleaving of operator,
  Telegram and automatic commands, safety compensations, workers, retries, reconcilers, manual
  reviews, other tasks and scans, two pending, retrying or running pause or activate tasks of one
  advertisement are the same task, so a pause and an activation never race in Meta.
\<close>

theorem one_command_in_flight:
  assumes "command_inv db" "command_step\<^sup>*\<^sup>* db db'"
    and "t \<in> set (tasks (cq db'))" "is_toggle_of target t" "active_status (t_status t)"
    and "u \<in> set (tasks (cq db'))" "is_toggle_of target u" "active_status (t_status u)"
  shows "t = u"
proof -
  have inv: "queue_inv (cq db')" "only_newest_active (tasks (cq db'))"
    using command_steps_keep [OF assms(2,1)] by (simp_all add: command_inv_def)
  have "t_id t = t_id u"
    using only_newestD [OF inv(2) assms(3,6)] only_newestD [OF inv(2) assms(6,3)] assms(4,5,7,8) by fastforce
  then show ?thesis
    using row_unique [OF inv(1) assms(3,6)] by simp
qed

text \<open>
  C16. The key of an operator's command is answered by one task: after a command of anybody but the
  automatic stop was accepted, the same command sent again (a lost response, a second tab) after any
  interleaving of commands and queue transactions returns the task and correlation id of the first
  answer, reports it as not created and adds no task, also when that task belonged to another key
  or has long been closed. (Retention, which deletes closed tasks and with them the receipts, is no
  step of the interleavings; an automatic stop may reuse its key after a rejection.)
\<close>

theorem command_key_is_durable:
  assumes "command_inv db" "enqueue_ad_action c env a db = Inr (db1, r)" "aa_requested_by a \<noteq> ''bot_auto_stop''"
    and "command_step\<^sup>*\<^sup>* db1 db2" "ce_authorize env' None = Inr ()"
  shows "\<exists>db3 r'. enqueue_ad_action c' env' a db2 = Inr (db3, r') \<and> cr_task_id r' = cr_task_id r \<and>
    cr_correlation_id r' = cr_correlation_id r \<and> \<not> cr_created r' \<and>
    map t_id (tasks (cq db3)) = map t_id (tasks (cq db2)) \<and> receipts db3 = receipts db2"
proof -
  let ?k = "command_key a" and ?tg = "command_target a"
  define x where "x = \<lparr>rp_idempotency_key = ?k, rp_task_id = cr_task_id r, rp_action_kind = aa_action_kind a,
      rp_target_id = ?tg\<rparr>"
  have s1: "command_inv db1" "answered ?k a ?tg r db1"
    using enqueue_step [OF assms(2,1)] assms(3) by simp_all
  have inv2: "command_inv (with_uuid a db2)" and an: "answered ?k a ?tg r db2"
    using command_steps_keep [OF assms(4) s1(1)] answered_evolves [OF s1(2)] by simp_all
  have x: "x \<in> set (receipts db2)"
    using an by (simp add: answered_def x_def)
  have "find (\<lambda>y. rp_idempotency_key y = ?k) (receipts db2) = Some x"
  proof -
    have "distinct (map rp_idempotency_key rs) \<Longrightarrow> x \<in> set rs \<Longrightarrow>
        find (\<lambda>y. rp_idempotency_key y = ?k) rs = Some x" for rs
      by (induction rs) (auto simp: x_def image_iff)
    then show ?thesis
      using x inv2 by (simp add: command_inv_def)
  qed
  moreover obtain t where t: "t \<in> set (tasks (cq db2))" "t_id t = cr_task_id r" "t_correlation_id t = cr_correlation_id r"
    using an by (auto simp: answered_def)
  moreover have tb: "task_by_id (cr_task_id r) (cq (with_uuid a db2)) = Some t"
    using inv2 t(1,2) by (intro task_by_id_present) (simp_all add: command_inv_def)
  ultimately have b: "get_bound_command ?k (with_uuid a db2) = Some (x, t)"
    by (simp add: get_bound_command_def x_def)
  have "receipt_ok (tasks (cq db2)) x"
    using inv2 x by (simp add: command_inv_def)
  then obtain u where u: "u \<in> set (tasks (cq db2))" "t_id u = rp_task_id x" "t_type u = MetaApiMutation"
    "jget (t_payload u) ''mutation_kind'' = JStr (rp_action_kind x)" "jget (t_payload u) ''target_id'' = JStr (rp_target_id x)"
    unfolding receipt_ok_def by blast
  then have "u = t"
    using row_unique [of "cq db2" u t] t inv2 by (simp add: command_inv_def x_def queue_inv_def)
  then have sem: "receipt_for_semantics x t (aa_action_kind a) ?tg = Inr (task_receipt False t)"
    using u by (simp add: receipt_for_semantics_def x_def str_or_empty_def py_str_def)
  have "\<not> is_rejected_autostop_retry_source t (aa_action_kind a) (aa_requested_by a)"
    using assms(3) by (simp add: is_rejected_autostop_retry_source_def)
  then have "enqueue_ad_action c' env' a db2 = Inr (strengthen_active_task c' (cr_task_id (task_receipt False t))
      (aa_max_attempts a) (requested_priority a) (with_uuid a db2), task_receipt False t)"
    using enqueue_unfold [OF enqueue_well_formed [OF assms(2)], of c' env' db2] b sem assms(5) by (simp add: Let_def)
  then show ?thesis
    using t by (auto simp: task_receipt_def)
qed

section \<open>The checks of the advertisement\<close>

text \<open>What the catalogue must say of an advertisement before a command is queued for it.\<close>

definition actionable :: "clock \<Rightarrow> ad_action \<Rightarrow> ad_target \<Rightarrow> bool" where
  "actionable c a tg \<longleftrightarrow>
     normalize_delivery_status (case aa_verified a of Some v \<Rightarrow> Some v | None \<Rightarrow> tg_delivery_status tg)
       \<in> set (ACTION_SOURCE_STATUSES (aa_action_kind a)) \<and>
     (\<exists>account. require_ad_account_id (opt_json (tg_ad_account_id tg)) = Inr account) \<and>
     validated_currency_code (tg_currency tg) = Some ''USD'' \<and>
     currency_evidence_is_fresh (tg_currency_observed_at tg) (py_now c) \<and>
     (case (aa_expected_delivery_status a, aa_expected_as_of a) of
        (Some d, Some t) \<Rightarrow> normalize_delivery_status (tg_delivery_status tg) = py_upper (py_strip d) \<and>
          max_of (tg_metrics tg) = Some t
      | _ \<Rightarrow> True)"

lemma checked_target_Inr:
  assumes "checked_target c a target db = Inr (tg, delivery, account)"
  shows "targets db target = Some tg" "actionable c a tg"
    "require_ad_account_id (opt_json (tg_ad_account_id tg)) = Inr account"
  using assms
  by (auto simp: checked_target_def actionable_def require_actionable_delivery_def err_simps Let_def
      split: option.splits if_splits sum.splits prod.splits)

lemma checked_target_actionable:
  assumes "targets db target = Some tg" "actionable c a tg"
  shows "\<exists>delivery account. checked_target c a target db = Inr (tg, delivery, account)"
  using assms
  by (auto simp: checked_target_def actionable_def require_actionable_delivery_def Let_def
      split: option.splits if_splits)

lemma unbound_created:
  assumes "enqueue_unbound c env a target key corr source db = Inr (db', r)" "command_inv db" "key \<noteq> []" "cr_created r"
  obtains db1 where "create_command c env a target key corr source (latest_command target db1) db1 = Inr (db', r)"
    "command_inv db1" "blocking a target db1 = None" "tasks (cq db1) = tasks (cq db)"
    "targets db1 = targets db" "next_id (cq db1) = next_id (cq db)"
proof -
  define db1 where "db1 = (case source of None \<Rightarrow> db | Some s \<Rightarrow> reopen_rejected_autostop_incident c (t_correlation_id s) db)"
  have d1: "tasks (cq db1) = tasks (cq db)" "next_id (cq db1) = next_id (cq db)" "receipts db1 = receipts db"
    "targets db1 = targets db"
    by (simp_all add: db1_def split: option.splits)
  then have inv: "command_inv db1"
    using assms(2) same_tasks_inv by metis
  have run: "(case blocking a target db1 of
      Some b \<Rightarrow> join_barrier c env a target key (source \<noteq> None) b db1
    | None \<Rightarrow> create_command c env a target key corr source (latest_command target db1) db1) = Inr (db', r)"
    using assms(1) unfolding enqueue_unbound_def Let_def blocking_def db1_def [symmetric]
    by (simp split: if_splits)
  have none: "blocking a target db1 = None"
  proof (cases "blocking a target db1")
    case (Some b)
    then have "\<not> cr_created r"
      using run by (auto simp: join_barrier_def task_receipt_def Let_def err_simps split: if_splits)
    then show ?thesis using assms(4) by simp
  qed
  show thesis
    using run none by (intro that [OF _ inv none d1(1,4,2)]) simp
qed

lemma enqueue_created:
  assumes "enqueue_ad_action c env a db = Inr (db', r)" "command_inv db" "cr_created r"
  obtains db1 key corr source where
    "create_command c env a (command_target a) key corr source (latest_command (command_target a) db1) db1 = Inr (db', r)"
    "command_inv db1" "key \<noteq> []" "blocking a (command_target a) db1 = None" "tasks (cq db1) = tasks (cq db)"
    "targets db1 = targets db" "next_id (cq db1) = next_id (cq db)"
proof -
  note wf = enqueue_well_formed [OF assms(1)]
  have key: "command_key a \<noteq> []" using wf by (simp add: well_formed_action_def)
  have inv: "command_inv (with_uuid a db)" using assms(2) by simp
  obtain source where "enqueue_unbound c env a (command_target a) (command_key a)
      (coalesce (aa_correlation_id a) (next_uuid (ops (cq db)))) source (with_uuid a db) = Inr (db', r)"
    using assms(1,3) unfolding enqueue_unfold [OF wf] Let_def
    by (auto simp: err_simps receipt_for_semantics_def task_receipt_def split: option.splits if_splits)
  then show thesis
    by (rule unbound_created [OF _ inv key assms(3)]) (auto intro!: that [OF _ _ key])
qed

text \<open>
  C17. Nothing is queued unchecked: a command that reports a created task added exactly one pending
  task for its advertisement and kind, and at that moment no other command of the advertisement
  was in flight, the catalogue knew the advertisement with a delivery the action starts from (its
  verified one for a compensation), an unchanged state since the operator's confirmation, a valid
  account, which the task carries, and a US dollar currency observed within the last day. Only
  an automatic pause is in the money lane, with priority 200.
\<close>

theorem created_command_was_checked:
  assumes "command_inv db" "enqueue_ad_action c env a db = Inr (db', r)" "cr_created r"
  shows "\<exists>t tg account. tasks (cq db') = tasks (cq db) @ [t] \<and> t_id t = cr_task_id r \<and> t_status t = Pending \<and>
    is_toggle_of (command_target a) t \<and> jget (t_payload t) ''mutation_kind'' = JStr (aa_action_kind a) \<and>
    (\<forall>u. u \<in> set (tasks (cq db)) \<longrightarrow> is_toggle_of (command_target a) u \<longrightarrow> \<not> active_status (t_status u)) \<and>
    targets db (command_target a) = Some tg \<and> actionable c a tg \<and>
    require_ad_account_id (opt_json (tg_ad_account_id tg)) = Inr account \<and>
    jget (t_payload t) ''ad_account_id'' = JStr account \<and> jget (t_payload t) ''currency'' = JStr ''USD'' \<and>
    (t_lane t = LMoney \<longleftrightarrow> aa_action_kind a = ''pause_ad'' \<and> aa_requested_by a = ''bot_auto_stop'') \<and>
    t_priority t = (if t_lane t = LMoney then 200 else 100)"
proof -
  have wf: "aa_action_kind a \<in> {''pause_ad'', ''activate_ad''}"
    using enqueue_well_formed [OF assms(2)] by (simp add: well_formed_action_def)
  obtain db1 key corr source where
    cr: "create_command c env a (command_target a) key corr source (latest_command (command_target a) db1) db1 = Inr (db', r)"
    and inv: "command_inv db1" and key: "key \<noteq> []" and bl: "blocking a (command_target a) db1 = None"
    and same: "tasks (cq db1) = tasks (cq db)" "targets db1 = targets db" "next_id (cq db1) = next_id (cq db)"
    by (rule enqueue_created [OF assms(2,1,3)])
  show ?thesis
  proof (rule create_Inr [OF cr inv key], goal_cases)
    case (1 t p tg delivery account)
    note pl = command_payload_Inr [OF 1(2)] and ck = checked_target_Inr [OF 1(1)]
    have kind: "jget (t_payload t) ''mutation_kind'' = JStr (aa_action_kind a)"
      "jget (t_payload t) ''target_id'' = JStr (command_target a)" "jget (t_payload t) ''currency'' = JStr ''USD''"
      "jget (t_payload t) ''ad_account_id'' = JStr account"
      using 1(9) pl account_id_canonical [OF ck(3)] by (simp_all add: opt_json_def)
    have bot: "take 64 (aa_requested_by a) = ''bot_auto_stop'' \<longleftrightarrow> aa_requested_by a = ''bot_auto_stop''"
    proof
      assume "take 64 (aa_requested_by a) = ''bot_auto_stop''"
      moreover from arg_cong [OF this, of length] have "length (aa_requested_by a) < 64" by (simp add: min_def split: if_splits)
      ultimately show "aa_requested_by a = ''bot_auto_stop''" by simp
    qed simp
    have lane: "t_lane t = LMoney \<longleftrightarrow> aa_action_kind a = ''pause_ad'' \<and> aa_requested_by a = ''bot_auto_stop''"
      using 1(11) wf bot pl(1) by (auto simp: infer_task_lane_def mutation_kind_def str_or_empty_def py_str_def Let_def)
    moreover have "t_priority t = (if t_lane t = LMoney then 200 else 100)"
      using lane 1(10) by (simp add: requested_priority_def)
    moreover have "is_toggle_of (command_target a) t"
      using kind wf 1(7) by (auto simp: is_toggle_of_def)
    moreover have "\<forall>u. u \<in> set (tasks (cq db)) \<longrightarrow> is_toggle_of (command_target a) u \<longrightarrow> \<not> active_status (t_status u)"
      using blocking_None_inactive [OF inv bl] same(1) by simp
    ultimately show ?case
      using 1(3,8,13) kind ck same by (intro exI [of _ t] exI [of _ tg] exI [of _ account]) simp
  qed
qed

definition free_target :: "ad_action \<Rightarrow> command_db \<Rightarrow> bool" where
  "free_target a db \<longleftrightarrow>
     get_bound_command (command_key a) db = None \<and> \<not> queue_key_exists (command_key a) db \<and>
     latest_command (command_target a) db = None"

lemma with_uuid_task [simp]: "task_by_id i (cq (with_uuid a db)) = task_by_id i (cq db)"
  by (simp add: task_by_id_def)

lemma free_target_uuid: "free_target a (with_uuid a db) = free_target a db"
  by (simp add: free_target_def get_bound_command_def queue_key_exists_def latest_command_def cong: option.case_cong)

lemma command_payload_total:
  assumes "aa_action_kind a \<in> {''pause_ad'', ''activate_ad''}" "require_ad_account_id v = Inr account"
  shows "\<exists>p. command_payload env a target tg account = Inr p"
  using assms(1) account_id_canonical [OF assms(2)]
  by (auto simp: command_payload_def make_payload_def MUTATION_KINDS_def Let_def)

lemma create_mutation_total:
  assumes "key \<noteq> []" "key \<notin> set (map t_idempotency_key (tasks q))" "mp_target_id p \<noteq> []"
    "mp_mutation_kind p \<in> {''pause_ad'', ''activate_ad''}" "list_all is_digit (mp_ad_account_id p)" "mp_ad_account_id p \<noteq> []"
  shows "\<exists>q'. create_mutation_task c p by_value ''pending'' (Some key) m chat prio corr q = Inr (q', Some (next_id q))"
proof -
  have "bulk_target_lock_keys p = []"
    using assms(4) by (auto simp: bulk_target_lock_keys_def)
  then show ?thesis
    using assms by (auto simp: create_mutation_task_def mutation_create_args_def create_task_def TASK_TYPES_def
        TASK_STATUSES_def create_lane_def meta_account_identity_def or_empty_def Let_def)
qed

lemma free_command:
  assumes "command_inv db" "well_formed_action a" "free_target a db"
  shows "enqueue_ad_action c env a db = create_command c env a (command_target a) (command_key a)
    (coalesce (aa_correlation_id a) (next_uuid (ops (cq db)))) None None (with_uuid a db)"
proof -
  have f: "free_target a (with_uuid a db)"
    using assms(3) by (simp add: free_target_uuid)
  then show ?thesis
    using enqueue_unfold [OF assms(2), of c env db] by (simp add: free_target_def enqueue_unbound_def Let_def)
qed

text \<open>
  C18. Acceptance is decided by the catalogue alone: for a well-formed command with an unused key, on
  an advertisement without earlier commands and with an authorizer that does not object, the
  service queues a task if and only if the catalogue knows the advertisement as actionable, and
  otherwise raises and changes nothing. In particular a stop of an advertisement that delivers
  as \<open>ACTIVE\<close>, in dollars confirmed within a day, always becomes a task.
\<close>

theorem command_accepted_iff:
  assumes "command_inv db" "well_formed_action a" "free_target a db" "ce_authorize env None = Inr ()"
  shows "(\<exists>db' r. enqueue_ad_action c env a db = Inr (db', r) \<and> cr_created r) \<longleftrightarrow>
    (\<exists>tg. targets db (command_target a) = Some tg \<and> actionable c a tg)"
proof
  assume "\<exists>db' r. enqueue_ad_action c env a db = Inr (db', r) \<and> cr_created r"
  then obtain db' r where "create_command c env a (command_target a) (command_key a)
    (coalesce (aa_correlation_id a) (next_uuid (ops (cq db)))) None None (with_uuid a db) = Inr (db', r)"
    using free_command [OF assms(1-3)] by auto
  then obtain x where "checked_target c a (command_target a) (with_uuid a db) = Inr x"
    by (auto simp: create_command_def err_simps)
  then show "\<exists>tg. targets db (command_target a) = Some tg \<and> actionable c a tg"
    using checked_target_Inr [of c a "command_target a" "with_uuid a db" "fst x" "fst (snd x)" "snd (snd x)"] by simp
next
  assume "\<exists>tg. targets db (command_target a) = Some tg \<and> actionable c a tg"
  then obtain tg delivery account where
    ck: "checked_target c a (command_target a) (with_uuid a db) = Inr (tg, delivery, account)"
    using checked_target_actionable [of "with_uuid a db"] by fastforce
  note acc = checked_target_Inr(3) [OF ck]
  have wf: "aa_action_kind a \<in> {''pause_ad'', ''activate_ad''}" "command_key a \<noteq> []" "command_target a \<noteq> []"
    using assms(2) by (simp_all add: well_formed_action_def)
  obtain p where p: "command_payload env a (command_target a) tg account = Inr p"
    using command_payload_total [OF wf(1) acc] by blast
  note pl = command_payload_Inr [OF p]
  have digits: "list_all is_digit (mp_ad_account_id p)" "mp_ad_account_id p \<noteq> []"
    using account_id_digits [OF pl(4)] by auto
  have key: "command_key a \<notin> set (map t_idempotency_key (tasks (cq (with_uuid a db))))"
    "command_key a \<notin> set (map rp_idempotency_key (receipts db))"
    using assms(3) get_bound_None [OF _ assms(1)] by (simp_all add: free_target_def queue_key_exists_def)
  let ?corr = "coalesce (aa_correlation_id a) (next_uuid (ops (cq db)))"
  obtain q where q: "create_mutation_task c p (take 64 (aa_requested_by a)) ''pending'' (Some (command_key a))
      (aa_max_attempts a) (aa_created_by_chat_id a) (Some (requested_priority a)) (Some ?corr) (cq (with_uuid a db))
      = Inr (q, Some (next_id (cq (with_uuid a db))))"
    using create_mutation_total [OF wf(2) key(1)] wf pl digits by metis
  have "enqueue_ad_action c env a db = Inr ((with_uuid a db)\<lparr>cq := q, receipts := receipts db @
      [\<lparr>rp_idempotency_key = command_key a, rp_task_id = next_id (cq db), rp_action_kind = aa_action_kind a,
        rp_target_id = command_target a\<rparr>]\<rparr>,
      \<lparr>cr_task_id = next_id (cq db), cr_created = True, cr_state = CQueued, cr_correlation_id = ?corr\<rparr>)"
    unfolding free_command [OF assms(1-3)] create_command_def
    using ck p q key(2) assms(4) by (simp add: bind_command_key_def)
  then show "\<exists>db' r. enqueue_ad_action c env a db = Inr (db', r) \<and> cr_created r" by simp
qed

section \<open>The observer's stop\<close>

text \<open>
  What the service answers to the stop of an incident token: \<open>uuid\<close> writes a token as text and
  \<open>corr\<close> is the correlation id of its incident.
\<close>

definition service_refusal ::
  "clock \<Rightarrow> command_env \<Rightarrow> string \<Rightarrow> (token \<Rightarrow> string) \<Rightarrow> (token \<Rightarrow> int option) \<Rightarrow> command_db \<Rightarrow> token \<Rightarrow> error option" where
  "service_refusal c env ad uuid corr db tok =
     (case enqueue_ad_action c env (auto_stop_action ad (uuid tok) (corr tok)) db of
        Inl e \<Rightarrow> Some e
      | Inr _ \<Rightarrow> None)"

lemma latest_None: "latest_command target db = None \<Longrightarrow> t \<in> set (tasks (cq db)) \<Longrightarrow> \<not> is_toggle_of target t"
  by (auto simp: latest_command_def newest_None filter_empty_conv)

lemma unactionable_refused:
  assumes "command_inv db" "latest_command ad db = None" "targets db ad = Some tg" "command_target a = ad"
    "\<not> actionable c a tg"
  shows "\<exists>e. enqueue_ad_action c env a db = Inl e"
proof (cases "enqueue_ad_action c env a db")
  case (Inr p)
  obtain db' r where p: "p = (db', r)" by (cases p)
  note ok = Inr [unfolded p] and wf = enqueue_well_formed [OF Inr]
  have kind: "aa_action_kind a \<in> {''pause_ad'', ''activate_ad''}"
    using wf by (simp add: well_formed_action_def)
  have lt: "latest_command ad (with_uuid a db) = None"
    using assms(2) by (simp add: latest_command_def)
  have False
  proof (cases "get_bound_command (command_key a) (with_uuid a db)")
    case None
    then have "create_command c env a ad (command_key a) (coalesce (aa_correlation_id a) (next_uuid (ops (cq db))))
        None None (with_uuid a db) = Inr (db', r)"
      using ok lt assms(4) unfolding enqueue_unfold [OF wf]
      by (auto simp: enqueue_unbound_def Let_def split: if_splits)
    then obtain x where "checked_target c a ad (with_uuid a db) = Inr x"
      by (auto simp: create_command_def err_simps)
    then show False
      using checked_target_Inr [of c a ad "with_uuid a db" "fst x" "fst (snd x)" "snd (snd x)"] assms(3,5) by simp
  next
    case (Some xt)
    obtain x t where xt: "xt = (x, t)" by (cases xt)
    then obtain r1 where r1: "receipt_for_semantics x t (aa_action_kind a) ad = Inr r1"
      using ok Some assms(4) unfolding enqueue_unfold [OF wf] by (auto simp: err_simps Let_def)
    have t: "t \<in> set (tasks (cq db))"
      using get_bound_Some(3) [OF Some [unfolded xt]] by simp
    then have "named_target t"
      using assms(1) by (simp add: command_inv_def)
    then have "is_toggle_of ad t"
      using r1 kind by (auto simp: receipt_for_semantics_def is_toggle_of_def named_target_def str_or_empty_def py_str_def
          split: if_splits)
    then show False
      using latest_None [OF assms(2) t] by simp
  qed
  then show ?thesis ..
qed simp

lemma pause_effect:
  "PauseCommand tok \<in> set (transition_effects f t db) \<longleftrightarrow>
   create_disable_task t \<and> tok = coalesce (open_incident_token t db) f"
  by (auto simp: transition_effects_def Let_def split: option.splits bool.splits alert_state.splits)

lemma applied_pause_accepted:
  "apply_fsm_transition env t db = Inr (row, eff) \<Longrightarrow> PauseCommand tok \<in> set eff \<Longrightarrow> env_command env tok = None"
  by (auto simp: apply_fsm_transition_def pause_effect split: option.splits if_splits)

lemma finish_pause_accepted:
  assumes "PauseCommand tok \<in> set (ro_effects (finish_row env ws ss gs snap db))"
  shows "env_command env tok = None"
  using assms applied_pause_accepted unfolding finish_row_def Let_def
  by (simp add: failed_row_def split: sum.splits prod.splits)

lemma sync_pause_accepted:
  assumes "PauseCommand tok \<in> set (ro_effects (sync_and_finish env dl ws ss gs snap db))"
  shows "env_command env tok = None"
  using assms finish_pause_accepted
  by (auto simp: sync_and_finish_def failed_row_def split: sum.splits option.splits if_splits prod.splits)

lemma pause_was_accepted:
  assumes "PauseCommand tok \<in> set (ro_effects (process_matched_row env offer row0 snap db))"
    and "ro_error (process_matched_row env offer row0 snap db) = None"
  shows "env_command env tok = None"
  by (rule process_matched_row_ok [OF assms(2) refl]) (use assms(1) sync_pause_accepted in \<open>auto split: if_splits\<close>)

text \<open>
  A stop the service refuses fails its row: when the rules of a row say stop (no grace, delivery not
  off, alert state not claimed or disabled), the advertisement has no earlier command and the
  catalogue does not know it as actionable - its delivery is \<open>WITH_ISSUES\<close>, which counts as
  delivering elsewhere, its currency is not the dollar, or the currency was not confirmed within
  a day - then the transaction of the row ends with an error (and is rolled back).
\<close>

theorem refused_stop_fails_the_row:
  assumes "command_inv cdb" "latest_command ad cdb = None" "targets cdb ad = Some tg" "py_strip ad = ad"
    and "\<And>k. \<not> actionable c (auto_stop_action ad (uuid k) (corr k)) tg"
    and "env_command env = service_refusal c cenv ad uuid corr cdb"
    and "\<not> ro_grace_suppressed (process_matched_row env offer row0 snap db)"
    and row: "row = with_effective_tracker_registrations row0 (env_tracker_registrations env)"
    and ctx: "build_rule_context offer (Some (env_currency env)) (ExpInt (env_exponent env)) (env_ext_deposits env)
       (env_today_deposits env) (finite_part (row_frequency row)) (Some (row_impressions row))
       (Some (row_reach row)) = Inr ctx"
    and ev: "evaluate_stop_rules row ctx = Inr ev" "ev_stage ev = Some STOP"
    and "\<not> is_delivery_disabled (Some (row_delivery_status row))"
    and "case snap of None \<Rightarrow> True | Some s \<Rightarrow> ar_state s \<in> {Normal, WarningSent, StopSent}"
  shows "ro_error (process_matched_row env offer row0 snap db) \<noteq> None"
proof
  let ?out = "process_matched_row env offer row0 snap db"
  assume none: "ro_error ?out = None"
  obtain k where k: "PauseCommand k \<in> set (ro_effects ?out)"
    using stop_row_pauses [OF none assms(7) row ctx ev assms(12,13)] by blast
  have "command_target (auto_stop_action ad (uuid k) (corr k)) = ad"
    using assms(4) by (simp add: command_target_def auto_stop_action_def)
  then obtain e where "enqueue_ad_action c cenv (auto_stop_action ad (uuid k) (corr k)) cdb = Inl e"
    using unactionable_refused [OF assms(1-3) _ assms(5)] by blast
  then have "env_command env k = Some e"
    using assms(6) by (simp add: service_refusal_def)
  then show False
    using pause_was_accepted [OF k none] by simp
qed

section \<open>Samples\<close>

definition cm_target :: ad_target where
  "cm_target = \<lparr>tg_ad_account_id = Some ''123'', tg_ad_name = None, tg_delivery_status = Some ''ACTIVE'',
     tg_cabinet_timezone = None, tg_currency = Some ''USD'', tg_currency_observed_at = Some 0, tg_metrics = [5]\<rparr>"

definition cm_db :: command_db where
  "cm_db = \<lparr>cq = q_empty, receipts = [], targets = (\<lambda>k. if k = ''42'' then Some cm_target else None)\<rparr>"

definition cm_env :: command_env where
  "cm_env = \<lparr>ce_zones = (\<lambda>z. False), ce_authorize = (\<lambda>k. Inr ())\<rparr>"

definition cm_action :: "string \<Rightarrow> ad_action" where
  "cm_action key = \<lparr>aa_action_kind = ''pause_ad'', aa_fb_ad_id = ''42'', aa_requested_by = ''operator'',
     aa_idempotency_key = key, aa_correlation_id = Some 9, aa_max_attempts = 5, aa_params = [],
     aa_created_by_chat_id = None, aa_expected_delivery_status = None, aa_expected_as_of = None, aa_verified = None\<rparr>"

definition cm_task :: task where
  "cm_task = \<lparr>t_id = 1, t_type = MetaApiMutation, t_status = Pending, t_idempotency_key = ''k1'',
     t_payload = [(''mutation_kind'', JStr ''pause_ad''), (''target_id'', JStr ''42''),
       (''params'', JObj [(''requested_via'', JStr ''operator'')]), (''ad_account_id'', JStr ''123''),
       (''account_id'', JStr ''123''), (''currency'', JStr ''USD''), (''cabinet_timezone'', JNull),
       (''account_context_observed_at'', JStr ''0''),
       (''account_context_issues'', JArr [JStr ''cabinet_timezone_unknown''])],
     t_attempt_count = 0, t_max_attempts = 5, t_requested_by = ''operator'', t_created_by_chat_id = None,
     t_last_error = None, t_created_at = tx_now (q_clock 10), t_updated_at = tx_now (q_clock 10), t_completed_at = None,
     t_external_started_at = None, t_result = None, t_lane = LInteractive, t_priority = 100,
     t_available_at = py_now (q_clock 10),
     t_deadline_at = Some (py_now (q_clock 10) + secs (queue_wait_seconds LInteractive)),
     t_lease_owner = None, t_lease_token = 0, t_lease_expires_at = None, t_cancel_requested_at = None,
     t_cancel_reason = None, t_correlation_id = 9, t_review_observation = None, t_review_at = None, t_review_by = None\<rparr>"

definition enqueued :: "clock \<Rightarrow> string \<Rightarrow> command_db \<Rightarrow> command_db" where
  "enqueued c key db = (case enqueue_ad_action c cm_env (cm_action key) db of Inr (db', r) \<Rightarrow> db' | Inl e \<Rightarrow> db)"

definition cm_receipt :: command_receipt where
  "cm_receipt = \<lparr>cr_task_id = 1, cr_created = True, cr_state = CQueued, cr_correlation_id = 9\<rparr>"

lemmas cm_defs = cm_db_def cm_env_def cm_action_def cm_target_def

lemma cm_inv: "command_inv cm_db"
  by (simp add: command_inv_def queue_inv_def only_newest_active_def cm_db_def q_defs)

lemma cm_strip: "py_strip ''42'' = ''42''" "py_strip ''k1'' = ''k1''" "py_strip ''k2'' = ''k2''"
  by code_simp+

lemma cm_wf: "command_target (cm_action k) = ''42''" "command_key (cm_action k) = py_strip k"
  "k \<in> {''k1'', ''k2''} \<Longrightarrow> well_formed_action (cm_action k)"
  by (auto simp: well_formed_action_def command_target_def command_key_def cm_action_def cm_strip)

lemma cm_actionable: "actionable (q_clock 10) (cm_action k) cm_target"
proof -
  have "require_ad_account_id (JStr ''123'') = Inr ''123''" "validated_currency_code (Some ''USD'') = Some ''USD''"
    "normalize_delivery_status (Some ''ACTIVE'') \<in> set (ACTION_SOURCE_STATUSES ''pause_ad'')"
    "currency_evidence_is_fresh (Some 0) (py_now (q_clock 10))"
    by code_simp+
  then show ?thesis
    by (simp add: actionable_def cm_defs opt_json_def)
qed

theorem command_accepted_iff_witness:
  "\<exists>db' r. enqueue_ad_action (q_clock 10) cm_env (cm_action ''k1'') cm_db = Inr (db', r) \<and> cr_created r"
proof -
  have "free_target (cm_action ''k1'') cm_db"
    by (simp add: free_target_def get_bound_command_def queue_key_exists_def latest_command_def cm_db_def q_defs)
  moreover have "targets cm_db (command_target (cm_action ''k1'')) = Some cm_target"
    by (simp add: cm_db_def cm_wf)
  ultimately show ?thesis
    using command_accepted_iff [OF cm_inv cm_wf(3), of "''k1''" cm_env "q_clock 10"] cm_actionable [of "''k1''"]
    by (simp add: cm_env_def)
qed

lemma cm_enqueue:
  "enqueue_ad_action (q_clock 10) cm_env (cm_action ''k1'') cm_db = Inr (enqueued (q_clock 10) ''k1'' cm_db, cm_receipt)"
proof -
  have "case enqueue_ad_action (q_clock 10) cm_env (cm_action ''k1'') cm_db of Inr (db', r) \<Rightarrow> r = cm_receipt | Inl e \<Rightarrow> False"
    by code_simp
  then show ?thesis
    by (auto simp: enqueued_def split: sum.splits)
qed

definition cm_joined :: command_db where
  "cm_joined = enqueued (q_clock 20) ''k2'' (enqueued (q_clock 10) ''k1'' cm_db)"

lemma cm_join:
  "enqueue_ad_action (q_clock 20) cm_env (cm_action ''k2'') (enqueued (q_clock 10) ''k1'' cm_db)
     = Inr (cm_joined, cm_receipt\<lparr>cr_created := False\<rparr>)"
proof -
  have "case enqueue_ad_action (q_clock 20) cm_env (cm_action ''k2'') (enqueued (q_clock 10) ''k1'' cm_db) of
      Inr (db', r) \<Rightarrow> r = cm_receipt\<lparr>cr_created := False\<rparr> | Inl e \<Rightarrow> False"
    by code_simp
  then show ?thesis
    by (auto simp: cm_joined_def enqueued_def split: sum.splits)
qed

lemma cm_steps: "command_step (enqueued (q_clock 10) ''k1'' cm_db) cm_joined" "command_step cm_db (enqueued (q_clock 10) ''k1'' cm_db)"
  using command_step.command [OF cm_join] command_step.command [OF cm_enqueue] by simp_all

lemma cm_rows: "tasks (cq cm_joined) = [cm_task\<lparr>t_updated_at := tx_now (q_clock 20)\<rparr>]" "length (receipts cm_joined) = 2"
  by code_simp+

theorem one_command_in_flight_witness:
  "hd (tasks (cq cm_joined)) = last (tasks (cq cm_joined)) \<and> active_status (t_status (hd (tasks (cq cm_joined))))"
proof -
  let ?t = "cm_task\<lparr>t_updated_at := tx_now (q_clock 20)\<rparr>"
  have t: "?t \<in> set (tasks (cq cm_joined))" "is_toggle_of ''42'' ?t" "active_status (t_status ?t)"
    by (simp_all add: cm_rows(1)) code_simp+
  have "command_step\<^sup>*\<^sup>* cm_db cm_joined"
    using cm_steps by (meson rtranclp.rtrancl_into_rtrancl rtranclp.rtrancl_refl)
  then have "?t = last (tasks (cq cm_joined))"
    by (rule one_command_in_flight [OF cm_inv _ t]) (use t in \<open>simp_all add: cm_rows(1)\<close>)
  then show ?thesis
    using t(3) by (simp add: cm_rows(1))
qed

theorem command_key_is_durable_witness:
  "\<exists>db3 r'. enqueue_ad_action (q_clock 30) cm_env (cm_action ''k1'') cm_joined = Inr (db3, r') \<and> cr_task_id r' = 1 \<and>
     \<not> cr_created r' \<and> map t_id (tasks (cq db3)) = [1]"
proof -
  have "aa_requested_by (cm_action ''k1'') \<noteq> ''bot_auto_stop''" "ce_authorize cm_env None = Inr ()"
    by (simp_all add: cm_action_def cm_env_def)
  then show ?thesis
    using command_key_is_durable [OF cm_inv cm_enqueue _ r_into_rtranclp [of command_step, OF cm_steps(1)], of cm_env "q_clock 30"]
    by (auto simp: cm_rows(1) cm_task_def cm_receipt_def)
qed

theorem created_command_was_checked_witness:
  "\<exists>t. tasks (cq (enqueued (q_clock 10) ''k1'' cm_db)) = [t] \<and> t_id t = 1 \<and> t_lane t \<noteq> LMoney \<and> t_priority t = 100"
proof -
  have "tasks (cq cm_db) = []" "cr_created cm_receipt" "cr_task_id cm_receipt = 1" "aa_requested_by (cm_action ''k1'') \<noteq> ''bot_auto_stop''"
    by (simp_all add: cm_db_def cm_receipt_def cm_action_def q_defs)
  then show ?thesis
    using created_command_was_checked [OF cm_inv cm_enqueue] by auto
qed

definition issue_row :: "int \<Rightarrow> scanned_ad_row" where
  "issue_row regs = (sample_row 8 10 3 regs)\<lparr>row_delivery_status := ''WITH_ISSUES''\<rparr>"

lemma issue_row_stops: "\<exists>ev. evaluate_stop_rules (issue_row 1) offer_ctx = Inr ev \<and> ev_stage ev = Some STOP"
proof -
  have "case evaluate_stop_rules (issue_row 1) offer_ctx of Inr ev \<Rightarrow> ev_stage ev = Some STOP | Inl e \<Rightarrow> False"
    by code_simp
  then show ?thesis
    by (auto split: sum.splits)
qed

definition issue_db :: command_db where
  "issue_db = cm_db\<lparr>targets := (\<lambda>k. if k = ''42'' then Some (cm_target\<lparr>tg_delivery_status := Some ''WITH_ISSUES''\<rparr>) else None)\<rparr>"

definition issue_env :: row_env where
  "issue_env = sample_env\<lparr>env_command := service_refusal (q_clock 10) cm_env ''42'' string_of_int (\<lambda>k. None) issue_db\<rparr>"

lemma finish_row_grace [simp]: "ro_grace_suppressed (finish_row env ws ss g snap db) = g"
  by (simp add: finish_row_def Let_def split: sum.splits prod.splits)

lemma issue_process:
  "\<not> ro_grace_suppressed (process_matched_row issue_env sample_offer (issue_row 0) None None)"
proof -
  obtain ev where ev: "evaluate_stop_rules (issue_row 1) offer_ctx = Inr ev"
    using issue_row_stops by blast
  have "with_effective_tracker_registrations (issue_row 0) 1 = issue_row 1"
    by (simp add: with_effective_tracker_registrations_def issue_row_def sample_row_def)
  moreover have "row_frequency (issue_row 1) = None" "row_impressions (issue_row 1) = 0" "row_reach (issue_row 1) = 0"
    by (simp_all add: issue_row_def sample_row_def)
  ultimately show ?thesis
    using ev by (simp add: process_matched_row_def issue_env_def sample_env_def sample_build drop_foreign_grace_def
        grace_suppresses_def sync_and_finish_def)
qed

theorem refused_stop_fails_the_row_witness:
  "ro_error (process_matched_row issue_env sample_offer (issue_row 0) None None) \<noteq> None"
proof -
  obtain ev where ev: "evaluate_stop_rules (issue_row 1) offer_ctx = Inr ev" "ev_stage ev = Some STOP"
    using issue_row_stops by blast
  have inv: "command_inv issue_db" "latest_command ''42'' issue_db = None"
    using cm_inv by (simp_all add: issue_db_def command_inv_def latest_command_def cm_db_def q_defs)
  have env: "env_tracker_registrations issue_env = 1" "env_currency issue_env = ''USD''" "env_exponent issue_env = 2"
    "env_ext_deposits issue_env = 0" "env_today_deposits issue_env = None" by (simp_all add: issue_env_def sample_env_def)
  have row: "row_frequency (issue_row 1) = None" "row_impressions (issue_row 1) = 0"
    "row_reach (issue_row 1) = 0" "row_delivery_status (issue_row 1) = ''WITH_ISSUES''"
    "with_effective_tracker_registrations (issue_row 0) 1 = issue_row 1"
    by (simp_all add: issue_row_def sample_row_def with_effective_tracker_registrations_def)
  have off: "\<not> is_delivery_disabled (Some ''WITH_ISSUES'')"
    "normalize_delivery_status (Some ''WITH_ISSUES'') \<notin> set (ACTION_SOURCE_STATUSES ''pause_ad'')"
    by code_simp+
  show ?thesis
  proof (rule refused_stop_fails_the_row [OF inv _ cm_strip(1) _ _ issue_process, of _ "q_clock 10" string_of_int "\<lambda>k. None" cm_env
        "issue_row 1" offer_ctx ev])
    show "targets issue_db ''42'' = Some (cm_target\<lparr>tg_delivery_status := Some ''WITH_ISSUES''\<rparr>)"
      by (simp add: issue_db_def)
    show "\<not> actionable (q_clock 10) (auto_stop_action ''42'' (string_of_int k) None)
        (cm_target\<lparr>tg_delivery_status := Some ''WITH_ISSUES''\<rparr>)" for k
      using off(2) by (simp add: actionable_def auto_stop_action_def)
    show "env_command issue_env = service_refusal (q_clock 10) cm_env ''42'' string_of_int (\<lambda>k. None) issue_db"
      by (simp add: issue_env_def)
  qed (simp_all add: env row sample_build ev off)
qed

end
