(* ===== verification/MetaErrors.thy ===== *)
theory MetaErrors
  imports TaskProjection
begin

text \<open>
  The exceptions of the Marketing API (\<open>core/meta_api/errors.py\<close>): their class hierarchy, the
  classification of Graph errors, the rejections of the browser that no retry can fix, and
  \<open>is_channel_down_error\<close> of \<open>core/meta_api/autostop_alert.py\<close>.
\<close>

section \<open>Classes\<close>

text \<open>
  The classes the Meta worker distinguishes, with their base classes up to \<open>Exception\<close> (the
  bases \<open>RuntimeError\<close> and \<open>Exception\<close> are not told apart). \<open>isinstance\<close> climbs the bases.
\<close>

datatype exn_class =
    CException
  | CValueError
  | CMutationValidationError
  | CNotImplementedError
  | CDuplicatePartialError
  | CMetaApiError
  | CTemporaryError
  | CAmbiguousResultError
  | CPermanentError
  | CTokenInvalidError
  | CLoginRequiredError
  | CRateLimitedError
  | CNotFoundError
  | CMetaPermissionError
  | CSessionUnavailableError
  | CPreDispatchRejectedError
  | CBrowserOperationRejectedError
  | CBrowserReadinessRejectedError

fun base_class :: "exn_class \<Rightarrow> exn_class option" where
  "base_class CException = None"
| "base_class CValueError = Some CException"
| "base_class CMutationValidationError = Some CValueError"
| "base_class CNotImplementedError = Some CException"
| "base_class CDuplicatePartialError = Some CException"
| "base_class CMetaApiError = Some CException"
| "base_class CTemporaryError = Some CMetaApiError"
| "base_class CAmbiguousResultError = Some CTemporaryError"
| "base_class CPermanentError = Some CMetaApiError"
| "base_class CTokenInvalidError = Some CPermanentError"
| "base_class CLoginRequiredError = Some CTokenInvalidError"
| "base_class CRateLimitedError = Some CTemporaryError"
| "base_class CNotFoundError = Some CPermanentError"
| "base_class CMetaPermissionError = Some CPermanentError"
| "base_class CSessionUnavailableError = Some CTemporaryError"
| "base_class CPreDispatchRejectedError = Some CSessionUnavailableError"
| "base_class CBrowserOperationRejectedError = Some CPreDispatchRejectedError"
| "base_class CBrowserReadinessRejectedError = Some CPreDispatchRejectedError"

fun class_depth :: "exn_class \<Rightarrow> nat" where
  "class_depth CException = 0"
| "class_depth CMetaApiError = 1"
| "class_depth CValueError = 1"
| "class_depth CTemporaryError = 2"
| "class_depth CPermanentError = 2"
| "class_depth CTokenInvalidError = 3"
| "class_depth CSessionUnavailableError = 3"
| "class_depth CPreDispatchRejectedError = 4"
| "class_depth CBrowserOperationRejectedError = 5"
| "class_depth CBrowserReadinessRejectedError = 5"
| "class_depth _ = 4"

lemma base_class_depth: "base_class c = Some b \<Longrightarrow> class_depth b < class_depth c"
  by (cases c) auto

function isinstance :: "exn_class \<Rightarrow> exn_class \<Rightarrow> bool" where
  "isinstance c d = (c = d \<or> (case base_class c of None \<Rightarrow> False | Some b \<Rightarrow> isinstance b d))"
  by auto
termination
  by (relation "measure (\<lambda>(c, d). class_depth c)") (auto simp: base_class_depth)

declare isinstance.simps [simp del]

text \<open>\<open>type(exc).__name__\<close>; the classes that are not told apart are called Exception.\<close>

fun class_name :: "exn_class \<Rightarrow> string" where
  "class_name CException = ''Exception''"
| "class_name CValueError = ''ValueError''"
| "class_name CMutationValidationError = ''MutationValidationError''"
| "class_name CNotImplementedError = ''NotImplementedError''"
| "class_name CDuplicatePartialError = ''DuplicateAdsetStructurePartialError''"
| "class_name CMetaApiError = ''MetaApiError''"
| "class_name CTemporaryError = ''TemporaryError''"
| "class_name CAmbiguousResultError = ''AmbiguousResultError''"
| "class_name CPermanentError = ''PermanentError''"
| "class_name CTokenInvalidError = ''TokenInvalidError''"
| "class_name CLoginRequiredError = ''LoginRequiredError''"
| "class_name CRateLimitedError = ''RateLimitedError''"
| "class_name CNotFoundError = ''NotFoundError''"
| "class_name CMetaPermissionError = ''PermissionError''"
| "class_name CSessionUnavailableError = ''SessionUnavailableError''"
| "class_name CPreDispatchRejectedError = ''PreDispatchRejectedError''"
| "class_name CBrowserOperationRejectedError = ''BrowserOperationRejectedError''"
| "class_name CBrowserReadinessRejectedError = ''BrowserReadinessRejectedError''"

text \<open>
  An exception: its class, Graph code, machine code of a browser rejection, text, the attributes of a
  partial duplication (created ids, failed steps, cleanup failures) and \<open>__cause__\<close>.
\<close>

datatype exn =
  Exn (ex_class: exn_class) (ex_code: "int option") (ex_reason_code: string) (ex_text: string)
    (ex_details: jobj) (ex_cause: "exn option")

definition raised_as :: "exn \<Rightarrow> exn_class \<Rightarrow> bool" where
  "raised_as e c = isinstance (ex_class e) c"

definition PERMANENT_EXCEPTIONS :: "exn_class list" where
  "PERMANENT_EXCEPTIONS =
     [CTokenInvalidError, CNotFoundError, CMetaPermissionError, CPermanentError, CNotImplementedError,
      CMutationValidationError]"

definition TEMPORARY_EXCEPTIONS :: "exn_class list" where
  "TEMPORARY_EXCEPTIONS = [CRateLimitedError, CSessionUnavailableError, CTemporaryError]"

section \<open>Rejections of the browser\<close>

definition BROWSER_OPERATION_PERMANENT_REJECTIONS :: "string list" where
  "BROWSER_OPERATION_PERMANENT_REJECTIONS =
     map fst (filter (\<lambda>(code, retry). retry = RetryDoesNotHelp) BROWSER_OPERATION_REJECTION_TABLE)"

fun unretryable_browser_rejection :: "exn \<Rightarrow> exn option" where
  "unretryable_browser_rejection (Exn cls code reason txt details cause) =
     (if isinstance cls CBrowserOperationRejectedError \<and> reason \<in> set BROWSER_OPERATION_PERMANENT_REJECTIONS
      then Some (Exn cls code reason txt details cause)
      else case cause of None \<Rightarrow> None | Some e \<Rightarrow> unretryable_browser_rejection e)"

definition is_channel_down_error :: "exn \<Rightarrow> bool" where
  "is_channel_down_error e \<longleftrightarrow>
     (if raised_as e CRateLimitedError then False
      else if raised_as e CSessionUnavailableError then True
      else if raised_as e CTemporaryError then (case ex_code e of None \<Rightarrow> True | Some n \<Rightarrow> n < 0)
      else False)"

section \<open>Graph errors\<close>

definition CODE_MAP :: "(int \<times> exn_class) list" where
  "CODE_MAP =
     [(-1, CPreDispatchRejectedError), (-2, CAmbiguousResultError), (-3, CAmbiguousResultError),
      (-4, CPreDispatchRejectedError), (1, CPermanentError), (2, CTemporaryError), (4, CRateLimitedError),
      (17, CRateLimitedError), (32, CRateLimitedError), (100, CPermanentError), (102, CTokenInvalidError),
      (190, CTokenInvalidError), (200, CMetaPermissionError), (270, CMetaPermissionError),
      (272, CMetaPermissionError), (368, CPermanentError), (463, CTokenInvalidError), (464, CTokenInvalidError),
      (467, CTokenInvalidError), (613, CRateLimitedError), (803, CNotFoundError), (80004, CRateLimitedError)]"

definition SUBCODE_OVERRIDES :: "(int \<times> exn_class) list" where
  "SUBCODE_OVERRIDES =
     [(33, CNotFoundError), (458, CLoginRequiredError), (459, CLoginRequiredError), (460, CLoginRequiredError),
      (463, CLoginRequiredError), (464, CLoginRequiredError), (467, CLoginRequiredError),
      (1357045, CTokenInvalidError)]"

text \<open>\<open>re.search\<close> of the pattern of login messages, on ASCII text without regard to case.\<close>

fun occurs :: "string \<Rightarrow> string \<Rightarrow> bool" where
  "occurs p [] = (p = [])"
| "occurs p (c # cs) = (take (length p) (c # cs) = p \<or> occurs p cs)"

text \<open>\<open>session.*(expired|invalidated)\<close>: the dot does not match a line break.\<close>

fun session_over :: "string \<Rightarrow> bool" where
  "session_over [] = False"
| "session_over (c # cs) =
     (take 7 (c # cs) = ''session'' \<and>
        (let line = takeWhile (\<lambda>x. x \<noteq> CHR 0x0A) (drop 7 (c # cs))
         in occurs ''expired'' line \<or> occurs ''invalidated'' line) \<or> session_over cs)"

definition login_required_message :: "string \<Rightarrow> bool" where
  "login_required_message message \<longleftrightarrow>
     (let s = py_lower message
      in session_over s \<or> occurs ''changed their password'' s \<or> occurs ''changed your password'' s \<or>
         occurs ''login'' s \<or> occurs ''log in'' s \<or> occurs ''checkpoint'' s \<or> occurs ''reauthenticate'' s \<or>
         occurs ''re-authenticate'' s \<or> occurs ''not logged in'' s \<or> occurs ''logged out'' s)"

definition classify_graph_error :: "int option \<Rightarrow> int option \<Rightarrow> string \<Rightarrow> exn_class" where
  "classify_graph_error code subcode message =
     (case (case subcode of None \<Rightarrow> None | Some s \<Rightarrow> if s = 0 then None else map_of SUBCODE_OVERRIDES s) of
        Some cls \<Rightarrow> cls
      | None \<Rightarrow>
          if code = Some 190 \<and> login_required_message message then CLoginRequiredError
          else case (case code of None \<Rightarrow> None | Some n \<Rightarrow> if n = 0 then None else map_of CODE_MAP n) of
            Some cls \<Rightarrow> cls
          | None \<Rightarrow>
              (case code of
                 None \<Rightarrow> CTemporaryError
               | Some n \<Rightarrow> if n \<le> 0 then CTemporaryError else CPermanentError))"

section \<open>Laws\<close>

lemma isinstance_refl [simp]: "isinstance c c"
  by (simp add: isinstance.simps)

lemma isinstance_trans: "isinstance a b \<Longrightarrow> isinstance b c \<Longrightarrow> isinstance a c"
proof (induction a b rule: isinstance.induct)
  case (1 a b)
  show ?case
  proof (cases "a = b")
    case False
    then obtain p where p: "base_class a = Some p" "isinstance p b"
      using "1.prems"(1) by (subst (asm) isinstance.simps) (auto split: option.splits)
    then have "isinstance p c"
      using "1.IH" "1.prems"(2) by blast
    then show ?thesis
      using p(1) by (subst isinstance.simps) simp
  qed (use "1.prems" in simp)
qed

text \<open>Every class, with what the handlers of the worker ask of it.\<close>

lemma exn_cases:
  "raised_as e CAmbiguousResultError \<longleftrightarrow> ex_class e = CAmbiguousResultError"
  "raised_as e CDuplicatePartialError \<longleftrightarrow> ex_class e = CDuplicatePartialError"
  "raised_as e CSessionUnavailableError \<longleftrightarrow>
     ex_class e \<in> {CSessionUnavailableError, CPreDispatchRejectedError, CBrowserOperationRejectedError,
       CBrowserReadinessRejectedError}"
  "raised_as e CBrowserReadinessRejectedError \<longleftrightarrow> ex_class e = CBrowserReadinessRejectedError"
  by (cases "ex_class e"; simp add: raised_as_def isinstance.simps)+

lemma never_both:
  assumes "c \<in> set PERMANENT_EXCEPTIONS" "isinstance a c" "d \<in> set TEMPORARY_EXCEPTIONS"
  shows "\<not> isinstance a d"
  using assms by (cases a; auto simp: PERMANENT_EXCEPTIONS_def TEMPORARY_EXCEPTIONS_def isinstance.simps)

end
