(* ===== verification/JsonLoads.thy ===== *)
theory JsonLoads
  imports Json
begin

text \<open>
  \<open>json.loads\<close> of the standard library, on the values of the theory \<open>Json\<close>: numbers are integers (a text
  with a fraction or an exponent is refused here, where Python returns a float) and a character
  beyond ASCII becomes a question mark. The decoder runs on fuel; the last lemma shows that the
  fuel \<open>json_loads\<close> gives it is always enough.
\<close>

section \<open>Scanning\<close>

definition json_space :: "char \<Rightarrow> bool" where
  "json_space c \<longleftrightarrow> c \<in> {CHR '' '', CHR 0x09, CHR 0x0A, CHR 0x0D}"

definition skip_ws :: "string \<Rightarrow> string" where
  "skip_ws = dropWhile json_space"

definition hex_digit :: "char \<Rightarrow> nat option" where
  "hex_digit c =
     (let n = of_char c :: nat
      in if 48 \<le> n \<and> n \<le> 57 then Some (n - 48)
         else if 97 \<le> n \<and> n \<le> 102 then Some (n - 87)
         else if 65 \<le> n \<and> n \<le> 70 then Some (n - 55) else None)"

definition hex4 :: "string \<Rightarrow> nat option" where
  "hex4 s =
     (case map hex_digit s of
        [Some a, Some b, Some c, Some d] \<Rightarrow> Some (((a * 16 + b) * 16 + c) * 16 + d)
      | _ \<Rightarrow> None)"

definition ascii_char :: "nat \<Rightarrow> char" where
  "ascii_char n = (if n < 128 then char_of n else CHR ''?'')"

definition simple_escape :: "char \<Rightarrow> char option" where
  "simple_escape c =
     map_of [(CHR 0x22, CHR 0x22), (CHR 0x5C, CHR 0x5C), (CHR ''/'', CHR ''/''), (CHR ''b'', CHR 0x08),
       (CHR ''f'', CHR 0x0C), (CHR ''n'', CHR 0x0A), (CHR ''r'', CHR 0x0D), (CHR ''t'', CHR 0x09)] c"

text \<open>The text of a string after its opening quote, and the rest of the input.\<close>

fun scan_string :: "string \<Rightarrow> (string \<times> string) option" where
  "scan_string [] = None"
| "scan_string (c # cs) =
     (if c = CHR 0x22 then Some ([], cs)
      else if c = CHR 0x5C then
        (case cs of
           [] \<Rightarrow> None
         | e # es \<Rightarrow>
             if e = CHR ''u'' then
               (case hex4 (take 4 es) of
                  None \<Rightarrow> None
                | Some n \<Rightarrow> map_option (\<lambda>(t, r). (ascii_char n # t, r)) (scan_string (drop 4 es)))
             else
               (case simple_escape e of
                  None \<Rightarrow> None
                | Some x \<Rightarrow> map_option (\<lambda>(t, r). (x # t, r)) (scan_string es)))
      else if of_char c < (32 :: nat) then None
      else map_option (\<lambda>(t, r). (c # t, r)) (scan_string cs))"

definition scan_number :: "string \<Rightarrow> (json \<times> string) option" where
  "scan_number s =
     (let neg = (take 1 s = ''-''); body = (if neg then drop 1 s else s);
          ds = takeWhile is_digit body;
          int_part = (if take 1 ds = ''0'' then ''0'' else ds);
          rest = drop (length int_part) body
      in if int_part = [] \<or> (case rest of [] \<Rightarrow> False | c # _ \<Rightarrow> c \<in> {CHR ''.'', CHR ''e'', CHR ''E''}) then None
         else Some (JNum (if neg then - int_of_digits int_part else int_of_digits int_part), rest))"

section \<open>Values\<close>

text \<open>A repeated key keeps its place and takes the later value.\<close>

fun jput :: "string \<Rightarrow> json \<Rightarrow> jobj \<Rightarrow> jobj" where
  "jput k v [] = [(k, v)]"
| "jput k v ((k', v') # ob) = (if k' = k then (k, v) # ob else (k', v') # jput k v ob)"

fun scan_value :: "nat \<Rightarrow> string \<Rightarrow> (json \<times> string) option"
  and scan_elements :: "nat \<Rightarrow> string \<Rightarrow> (json list \<times> string) option"
  and scan_members :: "nat \<Rightarrow> jobj \<Rightarrow> string \<Rightarrow> (jobj \<times> string) option" where
  "scan_value 0 s = None"
| "scan_value (Suc n) s =
     (let r = skip_ws s; inner = skip_ws (drop 1 r)
      in if take 1 r = [CHR 0x22] then map_option (\<lambda>(t, r'). (JStr t, r')) (scan_string (drop 1 r))
         else if take 1 r = ''['' then
           if take 1 inner = '']'' then Some (JArr [], drop 1 inner)
           else map_option (\<lambda>(vs, r'). (JArr vs, r')) (scan_elements n (drop 1 r))
         else if take 1 r = ''{'' then
           if take 1 inner = ''}'' then Some (JObj [], drop 1 inner)
           else map_option (\<lambda>(ob, r'). (JObj ob, r')) (scan_members n [] (drop 1 r))
         else if take 4 r = ''null'' then Some (JNull, drop 4 r)
         else if take 4 r = ''true'' then Some (JBool True, drop 4 r)
         else if take 5 r = ''false'' then Some (JBool False, drop 5 r)
         else scan_number r)"
| "scan_elements 0 s = None"
| "scan_elements (Suc n) s =
     (case scan_value n s of
        None \<Rightarrow> None
      | Some (v, r) \<Rightarrow>
          let r' = skip_ws r
          in if take 1 r' = '']'' then Some ([v], drop 1 r')
             else if take 1 r' = '','' then map_option (\<lambda>(vs, r''). (v # vs, r'')) (scan_elements n (drop 1 r'))
             else None)"
| "scan_members 0 acc s = None"
| "scan_members (Suc n) acc s =
     (if take 1 (skip_ws s) \<noteq> [CHR 0x22] then None
      else case scan_string (drop 1 (skip_ws s)) of
        None \<Rightarrow> None
      | Some (k, r) \<Rightarrow>
          if take 1 (skip_ws r) \<noteq> '':'' then None
          else case scan_value n (drop 1 (skip_ws r)) of
            None \<Rightarrow> None
          | Some (v, r2) \<Rightarrow>
              let r3 = skip_ws r2
              in if take 1 r3 = ''}'' then Some (jput k v acc, drop 1 r3)
                 else if take 1 r3 = '','' then scan_members n (jput k v acc) (drop 1 r3)
                 else None)"

definition json_loads :: "string \<Rightarrow> json option" where
  "json_loads s =
     (case scan_value (2 * length s + 1) s of
        Some (v, r) \<Rightarrow> if skip_ws r = [] then Some v else None
      | None \<Rightarrow> None)"

section \<open>Fuel\<close>

lemma skip_ws_length [simp]: "length (skip_ws s) \<le> length s"
  by (simp add: skip_ws_def length_dropWhile_le)

lemma take_one: "take 1 s = [c] \<Longrightarrow> length (drop 1 s) < length s"
  by (cases s) auto

lemma scan_string_length: "scan_string s = Some (t, r) \<Longrightarrow> length r < length s"
  by (induction s arbitrary: t r rule: scan_string.induct)
    (fastforce split: if_splits option.splits list.splits)+

lemma scan_number_length:
  assumes "scan_number s = Some (v, r)"
  shows "length r \<le> length s"
proof -
  have "\<exists>k. r = drop k s"
    using assms by (auto simp: scan_number_def Let_def split: if_splits)
  then show ?thesis by auto
qed

lemma drop_skip: "length (drop k (skip_ws s)) \<le> length s"
  using skip_ws_length [of s] by (metis diff_le_self le_trans length_drop)

lemma scan_value_rest:
  assumes "scan_value (Suc n) s = Some (v, r)"
    and "\<And>vs. scan_elements n (drop 1 (skip_ws s)) = Some (vs, r) \<Longrightarrow> length r \<le> length s"
    and "\<And>ob. scan_members n [] (drop 1 (skip_ws s)) = Some (ob, r) \<Longrightarrow> length r \<le> length s"
  shows "length r \<le> length s"
proof -
  have "length (drop 1 (skip_ws (drop 1 (skip_ws s)))) \<le> length s"
    using drop_skip [of 1 "drop 1 (skip_ws s)"] drop_skip [of 1 s] by linarith
  moreover have "length r \<le> length s" if "scan_string (drop 1 (skip_ws s)) = Some (t, r)" for t
    using scan_string_length [OF that] drop_skip [of 1 s] by linarith
  moreover have "length r \<le> length s" if "scan_number (skip_ws s) = Some (x, r)" for x
    using scan_number_length [OF that] skip_ws_length [of s] by linarith
  ultimately show ?thesis
    using assms drop_skip [of 4 s] drop_skip [of 5 s] unfolding scan_value.simps Let_def
    by (auto split: if_splits simp del: length_drop)
qed

lemma scan_rest:
  "(\<forall>s v r. scan_value n s = Some (v, r) \<longrightarrow> length r \<le> length s) \<and>
   (\<forall>s vs r. scan_elements n s = Some (vs, r) \<longrightarrow> length r \<le> length s) \<and>
   (\<forall>acc s ob r. scan_members n acc s = Some (ob, r) \<longrightarrow> length r \<le> length s)"
proof (induction n)
  case (Suc n)
  have val: "scan_value n s = Some (v, r) \<Longrightarrow> length r \<le> length s"
    and els: "scan_elements n s = Some (vs, r) \<Longrightarrow> length r \<le> length s"
    and mem: "scan_members n acc s = Some (ob, r) \<Longrightarrow> length r \<le> length s" for s v r vs acc ob
    using Suc.IH by blast+
  have "length r \<le> length s" if "scan_value (Suc n) s = Some (v, r)" for s v r
    using scan_value_rest [OF that] els mem drop_skip [of 1 s] by (meson le_trans)
  moreover have "length r \<le> length s" if e: "scan_elements (Suc n) s = Some (vs, r)" for s vs r
  proof -
    obtain v q where v: "scan_value n s = Some (v, q)"
      using e by (auto split: option.splits)
    have "r = drop 1 (skip_ws q) \<or> (\<exists>ws. scan_elements n (drop 1 (skip_ws q)) = Some (ws, r))"
      using e v by (auto simp: Let_def split: if_splits)
    then show ?thesis
      using val [OF v] els [of "drop 1 (skip_ws q)"] drop_skip [of 1 q] by (meson le_trans)
  qed
  moreover have "length r \<le> length s" if e: "scan_members (Suc n) acc s = Some (ob, r)" for acc s ob r
  proof -
    obtain k q where k: "scan_string (drop 1 (skip_ws s)) = Some (k, q)"
      using e by (auto split: option.splits if_splits)
    obtain v q2 where v: "scan_value n (drop 1 (skip_ws q)) = Some (v, q2)"
      using e k by (auto split: option.splits if_splits)
    have "r = drop 1 (skip_ws q2) \<or> (\<exists>ac. scan_members n ac (drop 1 (skip_ws q2)) = Some (ob, r))"
      using e k v by (auto simp: Let_def split: if_splits)
    moreover have "length q2 \<le> length s"
      using scan_string_length [OF k] drop_skip [of 1 s] val [OF v] drop_skip [of 1 q] by linarith
    ultimately show ?thesis
      using mem [of _ "drop 1 (skip_ws q2)"] drop_skip [of 1 q2] by (meson le_trans)
  qed
  ultimately show ?case by blast
qed simp

lemma scan_value_cong:
  assumes "take 1 (skip_ws s) \<in> {''['', ''{''} \<Longrightarrow> scan_elements n (drop 1 (skip_ws s)) = scan_elements m (drop 1 (skip_ws s))"
    and "take 1 (skip_ws s) \<in> {''['', ''{''} \<Longrightarrow> scan_members n [] (drop 1 (skip_ws s)) = scan_members m [] (drop 1 (skip_ws s))"
  shows "scan_value (Suc n) s = scan_value (Suc m) s"
  using assms by (simp add: Let_def)

lemma scan_fuel:
  "(\<forall>s m. 2 * length s + 1 \<le> n \<and> 2 * length s + 1 \<le> m \<longrightarrow> scan_value n s = scan_value m s) \<and>
   (\<forall>s m. 2 * length s + 2 \<le> n \<and> 2 * length s + 2 \<le> m \<longrightarrow> scan_elements n s = scan_elements m s) \<and>
   (\<forall>acc s m. 2 * length s + 2 \<le> n \<and> 2 * length s + 2 \<le> m \<longrightarrow> scan_members n acc s = scan_members m acc s)"
proof (induction n)
  case (Suc n)
  have val: "2 * length s + 1 \<le> n \<Longrightarrow> 2 * length s + 1 \<le> m \<Longrightarrow> scan_value n s = scan_value m s"
    and els: "2 * length s + 2 \<le> n \<Longrightarrow> 2 * length s + 2 \<le> m \<Longrightarrow> scan_elements n s = scan_elements m s"
    and mem: "2 * length s + 2 \<le> n \<Longrightarrow> 2 * length s + 2 \<le> m \<Longrightarrow> scan_members n acc s = scan_members m acc s"
    for s m acc
    using Suc.IH by blast+
  have value_step: "scan_value (Suc n) s = scan_value (Suc m) s" if b: "2 * length s + 1 \<le> Suc n" "2 * length s + 1 \<le> Suc m" for s m
  proof (rule scan_value_cong)
    assume "take 1 (skip_ws s) \<in> {''['', ''{''}"
    then have "length (drop 1 (skip_ws s)) < length (skip_ws s)"
      using take_one [of "skip_ws s"] by blast
    then have "length (drop 1 (skip_ws s)) < length s"
      using skip_ws_length [of s] by linarith
    then show "scan_elements n (drop 1 (skip_ws s)) = scan_elements m (drop 1 (skip_ws s))"
      "scan_members n [] (drop 1 (skip_ws s)) = scan_members m [] (drop 1 (skip_ws s))"
      using b els [of "drop 1 (skip_ws s)" m] mem [of "drop 1 (skip_ws s)" m "[]"] by linarith+
  qed
  have elements_step: "scan_elements (Suc n) s = scan_elements (Suc m) s"
    if b: "2 * length s + 2 \<le> Suc n" "2 * length s + 2 \<le> Suc m" for s m
  proof -
    have v: "scan_value n s = scan_value m s"
      by (rule val) (use b in linarith)+
    have "scan_elements n (drop 1 (skip_ws q)) = scan_elements m (drop 1 (skip_ws q))"
      if "scan_value m s = Some (x, q)" "take 1 (skip_ws q) = '',''" for x q
    proof -
      have "length q \<le> length s" using that(1) scan_rest by blast
      then have "length (drop 1 (skip_ws q)) < length s"
        using take_one [OF that(2)] skip_ws_length [of q] by linarith
      then show ?thesis using els [of "drop 1 (skip_ws q)" m] b by linarith
    qed
    then show ?thesis
      unfolding scan_elements.simps v by (auto simp: Let_def split: option.splits)
  qed
  have members_step: "scan_members (Suc n) acc s = scan_members (Suc m) acc s"
    if b: "2 * length s + 2 \<le> Suc n" "2 * length s + 2 \<le> Suc m" for acc s m
  proof -
    have sub: "scan_value n (drop 1 (skip_ws q)) = scan_value m (drop 1 (skip_ws q)) \<and> length (drop 1 (skip_ws q)) \<le> length s"
      if "scan_string (drop 1 (skip_ws s)) = Some (k, q)" for k q
    proof -
      have "length (drop 1 (skip_ws q)) \<le> length s"
        using scan_string_length [OF that] drop_skip [of 1 s] drop_skip [of 1 q] by linarith
      then show ?thesis using val [of "drop 1 (skip_ws q)" m] b by linarith
    qed
    have next_member: "scan_members n ac (drop 1 (skip_ws q2)) = scan_members m ac (drop 1 (skip_ws q2))"
      if "scan_string (drop 1 (skip_ws s)) = Some (k, q)" "scan_value m (drop 1 (skip_ws q)) = Some (x, q2)"
        "take 1 (skip_ws q2) = '',''" for k q x q2 ac
    proof -
      have "length q2 \<le> length s"
        using sub [OF that(1)] that(2) scan_rest by (meson le_trans)
      then have "length (drop 1 (skip_ws q2)) < length s"
        using take_one [OF that(3)] skip_ws_length [of q2] by linarith
      then show ?thesis using mem [of "drop 1 (skip_ws q2)" m ac] b by linarith
    qed
    show ?thesis
      using sub next_member unfolding scan_members.simps by (auto simp: Let_def split: option.splits)
  qed
  show ?case
  proof (intro conjI allI impI)
    fix s :: string and m assume "2 * length s + 1 \<le> Suc n \<and> 2 * length s + 1 \<le> m"
    then show "scan_value (Suc n) s = scan_value m s"
      by (cases m) (auto intro: value_step simp del: scan_value.simps scan_elements.simps scan_members.simps)
  next
    fix s :: string and m assume "2 * length s + 2 \<le> Suc n \<and> 2 * length s + 2 \<le> m"
    then show "scan_elements (Suc n) s = scan_elements m s"
      by (cases m) (auto intro: elements_step simp del: scan_value.simps scan_elements.simps scan_members.simps)
  next
    fix acc and s :: string and m assume "2 * length s + 2 \<le> Suc n \<and> 2 * length s + 2 \<le> m"
    then show "scan_members (Suc n) acc s = scan_members m acc s"
      by (cases m) (auto intro: members_step simp del: scan_value.simps scan_elements.simps scan_members.simps)
  qed
qed simp

text \<open>More fuel than \<open>json_loads\<close> gives never changes its answer.\<close>

lemma json_loads_fuel:
  assumes "2 * length s + 1 \<le> n"
  shows "json_loads s = (case scan_value n s of Some (v, r) \<Rightarrow> if skip_ws r = [] then Some v else None | None \<Rightarrow> None)"
proof -
  have "scan_value (2 * length s + 1) s = scan_value n s"
    using scan_fuel [of "2 * length s + 1"] assms by simp
  then show ?thesis by (simp add: json_loads_def)
qed

end
