(* ===== verification/MutationHandlers.thy ===== *)
theory MutationHandlers
  imports MetaErrors MetaCommands JsonLoads
begin

text \<open>
  The handlers that send one mutation to Meta (\<open>core/meta_api/mutations/\<close>: \<open>base.py\<close>, \<open>pause_ad.py\<close>,
  \<open>activate_ad.py\<close>, \<open>bulk_status_change.py\<close>, \<open>_batch_helpers.py\<close>) and the worker's reading of their
  answer (\<open>assess_mutation_result\<close>). The client is a parameter: a function from the request to the
  decoded response or the exception it raises. A handler gives the requests it sent and its result.
  The executor of \<open>duplicate_adset_structure\<close> is a parameter as well.
\<close>

section \<open>Fallible steps\<close>

type_synonym 'a attempt = "exn + 'a"

definition xbind :: "'a attempt \<Rightarrow> ('a \<Rightarrow> 'b attempt) \<Rightarrow> 'b attempt" where
  "xbind r f = (case r of Inl e \<Rightarrow> Inl e | Inr x \<Rightarrow> f x)"

definition plain_exn :: "exn_class \<Rightarrow> string \<Rightarrow> exn" where
  "plain_exn cls txt = Exn cls None [] txt [] None"

text \<open>The class of an exception of the other modelled modules.\<close>

fun error_class :: "error \<Rightarrow> exn_class" where
  "error_class (ValueError _) = CValueError"
| "error_class (UnsupportedCurrencyExponentError _) = CValueError"
| "error_class (CurrencyExponentMismatchError _) = CValueError"
| "error_class (InvalidCurrencyAmountError _) = CValueError"
| "error_class (UnsupportedCampaignCurrencyError _) = CValueError"
| "error_class (InvalidMajorAmountError _) = CValueError"
| "error_class (EnableGraceUnsafeError _) = CValueError"
| "error_class (MissingOfferCpaError _) = CValueError"
| "error_class (InvalidOfferSensitivityError _) = CValueError"
| "error_class (OfferCurrencyMismatchError _) = CValueError"
| "error_class (CommandIdentityError _) = CValueError"
| "error_class (MutationValidationError _) = CMutationValidationError"
| "error_class _ = CException"

definition of_error :: "error \<Rightarrow> exn" where
  "of_error e = plain_exn (error_class e) []"

definition attempt_of :: "'a result \<Rightarrow> 'a attempt" where
  "attempt_of r = (case r of Inl e \<Rightarrow> Inl (of_error e) | Inr x \<Rightarrow> Inr x)"

fun xmap :: "('a \<Rightarrow> 'b attempt) \<Rightarrow> 'a list \<Rightarrow> 'b list attempt" where
  "xmap f [] = Inr []"
| "xmap f (x # xs) = xbind (f x) (\<lambda>y. xbind (xmap f xs) (\<lambda>ys. Inr (y # ys)))"

section \<open>Requests\<close>

record graph_call =
  gc_method :: string
  gc_endpoint :: string
  gc_query_params :: "(string \<times> string) list"
  gc_ad_account_id :: string

type_synonym client = "graph_call \<Rightarrow> json attempt"

section \<open>base.py\<close>

datatype mutation_evidence = EvConfirmed | EvRejected | EvUnknown

definition classify_meta_mutation_evidence :: "json \<Rightarrow> mutation_evidence" where
  "classify_meta_mutation_evidence response =
     (case response of
        JObj ob \<Rightarrow>
          if jget ob ''success'' = JBool True then EvConfirmed
          else if jget ob ''success'' = JBool False then EvRejected
          else EvUnknown
      | _ \<Rightarrow> EvUnknown)"

definition require_meta_success_ack :: "json \<Rightarrow> json attempt" where
  "require_meta_success_ack response =
     (case classify_meta_mutation_evidence response of
        EvConfirmed \<Rightarrow> Inr response
      | EvRejected \<Rightarrow> Inl (plain_exn CPermanentError ''Meta explicitly rejected mutation (success=false)'')
      | EvUnknown \<Rightarrow> Inl (plain_exn CAmbiguousResultError
          (if is_dict response then ''Meta mutation returned no exact success=true acknowledgement''
           else ''Meta mutation returned a non-object acknowledgement'')))"

definition success_result :: "json \<Rightarrow> string list \<Rightarrow> jobj \<Rightarrow> jobj" where
  "success_result response modified_ids extra =
     jmerge [(''success'', JBool True), (''graph_response'', response), (''modified_ids'', JArr (map JStr modified_ids))] extra"

section \<open>pause\_ad.py and activate\_ad.py\<close>

definition status_call :: "meta_payload \<Rightarrow> string \<Rightarrow> string \<Rightarrow> graph_call" where
  "status_call p ad_id status =
     \<lparr>gc_method = ''POST'', gc_endpoint = ''/'' @ ad_id, gc_query_params = [(''status'', status)],
      gc_ad_account_id = mp_ad_account_id p\<rparr>"

definition execute_status :: "string \<Rightarrow> client \<Rightarrow> meta_payload \<Rightarrow> graph_call list \<times> jobj attempt" where
  "execute_status status client p =
     (case require_numeric_id (JStr (mp_target_id p)) of
        Inl e \<Rightarrow> ([], Inl (of_error e))
      | Inr ad_id \<Rightarrow>
          let call = status_call p ad_id status
          in ([call], xbind (client call) (\<lambda>response.
               xbind (require_meta_success_ack response) (\<lambda>response. Inr (success_result response [ad_id] [])))))"

definition pause_ad_execute :: "client \<Rightarrow> meta_payload \<Rightarrow> graph_call list \<times> jobj attempt" where
  "pause_ad_execute = execute_status ''PAUSED''"

definition activate_ad_execute :: "client \<Rightarrow> meta_payload \<Rightarrow> graph_call list \<times> jobj attempt" where
  "activate_ad_execute = execute_status ''ACTIVE''"

section \<open>\_batch\_helpers.py\<close>

definition MAX_BATCH_ENTRIES :: nat where
  "MAX_BATCH_ENTRIES = 50"

definition starts_with :: "string \<Rightarrow> string \<Rightarrow> bool" where
  "starts_with p s \<longleftrightarrow> take (length p) s = p"

definition validate_relative_url :: "string \<Rightarrow> unit result" where
  "validate_relative_url url =
     (if starts_with ''http://'' url \<or> starts_with ''https://'' url \<or> starts_with ''//'' url
      then Inl (ValueError ''relative_url must be relative'')
      else if starts_with ''/'' url then Inl (ValueError ''relative_url must not start with /'')
      else if list_ex (\<lambda>ch. ch \<in> set ''{}$'') url
      then Inl (ValueError ''relative_url must not contain cross-entry templates'')
      else Inr ())"

definition make_batch_entry :: "string \<Rightarrow> string \<Rightarrow> json result" where
  "make_batch_entry verb relative_url =
     (if verb = [] then Inl (ValueError ''method is required'')
      else if py_upper verb \<notin> {''GET'', ''POST'', ''DELETE'', ''PUT''} then Inl (ValueError ''unsupported method'')
      else if relative_url = [] then Inl (ValueError ''relative_url must not be empty'')
      else ebind (validate_relative_url relative_url) (\<lambda>_.
        Inr (JObj [(''method'', JStr (py_upper verb)), (''relative_url'', JStr relative_url)])))"

definition build_batch_payload :: "json list \<Rightarrow> string result" where
  "build_batch_payload entries =
     (if entries = [] then Inl (ValueError ''entries must not be empty'')
      else if length entries > MAX_BATCH_ENTRIES then Inl (ValueError ''too many entries'')
      else Inr (json_dumps (JArr entries)))"

record sub_result =
  sb_index :: nat
  sb_success :: bool
  sb_code :: int
  sb_body :: json
  sb_evidence :: "mutation_evidence option"
  sb_error :: "json option"

definition failed_sub :: "string \<Rightarrow> nat \<Rightarrow> sub_result" where
  "failed_sub err i =
     \<lparr>sb_index = i, sb_success = False, sb_code = 0, sb_body = JNull, sb_evidence = None, sb_error = Some (JStr err)\<rparr>"

text \<open>\<open>int(v or 0)\<close> with the exception it raises.\<close>

definition int_attempt :: "json \<Rightarrow> int attempt" where
  "int_attempt v =
     (case int_or_zero v of
        Some n \<Rightarrow> Inr n
      | None \<Rightarrow> Inl (plain_exn (case v of JStr _ \<Rightarrow> CValueError | _ \<Rightarrow> CException) ''int''))"

definition sub_body :: "json \<Rightarrow> json" where
  "sub_body raw =
     (case raw of
        JStr s \<Rightarrow> if s = [] then JNull
          else (case json_loads s of Some v \<Rightarrow> v | None \<Rightarrow> JObj [(''raw'', JStr s)])
      | JObj ob \<Rightarrow> JObj ob
      | _ \<Rightarrow> JNull)"

text \<open>\<open>x or y\<close> of two JSON values.\<close>

definition json_or :: "json \<Rightarrow> json \<Rightarrow> json" where
  "json_or x y = (if truthy x then x else y)"

definition sub_error :: "bool \<Rightarrow> mutation_evidence option \<Rightarrow> json \<Rightarrow> json" where
  "sub_error transport_success evidence body =
     (if transport_success \<and> evidence = Some EvRejected then JStr ''mutation_rejected''
      else if transport_success \<and> evidence = Some EvUnknown then JStr ''ambiguous_mutation_ack''
      else case jget (as_dict body) ''error'' of
        JObj err \<Rightarrow> json_or (json_or (jget err ''message'') (jget err ''type'')) (JStr ''graph_error'')
      | _ \<Rightarrow> JStr ''non_2xx'')"

definition parse_item :: "bool \<Rightarrow> nat \<Rightarrow> json \<Rightarrow> sub_result attempt" where
  "parse_item mutation_ack i item =
     (case item of
        JObj ob \<Rightarrow>
          xbind (int_attempt (jget ob ''code'')) (\<lambda>code.
            let body = sub_body (jget ob ''body'');
                transport_success = (200 \<le> code \<and> code < 300);
                evidence = (if mutation_ack \<and> transport_success
                  then Some (classify_meta_mutation_evidence body) else None);
                success = (transport_success \<and> (\<not> mutation_ack \<or> evidence = Some EvConfirmed))
            in Inr \<lparr>sb_index = i, sb_success = success, sb_code = code, sb_body = body, sb_evidence = evidence,
                    sb_error = (if success then None else Some (sub_error transport_success evidence body))\<rparr>)
      | _ \<Rightarrow> Inr (failed_sub ''null_response'' i))"

fun parse_items :: "bool \<Rightarrow> nat \<Rightarrow> json list \<Rightarrow> sub_result list attempt" where
  "parse_items mutation_ack i [] = Inr []"
| "parse_items mutation_ack i (item # items) =
     xbind (parse_item mutation_ack i item) (\<lambda>r.
     xbind (parse_items mutation_ack (Suc i) items) (\<lambda>rs. Inr (r # rs)))"

definition parse_batch_response :: "bool \<Rightarrow> nat option \<Rightarrow> json \<Rightarrow> sub_result list attempt" where
  "parse_batch_response mutation_ack expected_count response =
     (case (case response of JArr vs \<Rightarrow> Some vs
              | JObj ob \<Rightarrow> (case jget ob ''data'' of JArr vs \<Rightarrow> Some vs | _ \<Rightarrow> None)
              | _ \<Rightarrow> None) of
        None \<Rightarrow>
          let count = (if expected_count = None \<or> expected_count = Some 0 then 1 else the expected_count)
          in Inr (map (failed_sub ''unexpected_batch_response_shape'') [0..<count])
      | Some items \<Rightarrow>
          if (case expected_count of None \<Rightarrow> False | Some n \<Rightarrow> length items > n)
          then Inr (map (failed_sub ''unexpected_batch_response_count'') [0..<the expected_count])
          else xbind (parse_items mutation_ack 0 items) (\<lambda>results.
            case expected_count of
              None \<Rightarrow> Inr results
            | Some n \<Rightarrow> Inr (results @ map (failed_sub ''missing_response'') [length results..<n])))"

text \<open>
  The arguments of \<open>classify_graph_error\<close> as decoded JSON: a truthy code that is no number, or a
  truthy subcode that is a container, raises TypeError where it is used.
\<close>

definition graph_number :: "json \<Rightarrow> int option" where
  "graph_number v =
     (case v of JNum n \<Rightarrow> Some n | JBool b \<Rightarrow> Some (if b then 1 else 0) | _ \<Rightarrow> None)"

definition classify_sub_failure :: "sub_result \<Rightarrow> exn attempt" where
  "classify_sub_failure sub =
     (let err = as_dict (jget (as_dict (sb_body sub)) ''error'');
          code = jget err ''code''; subcode = jget err ''error_subcode'';
          message = json_or (jget err ''message'')
            (JStr (py_str (json_or (case sb_error sub of None \<Rightarrow> JNull | Some e \<Rightarrow> e) (JStr ''batch sub-request failed''))));
          type_error = Inl (plain_exn CException ''TypeError'');
          overridden = (case graph_number subcode of None \<Rightarrow> False | Some s \<Rightarrow> s \<noteq> 0 \<and> map_of SUBCODE_OVERRIDES s \<noteq> None)
      in if truthy subcode \<and> (case subcode of JArr _ \<Rightarrow> True | JObj _ \<Rightarrow> True | _ \<Rightarrow> False) then type_error
         else if \<not> overridden \<and> truthy code \<and> graph_number code = None then type_error
         else if \<not> overridden \<and> code = JNum 190 \<and> (case message of JStr _ \<Rightarrow> False | _ \<Rightarrow> True) then type_error
         else Inr (Exn (classify_graph_error (graph_number code) (graph_number subcode)
                          (case message of JStr s \<Rightarrow> s | _ \<Rightarrow> []))
                (graph_number code) [] ''Graph API error'' [] None))"

section \<open>bulk\_status\_change.py\<close>

definition ACTION_TO_STATUS :: "(string \<times> string) list" where
  "ACTION_TO_STATUS =
     [(''pause'', ''PAUSED''), (''activate'', ''ACTIVE''), (''paused'', ''PAUSED''), (''active'', ''ACTIVE'')]"

fun dedup :: "string list \<Rightarrow> string list \<Rightarrow> string list" where
  "dedup seen [] = []"
| "dedup seen (x # xs) = (if x \<in> set seen then dedup seen xs else x # dedup (x # seen) xs)"

definition extract_params :: "jobj \<Rightarrow> (string list \<times> string) result" where
  "extract_params params =
     (case jget params ''ad_ids'' of
        JArr (v # vs) \<Rightarrow>
          (case map_of ACTION_TO_STATUS (bulk_action params) of
             None \<Rightarrow> Inl (MutationValidationError ''action'')
           | Some status \<Rightarrow>
               ebind (emap (\<lambda>raw. require_numeric_id (JStr (py_strip (py_str raw)))) (v # vs)) (\<lambda>object_ids.
                 if length object_ids > MAX_BATCH_ENTRIES then Inl (MutationValidationError ''too many objects'')
                 else Inr (dedup [] object_ids, status)))
      | _ \<Rightarrow> Inl (MutationValidationError ''ad_ids''))"

definition batch_call :: "meta_payload \<Rightarrow> string \<Rightarrow> graph_call" where
  "batch_call p batch =
     \<lparr>gc_method = ''POST'', gc_endpoint = ''/'', gc_query_params = [(''batch'', batch)],
      gc_ad_account_id = mp_ad_account_id p\<rparr>"

definition sub_json :: "string list \<Rightarrow> sub_result \<Rightarrow> jobj" where
  "sub_json object_ids r =
     [(''id'', if sb_index r < length object_ids then JStr (object_ids ! sb_index r) else JNull),
      (''success'', JBool (sb_success r)), (''code'', JNum (sb_code r))] @
     (case sb_error r of None \<Rightarrow> [] | Some e \<Rightarrow> if truthy e then [(''error'', e)] else [])"

text \<open>The part after the batch was answered.\<close>

definition bulk_result :: "string list \<Rightarrow> string \<Rightarrow> json \<Rightarrow> sub_result list \<Rightarrow> jobj attempt" where
  "bulk_result object_ids status response parsed =
     (let ambiguous_ids = filter (\<lambda>r. sb_evidence r = Some EvUnknown \<and> sb_index r < length object_ids) parsed;
          transport_failures = filter (\<lambda>r. \<not> sb_success r \<and> sb_evidence r = None) parsed;
          sub_results = map (sub_json object_ids) parsed;
          answer = Inr (success_result response
            (map (\<lambda>r. object_ids ! sb_index r) (filter sb_success parsed))
            [(''status_applied'', JStr status), (''batch_size'', JNum (int (length object_ids))),
             (''succeeded'', JNum (int (length (filter sb_success parsed)))),
             (''failed'', JNum (int (length (filter (\<lambda>r. \<not> sb_success r) parsed)))),
             (''sub_results'', JArr (map JObj sub_results))])
      in if ambiguous_ids \<noteq> []
         then Inl (plain_exn CAmbiguousResultError ''Meta batch mutation returned no exact success=true acknowledgement'')
         else if transport_failures \<noteq> [] \<and> length transport_failures = length parsed
         then xbind (xmap classify_sub_failure transport_failures) (\<lambda>classified.
           if list_all (\<lambda>e. raised_as e CTemporaryError) classified then Inl (hd classified) else answer)
         else answer)"

definition bulk_status_change_execute :: "client \<Rightarrow> meta_payload \<Rightarrow> graph_call list \<times> jobj attempt" where
  "bulk_status_change_execute client p =
     (case extract_params (mp_params p) of
        Inl e \<Rightarrow> ([], Inl (of_error e))
      | Inr (object_ids, status) \<Rightarrow>
        (case ebind (emap (\<lambda>oid. make_batch_entry ''POST'' (oid @ ''?status='' @ status)) object_ids) build_batch_payload of
           Inl e \<Rightarrow> ([], Inl (of_error e))
         | Inr batch \<Rightarrow>
             let call = batch_call p batch
             in ([call], xbind (client call) (\<lambda>response.
                  xbind (parse_batch_response True (Some (length object_ids)) response)
                    (bulk_result object_ids status response)))))"

section \<open>Dispatch\<close>

type_synonym executor = "client \<Rightarrow> meta_payload \<Rightarrow> graph_call list \<times> jobj attempt"

text \<open>\<open>dispatch_mutation\<close> and \<open>execute_mutation\<close>; \<open>duplicate\<close> is the handler of structure duplication.\<close>

definition dispatch_mutation :: "executor \<Rightarrow> executor" where
  "dispatch_mutation duplicate client p =
     (if mp_mutation_kind p = ''pause_ad'' then pause_ad_execute client p
      else if mp_mutation_kind p = ''activate_ad'' then activate_ad_execute client p
      else if mp_mutation_kind p = ''duplicate_adset_structure'' then duplicate client p
      else if mp_mutation_kind p = ''bulk_status_change'' then bulk_status_change_execute client p
      else ([], Inl (plain_exn CNotImplementedError ''no handler'')))"

definition execute_mutation :: "executor \<Rightarrow> executor" where
  "execute_mutation duplicate client p =
     (if mp_mutation_kind p = ''duplicate_adset_structure'' then duplicate client p
      else dispatch_mutation duplicate client p)"

section \<open>assess\_mutation\_result\<close>

datatype assessment_state = AConfirmed | ARejected | APartial | AInvalid

type_synonym assessment = "assessment_state \<times> string"

definition is_nonnegative_int :: "json \<Rightarrow> bool" where
  "is_nonnegative_int v \<longleftrightarrow> (case v of JNum n \<Rightarrow> n \<ge> 0 | _ \<Rightarrow> False)"

definition json_int :: "json \<Rightarrow> int" where
  "json_int v = (case v of JNum n \<Rightarrow> n | _ \<Rightarrow> 0)"

definition nonblank_str :: "json \<Rightarrow> bool" where
  "nonblank_str v \<longleftrightarrow> (case v of JStr s \<Rightarrow> py_strip s \<noteq> [] | _ \<Rightarrow> False)"

text \<open>The loop over \<open>sub_results\<close>: the ids that succeeded, or the reason the list is invalid.\<close>

fun assess_subs :: "json list \<Rightarrow> json list \<Rightarrow> string + json list" where
  "assess_subs seen [] = Inr []"
| "assess_subs seen (item # items) =
     (case item of
        JObj ob \<Rightarrow>
          let object_id = jget ob ''id''
          in if \<not> nonblank_str object_id \<or> object_id \<in> set seen then Inl ''bulk_sub_result_invalid''
             else (case jget ob ''success'' of
               JBool ok \<Rightarrow>
                 (case assess_subs (object_id # seen) items of
                    Inl why \<Rightarrow> Inl why
                  | Inr ids \<Rightarrow> Inr (if ok then object_id # ids else ids))
             | _ \<Rightarrow> Inl ''bulk_sub_result_invalid'')
      | _ \<Rightarrow> Inl ''bulk_sub_result_not_object'')"

definition assess_bulk :: "bool \<Rightarrow> json list \<Rightarrow> jobj \<Rightarrow> assessment" where
  "assess_bulk acknowledged modified_ids ob =
     (let succeeded = jget ob ''succeeded''; failed = jget ob ''failed''
      in case jget ob ''sub_results'' of
           JArr sub_results \<Rightarrow>
             if \<not> is_nonnegative_int succeeded \<or> \<not> is_nonnegative_int failed then (AInvalid, ''bulk_result_shape_invalid'')
             else let s = json_int succeeded; f = json_int failed
             in if s + f \<noteq> int (length sub_results) then (AInvalid, ''bulk_result_counts_mismatch'')
             else (case assess_subs [] sub_results of
               Inl why \<Rightarrow> (AInvalid, why)
             | Inr successful_ids \<Rightarrow>
                 if int (length successful_ids) \<noteq> s \<or> successful_ids \<noteq> modified_ids
                 then (AInvalid, ''bulk_modified_ids_mismatch'')
                 else if \<not> acknowledged
                 then if s > 0 \<and> f > 0 then (APartial, ''bulk_partially_applied'')
                   else if s = 0 \<and> f > 0 then (ARejected, ''bulk_all_rejected'')
                   else (AInvalid, ''bulk_acknowledgement_conflict'')
                 else if s = 0 \<and> f > 0 then (ARejected, ''bulk_all_rejected'')
                 else if s > 0 \<and> f > 0 then (APartial, ''bulk_partially_applied'')
                 else if s = 0 then (AInvalid, ''bulk_empty_acknowledgement'')
                 else (AConfirmed, ''handler_confirmed''))
         | _ \<Rightarrow> (AInvalid, ''bulk_result_shape_invalid''))"

definition assess_mutation_result :: "meta_payload \<Rightarrow> json \<Rightarrow> assessment" where
  "assess_mutation_result p result =
     (case result of
        JObj ob \<Rightarrow>
          (case jget ob ''success'' of
             JBool acknowledged \<Rightarrow>
               (case (case map_of ob ''modified_ids'' of None \<Rightarrow> JArr [] | Some v \<Rightarrow> v) of
                  JArr modified_ids \<Rightarrow>
                    if \<not> list_all nonblank_str modified_ids then (AInvalid, ''handler_modified_ids_invalid'')
                    else if \<not> distinct modified_ids then (AInvalid, ''handler_modified_ids_not_unique'')
                    else if mp_mutation_kind p \<noteq> ''bulk_status_change'' \<and> \<not> acknowledged
                    then if modified_ids \<noteq> [] then (AInvalid, ''handler_rejection_contains_modified_ids'')
                      else (ARejected, ''handler_explicit_rejection'')
                    else if mp_mutation_kind p \<in> {''pause_ad'', ''activate_ad''}
                    then if modified_ids \<noteq> [JStr (mp_target_id p)] then (AInvalid, ''status_handler_modified_ids_mismatch'')
                      else (AConfirmed, ''handler_confirmed'')
                    else if mp_mutation_kind p \<noteq> ''bulk_status_change''
                    then if modified_ids = [] then (AInvalid, ''irreversible_handler_has_no_modified_ids'')
                      else (AConfirmed, ''handler_confirmed'')
                    else assess_bulk acknowledged modified_ids ob
                | _ \<Rightarrow> (AInvalid, ''handler_modified_ids_invalid''))
           | _ \<Rightarrow> (AInvalid, ''handler_success_not_boolean''))
      | _ \<Rightarrow> (AInvalid, ''handler_result_not_object''))"

end
