(* ===== verification/Ownership.thy ===== *)
theory Ownership
  imports MetaCommands
begin

text \<open>
  Owner scoping: \<open>campaign_matches_owner\<close> of \<open>core/observer/queries.py\<close> and the verdict on a mutation
  of \<open>core/meta_api/ownership.py\<close>. In a shared cabinet the worker acts only on advertisements whose
  campaign or name carries one of the owner's tags as a whole word.
\<close>

section \<open>Tags\<close>

fun split_on :: "char \<Rightarrow> string \<Rightarrow> string list" where
  "split_on sep [] = [[]]"
| "split_on sep (c # cs) =
     (case split_on sep cs of
        [] \<Rightarrow> [[c]]
      | p # ps \<Rightarrow> if c = sep then [] # p # ps else (c # p) # ps)"

definition parse_owner_tags :: "string option \<Rightarrow> string list" where
  "parse_owner_tags raw =
     filter (\<lambda>t. t \<noteq> []) (map py_strip
       (split_on (CHR '','') (map (\<lambda>c. if c = CHR '';'' then CHR '','' else c) (or_empty raw))))"

definition multi_cabinet_requires_owner_tag :: "int \<Rightarrow> string option \<Rightarrow> bool" where
  "multi_cabinet_requires_owner_tag account_count owner_tag \<longleftrightarrow>
     account_count > 1 \<and> parse_owner_tags owner_tag = []"

text \<open>\<open>[a-z0-9]\<close>\<close>

definition word_char :: "char \<Rightarrow> bool" where
  "word_char c \<longleftrightarrow> (let n = of_char c :: int in 97 \<le> n \<and> n \<le> 122 \<or> 48 \<le> n \<and> n \<le> 57)"

text \<open>\<open>(?<![a-z0-9])tag(?![a-z0-9])\<close>, searched from the position after the character \<open>prev\<close>.\<close>

definition matches_here :: "string \<Rightarrow> char option \<Rightarrow> string \<Rightarrow> bool" where
  "matches_here tag prev s \<longleftrightarrow>
     (case prev of None \<Rightarrow> True | Some c \<Rightarrow> \<not> word_char c) \<and> take (length tag) s = tag \<and>
     (case drop (length tag) s of [] \<Rightarrow> True | c # _ \<Rightarrow> \<not> word_char c)"

fun owner_tag_search :: "string \<Rightarrow> char option \<Rightarrow> string \<Rightarrow> bool" where
  "owner_tag_search tag prev [] = matches_here tag prev []"
| "owner_tag_search tag prev (c # cs) =
     (matches_here tag prev (c # cs) \<or> owner_tag_search tag (Some c) cs)"

definition campaign_matches_owner :: "string \<Rightarrow> string \<Rightarrow> string option \<Rightarrow> bool" where
  "campaign_matches_owner campaign_name ad_name owner_tag \<longleftrightarrow>
     parse_owner_tags owner_tag = [] \<or>
     list_ex (\<lambda>tag. owner_tag_search (py_lower tag) None (py_lower campaign_name)
       \<or> owner_tag_search (py_lower tag) None (py_lower ad_name)) (parse_owner_tags owner_tag)"

section \<open>Verdicts\<close>

text \<open>The reasons of the code's messages, with their values.\<close>

datatype ownership_reason =
    OwnerTagNotSet
  | NotInCatalogue string
  | BelongsToOwner string
  | ForeignCampaign string string
  | BulkEmpty
  | BulkForeign nat
  | BulkNotInCatalogue nat
  | BulkOwned nat
  | DuplicateNamesMissing
  | DuplicateNameForeign nat
  | DuplicateOwned string nat
  | KindUndefined string

record ownership_decision =
  od_allowed :: bool
  od_reason :: ownership_reason
  od_not_found :: bool
  od_foreign_ids :: "string list"

definition decided :: "bool \<Rightarrow> ownership_reason \<Rightarrow> ownership_decision" where
  "decided allowed reason = \<lparr>od_allowed = allowed, od_reason = reason, od_not_found = False, od_foreign_ids = []\<rparr>"

text \<open>The catalogue: campaign name and advertisement name of a Facebook id.\<close>

type_synonym catalogue = "string \<Rightarrow> (string \<times> string) option"

definition decide_single :: "(string \<times> string) option \<Rightarrow> string option \<Rightarrow> string \<Rightarrow> ownership_decision" where
  "decide_single resolved owner_tag target =
     (case resolved of
        None \<Rightarrow> \<lparr>od_allowed = False, od_reason = NotInCatalogue target, od_not_found = True, od_foreign_ids = [target]\<rparr>
      | Some (campaign_name, ad_name) \<Rightarrow>
          if campaign_matches_owner campaign_name ad_name owner_tag then decided True (BelongsToOwner target)
          else (decided False (ForeignCampaign target campaign_name))\<lparr>od_foreign_ids := [target]\<rparr>)"

definition bulk_decision :: "catalogue \<Rightarrow> string option \<Rightarrow> string list \<Rightarrow> ownership_decision" where
  "bulk_decision cat owner_tag ids =
     (let not_found_ids = filter (\<lambda>i. cat i = None) ids;
          foreign_ids = filter (\<lambda>i. case cat i of None \<Rightarrow> False
            | Some (cname, aname) \<Rightarrow> \<not> campaign_matches_owner cname aname owner_tag) ids
      in if ids = [] then decided False BulkEmpty
         else if foreign_ids \<noteq> []
         then (decided False (BulkForeign (length foreign_ids)))\<lparr>od_foreign_ids := foreign_ids\<rparr>
         else if not_found_ids \<noteq> []
         then (decided False (BulkNotInCatalogue (length not_found_ids)))
           \<lparr>od_not_found := True, od_foreign_ids := not_found_ids\<rparr>
         else decided True (BulkOwned (length ids)))"

definition check_bulk :: "catalogue \<Rightarrow> meta_payload \<Rightarrow> string option \<Rightarrow> ownership_decision result" where
  "check_bulk cat p owner_tag =
     ebind (json_iter (jget (mp_params p) ''ad_ids'')) (\<lambda>vs.
       Inr (bulk_decision cat owner_tag (filter (\<lambda>i. i \<noteq> []) (map (\<lambda>v. py_strip (py_str v)) vs))))"

text \<open>The first campaign name that is no text or does not carry a tag.\<close>

fun first_foreign_name :: "nat \<Rightarrow> string option \<Rightarrow> json list \<Rightarrow> nat option" where
  "first_foreign_name i owner_tag [] = None"
| "first_foreign_name i owner_tag (v # vs) =
     (case v of
        JStr s \<Rightarrow> if campaign_matches_owner s [] owner_tag then first_foreign_name (Suc i) owner_tag vs else Some i
      | _ \<Rightarrow> Some i)"

definition check_duplicate :: "catalogue \<Rightarrow> meta_payload \<Rightarrow> string option \<Rightarrow> ownership_decision" where
  "check_duplicate cat p owner_tag =
     (let source_ad_id = py_strip (str_or_empty (jget (mp_params p) ''source_ad_id''));
          source = decide_single (cat source_ad_id) owner_tag source_ad_id
      in if \<not> od_allowed source then source
         else case jget (mp_params p) ''campaign_names'' of
           JArr (v # vs) \<Rightarrow>
             (case first_foreign_name 0 owner_tag (v # vs) of
                Some i \<Rightarrow> decided False (DuplicateNameForeign i)
              | None \<Rightarrow> decided True (DuplicateOwned source_ad_id (length (v # vs))))
         | _ \<Rightarrow> decided False DuplicateNamesMissing)"

definition check_mutation_ownership :: "catalogue \<Rightarrow> meta_payload \<Rightarrow> string option \<Rightarrow> ownership_decision result" where
  "check_mutation_ownership cat p owner_tag =
     (if py_strip (or_empty owner_tag) = [] then Inr (decided True OwnerTagNotSet)
      else if mp_mutation_kind p \<in> {''pause_ad'', ''activate_ad''}
      then Inr (decide_single (cat (mp_target_id p)) owner_tag (mp_target_id p))
      else if mp_mutation_kind p = ''duplicate_adset_structure'' then Inr (check_duplicate cat p owner_tag)
      else if mp_mutation_kind p = ''bulk_status_change'' then check_bulk cat p owner_tag
      else Inr (decided False (KindUndefined (mp_mutation_kind p))))"

definition check_ad_ownership :: "catalogue \<Rightarrow> string \<Rightarrow> string option \<Rightarrow> ownership_decision" where
  "check_ad_ownership cat fb_ad_id owner_tag =
     (if py_strip (or_empty owner_tag) = [] then decided True OwnerTagNotSet
      else decide_single (cat fb_ad_id) owner_tag fb_ad_id)"

section \<open>What a match is\<close>

text \<open>A tag matches a name exactly when it occurs there as a whole word.\<close>

definition whole_word :: "string \<Rightarrow> string \<Rightarrow> bool" where
  "whole_word tag s \<longleftrightarrow>
     (\<exists>pre post. s = pre @ tag @ post \<and> (pre = [] \<or> \<not> word_char (last pre)) \<and> (post = [] \<or> \<not> word_char (hd post)))"

lemma matches_here_iff:
  "matches_here tag prev s \<longleftrightarrow> (case prev of None \<Rightarrow> True | Some c \<Rightarrow> \<not> word_char c) \<and>
     (\<exists>post. s = tag @ post \<and> (post = [] \<or> \<not> word_char (hd post)))"
proof
  assume m: "matches_here tag prev s"
  then have "s = tag @ drop (length tag) s"
    by (metis append_take_drop_id matches_here_def)
  moreover have "drop (length tag) s = [] \<or> \<not> word_char (hd (drop (length tag) s))"
    using m by (auto simp: matches_here_def split: list.splits)
  ultimately show "(case prev of None \<Rightarrow> True | Some c \<Rightarrow> \<not> word_char c) \<and>
     (\<exists>post. s = tag @ post \<and> (post = [] \<or> \<not> word_char (hd post)))"
    using m unfolding matches_here_def by blast
next
  assume "(case prev of None \<Rightarrow> True | Some c \<Rightarrow> \<not> word_char c) \<and>
     (\<exists>post. s = tag @ post \<and> (post = [] \<or> \<not> word_char (hd post)))"
  then obtain post where "case prev of None \<Rightarrow> True | Some c \<Rightarrow> \<not> word_char c" "s = tag @ post"
    "post = [] \<or> \<not> word_char (hd post)" by blast
  then show "matches_here tag prev s"
    by (cases post) (simp_all add: matches_here_def)
qed

lemma owner_tag_search_iff:
  "owner_tag_search tag prev s \<longleftrightarrow>
     (\<exists>pre post. s = pre @ tag @ post \<and>
        (if pre = [] then (case prev of None \<Rightarrow> True | Some c \<Rightarrow> \<not> word_char c) else \<not> word_char (last pre)) \<and>
        (post = [] \<or> \<not> word_char (hd post)))"
proof (induction s arbitrary: prev)
  case Nil
  then show ?case by (auto simp: matches_here_iff)
next
  case (Cons c cs)
  let ?ok = "\<lambda>prev pre post. (if pre = [] then (case prev of None \<Rightarrow> True | Some c \<Rightarrow> \<not> word_char c) else \<not> word_char (last pre)) \<and>
        (post = [] \<or> \<not> word_char (hd post))"
  have "(\<exists>pre post. c # cs = pre @ tag @ post \<and> ?ok prev pre post) \<longleftrightarrow>
      (\<exists>post. c # cs = tag @ post \<and> ?ok prev [] post) \<or>
      (\<exists>pre post. cs = pre @ tag @ post \<and> ?ok prev (c # pre) post)"
    (is "?l \<longleftrightarrow> ?a \<or> ?b")
  proof
    assume ?l
    then obtain pre post where p: "c # cs = pre @ tag @ post" "?ok prev pre post" by blast
    show "?a \<or> ?b"
    proof (cases pre)
      case Nil
      then have ?a using p by (intro exI [of _ post]) simp
      then show ?thesis ..
    next
      case (Cons d ds)
      then have ?b using p by (intro exI [of _ ds] exI [of _ post]) simp
      then show ?thesis ..
    qed
  next
    assume "?a \<or> ?b"
    then show ?l
    proof
      assume ?a
      then obtain post where "c # cs = [] @ tag @ post" "?ok prev [] post" by auto
      then show ?l by blast
    next
      assume ?b
      then obtain pre post where "c # cs = (c # pre) @ tag @ post" "?ok prev (c # pre) post" by auto
      then show ?l by blast
    qed
  qed
  moreover have "?ok prev (c # pre) post \<longleftrightarrow> ?ok (Some c) pre post" for pre post
    by simp
  ultimately show ?case
    using Cons.IH [of "Some c"] by (auto simp: matches_here_iff)
qed

lemma search_is_whole_word: "owner_tag_search tag None s \<longleftrightarrow> whole_word tag s"
  unfolding owner_tag_search_iff whole_word_def by (auto split: if_splits)

text \<open>
  C26. The hand-written search of owner tags is the whole-word match: an advertisement belongs to the
  owner exactly when no tag is configured or one of the tags, taken between commas and
  semicolons, occurs in its campaign name or its own name, letter case aside, with no letter or
  digit next to it.
\<close>

theorem owner_match_is_whole_word:
  "campaign_matches_owner campaign_name ad_name owner_tag \<longleftrightarrow>
     parse_owner_tags owner_tag = [] \<or>
     (\<exists>tag. tag \<in> set (parse_owner_tags owner_tag) \<and>
        (whole_word (py_lower tag) (py_lower campaign_name) \<or> whole_word (py_lower tag) (py_lower ad_name)))"
  by (auto simp: campaign_matches_owner_def search_is_whole_word list_ex_iff)

text \<open>What an allowed verdict means for the advertisements of the mutation.\<close>

definition owned :: "catalogue \<Rightarrow> string option \<Rightarrow> string \<Rightarrow> bool" where
  "owned cat owner_tag ad \<longleftrightarrow>
     (case cat ad of None \<Rightarrow> False | Some (cname, aname) \<Rightarrow> campaign_matches_owner cname aname owner_tag)"

text \<open>The advertisements a mutation changes or copies.\<close>

definition mutation_ads :: "meta_payload \<Rightarrow> string list" where
  "mutation_ads p =
     (if mp_mutation_kind p = ''bulk_status_change''
      then filter (\<lambda>i. i \<noteq> []) (map (\<lambda>v. py_strip (py_str v))
        (case json_iter (jget (mp_params p) ''ad_ids'') of Inl e \<Rightarrow> [] | Inr vs \<Rightarrow> vs))
      else if mp_mutation_kind p = ''duplicate_adset_structure''
      then [py_strip (str_or_empty (jget (mp_params p) ''source_ad_id''))]
      else [mp_target_id p])"

lemma decide_single_allowed: "od_allowed (decide_single (cat ad) owner_tag ad) \<longleftrightarrow> owned cat owner_tag ad"
  by (auto simp: decide_single_def owned_def decided_def split: option.splits)

lemma bulk_allowed:
  assumes "od_allowed (bulk_decision cat owner_tag ids)"
  shows "\<forall>ad \<in> set ids. owned cat owner_tag ad"
proof
  fix ad assume ad: "ad \<in> set ids"
  have "filter (\<lambda>i. cat i = None) ids = []"
    "filter (\<lambda>i. case cat i of None \<Rightarrow> False | Some (cname, aname) \<Rightarrow> \<not> campaign_matches_owner cname aname owner_tag) ids = []"
    using assms by (auto simp: bulk_decision_def Let_def decided_def split: if_splits)
  then show "owned cat owner_tag ad"
    using ad by (cases "cat ad") (auto simp: owned_def filter_empty_conv split: prod.splits)
qed

lemma allowed_owned:
  assumes "check_mutation_ownership cat p owner_tag = Inr d" "od_allowed d" "py_strip (or_empty owner_tag) \<noteq> []"
  shows "\<forall>ad \<in> set (mutation_ads p). owned cat owner_tag ad"
proof -
  have bulk: "\<forall>ad \<in> set (mutation_ads p). owned cat owner_tag ad"
    if k: "mp_mutation_kind p = ''bulk_status_change''" and cb: "check_bulk cat p owner_tag = Inr d"
  proof -
    obtain vs where vs: "json_iter (jget (mp_params p) ''ad_ids'') = Inr vs"
      using cb by (auto simp: check_bulk_def err_simps)
    then have "od_allowed (bulk_decision cat owner_tag (mutation_ads p))"
      using cb k assms(2) by (simp add: check_bulk_def mutation_ads_def)
    then show ?thesis
      by (rule bulk_allowed)
  qed
  have dup: "owned cat owner_tag (py_strip (str_or_empty (jget (mp_params p) ''source_ad_id'')))"
    if "check_duplicate cat p owner_tag = d"
    using that assms(2) decide_single_allowed by (auto simp: check_duplicate_def Let_def split: if_splits)
  show ?thesis
    using assms bulk dup decide_single_allowed [of cat "mp_target_id p" owner_tag]
    by (auto simp: check_mutation_ownership_def mutation_ads_def decided_def split: if_splits)
qed

end
