(* ===== verification/MetaWorker.thy ===== *)
theory MetaWorker
  imports MutationHandlers Ownership AutoStopGate Commands
begin

text \<open>
  The Meta worker (\<open>apps/meta_api_worker/main.py\<close>): the whole life of one claimed mutation task, from
  its payload through the gates, the external-call boundary and the handler to the terminal
  transition, a retry or a reconciliation. Every database access is a transaction; the requests
  sent to Meta are recorded together with the database they were sent under.
\<close>

section \<open>State and steps\<close>

record worker_db =
  wd_cmd :: command_db
  wd_alerts :: alert_table

type_synonym trace = "(worker_db \<times> graph_call) list"

text \<open>A step gives the database, the requests sent and the value or the exception raised.\<close>

type_synonym 'a worker = "worker_db \<Rightarrow> worker_db \<times> trace \<times> 'a attempt"

definition wreturn :: "'a \<Rightarrow> 'a worker" where
  "wreturn x db = (db, [], Inr x)"

definition wbind :: "'a worker \<Rightarrow> ('a \<Rightarrow> 'b worker) \<Rightarrow> 'b worker" where
  "wbind m f db =
     (case m db of
        (db1, tr, Inl e) \<Rightarrow> (db1, tr, Inl e)
      | (db1, tr, Inr x) \<Rightarrow> (case f x db1 of (db2, tr2, r) \<Rightarrow> (db2, tr @ tr2, r)))"

text \<open>\<open>try: m except ...\<close>; the handler decides by the class of the exception.\<close>

definition wcatch :: "'a worker \<Rightarrow> (exn \<Rightarrow> 'a worker) \<Rightarrow> 'a worker" where
  "wcatch m h db =
     (case m db of
        (db1, tr, Inl e) \<Rightarrow> (case h e db1 of (db2, tr2, r) \<Rightarrow> (db2, tr @ tr2, r))
      | (db1, tr, Inr x) \<Rightarrow> (db1, tr, Inr x))"

text \<open>A transaction: what it raises rolls it back.\<close>

definition transact :: "(worker_db \<Rightarrow> (worker_db \<times> 'a) result) \<Rightarrow> 'a worker" where
  "transact f db = (case f db of Inl e \<Rightarrow> (db, [], Inl (of_error e)) | Inr (db', x) \<Rightarrow> (db', [], Inr x))"

definition on_queue :: "(qdb \<Rightarrow> (qdb \<times> 'a) result) \<Rightarrow> worker_db \<Rightarrow> (worker_db \<times> 'a) result" where
  "on_queue f db =
     ebind (f (cq (wd_cmd db))) (\<lambda>(q, x). Inr (db\<lparr>wd_cmd := (wd_cmd db)\<lparr>cq := q\<rparr>\<rparr>, x))"

definition queue_tx :: "(qdb \<Rightarrow> (qdb \<times> 'a) result) \<Rightarrow> 'a worker" where
  "queue_tx f = transact (on_queue f)"

definition meta_tx :: "(meta_db \<Rightarrow> (meta_db \<times> 'a) result) \<Rightarrow> 'a worker" where
  "meta_tx f = transact (\<lambda>db.
     ebind (f \<lparr>mq = cq (wd_cmd db), alerts = wd_alerts db\<rparr>) (\<lambda>(m, x).
       Inr (\<lparr>wd_cmd = (wd_cmd db)\<lparr>cq := mq m\<rparr>, wd_alerts = alerts m\<rparr>, x)))"

definition send :: "graph_call list \<times> 'a attempt \<Rightarrow> 'a worker" where
  "send sent db = (db, map (\<lambda>call. (db, call)) (fst sent), snd sent)"

definition others :: "(worker_db \<Rightarrow> worker_db) \<Rightarrow> unit worker" where
  "others g db = (g db, [], Inr ())"

text \<open>
  What the worker reads besides the two tables: the clocks of its three phases (gates, boundary,
  after the call), the client and the duplication handler, the tables the gates query, the answers
  of the grace resolvers, the readiness generation of the claim, the target lock that was busy,
  why the control loop stopped an execution, and the transactions others commit before the
  boundary and while the request runs.
\<close>

record worker_env =
  we_gate :: clock
  we_boundary :: clock
  we_after :: clock
  we_client :: client
  we_duplicate :: executor
  we_recover :: "client \<Rightarrow> meta_payload \<Rightarrow> jobj \<Rightarrow> graph_call list \<times> (json \<times> json) attempt"
  we_authorize :: "clock \<Rightarrow> task \<Rightarrow> meta_payload \<Rightarrow> jobj option \<Rightarrow> qdb \<Rightarrow> string + (qdb \<times> bool)"
  we_scanning :: "bool option"
  we_owner_tag :: "string option"
  we_catalogue :: catalogue
  we_evidence :: evidence_db
  we_grace_seconds :: int
  we_cabinet_day :: "cabinet_day option"
  we_account_currency :: "string option"
  we_grace_source :: "grace_source option"
  we_zones :: "string \<Rightarrow> bool"
  we_transition_token :: token
  we_generation :: "int option"
  we_busy_target :: "string option"
  we_interrupt :: "string option"
  we_alert_ctx :: bool
  we_before :: "worker_db \<Rightarrow> worker_db"
  we_during :: "worker_db \<Rightarrow> worker_db"

section \<open>Shorthands of the calls\<close>

definition fail_task :: "clock \<Rightarrow> task \<Rightarrow> string \<Rightarrow> jobj \<Rightarrow> bool worker" where
  "fail_task c task err result =
     queue_tx (mark_failed c (t_id task) err (Some result) (t_lease_owner task) (Some (t_lease_token task)) None)"

definition quietly :: "'a worker \<Rightarrow> unit worker" where
  "quietly m = wbind m (\<lambda>_. wreturn ())"

definition STATUS_KINDS :: "string list" where
  "STATUS_KINDS = [''pause_ad'', ''activate_ad'', ''bulk_status_change'']"

definition require_claimed_task :: "task \<Rightarrow> unit result" where
  "require_claimed_task task =
     (if t_lease_owner task = None \<or> t_lease_token task \<le> 0
      then Inl (ValueError ''meta_api_worker task has no valid lease fence'') else Inr ())"

text \<open>An UNKNOWN result of an operation that is not a status change.\<close>

definition unknown_result :: "meta_payload \<Rightarrow> string \<Rightarrow> jobj" where
  "unknown_result p reason =
     [(''outcome'', JStr ''UNKNOWN''), (''reconcile_required'', JBool True), (''manual_review_required'', JBool True),
      (''operation'', JStr (mp_mutation_kind p)), (''target_id'', JStr (mp_target_id p)), (''reason'', JStr reason)]"

text \<open>A rejection with the operator's text, named by its key.\<close>

definition rejected_result :: "string \<Rightarrow> jobj" where
  "rejected_result reason =
     [(''outcome'', JStr ''REJECTED''), (''reason'', JStr reason), (''operator_reason'', JStr reason)]"

definition is_activating_mutation :: "meta_payload \<Rightarrow> bool" where
  "is_activating_mutation p \<longleftrightarrow>
     (if mp_mutation_kind p = ''pause_ad'' then False
      else if mp_mutation_kind p = ''bulk_status_change'' then \<not> is_deactivating_bulk (mp_params p)
      else True)"

definition is_duplicate_recovery_task :: "task \<Rightarrow> meta_payload \<Rightarrow> bool" where
  "is_duplicate_recovery_task task p \<longleftrightarrow>
     mp_mutation_kind p = ''duplicate_adset_structure'' \<and>
     (case t_result task of
        None \<Rightarrow> False
      | Some checkpoint \<Rightarrow> jget checkpoint ''checkpoint_type'' = JStr ''duplicate_adset_structure''
          \<and> jget checkpoint ''recovery_requested'' = JBool True)"

section \<open>Grace of a curator's activation\<close>

definition prepare_enable_grace_for_payload ::
  "worker_env \<Rightarrow> clock \<Rightarrow> bool \<Rightarrow> meta_payload \<Rightarrow> prepared_enable_grace option result" where
  "prepare_enable_grace_for_payload env c require_disabled p =
     (if mp_mutation_kind p \<noteq> ''activate_ad'' then Inr None
      else case jget (mp_params p) ''enable_grace'' of
        JNull \<Rightarrow> Inr None
      | JObj intent \<Rightarrow>
          if set (map fst intent) \<noteq> {''spend_cap''}
          then Inl (EnableGraceUnsafeError ''enable_grace requires only an absolute spend_cap'')
          else ebind (prepare_enable_grace (mp_target_id p) (Some (mp_ad_account_id p))
                 (AmText (py_str (jget intent ''spend_cap''))) (we_grace_seconds env) (Aware (py_now c)) require_disabled
                 (we_cabinet_day env) (we_account_currency env) (we_grace_source env)) (\<lambda>g. Inr (Some g))
      | _ \<Rightarrow> Inl (EnableGraceUnsafeError ''enable_grace requires only an absolute spend_cap''))"

definition command_state_name :: "command_state \<Rightarrow> string" where
  "command_state_name s =
     (case s of CQueued \<Rightarrow> ''queued'' | CRunning \<Rightarrow> ''running'' | CConfirmed \<Rightarrow> ''confirmed''
      | CFailed \<Rightarrow> ''failed'' | CCancelled \<Rightarrow> ''cancelled'' | CUnknown \<Rightarrow> ''unknown'')"

text \<open>The alert row of an advertisement that is active without its grace.\<close>

definition exposed_row :: "int \<Rightarrow> token \<Rightarrow> ad_alert_row \<Rightarrow> ad_alert_row" where
  "exposed_row now tok r =
     (if ar_state r \<in> {Normal, Disabled}
      then r\<lparr>ar_state := StopSent, ar_stage := Some StopStage, ar_token := Some (coalesce (ar_token r) tok),
             ar_last_transition_at := now\<rparr> else r)"

text \<open>
  The transaction of \<open>mark_task_failed\<close> with \<open>commit_compensation\<close> as its effect: the task fails, the
  pause is enqueued, the alert row is exposed, the receipt is added to the result, and the
  failure is projected.
\<close>

definition compensation_result :: "string \<Rightarrow> jobj" where
  "compensation_result configured_status =
     [(''outcome'', JStr ''UNKNOWN''), (''reconcile_required'', JBool False),
      (''reason'', JStr ''enable_grace_compensation_pending''), (''external_outcome'', JStr ''CONFIRMED''),
      (''external_status'', JStr configured_status), (''compensation_action'', JStr ''pause_ad'')]"

definition compensate_confirmed_activation_without_grace ::
  "worker_env \<Rightarrow> clock \<Rightarrow> task \<Rightarrow> meta_payload \<Rightarrow> string \<Rightarrow> worker_db \<Rightarrow> (worker_db \<times> bool) result" where
  "compensate_confirmed_activation_without_grace env c task p configured_status db =
     ebind (fenced c (t_id task) (t_lease_owner task) (Some (t_lease_token task)) (\<lambda>t. True)
         (\<lambda>t. t\<lparr>t_status := Failed,
                t_last_error := Some (clip ''confirmed activation lacked durable grace; PAUSE queued''),
                t_result := Some (compensation_result configured_status),
                t_completed_at := Some (tx_now c), t_updated_at := tx_now c\<rparr>)
         (\<lambda>t q.
           ebind (enqueue_verified_pause_compensation c \<lparr>ce_zones = we_zones env, ce_authorize = (\<lambda>_. Inr ())\<rparr>
               (mp_target_id p)
               (''enable-grace-compensation:'' @ string_of_int (t_id task) @ '':'' @ mp_target_id p)
               ''activation_without_grace'' (t_id task) configured_status None 15 ((wd_cmd db)\<lparr>cq := q\<rparr>))
             (\<lambda>(cmd, receipt).
               let q1 = fst (update_tasks (\<lambda>u. t_id u = t_id task \<and> t_status u = Failed
                       \<and> t_lease_owner u = t_lease_owner task \<and> t_lease_token u = t_lease_token task)
                     (\<lambda>u. u\<lparr>t_result := Some (jmerge (obj_or_empty (t_result u))
                         [(''compensation_task_id'', JNum (cr_task_id receipt)),
                          (''compensation_state'', JStr (command_state_name (cr_state receipt)))]),
                       t_updated_at := tx_now c\<rparr>) (cq cmd))
               in ebind (on_ops (project_failed c None t) q1) (\<lambda>q2. Inr (q2, Some (cmd\<lparr>cq := q2\<rparr>)))))
         None (cq (wd_cmd db)))
       (\<lambda>(q, applied).
         case applied of
           None \<Rightarrow> Inr (db, False)
         | Some cmd \<Rightarrow>
             Inr (db\<lparr>wd_cmd := cmd, wd_alerts := (wd_alerts db)(mp_target_id p :=
                    map_option (exposed_row (tx_now c) (we_transition_token env)) (wd_alerts db (mp_target_id p)))\<rparr>, True))"

section \<open>The external boundary\<close>

definition preflight_task_control :: "clock \<Rightarrow> task \<Rightarrow> qdb \<Rightarrow> string option" where
  "preflight_task_control c task db =
     (case find (\<lambda>t. t_id t = t_id task \<and> t_lease_owner t = t_lease_owner task
              \<and> t_lease_token t = t_lease_token task) (tasks db) of
        None \<Rightarrow> Some ''lease_lost''
      | Some t \<Rightarrow>
          if t_status t \<noteq> Running then Some ''lease_lost''
          else if (case t_lease_expires_at t of None \<Rightarrow> True | Some x \<Rightarrow> x \<le> py_now c) then Some ''lease_expired''
          else if t_cancel_requested_at t \<noteq> None then Some ''cancel_requested''
          else if (case t_deadline_at t of None \<Rightarrow> False | Some x \<Rightarrow> x \<le> py_now c) then Some ''deadline_exceeded''
          else None)"

definition authorize_duplicate_boundary :: "worker_env \<Rightarrow> clock \<Rightarrow> task \<Rightarrow> meta_payload \<Rightarrow> bool worker" where
  "authorize_duplicate_boundary env c task p db =
     (let recovery_checkpoint = (if is_duplicate_recovery_task task p then t_result task else None)
      in case we_authorize env c task p recovery_checkpoint (cq (wd_cmd db)) of
           Inr (q, ok) \<Rightarrow> (db\<lparr>wd_cmd := (wd_cmd db)\<lparr>cq := q\<rparr>\<rparr>, [], Inr ok)
         | Inl why \<Rightarrow>
             wbind (fail_task c task (''duplicate plan integrity rejected: '' @ why)
               (case recovery_checkpoint of
                  None \<Rightarrow> [(''outcome'', JStr ''REJECTED''), (''reason'', JStr ''duplicate_plan_integrity'')]
                | Some checkpoint \<Rightarrow> jmerge checkpoint
                    [(''outcome'', JStr ''UNKNOWN''), (''reconcile_required'', JBool True),
                     (''manual_review_required'', JBool True), (''phase'', JStr ''recovery_checkpoint_invalid''),
                     (''recovery_integrity_error'', JStr why)]))
               (\<lambda>_. wreturn False) db)"

definition cross_external_mutation_boundary :: "worker_env \<Rightarrow> clock \<Rightarrow> task \<Rightarrow> meta_payload \<Rightarrow> bool worker" where
  "cross_external_mutation_boundary env c task p db =
     (case preflight_task_control c task (cq (wd_cmd db)) of
        Some reason \<Rightarrow>
          if reason = ''cancel_requested''
          then wbind (queue_tx (mark_cancelled c (t_id task) ''cancelled before external call''
                 (t_lease_owner task) (Some (t_lease_token task)))) (\<lambda>_. wreturn False) db
          else wbind (fail_task c task (''command rejected before external call: '' @ reason)
                 [(''outcome'', JStr ''REJECTED''), (''reason'', JStr reason)]) (\<lambda>_. wreturn False) db
      | None \<Rightarrow>
          if mp_mutation_kind p = ''duplicate_adset_structure'' then authorize_duplicate_boundary env c task p db
          else queue_tx (mark_external_call_started c (t_id task) (mp_target_id p)
                 (t_lease_owner task) (Some (t_lease_token task))) db)"

section \<open>Recovery of a partial duplication\<close>

text \<open>The time of the check, an ISO text in the code, is the number of microseconds.\<close>

definition recover_duplicate_task :: "worker_env \<Rightarrow> clock \<Rightarrow> task \<Rightarrow> meta_payload \<Rightarrow> unit worker" where
  "recover_duplicate_task env c task p =
     (let checkpoint = obj_or_empty (t_result task);
          fence = (\<lambda>f. f (t_lease_owner task) (Some (t_lease_token task)))
      in wbind (wcatch
          (wbind (send (we_recover env (we_client env) p checkpoint)) (\<lambda>r. wreturn (Some r)))
          (\<lambda>e. wbind (fail_task c task (''duplicate recovery checkpoint invalid: '' @ ex_text e)
             (jmerge checkpoint [(''phase'', JStr ''recovery_checkpoint_invalid''), (''recovery_error'', JStr (ex_text e))]))
             (\<lambda>_. wreturn None)))
        (\<lambda>recovered.
          case recovered of
            None \<Rightarrow> wreturn ()
          | Some (created, cleanup_failures) \<Rightarrow>
              (case int_or_zero (jget checkpoint ''recovery_attempt'') of
                 None \<Rightarrow> (\<lambda>db. (db, [], Inl (plain_exn CException ''int'')))
               | Some n \<Rightarrow>
                   let recovered_result = jmerge checkpoint
                         [(''created_ids'', created), (''recovery_requested'', JBool True), (''recovery_attempt'', JNum (n + 1)),
                          (''cleanup_failures'', cleanup_failures), (''recovery_checked_at'', JNum (py_now c))]
                   in if truthy cleanup_failures
                      then quietly (queue_tx (fence (requeue_duplicate_recovery c (t_id task)
                             (jmerge recovered_result [(''phase'', JStr ''recovery_retrying'')])
                             ''duplicate crash recovery PAUSE incomplete'' 60)))
                      else quietly (fail_task c task
                             ''duplicate_adset_structure crash recovery completed: all checkpointed IDs PAUSED''
                             (jmerge recovered_result
                               [(''phase'', JStr ''recovery_paused''), (''recovered_after_crash'', JBool True)])))))"

section \<open>Reconciliation of an unknown outcome\<close>

definition CONFIGURED_META_STATUS_VALUES :: "string list" where
  "CONFIGURED_META_STATUS_VALUES = [''ACTIVE'', ''PAUSED'', ''DELETED'', ''ARCHIVED'']"

definition status_of :: "json \<Rightarrow> string option" where
  "status_of v = (case v of JStr s \<Rightarrow> Some (py_upper (py_strip s)) | _ \<Rightarrow> None)"

definition read_statuses_call :: "meta_payload \<Rightarrow> string list \<Rightarrow> graph_call result" where
  "read_statuses_call p ids =
     ebind (emap (\<lambda>ad_id. make_batch_entry ''GET'' (ad_id @ ''?fields=status,effective_status'')) ids) (\<lambda>entries.
     ebind (build_batch_payload entries) (\<lambda>batch. Inr (batch_call p batch)))"

text \<open>The read-only batch; whatever it raises becomes one failed sub-result per advertisement.\<close>

definition read_statuses :: "worker_env \<Rightarrow> meta_payload \<Rightarrow> string list \<Rightarrow> graph_call list \<times> sub_result list" where
  "read_statuses env p ids =
     (let failed = (\<lambda>e. map (failed_sub (class_name (ex_class e))) [0..<length ids])
      in case read_statuses_call p ids of
           Inl e \<Rightarrow> ([], failed (of_error e))
         | Inr call \<Rightarrow>
             ([call], case xbind (we_client env call) (parse_batch_response False (Some (length ids))) of
                Inl e \<Rightarrow> failed e
              | Inr parsed \<Rightarrow> parsed))"

text \<open>One entry of \<open>per_ad\<close>, and whether the advertisement is confirmed.\<close>

definition per_ad_entry :: "string \<Rightarrow> string \<Rightarrow> sub_result option \<Rightarrow> bool \<times> jobj" where
  "per_ad_entry desired ad_id item =
     (let body = as_dict (case item of None \<Rightarrow> JNull | Some r \<Rightarrow> sb_body r);
          configured = status_of (jget body ''status''); effective = status_of (jget body ''effective_status'');
          reason = json_or (case item of Some r \<Rightarrow> (case sb_error r of Some e \<Rightarrow> e | None \<Rightarrow> JNull) | None \<Rightarrow> JNull)
            (JStr ''desired_configured_status_not_confirmed'')
      in if (case item of Some r \<Rightarrow> sb_success r | None \<Rightarrow> False) \<and>
            (case configured of Some s \<Rightarrow> s \<in> set CONFIGURED_META_STATUS_VALUES \<and> s = desired | None \<Rightarrow> False)
         then (True, [(''id'', JStr ad_id), (''outcome'', JStr ''CONFIRMED''), (''status'', opt_json configured),
                (''effective_status'', opt_json effective)])
         else (False, [(''id'', JStr ad_id), (''outcome'', JStr ''UNKNOWN''), (''status'', opt_json configured),
                (''effective_status'', opt_json effective), (''reason'', JStr (py_str reason))]))"

definition bulk_reconciliation_result :: "string \<Rightarrow> string list \<Rightarrow> sub_result list \<Rightarrow> string list \<times> jobj" where
  "bulk_reconciliation_result desired ids parsed =
     (let entries = map (\<lambda>i. per_ad_entry desired (ids ! i) (if i < length parsed then Some (parsed ! i) else None))
            [0..<length ids];
          confirmed_ids = map fst (filter (\<lambda>(_, ok, _). ok) (zip ids entries));
          unknown_ids = map fst (filter (\<lambda>(_, ok, _). \<not> ok) (zip ids entries))
      in (unknown_ids,
          [(''outcome'', JStr (if unknown_ids \<noteq> [] then ''UNKNOWN'' else ''CONFIRMED'')),
           (''reconcile_required'', JBool False), (''reconciled_after_unknown'', JBool True),
           (''desired_status'', JStr desired), (''modified_ids'', JArr (map JStr confirmed_ids)),
           (''confirmed_ids'', JArr (map JStr confirmed_ids)), (''unknown_ids'', JArr (map JStr unknown_ids)),
           (''succeeded'', JNum (int (length confirmed_ids))), (''failed'', JNum (int (length unknown_ids))),
           (''per_ad'', JArr (map (JObj o snd) entries))]))"

definition reconcile_unknown_bulk_status :: "worker_env \<Rightarrow> task \<Rightarrow> meta_payload \<Rightarrow> bool worker" where
  "reconcile_unknown_bulk_status env task p =
     (let c = we_gate env; execution_ids = bulk_target_lock_keys p
      in case map_of ACTION_TO_STATUS (bulk_action (mp_params p)) of
           Some desired \<Rightarrow>
             if execution_ids = []
             then wbind (fail_task c task ''ambiguous bulk status has no valid reconciliation context''
                    [(''outcome'', JStr ''UNKNOWN''), (''reconcile_required'', JBool False), (''per_ad'', JArr [])])
                    (\<lambda>_. wreturn True)
             else if we_busy_target env \<noteq> None
             then wbind (queue_tx (defer_unknown_reconciliation c task ''bulk status reconciliation target lock busy'' 1))
                    (\<lambda>_. wreturn True)
             else
               let (sent, parsed) = read_statuses env p execution_ids
               in wbind (send (sent, Inr parsed)) (\<lambda>parsed.
                    let (unknown_ids, result) = bulk_reconciliation_result desired execution_ids parsed
                    in if unknown_ids \<noteq> []
                       then wbind (meta_tx (mark_failed_with_fsm c task p
                              ''ambiguous bulk status remained partially unknown after per-ad reconciliation'' result))
                              (\<lambda>_. wreturn True)
                       else wbind (meta_tx (mark_confirmed_with_grace c task p result None)) (\<lambda>_. wreturn True))
         | None \<Rightarrow>
             wbind (fail_task c task ''ambiguous bulk status has no valid reconciliation context''
               [(''outcome'', JStr ''UNKNOWN''), (''reconcile_required'', JBool False), (''per_ad'', JArr [])])
               (\<lambda>_. wreturn True))"

definition requeue_unknown :: "clock \<Rightarrow> task \<Rightarrow> string \<Rightarrow> unit worker" where
  "requeue_unknown c task err = quietly (queue_tx (requeue_unknown_for_reconciliation c task err))"

definition read_status_call :: "meta_payload \<Rightarrow> graph_call" where
  "read_status_call p =
     \<lparr>gc_method = ''GET'', gc_endpoint = ''/'' @ mp_target_id p,
      gc_query_params = [(''fields'', ''effective_status,status'')], gc_ad_account_id = mp_ad_account_id p\<rparr>"

definition release_readiness :: "worker_env \<Rightarrow> clock \<Rightarrow> task \<Rightarrow> meta_payload \<Rightarrow> string \<Rightarrow> task_status option worker" where
  "release_readiness env c task p err =
     queue_tx (release_task_after_browser_readiness_rejection c task (we_generation env) (mp_target_id p) err)"

text \<open>The snapshot of the task after the write was proved absent.\<close>

definition not_applied_snapshot :: "string \<Rightarrow> task \<Rightarrow> task" where
  "not_applied_snapshot actual task =
     task\<lparr>t_result := Some (jmerge (jdel (jdel (obj_or_empty (t_result task)) ''outcome'') ''reconcile_required'')
            [(''reconciled_not_applied'', JBool True), (''effective_status'', JStr actual)]),
          t_external_started_at := None\<rparr>"

text \<open>The value: None when the task is settled, otherwise the task with which processing goes on.\<close>

definition settle_confirmed_status ::
  "worker_env \<Rightarrow> task \<Rightarrow> meta_payload \<Rightarrow> string \<Rightarrow> string \<Rightarrow> task option worker" where
  "settle_confirmed_status env task p configured_status effective_status =
     (let c = we_gate env;
          result = [(''outcome'', JStr ''CONFIRMED''), (''reconciled_after_unknown'', JBool True),
            (''status'', JStr configured_status),
            (''effective_status'', if effective_status = [] then JNull else JStr effective_status)]
      in case prepare_enable_grace_for_payload env c False p of
           Inr prepared \<Rightarrow> wbind (meta_tx (mark_confirmed_with_grace c task p result prepared)) (\<lambda>_. wreturn None)
         | Inl (EnableGraceUnsafeError _) \<Rightarrow>
             wbind (transact (compensate_confirmed_activation_without_grace env c task p configured_status))
               (\<lambda>_. wreturn None)
         | Inl e \<Rightarrow> (\<lambda>db. (db, [], Inl (of_error e))))"

definition settle_observed_status :: "worker_env \<Rightarrow> task \<Rightarrow> meta_payload \<Rightarrow> string \<Rightarrow> json \<Rightarrow> task option worker" where
  "settle_observed_status env task p desired observed =
     (let c = we_gate env; again = (\<lambda>why. wbind (requeue_unknown c task why) (\<lambda>_. wreturn None))
      in case observed of
           JObj ob \<Rightarrow>
             (case (status_of (jget ob ''status''), jget ob ''effective_status'') of
                (None, _) \<Rightarrow> again ''status reconciliation returned a non-string configured status''
              | (Some configured_status, effective) \<Rightarrow>
                  if configured_status \<notin> set CONFIGURED_META_STATUS_VALUES
                  then again ''status reconciliation returned an unsupported configured status''
                  else if effective \<noteq> JNull \<and> status_of effective = None
                  then again ''status reconciliation returned a non-string effective status''
                  else if configured_status \<noteq> desired
                  then wbind (queue_tx (resolve_status_reconciliation_not_applied c (t_id task) configured_status
                         (t_lease_owner task) (Some (t_lease_token task))))
                       (\<lambda>resolution. wreturn (if resolution = Some Running
                          then Some (not_applied_snapshot configured_status task) else None))
                  else settle_confirmed_status env task p configured_status (or_empty (status_of effective)))
         | _ \<Rightarrow> again ''status reconciliation returned a non-object response'')"

definition reconcile_unknown_status_action :: "worker_env \<Rightarrow> task \<Rightarrow> meta_payload \<Rightarrow> task option worker" where
  "reconcile_unknown_status_action env task p =
     (let c = we_gate env
      in if mp_mutation_kind p = ''bulk_status_change''
         then wbind (reconcile_unknown_bulk_status env task p) (\<lambda>_. wreturn None)
         else case map_of [(''pause_ad'', ''PAUSED''), (''activate_ad'', ''ACTIVE'')] (mp_mutation_kind p) of
           None \<Rightarrow>
             wbind (fail_task c task ''ambiguous external result requires manual reconciliation''
               [(''outcome'', JStr ''UNKNOWN''), (''reconcile_required'', JBool True)]) (\<lambda>_. wreturn None)
         | Some desired \<Rightarrow>
             wbind (wcatch
               (wbind (send ([read_status_call p], we_client env (read_status_call p))) (\<lambda>r. wreturn (Some r)))
               (\<lambda>e. wbind
                  (if raised_as e CBrowserReadinessRejectedError
                   then quietly (release_readiness env c task p (''status reconciliation browser readiness rejected: '' @ ex_text e))
                   else if raised_as e CTemporaryError
                   then requeue_unknown c task (''status reconciliation unavailable: '' @ ex_text e)
                   else quietly (fail_task c task (''status reconciliation failed: '' @ ex_text e)
                          [(''outcome'', JStr ''UNKNOWN''), (''reconcile_required'', JBool True)]))
                  (\<lambda>_. wreturn None)))
               (\<lambda>observed. case observed of
                  None \<Rightarrow> wreturn None
                | Some v \<Rightarrow> settle_observed_status env task p desired v))"

section \<open>Execution\<close>

text \<open>
  \<open>_execute_with_touch\<close>: the handler runs beside the loops that renew the lease and watch the task.
  When one of them ends first the execution is stopped and its outcome is ambiguous, whatever was
  already sent; the transactions of others run meanwhile.
\<close>

definition execute_with_touch :: "worker_env \<Rightarrow> meta_payload \<Rightarrow> jobj worker" where
  "execute_with_touch env p =
     (let (sent, result) = execute_mutation (we_duplicate env) (we_client env) p
      in wbind (send (sent, Inr ())) (\<lambda>_.
         wbind (others (we_during env)) (\<lambda>_.
           case we_interrupt env of
             Some reason \<Rightarrow> (\<lambda>db. (db, [], Inl (Exn CAmbiguousResultError (Some (- 2)) []
               (''external operation interrupted: '' @ reason) [] None)))
           | None \<Rightarrow> (\<lambda>db. (db, [], result)))))"

definition finalize_mutation ::
  "clock \<Rightarrow> task \<Rightarrow> meta_payload \<Rightarrow> prepared_enable_grace option \<Rightarrow> jobj \<Rightarrow> unit worker" where
  "finalize_mutation c task p prepared result =
     (case assess_mutation_result p (JObj result) of
        (AInvalid, why) \<Rightarrow>
          quietly (fail_task c task (''mutation handler contract violated: '' @ why)
            [(''outcome'', JStr ''UNKNOWN''), (''reconcile_required'', JBool True), (''manual_review_required'', JBool True),
             (''reason'', JStr ''handler_contract_violation''), (''contract_error'', JStr why),
             (''operation'', JStr (mp_mutation_kind p)), (''target_id'', JStr (mp_target_id p))])
      | (APartial, why) \<Rightarrow>
          quietly (meta_tx (mark_failed_with_fsm c task p
            ''mutation partially applied; terminal UNKNOWN and manual reconciliation required''
            (jmerge result [(''outcome'', JStr ''UNKNOWN''), (''reconcile_required'', JBool True),
               (''manual_review_required'', JBool True), (''reason'', JStr why)])))
      | (ARejected, why) \<Rightarrow>
          quietly (fail_task c task ''mutation_logical_fail''
            (jmerge result [(''outcome'', JStr ''REJECTED''), (''reason'', JStr why)]))
      | (AConfirmed, why) \<Rightarrow>
          quietly (meta_tx (mark_confirmed_with_grace c task p (jmerge result [(''outcome'', JStr ''CONFIRMED'')]) prepared)))"

definition execute_and_finalize_mutation ::
  "worker_env \<Rightarrow> task \<Rightarrow> meta_payload \<Rightarrow> prepared_enable_grace option \<Rightarrow> unit worker" where
  "execute_and_finalize_mutation env task p prepared =
     wbind (execute_with_touch env p) (finalize_mutation (we_after env) task p prepared)"

section \<open>Failures\<close>

definition fail_irreversible :: "clock \<Rightarrow> task \<Rightarrow> meta_payload \<Rightarrow> string \<Rightarrow> unit worker" where
  "fail_irreversible c task p reason =
     quietly (fail_task c task (''irreversible_no_retry ('' @ reason @ '')'')
       (jmerge (unknown_result p reason) [(''operator_reason'', JStr ''irreversible_no_retry'')]))"

definition AUTOSTOP_CHANNEL_INCIDENT_KEY :: string where
  "AUTOSTOP_CHANNEL_INCIDENT_KEY = ''autostop:channel_down''"

definition undelivered_stop_card :: "exn \<Rightarrow> card" where
  "undelivered_stop_card e =
     (case unretryable_browser_rejection e of
        None \<Rightarrow> [''autostop_channel_down'']
      | Some r \<Rightarrow> [''autostop_rejected_before_send'', ex_reason_code r])"

text \<open>\<open>maybe_alert_autostop_channel_down\<close>: its own transaction, whose exceptions are swallowed.\<close>

definition alert_autostop :: "worker_env \<Rightarrow> clock \<Rightarrow> task \<Rightarrow> exn \<Rightarrow> unit worker" where
  "alert_autostop env c task e db =
     (if \<not> we_alert_ctx env \<or> t_requested_by task \<noteq> ''bot_auto_stop'' \<or> \<not> is_channel_down_error e
      then wreturn () db
      else case on_queue (\<lambda>q. ebind (on_ops (notify_recurring_incident_in_transaction (tx_now c)
               AUTOSTOP_CHANNEL_INCIDENT_KEY ''all'' ''autostop_channel_down'' ''critical'' (undelivered_stop_card e)
               ''meta_channel'' (Some ''auto_stop'') None) q) (\<lambda>q'. Inr (q', ()))) db of
             Inl _ \<Rightarrow> wreturn () db
           | Inr (db', _) \<Rightarrow> wreturn () db')"

definition handle_partial_duplication :: "clock \<Rightarrow> task \<Rightarrow> exn \<Rightarrow> unit worker" where
  "handle_partial_duplication c task e =
     (let cleanup_failures = jget (ex_details e) ''cleanup_failures'';
          partial_result =
            [(''outcome'', JStr ''UNKNOWN''), (''reconcile_required'', JBool True), (''manual_review_required'', JBool True),
             (''checkpoint_type'', JStr ''duplicate_adset_structure''), (''checkpoint_version'', JNum 2),
             (''phase'', JStr (if truthy cleanup_failures then ''recovery_retrying'' else ''failed_cleanup'')),
             (''partial_fail'', JBool True), (''created_ids'', jget (ex_details e) ''created_ids''),
             (''failed_steps'', jget (ex_details e) ''failed_steps''), (''cleanup_failures'', cleanup_failures),
             (''recovery_requested'', JBool (truthy cleanup_failures))]
      in if truthy cleanup_failures
         then quietly (queue_tx (requeue_duplicate_recovery c (t_id task) partial_result
                ''duplicate_adset_structure_partial_fail'' 60 (t_lease_owner task) (Some (t_lease_token task))))
         else quietly (fail_task c task ''duplicate_adset_structure_partial_fail'' partial_result))"

definition handle_ambiguous :: "clock \<Rightarrow> task \<Rightarrow> meta_payload \<Rightarrow> exn \<Rightarrow> unit worker" where
  "handle_ambiguous c task p e =
     (if mp_mutation_kind p \<in> set STATUS_KINDS
      then requeue_unknown c task (''ambiguous external result: '' @ ex_text e)
      else quietly (fail_task c task (''ambiguous irreversible/non-status result: '' @ ex_text e)
             (unknown_result p ''ambiguous_result'')))"

definition permanent_result :: "exn \<Rightarrow> jobj" where
  "permanent_result e =
     rejected_result (class_name (ex_class e)) @
     (if raised_as e CLoginRequiredError then [(''requires_facebook_login'', JBool True)]
      else if raised_as e CTokenInvalidError then [(''requires_meta_reauth'', JBool True)] else [])"

definition handle_permanent :: "clock \<Rightarrow> task \<Rightarrow> meta_payload \<Rightarrow> exn \<Rightarrow> unit worker" where
  "handle_permanent c task p e =
     quietly (queue_tx (mark_task_failed_or_cancelled c (t_id task) (mp_target_id p) (ex_text e)
       (Some (permanent_result e)) (t_lease_owner task) (Some (t_lease_token task))))"

definition not_retryable_result :: "exn \<Rightarrow> jobj" where
  "not_retryable_result r =
     [(''outcome'', JStr ''REJECTED''), (''reason'', JStr ''browser_rejection_not_retryable''),
      (''pre_dispatch'', JBool True), (''pre_dispatch_reason_code'', JStr (ex_reason_code r))] @
     (if py_strip (ex_reason_code r) \<in> set (map fst BROWSER_OPERATION_REJECTION_TABLE)
      then [(''operator_reason'', JStr (ex_reason_code r))] else [])"

definition handle_temporary :: "worker_env \<Rightarrow> clock \<Rightarrow> bool \<Rightarrow> task \<Rightarrow> meta_payload \<Rightarrow> exn \<Rightarrow> unit worker" where
  "handle_temporary env c crossed task p e =
     (let known_not_committed = raised_as e CSessionUnavailableError
      in if crossed \<and> \<not> known_not_committed
         then if mp_mutation_kind p \<in> set STATUS_KINDS
           then wbind (requeue_unknown c task (''ambiguous temporary error after external boundary: '' @ ex_text e))
                  (\<lambda>_. alert_autostop env c task e)
           else quietly (fail_task c task (''ambiguous temporary error after external boundary: '' @ ex_text e)
                  (unknown_result p ''temporary_after_external_boundary''))
         else if mp_mutation_kind p \<in> set IRREVERSIBLE_MUTATION_KINDS \<and> \<not> known_not_committed
         then fail_irreversible c task p ''temporary''
         else
           wbind (if raised_as e CBrowserReadinessRejectedError
                  then quietly (release_readiness env c task p (ex_text e))
                  else case unretryable_browser_rejection e of
                    Some r \<Rightarrow> quietly (queue_tx (mark_task_failed_or_cancelled c (t_id task) (mp_target_id p)
                      (''browser rejected the request before send and a retry cannot fix it: '' @ ex_reason_code r)
                      (Some (not_retryable_result r)) (t_lease_owner task) (Some (t_lease_token task))))
                  | None \<Rightarrow>
                      if known_not_committed
                      then quietly (queue_tx (requeue_task_proven_not_committed c task (mp_target_id p) (ex_text e)))
                      else quietly (queue_tx (requeue_task c task (ex_text e))))
             (\<lambda>_. alert_autostop env c task e))"

definition handle_value_error :: "clock \<Rightarrow> bool \<Rightarrow> task \<Rightarrow> meta_payload \<Rightarrow> exn \<Rightarrow> unit worker" where
  "handle_value_error c crossed task p e =
     (if crossed \<and> mp_mutation_kind p \<in> set STATUS_KINDS
      then requeue_unknown c task (''ambiguous post-call value error: '' @ ex_text e)
      else if mp_mutation_kind p \<in> set IRREVERSIBLE_MUTATION_KINDS
      then fail_irreversible c task p ''value_error_postprocess''
      else quietly (queue_tx (requeue_task c task (''unexpected_value_error: '' @ ex_text e))))"

definition handle_unclassified :: "clock \<Rightarrow> bool \<Rightarrow> task \<Rightarrow> meta_payload \<Rightarrow> exn \<Rightarrow> unit worker" where
  "handle_unclassified c crossed task p e =
     (if crossed
      then if mp_mutation_kind p \<in> set STATUS_KINDS
        then requeue_unknown c task (''ambiguous unclassified post-call error: '' @ ex_text e)
        else quietly (fail_task c task (''ambiguous unclassified post-call error: '' @ ex_text e)
               (unknown_result p ''unclassified_after_external_boundary''))
      else if mp_mutation_kind p \<in> set IRREVERSIBLE_MUTATION_KINDS
      then fail_irreversible c task p ''unknown''
      else quietly (queue_tx (requeue_task c task (ex_text e))))"

text \<open>The \<open>except\<close> clauses in their order; \<open>crossed\<close> is \<open>external_boundary_crossed\<close>.\<close>

definition handle_failure :: "worker_env \<Rightarrow> clock \<Rightarrow> bool \<Rightarrow> task \<Rightarrow> meta_payload \<Rightarrow> exn \<Rightarrow> unit worker" where
  "handle_failure env c crossed task p e =
     (if raised_as e CDuplicatePartialError then handle_partial_duplication c task e
      else if raised_as e CAmbiguousResultError then handle_ambiguous c task p e
      else if list_ex (raised_as e) PERMANENT_EXCEPTIONS then handle_permanent c task p e
      else if list_ex (raised_as e) TEMPORARY_EXCEPTIONS then handle_temporary env c crossed task p e
      else if raised_as e CValueError then handle_value_error c crossed task p e
      else handle_unclassified c crossed task p e)"

section \<open>One task\<close>

text \<open>From the boundary on; the flag of the exception clauses is set once it was crossed.\<close>

definition dispatch_task :: "worker_env \<Rightarrow> task \<Rightarrow> meta_payload \<Rightarrow> prepared_enable_grace option \<Rightarrow> unit worker" where
  "dispatch_task env task p prepared =
     wbind (others (we_before env)) (\<lambda>_.
     wbind (wcatch (wbind (cross_external_mutation_boundary env (we_boundary env) task p) (\<lambda>ok. wreturn (Some ok)))
              (\<lambda>e. wbind (handle_failure env (we_boundary env) False task p e) (\<lambda>_. wreturn None)))
       (\<lambda>crossed.
         if crossed \<noteq> Some True then wreturn ()
         else wcatch (execute_and_finalize_mutation env task p prepared)
                (handle_failure env (we_after env) True task p)))"

definition grace_gate :: "worker_env \<Rightarrow> task \<Rightarrow> meta_payload \<Rightarrow> unit worker" where
  "grace_gate env task p =
     (case prepare_enable_grace_for_payload env (we_gate env) True p of
        Inr prepared \<Rightarrow> dispatch_task env task p prepared
      | Inl (EnableGraceUnsafeError why) \<Rightarrow>
          quietly (fail_task (we_gate env) task (''enable_grace_precondition: '' @ why) (rejected_result ''enable_grace_precondition''))
      | Inl e \<Rightarrow> (\<lambda>db. (db, [], Inl (of_error e))))"

definition freshness_gate :: "worker_env \<Rightarrow> task \<Rightarrow> meta_payload \<Rightarrow> unit worker" where
  "freshness_gate env task p db =
     wbind (queue_tx (auto_stop_gate (we_gate env) task p ((we_evidence env)\<lparr>ed_alerts := wd_alerts db\<rparr>)))
       (\<lambda>go. if go then grace_gate env task p else wreturn ()) db"

definition ownership_gate :: "worker_env \<Rightarrow> task \<Rightarrow> meta_payload \<Rightarrow> unit worker" where
  "ownership_gate env task p =
     (case check_mutation_ownership (we_catalogue env) p (we_owner_tag env) of
        Inl e \<Rightarrow> (\<lambda>db. (db, [], Inl (of_error e)))
      | Inr ownership \<Rightarrow>
          if od_allowed ownership then freshness_gate env task p
          else if od_not_found ownership \<and> \<not> is_activating_mutation p
          then quietly (queue_tx (requeue_task (we_gate env) task ''owner_scoping_not_found''))
          else quietly (fail_task (we_gate env) task ''owner_scoping_reject'' (rejected_result ''owner_scoping'')))"

definition scanning_gate :: "worker_env \<Rightarrow> task \<Rightarrow> meta_payload \<Rightarrow> unit worker" where
  "scanning_gate env task p =
     (if is_activating_mutation p \<and> we_scanning env \<noteq> Some True
      then quietly (queue_tx (requeue_task (we_gate env) task ''scanning_paused''))
      else ownership_gate env task p)"

definition reconcile_required :: "task \<Rightarrow> bool" where
  "reconcile_required task \<longleftrightarrow>
     (case t_result task of None \<Rightarrow> False | Some r \<Rightarrow> jget r ''reconcile_required'' = JBool True)"

definition process_payload :: "worker_env \<Rightarrow> task \<Rightarrow> meta_payload \<Rightarrow> unit worker" where
  "process_payload env task p =
     (if is_duplicate_recovery_task task p
      then wbind (cross_external_mutation_boundary env (we_gate env) task p) (\<lambda>ok.
             if ok then recover_duplicate_task env (we_gate env) task p else wreturn ())
      else if reconcile_required task
      then wbind (wcatch (reconcile_unknown_status_action env task p)
             (\<lambda>e. wbind (queue_tx (defer_unknown_reconciliation (we_gate env) task
                (''reconciliation lifecycle failed: '' @ ex_text e) 5)) (\<lambda>_. wreturn None)))
             (\<lambda>going_on. case going_on of None \<Rightarrow> wreturn () | Some task' \<Rightarrow> scanning_gate env task' p)
      else scanning_gate env task p)"

definition process_one_task :: "worker_env \<Rightarrow> task \<Rightarrow> unit worker" where
  "process_one_task env task =
     (case require_claimed_task task of
        Inl e \<Rightarrow> (\<lambda>db. (db, [], Inl (of_error e)))
      | Inr _ \<Rightarrow>
        (case from_dict (t_payload task) of
           Inl e \<Rightarrow>
             (case e of
                TypeError _ \<Rightarrow> (\<lambda>db. (db, [], Inl (of_error e)))
              | _ \<Rightarrow> quietly (fail_task (we_gate env) task ''invalid payload'' (rejected_result ''invalid_payload'')))
         | Inr p \<Rightarrow> process_payload env task p))"

end
