(* ===== verification/MutationProps.thy ===== *)
theory MutationProps
  imports MutationHandlers
begin

text \<open>
  What a mutation handler promises and how the worker reads it: a result of a handler never
  violates the worker's contract, and says confirmed only for what Meta acknowledged literally.
\<close>

section \<open>Parsed batches\<close>

lemma xbind_Inr [simp]: "xbind r f = Inr y \<longleftrightarrow> (\<exists>x. r = Inr x \<and> f x = Inr y)"
  by (cases r) (auto simp: xbind_def)

lemma xbind_simps [simp]: "xbind (Inr x) f = f x" "xbind (Inl e) f = Inl e"
  by (simp_all add: xbind_def)

text \<open>The sub-responses of an answer, and which of them acknowledge their mutation literally.\<close>

definition batch_items :: "json \<Rightarrow> json list option" where
  "batch_items response =
     (case response of
        JArr vs \<Rightarrow> Some vs
      | JObj ob \<Rightarrow> (case jget ob ''data'' of JArr vs \<Rightarrow> Some vs | _ \<Rightarrow> None)
      | _ \<Rightarrow> None)"

definition acknowledges :: "json \<Rightarrow> bool" where
  "acknowledges item \<longleftrightarrow>
     (case item of
        JObj ob \<Rightarrow>
          (case int_or_zero (jget ob ''code'') of None \<Rightarrow> False | Some code \<Rightarrow> 200 \<le> code \<and> code < 300) \<and>
          (case sub_body (jget ob ''body'') of JObj b \<Rightarrow> jget b ''success'' = JBool True | _ \<Rightarrow> False)
      | _ \<Rightarrow> False)"

definition acknowledged_in :: "nat \<Rightarrow> json \<Rightarrow> nat \<Rightarrow> bool" where
  "acknowledged_in n response i \<longleftrightarrow>
     (case batch_items response of
        None \<Rightarrow> False
      | Some items \<Rightarrow> length items \<le> n \<and> i < length items \<and> acknowledges (items ! i))"

lemma confirmed_iff:
  "classify_meta_mutation_evidence v = EvConfirmed \<longleftrightarrow>
     (case v of JObj ob \<Rightarrow> jget ob ''success'' = JBool True | _ \<Rightarrow> False)"
  by (simp add: classify_meta_mutation_evidence_def split: json.split)

lemma parse_item_ack:
  assumes "parse_item True i item = Inr r"
  shows "sb_index r = i \<and> (sb_success r \<longleftrightarrow> acknowledges item)"
proof (cases item)
  case (JObj ob)
  then show ?thesis
    using assms
    by (auto simp: parse_item_def acknowledges_def int_attempt_def Let_def confirmed_iff
        split: option.splits)
qed (use assms in \<open>auto simp: parse_item_def acknowledges_def failed_sub_def\<close>)

lemma parse_items_nth:
  assumes "parse_items b k items = Inr rs"
  shows "length rs = length items \<and> (\<forall>i < length items. parse_item b (k + i) (items ! i) = Inr (rs ! i))"
  using assms
proof (induction items arbitrary: k rs)
  case (Cons item items)
  then obtain r rs' where r: "parse_item b k item = Inr r" "parse_items b (Suc k) items = Inr rs'" "rs = r # rs'"
    by auto
  have "parse_item b (k + i) ((item # items) ! i) = Inr (rs ! i)" if "i < length (item # items)" for i
    using Cons.IH [OF r(2)] r that by (cases i) auto
  then show ?case
    using Cons.IH [OF r(2)] r(3) by simp
qed simp

lemma parse_batch_response_nth:
  assumes "parse_batch_response True (Some n) response = Inr parsed" "0 < n"
  shows "length parsed = n"
    and "i < n \<Longrightarrow> sb_index (parsed ! i) = i \<and> (sb_success (parsed ! i) \<longleftrightarrow> acknowledged_in n response i)"
proof -
  have *: "length parsed = n \<and>
      (\<forall>i < n. sb_index (parsed ! i) = i \<and> (sb_success (parsed ! i) \<longleftrightarrow> acknowledged_in n response i))"
  proof (cases "batch_items response")
    case None
    then have "parsed = map (failed_sub ''unexpected_batch_response_shape'') [0..<n]"
      using assms by (auto simp: parse_batch_response_def batch_items_def split: json.splits)
    then show ?thesis
      using None by (simp add: acknowledged_in_def failed_sub_def)
  next
    case (Some items)
    then have p: "parse_batch_response True (Some n) response =
        (if length items > n then Inr (map (failed_sub ''unexpected_batch_response_count'') [0..<n])
         else xbind (parse_items True 0 items) (\<lambda>results.
           Inr (results @ map (failed_sub ''missing_response'') [length results..<n])))"
      by (auto simp: parse_batch_response_def batch_items_def split: json.splits)
    show ?thesis
    proof (cases "length items > n")
      case True
      then show ?thesis
        using assms p Some by (auto simp: acknowledged_in_def failed_sub_def)
    next
      case False
      then obtain rs where rs: "parse_items True 0 items = Inr rs"
        "parsed = rs @ map (failed_sub ''missing_response'') [length rs..<n]"
        using assms p by auto
      have len: "length rs = length items"
        using parse_items_nth [OF rs(1)] by simp
      have "sb_index (parsed ! i) = i \<and> (sb_success (parsed ! i) \<longleftrightarrow> acknowledged_in n response i)"
        if "i < n" for i
      proof (cases "i < length items")
        case True
        then have "parse_item True i (items ! i) = Inr (rs ! i)"
          using parse_items_nth [OF rs(1)] by simp
        then show ?thesis
          using parse_item_ack True False Some len rs(2)
          by (simp add: acknowledged_in_def nth_append)
      next
        case out: False
        then show ?thesis
          using that Some len rs(2)
          by (simp add: acknowledged_in_def nth_append failed_sub_def)
      qed
      then show ?thesis
        using rs(2) len False by simp
    qed
  qed
  show "length parsed = n"
    using * by simp
  show "i < n \<Longrightarrow> sb_index (parsed ! i) = i \<and> (sb_success (parsed ! i) \<longleftrightarrow> acknowledged_in n response i)"
    using * by simp
qed

section \<open>The identifiers of a batch\<close>

lemma set_dedup: "set (dedup seen xs) = set xs - set seen"
  by (induction xs arbitrary: seen) auto

lemma distinct_dedup: "distinct (dedup seen xs)"
  by (induction xs arbitrary: seen) (auto simp: set_dedup)

lemma emap_Inr: "emap f xs = Inr ys \<Longrightarrow> y \<in> set ys \<Longrightarrow> \<exists>x \<in> set xs. f x = Inr y"
  by (induction xs arbitrary: ys) (auto simp: err_simps)

lemma emap_length: "emap f xs = Inr ys \<Longrightarrow> length ys = length xs"
  by (induction xs arbitrary: ys) (auto simp: err_simps)

lemma numeric_id: "require_numeric_id v = Inr s \<longleftrightarrow> v = JStr s \<and> s \<noteq> [] \<and> list_all is_digit s"
  by (auto simp: require_numeric_id_def split: json.splits)

lemma numeral_not_space: "is_digit c \<Longrightarrow> \<not> py_space c"
  by (auto simp: is_digit_def py_space_def Let_def)

lemma strip_digits: "list_all is_digit s \<Longrightarrow> py_strip s = s"
proof -
  assume a: "list_all is_digit s"
  have "dropWhile py_space t = t" if "list_all is_digit t" for t
    using that by (cases t) (auto dest: numeral_not_space)
  moreover have "list_all is_digit (rev s)"
    using a by (simp add: list_all_iff)
  ultimately show ?thesis
    using a by (simp add: py_strip_def)
qed

lemma extract_params_ids:
  assumes "extract_params params = Inr (ids, status)"
  shows "distinct ids" "ids \<noteq> []" "\<And>i. i \<in> set ids \<Longrightarrow> nonblank_str (JStr i)"
    "status \<in> {''PAUSED'', ''ACTIVE''}"
proof -
  from assms obtain v vs st object_ids where e: "jget params ''ad_ids'' = JArr (v # vs)"
    "map_of ACTION_TO_STATUS (bulk_action params) = Some st"
    "emap (\<lambda>raw. require_numeric_id (JStr (py_strip (py_str raw)))) (v # vs) = Inr object_ids"
    "ids = dedup [] object_ids" "status = st"
    by (auto simp: extract_params_def ebind_eq_Inr split: json.splits list.splits option.splits if_splits)
  show "distinct ids"
    by (simp add: e(4) distinct_dedup)
  have "object_ids \<noteq> []"
    using emap_length [OF e(3)] by auto
  then show "ids \<noteq> []"
    using e(4) set_dedup [of "[]" object_ids] by auto
  show "nonblank_str (JStr i)" if "i \<in> set ids" for i
  proof -
    have "i \<in> set object_ids"
      using that e(4) by (simp add: set_dedup)
    then have "i \<noteq> [] \<and> list_all is_digit i"
      using emap_Inr [OF e(3)] by (auto simp: numeric_id)
    then show ?thesis
      by (simp add: nonblank_str_def strip_digits)
  qed
  show "status \<in> {''PAUSED'', ''ACTIVE''}"
    using e(2,5) by (auto simp: ACTION_TO_STATUS_def split: if_splits)
qed

text \<open>Building the batch never fails for the identifiers of a command.\<close>

lemma digits_url:
  assumes "s \<noteq> []" "list_all is_digit s" "u \<in> {''?status=PAUSED'', ''?status=ACTIVE'', ''?fields=status,effective_status''}"
  shows "validate_relative_url (s @ u) = Inr ()"
proof -
  obtain c cs where s: "s = c # cs"
    using assms(1) by (cases s) auto
  then have "is_digit c"
    using assms(2) by simp
  then have "c \<noteq> CHR ''h''" "c \<noteq> CHR ''/''"
    by (auto simp: is_digit_def Let_def)
  moreover have none: "ch \<notin> set ''{}$''" if "ch \<in> set (s @ u)" for ch
  proof -
    have digit: "x \<notin> set ''{}$''" if "is_digit x" for x
      using that by (auto simp: is_digit_def Let_def)
    have "list_all (\<lambda>x. x \<notin> set ''{}$'') u"
      using assms(3) by (elim insertE emptyE) (hypsubst, code_simp)+
    moreover have "list_all (\<lambda>x. x \<notin> set ''{}$'') s"
      using assms(2) digit by (simp only: list_all_iff) blast
    ultimately show ?thesis
      using that by (simp only: list_all_iff set_append Un_iff) blast
  qed
  moreover have "\<not> list_ex (\<lambda>ch. ch \<in> set ''{}$'') (s @ u)"
    unfolding list_ex_iff using none by blast
  ultimately show ?thesis
    by (simp only: validate_relative_url_def if_False)
      (simp add: starts_with_def s)
qed

lemma emap_total: "(\<And>x. x \<in> set xs \<Longrightarrow> \<exists>y. f x = Inr y) \<Longrightarrow> \<exists>ys. emap f xs = Inr ys"
proof (induction xs)
  case (Cons x xs)
  obtain y where "f x = Inr y"
    using Cons.prems by (metis list.set_intros(1))
  moreover obtain ys where "emap f xs = Inr ys"
    using Cons.IH Cons.prems by (metis list.set_intros(2))
  ultimately show ?case
    by simp
qed simp

lemma batch_builds:
  assumes "ids \<noteq> []" "length ids \<le> MAX_BATCH_ENTRIES" "\<And>i. i \<in> set ids \<Longrightarrow> i \<noteq> [] \<and> list_all is_digit i"
    and "verb \<in> {''GET'', ''POST''}"
    and "u \<in> {''?status=PAUSED'', ''?status=ACTIVE'', ''?fields=status,effective_status''}"
  shows "\<exists>batch. ebind (emap (\<lambda>i. make_batch_entry verb (i @ u)) ids) build_batch_payload = Inr batch"
proof -
  have "\<exists>y. make_batch_entry verb (i @ u) = Inr y" if "i \<in> set ids" for i
    using digits_url [OF _ _ assms(5), of i] assms(3) [OF that] assms(4)
    by (auto simp: make_batch_entry_def py_upper_def upper_char_def)
  then obtain entries where e: "emap (\<lambda>i. make_batch_entry verb (i @ u)) ids = Inr entries"
    using emap_total by metis
  moreover have "length entries = length ids"
    by (rule emap_length [OF e])
  ultimately show ?thesis
    using assms(1,2) by (auto simp: build_batch_payload_def)
qed

lemma dedup_length: "length (dedup seen xs) \<le> length xs"
  by (induction xs arbitrary: seen) (auto intro: le_SucI)

lemma extract_params_numeric:
  assumes "extract_params params = Inr (ids, status)"
  shows "length ids \<le> MAX_BATCH_ENTRIES" "\<And>i. i \<in> set ids \<Longrightarrow> i \<noteq> [] \<and> list_all is_digit i"
proof -
  from assms obtain xs object_ids where e:
    "emap (\<lambda>raw. require_numeric_id (JStr (py_strip (py_str raw)))) xs = Inr object_ids"
    "ids = dedup [] object_ids" "length object_ids \<le> MAX_BATCH_ENTRIES"
    by (auto simp: extract_params_def ebind_eq_Inr not_less simp del: emap.simps dedup.simps
        split: json.splits list.splits option.splits if_splits)
  show "length ids \<le> MAX_BATCH_ENTRIES"
    using e(2,3) dedup_length [of "[]" object_ids] by simp
  show "i \<noteq> [] \<and> list_all is_digit i" if "i \<in> set ids" for i
    using that e(2) emap_Inr [OF e(1), of i] by (auto simp: set_dedup numeric_id)
qed

text \<open>A command with valid parameters is sent, as one request.\<close>

lemma bulk_execute_sends:
  assumes "extract_params (mp_params p) = Inr (ids, status)"
  obtains batch where
    "ebind (emap (\<lambda>oid. make_batch_entry ''POST'' (oid @ ''?status='' @ status)) ids) build_batch_payload = Inr batch"
    "bulk_status_change_execute client p =
       ([batch_call p batch], xbind (client (batch_call p batch)) (\<lambda>response.
          xbind (parse_batch_response True (Some (length ids)) response) (bulk_result ids status response)))"
proof -
  have "''?status='' @ status \<in> {''?status=PAUSED'', ''?status=ACTIVE'', ''?fields=status,effective_status''}"
    using extract_params_ids(4) [OF assms] by auto
  then obtain batch where "ebind (emap (\<lambda>oid. make_batch_entry ''POST'' (oid @ ''?status='' @ status)) ids)
      build_batch_payload = Inr batch"
    using batch_builds [OF extract_params_ids(2) [OF assms] extract_params_numeric [OF assms], of "''POST''"] by auto
  then show thesis
    using that assms by (simp add: bulk_status_change_execute_def Let_def)
qed

section \<open>The contract\<close>

lemma assess_subs_batch:
  assumes "distinct (map (\<lambda>r. ids ! sb_index r) rs)"
    and "\<And>r. r \<in> set rs \<Longrightarrow> sb_index r < length ids \<and> nonblank_str (JStr (ids ! sb_index r))"
    and "\<And>r. r \<in> set rs \<Longrightarrow> JStr (ids ! sb_index r) \<notin> set seen"
  shows "assess_subs seen (map (\<lambda>r. JObj (sub_json ids r)) rs) =
     Inr (map (\<lambda>r. JStr (ids ! sb_index r)) (filter sb_success rs))"
  using assms
proof (induction rs arbitrary: seen)
  case (Cons r rs)
  have fresh: "ids ! sb_index r' \<noteq> ids ! sb_index r" if "r' \<in> set rs" for r'
    using Cons.prems(1) imageI [OF that, of "\<lambda>r. ids ! sb_index r"] by auto
  have "assess_subs (JStr (ids ! sb_index r) # seen) (map (\<lambda>r. JObj (sub_json ids r)) rs) =
      Inr (map (\<lambda>r. JStr (ids ! sb_index r)) (filter sb_success rs))"
    using Cons.prems fresh by (intro Cons.IH) auto
  moreover have "jget (sub_json ids r) ''id'' = JStr (ids ! sb_index r)"
    "jget (sub_json ids r) ''success'' = JBool (sb_success r)"
    using Cons.prems(2) by (simp_all add: sub_json_def)
  ultimately show ?case
    using Cons.prems(2,3) by (simp add: Let_def)
qed simp

definition bulk_answer :: "string list \<Rightarrow> string \<Rightarrow> json \<Rightarrow> sub_result list \<Rightarrow> jobj" where
  "bulk_answer ids status response parsed = success_result response
     (map (\<lambda>r. ids ! sb_index r) (filter sb_success parsed))
     [(''status_applied'', JStr status), (''batch_size'', JNum (int (length ids))),
      (''succeeded'', JNum (int (length (filter sb_success parsed)))),
      (''failed'', JNum (int (length (filter (\<lambda>r. \<not> sb_success r) parsed)))),
      (''sub_results'', JArr (map JObj (map (sub_json ids) parsed)))]"

lemma bulk_result_Inr:
  "bulk_result ids status response parsed = Inr ob \<Longrightarrow> ob = bulk_answer ids status response parsed"
  by (auto simp: bulk_result_def bulk_answer_def Let_def split: if_splits)

lemma assess_bulk_answer:
  assumes "mp_mutation_kind p = ''bulk_status_change''" "parsed \<noteq> []"
    and ids: "distinct (map (\<lambda>r. ids ! sb_index r) parsed)"
      "\<And>r. r \<in> set parsed \<Longrightarrow> sb_index r < length ids \<and> nonblank_str (JStr (ids ! sb_index r))"
  shows "assess_mutation_result p (JObj (bulk_answer ids status response parsed)) =
     (if list_all sb_success parsed then (AConfirmed, ''handler_confirmed'')
      else if list_ex sb_success parsed then (APartial, ''bulk_partially_applied'')
      else (ARejected, ''bulk_all_rejected''))"
proof -
  let ?ob = "bulk_answer ids status response parsed"
  let ?ok = "filter sb_success parsed" and ?bad = "filter (\<lambda>r. \<not> sb_success r) parsed"
  let ?modified = "map (\<lambda>r. JStr (ids ! sb_index r)) ?ok"
  have get: "jget ?ob ''success'' = JBool True" "map_of ?ob ''modified_ids'' = Some (JArr ?modified)"
    "jget ?ob ''succeeded'' = JNum (int (length ?ok))" "jget ?ob ''failed'' = JNum (int (length ?bad))"
    "jget ?ob ''sub_results'' = JArr (map (\<lambda>r. JObj (sub_json ids r)) parsed)"
    by (simp_all add: bulk_answer_def success_result_def jmerge_def jget_def comp_def)
  have subs: "assess_subs [] (map (\<lambda>r. JObj (sub_json ids r)) parsed) = Inr ?modified"
    using ids by (intro assess_subs_batch) auto
  have count: "length ?ok + length ?bad = length parsed"
    using sum_length_filter_compl by blast
  have "distinct (map JStr (map (\<lambda>r. ids ! sb_index r) ?ok))"
    using distinct_map_filter [OF ids(1)] by (simp add: distinct_map inj_on_def)
  then have modified: "distinct ?modified" "list_all nonblank_str ?modified"
    using ids(2) by (simp_all add: comp_def list_all_iff)
  have bulk: "assess_mutation_result p (JObj ?ob) = assess_bulk True ?modified ?ob"
    using assms(1) get(1,2) modified by (simp add: assess_mutation_result_def)
  have all: "list_all sb_success parsed \<longleftrightarrow> ?bad = []"
    by (auto simp: list_all_iff filter_empty_conv)
  have none: "list_ex sb_success parsed \<longleftrightarrow> ?ok \<noteq> []"
    by (auto simp: list_ex_iff filter_empty_conv)
  have nonempty: "?ok \<noteq> [] \<or> ?bad \<noteq> []"
    using count assms(2) by auto
  show ?thesis
    unfolding bulk
    using subs count nonempty
    by (simp add: assess_bulk_def get is_nonnegative_int_def json_int_def all none del: assess_subs.simps)
qed

lemma bulk_outcome:
  assumes "mp_mutation_kind p = ''bulk_status_change''"
    and "bulk_status_change_execute client p = (sent, Inr result)"
  obtains ids status call response acked where
    "extract_params (mp_params p) = Inr (ids, status)" "sent = [call]" "client call = Inr response"
    "acked = filter (\<lambda>i. acknowledged_in (length ids) response i) [0..<length ids]"
    "jget result ''modified_ids'' = JArr (map (\<lambda>i. JStr (ids ! i)) acked)"
    "assess_mutation_result p (JObj result) =
       (if acked = [0..<length ids] then (AConfirmed, ''handler_confirmed'')
        else if acked = [] then (ARejected, ''bulk_all_rejected'')
        else (APartial, ''bulk_partially_applied''))"
proof -
  obtain ids status where ids: "extract_params (mp_params p) = Inr (ids, status)"
    using assms(2) by (auto simp: bulk_status_change_execute_def split: sum.splits)
  obtain call response parsed where c: "sent = [call]" "client call = Inr response"
    "parse_batch_response True (Some (length ids)) response = Inr parsed"
    "bulk_result ids status response parsed = Inr result"
    using assms(2) ids by (auto simp: bulk_status_change_execute_def Let_def split: sum.splits)
  have n: "0 < length ids"
    using extract_params_ids(2) [OF ids] by simp
  note nth = parse_batch_response_nth [OF c(3) n]
  let ?acked = "filter (\<lambda>i. acknowledged_in (length ids) response i) [0..<length ids]"
  have parsed: "parsed = map (\<lambda>i. parsed ! i) [0..<length ids]"
    using nth(1) by (simp add: map_nth flip: nth(1))
  have index: "sb_index r < length ids" "r = parsed ! sb_index r" if "r \<in> set parsed" for r
    using that nth by (auto simp: in_set_conv_nth)
  have "map (\<lambda>r. ids ! sb_index r) parsed = ids"
    using nth by (intro nth_equalityI) auto
  then have dist: "distinct (map (\<lambda>r. ids ! sb_index r) parsed)"
    using extract_params_ids(1) [OF ids] by simp
  have names: "sb_index r < length ids \<and> nonblank_str (JStr (ids ! sb_index r))" if "r \<in> set parsed" for r
    using index(1) [OF that] extract_params_ids(3) [OF ids] by simp
  have ok: "filter sb_success parsed = map (\<lambda>i. parsed ! i) ?acked"
  proof -
    have "filter sb_success (map (\<lambda>i. parsed ! i) [0..<length ids]) =
        map (\<lambda>i. parsed ! i) (filter (\<lambda>i. sb_success (parsed ! i)) [0..<length ids])"
      by (simp add: filter_map comp_def)
    also have "filter (\<lambda>i. sb_success (parsed ! i)) [0..<length ids] = ?acked"
      using nth(2) by (intro filter_cong) auto
    finally show ?thesis
      using parsed by simp
  qed
  have "map (\<lambda>r. JStr (ids ! sb_index r)) (filter sb_success parsed) = map (\<lambda>i. JStr (ids ! i)) ?acked"
    unfolding ok using nth(2) by (auto simp: comp_def)
  then have modified: "jget result ''modified_ids'' = JArr (map (\<lambda>i. JStr (ids ! i)) ?acked)"
    using bulk_result_Inr [OF c(4)]
    by (simp add: bulk_answer_def success_result_def jmerge_def jget_def comp_def)
  have all: "list_all sb_success parsed \<longleftrightarrow> ?acked = [0..<length ids]"
    using nth by (auto simp: list_all_length filter_id_conv)
  have some: "list_ex sb_success parsed \<longleftrightarrow> ?acked \<noteq> []"
    using nth by (auto simp: list_ex_length filter_empty_conv)
  have "parsed \<noteq> []"
    using nth(1) n by auto
  then have "assess_mutation_result p (JObj result) =
      (if ?acked = [0..<length ids] then (AConfirmed, ''handler_confirmed'')
       else if ?acked = [] then (ARejected, ''bulk_all_rejected'')
       else (APartial, ''bulk_partially_applied''))"
    unfolding bulk_result_Inr [OF c(4)]
    by (subst assess_bulk_answer [OF assms(1) _ dist names]) (simp_all only: all some, simp_all)
  then show thesis
    using that [OF ids c(1,2) refl modified] by simp
qed

text \<open>
  C14. The handler of a batch keeps its contract with the worker: a result it returns is never read as a
  contract violation; it names as modified exactly the advertisements whose own sub-response has
  a 2xx code and the literal \<open>success: true\<close>, and the worker reads it as confirmed when that is every
  advertisement of the command, as rejected when it is none and as partial otherwise.
\<close>

theorem bulk_handler_meets_contract:
  assumes "mp_mutation_kind p = ''bulk_status_change''"
    and "bulk_status_change_execute client p = (sent, Inr result)"
  shows "\<exists>ids status call response.
     extract_params (mp_params p) = Inr (ids, status) \<and> sent = [call] \<and> client call = Inr response \<and>
     (let acked = filter (\<lambda>i. acknowledged_in (length ids) response i) [0..<length ids]
      in jget result ''modified_ids'' = JArr (map (\<lambda>i. JStr (ids ! i)) acked) \<and>
         assess_mutation_result p (JObj result) =
           (if acked = [0..<length ids] then (AConfirmed, ''handler_confirmed'')
            else if acked = [] then (ARejected, ''bulk_all_rejected'')
            else (APartial, ''bulk_partially_applied'')))"
proof -
  obtain ids status call response acked where
    "extract_params (mp_params p) = Inr (ids, status)" "sent = [call]" "client call = Inr response"
    "acked = filter (\<lambda>i. acknowledged_in (length ids) response i) [0..<length ids]"
    "jget result ''modified_ids'' = JArr (map (\<lambda>i. JStr (ids ! i)) acked)"
    "assess_mutation_result p (JObj result) =
       (if acked = [0..<length ids] then (AConfirmed, ''handler_confirmed'')
        else if acked = [] then (ARejected, ''bulk_all_rejected'')
        else (APartial, ''bulk_partially_applied''))"
    by (rule bulk_outcome [OF assms])
  then show ?thesis
    unfolding Let_def by blast
qed

section \<open>Single advertisements\<close>

lemma require_ack_Inr:
  "require_meta_success_ack r = Inr r' \<longleftrightarrow> r' = r \<and> classify_meta_mutation_evidence r = EvConfirmed"
  by (cases "classify_meta_mutation_evidence r") (auto simp: require_meta_success_ack_def)

lemma status_handler_contract:
  assumes "execute_status status client p = (sent, Inr result)" "mp_mutation_kind p \<in> {''pause_ad'', ''activate_ad''}"
  shows "sent = [status_call p (mp_target_id p) status]"
    and "\<exists>ob. client (status_call p (mp_target_id p) status) = Inr (JObj ob) \<and> jget ob ''success'' = JBool True"
    and "assess_mutation_result p (JObj result) = (AConfirmed, ''handler_confirmed'')"
proof -
  let ?call = "status_call p (mp_target_id p) status"
  obtain response where r: "require_numeric_id (JStr (mp_target_id p)) = Inr (mp_target_id p)" "sent = [?call]"
    "client ?call = Inr response" "classify_meta_mutation_evidence response = EvConfirmed"
    "result = success_result response [mp_target_id p] []"
    using assms(1)
    by (auto simp: execute_status_def numeric_id Let_def require_ack_Inr split: sum.splits)
  show "sent = [?call]"
    by (fact r(2))
  show "\<exists>ob. client ?call = Inr (JObj ob) \<and> jget ob ''success'' = JBool True"
    using r(3,4) by (auto simp: confirmed_iff split: json.splits)
  have "nonblank_str (JStr (mp_target_id p))"
    using r(1) by (simp add: numeric_id nonblank_str_def strip_digits)
  then show "assess_mutation_result p (JObj result) = (AConfirmed, ''handler_confirmed'')"
    using assms(2) r(5) by (auto simp: assess_mutation_result_def success_result_def jmerge_def)
qed

section \<open>Concrete batches\<close>

definition sample_bulk :: meta_payload where
  "sample_bulk =
     \<lparr>mp_mutation_kind = ''bulk_status_change'', mp_target_id = ''bulk:2'', mp_ad_account_id = ''act_7'',
      mp_params = [(''ad_ids'', JArr [JStr ''11'', JNum 12]), (''action'', JStr ''pause'')],
      mp_currency = None, mp_cabinet_timezone = None, mp_account_context_observed_at = None,
      mp_account_context_issues = []\<rparr>"

definition answering :: "json list \<Rightarrow> client" where
  "answering items call = Inr (JArr items)"

definition acked_item :: json where
  "acked_item = JObj [(''code'', JNum 200), (''body'', JObj [(''success'', JBool True)])]"

definition refused_item :: json where
  "refused_item = JObj [(''code'', JNum 400), (''body'', JObj [(''error'', JObj [(''code'', JNum 100)])])]"

lemma sample_ids: "extract_params (mp_params sample_bulk) = Inr ([''11'', ''12''], ''PAUSED'')"
  by code_simp

text \<open>The result of the sample command for an answer that is neither ambiguous nor only transient.\<close>

lemma sample_run:
  assumes "xbind (parse_batch_response True (Some (length [''11'', ''12''])) (JArr items))
      (bulk_result [''11'', ''12''] ''PAUSED'' (JArr items)) = Inr result"
  shows "bulk_status_change_execute (answering items) sample_bulk =
     (fst (bulk_status_change_execute (answering items) sample_bulk), Inr result)"
  by (rule bulk_execute_sends [OF sample_ids, of "answering items"])
    (simp only: answering_def xbind_simps assms fst_conv)

definition sample_result :: "json list \<Rightarrow> jobj" where
  "sample_result items = bulk_answer [''11'', ''12''] ''PAUSED'' (JArr items)
     (projr (parse_batch_response True (Some 2) (JArr items)))"

theorem bulk_handler_meets_contract_witness:
  "assess_mutation_result sample_bulk (JObj (sample_result [acked_item, JNull])) =
     (APartial, ''bulk_partially_applied'')"
proof -
  have "xbind (parse_batch_response True (Some (length [''11'', ''12''])) (JArr [acked_item, JNull]))
      (bulk_result [''11'', ''12''] ''PAUSED'' (JArr [acked_item, JNull])) = Inr (sample_result [acked_item, JNull])"
    by code_simp
  note run = sample_run [OF this]
  have acked: "filter (\<lambda>i. acknowledged_in 2 (JArr [acked_item, JNull]) i) [0..<2] = [0]"
    by code_simp
  have "mp_mutation_kind sample_bulk = ''bulk_status_change''"
    by (simp add: sample_bulk_def)
  from bulk_handler_meets_contract [OF this run] obtain ids status call response where
    c: "extract_params (mp_params sample_bulk) = Inr (ids, status)"
      "answering [acked_item, JNull] call = Inr response"
      "let acked = filter (\<lambda>i. acknowledged_in (length ids) response i) [0..<length ids]
       in jget (sample_result [acked_item, JNull]) ''modified_ids'' = JArr (map (\<lambda>i. JStr (ids ! i)) acked) \<and>
          assess_mutation_result sample_bulk (JObj (sample_result [acked_item, JNull])) =
            (if acked = [0..<length ids] then (AConfirmed, ''handler_confirmed'')
             else if acked = [] then (ARejected, ''bulk_all_rejected'')
             else (APartial, ''bulk_partially_applied''))"
    by blast
  have "length ids = 2" "response = JArr [acked_item, JNull]"
    using c(1,2) by (auto simp: sample_ids answering_def)
  moreover have "[0::nat] \<noteq> [0..<2]"
    by code_simp
  ultimately show ?thesis
    using c(3) acked by (simp only: Let_def if_False list.distinct not_True_eq_False simp_thms)
qed

text \<open>
  An answer that was lost is read as a rejection when another advertisement of the batch was refused
  for good: \<open>null\<close> for the first advertisement says nothing about it, yet the whole command is
  \<open>bulk_all_rejected\<close>.
\<close>

lemma lost_answer_reads_as_rejected:
  "bulk_status_change_execute (answering [JNull, refused_item]) sample_bulk =
     (fst (bulk_status_change_execute (answering [JNull, refused_item]) sample_bulk),
      Inr (sample_result [JNull, refused_item]))"
  "assess_mutation_result sample_bulk (JObj (sample_result [JNull, refused_item])) =
     (ARejected, ''bulk_all_rejected'')"
proof -
  have "xbind (parse_batch_response True (Some (length [''11'', ''12''])) (JArr [JNull, refused_item]))
      (bulk_result [''11'', ''12''] ''PAUSED'' (JArr [JNull, refused_item])) = Inr (sample_result [JNull, refused_item])"
    by code_simp
  then show "bulk_status_change_execute (answering [JNull, refused_item]) sample_bulk =
     (fst (bulk_status_change_execute (answering [JNull, refused_item]) sample_bulk),
      Inr (sample_result [JNull, refused_item]))"
    by (rule sample_run)
  show "assess_mutation_result sample_bulk (JObj (sample_result [JNull, refused_item])) =
     (ARejected, ''bulk_all_rejected'')"
    by code_simp
qed

end
