(* ===== verification/WorkerRows.thy ===== *)
theory WorkerRows
  imports MetaWorker MutationProps MetaCommandProps
begin

text \<open>
  The calculus of worker steps: which parts of the worker send nothing that writes, what the
  boundary leaves in the task row, and through which gates a request has passed.
\<close>

section \<open>Steps\<close>

lemma wbind_eq:
  "wbind m f db = (db2, tr, r) \<longleftrightarrow>
     (\<exists>db1 tr1. (\<exists>e. m db = (db1, tr1, Inl e) \<and> db2 = db1 \<and> tr = tr1 \<and> r = Inl e) \<or>
        (\<exists>x tr2. m db = (db1, tr1, Inr x) \<and> f x db1 = (db2, tr2, r) \<and> tr = tr1 @ tr2))"
  by (auto simp: wbind_def split: prod.splits sum.splits)

lemma wcatch_eq:
  "wcatch m h db = (db2, tr, r) \<longleftrightarrow>
     (\<exists>db1 tr1. (\<exists>x. m db = (db1, tr1, Inr x) \<and> db2 = db1 \<and> tr = tr1 \<and> r = Inr x) \<or>
        (\<exists>e tr2. m db = (db1, tr1, Inl e) \<and> h e db1 = (db2, tr2, r) \<and> tr = tr1 @ tr2))"
  by (auto simp: wcatch_def split: prod.splits sum.splits)

lemma wreturn_eq [simp]: "wreturn x db = (db', tr, r) \<longleftrightarrow> db' = db \<and> tr = [] \<and> r = Inr x"
  by (auto simp: wreturn_def)

lemma others_eq [simp]: "others g db = (db', tr, r) \<longleftrightarrow> db' = g db \<and> tr = [] \<and> r = Inr ()"
  by (auto simp: others_def)

lemma transact_eq:
  "transact f db = (db', tr, r) \<longleftrightarrow>
     tr = [] \<and> ((\<exists>e. f db = Inl e \<and> db' = db \<and> r = Inl (of_error e)) \<or> (\<exists>x. f db = Inr (db', x) \<and> r = Inr x))"
  by (auto simp: transact_def split: sum.splits)

lemma queue_tx_eq:
  "queue_tx f db = (db', tr, r) \<longleftrightarrow>
     tr = [] \<and> ((\<exists>e. f (cq (wd_cmd db)) = Inl e \<and> db' = db \<and> r = Inl (of_error e)) \<or>
       (\<exists>q x. f (cq (wd_cmd db)) = Inr (q, x) \<and> db' = db\<lparr>wd_cmd := (wd_cmd db)\<lparr>cq := q\<rparr>\<rparr> \<and> r = Inr x))"
  by (auto simp: queue_tx_def transact_eq on_queue_def err_simps)

lemma meta_tx_eq:
  "meta_tx f db = (db', tr, r) \<longleftrightarrow>
     tr = [] \<and> ((\<exists>e. f \<lparr>mq = cq (wd_cmd db), alerts = wd_alerts db\<rparr> = Inl e \<and> db' = db \<and> r = Inl (of_error e)) \<or>
       (\<exists>m x. f \<lparr>mq = cq (wd_cmd db), alerts = wd_alerts db\<rparr> = Inr (m, x) \<and>
          db' = \<lparr>wd_cmd = (wd_cmd db)\<lparr>cq := mq m\<rparr>, wd_alerts = alerts m\<rparr> \<and> r = Inr x))"
  by (auto simp: meta_tx_def transact_eq err_simps)

section \<open>What is sent\<close>

text \<open>A request that writes: a POST that is not a batch of reads.\<close>

definition READ_BATCH_PREFIX :: string where
  "READ_BATCH_PREFIX = ''[{'' @ json_string ''method'' @ '': '' @ json_string ''GET''"

definition writes :: "graph_call \<Rightarrow> bool" where
  "writes call \<longleftrightarrow>
     gc_method call = ''POST'' \<and>
     (case gc_query_params call of
        [(k, v)] \<Rightarrow> \<not> (k = ''batch'' \<and> starts_with READ_BATCH_PREFIX v)
      | _ \<Rightarrow> True)"

definition quiet :: "'a worker \<Rightarrow> bool" where
  "quiet m \<longleftrightarrow> (\<forall>db db' tr r. m db = (db', tr, r) \<longrightarrow> (\<forall>a call. (a, call) \<in> set tr \<longrightarrow> \<not> writes call))"

named_theorems quiet_intros \<open>worker steps that send nothing that writes\<close>

lemma quietI: "(\<And>db db' tr r a call. m db = (db', tr, r) \<Longrightarrow> (a, call) \<in> set tr \<Longrightarrow> \<not> writes call) \<Longrightarrow> quiet m"
  unfolding quiet_def by blast

lemma quietD: "quiet m \<Longrightarrow> m db = (db', tr, r) \<Longrightarrow> (a, call) \<in> set tr \<Longrightarrow> \<not> writes call"
  unfolding quiet_def by blast

lemma quiet_wreturn [quiet_intros]: "quiet (wreturn x)"
  by (rule quietI) simp

lemma quiet_const [quiet_intros]: "quiet (\<lambda>db. (db, [], r))"
  by (rule quietI) auto

lemma quiet_others [quiet_intros]: "quiet (others g)"
  by (rule quietI) simp

lemma quiet_transact [quiet_intros]: "quiet (transact f)"
  by (rule quietI) (auto simp: transact_eq)

lemma quiet_wbind [quiet_intros]:
  assumes "quiet m" "\<And>x. quiet (f x)"
  shows "quiet (wbind m f)"
  by (rule quietI) (auto simp: wbind_eq dest: quietD [OF assms(1)] quietD [OF assms(2)])

lemma quiet_wcatch [quiet_intros]:
  assumes "quiet m" "\<And>e. quiet (h e)"
  shows "quiet (wcatch m h)"
  by (rule quietI) (auto simp: wcatch_eq dest: quietD [OF assms(1)] quietD [OF assms(2)])

lemma quiet_send [quiet_intros]:
  "(\<And>call. call \<in> set (fst s) \<Longrightarrow> \<not> writes call) \<Longrightarrow> quiet (send s)"
  by (rule quietI) (auto simp: send_def)

lemma quiet_queue_tx [quiet_intros]: "quiet (queue_tx f)"
  by (simp add: queue_tx_def quiet_intros)

lemma quiet_meta_tx [quiet_intros]: "quiet (meta_tx f)"
  by (simp add: meta_tx_def quiet_intros)

lemma quiet_quietly [quiet_intros]: "quiet m \<Longrightarrow> quiet (quietly m)"
  by (simp add: quietly_def quiet_intros)

lemma quiet_fail_task [quiet_intros]: "quiet (fail_task c task err res)"
  by (simp add: fail_task_def quiet_intros)

lemma quiet_requeue_unknown [quiet_intros]: "quiet (requeue_unknown c task err)"
  by (simp add: requeue_unknown_def quiet_intros)

lemma quiet_release [quiet_intros]: "quiet (release_readiness env c task p err)"
  by (simp add: release_readiness_def quiet_intros)

lemma quiet_alert [quiet_intros]: "quiet (alert_autostop env c task e)"
  by (rule quietI) (auto simp: alert_autostop_def split: sum.splits if_splits prod.splits)

lemma quiet_fail_irreversible [quiet_intros]: "quiet (fail_irreversible c task p reason)"
  by (simp add: fail_irreversible_def quiet_intros)

lemma quiet_if [quiet_intros]: "(b \<Longrightarrow> quiet m) \<Longrightarrow> (\<not> b \<Longrightarrow> quiet n) \<Longrightarrow> quiet (if b then m else n)"
  by simp

lemma quiet_option [quiet_intros]:
  "(v = None \<Longrightarrow> quiet m) \<Longrightarrow> (\<And>x. v = Some x \<Longrightarrow> quiet (n x)) \<Longrightarrow> quiet (case v of None \<Rightarrow> m | Some x \<Rightarrow> n x)"
  by (cases v) auto

lemma quiet_handle_failure [quiet_intros]: "quiet (handle_failure env c crossed task p e)"
  unfolding handle_failure_def handle_partial_duplication_def handle_ambiguous_def handle_permanent_def
    handle_temporary_def handle_value_error_def handle_unclassified_def Let_def
  by (intro quiet_intros)

lemma quiet_finalize [quiet_intros]: "quiet (finalize_mutation c task p prepared result)"
  unfolding finalize_mutation_def
  by (cases "assess_mutation_result p (JObj result)"; cases "fst (assess_mutation_result p (JObj result))")
    (auto intro: quiet_intros)

section \<open>Reads\<close>

lemma read_status_is_no_write [simp]: "\<not> writes (read_status_call p)"
  by (simp add: writes_def read_status_call_def)

lemma read_entry:
  assumes "make_batch_entry ''GET'' url = Inr e"
  shows "e = JObj [(''method'', JStr ''GET''), (''relative_url'', JStr url)]"
  using assms by (auto simp: make_batch_entry_def err_simps py_upper_def upper_char_def split: if_splits)

lemma read_entry_text:
  "json_dumps (JObj [(''method'', JStr ''GET''), (''relative_url'', JStr url)]) =
     ''{'' @ json_string ''method'' @ '': '' @ json_string ''GET'' @ '', '' @
       json_string ''relative_url'' @ '': '' @ json_string url @ ''}''"
proof -
  have "sort_key fst [(''method'', json_string ''GET''), (''relative_url'', json_string url)] =
      [(''method'', json_string ''GET''), (''relative_url'', json_string url)]"
    by (simp add: insort_key.simps)
  then show ?thesis
    by simp
qed

lemma commas_prefix: "take (length s) (commas (s # ss) @ r) = s"
  by (cases ss) auto

lemma read_batch_is_no_write:
  assumes "read_statuses_call p ids = Inr call"
  shows "\<not> writes call"
proof -
  obtain entries batch where b: "emap (\<lambda>ad_id. make_batch_entry ''GET'' (ad_id @ ''?fields=status,effective_status'')) ids = Inr entries"
    "build_batch_payload entries = Inr batch" "call = batch_call p batch"
    using assms by (auto simp: read_statuses_call_def err_simps)
  obtain e es where e: "entries = e # es"
    using b(2) by (cases entries) (auto simp: build_batch_payload_def)
  then obtain i where "make_batch_entry ''GET'' (i @ ''?fields=status,effective_status'') = Inr e"
    using emap_Inr [OF b(1), of e] by auto
  then obtain rest where rest: "json_dumps e = ''{'' @ json_string ''method'' @ '': '' @ json_string ''GET'' @ rest"
    using read_entry read_entry_text by fastforce
  have "batch = ''['' @ commas (json_dumps e # map json_dumps es) @ '']''"
    using b(2) e by (auto simp: build_batch_payload_def split: if_splits)
  moreover have "\<exists>r. commas (json_dumps e # map json_dumps es) = json_dumps e @ r"
    by (cases "map json_dumps es") auto
  ultimately obtain r where "batch = READ_BATCH_PREFIX @ r"
    using rest by (auto simp: READ_BATCH_PREFIX_def)
  then show ?thesis
    using b(3) by (simp add: writes_def batch_call_def starts_with_def)
qed

lemma quiet_prod [quiet_intros]: "(\<And>a b. v = (a, b) \<Longrightarrow> quiet (f a b)) \<Longrightarrow> quiet (case v of (a, b) \<Rightarrow> f a b)"
  by (cases v) auto

lemma read_statuses_quiet: "read_statuses env p ids = (sent, parsed) \<Longrightarrow> call \<in> set sent \<Longrightarrow> \<not> writes call"
  using read_batch_is_no_write by (auto simp: read_statuses_def Let_def split: sum.splits)

lemma quiet_reconcile_bulk [quiet_intros]: "quiet (reconcile_unknown_bulk_status env task p)"
  unfolding reconcile_unknown_bulk_status_def Let_def
  by (intro quiet_intros) (simp add: read_statuses_quiet)

lemma quiet_settle_confirmed [quiet_intros]: "quiet (settle_confirmed_status env task p configured effective)"
  unfolding settle_confirmed_status_def Let_def
  by (cases "prepare_enable_grace_for_payload env (we_gate env) False p")
    (auto intro: quiet_intros split: error.splits)

lemma quiet_settle [quiet_intros]: "quiet (settle_observed_status env task p desired observed)"
proof (cases observed)
  case (JObj ob)
  then show ?thesis
    by (cases "status_of (jget ob ''status'')") (simp_all add: settle_observed_status_def Let_def quiet_intros)
qed (simp_all add: settle_observed_status_def Let_def quiet_intros)

lemma quiet_reconcile [quiet_intros]: "quiet (reconcile_unknown_status_action env task p)"
  unfolding reconcile_unknown_status_action_def Let_def
  by (intro quiet_intros) simp

section \<open>The boundary\<close>

text \<open>What holds of the task row from the boundary on: the claim is live and the call recorded.\<close>

definition crossed_row :: "clock \<Rightarrow> task \<Rightarrow> task \<Rightarrow> bool" where
  "crossed_row c task t \<longleftrightarrow>
     fence_live c (t_id task) (t_lease_owner task) (Some (t_lease_token task)) t \<and>
     t_external_started_at t \<noteq> None \<and> t_cancel_requested_at t = None \<and>
     (case t_deadline_at t of None \<Rightarrow> True | Some d \<Rightarrow> d > clk c)"

lemma external_start_row:
  assumes "mark_external_call_started c (t_id task) key (t_lease_owner task) (Some (t_lease_token task)) db = Inr (db', True)"
  shows "\<exists>t \<in> set (tasks db'). crossed_row c task t"
proof -
  let ?P = "\<lambda>t. t_cancel_requested_at t = None \<and> (case t_deadline_at t of None \<Rightarrow> True | Some d \<Rightarrow> d > clk c)"
  let ?f = "\<lambda>t. t\<lparr>t_external_started_at := Some (coalesce (t_external_started_at t) (tx_now c)), t_updated_at := tx_now c\<rparr>"
  let ?Q = "\<lambda>t. fence_live c (t_id task) (t_lease_owner task) (Some (t_lease_token task)) t \<and> ?P t"
  have "fenced c (t_id task) (t_lease_owner task) (Some (t_lease_token task)) ?P ?f
      (\<lambda>t db1. Inr (db1, True)) False db = Inr (db', True)"
    using assms by (auto simp: mark_external_call_started_def split: if_splits)
  from fenced_result [OF this] obtain t where t: "t \<in> set (tasks db)" "?Q t"
    "db' = fst (update_tasks ?Q ?f db)"
    by auto
  then have "?f t \<in> set (tasks db')"
    by (auto intro: image_eqI [of _ _ t])
  moreover have "crossed_row c task (?f t)"
    using t(2) by (simp add: crossed_row_def fence_live_def)
  ultimately show ?thesis ..
qed

lemma boundary_sends_nothing:
  assumes "cross_external_mutation_boundary env c task p db = (db1, tr, r)" "mp_mutation_kind p \<noteq> ''duplicate_adset_structure''"
  shows "tr = [] \<and> wd_alerts db1 = wd_alerts db"
  using assms
  by (auto simp: cross_external_mutation_boundary_def fail_task_def wbind_eq queue_tx_eq
      split: option.splits if_splits)

lemma boundary_crossed:
  assumes "cross_external_mutation_boundary env c task p db = (db1, tr, Inr True)"
    "mp_mutation_kind p \<noteq> ''duplicate_adset_structure''"
  shows "\<exists>t \<in> set (tasks (cq (wd_cmd db1))). crossed_row c task t"
  using assms external_start_row
  by (fastforce simp: cross_external_mutation_boundary_def fail_task_def wbind_eq queue_tx_eq
      split: option.splits if_splits)

lemma sent_at_most_one:
  assumes "mp_mutation_kind p \<noteq> ''duplicate_adset_structure''"
  shows "length (fst (execute_mutation dup client p)) \<le> 1"
  using assms
  by (auto simp: execute_mutation_def dispatch_mutation_def pause_ad_execute_def activate_ad_execute_def
      execute_status_def bulk_status_change_execute_def Let_def split: sum.splits)

lemma sent_account:
  assumes "mp_mutation_kind p \<noteq> ''duplicate_adset_structure''" "call \<in> set (fst (execute_mutation dup client p))"
  shows "gc_ad_account_id call = mp_ad_account_id p"
  using assms
  by (auto simp: execute_mutation_def dispatch_mutation_def pause_ad_execute_def activate_ad_execute_def
      execute_status_def bulk_status_change_execute_def Let_def status_call_def batch_call_def split: sum.splits if_splits)

section \<open>Execution\<close>

lemma execute_with_touch_eq:
  "execute_with_touch env p db =
     (we_during env db, map (\<lambda>call. (db, call)) (fst (execute_mutation (we_duplicate env) (we_client env) p)),
      case we_interrupt env of
        Some reason \<Rightarrow> Inl (Exn CAmbiguousResultError (Some (- 2)) [] (''external operation interrupted: '' @ reason) [] None)
      | None \<Rightarrow> snd (execute_mutation (we_duplicate env) (we_client env) p))"
  by (simp add: execute_with_touch_def wbind_def send_def others_def split: prod.splits option.splits)

definition write_count :: "trace \<Rightarrow> nat" where
  "write_count tr = length (filter (\<lambda>(_, call). writes call) tr)"

lemma write_count_Nil [simp]: "write_count [] = 0"
  by (simp add: write_count_def)

lemma write_count_append [simp]: "write_count (tr @ tr') = write_count tr + write_count tr'"
  by (simp add: write_count_def)

lemma quiet_count: "quiet m \<Longrightarrow> m db = (db', tr, r) \<Longrightarrow> write_count tr = 0"
  by (auto simp: write_count_def filter_empty_conv dest: quietD)

lemma write_count_pos: "(a, call) \<in> set tr \<Longrightarrow> writes call \<Longrightarrow> 0 < write_count tr"
  by (auto simp: write_count_def filter_empty_conv)

text \<open>The part after the boundary: the requests of the handler, under the database of the boundary.\<close>

lemma executed_trace:
  assumes "wcatch (execute_and_finalize_mutation env task p prepared) (handle_failure env c True task p) db1 = (db', tr, r)"
  shows "\<exists>tr'. tr = map (\<lambda>call. (db1, call)) (fst (execute_mutation (we_duplicate env) (we_client env) p)) @ tr'
    \<and> write_count tr' = 0"
proof -
  let ?sent = "map (\<lambda>call. (db1, call)) (fst (execute_mutation (we_duplicate env) (we_client env) p))"
  have fin: "\<exists>tr'. tr2 = ?sent @ tr' \<and> write_count tr' = 0"
    if "execute_and_finalize_mutation env task p prepared db1 = (db2, tr2, r2)" for db2 tr2 r2
    using that unfolding execute_and_finalize_mutation_def wbind_eq execute_with_touch_eq
    by (auto dest: quiet_count [OF quiet_finalize])
  show ?thesis
    using assms fin unfolding wcatch_eq
    by (fastforce dest: quiet_count [OF quiet_handle_failure])
qed

lemma dispatch_trace:
  assumes "dispatch_task env task p prepared db = (db', tr, r)" "mp_mutation_kind p \<noteq> ''duplicate_adset_structure''"
    "0 < write_count tr"
  obtains db1 where
    "cross_external_mutation_boundary env (we_boundary env) task p (we_before env db) = (db1, [], Inr True)"
    "wcatch (execute_and_finalize_mutation env task p prepared) (handle_failure env (we_after env) True task p) db1 = (db', tr, r)"
proof -
  let ?cross = "cross_external_mutation_boundary env (we_boundary env) task p"
  obtain db1 tr1 x where c: "?cross (we_before env db) = (db1, tr1, x)"
    by (cases "?cross (we_before env db)") auto
  have t: "tr1 = []"
    using boundary_sends_nothing [OF c assms(2)] by simp
  show thesis
  proof (cases x)
    case (Inl e)
    then have "write_count tr = 0"
      using assms(1) c t unfolding dispatch_task_def
      by (auto simp: wbind_eq wcatch_eq dest: quiet_count [OF quiet_handle_failure])
    then show thesis
      using assms(3) by simp
  next
    case (Inr ok)
    show thesis
    proof (cases ok)
      case True
      then show thesis
        using assms(1) c t Inr that unfolding dispatch_task_def
        by (auto simp: wbind_eq wcatch_eq [of "wbind ?cross _"])
    next
      case False
      then show thesis
        using assms c t Inr unfolding dispatch_task_def
        by (auto simp: wbind_eq wcatch_eq [of "wbind ?cross _"])
    qed
  qed
qed

end
