(* ===== verification/WorkerProps.thy ===== *)
theory WorkerProps
  imports WorkerRows
begin

text \<open>
  Correctness of the Meta worker: what is sent to Meta, under which evidence, and what the task and
  the alert state say afterwards. The transactions other processes commit before the boundary and
  while a request runs are arbitrary functions of the environment.
\<close>

section \<open>The gates\<close>

definition passed_gates :: "worker_env \<Rightarrow> task \<Rightarrow> meta_payload \<Rightarrow> alert_table \<Rightarrow> bool" where
  "passed_gates env task p tbl \<longleftrightarrow>
     (is_activating_mutation p \<longrightarrow> we_scanning env = Some True) \<and>
     (py_strip (or_empty (we_owner_tag env)) \<noteq> [] \<longrightarrow>
        (\<forall>ad \<in> set (mutation_ads p). owned (we_catalogue env) (we_owner_tag env) ad)) \<and>
     (needs_fresh_snapshot task p \<longrightarrow>
        sf_fresh (load_meta_snapshot_freshness (py_now (we_gate env)) (mp_target_id p) ((we_evidence env)\<lparr>ed_alerts := tbl\<rparr>))) \<and>
     (\<exists>prepared. prepare_enable_grace_for_payload env (we_gate env) True p = Inr prepared)"

lemma quietly_count: "quiet m \<Longrightarrow> quietly m db = (db', tr, r) \<Longrightarrow> write_count tr = 0"
  by (rule quiet_count [OF quiet_quietly])

lemma grace_gate_writes:
  assumes "grace_gate env task p db = (db', tr, r)" "0 < write_count tr"
  obtains prepared where "prepare_enable_grace_for_payload env (we_gate env) True p = Inr prepared"
    "dispatch_task env task p prepared db = (db', tr, r)"
proof (cases "prepare_enable_grace_for_payload env (we_gate env) True p")
  case (Inl e)
  have "quiet (grace_gate env task p)"
    unfolding grace_gate_def Inl by (cases e) (auto intro: quiet_intros)
  then show thesis
    using quiet_count assms by fastforce
next
  case (Inr prepared)
  then show thesis
    using assms that by (simp add: grace_gate_def)
qed

lemma auto_stop_gate_open:
  assumes "auto_stop_gate c task p ev db = Inr (db', True)"
  shows "db' = db \<and> (needs_fresh_snapshot task p \<longrightarrow> sf_fresh (load_meta_snapshot_freshness (py_now c) (mp_target_id p) ev))"
  using assms by (auto simp: auto_stop_gate_def err_simps split: if_splits)

lemma freshness_gate_writes:
  assumes "freshness_gate env task p db = (db', tr, r)" "0 < write_count tr"
  shows "grace_gate env task p db = (db', tr, r) \<and>
    (needs_fresh_snapshot task p \<longrightarrow>
       sf_fresh (load_meta_snapshot_freshness (py_now (we_gate env)) (mp_target_id p)
         ((we_evidence env)\<lparr>ed_alerts := wd_alerts db\<rparr>)))"
proof -
  let ?ev = "(we_evidence env)\<lparr>ed_alerts := wd_alerts db\<rparr>"
  obtain q go tr2 where g: "auto_stop_gate (we_gate env) task p ?ev (cq (wd_cmd db)) = Inr (q, go)"
    "(if go then grace_gate env task p else wreturn ()) (db\<lparr>wd_cmd := (wd_cmd db)\<lparr>cq := q\<rparr>\<rparr>) = (db', tr, r)"
    using assms by (auto simp: freshness_gate_def wbind_eq queue_tx_eq)
  then have go: "go = True"
    using assms(2) by (auto split: if_splits)
  then show ?thesis
    using g auto_stop_gate_open [OF g(1) [unfolded go]] by simp
qed

lemma ownership_gate_writes:
  assumes "ownership_gate env task p db = (db', tr, r)" "0 < write_count tr"
  shows "freshness_gate env task p db = (db', tr, r) \<and>
    (py_strip (or_empty (we_owner_tag env)) \<noteq> [] \<longrightarrow>
       (\<forall>ad \<in> set (mutation_ads p). owned (we_catalogue env) (we_owner_tag env) ad))"
proof (cases "check_mutation_ownership (we_catalogue env) p (we_owner_tag env)")
  case (Inl e)
  then show ?thesis
    using assms by (auto simp: ownership_gate_def)
next
  case (Inr d)
  show ?thesis
  proof (cases "od_allowed d")
    case True
    then show ?thesis
      using assms Inr allowed_owned [OF Inr True] by (simp add: ownership_gate_def)
  next
    case False
    then have "quiet (ownership_gate env task p)"
      by (auto simp: ownership_gate_def Inr intro: quiet_intros)
    then show ?thesis
      using quiet_count assms by fastforce
  qed
qed

lemma scanning_gate_writes:
  assumes "scanning_gate env task p db = (db', tr, r)" "0 < write_count tr"
  obtains prepared where "passed_gates env task p (wd_alerts db)"
    "prepare_enable_grace_for_payload env (we_gate env) True p = Inr prepared"
    "dispatch_task env task p prepared db = (db', tr, r)"
proof -
  have scan: "is_activating_mutation p \<longrightarrow> we_scanning env = Some True" "ownership_gate env task p db = (db', tr, r)"
    using assms by (auto simp: scanning_gate_def split: if_splits dest: quietly_count [OF quiet_queue_tx])
  note own = ownership_gate_writes [OF scan(2) assms(2)]
  note fresh = freshness_gate_writes [OF conjunct1 [OF own] assms(2)]
  show thesis
    by (rule grace_gate_writes [OF conjunct1 [OF fresh] assms(2)])
      (use that scan own fresh in \<open>auto simp: passed_gates_def\<close>)
qed

lemma reconcile_goes_on:
  assumes "reconcile_unknown_status_action env task p db = (db1, tr, Inr (Some task'))"
  shows "wd_alerts db1 = wd_alerts db \<and> (\<exists>actual. task' = not_applied_snapshot actual task)"
proof -
  have settle: "wd_alerts db1 = wd_alerts db0 \<and> (\<exists>actual. task' = not_applied_snapshot actual task)"
    if "settle_observed_status env task p desired v db0 = (db1, tr0, Inr (Some task'))" for desired v db0 tr0
  proof (cases v)
    case (JObj ob)
    then show ?thesis
      using that
      by (auto simp: settle_observed_status_def Let_def settle_confirmed_status_def wbind_eq queue_tx_eq
          split: option.splits if_splits sum.splits error.splits)
  qed (use that in \<open>auto simp: settle_observed_status_def Let_def wbind_eq\<close>)
  let ?kinds = "map_of [(''pause_ad'', ''PAUSED''), (''activate_ad'', ''ACTIVE'')] (mp_mutation_kind p)"
  have k: "mp_mutation_kind p \<noteq> ''bulk_status_change''"
    using assms by (auto simp: reconcile_unknown_status_action_def Let_def wbind_eq)
  obtain desired where desired: "?kinds = Some desired"
  proof (cases ?kinds)
    case None
    then show thesis
      using assms k unfolding reconcile_unknown_status_action_def Let_def None by (auto simp: wbind_eq)
  qed
  obtain db0 tr0 v where "settle_observed_status env task p desired v db0 = (db1, tr0, Inr (Some task'))" "db0 = db"
    using assms k unfolding reconcile_unknown_status_action_def Let_def desired
    by (auto simp: wbind_eq wcatch_eq send_def split: option.splits)
  then show ?thesis
    using settle by blast
qed

lemma not_applied_same:
  "t_id (not_applied_snapshot a task) = t_id task"
  "t_lease_owner (not_applied_snapshot a task) = t_lease_owner task"
  "t_lease_token (not_applied_snapshot a task) = t_lease_token task"
  "needs_fresh_snapshot (not_applied_snapshot a task) p = needs_fresh_snapshot task p"
  by (simp_all add: not_applied_snapshot_def needs_fresh_snapshot_def)

lemma process_writes:
  assumes "process_one_task env task db = (db', tr, r)" "0 < write_count tr"
  obtains p task' prepared db0 tr1 tr2 where "from_dict (t_payload task) = Inr p"
    "mp_mutation_kind p = ''duplicate_adset_structure'' \<or>
     t_id task' = t_id task \<and> t_lease_owner task' = t_lease_owner task \<and> t_lease_token task' = t_lease_token task \<and>
     (task' = task \<or> reconcile_required task) \<and> passed_gates env task p (wd_alerts db) \<and>
     tr = tr1 @ tr2 \<and> write_count tr1 = 0 \<and> dispatch_task env task' p prepared db0 = (db', tr2, r) \<and>
     prepare_enable_grace_for_payload env (we_gate env) True p = Inr prepared"
proof -
  obtain p where p: "from_dict (t_payload task) = Inr p"
  proof (cases "from_dict (t_payload task)")
    case (Inl e)
    then have "quiet (process_one_task env task)"
      by (cases "require_claimed_task task"; cases e) (auto simp: process_one_task_def intro: quiet_intros)
    then show thesis
      using quiet_count assms by fastforce
  qed
  have run: "process_payload env task p db = (db', tr, r)"
    using assms p by (auto simp: process_one_task_def split: sum.splits)
  show thesis
  proof (cases "mp_mutation_kind p = ''duplicate_adset_structure''")
    case True
    then show thesis
      using that p by blast
  next
    case False
    then have dup: "\<not> is_duplicate_recovery_task task p"
      by (simp add: is_duplicate_recovery_task_def)
    show thesis
    proof (cases "reconcile_required task")
      case False
      then have "scanning_gate env task p db = (db', tr, r)"
        using run dup by (simp add: process_payload_def)
      then show thesis
        by (rule scanning_gate_writes [OF _ assms(2)]) (use that [of p task "[]" tr] p in auto)
    next
      case True
      let ?rec = "wcatch (reconcile_unknown_status_action env task p)
             (\<lambda>e. wbind (queue_tx (defer_unknown_reconciliation (we_gate env) task
                (''reconciliation lifecycle failed: '' @ ex_text e) 5)) (\<lambda>_. wreturn None))"
      have quiet: "quiet ?rec"
        by (intro quiet_intros)
      from run dup True obtain db1 tr1 going tr2 where w: "?rec db = (db1, tr1, Inr going)"
        "(case going of None \<Rightarrow> wreturn () | Some task' \<Rightarrow> scanning_gate env task' p) db1 = (db', tr2, r)" "tr = tr1 @ tr2"
        using quiet_count [OF quiet] assms(2) by (fastforce simp: process_payload_def wbind_eq)
      have c0: "write_count tr1 = 0"
        by (rule quiet_count [OF quiet w(1)])
      then have "0 < write_count tr2"
        using assms(2) w(3) by simp
      then obtain task' where t': "going = Some task'" "scanning_gate env task' p db1 = (db', tr2, r)"
        using w(2) by (cases going) auto
      then have "reconcile_unknown_status_action env task p db = (db1, tr1, Inr (Some task'))"
        using w(1) by (auto simp: wcatch_eq wbind_eq)
      then obtain actual where a: "wd_alerts db1 = wd_alerts db" "task' = not_applied_snapshot actual task"
        using reconcile_goes_on by blast
      have "passed_gates env task' p tbl = passed_gates env task p tbl" for tbl
        by (simp add: passed_gates_def a(2) not_applied_same)
      then show thesis
        by (rule_tac scanning_gate_writes [OF t'(2) \<open>0 < write_count tr2\<close>])
          (use that [of p task' tr1 tr2] p a True w(3) c0 in \<open>auto simp: not_applied_same\<close>)
    qed
  qed
qed

section \<open>What is sent\<close>

text \<open>From a request in the trace to the boundary and the execution it belongs to.\<close>

lemma write_executed:
  assumes "process_one_task env task db = (db', tr, r)" "(sent_in, call) \<in> set tr" "writes call"
    "from_dict (t_payload task) = Inr p" "mp_mutation_kind p \<noteq> ''duplicate_adset_structure''"
  obtains task' prepared tr2 where
    "t_id task' = t_id task" "t_lease_owner task' = t_lease_owner task" "t_lease_token task' = t_lease_token task"
    "wcatch (execute_and_finalize_mutation env task' p prepared) (handle_failure env (we_after env) True task' p) sent_in
       = (db', tr2, r)"
    "call \<in> set (fst (execute_mutation (we_duplicate env) (we_client env) p))"
    "prepare_enable_grace_for_payload env (we_gate env) True p = Inr prepared"
    "passed_gates env task p (wd_alerts db)" "write_count tr = 1"
    "\<exists>t \<in> set (tasks (cq (wd_cmd sent_in))). crossed_row (we_boundary env) task t"
proof -
  have pos: "0 < write_count tr"
    using write_count_pos [OF assms(2,3)] .
  from process_writes [OF assms(1) pos] assms(4,5) obtain task' prepared db0 tr1 tr2 where
    g: "t_id task' = t_id task" "t_lease_owner task' = t_lease_owner task" "t_lease_token task' = t_lease_token task"
      "tr = tr1 @ tr2" "write_count tr1 = 0" "dispatch_task env task' p prepared db0 = (db', tr2, r)"
      "prepare_enable_grace_for_payload env (we_gate env) True p = Inr prepared" "passed_gates env task p (wd_alerts db)"
    by (metis Inr_inject)
  have "0 < write_count tr2"
    using pos g(4,5) by simp
  from g(6) assms(5) this obtain db1 where b:
    "cross_external_mutation_boundary env (we_boundary env) task' p (we_before env db0) = (db1, [], Inr True)"
    "wcatch (execute_and_finalize_mutation env task' p prepared) (handle_failure env (we_after env) True task' p) db1 = (db', tr2, r)"
    by (rule dispatch_trace)
  let ?sent = "fst (execute_mutation (we_duplicate env) (we_client env) p)"
  obtain tr3 where t3: "tr2 = map (\<lambda>call. (db1, call)) ?sent @ tr3" "write_count tr3 = 0"
    using executed_trace [OF b(2)] by blast
  have sent: "(sent_in, call) \<in> set (map (\<lambda>call. (db1, call)) ?sent)"
    using assms(2,3) g(4,5) t3 write_count_pos by fastforce
  have "write_count (map (\<lambda>call. (db1, call)) ?sent) \<le> length ?sent"
    unfolding write_count_def by (metis length_filter_le length_map)
  then have "write_count tr = 1"
    using pos g(4,5) t3 sent_at_most_one [OF assms(5), of "we_duplicate env" "we_client env"] by simp
  moreover have "\<exists>t \<in> set (tasks (cq (wd_cmd db1))). crossed_row (we_boundary env) task t"
    using boundary_crossed [OF b(1) assms(5)] g(1-3) by (simp add: crossed_row_def)
  ultimately show thesis
    using that [of task' prepared tr2] g b(2) sent by auto
qed

text \<open>
  C11. No status change is written to Meta without a live claim and open gates. When a run for a command
  that changes statuses sends a request that writes, the last transaction the worker committed before it
  (the boundary, whose database is recorded with the request) left a row of the task in which the claim of
  this worker is live, the call is recorded as started, no cancellation is requested and the deadline is
  ahead; the advertisements belong to the owner, an activation only happens while scanning is on, an
  automatic stop rests on a fresh decision, and a requested grace could be prepared. One run sends exactly
  one such request, in the cabinet of the command. The transactions of other processes are arbitrary before
  the boundary (\<open>we_before\<close>) and after the request (\<open>we_during\<close>). The duplication of an ad set, which sends
  many requests, is the subject of its own theories.
\<close>

theorem write_needs_live_claim:
  assumes "process_one_task env task db = (db', tr, r)" "(sent_in, call) \<in> set tr" "writes call"
    and "from_dict (t_payload task) = Inr p" "mp_mutation_kind p \<noteq> ''duplicate_adset_structure''"
  shows "(\<exists>t \<in> set (tasks (cq (wd_cmd sent_in))). crossed_row (we_boundary env) task t) \<and>
     passed_gates env task p (wd_alerts db) \<and>
     gc_ad_account_id call = mp_ad_account_id p \<and> write_count tr = 1"
  using write_executed [OF assms] sent_account [OF assms(5)] by metis

section \<open>A worked run\<close>

definition acknowledging :: client where
  "acknowledging call = Inr (JObj [(''success'', JBool True)])"

definition wk_task :: task where
  "wk_task = q_running\<lparr>t_requested_by := ''operator'', t_payload := to_dict sample_payload\<rparr>"

definition wk_db :: worker_db where
  "wk_db = \<lparr>wd_cmd = \<lparr>cq = q_db [wk_task], receipts = [], targets = (\<lambda>_. None)\<rparr>,
     wd_alerts = (\<lambda>_. None)(''42'' := Some (sample_alert_row StopSent (Some 5)))\<rparr>"

definition wk_evidence :: evidence_db where
  "wk_evidence = \<lparr>ed_metrics = [], ed_campaign = (\<lambda>_. None), ed_scan_runs = [], ed_alerts = (\<lambda>_. None),
     ed_offer_active = (\<lambda>_. None), ed_rules_updated_at = (\<lambda>_. None), ed_scanning_enabled = None\<rparr>"

definition wk_env :: "client \<Rightarrow> worker_env" where
  "wk_env client = \<lparr>we_gate = q_clock 20, we_boundary = q_clock 20, we_after = q_clock 20, we_client = client,
     we_duplicate = (\<lambda>_ _. ([], Inl (plain_exn CException ''not implemented''))),
     we_recover = (\<lambda>_ _ _. ([], Inl (plain_exn CException ''not implemented''))),
     we_authorize = (\<lambda>_ _ _ _ q. Inr (q, False)), we_scanning = None, we_owner_tag = None,
     we_catalogue = (\<lambda>_. None), we_evidence = wk_evidence, we_grace_seconds = 600, we_cabinet_day = None,
     we_account_currency = None, we_grace_source = None, we_zones = (\<lambda>_. True), we_transition_token = 7,
     we_generation = None, we_busy_target = None, we_interrupt = None, we_alert_ctx = True,
     we_before = (\<lambda>db. db), we_during = (\<lambda>db. db)\<rparr>"

lemma wk_payload: "from_dict (t_payload wk_task) = Inr sample_payload"
  by code_simp

text \<open>The sample task passes all gates; what follows is evaluated from the boundary on.\<close>

lemma wk_gates: "process_one_task (wk_env client) wk_task db = dispatch_task (wk_env client) wk_task sample_payload None db"
proof -
  have "require_claimed_task wk_task = Inr ()" "\<not> reconcile_required wk_task" "\<not> is_activating_mutation sample_payload"
    "\<not> is_duplicate_recovery_task wk_task sample_payload" "\<not> needs_fresh_snapshot wk_task sample_payload"
    by code_simp+
  moreover have "check_mutation_ownership (we_catalogue (wk_env client)) sample_payload (we_owner_tag (wk_env client))
      = Inr (decided True OwnerTagNotSet)" "od_allowed (decided True OwnerTagNotSet)"
    by (simp_all add: check_mutation_ownership_def decided_def wk_env_def or_empty_def py_strip_def)
  moreover have "prepare_enable_grace_for_payload (wk_env client) c b sample_payload = Inr None" for c b
    by (simp add: prepare_enable_grace_for_payload_def sample_payload_def)
  ultimately show ?thesis
    using wk_payload
    by (simp add: process_one_task_def process_payload_def scanning_gate_def ownership_gate_def freshness_gate_def
        grace_gate_def auto_stop_gate_def wbind_def queue_tx_def transact_def on_queue_def split: prod.split)
qed

lemma wk_run:
  "case process_one_task (wk_env acknowledging) wk_task wk_db of
     (db', tr, r) \<Rightarrow> length tr = 1 \<and> r = Inr () \<and> map t_status (tasks (cq (wd_cmd db'))) = [Succeeded] \<and>
       map_option ar_state (wd_alerts db' ''42'') = Some Disabled \<and>
       list_all (\<lambda>(a, call). writes call \<and> map t_status (tasks (cq (wd_cmd a))) = [Running] \<and>
         map_option ar_state (wd_alerts a ''42'') = Some StopSent) tr"
  unfolding wk_gates by code_simp

theorem write_needs_live_claim_witness:
  "\<exists>db' tr r sent_in call. process_one_task (wk_env acknowledging) wk_task wk_db = (db', tr, r) \<and>
     (sent_in, call) \<in> set tr \<and> writes call \<and>
     from_dict (t_payload wk_task) = Inr sample_payload \<and>
     mp_mutation_kind sample_payload \<noteq> ''duplicate_adset_structure'' \<and>
     (\<exists>t \<in> set (tasks (cq (wd_cmd sent_in))). crossed_row (q_clock 20) wk_task t) \<and>
     gc_ad_account_id call = ''9'' \<and> write_count tr = 1"
proof -
  obtain db' sent_in call r where run: "process_one_task (wk_env acknowledging) wk_task wk_db = (db', [(sent_in, call)], r)"
    and w: "writes call"
    using wk_run by (auto simp: length_Suc_conv split: prod.splits)
  have kind: "mp_mutation_kind sample_payload \<noteq> ''duplicate_adset_structure''" "mp_ad_account_id sample_payload = ''9''"
    by (simp_all add: sample_payload_def)
  have "(\<exists>t \<in> set (tasks (cq (wd_cmd sent_in))). crossed_row (q_clock 20) wk_task t) \<and>
      gc_ad_account_id call = ''9'' \<and> write_count [(sent_in, call)] = 1"
    using write_needs_live_claim [OF run _ w wk_payload kind(1), of sent_in] kind(2) by (simp add: wk_env_def)
  then show ?thesis
    using run w wk_payload kind by fastforce
qed

end
