(* ===== verification/WorkerOutcomes.thy ===== *)
theory WorkerOutcomes
  imports WorkerProps
begin

text \<open>
  What a run of the Meta worker leaves behind: an answer that was lost stays unknown, a task is
  confirmed and an alert state moves only on Meta's literal acknowledgement, reads of an unknown
  outcome end, and one way in which they do not.
\<close>

section \<open>Steps that confirm nothing\<close>

definition no_new_success :: "(qdb \<Rightarrow> (qdb \<times> 'a) result) \<Rightarrow> bool" where
  "no_new_success f \<longleftrightarrow>
     (\<forall>q q' x t. f q = Inr (q', x) \<longrightarrow> t \<in> set (tasks q') \<longrightarrow> t_status t = Succeeded \<longrightarrow> t \<in> set (tasks q))"

named_theorems no_success_intros \<open>queue operations that confirm nothing\<close>

lemma no_success_fenced [no_success_intros]:
  assumes "keeps_tasks cont" "\<And>t. t_status (f t) \<noteq> Succeeded"
  shows "no_new_success (fenced c i ow k P f cont miss)"
  unfolding no_new_success_def
proof (intro allI impI)
  fix q q' x t
  assume a: "fenced c i ow k P f cont miss q = Inr (q', x)" "t \<in> set (tasks q')" "t_status t = Succeeded"
  let ?Q = "\<lambda>t. fence_live c i ow k t \<and> P t"
  from fenced_result [OF a(1)] show "t \<in> set (tasks q)"
  proof (elim disjE bexE conjE)
    fix u assume "cont (f u) (fst (update_tasks ?Q f q)) = Inr (q', x)"
    then have "tasks q' = map (\<lambda>t. if ?Q t then f t else t) (tasks q)"
      using assms(1) unfolding keeps_tasks_def by (metis update_tasks_simps(1))
    then show "t \<in> set (tasks q)"
      using a(2,3) assms(2) by (auto split: if_splits)
  qed (use a(2) in simp)
qed

lemma no_success_raise [no_success_intros]: "no_new_success (\<lambda>q. Inl e)"
  by (simp add: no_new_success_def)

lemma no_success_keep [no_success_intros]: "no_new_success (\<lambda>q. Inr (q, x))"
  by (simp add: no_new_success_def)

lemma no_success_if [no_success_intros]:
  "no_new_success f \<Longrightarrow> no_new_success g \<Longrightarrow> no_new_success (\<lambda>q. if b then f q else g q)"
  by (cases b) simp_all

lemma no_success_map [no_success_intros]:
  "no_new_success f \<Longrightarrow> no_new_success (\<lambda>q. ebind (f q) (\<lambda>(q', y). Inr (q', z)))"
  by (auto simp: no_new_success_def err_simps)

lemma no_success_mark_failed [no_success_intros]: "no_new_success (mark_failed c i err res ow k eff)"
  unfolding mark_failed_def by (intro no_success_intros keeps_effect) simp

lemma no_success_failed_or_cancelled [no_success_intros]:
  "no_new_success (mark_task_failed_or_cancelled c i key err res ow k)"
  unfolding mark_task_failed_or_cancelled_def by (intro no_success_intros keeps_commit) simp

lemma no_success_retry [no_success_intros]: "no_new_success (requeue_for_retry c i err a m l ow k)"
  unfolding requeue_for_retry_def Let_def by (intro no_success_intros keeps_return) simp

lemma no_success_requeue_task [no_success_intros]: "no_new_success (requeue_task c task err)"
  unfolding requeue_task_def by (intro no_success_intros)

lemma no_success_not_committed [no_success_intros]:
  "no_new_success (requeue_task_proven_not_committed c task key err)"
  unfolding requeue_task_proven_not_committed_def requeue_proven_not_committed_def Let_def
  by (intro no_success_intros keeps_commit) (simp add: not_committed_row_def Let_def)

lemma no_success_release [no_success_intros]:
  "no_new_success (release_task_after_browser_readiness_rejection c task gen key err)"
  unfolding release_task_after_browser_readiness_rejection_def release_after_browser_readiness_rejection_def
  by (intro no_success_intros keeps_effect) (simp add: readiness_rejected_row_def Let_def)

lemma no_success_unknown [no_success_intros]: "no_new_success (requeue_unknown_for_reconciliation c task err)"
proof -
  have "no_new_success (\<lambda>db. case update_tasks P f db of (db1, rows) \<Rightarrow> Inr (db1, rows \<noteq> []))"
    if "\<And>t. t_status (f t) \<noteq> Succeeded" for P f
    using that by (auto simp: no_new_success_def update_tasks_def split: if_splits)
  then show ?thesis
    unfolding requeue_unknown_for_reconciliation_def Let_def by (intro no_success_intros) simp
qed

lemma no_success_recovery [no_success_intros]:
  "no_new_success (requeue_duplicate_recovery c i cp err n ow k)"
proof (cases "created_ids_from_checkpoint cp")
  case (Inl e)
  then show ?thesis
    unfolding requeue_duplicate_recovery_def by (auto simp: no_new_success_def)
next
  case (Inr ids)
  then have "ebind (created_ids_from_checkpoint cp) (\<lambda>_. f q) = f q" for f :: "qdb \<Rightarrow> (qdb \<times> bool) result" and q
    by simp
  then show ?thesis
    unfolding requeue_duplicate_recovery_def by (simp only:) (intro no_success_intros keeps_commit, simp)
qed

text \<open>The same of a worker step: it moves no alert state either.\<close>

definition unconfirming :: "'a worker \<Rightarrow> bool" where
  "unconfirming m \<longleftrightarrow> (\<forall>db db' tr r. m db = (db', tr, r) \<longrightarrow>
     wd_alerts db' = wd_alerts db \<and>
     (\<forall>t. t \<in> set (tasks (cq (wd_cmd db'))) \<longrightarrow> t_status t = Succeeded \<longrightarrow> t \<in> set (tasks (cq (wd_cmd db)))))"

named_theorems unconfirming_intros \<open>worker steps that confirm nothing\<close>

lemma unconfirming_wreturn [unconfirming_intros]: "unconfirming (wreturn x)"
  by (simp add: unconfirming_def)

lemma unconfirming_wbind [unconfirming_intros]:
  assumes "unconfirming m" "\<And>x. unconfirming (f x)"
  shows "unconfirming (wbind m f)"
  using assms unfolding unconfirming_def wbind_eq by metis

lemma unconfirming_queue_tx [unconfirming_intros]: "no_new_success f \<Longrightarrow> unconfirming (queue_tx f)"
  by (auto simp: unconfirming_def queue_tx_eq no_new_success_def)

lemma unconfirming_quietly [unconfirming_intros]: "unconfirming m \<Longrightarrow> unconfirming (quietly m)"
  by (simp add: quietly_def unconfirming_intros)

lemma unconfirming_fail_task [unconfirming_intros]: "unconfirming (fail_task c task err res)"
  by (simp add: fail_task_def unconfirming_intros no_success_intros)

lemma unconfirming_requeue_unknown [unconfirming_intros]: "unconfirming (requeue_unknown c task err)"
  by (simp add: requeue_unknown_def unconfirming_intros no_success_intros)

lemma alert_autostop_frame:
  assumes "alert_autostop env c task e db = (db', tr, r)"
  shows "tr = [] \<and> r = Inr () \<and> wd_alerts db' = wd_alerts db \<and>
    tasks (cq (wd_cmd db')) = tasks (cq (wd_cmd db))"
  using assms
  by (auto simp: alert_autostop_def on_queue_def err_simps split: if_splits sum.splits)

lemma unconfirming_alert [unconfirming_intros]: "unconfirming (alert_autostop env c task e)"
  unfolding unconfirming_def by (auto dest: alert_autostop_frame)

lemma unconfirming_if [unconfirming_intros]:
  "unconfirming m \<Longrightarrow> unconfirming n \<Longrightarrow> unconfirming (if b then m else n)"
  by simp

lemma unconfirming_option [unconfirming_intros]:
  "unconfirming m \<Longrightarrow> (\<And>x. unconfirming (n x)) \<Longrightarrow> unconfirming (case v of None \<Rightarrow> m | Some x \<Rightarrow> n x)"
  by (cases v) auto

lemma unconfirming_handle_failure [unconfirming_intros]: "unconfirming (handle_failure env c crossed task p e)"
  unfolding handle_failure_def handle_partial_duplication_def handle_ambiguous_def handle_permanent_def
    handle_temporary_def handle_value_error_def handle_unclassified_def fail_irreversible_def release_readiness_def Let_def
  by (intro unconfirming_intros no_success_intros)

section \<open>An answer that was lost\<close>

text \<open>
  The execution was interrupted, or the handler raised anything but a rejection by Meta and a proof
  that nothing was sent.
\<close>

definition lost_answer :: "worker_env \<Rightarrow> meta_payload \<Rightarrow> bool" where
  "lost_answer env p \<longleftrightarrow>
     we_interrupt env \<noteq> None \<or>
     (case snd (execute_mutation (we_duplicate env) (we_client env) p) of
        Inl e \<Rightarrow> \<not> list_ex (raised_as e) PERMANENT_EXCEPTIONS \<and> \<not> raised_as e CSessionUnavailableError
          \<and> \<not> raised_as e CDuplicatePartialError
      | Inr _ \<Rightarrow> False)"

text \<open>The task kept its unknown outcome: it waits for a read, or is closed for a manual review.\<close>

definition kept_unknown :: "task \<Rightarrow> bool" where
  "kept_unknown t \<longleftrightarrow>
     outcome t = JStr ''UNKNOWN'' \<and> (t_status t = Retrying \<and> reconcile_flag t \<or> t_status t = Failed)"

lemma mark_failed_hits:
  assumes "mark_failed c i err (Some res) ow k eff q = Inr (q', b)" "t \<in> set (tasks q)" "fence_live c i ow k t"
    "has_valid_fence ow k"
  shows "\<exists>t' \<in> set (tasks q'). t_id t' = i \<and> t_status t' = Failed \<and> t_result t' = Some res"
proof -
  have "filter (\<lambda>t. fence_live c i ow k t \<and> True) (tasks q) \<noteq> []"
    using assms(2,3) by (auto simp: filter_empty_conv)
  then obtain u us where "filter (\<lambda>t. fence_live c i ow k t \<and> True) (tasks q) = u # us"
    by (cases "filter (\<lambda>t. fence_live c i ow k t \<and> True) (tasks q)") auto
  then have "b"
    using assms(1,4) by (auto simp: mark_failed_def fenced_def update_tasks_def err_simps dest: commit_frame)
  then show ?thesis
    using mark_failed_result [OF assms(1)] by simp
qed

lemma requeue_unknown_keeps:
  assumes "requeue_unknown_for_reconciliation c task err q = Inr (q', b)" "t \<in> set (tasks q)"
    "fence_live c (t_id task) (t_lease_owner task) (Some (t_lease_token task)) t" "0 < t_lease_token task"
  shows "\<exists>t' \<in> set (tasks q'). t_id t' = t_id task \<and> kept_unknown t'"
proof (cases "jget (obj_or_empty (t_result task)) ''reconcile_required'' = JBool True
    \<and> t_attempt_count task + 1 \<ge> t_max_attempts task")
  case True
  let ?res = "[(''outcome'', JStr ''UNKNOWN''), (''reconcile_required'', JBool False), (''reconciliation_exhausted'', JBool True)]"
  from True assms(1) obtain b' where
    "mark_failed c (t_id task) err (Some ?res) (t_lease_owner task) (Some (t_lease_token task)) None q = Inr (q', b')"
    by (auto simp: requeue_unknown_for_reconciliation_def err_simps)
  moreover have "has_valid_fence (t_lease_owner task) (Some (t_lease_token task))"
    using assms(3,4) by (simp add: has_valid_fence_def fence_live_def)
  ultimately obtain t' where "t' \<in> set (tasks q')" "t_id t' = t_id task" "t_status t' = Failed" "t_result t' = Some ?res"
    using mark_failed_hits [OF _ assms(2,3)] by blast
  then show ?thesis
    by (auto simp: kept_unknown_def outcome_def obj_or_empty_def)
next
  case False
  let ?Q = "fence_live c (t_id task) (t_lease_owner task) (Some (t_lease_token task))"
  let ?f = "\<lambda>t. t\<lparr>t_status := Retrying, t_attempt_count := t_attempt_count task + 1, t_available_at := tx_now c,
      t_deadline_at := (if t_lane task = LMoney then None
        else Some (py_now c + secs (queue_wait_seconds (t_lane task)))),
      t_last_error := Some (clip err),
      t_result := Some (jmerge (obj_or_empty (t_result t))
        [(''outcome'', JStr ''UNKNOWN''), (''reconcile_required'', JBool True), (''unknown_at'', JNum (tx_now c))]),
      t_lease_owner := None, t_lease_expires_at := None, t_updated_at := tx_now c\<rparr>"
  have "tasks q' = map (\<lambda>t. if ?Q t then ?f t else t) (tasks q)"
    using assms(1) False by (auto simp: requeue_unknown_for_reconciliation_def Let_def update_tasks_def)
  then have "?f t \<in> set (tasks q')"
    using assms(2,3) by (auto intro: image_eqI [of _ _ t])
  moreover have "kept_unknown (?f t)"
    by (simp add: kept_unknown_def outcome_def obj_or_empty_def jget_jmerge reconcile_flag_def arrow_text_def)
  moreover have "t_id (?f t) = t_id task"
    using assms(3) by (simp add: fence_live_def)
  ultimately show ?thesis
    by blast
qed

lemma lost_answer_handler:
  assumes "mp_mutation_kind p \<in> set STATUS_KINDS" "\<not> list_ex (raised_as e) PERMANENT_EXCEPTIONS"
    "\<not> raised_as e CSessionUnavailableError" "\<not> raised_as e CDuplicatePartialError"
  shows "\<exists>err. handle_failure env c True task p e = requeue_unknown c task err \<or>
    handle_failure env c True task p e = wbind (requeue_unknown c task err) (\<lambda>_. alert_autostop env c task e)"
  using assms
  by (auto simp: handle_failure_def handle_ambiguous_def handle_temporary_def handle_value_error_def
      handle_unclassified_def Let_def)

lemma lost_answer_handled:
  assumes "handle_failure env c True task p e db = (db', tr, Inr ())"
    "mp_mutation_kind p \<in> set STATUS_KINDS" "\<not> list_ex (raised_as e) PERMANENT_EXCEPTIONS"
    "\<not> raised_as e CSessionUnavailableError" "\<not> raised_as e CDuplicatePartialError"
    "t \<in> set (tasks (cq (wd_cmd db)))"
    "fence_live c (t_id task) (t_lease_owner task) (Some (t_lease_token task)) t" "0 < t_lease_token task"
  shows "wd_alerts db' = wd_alerts db \<and> (\<exists>t' \<in> set (tasks (cq (wd_cmd db'))). t_id t' = t_id task \<and> kept_unknown t')"
proof -
  obtain err where h: "handle_failure env c True task p e = requeue_unknown c task err \<or>
    handle_failure env c True task p e = wbind (requeue_unknown c task err) (\<lambda>_. alert_autostop env c task e)"
    using lost_answer_handler [OF assms(2-5)] by blast
  obtain db1 tr1 where r: "requeue_unknown c task err db = (db1, tr1, Inr ())"
    "wd_alerts db' = wd_alerts db1" "tasks (cq (wd_cmd db')) = tasks (cq (wd_cmd db1))"
    using h
  proof (elim disjE)
    assume "handle_failure env c True task p e = requeue_unknown c task err"
    then show thesis
      using that assms(1) by simp
  next
    assume a: "handle_failure env c True task p e = wbind (requeue_unknown c task err) (\<lambda>_. alert_autostop env c task e)"
    obtain db1 tr1 tr2 where "requeue_unknown c task err db = (db1, tr1, Inr ())"
      "alert_autostop env c task e db1 = (db', tr2, Inr ())"
      using assms(1) unfolding a wbind_eq by auto
    then show thesis
      using that alert_autostop_frame by blast
  qed
  obtain q b where q: "requeue_unknown_for_reconciliation c task err (cq (wd_cmd db)) = Inr (q, b)"
    "db1 = db\<lparr>wd_cmd := (wd_cmd db)\<lparr>cq := q\<rparr>\<rparr>"
    using r(1) by (auto simp: requeue_unknown_def quietly_def wbind_eq queue_tx_eq)
  show ?thesis
    using requeue_unknown_keeps [OF q(1) assms(6-8)] q(2) r(2,3) by simp
qed

lemma lost_answer_raises:
  assumes "lost_answer env p"
  obtains e tr where "execute_with_touch env p db = (we_during env db, tr, Inl e)"
    "\<not> list_ex (raised_as e) PERMANENT_EXCEPTIONS" "\<not> raised_as e CSessionUnavailableError"
    "\<not> raised_as e CDuplicatePartialError"
proof (cases "we_interrupt env")
  case None
  then show thesis
    using assms that unfolding execute_with_touch_eq lost_answer_def by (auto split: sum.splits)
next
  case (Some reason)
  show thesis
    by (rule that) (simp add: execute_with_touch_eq Some, simp_all add: raised_as_def PERMANENT_EXCEPTIONS_def isinstance.simps)
qed

text \<open>
  C13. A lost answer is never reported as success or failure: when the request of a status change was
  sent and its outcome is not known - the execution was stopped, or the handler raised anything but
  a rejection by Meta and a proof that nothing was sent - a run whose claim is still live leaves
  the alert states as they were and the task UNKNOWN: waiting for a read of the real status, or
  closed for a manual review when the attempts are used up.
\<close>

theorem lost_answer_stays_unknown:
  assumes "process_one_task env task db = (db', tr, Inr ())" "(sent_in, call) \<in> set tr" "writes call"
    "from_dict (t_payload task) = Inr p" "mp_mutation_kind p \<in> set STATUS_KINDS" "lost_answer env p"
    "t \<in> set (tasks (cq (wd_cmd (we_during env sent_in))))"
    "fence_live (we_after env) (t_id task) (t_lease_owner task) (Some (t_lease_token task)) t"
  shows "wd_alerts db' = wd_alerts (we_during env sent_in) \<and>
    (\<exists>t' \<in> set (tasks (cq (wd_cmd db'))). t_id t' = t_id task \<and> kept_unknown t')"
proof -
  have kind: "mp_mutation_kind p \<noteq> ''duplicate_adset_structure''"
    using assms(5) by (auto simp: STATUS_KINDS_def)
  obtain task' prepared tr2 where
    same: "t_id task' = t_id task" "t_lease_owner task' = t_lease_owner task" "t_lease_token task' = t_lease_token task"
    and c: "wcatch (execute_and_finalize_mutation env task' p prepared) (handle_failure env (we_after env) True task' p) sent_in
       = (db', tr2, Inr ())"
    by (rule write_executed [OF assms(1-4) kind])
  obtain e tr1 where e: "execute_with_touch env p sent_in = (we_during env sent_in, tr1, Inl e)"
    "\<not> list_ex (raised_as e) PERMANENT_EXCEPTIONS" "\<not> raised_as e CSessionUnavailableError" "\<not> raised_as e CDuplicatePartialError"
    by (rule lost_answer_raises [OF assms(6)])
  have "execute_and_finalize_mutation env task' p prepared sent_in = (we_during env sent_in, tr1, Inl e)"
    unfolding execute_and_finalize_mutation_def wbind_def e(1) by simp
  then obtain tr3 where h: "handle_failure env (we_after env) True task' p e (we_during env sent_in) = (db', tr3, Inr ())"
    using c unfolding wcatch_eq by auto
  have "0 < t_lease_token task"
    using assms(1) by (auto simp: process_one_task_def require_claimed_task_def split: if_splits)
  then show ?thesis
    using lost_answer_handled [OF h assms(5) e(2-4) assms(7)] assms(8) same by simp
qed

definition dropping :: client where
  "dropping call = Inl (plain_exn CTemporaryError ''timeout'')"

lemma dropped_run:
  "case process_one_task (wk_env dropping) wk_task wk_db of
     (db', tr, r) \<Rightarrow> length tr = 1 \<and> r = Inr () \<and> list_all (\<lambda>(a, call). writes call \<and>
       list_ex (fence_live (q_clock 20) (t_id wk_task) (t_lease_owner wk_task) (Some (t_lease_token wk_task)))
         (tasks (cq (wd_cmd a)))) tr"
  unfolding wk_gates by code_simp

lemma dropped_answer: "lost_answer (wk_env dropping) sample_payload"
  by code_simp

theorem lost_answer_stays_unknown_witness:
  "\<exists>db' sent_in call. process_one_task (wk_env dropping) wk_task wk_db = (db', [(sent_in, call)], Inr ()) \<and> writes call \<and>
     wd_alerts db' = wd_alerts sent_in \<and> (\<exists>t' \<in> set (tasks (cq (wd_cmd db'))). t_id t' = t_id wk_task \<and> kept_unknown t')"
proof -
  obtain db' sent_in call t where run: "process_one_task (wk_env dropping) wk_task wk_db = (db', [(sent_in, call)], Inr ())"
    and w: "writes call"
    and t: "t \<in> set (tasks (cq (wd_cmd (we_during (wk_env dropping) sent_in))))"
      "fence_live (we_after (wk_env dropping)) (t_id wk_task) (t_lease_owner wk_task) (Some (t_lease_token wk_task)) t"
    using dropped_run by (auto simp: length_Suc_conv list_ex_iff wk_env_def split: prod.splits)
  have "mp_mutation_kind sample_payload \<in> set STATUS_KINDS"
    by (simp add: sample_payload_def STATUS_KINDS_def)
  moreover have "we_during (wk_env dropping) sent_in = sent_in"
    by (simp add: wk_env_def)
  ultimately show ?thesis
    using lost_answer_stays_unknown [OF run _ w wk_payload _ dropped_answer t] run w by auto
qed

end
