(* ===== verification/WorkerAcks.thy ===== *)
theory WorkerAcks
  imports WorkerOutcomes
begin

text \<open>
  What a confirmation by the Meta worker rests on: a task is confirmed and an alert state moves only
  on the literal acknowledgement in the answer to the worker's own request.
\<close>

section \<open>Which alert rows a projection changes\<close>

lemma reset_elsewhere:
  "x \<noteq> ad \<Longrightarrow> reset_disabled_in_transaction now ad tbl x = tbl x"
  "x \<noteq> ad \<Longrightarrow> reset_enabled_in_transaction now ad tbl x = tbl x"
  by (simp_all add: reset_disabled_in_transaction_def reset_enabled_in_transaction_def)

lemma fold_elsewhere:
  assumes "\<And>ad tbl. x \<noteq> ad \<Longrightarrow> step ad tbl x = tbl x" "x \<notin> set ads"
  shows "fold step ads tbl x = tbl x"
  using assms(2) by (induction ads arbitrary: tbl) (auto simp: assms(1))

lemma sync_changes_reported:
  assumes "sync_fsm_after_mutation_in_transaction now p (Some res) tbl = Inr tbl'" "tbl' x \<noteq> tbl x"
  shows "mp_mutation_kind p \<in> {''pause_ad'', ''activate_ad''} \<and> x = mp_target_id p \<or>
    mp_mutation_kind p = ''bulk_status_change'' \<and>
      (\<exists>vs v. jget res ''modified_ids'' = JArr vs \<and> v \<in> set vs \<and> x = py_strip (py_str v))"
proof (cases "mp_mutation_kind p = ''bulk_status_change''")
  case False
  then show ?thesis
    using assms reset_elsewhere
    by (fastforce simp: sync_fsm_after_mutation_in_transaction_def Let_def split: if_splits)
next
  case True
  have "tbl' \<noteq> tbl"
    using assms(2) by auto
  then obtain ids en vs where toggle: "resolve_bulk_ad_toggle (mp_params p) = Inr (ids, en)" and r: "jget res ''modified_ids'' = JArr vs"
    "tbl' = fold (if en then reset_enabled_in_transaction now else reset_disabled_in_transaction now)
       (filter (\<lambda>i. i \<in> (\<lambda>v. py_strip (py_str v)) ` set vs) ids) tbl"
    using assms(1) True
    by (auto simp: sync_fsm_after_mutation_in_transaction_def obj_or_empty_def err_simps Let_def split: if_splits json.splits)
  have "x \<in> (\<lambda>v. py_strip (py_str v)) ` set vs"
  proof (rule ccontr)
    assume "x \<notin> (\<lambda>v. py_strip (py_str v)) ` set vs"
    then have "tbl' x = tbl x"
      unfolding r(2) by (intro fold_elsewhere) (auto simp: reset_elsewhere)
    then show False
      using assms(2) by simp
  qed
  then show ?thesis
    using True r(1) by blast
qed

lemma prepared_for_target:
  assumes "prepare_enable_grace_for_payload env c b p = Inr prepared" "grace_effect now prepared tbl x \<noteq> tbl x"
  shows "mp_mutation_kind p = ''activate_ad'' \<and> x = mp_target_id p"
proof -
  obtain g where g: "prepared = Some g" "x = pg_fb_ad_id g"
    using assms(2) by (auto simp: grace_effect_def split: option.splits if_splits)
  then obtain cap where k: "mp_mutation_kind p = ''activate_ad''"
    "prepare_enable_grace (mp_target_id p) (Some (mp_ad_account_id p)) cap (we_grace_seconds env) (Aware (py_now c)) b
       (we_cabinet_day env) (we_account_currency env) (we_grace_source env) = Inr g"
    using assms(1) by (auto simp: prepare_enable_grace_for_payload_def err_simps split: if_splits json.splits)
  then have "pg_fb_ad_id g = mp_target_id p"
    by (auto simp: prepare_enable_grace_def ebind_eq_Inr Let_def split: if_splits option.splits sum.splits)
  then show ?thesis
    using k(1) g(2) by simp
qed

section \<open>Finalization\<close>

lemma finalize_alerts:
  assumes "finalize_mutation c task p prepared result db = (db', tr, r)" "wd_alerts db' x \<noteq> wd_alerts db x"
  obtains res tbl where "sync_fsm_after_mutation_in_transaction (tx_now c) p (Some res) tbl = Inr (wd_alerts db')"
    "jget res ''modified_ids'' = jget result ''modified_ids''"
    "tbl = wd_alerts db \<or> tbl = grace_effect (tx_now c) prepared (wd_alerts db)"
proof -
  have same: "wd_alerts db2 = wd_alerts db" if "quietly (fail_task c task e res) db = (db2, tr2, r2)" for e res db2 tr2 r2
    using that by (auto simp: quietly_def fail_task_def wbind_eq queue_tx_eq)
  obtain a why where a: "assess_mutation_result p (JObj result) = (a, why)"
    by (cases "assess_mutation_result p (JObj result)")
  show thesis
  proof (cases a)
    case AInvalid
    then show thesis
      using assms a same by (auto simp: finalize_mutation_def)
  next
    case ARejected
    then show thesis
      using assms a same by (auto simp: finalize_mutation_def)
  next
    case APartial
    let ?res = "jmerge result [(''outcome'', JStr ''UNKNOWN''), (''reconcile_required'', JBool True),
               (''manual_review_required'', JBool True), (''reason'', JStr why)]"
    obtain m b err where "mark_failed_with_fsm c task p err ?res \<lparr>mq = cq (wd_cmd db), alerts = wd_alerts db\<rparr> = Inr (m, b)"
      "wd_alerts db' = alerts m"
      using assms a APartial by (auto simp: finalize_mutation_def quietly_def wbind_eq meta_tx_eq)
    then have "sync_fsm_after_mutation_in_transaction (tx_now c) p (Some ?res) (wd_alerts db) = Inr (wd_alerts db')"
      using with_alerts_Inr assms(2) unfolding mark_failed_with_fsm_def by (fastforce split: if_splits)
    then show thesis
      using that by (simp add: jget_jmerge)
  next
    case AConfirmed
    let ?res = "jmerge result [(''outcome'', JStr ''CONFIRMED'')]"
    obtain m b where "mark_confirmed_with_grace c task p ?res prepared \<lparr>mq = cq (wd_cmd db), alerts = wd_alerts db\<rparr> = Inr (m, b)"
      "wd_alerts db' = alerts m"
      using assms a AConfirmed by (auto simp: finalize_mutation_def quietly_def wbind_eq meta_tx_eq)
    then have "sync_fsm_after_mutation_in_transaction (tx_now c) p (Some ?res) (grace_effect (tx_now c) prepared (wd_alerts db))
        = Inr (wd_alerts db')"
      using with_alerts_Inr assms(2) unfolding mark_confirmed_with_grace_def by (fastforce split: if_splits)
    then show thesis
      using that by (simp add: jget_jmerge)
  qed
qed

lemma finalize_success:
  assumes "finalize_mutation c task p prepared result db = (db', tr, r)"
    "t \<in> set (tasks (cq (wd_cmd db')))" "t_status t = Succeeded" "t \<notin> set (tasks (cq (wd_cmd db)))"
  shows "fst (assess_mutation_result p (JObj result)) = AConfirmed"
proof -
  have failed: False if "quietly (fail_task c task e res) db = (db', tr, r)" for e res
    using assms(2-4) that unconfirming_quietly [OF unconfirming_fail_task] unfolding unconfirming_def by blast
  have partial: False if h: "quietly (meta_tx (mark_failed_with_fsm c task p err res)) db = (db', tr, r)" for err res
  proof -
    let ?m = "\<lparr>mq = cq (wd_cmd db), alerts = wd_alerts db\<rparr>"
    obtain m b where m: "mark_failed_with_fsm c task p err res ?m = Inr (m, b)" "cq (wd_cmd db') = mq m"
      using h assms(2,4) by (auto simp: quietly_def wbind_eq meta_tx_eq)
    then obtain e where "mark_failed c (t_id task) err (Some res) (t_lease_owner task) (Some (t_lease_token task)) e (mq ?m)
        = Inr (mq m, b)"
      using with_alerts_Inr unfolding mark_failed_with_fsm_def by blast
    then show False
      using assms(2-4) m(2) no_success_mark_failed unfolding no_new_success_def by fastforce
  qed
  obtain a why where a: "assess_mutation_result p (JObj result) = (a, why)"
    by (cases "assess_mutation_result p (JObj result)")
  then show ?thesis
    using assms(1) failed partial by (cases a) (auto simp: finalize_mutation_def)
qed

section \<open>Acknowledgement\<close>

text \<open>The advertisements a status command names, and Meta's literal acknowledgement of one of them.\<close>

definition commanded_ads :: "meta_payload \<Rightarrow> string list" where
  "commanded_ads p =
     (if mp_mutation_kind p = ''bulk_status_change''
      then (case extract_params (mp_params p) of Inr (ids, _) \<Rightarrow> ids | Inl _ \<Rightarrow> []) else [mp_target_id p])"

definition acked_ad :: "meta_payload \<Rightarrow> json \<Rightarrow> string \<Rightarrow> bool" where
  "acked_ad p response ad \<longleftrightarrow>
     (if mp_mutation_kind p = ''bulk_status_change''
      then list_ex (\<lambda>i. commanded_ads p ! i = ad \<and> acknowledged_in (length (commanded_ads p)) response i)
             [0..<length (commanded_ads p)]
      else ad = mp_target_id p \<and> (case response of JObj ob \<Rightarrow> jget ob ''success'' = JBool True | _ \<Rightarrow> False))"

lemma answer_acknowledges:
  assumes "execute_mutation dup client p = (sent, Inr result)" "mp_mutation_kind p \<in> set STATUS_KINDS" "call \<in> set sent"
  obtains response where "client call = Inr response"
    "fst (assess_mutation_result p (JObj result)) = AConfirmed \<Longrightarrow> list_all (acked_ad p response) (commanded_ads p)"
    "\<And>vs v. mp_mutation_kind p = ''bulk_status_change'' \<Longrightarrow> jget result ''modified_ids'' = JArr vs \<Longrightarrow> v \<in> set vs
       \<Longrightarrow> acked_ad p response (py_strip (py_str v))"
    "mp_mutation_kind p \<noteq> ''bulk_status_change'' \<Longrightarrow> acked_ad p response (mp_target_id p)"
proof (cases "mp_mutation_kind p = ''bulk_status_change''")
  case True
  then have "bulk_status_change_execute client p = (sent, Inr result)"
    using assms(1) by (simp add: execute_mutation_def dispatch_mutation_def)
  then obtain ids status call' response acked where b:
    "extract_params (mp_params p) = Inr (ids, status)" "sent = [call']" "client call' = Inr response"
    "acked = filter (\<lambda>i. acknowledged_in (length ids) response i) [0..<length ids]"
    "jget result ''modified_ids'' = JArr (map (\<lambda>i. JStr (ids ! i)) acked)"
    "assess_mutation_result p (JObj result) =
       (if acked = [0..<length ids] then (AConfirmed, ''handler_confirmed'')
        else if acked = [] then (ARejected, ''bulk_all_rejected'')
        else (APartial, ''bulk_partially_applied''))"
    by (rule bulk_outcome [OF True])
  have ids: "commanded_ads p = ids"
    using True b(1) by (simp add: commanded_ads_def)
  have ack: "acked_ad p response (ids ! i)" if "i \<in> set acked" for i
    using that b(4) True by (auto simp: acked_ad_def ids list_ex_iff)
  show thesis
  proof (rule that)
    show "client call = Inr response"
      using b(2,3) assms(3) by simp
    show "list_all (acked_ad p response) (commanded_ads p)" if "fst (assess_mutation_result p (JObj result)) = AConfirmed"
    proof -
      have "acked = [0..<length ids]"
        using that b(6) by (auto split: if_splits)
      then show ?thesis
        using ack by (auto simp: ids list_all_length)
    qed
    show "acked_ad p response (py_strip (py_str v))" if v: "jget result ''modified_ids'' = JArr vs" "v \<in> set vs" for vs v
    proof -
      obtain i where i: "i \<in> set acked" "v = JStr (ids ! i)" "i < length ids"
        using v b(4) unfolding b(5) by auto
      then have "py_strip (ids ! i) = ids ! i"
        using extract_params_numeric(2) [OF b(1), of "ids ! i"] by (simp add: strip_digits)
      then show ?thesis
        using ack [OF i(1)] i(2) by (simp add: py_str_def)
    qed
  qed (use True in simp)
next
  case False
  then have kind: "mp_mutation_kind p \<in> {''pause_ad'', ''activate_ad''}"
    using assms(2) by (auto simp: STATUS_KINDS_def)
  then obtain status where h: "execute_status status client p = (sent, Inr result)"
    using assms(1) by (auto simp: execute_mutation_def dispatch_mutation_def pause_ad_execute_def activate_ad_execute_def)
  obtain ob where "client call = Inr (JObj ob)" "jget ob ''success'' = JBool True"
    using status_handler_contract [OF h kind] assms(3) by auto
  then show thesis
    using that [of "JObj ob"] False by (simp add: acked_ad_def commanded_ads_def)
qed

text \<open>The states between the request and the end of the run.\<close>

definition keeps_unconfirmed :: "worker_db \<Rightarrow> worker_db \<Rightarrow> bool" where
  "keeps_unconfirmed db db' \<longleftrightarrow> wd_alerts db' = wd_alerts db \<and>
     (\<forall>t. t \<in> set (tasks (cq (wd_cmd db'))) \<longrightarrow> t_status t = Succeeded \<longrightarrow> t \<in> set (tasks (cq (wd_cmd db))))"

lemma handler_keeps: "handle_failure env c crossed task p e db = (db', tr, r) \<Longrightarrow> keeps_unconfirmed db db'"
  using unconfirming_handle_failure unfolding unconfirming_def keeps_unconfirmed_def by blast

lemma executed_outcome:
  assumes "wcatch (execute_and_finalize_mutation env task p prepared) (handle_failure env c True task p) db = (db', tr, r)"
  obtains (unsettled) "keeps_unconfirmed (we_during env db) db'"
  | (settled) result db2 tr2 r2 where "we_interrupt env = None"
      "snd (execute_mutation (we_duplicate env) (we_client env) p) = Inr result"
      "finalize_mutation (we_after env) task p prepared result (we_during env db) = (db2, tr2, r2)" "keeps_unconfirmed db2 db'"
proof (cases "we_interrupt env = None \<and> (\<exists>result. snd (execute_mutation (we_duplicate env) (we_client env) p) = Inr result)")
  case False
  then obtain e where "snd (snd (execute_with_touch env p db)) = Inl e"
    unfolding execute_with_touch_eq
    by (cases "snd (execute_mutation (we_duplicate env) (we_client env) p)"; cases "we_interrupt env") auto
  then have "\<exists>tr1. execute_and_finalize_mutation env task p prepared db = (we_during env db, tr1, Inl e)"
    unfolding execute_and_finalize_mutation_def wbind_def execute_with_touch_eq by simp
  then show thesis
    using assms unsettled handler_keeps unfolding wcatch_eq by auto
next
  case True
  then obtain result where res: "we_interrupt env = None"
    "snd (execute_mutation (we_duplicate env) (we_client env) p) = Inr result"
    by blast
  obtain db2 tr2 r2 where fin: "finalize_mutation (we_after env) task p prepared result (we_during env db) = (db2, tr2, r2)"
    by (cases "finalize_mutation (we_after env) task p prepared result (we_during env db)") auto
  then have "\<exists>tr1. execute_and_finalize_mutation env task p prepared db = (db2, tr1, r2)"
    unfolding execute_and_finalize_mutation_def wbind_def execute_with_touch_eq using res by simp
  then have "keeps_unconfirmed db2 db'"
    using assms handler_keeps unfolding wcatch_eq by (auto simp: keeps_unconfirmed_def)
  then show thesis
    using settled res fin by blast
qed

lemma finalize_ad:
  assumes "finalize_mutation c task p prepared result db = (db', tr, r)" "wd_alerts db' ad \<noteq> wd_alerts db ad"
    "prepare_enable_grace_for_payload env c' b p = Inr prepared"
  shows "mp_mutation_kind p \<in> {''pause_ad'', ''activate_ad''} \<and> ad = mp_target_id p \<or>
    mp_mutation_kind p = ''bulk_status_change'' \<and>
      (\<exists>vs v. jget result ''modified_ids'' = JArr vs \<and> v \<in> set vs \<and> ad = py_strip (py_str v))"
proof -
  obtain res tbl where s: "sync_fsm_after_mutation_in_transaction (tx_now c) p (Some res) tbl = Inr (wd_alerts db')"
    "jget res ''modified_ids'' = jget result ''modified_ids''"
    "tbl = wd_alerts db \<or> tbl = grace_effect (tx_now c) prepared (wd_alerts db)"
    by (rule finalize_alerts [OF assms(1,2)])
  show ?thesis
  proof (cases "wd_alerts db' ad = tbl ad")
    case True
    then show ?thesis
      using s(3) assms(2) prepared_for_target [OF assms(3)] by auto
  next
    case False
    then show ?thesis
      using sync_changes_reported [OF s(1)] s(2) by simp
  qed
qed

text \<open>
  C12. Only Meta's own word confirms: when a run sends the request of a status change, the alert state
  of an advertisement changes after the request only if the answer to that very request literally
  acknowledges this advertisement, and a task is newly confirmed only if the execution was not
  stopped and the answer acknowledges every advertisement of the command.
\<close>

theorem success_means_acknowledged:
  assumes "process_one_task env task db = (db', tr, r)" "(sent_in, call) \<in> set tr" "writes call"
    "from_dict (t_payload task) = Inr p" "mp_mutation_kind p \<in> set STATUS_KINDS"
  shows "(\<forall>ad. wd_alerts db' ad = wd_alerts (we_during env sent_in) ad \<or>
      (\<exists>response. we_client env call = Inr response \<and> acked_ad p response ad)) \<and>
    (\<forall>t. t \<in> set (tasks (cq (wd_cmd db'))) \<and> t_status t = Succeeded \<and>
        t \<notin> set (tasks (cq (wd_cmd (we_during env sent_in)))) \<longrightarrow>
      we_interrupt env = None \<and>
      (\<exists>response. we_client env call = Inr response \<and> list_all (acked_ad p response) (commanded_ads p)))"
proof -
  have kind: "mp_mutation_kind p \<noteq> ''duplicate_adset_structure''"
    using assms(5) by (auto simp: STATUS_KINDS_def)
  obtain task' prepared tr2 where
    c: "wcatch (execute_and_finalize_mutation env task' p prepared) (handle_failure env (we_after env) True task' p) sent_in
       = (db', tr2, r)"
    and call: "call \<in> set (fst (execute_mutation (we_duplicate env) (we_client env) p))"
    and prep: "prepare_enable_grace_for_payload env (we_gate env) True p = Inr prepared"
    by (rule write_executed [OF assms(1-4) kind])
  from c show ?thesis
  proof (cases rule: executed_outcome)
    case unsettled
    then show ?thesis
      by (auto simp: keeps_unconfirmed_def)
  next
    case (settled result db2 tr3 r3)
    have "execute_mutation (we_duplicate env) (we_client env) p =
        (fst (execute_mutation (we_duplicate env) (we_client env) p), Inr result)"
      using settled(2) by (simp add: prod_eq_iff)
    then obtain response where ack: "we_client env call = Inr response"
      "fst (assess_mutation_result p (JObj result)) = AConfirmed \<Longrightarrow> list_all (acked_ad p response) (commanded_ads p)"
      "\<And>vs v. mp_mutation_kind p = ''bulk_status_change'' \<Longrightarrow> jget result ''modified_ids'' = JArr vs \<Longrightarrow> v \<in> set vs
         \<Longrightarrow> acked_ad p response (py_strip (py_str v))"
      "mp_mutation_kind p \<noteq> ''bulk_status_change'' \<Longrightarrow> acked_ad p response (mp_target_id p)"
      by (rule answer_acknowledges [OF _ assms(5) call]) (rule that)
    have "acked_ad p response ad" if "wd_alerts db' ad \<noteq> wd_alerts (we_during env sent_in) ad" for ad
      using finalize_ad [OF settled(3) _ prep, of ad] that settled(4) ack(3,4) by (auto simp: keeps_unconfirmed_def)
    moreover have "fst (assess_mutation_result p (JObj result)) = AConfirmed"
      if "t \<in> set (tasks (cq (wd_cmd db')))" "t_status t = Succeeded"
        "t \<notin> set (tasks (cq (wd_cmd (we_during env sent_in))))" for t
      using finalize_success [OF settled(3)] that settled(4) by (auto simp: keeps_unconfirmed_def)
    ultimately show ?thesis
      using ack(1,2) settled(1) by blast
  qed
qed

theorem success_means_acknowledged_witness:
  "\<exists>db' sent_in call response.
     process_one_task (wk_env acknowledging) wk_task wk_db = (db', [(sent_in, call)], Inr ()) \<and>
     wd_alerts db' ''42'' \<noteq> wd_alerts sent_in ''42'' \<and> map t_status (tasks (cq (wd_cmd db'))) = [Succeeded] \<and>
     acknowledging call = Inr response \<and> acked_ad sample_payload response ''42'' \<and>
     list_all (acked_ad sample_payload response) [''42'']"
proof -
  obtain db' sent_in call t where run: "process_one_task (wk_env acknowledging) wk_task wk_db = (db', [(sent_in, call)], Inr ())"
    and w: "writes call" and alert: "wd_alerts db' ''42'' \<noteq> wd_alerts sent_in ''42''"
    and t: "tasks (cq (wd_cmd db')) = [t]" "t_status t = Succeeded" "t \<notin> set (tasks (cq (wd_cmd sent_in)))"
    using wk_run by (fastforce simp: length_Suc_conv map_eq_Cons_conv split: prod.splits)
  have kind: "mp_mutation_kind sample_payload \<in> set STATUS_KINDS" "commanded_ads sample_payload = [''42'']"
    by (simp_all add: sample_payload_def STATUS_KINDS_def commanded_ads_def)
  have env: "we_during (wk_env acknowledging) sent_in = sent_in" "we_client (wk_env acknowledging) = acknowledging"
    by (simp_all add: wk_env_def)
  note all = success_means_acknowledged [OF run _ w wk_payload kind(1), of sent_in, unfolded env kind(2)]
  then obtain response where r: "acknowledging call = Inr response" "list_all (acked_ad sample_payload response) [''42'']"
    using t by auto
  show ?thesis
    using run alert t r by (intro exI conjI) auto
qed

end
