(* ===== verification/WorkerReads.thy ===== *)
theory WorkerReads
  imports WorkerOutcomes
begin

text \<open>
  Reads of an unknown outcome by the Meta worker: a status that cannot be read is asked for again
  only a bounded number of times.
\<close>

section \<open>A read without an answer\<close>

text \<open>
  The read of the status failed for a temporary reason (other than the browser's readiness, which
  uses no attempt), or gave nothing that is a status.
\<close>

definition unanswered :: "client \<Rightarrow> meta_payload \<Rightarrow> bool" where
  "unanswered client p \<longleftrightarrow>
     (case client (read_status_call p) of
        Inl e \<Rightarrow> raised_as e CTemporaryError \<and> \<not> raised_as e CBrowserReadinessRejectedError
      | Inr (JObj ob) \<Rightarrow>
          (case status_of (jget ob ''status'') of
             None \<Rightarrow> True
           | Some s \<Rightarrow> s \<notin> set CONFIGURED_META_STATUS_VALUES \<or>
               jget ob ''effective_status'' \<noteq> JNull \<and> status_of (jget ob ''effective_status'') = None)
      | Inr _ \<Rightarrow> True)"

text \<open>Storing that the outcome is still unknown does not raise.\<close>

definition storable :: "clock \<Rightarrow> task \<Rightarrow> qdb \<Rightarrow> bool" where
  "storable c task q \<longleftrightarrow> (\<forall>err. \<exists>x. requeue_unknown_for_reconciliation c task err q = Inr x)"

lemma requeue_unknown_runs:
  assumes "storable c task (cq (wd_cmd db))"
  obtains q b where "requeue_unknown_for_reconciliation c task err (cq (wd_cmd db)) = Inr (q, b)"
    "requeue_unknown c task err db = (db\<lparr>wd_cmd := (wd_cmd db)\<lparr>cq := q\<rparr>\<rparr>, [], Inr ())"
proof -
  obtain q b where "requeue_unknown_for_reconciliation c task err (cq (wd_cmd db)) = Inr (q, b)"
    using assms unfolding storable_def by (metis surj_pair)
  then show thesis
    using that by (simp add: requeue_unknown_def quietly_def wbind_def queue_tx_def transact_def on_queue_def)
qed

lemma settle_unreadable:
  assumes "case v of JObj ob \<Rightarrow>
          (case status_of (jget ob ''status'') of
             None \<Rightarrow> True
           | Some s \<Rightarrow> s \<notin> set CONFIGURED_META_STATUS_VALUES \<or>
               jget ob ''effective_status'' \<noteq> JNull \<and> status_of (jget ob ''effective_status'') = None)
      | _ \<Rightarrow> True"
  shows "\<exists>err. settle_observed_status env task p desired v = wbind (requeue_unknown (we_gate env) task err) (\<lambda>_. wreturn None)"
proof (cases v)
  case (JObj ob)
  then show ?thesis
    using assms by (auto simp: settle_observed_status_def Let_def split: option.splits)
qed (auto simp: settle_observed_status_def Let_def)

lemma unanswered_reconcile:
  assumes "unanswered (we_client env) p" "mp_mutation_kind p \<in> {''pause_ad'', ''activate_ad''}"
    "storable (we_gate env) task (cq (wd_cmd db))"
  obtains err q b tr where "requeue_unknown_for_reconciliation (we_gate env) task err (cq (wd_cmd db)) = Inr (q, b)"
    "reconcile_unknown_status_action env task p db = (db\<lparr>wd_cmd := (wd_cmd db)\<lparr>cq := q\<rparr>\<rparr>, tr, Inr None)"
proof -
  let ?read = "send ([read_status_call p], we_client env (read_status_call p))"
  obtain desired where d: "map_of [(''pause_ad'', ''PAUSED''), (''activate_ad'', ''ACTIVE'')] (mp_mutation_kind p) = Some desired"
    "mp_mutation_kind p \<noteq> ''bulk_status_change''"
    using assms(2) by auto
  show thesis
  proof (cases "we_client env (read_status_call p)")
    case (Inl e)
    let ?err = "''status reconciliation unavailable: '' @ ex_text e"
    obtain q b where q: "requeue_unknown_for_reconciliation (we_gate env) task ?err (cq (wd_cmd db)) = Inr (q, b)"
      "requeue_unknown (we_gate env) task ?err db = (db\<lparr>wd_cmd := (wd_cmd db)\<lparr>cq := q\<rparr>\<rparr>, [], Inr ())"
      by (rule requeue_unknown_runs [OF assms(3)])
    have "\<exists>tr. reconcile_unknown_status_action env task p db = (db\<lparr>wd_cmd := (wd_cmd db)\<lparr>cq := q\<rparr>\<rparr>, tr, Inr None)"
      unfolding reconcile_unknown_status_action_def Let_def d(1) using d(2) assms(1) Inl q(2)
      by (simp add: unanswered_def wbind_def wcatch_def send_def wreturn_def)
    then show thesis
      using that q(1) by blast
  next
    case (Inr v)
    then obtain err where v: "settle_observed_status env task p desired v
        = wbind (requeue_unknown (we_gate env) task err) (\<lambda>_. wreturn None)"
      using assms(1) settle_unreadable [of v env task p desired] by (auto simp: unanswered_def)
    obtain q b where q: "requeue_unknown_for_reconciliation (we_gate env) task err (cq (wd_cmd db)) = Inr (q, b)"
      "requeue_unknown (we_gate env) task err db = (db\<lparr>wd_cmd := (wd_cmd db)\<lparr>cq := q\<rparr>\<rparr>, [], Inr ())"
      by (rule requeue_unknown_runs [OF assms(3)])
    have "\<exists>tr. reconcile_unknown_status_action env task p db = (db\<lparr>wd_cmd := (wd_cmd db)\<lparr>cq := q\<rparr>\<rparr>, tr, Inr None)"
      unfolding reconcile_unknown_status_action_def Let_def d(1) using d(2) Inr q(2) v
      by (simp add: wbind_def wcatch_def send_def wreturn_def)
    then show thesis
      using that q(1) by blast
  qed
qed

lemma unanswered_run:
  assumes "require_claimed_task task = Inr ()" "from_dict (t_payload task) = Inr p"
    "mp_mutation_kind p \<in> {''pause_ad'', ''activate_ad''}" "reconcile_required task" "unanswered (we_client env) p"
    "storable (we_gate env) task (cq (wd_cmd db))"
  obtains err q b tr where
    "requeue_unknown_for_reconciliation (we_gate env) task err (cq (wd_cmd db)) = Inr (q, b)"
    "process_one_task env task db = (db\<lparr>wd_cmd := (wd_cmd db)\<lparr>cq := q\<rparr>\<rparr>, tr, Inr ())"
proof -
  obtain err q b tr where r: "requeue_unknown_for_reconciliation (we_gate env) task err (cq (wd_cmd db)) = Inr (q, b)"
    "reconcile_unknown_status_action env task p db = (db\<lparr>wd_cmd := (wd_cmd db)\<lparr>cq := q\<rparr>\<rparr>, tr, Inr None)"
    by (rule unanswered_reconcile [OF assms(5,3,6)])
  have "\<not> is_duplicate_recovery_task task p"
    using assms(3) by (auto simp: is_duplicate_recovery_task_def)
  then have "process_one_task env task db = (db\<lparr>wd_cmd := (wd_cmd db)\<lparr>cq := q\<rparr>\<rparr>, tr, Inr ())"
    using assms(1,2,4) r(2) by (simp add: process_one_task_def process_payload_def wbind_def wcatch_def wreturn_def)
  then show thesis
    using that r(1) by blast
qed

section \<open>One read after another\<close>

text \<open>
  The run of a claimed task whose read had no answer left the task for the claim \<open>task'\<close>; the rows of
  the task were under the claim of the run.
\<close>

definition read_again :: "task \<Rightarrow> task \<Rightarrow> bool" where
  "read_again task task' \<longleftrightarrow>
     (\<exists>env db db' tr p t'. process_one_task env task db = (db', tr, Inr ()) \<and> from_dict (t_payload task) = Inr p \<and>
        mp_mutation_kind p \<in> {''pause_ad'', ''activate_ad''} \<and> reconcile_required task \<and> unanswered (we_client env) p \<and>
        storable (we_gate env) task (cq (wd_cmd db)) \<and>
        list_all (\<lambda>t. t_id t = t_id task \<longrightarrow>
            fence_live (we_gate env) (t_id task) (t_lease_owner task) (Some (t_lease_token task)) t \<and>
            t_max_attempts t = t_max_attempts task) (tasks (cq (wd_cmd db))) \<and>
        t' \<in> set (tasks (cq (wd_cmd db'))) \<and> t_id t' = t_id task \<and> t_status t' = Retrying \<and>
        t_attempt_count task' = t_attempt_count t' \<and> t_max_attempts task' = t_max_attempts t')"

lemma closed_is_not_retried:
  assumes "mark_failed c i err res ow k None q = Inr (q', b)" "t' \<in> set (tasks q')" "t_id t' = i" "t_status t' = Retrying"
  shows "\<exists>t \<in> set (tasks q). t_id t = i \<and> \<not> fence_live c i ow k t"
proof -
  define f :: "task \<Rightarrow> task" where "f t = t\<lparr>t_status := Failed, t_last_error := Some (clip err),
              t_result := (case res of None \<Rightarrow> t_result t | Some r \<Rightarrow> Some r),
              t_completed_at := Some (tx_now c), t_updated_at := tx_now c\<rparr>" for t :: task
  have "fenced c i ow k (\<lambda>t. True) f (\<lambda>t db1. ebind (run_effect None db1) (commit (project_failed c None t) True)) False q
      = Inr (q', b)"
    using assms(1) by (simp add: mark_failed_def f_def [abs_def])
  from fenced_result [OF this]
  have "tasks q' = tasks q \<or> tasks q' = map (\<lambda>t. if fence_live c i ow k t then f t else t) (tasks q)"
    by (auto simp: err_simps run_effect_def dest!: commit_frame)
  moreover have "t_status (f t) \<noteq> Retrying" for t
    by (simp add: f_def)
  ultimately have "t' \<in> set (tasks q)"
    using assms(2,4) by (auto split: if_splits)
  moreover have "\<not> fence_live c i ow k t'"
    using assms(4) by (simp add: fence_live_def)
  ultimately show ?thesis
    using assms(3) by blast
qed

lemma requeue_unknown_rows:
  assumes "requeue_unknown_for_reconciliation c task err q = Inr (q', b)" "t_attempt_count task + 1 < t_max_attempts task"
  obtains f where
    "tasks q' = map (\<lambda>t. if fence_live c (t_id task) (t_lease_owner task) (Some (t_lease_token task)) t then f t else t) (tasks q)"
    "\<And>t. t_attempt_count (f t) = t_attempt_count task + 1 \<and> t_max_attempts (f t) = t_max_attempts t \<and> t_id (f t) = t_id t"
proof -
  let ?f = "\<lambda>t. t\<lparr>t_status := Retrying, t_attempt_count := t_attempt_count task + 1, t_available_at := tx_now c,
      t_deadline_at := (if t_lane task = LMoney then None
        else Some (py_now c + secs (queue_wait_seconds (t_lane task)))),
      t_last_error := Some (clip err),
      t_result := Some (jmerge (obj_or_empty (t_result t))
        [(''outcome'', JStr ''UNKNOWN''), (''reconcile_required'', JBool True), (''unknown_at'', JNum (tx_now c))]),
      t_lease_owner := None, t_lease_expires_at := None, t_updated_at := tx_now c\<rparr>"
  show thesis
    by (rule that [of ?f]) (use assms in \<open>auto simp: requeue_unknown_for_reconciliation_def Let_def update_tasks_def\<close>)
qed

lemma read_again_uses_an_attempt:
  assumes "read_again task task'"
  shows "t_attempt_count task' = t_attempt_count task + 1" "t_max_attempts task' = t_max_attempts task"
    "t_attempt_count task + 1 < t_max_attempts task"
proof -
  obtain env db db' tr p t' where run: "process_one_task env task db = (db', tr, Inr ())" "from_dict (t_payload task) = Inr p"
      "mp_mutation_kind p \<in> {''pause_ad'', ''activate_ad''}" "reconcile_required task" "unanswered (we_client env) p"
      "storable (we_gate env) task (cq (wd_cmd db))"
    and rows: "\<forall>t \<in> set (tasks (cq (wd_cmd db))). t_id t = t_id task \<longrightarrow>
        fence_live (we_gate env) (t_id task) (t_lease_owner task) (Some (t_lease_token task)) t \<and>
        t_max_attempts t = t_max_attempts task"
    and t': "t' \<in> set (tasks (cq (wd_cmd db')))" "t_id t' = t_id task" "t_status t' = Retrying"
      "t_attempt_count task' = t_attempt_count t'" "t_max_attempts task' = t_max_attempts t'"
    using assms unfolding read_again_def list_all_iff by blast
  have claimed: "require_claimed_task task = Inr ()"
    using run(1) by (auto simp: process_one_task_def split: sum.splits)
  obtain err b where q: "requeue_unknown_for_reconciliation (we_gate env) task err (cq (wd_cmd db)) = Inr (cq (wd_cmd db'), b)"
    by (rule unanswered_run [OF claimed run(2-6)]) (use that run(1) in auto)
  have already: "jget (obj_or_empty (t_result task)) ''reconcile_required'' = JBool True"
    using run(4) by (auto simp: reconcile_required_def obj_or_empty_def split: option.splits)
  show more: "t_attempt_count task + 1 < t_max_attempts task"
  proof (rule ccontr)
    assume "\<not> ?thesis"
    then obtain b' res where "mark_failed (we_gate env) (t_id task) err res (t_lease_owner task) (Some (t_lease_token task)) None
        (cq (wd_cmd db)) = Inr (cq (wd_cmd db'), b')"
      using q already by (auto simp: requeue_unknown_for_reconciliation_def err_simps)
    from closed_is_not_retried [OF this t'(1-3)] rows show False
      by blast
  qed
  let ?live = "fence_live (we_gate env) (t_id task) (t_lease_owner task) (Some (t_lease_token task))"
  obtain f where f: "tasks (cq (wd_cmd db')) = map (\<lambda>t. if ?live t then f t else t) (tasks (cq (wd_cmd db)))"
    "\<And>t. t_attempt_count (f t) = t_attempt_count task + 1 \<and> t_max_attempts (f t) = t_max_attempts t \<and> t_id (f t) = t_id t"
    by (rule requeue_unknown_rows [OF q more]) (rule that)
  obtain t where "t \<in> set (tasks (cq (wd_cmd db)))" "t' = f t" "t_id t = t_id task"
    using t'(1,2) rows f by (auto split: if_splits)
  then show "t_attempt_count task' = t_attempt_count task + 1" "t_max_attempts task' = t_max_attempts task"
    using t'(4,5) f(2) rows by auto
qed

text \<open>
  C27. Reading an unknown outcome ends: when the status of the advertisement cannot be read, the task
  is left for another read at most as often as attempts remain, less one; the run after that closes
  it for a manual review. (A read refused because the browser is not ready waits for the browser
  and uses no attempt.)
\<close>

theorem unknown_reads_end:
  assumes "\<And>i. i < n \<Longrightarrow> read_again (f i) (f (Suc i))"
  shows "n = 0 \<or> t_attempt_count (f 0) + int n < t_max_attempts (f 0)"
proof -
  have *: "t_attempt_count (f i) = t_attempt_count (f 0) + int i \<and> t_max_attempts (f i) = t_max_attempts (f 0)" if "i \<le> n" for i
    using that
  proof (induction i)
    case (Suc i)
    then show ?case
      using read_again_uses_an_attempt(1,2) [OF assms [of i]] by simp
  qed simp
  show ?thesis
  proof (cases n)
    case (Suc m)
    then show ?thesis
      using read_again_uses_an_attempt(3) [OF assms [of m]] * [of m] by simp
  qed simp
qed

definition wk_unread :: task where
  "wk_unread = wk_task\<lparr>t_result := Some [(''outcome'', JStr ''UNKNOWN''), (''reconcile_required'', JBool True)]\<rparr>"

definition wk_unread_db :: worker_db where
  "wk_unread_db = wk_db\<lparr>wd_cmd := (wd_cmd wk_db)\<lparr>cq := q_db [wk_unread]\<rparr>\<rparr>"

lemma unread_reads: "unanswered (we_client (wk_env dropping)) sample_payload"
  by code_simp

lemma unread_rows:
  "list_all (\<lambda>t. t_id t = t_id wk_unread \<longrightarrow>
     fence_live (we_gate (wk_env dropping)) (t_id wk_unread) (t_lease_owner wk_unread) (Some (t_lease_token wk_unread)) t \<and>
     t_max_attempts t = t_max_attempts wk_unread) (tasks (cq (wd_cmd wk_unread_db)))"
  by code_simp

lemma unread_attempts: "t_attempt_count wk_unread = 0" "t_max_attempts wk_unread = 5"
  by code_simp+

lemma unread_storable: "storable (we_gate (wk_env dropping)) wk_unread (cq (wd_cmd wk_unread_db))"
  using unread_attempts
  by (simp add: storable_def requeue_unknown_for_reconciliation_def Let_def split: prod.split)

theorem unknown_reads_end_witness:
  "\<exists>task'. read_again wk_unread task' \<and> t_attempt_count wk_unread + 1 < t_max_attempts wk_unread"
proof -
  let ?env = "wk_env dropping"
  have p: "require_claimed_task wk_unread = Inr ()" "from_dict (t_payload wk_unread) = Inr sample_payload"
      "mp_mutation_kind sample_payload \<in> {''pause_ad'', ''activate_ad''}" "reconcile_required wk_unread"
    using wk_payload by (code_simp, simp_all add: wk_unread_def reconcile_required_def sample_payload_def)
  obtain err q b tr where q: "requeue_unknown_for_reconciliation (we_gate ?env) wk_unread err (cq (wd_cmd wk_unread_db)) = Inr (q, b)"
    and run: "process_one_task ?env wk_unread wk_unread_db = (wk_unread_db\<lparr>wd_cmd := (wd_cmd wk_unread_db)\<lparr>cq := q\<rparr>\<rparr>, tr, Inr ())"
    by (rule unanswered_run [OF p unread_reads unread_storable])
  have live: "fence_live (we_gate ?env) (t_id wk_unread) (t_lease_owner wk_unread) (Some (t_lease_token wk_unread)) wk_unread"
    by code_simp
  have ts: "tasks (cq (wd_cmd wk_unread_db)) = [wk_unread]"
    by (simp add: wk_unread_db_def q_db_def)
  obtain t' where t': "t' \<in> set (tasks q)" "t_id t' = t_id wk_unread" "t_status t' = Retrying"
    using q live unread_attempts by (auto simp: requeue_unknown_for_reconciliation_def update_tasks_def ts)
  have step: "read_again wk_unread t'"
    unfolding read_again_def using p(2-4) run t' unread_reads unread_rows unread_storable
    by (intro exI [of _ ?env] exI [of _ wk_unread_db] exI [of _ sample_payload] exI conjI) auto
  let ?f = "\<lambda>i :: nat. if i = 0 then wk_unread else t'"
  have "read_again (?f i) (?f (Suc i))" if "i < 1" for i
    using that step by simp
  from unknown_reads_end [of 1 ?f, OF this] step show ?thesis
    by auto
qed

end
