(* ===== verification/DuplicatePlan.thy ===== *)
theory DuplicatePlan
  imports MutationHandlers
begin

text \<open>
  The plan of an ad-set duplication: the digest that binds a queued plan to what the operator
  confirmed (\<open>core/adset_duplicates/plan_integrity.py\<close>) and the validation of the plan by the
  executor (\<open>_validate_plan\<close> of \<open>core/meta_api/mutations/duplicate_adset_structure.py\<close>). A digest is
  written as its lowercase hex text. \<open>datetime.fromisoformat\<close> is a parameter: the instant in
  microseconds and the offset, absent for a naive time.
\<close>

section \<open>plan\_integrity.py\<close>

text \<open>\<open>json.dumps(..., ensure_ascii=False, sort_keys=True, separators=(",", ":"))\<close>\<close>

definition canonical_char :: "char \<Rightarrow> string" where
  "canonical_char ch =
     (let n = of_char ch :: nat in if n < 32 \<or> n = 34 \<or> n = 92 then json_char ch else [ch])"

definition canonical_string :: "string \<Rightarrow> string" where
  "canonical_string s = [CHR 0x22] @ concat (map canonical_char s) @ [CHR 0x22]"

fun tight_commas :: "string list \<Rightarrow> string" where
  "tight_commas [] = []"
| "tight_commas [s] = s"
| "tight_commas (s # ss) = s @ '','' @ tight_commas ss"

fun canonical_json :: "json \<Rightarrow> string" where
  "canonical_json JNull = ''null''"
| "canonical_json (JBool b) = (if b then ''true'' else ''false'')"
| "canonical_json (JNum n) = string_of_int n"
| "canonical_json (JStr s) = canonical_string s"
| "canonical_json (JArr vs) = ''['' @ tight_commas (map canonical_json vs) @ '']''"
| "canonical_json (JObj ob) =
     ''{'' @ tight_commas (map (\<lambda>(k, s). canonical_string k @ '':'' @ s)
       (sort_key fst (map (\<lambda>(k, v). (k, canonical_json v)) ob))) @ ''}''"

definition canonical_duplicate_execution_payload :: "string \<Rightarrow> json \<Rightarrow> json \<Rightarrow> json \<Rightarrow> jobj result" where
  "canonical_duplicate_execution_payload kind target_id params account =
     (if kind \<noteq> ''duplicate_adset_structure'' then Inl (ValueError ''unexpected duplicate mutation_kind'')
      else case (case target_id of JStr s \<Rightarrow> Some s | JNum n \<Rightarrow> Some (string_of_int n) | _ \<Rightarrow> None) of
        None \<Rightarrow> Inl (ValueError ''target_id must be a numeric id'')
      | Some raw \<Rightarrow>
          let canonical_target_id = py_strip raw
          in if canonical_target_id = [] \<or> \<not> list_all is_digit canonical_target_id
             then Inl (ValueError ''target_id must be a numeric id'')
             else (case params of
               JObj ob \<Rightarrow>
                 ebind (require_ad_account_id account) (\<lambda>account_id.
                   Inr [(''mutation_kind'', JStr ''duplicate_adset_structure''), (''target_id'', JStr canonical_target_id),
                        (''params'', JObj (jdel ob ''plan_digest'')), (''ad_account_id'', JStr account_id)])
             | _ \<Rightarrow> Inl (ValueError ''params must be an object'')))"

definition duplicate_execution_plan_digest :: "string \<Rightarrow> json \<Rightarrow> json \<Rightarrow> json \<Rightarrow> string result" where
  "duplicate_execution_plan_digest kind target_id params account =
     ebind (canonical_duplicate_execution_payload kind target_id params account) (\<lambda>payload.
       Inr (sha256_hexdigest (canonical_json (JObj payload))))"

definition duplicate_execution_plan_digest_matches :: "string \<Rightarrow> json \<Rightarrow> json \<Rightarrow> json \<Rightarrow> json \<Rightarrow> bool result" where
  "duplicate_execution_plan_digest_matches kind target_id params account plan_digest =
     ebind (duplicate_execution_plan_digest kind target_id params account) (\<lambda>expected.
       Inr (case plan_digest of
              JStr s \<Rightarrow> length s = 64 \<and> list_all (\<lambda>ch. ch \<in> set hex_digits) s \<and> s = expected
            | _ \<Rightarrow> False))"

section \<open>\_validate\_plan\<close>

definition graph_ad_account_id :: "json \<Rightarrow> string result" where
  "graph_ad_account_id v = ebind (require_ad_account_id v) (\<lambda>s. Inr (''act_'' @ s))"

record dup_plan =
  pl_account_id :: string
  pl_source_campaign_id :: string
  pl_source_adset_id :: string
  pl_selected_ad_ids :: "string list"
  pl_campaign_count :: nat
  pl_adsets_per_campaign :: nat
  pl_budget_level :: string
  pl_currency :: string
  pl_currency_exponent :: int
  pl_daily_budget_minor_units :: int
  pl_start_time :: string
  pl_start_at :: int
  pl_campaign_names :: "string list"
  pl_adset_names :: "string list list"

definition MAX_SELECTED_ADS :: nat where
  "MAX_SELECTED_ADS = 10"

definition MAX_CREATED_ADS :: nat where
  "MAX_CREATED_ADS = 50"

text \<open>\<open>except ValueError as exc: raise MutationValidationError\<close>; what is no ValueError passes through.\<close>

definition as_validation_error :: "'a result \<Rightarrow> 'a result" where
  "as_validation_error r =
     (case r of
        Inl e \<Rightarrow> Inl (if isinstance (error_class e) CValueError then MutationValidationError ''malformed'' else e)
      | Inr x \<Rightarrow> Inr x)"

definition validate_account_id :: "string \<Rightarrow> string result" where
  "validate_account_id v = as_validation_error (graph_ad_account_id (JStr v))"

definition validate_ids :: "json \<Rightarrow> string list result" where
  "validate_ids v =
     (case v of
        JArr (x # xs) \<Rightarrow>
          ebind (emap require_numeric_id (x # xs)) (\<lambda>ids.
            if distinct ids then Inr ids else Inl (MutationValidationError ''duplicate ids are not allowed''))
      | _ \<Rightarrow> Inl (MutationValidationError ''expected a non-empty list''))"

definition validate_count :: "json \<Rightarrow> nat \<Rightarrow> nat result" where
  "validate_count v maximum =
     (case v of
        JNum n \<Rightarrow> if 1 \<le> n \<and> n \<le> int maximum then Inr (nat n) else Inl (MutationValidationError ''expected integer'')
      | _ \<Rightarrow> Inl (MutationValidationError ''expected integer''))"

definition validate_name :: "json \<Rightarrow> string result" where
  "validate_name v =
     (case v of
        JStr s \<Rightarrow>
          if py_strip s = [] \<or> length (py_strip s) > 400 then Inl (MutationValidationError ''every name must be 1..400 chars'')
          else Inr (py_strip s)
      | _ \<Rightarrow> Inl (MutationValidationError ''every name must be 1..400 chars''))"

definition validate_names :: "json \<Rightarrow> nat \<Rightarrow> string list result" where
  "validate_names v count =
     (case v of
        JArr vs \<Rightarrow>
          if length vs \<noteq> count then Inl (MutationValidationError ''expected exactly count names'')
          else emap validate_name vs
      | _ \<Rightarrow> Inl (MutationValidationError ''expected exactly count names''))"

definition is_list :: "json \<Rightarrow> bool" where
  "is_list v \<longleftrightarrow> (case v of JArr _ \<Rightarrow> True | _ \<Rightarrow> False)"

definition is_str :: "json \<Rightarrow> bool" where
  "is_str v \<longleftrightarrow> (case v of JStr _ \<Rightarrow> True | _ \<Rightarrow> False)"

text \<open>Names per campaign, one flat list for all targets, or one list shared by the campaigns.\<close>

definition validate_adset_names :: "json \<Rightarrow> nat \<Rightarrow> nat \<Rightarrow> string list list result" where
  "validate_adset_names v campaign_count adsets_per_campaign =
     (case v of
        JArr vs \<Rightarrow>
          let total = campaign_count * adsets_per_campaign
          in if length vs = campaign_count \<and> list_all is_list vs
             then emap (\<lambda>item. validate_names item adsets_per_campaign) vs
             else if length vs = total \<and> list_all is_str vs
             then ebind (validate_names v total) (\<lambda>flat.
               Inr (map (\<lambda>i. take adsets_per_campaign (drop (i * adsets_per_campaign) flat)) [0..<campaign_count]))
             else if length vs = adsets_per_campaign \<and> list_all is_str vs
             then ebind (validate_names v adsets_per_campaign) (\<lambda>shared. Inr (replicate campaign_count shared))
             else Inl (MutationValidationError ''adset_names'')
      | _ \<Rightarrow> Inl (MutationValidationError ''adset_names: expected a list''))"

type_synonym iso_parser = "string \<Rightarrow> (int \<times> int option) option"

text \<open>The text with a trailing Z replaced by the offset.\<close>

definition with_offset :: "string \<Rightarrow> string" where
  "with_offset s = (if s \<noteq> [] \<and> last s \<in> {CHR ''Z'', CHR ''z''} then butlast s @ ''+00:00'' else s)"

definition validate_start_time :: "iso_parser \<Rightarrow> int \<Rightarrow> bool \<Rightarrow> json \<Rightarrow> (string \<times> int) result" where
  "validate_start_time fromisoformat now require_future v =
     (case v of
        JStr s \<Rightarrow>
          let cleaned = py_strip s
          in if cleaned = [] then Inl (MutationValidationError ''start_time: expected ISO-8601 UTC string'')
             else (case fromisoformat (with_offset cleaned) of
               None \<Rightarrow> Inl (MutationValidationError ''start_time: expected ISO-8601 UTC string'')
             | Some (start_at, offset) \<Rightarrow>
                 if offset \<noteq> Some 0 then Inl (MutationValidationError ''start_time: timezone must be UTC'')
                 else if require_future \<and> start_at \<le> now then Inl (MutationValidationError ''start_time: must be in the future'')
                 else Inr (cleaned, start_at))
      | _ \<Rightarrow> Inl (MutationValidationError ''start_time: expected ISO-8601 UTC string''))"

definition exponent_of_json :: "json \<Rightarrow> exponent_arg" where
  "exponent_of_json v = (case v of JNum n \<Rightarrow> ExpInt n | JBool b \<Rightarrow> ExpBool b | _ \<Rightarrow> ExpOther)"

definition validate_plan :: "iso_parser \<Rightarrow> int \<Rightarrow> bool \<Rightarrow> meta_payload \<Rightarrow> dup_plan result" where
  "validate_plan fromisoformat now require_future_start p =
     (let params = mp_params p; value = jget (mp_params p)
      in ebind (as_validation_error (duplicate_execution_plan_digest_matches (mp_mutation_kind p) (JStr (mp_target_id p))
             (JObj params) (JStr (mp_ad_account_id p)) (value ''plan_digest''))) (\<lambda>digest_matches.
         if \<not> digest_matches then Inl (MutationValidationError ''plan_digest: malformed or does not match execution plan'')
         else
         ebind (validate_account_id (mp_ad_account_id p)) (\<lambda>account_id.
         ebind (require_numeric_id (value ''source_campaign_id'')) (\<lambda>source_campaign_id.
         ebind (require_numeric_id (value ''source_adset_id'')) (\<lambda>source_adset_id.
         if mp_target_id p \<noteq> source_adset_id then Inl (MutationValidationError ''target_id must match source_adset_id'')
         else
         ebind (validate_ids (value ''selected_ad_ids'')) (\<lambda>selected_ad_ids.
         if length selected_ad_ids > MAX_SELECTED_ADS then Inl (MutationValidationError ''selected_ad_ids'')
         else
         ebind (validate_count (value ''campaign_count'') 5) (\<lambda>campaign_count.
         ebind (validate_count (value ''adsets_per_campaign'') 10) (\<lambda>adsets_per_campaign.
         if campaign_count * adsets_per_campaign * length selected_ad_ids > MAX_CREATED_ADS
         then Inl (MutationValidationError ''too many ads'')
         else
         ebind (case value ''budget_level'' of
                  JStr s \<Rightarrow> if py_upper (py_strip s) \<in> {''ABO'', ''CBO''} then Inr (py_upper (py_strip s))
                    else Inl (MutationValidationError ''budget_level: expected ABO or CBO'')
                | _ \<Rightarrow> Inl (MutationValidationError ''budget_level: expected ABO or CBO'')) (\<lambda>budget_level.
         ebind (as_validation_error (checked_daily_budget_minor_units (AmText (py_str (value ''daily_budget'')))
                  (Some (str_or_empty (value ''currency''))) (exponent_of_json (value ''currency_exponent''))))
           (\<lambda>(currency, exponent, _, minor_units).
         ebind (validate_start_time fromisoformat now require_future_start (value ''start_time'')) (\<lambda>(start_time, start_at).
         ebind (validate_names (value ''campaign_names'') campaign_count) (\<lambda>campaign_names.
         ebind (validate_adset_names (value ''adset_names'') campaign_count adsets_per_campaign) (\<lambda>adset_names.
           Inr \<lparr>pl_account_id = account_id, pl_source_campaign_id = source_campaign_id, pl_source_adset_id = source_adset_id,
             pl_selected_ad_ids = selected_ad_ids, pl_campaign_count = campaign_count,
             pl_adsets_per_campaign = adsets_per_campaign, pl_budget_level = budget_level, pl_currency = currency,
             pl_currency_exponent = exponent, pl_daily_budget_minor_units = minor_units, pl_start_time = start_time,
             pl_start_at = start_at, pl_campaign_names = campaign_names, pl_adset_names = adset_names\<rparr>)))))))))))))"

end
