(* ===== verification/DuplicateStructure.thy ===== *)
theory DuplicateStructure
  imports DuplicatePlan
begin

text \<open>
  The executor of an ad-set duplication and its recovery
  (\<open>core/meta_api/mutations/duplicate_adset_structure.py\<close>). A run is a sequence of requests and
  checkpoints; what Meta answers and whether a checkpoint could be stored depends on everything
  that happened before, and each of these points may also be cancelled. The objects known to exist
  are kept in the state, because the exception branches read them.
\<close>

section \<open>Requests, state and steps\<close>

record dup_call = graph_call +
  gc_body :: "jobj option"

datatype dup_event = ECall dup_call | EProgress jobj

text \<open>\<open>CancelledError\<close> is no Exception and passes the handlers of exceptions.\<close>

datatype dup_stop = Raised exn | CancelledError

type_synonym dup_client = "dup_event list \<Rightarrow> dup_call \<Rightarrow> dup_stop + json"

text \<open>
  The client, the callback that stores a checkpoint, the client as the shielded cleanup sees it,
  whether that cleanup is cancelled a second time, the clock and \<open>datetime.fromisoformat\<close>.
\<close>

record dup_env =
  de_client :: dup_client
  de_progress :: "(dup_event list \<Rightarrow> jobj \<Rightarrow> dup_stop + unit) option"
  de_shielded :: "dup_event list \<Rightarrow> dup_call \<Rightarrow> json attempt"
  de_cancelled_again :: bool
  de_now :: int
  de_fromisoformat :: iso_parser

record source_ad =
  sa_ad_id :: string
  sa_name :: string
  sa_creative_id :: string

record dup_state =
  ds_log :: "dup_event list"
  ds_campaigns :: "string list"
  ds_adsets :: "string list"
  ds_ads :: "string list"
  ds_step :: string
  ds_responses :: "json list"
  ds_target_adsets :: "(string \<times> string) list"
  ds_target_ads :: "string \<Rightarrow> (string \<times> source_ad) list"

type_synonym 'a dup = "dup_state \<Rightarrow> dup_state \<times> (dup_stop + 'a)"

definition dreturn :: "'a \<Rightarrow> 'a dup" where
  "dreturn x s = (s, Inr x)"

definition dbind :: "'a dup \<Rightarrow> ('a \<Rightarrow> 'b dup) \<Rightarrow> 'b dup" where
  "dbind m f s = (case m s of (s1, Inl e) \<Rightarrow> (s1, Inl e) | (s1, Inr x) \<Rightarrow> f x s1)"

definition dattempt :: "'a attempt \<Rightarrow> 'a dup" where
  "dattempt r s = (s, case r of Inl e \<Rightarrow> Inl (Raised e) | Inr x \<Rightarrow> Inr x)"

definition dcatch :: "'a dup \<Rightarrow> (exn \<Rightarrow> 'a dup) \<Rightarrow> 'a dup" where
  "dcatch m h s = (case m s of (s1, Inl (Raised e)) \<Rightarrow> h e s1 | r \<Rightarrow> r)"

definition dmodify :: "(dup_state \<Rightarrow> dup_state) \<Rightarrow> unit dup" where
  "dmodify f s = (f s, Inr ())"

fun dloop :: "('a \<Rightarrow> unit dup) \<Rightarrow> 'a list \<Rightarrow> unit dup" where
  "dloop f [] = dreturn ()"
| "dloop f (x # xs) = dbind (f x) (\<lambda>_. dloop f xs)"

definition ask :: "dup_client \<Rightarrow> dup_call \<Rightarrow> json dup" where
  "ask client call s = (s\<lparr>ds_log := ds_log s @ [ECall call]\<rparr>, client (ds_log s) call)"

definition get_call :: "meta_payload \<Rightarrow> string \<Rightarrow> (string \<times> string) list \<Rightarrow> dup_call" where
  "get_call p endpoint params =
     \<lparr>gc_method = ''GET'', gc_endpoint = endpoint, gc_query_params = params, gc_ad_account_id = mp_ad_account_id p,
      gc_body = None\<rparr>"

definition post_call :: "meta_payload \<Rightarrow> string \<Rightarrow> jobj \<Rightarrow> dup_call" where
  "post_call p endpoint body =
     \<lparr>gc_method = ''POST'', gc_endpoint = endpoint, gc_query_params = [], gc_ad_account_id = mp_ad_account_id p,
      gc_body = Some body\<rparr>"

section \<open>Checks of an answer\<close>

definition runtime_error :: "string \<Rightarrow> 'a attempt" where
  "runtime_error txt = Inl (plain_exn CException txt)"

definition validation_error :: "string \<Rightarrow> 'a attempt" where
  "validation_error txt = Inl (plain_exn CMutationValidationError txt)"

definition remove_act :: "string \<Rightarrow> string" where
  "remove_act s = (if take 4 s = ''act_'' then drop 4 s else s)"

definition require_object_id :: "json \<Rightarrow> string \<Rightarrow> unit attempt" where
  "require_object_id row expected =
     (if \<not> is_dict row \<or> str_or_empty (jget (as_dict row) ''id'') \<noteq> expected
      then validation_error ''Graph returned the wrong object'' else Inr ())"

definition require_account :: "dup_plan \<Rightarrow> json \<Rightarrow> unit attempt" where
  "require_account plan row =
     (if remove_act (str_or_empty (jget (as_dict row) ''account_id'')) \<noteq> remove_act (pl_account_id plan)
      then validation_error ''object belongs to another ad account'' else Inr ())"

definition require_paused :: "json \<Rightarrow> unit attempt" where
  "require_paused row =
     (if py_upper (str_or_empty (jget (as_dict row) ''status'')) \<noteq> ''PAUSED'' then runtime_error ''expected PAUSED'' else Inr ())"

definition as_int :: "json \<Rightarrow> int \<Rightarrow> int" where
  "as_int v fallback =
     (case v of
        JNum n \<Rightarrow> n
      | JBool b \<Rightarrow> (if b then 1 else 0)
      | JStr s \<Rightarrow> (case parse_exponent (py_strip s) of Some n \<Rightarrow> n | None \<Rightarrow> fallback)
      | _ \<Rightarrow> fallback)"

definition require_budget :: "json \<Rightarrow> int \<Rightarrow> unit attempt" where
  "require_budget row expected =
     (if as_int (jget (as_dict row) ''daily_budget'') (- 1) \<noteq> expected then runtime_error ''daily_budget mismatch'' else Inr ())"

definition require_write_success :: "json \<Rightarrow> unit attempt" where
  "require_write_success response =
     (if \<not> is_dict response \<or> jget (as_dict response) ''success'' \<noteq> JBool True
      then runtime_error ''Graph write returned failure'' else Inr ())"

definition require_exact_response_keys :: "json \<Rightarrow> string list \<Rightarrow> string list \<Rightarrow> unit attempt" where
  "require_exact_response_keys row required optional =
     (if \<not> is_dict row then validation_error ''Graph returned a non-object''
      else if \<not> set required \<subseteq> set (map fst (as_dict row)) \<or> \<not> set (map fst (as_dict row)) \<subseteq> set (required @ optional)
      then validation_error ''Graph response schema mismatch'' else Inr ())"

fun checks :: "unit attempt list \<Rightarrow> unit attempt" where
  "checks [] = Inr ()"
| "checks (r # rs) = xbind r (\<lambda>_. checks rs)"

definition check :: "bool \<Rightarrow> unit attempt \<Rightarrow> unit attempt" where
  "check ok e = (if ok then Inr () else e)"

section \<open>Candidates\<close>

definition no_budget :: "json \<Rightarrow> bool" where
  "no_budget v \<longleftrightarrow> v \<in> {JNull, JStr [], JNum 0, JBool False, JStr ''0''}"

definition verify_created_campaign_candidate :: "dup_plan \<Rightarrow> jobj \<Rightarrow> string \<Rightarrow> nat \<Rightarrow> json \<Rightarrow> unit attempt" where
  "verify_created_campaign_candidate plan source campaign_id i row =
     checks
       [require_exact_response_keys row [''id'', ''account_id'', ''name'', ''objective'', ''status''] [''daily_budget''],
        require_object_id row campaign_id, require_account plan row, require_paused row,
        check (jget (as_dict row) ''name'' = JStr (pl_campaign_names plan ! i)
               \<and> jget (as_dict row) ''objective'' = jget source ''objective'') (validation_error ''type/name mismatch''),
        if pl_budget_level plan = ''CBO'' then require_budget row (pl_daily_budget_minor_units plan)
        else check (no_budget (jget (as_dict row) ''daily_budget'')) (validation_error ''unexpected campaign budget'')]"

definition verify_copied_adset_candidate :: "dup_plan \<Rightarrow> string \<Rightarrow> string \<Rightarrow> json \<Rightarrow> unit attempt" where
  "verify_copied_adset_candidate plan adset_id campaign_id row =
     checks
       [require_exact_response_keys row [''id'', ''account_id'', ''campaign_id'', ''status''] [],
        require_object_id row adset_id, require_account plan row, require_paused row,
        check (jget (as_dict row) ''campaign_id'' = JStr campaign_id) (validation_error ''parent mismatch'')]"

definition AD_KEYS :: "string list" where
  "AD_KEYS = [''id'', ''account_id'', ''campaign_id'', ''adset_id'', ''name'', ''status'', ''creative'']"

definition verify_created_ad_candidate :: "dup_plan \<Rightarrow> string \<Rightarrow> string \<Rightarrow> string \<Rightarrow> source_ad \<Rightarrow> json \<Rightarrow> unit attempt" where
  "verify_created_ad_candidate plan ad_id campaign_id adset_id src row =
     checks
       [require_exact_response_keys row AD_KEYS [], require_object_id row ad_id, require_account plan row, require_paused row,
        check (jget (as_dict row) ''campaign_id'' = JStr campaign_id \<and> jget (as_dict row) ''adset_id'' = JStr adset_id
               \<and> jget (as_dict row) ''name'' = JStr (sa_name src)
               \<and> is_dict (jget (as_dict row) ''creative'') \<and> set (map fst (as_dict (jget (as_dict row) ''creative''))) = {''id''}
               \<and> jget (as_dict (jget (as_dict row) ''creative'')) ''id'' = JStr (sa_creative_id src))
          (validation_error ''type/parent mismatch'')]"

definition extract_created_id :: "string \<Rightarrow> json \<Rightarrow> string attempt" where
  "extract_created_id key response =
     (if \<not> is_dict response \<or> set (map fst (as_dict response)) \<noteq> {key}
      then runtime_error ''creation response schema is not exact''
      else case jget (as_dict response) key of
        JStr s \<Rightarrow> if s \<noteq> [] \<and> list_all is_digit s \<and> 0 < int_of_digits s then Inr s
          else runtime_error ''creation response has no positive string id''
      | _ \<Rightarrow> runtime_error ''creation response has no positive string id'')"

definition source_ids :: "dup_plan \<Rightarrow> source_ad list \<Rightarrow> string list" where
  "source_ids plan sources =
     [pl_source_campaign_id plan, pl_source_adset_id plan] @ pl_selected_ad_ids plan @ map sa_creative_id sources"

definition created_ids :: "dup_state \<Rightarrow> string list" where
  "created_ids s = ds_campaigns s @ ds_adsets s @ ds_ads s"

definition require_fresh_created_id :: "dup_plan \<Rightarrow> source_ad list \<Rightarrow> string \<Rightarrow> unit dup" where
  "require_fresh_created_id plan sources object_id s =
     (s, if object_id \<in> set (source_ids plan sources) \<or> object_id \<in> set (created_ids s)
         then Inl (Raised (plain_exn CException ''creation response id collides with source or created provenance''))
         else Inr ())"

section \<open>Bodies\<close>

definition campaign_create_body :: "dup_plan \<Rightarrow> jobj \<Rightarrow> string \<Rightarrow> jobj" where
  "campaign_create_body plan source campaign_name =
     [(''name'', JStr campaign_name), (''objective'', jget source ''objective''),
      (''special_ad_categories'', json_or (jget source ''special_ad_categories'') (JArr [JStr ''NONE''])),
      (''status'', JStr ''PAUSED'')] @
     concat (map (\<lambda>key. if jget source key \<in> {JNull, JStr [], JArr []} then [] else [(key, jget source key)])
       [''buying_type'', ''bid_strategy'', ''special_ad_category_country'']) @
     (if pl_budget_level plan = ''CBO'' then [(''daily_budget'', JNum (pl_daily_budget_minor_units plan))] else [])"

definition copy_body :: "string \<Rightarrow> jobj" where
  "copy_body campaign_id =
     [(''campaign_id'', JStr campaign_id), (''deep_copy'', JBool False), (''status_option'', JStr ''PAUSED'')]"

definition adset_update_body :: "dup_plan \<Rightarrow> string \<Rightarrow> jobj" where
  "adset_update_body plan adset_name =
     [(''name'', JStr adset_name), (''status'', JStr ''PAUSED''), (''start_time'', JStr (pl_start_time plan))] @
     (if pl_budget_level plan = ''ABO'' then [(''daily_budget'', JNum (pl_daily_budget_minor_units plan))] else [])"

definition ad_create_body :: "source_ad \<Rightarrow> string \<Rightarrow> jobj" where
  "ad_create_body src adset_id =
     [(''name'', JStr (sa_name src)), (''adset_id'', JStr adset_id),
      (''creative'', JObj [(''creative_id'', JStr (sa_creative_id src))]), (''status'', JStr ''PAUSED'')]"

section \<open>Field lists\<close>

definition SOURCE_CAMPAIGN_FIELDS :: string where
  "SOURCE_CAMPAIGN_FIELDS =
     ''id,account_id,name,objective,special_ad_categories,special_ad_category_country,buying_type,bid_strategy,status,daily_budget''"

definition SOURCE_ADSET_FIELDS :: string where
  "SOURCE_ADSET_FIELDS =
     ''id,account_id,campaign_id,name,status,effective_status,daily_budget,start_time,billing_event,optimization_goal,'' @
     ''bid_strategy,bid_amount,targeting,promoted_object,attribution_spec,destination_type,pacing_type''"

definition SOURCE_AD_FIELDS :: string where
  "SOURCE_AD_FIELDS = ''id,account_id,campaign_id,adset_id,name,status,creative{id}''"

definition PROVE_CAMPAIGN_FIELDS :: string where
  "PROVE_CAMPAIGN_FIELDS = ''id,account_id,name,objective,status,daily_budget''"

definition PROVE_ADSET_FIELDS :: string where
  "PROVE_ADSET_FIELDS = ''id,account_id,campaign_id,status''"

definition PROVE_AD_FIELDS :: string where
  "PROVE_AD_FIELDS = ''id,account_id,campaign_id,adset_id,name,status,creative{id}''"

definition VERIFY_AD_FIELDS :: string where
  "VERIFY_AD_FIELDS = ''id,adset_id,status,effective_status,creative{id}''"

section \<open>The source\<close>

definition load_source_ad :: "dup_env \<Rightarrow> meta_payload \<Rightarrow> dup_plan \<Rightarrow> string \<Rightarrow> source_ad dup" where
  "load_source_ad env p plan ad_id =
     dbind (ask (de_client env) (get_call p (''/'' @ ad_id) [(''fields'', SOURCE_AD_FIELDS)])) (\<lambda>row.
     dattempt (xbind (checks
         [require_object_id row ad_id, require_account plan row,
          check (str_or_empty (jget (as_dict row) ''adset_id'') = pl_source_adset_id plan)
            (validation_error ''selected ad does not belong to source_adset_id''),
          check (str_or_empty (jget (as_dict row) ''campaign_id'') = pl_source_campaign_id plan)
            (validation_error ''selected ad does not belong to source_campaign_id'')]) (\<lambda>_.
       xbind (attempt_of (require_numeric_id (jget (as_dict (jget (as_dict row) ''creative'')) ''id''))) (\<lambda>creative_id.
         let name = py_strip (str_or_empty (jget (as_dict row) ''name''))
         in if name = [] then validation_error ''selected ad has no name''
            else Inr \<lparr>sa_ad_id = ad_id, sa_name = name, sa_creative_id = creative_id\<rparr>))))"

fun load_source_ads :: "dup_env \<Rightarrow> meta_payload \<Rightarrow> dup_plan \<Rightarrow> string list \<Rightarrow> source_ad list dup" where
  "load_source_ads env p plan [] = dreturn []"
| "load_source_ads env p plan (ad_id # ad_ids) =
     dbind (load_source_ad env p plan ad_id) (\<lambda>ad.
     dbind (load_source_ads env p plan ad_ids) (\<lambda>ads. dreturn (ad # ads)))"

definition load_and_validate_source :: "dup_env \<Rightarrow> meta_payload \<Rightarrow> dup_plan \<Rightarrow> (jobj \<times> source_ad list) dup" where
  "load_and_validate_source env p plan =
     dbind (ask (de_client env) (get_call p (''/'' @ pl_source_campaign_id plan) [(''fields'', SOURCE_CAMPAIGN_FIELDS)])) (\<lambda>campaign.
     dbind (ask (de_client env) (get_call p (''/'' @ pl_source_adset_id plan) [(''fields'', SOURCE_ADSET_FIELDS)])) (\<lambda>adset.
     dbind (dattempt (checks
       [require_object_id campaign (pl_source_campaign_id plan), require_object_id adset (pl_source_adset_id plan),
        require_account plan campaign, require_account plan adset,
        check (str_or_empty (jget (as_dict adset) ''campaign_id'') = pl_source_campaign_id plan)
          (validation_error ''source_adset_id does not belong to source_campaign_id''),
        check (truthy (jget (as_dict campaign) ''objective'')) (validation_error ''source campaign has no objective'')])) (\<lambda>_.
     dbind (load_source_ads env p plan (pl_selected_ad_ids plan)) (\<lambda>ads.
       dreturn (as_dict campaign, ads)))))"

section \<open>Checkpoints\<close>

definition created_json :: "string list \<Rightarrow> string list \<Rightarrow> string list \<Rightarrow> json" where
  "created_json campaigns adsets ads =
     JObj [(''campaigns'', JArr (map JStr campaigns)), (''adsets'', JArr (map JStr adsets)), (''ads'', JArr (map JStr ads))]"

definition failures_json :: "(string \<times> string) list \<Rightarrow> json" where
  "failures_json failures = JArr (map (\<lambda>(i, e). JObj [(''id'', JStr i), (''error'', JStr e)]) failures)"

text \<open>The time of the checkpoint, an ISO text in the code, is the number of microseconds.\<close>

definition checkpoint_json :: "int \<Rightarrow> string \<Rightarrow> string \<Rightarrow> (string \<times> string) list option \<Rightarrow> dup_state \<Rightarrow> jobj" where
  "checkpoint_json now phase step failures s =
     [(''checkpoint_type'', JStr ''duplicate_adset_structure''), (''checkpoint_version'', JNum 2),
      (''phase'', JStr phase), (''step'', JStr step),
      (''created_ids'', created_json (ds_campaigns s) (ds_adsets s) (ds_ads s)), (''checkpointed_at'', JNum now)] @
     (case failures of None \<Rightarrow> [] | Some fs \<Rightarrow> [(''cleanup_failures'', failures_json fs)])"

definition emit_progress :: "dup_env \<Rightarrow> string \<Rightarrow> string \<Rightarrow> (string \<times> string) list option \<Rightarrow> unit dup" where
  "emit_progress env phase step failures s =
     (case de_progress env of
        None \<Rightarrow> (s, Inr ())
      | Some callback \<Rightarrow>
          let checkpoint = checkpoint_json (de_now env) phase step failures s
          in (s\<lparr>ds_log := ds_log s @ [EProgress checkpoint]\<rparr>, callback (ds_log s) checkpoint))"

section \<open>Creation\<close>

definition at_step :: "string \<Rightarrow> unit dup" where
  "at_step step = dmodify (\<lambda>s. s\<lparr>ds_step := step\<rparr>)"

definition keep_response :: "json \<Rightarrow> unit dup" where
  "keep_response r = dmodify (\<lambda>s. s\<lparr>ds_responses := ds_responses s @ [r]\<rparr>)"

definition indexed :: "string \<Rightarrow> nat list \<Rightarrow> string \<Rightarrow> string" where
  "indexed name is suffix = name @ ''['' @ tight_commas (map (string_of_int o int) is @ (if suffix = [] then [] else [suffix])) @ '']''"

text \<open>A creating request, the identifier it returned, and the read that proves the object.\<close>

definition create_object ::
  "dup_env \<Rightarrow> meta_payload \<Rightarrow> dup_plan \<Rightarrow> source_ad list \<Rightarrow> string \<Rightarrow> jobj \<Rightarrow> string \<Rightarrow> string \<Rightarrow>
   (string \<Rightarrow> json \<Rightarrow> unit attempt) \<Rightarrow> string dup" where
  "create_object env p plan sources endpoint body key field_list candidate =
     dbind (ask (de_client env) (post_call p endpoint body)) (\<lambda>response.
     dbind (keep_response response) (\<lambda>_.
     dbind (dattempt (extract_created_id key response)) (\<lambda>object_id.
     dbind (require_fresh_created_id plan sources object_id) (\<lambda>_.
     dbind (ask (de_client env) (get_call p (''/'' @ object_id) [(''fields'', field_list)])) (\<lambda>proof_row.
     dbind (dattempt (candidate object_id proof_row)) (\<lambda>_. dreturn object_id))))))"

definition create_ad ::
  "dup_env \<Rightarrow> meta_payload \<Rightarrow> dup_plan \<Rightarrow> source_ad list \<Rightarrow> nat \<Rightarrow> nat \<Rightarrow> string \<Rightarrow> string \<Rightarrow> source_ad \<Rightarrow> unit dup" where
  "create_ad env p plan sources ci ai campaign_id adset_id src =
     dbind (at_step (indexed ''create_ad'' [ci, ai] (sa_ad_id src))) (\<lambda>_.
     dbind (create_object env p plan sources (''/'' @ pl_account_id plan @ ''/ads'') (ad_create_body src adset_id) ''id''
       PROVE_AD_FIELDS (\<lambda>ad_id. verify_created_ad_candidate plan ad_id campaign_id adset_id src)) (\<lambda>ad_id.
     dbind (dmodify (\<lambda>s. s\<lparr>ds_ads := ds_ads s @ [ad_id],
       ds_target_ads := (ds_target_ads s)(adset_id := ds_target_ads s adset_id @ [(ad_id, src)])\<rparr>)) (\<lambda>_.
     emit_progress env ''creating'' (indexed ''ad_created'' [ci, ai] (sa_ad_id src)) None)))"

definition create_adset ::
  "dup_env \<Rightarrow> meta_payload \<Rightarrow> dup_plan \<Rightarrow> source_ad list \<Rightarrow> nat \<Rightarrow> string \<Rightarrow> nat \<Rightarrow> unit dup" where
  "create_adset env p plan sources ci campaign_id ai =
     dbind (at_step (indexed ''copy_adset'' [ci, ai] [])) (\<lambda>_.
     dbind (create_object env p plan sources (''/'' @ pl_source_adset_id plan @ ''/copies'') (copy_body campaign_id)
       ''copied_adset_id'' PROVE_ADSET_FIELDS (\<lambda>adset_id. verify_copied_adset_candidate plan adset_id campaign_id)) (\<lambda>adset_id.
     dbind (dmodify (\<lambda>s. s\<lparr>ds_adsets := ds_adsets s @ [adset_id],
       ds_target_adsets := ds_target_adsets s @ [(adset_id, campaign_id)],
       ds_target_ads := (ds_target_ads s)(adset_id := [])\<rparr>)) (\<lambda>_.
     dbind (emit_progress env ''creating'' (indexed ''adset_created'' [ci, ai] []) None) (\<lambda>_.
     dbind (at_step (indexed ''configure_adset'' [ci, ai] [])) (\<lambda>_.
     dbind (ask (de_client env) (post_call p (''/'' @ adset_id) (adset_update_body plan (pl_adset_names plan ! ci ! ai)))) (\<lambda>response.
     dbind (dattempt (require_write_success response)) (\<lambda>_.
     dbind (keep_response response) (\<lambda>_.
     dloop (create_ad env p plan sources ci ai campaign_id adset_id) sources))))))))"

definition create_campaign ::
  "dup_env \<Rightarrow> meta_payload \<Rightarrow> dup_plan \<Rightarrow> jobj \<Rightarrow> source_ad list \<Rightarrow> nat \<Rightarrow> unit dup" where
  "create_campaign env p plan source sources ci =
     dbind (at_step (indexed ''create_campaign'' [ci] [])) (\<lambda>_.
     dbind (create_object env p plan sources (''/'' @ pl_account_id plan @ ''/campaigns'')
       (campaign_create_body plan source (pl_campaign_names plan ! ci)) ''id'' PROVE_CAMPAIGN_FIELDS
       (\<lambda>campaign_id. verify_created_campaign_candidate plan source campaign_id ci)) (\<lambda>campaign_id.
     dbind (dmodify (\<lambda>s. s\<lparr>ds_campaigns := ds_campaigns s @ [campaign_id]\<rparr>)) (\<lambda>_.
     dbind (emit_progress env ''creating'' (indexed ''campaign_created'' [ci] []) None) (\<lambda>_.
     dloop (create_adset env p plan sources ci campaign_id) [0..<pl_adsets_per_campaign plan]))))"

section \<open>Verification\<close>

definition verify_campaign :: "dup_env \<Rightarrow> meta_payload \<Rightarrow> dup_plan \<Rightarrow> string \<Rightarrow> unit dup" where
  "verify_campaign env p plan campaign_id =
     dbind (ask (de_client env) (get_call p (''/'' @ campaign_id) [(''fields'', ''id,status,daily_budget'')])) (\<lambda>row.
     dattempt (checks
       [require_object_id row campaign_id, require_paused row,
        if pl_budget_level plan = ''CBO'' then require_budget row (pl_daily_budget_minor_units plan) else Inr ()]))"

definition parse_graph_time :: "iso_parser \<Rightarrow> json \<Rightarrow> int option" where
  "parse_graph_time fromisoformat v =
     (case v of
        JStr s \<Rightarrow> (case fromisoformat (with_offset (py_strip s)) of Some (t, Some _) \<Rightarrow> Some t | _ \<Rightarrow> None)
      | _ \<Rightarrow> None)"

text \<open>The rows of an ad-set's ads as the map from their identifiers to their creatives.\<close>

fun verified_ads :: "json list \<Rightarrow> (string \<times> string) list attempt" where
  "verified_ads [] = Inr []"
| "verified_ads (row # rows) =
     (if \<not> is_dict row then runtime_error ''invalid ad verification row''
      else xbind (require_paused row) (\<lambda>_. xbind (verified_ads rows) (\<lambda>ads.
        Inr ((str_or_empty (jget (as_dict row) ''id''), str_or_empty (jget (as_dict (jget (as_dict row) ''creative'')) ''id'')) # ads))))"

text \<open>A later row with the same identifier replaces an earlier one.\<close>

definition same_dict :: "(string \<times> string) list \<Rightarrow> (string \<times> string) list \<Rightarrow> bool" where
  "same_dict xs ys \<longleftrightarrow>
     set (map fst xs) = set (map fst ys) \<and> list_all (\<lambda>k. map_of (rev xs) k = map_of (rev ys) k) (map fst xs)"

definition verify_adset :: "dup_env \<Rightarrow> meta_payload \<Rightarrow> dup_plan \<Rightarrow> string \<times> string \<Rightarrow> unit dup" where
  "verify_adset env p plan target =
     (let (adset_id, campaign_id) = target
      in dbind (ask (de_client env) (get_call p (''/'' @ adset_id)
             [(''fields'', ''id,campaign_id,status,daily_budget,lifetime_budget,start_time'')])) (\<lambda>row.
         dbind (dattempt (checks
           [require_object_id row adset_id, require_paused row,
            check (str_or_empty (jget (as_dict row) ''campaign_id'') = campaign_id) (runtime_error ''target campaign mismatch''),
            if pl_budget_level plan = ''ABO'' then checks
              [require_budget row (pl_daily_budget_minor_units plan),
               check (as_int (jget (as_dict row) ''lifetime_budget'') 0 = 0) (runtime_error ''ABO target retained lifetime_budget'')]
            else check (as_int (jget (as_dict row) ''daily_budget'') 0 = 0 \<and> as_int (jget (as_dict row) ''lifetime_budget'') 0 = 0)
              (runtime_error ''CBO target retained an ad-set budget''),
            check (parse_graph_time (de_fromisoformat env) (jget (as_dict row) ''start_time'') = Some (pl_start_at plan))
              (runtime_error ''start_time mismatch'')])) (\<lambda>_.
         dbind (ask (de_client env) (get_call p (''/'' @ adset_id @ ''/ads'')
           [(''fields'', VERIFY_AD_FIELDS), (''limit'', ''100'')])) (\<lambda>ads_response s.
           (s, case jget (as_dict ads_response) ''data'' of
                 JArr rows \<Rightarrow>
                   (case verified_ads rows of
                      Inl e \<Rightarrow> Inl (Raised e)
                    | Inr actual \<Rightarrow>
                        if same_dict actual (map (\<lambda>(ad_id, src). (ad_id, sa_creative_id src)) (ds_target_ads s adset_id))
                        then Inr () else Inl (Raised (plain_exn CException ''selected ad count/creative mismatch'')))
               | _ \<Rightarrow> Inl (Raised (plain_exn CException ''invalid ads verification response'')))))))"

definition verify_counts :: "dup_plan \<Rightarrow> unit dup" where
  "verify_counts plan s =
     (let expected_adsets = pl_campaign_count plan * pl_adsets_per_campaign plan
      in dattempt (checks
        [check (length (ds_campaigns s) = pl_campaign_count plan) (runtime_error ''campaign count mismatch''),
         check (length (ds_adsets s) = expected_adsets) (runtime_error ''ad set count mismatch''),
         check (length (ds_ads s) = expected_adsets * length (pl_selected_ad_ids plan)) (runtime_error ''ad count mismatch'')]) s)"

definition verify_structure :: "dup_env \<Rightarrow> meta_payload \<Rightarrow> dup_plan \<Rightarrow> unit dup" where
  "verify_structure env p plan s =
     dbind (verify_counts plan) (\<lambda>_.
     dbind (dloop (verify_campaign env p plan) (ds_campaigns s)) (\<lambda>_.
     dloop (verify_adset env p plan) (ds_target_adsets s))) s"

section \<open>Cleanup\<close>

definition pause_object :: "dup_client \<Rightarrow> meta_payload \<Rightarrow> string \<Rightarrow> unit dup" where
  "pause_object client p object_id =
     dbind (ask client (post_call p (''/'' @ object_id) [(''status'', JStr ''PAUSED'')])) (\<lambda>response.
     dbind (dattempt (require_write_success response)) (\<lambda>_.
     dbind (ask client (get_call p (''/'' @ object_id) [(''fields'', ''id,status,effective_status'')])) (\<lambda>row.
     dattempt (checks [require_object_id row object_id, require_paused row]))))"

fun pause_created :: "dup_client \<Rightarrow> meta_payload \<Rightarrow> string list \<Rightarrow> (string \<times> string) list dup" where
  "pause_created client p [] = dreturn []"
| "pause_created client p (object_id # object_ids) =
     dbind (dcatch (dbind (pause_object client p object_id) (\<lambda>_. dreturn []))
              (\<lambda>e. dreturn [(object_id, ex_text e)])) (\<lambda>failure.
     dbind (pause_created client p object_ids) (\<lambda>failures. dreturn (failure @ failures)))"

definition shielded_client :: "dup_env \<Rightarrow> dup_client" where
  "shielded_client env past call = (case de_shielded env past call of Inl e \<Rightarrow> Inl (Raised e) | Inr v \<Rightarrow> Inr v)"

definition partial_error :: "exn \<Rightarrow> (string \<times> string) list \<Rightarrow> dup_state \<Rightarrow> exn" where
  "partial_error e failures s =
     Exn CDuplicatePartialError None [] (''duplicate_adset_structure: failure at '' @ ds_step s @ '': '' @ ex_text e)
       [(''created_ids'', created_json (ds_campaigns s) (ds_adsets s) (ds_ads s)),
        (''failed_steps'', JArr [JObj [(''step'', JStr (ds_step s)), (''error'', JStr (ex_text e))]]),
        (''cleanup_failures'', failures_json failures)] (Some e)"

definition after_cancellation :: "dup_env \<Rightarrow> meta_payload \<Rightarrow> 'a dup" where
  "after_cancellation env p s =
     (let (s1, r) = pause_created (shielded_client env) p (created_ids s) s
      in if de_cancelled_again env then (s1, Inl CancelledError)
         else case r of
           Inl stop \<Rightarrow> (s1, Inl stop)
         | Inr failures \<Rightarrow>
             let (s2, _) = emit_progress env ''cancelled_cleanup'' (ds_step s1) (Some failures) s1 in (s2, Inl CancelledError))"

definition after_failure :: "dup_env \<Rightarrow> meta_payload \<Rightarrow> exn \<Rightarrow> 'a dup" where
  "after_failure env p e s =
     dbind (pause_created (de_client env) p (created_ids s)) (\<lambda>failures.
     dbind (\<lambda>s. dcatch (emit_progress env ''failed_cleanup'' (ds_step s) (Some failures)) (\<lambda>_. dreturn ()) s) (\<lambda>_ s.
       (s, Inl (Raised (partial_error e failures s))))) s"

section \<open>The executor\<close>

definition create_structure :: "dup_env \<Rightarrow> meta_payload \<Rightarrow> dup_plan \<Rightarrow> jobj \<Rightarrow> source_ad list \<Rightarrow> unit dup" where
  "create_structure env p plan source sources =
     dbind (dloop (create_campaign env p plan source sources) [0..<length (pl_campaign_names plan)]) (\<lambda>_.
     dbind (at_step ''verify_paused_structure'') (\<lambda>_.
     dbind (emit_progress env ''verifying_paused'' ''verify_paused_structure'' None) (\<lambda>_.
     dbind (verify_structure env p plan) (\<lambda>_.
     emit_progress env ''verified_paused'' ''verify_paused_structure_complete'' None))))"

definition structure_result :: "dup_plan \<Rightarrow> dup_state \<Rightarrow> jobj" where
  "structure_result plan s =
     success_result (JObj [(''calls'', JArr (ds_responses s))]) (created_ids s)
       [(''source_campaign_id'', JStr (pl_source_campaign_id plan)), (''source_adset_id'', JStr (pl_source_adset_id plan)),
        (''created_ids'', created_json (ds_campaigns s) (ds_adsets s) (ds_ads s)),
        (''campaign_count'', JNum (int (length (ds_campaigns s)))), (''adset_count'', JNum (int (length (ds_adsets s)))),
        (''ad_count'', JNum (int (length (ds_ads s)))), (''budget_level'', JStr (pl_budget_level plan)),
        (''creation_policy'', JStr ''all_paused'')]"

definition duplicate_execute :: "dup_env \<Rightarrow> meta_payload \<Rightarrow> jobj dup" where
  "duplicate_execute env p =
     dbind (dattempt (attempt_of (validate_plan (de_fromisoformat env) (de_now env) True p))) (\<lambda>plan.
     dbind (load_and_validate_source env p plan) (\<lambda>(source, sources) s.
       case create_structure env p plan source sources s of
         (s1, Inr _) \<Rightarrow> (s1, Inr (structure_result plan s1))
       | (s1, Inl CancelledError) \<Rightarrow> after_cancellation env p s1
       | (s1, Inl (Raised e)) \<Rightarrow> after_failure env p e s1))"

definition new_run :: dup_state where
  "new_run = \<lparr>ds_log = [], ds_campaigns = [], ds_adsets = [], ds_ads = [], ds_step = ''create_campaign'',
     ds_responses = [], ds_target_adsets = [], ds_target_ads = (\<lambda>_. [])\<rparr>"

end
