(* ===== verification/DuplicateRecovery.thy ===== *)
theory DuplicateRecovery
  imports DuplicateStructure
begin

text \<open>
  The recovery of an interrupted duplication from its last stored checkpoint
  (\<open>recover_checkpoint\<close> of \<open>core/meta_api/mutations/duplicate_adset_structure.py\<close>): the checkpoint is
  compared with the plan, every object it names is read and matched with its place in the plan,
  and only then paused.
\<close>

section \<open>The checkpoint against the plan\<close>

definition validate_checkpoint_against_plan :: "string list \<Rightarrow> string list \<Rightarrow> string list \<Rightarrow> dup_plan \<Rightarrow> unit attempt" where
  "validate_checkpoint_against_plan campaigns adsets ads plan =
     (let expected_adsets = pl_campaign_count plan * pl_adsets_per_campaign plan;
          expected_ads = expected_adsets * length (pl_selected_ad_ids plan)
      in checks
        [check (set ([pl_source_campaign_id plan, pl_source_adset_id plan] @ pl_selected_ad_ids plan)
                \<inter> set (campaigns @ adsets @ ads) = {}) (validation_error ''checkpoint collides with source ids''),
         check (length campaigns \<le> pl_campaign_count plan \<and> length adsets \<le> expected_adsets \<and> length ads \<le> expected_ads)
           (validation_error ''checkpoint exceeds task cardinality''),
         check (list_all (\<lambda>i. i div pl_adsets_per_campaign plan < length campaigns) [0..<length adsets])
           (validation_error ''adset has no checkpointed campaign parent''),
         check (list_all (\<lambda>i. i div length (pl_selected_ad_ids plan) < length adsets) [0..<length ads])
           (validation_error ''ad has no checkpointed adset parent'')])"

section \<open>The objects it names\<close>

definition verify_recovery_campaign :: "dup_env \<Rightarrow> meta_payload \<Rightarrow> dup_plan \<Rightarrow> nat \<times> string \<Rightarrow> unit dup" where
  "verify_recovery_campaign env p plan target =
     (let (i, campaign_id) = target
      in dbind (ask (de_client env) (get_call p (''/'' @ campaign_id) [(''fields'', PROVE_CAMPAIGN_FIELDS)])) (\<lambda>row.
         dattempt (checks
           [require_exact_response_keys row [''id'', ''account_id'', ''name'', ''objective'', ''status''] [''daily_budget''],
            require_object_id row campaign_id, require_account plan row,
            check (jget (as_dict row) ''name'' = JStr (pl_campaign_names plan ! i) \<and> nonblank_str (jget (as_dict row) ''objective''))
              (validation_error ''type/name mismatch'')])))"

definition verify_recovery_adset :: "dup_env \<Rightarrow> meta_payload \<Rightarrow> dup_plan \<Rightarrow> string list \<Rightarrow> nat \<times> string \<Rightarrow> unit dup" where
  "verify_recovery_adset env p plan campaigns target =
     (let (i, adset_id) = target; campaign_id = campaigns ! (i div pl_adsets_per_campaign plan)
      in dbind (ask (de_client env) (get_call p (''/'' @ adset_id) [(''fields'', PROVE_ADSET_FIELDS)])) (\<lambda>row.
         dattempt (checks
           [require_exact_response_keys row [''id'', ''account_id'', ''campaign_id'', ''status''] [],
            require_object_id row adset_id, require_account plan row,
            check (jget (as_dict row) ''campaign_id'' = JStr campaign_id) (validation_error ''parent mismatch'')])))"

definition verify_recovery_ad ::
  "dup_env \<Rightarrow> meta_payload \<Rightarrow> dup_plan \<Rightarrow> string list \<Rightarrow> string list \<Rightarrow> nat \<times> string \<Rightarrow> unit dup" where
  "verify_recovery_ad env p plan campaigns adsets target =
     (let (i, ad_id) = target; adset_index = i div length (pl_selected_ad_ids plan); adset_id = adsets ! adset_index;
          campaign_id = campaigns ! (adset_index div pl_adsets_per_campaign plan)
      in dbind (ask (de_client env) (get_call p (''/'' @ ad_id) [(''fields'', PROVE_AD_FIELDS)])) (\<lambda>row.
         dattempt (xbind (checks
           [require_exact_response_keys row AD_KEYS [], require_object_id row ad_id, require_account plan row,
            check (jget (as_dict row) ''campaign_id'' = JStr campaign_id \<and> jget (as_dict row) ''adset_id'' = JStr adset_id
                   \<and> nonblank_str (jget (as_dict row) ''name'') \<and> is_dict (jget (as_dict row) ''creative'')
                   \<and> set (map fst (as_dict (jget (as_dict row) ''creative''))) = {''id''})
              (validation_error ''type/parent mismatch'')]) (\<lambda>_.
           xbind (attempt_of (require_numeric_id (jget (as_dict (jget (as_dict row) ''creative'')) ''id''))) (\<lambda>_. Inr ())))))"

definition verify_recovery_objects ::
  "dup_env \<Rightarrow> meta_payload \<Rightarrow> dup_plan \<Rightarrow> string list \<Rightarrow> string list \<Rightarrow> string list \<Rightarrow> unit dup" where
  "verify_recovery_objects env p plan campaigns adsets ads =
     dbind (dloop (verify_recovery_campaign env p plan) (zip [0..<length campaigns] campaigns)) (\<lambda>_.
     dbind (dloop (verify_recovery_adset env p plan campaigns) (zip [0..<length adsets] adsets)) (\<lambda>_.
     dloop (verify_recovery_ad env p plan campaigns adsets) (zip [0..<length ads] ads)))"

section \<open>recover\_checkpoint\<close>

definition recover_checkpoint ::
  "dup_env \<Rightarrow> meta_payload \<Rightarrow> jobj \<Rightarrow> ((string list \<times> string list \<times> string list) \<times> (string \<times> string) list) dup" where
  "recover_checkpoint env p checkpoint =
     dbind (dattempt (attempt_of (validate_plan (de_fromisoformat env) (de_now env) False p))) (\<lambda>plan.
     dbind (dattempt (attempt_of (created_ids_from_checkpoint checkpoint))) (\<lambda>(campaigns, adsets, ads).
     dbind (dattempt (validate_checkpoint_against_plan campaigns adsets ads plan)) (\<lambda>_.
     dbind (verify_recovery_objects env p plan campaigns adsets ads) (\<lambda>_.
     dbind (pause_created (de_client env) p (campaigns @ adsets @ ads)) (\<lambda>failures.
       dreturn ((campaigns, adsets, ads), failures))))))"

end
