(* ===== verification/DuplicateRuns.thy ===== *)
theory DuplicateRuns
  imports DuplicateRecovery MutationProps
begin

text \<open>
  Proof rules for the steps of a duplication and the invariant of its runs. A triple has a condition
  on the state a step starts in, one on the state and value it ends with and one on the state and
  the exception or cancellation that stops it.
\<close>

section \<open>Rules\<close>

definition triple ::
  "(dup_state \<Rightarrow> bool) \<Rightarrow> 'a dup \<Rightarrow> ('a \<Rightarrow> dup_state \<Rightarrow> bool) \<Rightarrow> (dup_stop \<Rightarrow> dup_state \<Rightarrow> bool) \<Rightarrow> bool" where
  "triple P m Q E \<longleftrightarrow> (\<forall>s. P s \<longrightarrow> (case m s of (s1, Inr x) \<Rightarrow> Q x s1 | (s1, Inl e) \<Rightarrow> E e s1))"

lemma tripleI: "(\<And>s. P s \<Longrightarrow> case m s of (s1, Inr x) \<Rightarrow> Q x s1 | (s1, Inl e) \<Rightarrow> E e s1) \<Longrightarrow> triple P m Q E"
  by (simp add: triple_def)

lemma triple_Inr: "triple P m Q E \<Longrightarrow> P s \<Longrightarrow> m s = (s1, Inr x) \<Longrightarrow> Q x s1"
  by (fastforce simp: triple_def)

lemma triple_Inl: "triple P m Q E \<Longrightarrow> P s \<Longrightarrow> m s = (s1, Inl e) \<Longrightarrow> E e s1"
  by (fastforce simp: triple_def)

lemma triple_conseq:
  assumes "triple P m Q E" "\<And>s. P' s \<Longrightarrow> P s" "\<And>x s. Q x s \<Longrightarrow> Q' x s" "\<And>e s. E e s \<Longrightarrow> E' e s"
  shows "triple P' m Q' E'"
proof (rule tripleI)
  fix s assume "P' s"
  with assms show "case m s of (s1, Inr x) \<Rightarrow> Q' x s1 | (s1, Inl e) \<Rightarrow> E' e s1"
    by (auto simp: triple_def split: prod.split sum.split) (fastforce split: sum.splits)+
qed

lemma triple_return: "triple (Q x) (dreturn x) Q E"
  by (simp add: triple_def dreturn_def)

lemma triple_bind:
  assumes m: "triple P m R E" and f: "\<And>x. triple (R x) (f x) Q E"
  shows "triple P (dbind m f) Q E"
proof (rule tripleI)
  fix s assume "P s"
  obtain s1 r where r: "m s = (s1, r)" by (cases "m s")
  show "case dbind m f s of (s1, Inr x) \<Rightarrow> Q x s1 | (s1, Inl e) \<Rightarrow> E e s1"
  proof (cases r)
    case (Inl e)
    then show ?thesis using triple_Inl [OF m \<open>P s\<close>] r by (simp add: dbind_def)
  next
    case (Inr x)
    then have "R x s1" using triple_Inr [OF m \<open>P s\<close>] r by simp
    then show ?thesis using f [of x] Inr r by (simp add: dbind_def triple_def)
  qed
qed

lemma triple_attempt: "triple (\<lambda>s. P s \<and> (\<forall>x. r = Inr x \<longrightarrow> Q x s) \<and> (\<forall>e. E e s)) (dattempt r) (\<lambda>x s. r = Inr x \<and> Q x s) E"
  by (auto simp: triple_def dattempt_def split: sum.split)

lemma triple_modify: "triple (\<lambda>s. Q () (f s)) (dmodify f) Q E"
  by (simp add: triple_def dmodify_def)

lemma triple_loop:
  assumes "\<And>k. k < length xs \<Longrightarrow> triple (I k) (f (xs ! k)) (\<lambda>_. I (Suc k)) E"
  shows "triple (I 0) (dloop f xs) (\<lambda>_. I (length xs)) E"
  using assms
proof (induction xs arbitrary: I)
  case (Cons x xs)
  have "triple (I 0) (f x) (\<lambda>_. I (Suc 0)) E" using Cons.prems [of 0] by simp
  moreover have "triple (I (Suc 0)) (dloop f xs) (\<lambda>_. I (Suc (length xs))) E"
    by (rule Cons.IH [of "\<lambda>k. I (Suc k)"]) (use Cons.prems [of "Suc _"] in simp)
  ultimately show ?case by (simp add: triple_bind [where R = "\<lambda>_. I (Suc 0)"])
qed (simp add: triple_def dreturn_def)

section \<open>The invariant of a run\<close>

text \<open>One of the two status fields is given, and it is PAUSED.\<close>

definition asks_for_paused :: "jobj option \<Rightarrow> bool" where
  "asks_for_paused body \<longleftrightarrow>
     (case body of None \<Rightarrow> False
      | Some b \<Rightarrow> {jget b ''status'', jget b ''status_option''} = {JStr ''PAUSED'', JNull})"

definition creation_edges :: "dup_plan \<Rightarrow> string list" where
  "creation_edges plan =
     [''/'' @ pl_account_id plan @ ''/campaigns'', ''/'' @ pl_source_adset_id plan @ ''/copies'', ''/'' @ pl_account_id plan @ ''/ads'']"

text \<open>A read, or a write that asks for PAUSED and creates an object or addresses one created by this run.\<close>

definition safe_call :: "dup_plan \<Rightarrow> string list \<Rightarrow> dup_call \<Rightarrow> bool" where
  "safe_call plan created c \<longleftrightarrow>
     gc_method c = ''GET'' \<and> gc_body c = None
     \<or> gc_method c = ''POST'' \<and> asks_for_paused (gc_body c)
       \<and> (gc_endpoint c \<in> set (creation_edges plan) \<or> list_ex (\<lambda>i. gc_endpoint c = ''/'' @ i) created)"

text \<open>A checkpoint the recovery accepts for this plan, or one that names no object.\<close>

definition recoverable :: "dup_plan \<Rightarrow> jobj \<Rightarrow> bool" where
  "recoverable plan cp \<longleftrightarrow>
     (case created_ids_from_checkpoint cp of
        Inl _ \<Rightarrow> jget cp ''created_ids'' = created_json [] [] []
      | Inr (campaigns, adsets, ads) \<Rightarrow>
          jget cp ''created_ids'' = created_json campaigns adsets ads
          \<and> validate_checkpoint_against_plan campaigns adsets ads plan = Inr ())"

definition safe_event :: "dup_plan \<Rightarrow> string list \<Rightarrow> dup_event \<Rightarrow> bool" where
  "safe_event plan created ev = (case ev of ECall c \<Rightarrow> safe_call plan created c | EProgress cp \<Rightarrow> recoverable plan cp)"

definition numeric_text :: "string \<Rightarrow> bool" where
  "numeric_text s \<longleftrightarrow> s \<noteq> [] \<and> list_all is_digit s"

definition within_plan :: "dup_plan \<Rightarrow> dup_state \<Rightarrow> bool" where
  "within_plan plan s \<longleftrightarrow>
     length (ds_campaigns s) \<le> pl_campaign_count plan
     \<and> length (ds_adsets s) \<le> length (ds_campaigns s) * pl_adsets_per_campaign plan
     \<and> length (ds_ads s) \<le> length (ds_adsets s) * length (pl_selected_ad_ids plan)"

definition run_inv :: "dup_plan \<Rightarrow> source_ad list \<Rightarrow> dup_state \<Rightarrow> bool" where
  "run_inv plan sources s \<longleftrightarrow>
     list_all (safe_event plan (created_ids s)) (ds_log s) \<and> distinct (created_ids s)
     \<and> list_all numeric_text (created_ids s) \<and> set (created_ids s) \<inter> set (source_ids plan sources) = {} \<and> within_plan plan s"

definition sound_plan :: "dup_plan \<Rightarrow> bool" where
  "sound_plan plan \<longleftrightarrow>
     pl_campaign_count plan \<in> {1..5} \<and> pl_adsets_per_campaign plan \<in> {1..10}
     \<and> pl_campaign_count plan * pl_adsets_per_campaign plan * length (pl_selected_ad_ids plan) \<le> 50
     \<and> length (pl_campaign_names plan) = pl_campaign_count plan \<and> pl_selected_ad_ids plan \<noteq> []"

lemma safe_call_mono: "safe_call plan created c \<Longrightarrow> set created \<subseteq> set created' \<Longrightarrow> safe_call plan created' c"
  by (auto simp: safe_call_def list_ex_iff)

lemma safe_event_mono: "safe_event plan created ev \<Longrightarrow> set created \<subseteq> set created' \<Longrightarrow> safe_event plan created' ev"
  by (auto simp: safe_event_def safe_call_mono split: dup_event.splits)

lemma safe_get [simp]: "safe_call plan created (get_call p endpoint params)"
  by (simp add: safe_call_def get_call_def dup_call.defs)

lemma bodies_ask_for_paused [simp]:
  "asks_for_paused (Some [(''status'', JStr ''PAUSED'')])" "asks_for_paused (Some (copy_body campaign_id))"
  "asks_for_paused (Some (adset_update_body plan nm))" "asks_for_paused (Some (ad_create_body src adset_id))"
  "asks_for_paused (Some (campaign_create_body plan source nm))"
  by (auto simp: asks_for_paused_def jget_def copy_body_def adset_update_body_def ad_create_body_def campaign_create_body_def
      split: option.splits)

lemma safe_create:
  "asks_for_paused (Some body) \<Longrightarrow> endpoint \<in> set (creation_edges plan) \<Longrightarrow> safe_call plan created (post_call p endpoint body)"
  by (auto simp: safe_call_def post_call_def dup_call.defs)

lemma safe_update:
  "asks_for_paused (Some body) \<Longrightarrow> i \<in> set created \<Longrightarrow> safe_call plan created (post_call p (''/'' @ i) body)"
  by (auto simp: safe_call_def post_call_def dup_call.defs list_ex_iff)

section \<open>Checkpoints\<close>

lemma emap_numeric: "list_all numeric_text ids \<Longrightarrow> emap require_numeric_id (map JStr ids) = Inr ids"
  by (induction ids) (auto simp: numeric_text_def require_numeric_id_def)

lemma bucket_of_created:
  assumes "list_all numeric_text ids" "distinct ids" "length ids \<le> limit" "jget raw key = JArr (map JStr ids)"
  shows "checkpoint_bucket raw key limit = Inr ids"
  using assms by (simp add: checkpoint_bucket_def emap_numeric)

lemma parents_listed: "n \<le> m * k \<Longrightarrow> list_all (\<lambda>i. i div k < m) [0..<n]" for n m k :: nat
  by (auto simp: list_all_iff less_mult_imp_div_less)

lemma within_limits:
  assumes "within_plan plan s" "sound_plan plan"
  shows "length (ds_campaigns s) \<le> 5" "length (ds_adsets s) \<le> pl_campaign_count plan * pl_adsets_per_campaign plan"
    "length (ds_adsets s) \<le> 50"
    "length (ds_ads s) \<le> pl_campaign_count plan * pl_adsets_per_campaign plan * length (pl_selected_ad_ids plan)"
    "length (ds_ads s) \<le> 50"
proof -
  have w: "length (ds_campaigns s) \<le> pl_campaign_count plan"
    "length (ds_adsets s) \<le> length (ds_campaigns s) * pl_adsets_per_campaign plan"
    "length (ds_ads s) \<le> length (ds_adsets s) * length (pl_selected_ad_ids plan)"
    and p: "pl_campaign_count plan \<le> 5" "pl_adsets_per_campaign plan \<le> 10"
    "pl_campaign_count plan * pl_adsets_per_campaign plan * length (pl_selected_ad_ids plan) \<le> 50"
    using assms by (auto simp: within_plan_def sound_plan_def)
  show "length (ds_campaigns s) \<le> 5" using w p by linarith
  have "length (ds_campaigns s) * pl_adsets_per_campaign plan \<le> pl_campaign_count plan * pl_adsets_per_campaign plan"
    using w(1) by simp
  with w(2) show a: "length (ds_adsets s) \<le> pl_campaign_count plan * pl_adsets_per_campaign plan" by linarith
  have "pl_campaign_count plan * pl_adsets_per_campaign plan \<le> 5 * 10" using p by (intro mult_le_mono)
  with a show "length (ds_adsets s) \<le> 50" by linarith
  have "length (ds_adsets s) * length (pl_selected_ad_ids plan)
      \<le> pl_campaign_count plan * pl_adsets_per_campaign plan * length (pl_selected_ad_ids plan)"
    using a by simp
  with w(3) show d: "length (ds_ads s) \<le> pl_campaign_count plan * pl_adsets_per_campaign plan * length (pl_selected_ad_ids plan)"
    by linarith
  with p(3) show "length (ds_ads s) \<le> 50" by linarith
qed

lemma checkpoint_read_back:
  assumes i: "run_inv plan sources s" and p: "sound_plan plan" and "created_ids s \<noteq> []"
  shows "created_ids_from_checkpoint (checkpoint_json now phase step failures s) = Inr (ds_campaigns s, ds_adsets s, ds_ads s)"
proof -
  note l = within_limits [of plan s]
  have d: "distinct (created_ids s)" and n: "list_all numeric_text (created_ids s)" and "within_plan plan s"
    using i by (auto simp: run_inv_def)
  then show ?thesis using l p assms(3)
    by (auto simp: created_ids_from_checkpoint_def checkpoint_json_def created_json_def created_ids_def bucket_of_created
        ebind_def Int_commute)
qed

lemma checkpoint_fits_plan:
  assumes i: "run_inv plan sources s" and p: "sound_plan plan"
  shows "validate_checkpoint_against_plan (ds_campaigns s) (ds_adsets s) (ds_ads s) plan = Inr ()"
proof -
  have w: "within_plan plan s" using i by (simp add: run_inv_def)
  have "set ([pl_source_campaign_id plan, pl_source_adset_id plan] @ pl_selected_ad_ids plan)
      \<inter> set (ds_campaigns s @ ds_adsets s @ ds_ads s) = {}"
    using i by (auto simp: run_inv_def source_ids_def created_ids_def)
  then show ?thesis using within_limits [OF w p] w
    by (simp add: validate_checkpoint_against_plan_def check_def xbind_def Let_def parents_listed within_plan_def)
qed

lemma checkpoint_recoverable:
  assumes "run_inv plan sources s" "sound_plan plan"
  shows "recoverable plan (checkpoint_json now phase step failures s)"
proof (cases "created_ids s = []")
  case True
  then show ?thesis
    by (simp add: recoverable_def checkpoint_json_def created_json_def created_ids_def created_ids_from_checkpoint_def
        checkpoint_bucket_def ebind_def)
next
  case False
  then show ?thesis
    using checkpoint_read_back [OF assms False] checkpoint_fits_plan [OF assms]
    by (simp add: recoverable_def) (simp add: checkpoint_json_def)
qed

end
