(* ===== verification/DuplicateSteps.thy ===== *)
theory DuplicateSteps
  imports DuplicateRuns
begin

text \<open>
  The steps of the executor under the invariant of a run: each keeps it also when it stops, and the
  creating loops reach exactly the counts of the plan.
\<close>

section \<open>Single steps\<close>

text \<open>The invariant with exact counts and a condition on the objects created so far.\<close>

definition stage ::
  "dup_plan \<Rightarrow> source_ad list \<Rightarrow> nat \<Rightarrow> nat \<Rightarrow> nat \<Rightarrow> (string list \<Rightarrow> bool) \<Rightarrow> dup_state \<Rightarrow> bool" where
  "stage plan sources c a d F s \<longleftrightarrow>
     run_inv plan sources s \<and> length (ds_campaigns s) = c \<and> length (ds_adsets s) = a \<and> length (ds_ads s) = d \<and> F (created_ids s)"

abbreviation fresh :: "dup_plan \<Rightarrow> source_ad list \<Rightarrow> string \<Rightarrow> string list \<Rightarrow> bool" where
  "fresh plan sources i created \<equiv> i \<notin> set (source_ids plan sources) \<and> i \<notin> set created \<and> numeric_text i"

lemma run_inv_same:
  assumes "run_inv plan sources s" "ds_campaigns s' = ds_campaigns s" "ds_adsets s' = ds_adsets s" "ds_ads s' = ds_ads s"
    "ds_log s' = ds_log s"
  shows "run_inv plan sources s'"
  using assms by (simp add: run_inv_def created_ids_def within_plan_def)

lemma run_inv_log:
  "run_inv plan sources s \<Longrightarrow> safe_event plan (created_ids s) ev \<Longrightarrow> run_inv plan sources (s\<lparr>ds_log := ds_log s @ [ev]\<rparr>)"
  by (simp add: run_inv_def created_ids_def within_plan_def)

lemma run_inv_add:
  assumes "run_inv plan sources s" "set (created_ids s') = insert i (set (created_ids s))" "distinct (created_ids s')"
    "ds_log s' = ds_log s" "fresh plan sources i (created_ids s)" "within_plan plan s'"
  shows "run_inv plan sources s'"
  using assms unfolding run_inv_def by (auto simp: list_all_iff intro: safe_event_mono)

lemma ask_stage:
  assumes "\<And>s. F (created_ids s) \<Longrightarrow> safe_call plan (created_ids s) call"
  shows "triple (stage plan sources c a d F) (ask client call) (\<lambda>_. stage plan sources c a d F) (\<lambda>_. run_inv plan sources)"
proof (rule tripleI)
  fix s assume s: "stage plan sources c a d F s"
  let ?s = "s\<lparr>ds_log := ds_log s @ [ECall call]\<rparr>"
  have i: "run_inv plan sources ?s" using s assms by (intro run_inv_log) (simp_all add: stage_def safe_event_def)
  then have "stage plan sources c a d F ?s" using s by (simp add: stage_def created_ids_def)
  with i show "case ask client call s of (s1, Inr x) \<Rightarrow> stage plan sources c a d F s1 | (s1, Inl e) \<Rightarrow> run_inv plan sources s1"
    by (simp add: ask_def split: sum.split)
qed

lemmas get_stage = ask_stage [OF safe_get]

lemma attempt_stage:
  "triple (stage plan sources c a d F) (dattempt r) (\<lambda>x s. r = Inr x \<and> stage plan sources c a d F s) (\<lambda>_. run_inv plan sources)"
  by (auto simp: triple_def dattempt_def stage_def split: sum.split)

lemma attempt_unit_stage:
  "triple (stage plan sources c a d F) (dattempt r) (\<lambda>_. stage plan sources c a d F) (\<lambda>_. run_inv plan sources)"
  by (auto simp: triple_def dattempt_def stage_def split: sum.split)

lemma at_step_stage: "triple (stage plan sources c a d F) (at_step x) (\<lambda>_. stage plan sources c a d F) E"
  by (auto simp: triple_def at_step_def dmodify_def stage_def created_ids_def elim: run_inv_same)

lemma keep_response_stage: "triple (stage plan sources c a d F) (keep_response x) (\<lambda>_. stage plan sources c a d F) E"
  by (auto simp: triple_def keep_response_def dmodify_def stage_def created_ids_def elim: run_inv_same)

lemma emit_inv:
  assumes "sound_plan plan" "run_inv plan sources s"
  shows "run_inv plan sources (s\<lparr>ds_log := ds_log s @ [EProgress (checkpoint_json now phase x failures s)]\<rparr>)"
  using assms by (intro run_inv_log) (simp_all add: safe_event_def checkpoint_recoverable)

lemma emit_stage:
  assumes p: "sound_plan plan"
  shows "triple (stage plan sources c a d F) (emit_progress env phase x failures) (\<lambda>_. stage plan sources c a d F)
    (\<lambda>_. run_inv plan sources)"
proof (rule tripleI)
  fix s assume s: "stage plan sources c a d F s"
  let ?s = "s\<lparr>ds_log := ds_log s @ [EProgress (checkpoint_json (de_now env) phase x failures s)]\<rparr>"
  have i: "run_inv plan sources ?s" using s p by (simp add: stage_def emit_inv)
  then have "stage plan sources c a d F ?s" using s by (simp add: stage_def created_ids_def)
  with i s show "case emit_progress env phase x failures s of (s1, Inr _) \<Rightarrow> stage plan sources c a d F s1
      | (s1, Inl e) \<Rightarrow> run_inv plan sources s1"
    by (simp add: emit_progress_def Let_def split: option.split sum.split)
qed

lemma fresh_stage:
  "triple (stage plan sources c a d F) (require_fresh_created_id plan sources i)
     (\<lambda>_. stage plan sources c a d (\<lambda>xs. F xs \<and> i \<notin> set (source_ids plan sources) \<and> i \<notin> set xs)) (\<lambda>_. run_inv plan sources)"
  by (auto simp: triple_def require_fresh_created_id_def stage_def)

lemma extract_numeric: "extract_created_id key r = Inr i \<Longrightarrow> numeric_text i"
  by (auto simp: extract_created_id_def numeric_text_def runtime_error_def split: if_splits json.splits)

lemma create_object_stage:
  assumes body: "asks_for_paused (Some body)"
    and edge: "endpoint \<in> set (creation_edges plan)"
  shows "triple (stage plan sources c a d F) (create_object env p plan sources endpoint body key field_list candidate)
    (\<lambda>i. stage plan sources c a d (\<lambda>xs. F xs \<and> fresh plan sources i xs)) (\<lambda>_. run_inv plan sources)"
  unfolding create_object_def
proof (rule triple_bind [OF ask_stage [where F = F]])
  show "safe_call plan (created_ids s) (post_call p endpoint body)" for s by (rule safe_create [OF body edge])
  fix r
  let ?rest = "\<lambda>i. dbind (require_fresh_created_id plan sources i) (\<lambda>_.
     dbind (ask (de_client env) (get_call p (''/'' @ i) [(''fields'', field_list)])) (\<lambda>row.
     dbind (dattempt (candidate i row)) (\<lambda>_. dreturn i)))"
  have "triple (\<lambda>s. extract_created_id key r = Inr i \<and> stage plan sources c a d F s) (?rest i)
    (\<lambda>i. stage plan sources c a d (\<lambda>xs. F xs \<and> fresh plan sources i xs)) (\<lambda>_. run_inv plan sources)" for i
  proof (cases "numeric_text i")
    case True
    let ?F = "\<lambda>xs. F xs \<and> fresh plan sources i xs"
    have "triple (stage plan sources c a d F) (require_fresh_created_id plan sources i) (\<lambda>_. stage plan sources c a d ?F)
        (\<lambda>_. run_inv plan sources)"
      by (rule triple_conseq [OF fresh_stage]) (use True in \<open>auto simp: stage_def\<close>)
    then have "triple (stage plan sources c a d F) (?rest i) (\<lambda>i. stage plan sources c a d (\<lambda>xs. F xs \<and> fresh plan sources i xs))
        (\<lambda>_. run_inv plan sources)"
      by (intro triple_bind get_stage attempt_unit_stage) (assumption | rule triple_return get_stage attempt_unit_stage)+
    then show ?thesis by (rule triple_conseq) auto
  next
    case False
    then show ?thesis using extract_numeric by (auto simp: triple_def)
  qed
  then show "triple (stage plan sources c a d F) (dbind (keep_response r) (\<lambda>_. dbind (dattempt (extract_created_id key r)) ?rest))
    (\<lambda>i. stage plan sources c a d (\<lambda>xs. F xs \<and> fresh plan sources i xs)) (\<lambda>_. run_inv plan sources)"
    by (intro triple_bind [OF keep_response_stage] triple_bind [OF attempt_stage])
qed

section \<open>Objects\<close>

text \<open>\<open>has\<close>: the objects a later step addresses are among those created.\<close>

abbreviation has :: "string list \<Rightarrow> string list \<Rightarrow> bool" where
  "has ids created \<equiv> set ids \<subseteq> set created"

lemma add_campaign_stage:
  assumes "Suc c \<le> pl_campaign_count plan" "a \<le> c * pl_adsets_per_campaign plan" "d \<le> a * length (pl_selected_ad_ids plan)"
  shows "triple (stage plan sources c a d (\<lambda>xs. has ids xs \<and> fresh plan sources i xs))
    (dmodify (\<lambda>s. s\<lparr>ds_campaigns := ds_campaigns s @ [i]\<rparr>)) (\<lambda>_. stage plan sources (Suc c) a d (has (i # ids))) E"
proof (rule triple_conseq [OF triple_modify])
  fix s assume s: "stage plan sources c a d (\<lambda>xs. has ids xs \<and> fresh plan sources i xs) s"
  let ?s = "s\<lparr>ds_campaigns := ds_campaigns s @ [i]\<rparr>"
  have "run_inv plan sources ?s"
    by (rule run_inv_add [of plan sources s _ i])
      (use s assms in \<open>auto simp: stage_def created_ids_def run_inv_def within_plan_def\<close>)
  then show "stage plan sources (Suc c) a d (has (i # ids)) ?s" using s by (auto simp: stage_def created_ids_def)
qed

lemma add_adset_stage:
  assumes "Suc a \<le> c * pl_adsets_per_campaign plan" "d \<le> a * length (pl_selected_ad_ids plan)"
  shows "triple (stage plan sources c a d (\<lambda>xs. has ids xs \<and> fresh plan sources i xs))
    (dmodify (\<lambda>s. s\<lparr>ds_adsets := ds_adsets s @ [i], ds_target_adsets := ts s, ds_target_ads := ta s\<rparr>))
    (\<lambda>_. stage plan sources c (Suc a) d (has (i # ids))) E"
proof (rule triple_conseq [OF triple_modify])
  fix s assume s: "stage plan sources c a d (\<lambda>xs. has ids xs \<and> fresh plan sources i xs) s"
  let ?s = "s\<lparr>ds_adsets := ds_adsets s @ [i], ds_target_adsets := ts s, ds_target_ads := ta s\<rparr>"
  have "run_inv plan sources ?s"
    by (rule run_inv_add [of plan sources s _ i])
      (use s assms in \<open>auto simp: stage_def created_ids_def run_inv_def within_plan_def\<close>)
  then show "stage plan sources c (Suc a) d (has (i # ids)) ?s" using s by (auto simp: stage_def created_ids_def)
qed

lemma add_ad_stage:
  assumes "Suc d \<le> a * length (pl_selected_ad_ids plan)"
  shows "triple (stage plan sources c a d (\<lambda>xs. has ids xs \<and> fresh plan sources i xs))
    (dmodify (\<lambda>s. s\<lparr>ds_ads := ds_ads s @ [i], ds_target_ads := ta s\<rparr>))
    (\<lambda>_. stage plan sources c a (Suc d) (has ids)) E"
proof (rule triple_conseq [OF triple_modify])
  fix s assume s: "stage plan sources c a d (\<lambda>xs. has ids xs \<and> fresh plan sources i xs) s"
  let ?s = "s\<lparr>ds_ads := ds_ads s @ [i], ds_target_ads := ta s\<rparr>"
  have "run_inv plan sources ?s"
    by (rule run_inv_add [of plan sources s _ i])
      (use s assms in \<open>auto simp: stage_def created_ids_def run_inv_def within_plan_def\<close>)
  then show "stage plan sources c a (Suc d) (has ids) ?s" using s by (auto simp: stage_def created_ids_def)
qed

section \<open>Loops\<close>

lemma create_ad_stage:
  assumes p: "sound_plan plan" and "Suc d \<le> a * length (pl_selected_ad_ids plan)"
  shows "triple (stage plan sources c a d (has ids)) (create_ad env p plan sources ci ai campaign_id adset_id src)
    (\<lambda>_. stage plan sources c a (Suc d) (has ids)) (\<lambda>_. run_inv plan sources)"
  unfolding create_ad_def
  by (rule triple_bind [OF at_step_stage] triple_bind [OF create_object_stage] triple_bind [OF add_ad_stage] emit_stage p assms
      | simp add: creation_edges_def)+

lemma create_adset_stage:
  assumes p: "sound_plan plan" and a: "Suc a \<le> c * pl_adsets_per_campaign plan"
    and d: "d = a * length (pl_selected_ad_ids plan)" and l: "length sources = length (pl_selected_ad_ids plan)"
  shows "triple (stage plan sources c a d (has [])) (create_adset env p plan sources ci campaign_id ai)
    (\<lambda>_. stage plan sources c (Suc a) (d + length sources) (has [])) (\<lambda>_. run_inv plan sources)"
  unfolding create_adset_def
proof (rule triple_bind [OF at_step_stage], rule triple_bind [OF create_object_stage])
  fix i
  have "triple (stage plan sources c (Suc a) (d + k) (has [])) (create_ad env p plan sources ci ai campaign_id i (sources ! k))
    (\<lambda>_. stage plan sources c (Suc a) (d + Suc k) (has [])) (\<lambda>_. run_inv plan sources)" if "k < length sources" for k
    using create_ad_stage [OF p, of "d + k" "Suc a" sources c "[]" env p ci ai campaign_id i "sources ! k"] that d l by simp
  then have loop: "triple (stage plan sources c (Suc a) d (has [])) (dloop (create_ad env p plan sources ci ai campaign_id i) sources)
    (\<lambda>_. stage plan sources c (Suc a) (d + length sources) (has [])) (\<lambda>_. run_inv plan sources)"
    using triple_loop [of sources "\<lambda>k. stage plan sources c (Suc a) (d + k) (has [])"
        "create_ad env p plan sources ci ai campaign_id i" "\<lambda>_. run_inv plan sources"] by simp
  have weaken: "triple (stage plan sources c (Suc a) d (has [i])) (dloop (create_ad env p plan sources ci ai campaign_id i) sources)
    (\<lambda>_. stage plan sources c (Suc a) (d + length sources) (has [])) (\<lambda>_. run_inv plan sources)"
    by (rule triple_conseq [OF loop]) (auto simp: stage_def)
  show "triple (stage plan sources c a d (\<lambda>xs. has [] xs \<and> fresh plan sources i xs))
     (dbind (dmodify (\<lambda>s. s\<lparr>ds_adsets := ds_adsets s @ [i], ds_target_adsets := ds_target_adsets s @ [(i, campaign_id)],
          ds_target_ads := (ds_target_ads s)(i := [])\<rparr>)) (\<lambda>_.
      dbind (emit_progress env ''creating'' (indexed ''adset_created'' [ci, ai] []) None) (\<lambda>_.
      dbind (at_step (indexed ''configure_adset'' [ci, ai] [])) (\<lambda>_.
      dbind (ask (de_client env) (post_call p (''/'' @ i) (adset_update_body plan (pl_adset_names plan ! ci ! ai)))) (\<lambda>response.
      dbind (dattempt (require_write_success response)) (\<lambda>_.
      dbind (keep_response response) (\<lambda>_.
      dloop (create_ad env p plan sources ci ai campaign_id i) sources)))))))
     (\<lambda>_. stage plan sources c (Suc a) (d + length sources) (has [])) (\<lambda>_. run_inv plan sources)"
    by (rule triple_bind [OF add_adset_stage] triple_bind [OF emit_stage] triple_bind [OF at_step_stage] triple_bind [OF ask_stage]
        triple_bind [OF attempt_unit_stage] triple_bind [OF keep_response_stage] weaken a p safe_update
        | simp add: d)+
qed (simp_all add: creation_edges_def)

lemma create_campaign_stage:
  assumes p: "sound_plan plan" and c: "c < pl_campaign_count plan" and l: "length sources = length (pl_selected_ad_ids plan)"
  defines "n \<equiv> pl_adsets_per_campaign plan"
  shows "triple (stage plan sources c (c * n) (c * n * length sources) (has [])) (create_campaign env p plan source sources c)
    (\<lambda>_. stage plan sources (Suc c) (Suc c * n) (Suc c * n * length sources) (has [])) (\<lambda>_. run_inv plan sources)"
  unfolding create_campaign_def
proof (rule triple_bind [OF at_step_stage], rule triple_bind [OF create_object_stage])
  fix i
  let ?I = "\<lambda>k. stage plan sources (Suc c) (c * n + k) ((c * n + k) * length sources) (has [])"
  have "triple (?I k) (create_adset env p plan sources c i ([0..<n] ! k)) (\<lambda>_. ?I (Suc k)) (\<lambda>_. run_inv plan sources)"
    if "k < n" for k
    using create_adset_stage [OF p _ _ l, of "c * n + k" "Suc c" "(c * n + k) * length sources" env p c i "[0..<n] ! k"] that l
    by (simp add: n_def add.commute)
  then have loop: "triple (?I 0) (dloop (create_adset env p plan sources c i) [0..<n]) (\<lambda>_. ?I n) (\<lambda>_. run_inv plan sources)"
    using triple_loop [of "[0..<n]" ?I "create_adset env p plan sources c i" "\<lambda>_. run_inv plan sources"] by simp
  have weaken: "triple (stage plan sources (Suc c) (c * n) (c * n * length sources) (has [i]))
      (dloop (create_adset env p plan sources c i) [0..<n])
      (\<lambda>_. stage plan sources (Suc c) (Suc c * n) (Suc c * n * length sources) (has [])) (\<lambda>_. run_inv plan sources)"
    by (rule triple_conseq [OF loop]) (auto simp: stage_def algebra_simps)
  show "triple (stage plan sources c (c * n) (c * n * length sources) (\<lambda>xs. has [] xs \<and> fresh plan sources i xs))
     (dbind (dmodify (\<lambda>s. s\<lparr>ds_campaigns := ds_campaigns s @ [i]\<rparr>)) (\<lambda>_.
      dbind (emit_progress env ''creating'' (indexed ''campaign_created'' [c] []) None) (\<lambda>_.
      dloop (create_adset env p plan sources c i) [0..<pl_adsets_per_campaign plan])))
     (\<lambda>_. stage plan sources (Suc c) (Suc c * n) (Suc c * n * length sources) (has [])) (\<lambda>_. run_inv plan sources)"
    using c l unfolding n_def [symmetric]
    by (intro triple_bind [OF add_campaign_stage] triple_bind [OF emit_stage] weaken p) (simp_all add: n_def)
qed (simp_all add: creation_edges_def)

lemma create_campaigns_stage:
  assumes p: "sound_plan plan" and l: "length sources = length (pl_selected_ad_ids plan)"
  defines "n \<equiv> pl_campaign_count plan * pl_adsets_per_campaign plan"
  shows "triple (stage plan sources 0 0 0 (has [])) (dloop (create_campaign env p plan source sources) [0..<length (pl_campaign_names plan)])
    (\<lambda>_. stage plan sources (pl_campaign_count plan) n (n * length sources) (has [])) (\<lambda>_. run_inv plan sources)"
proof -
  let ?I = "\<lambda>k. stage plan sources k (k * pl_adsets_per_campaign plan) (k * pl_adsets_per_campaign plan * length sources) (has [])"
  have len: "length (pl_campaign_names plan) = pl_campaign_count plan" using p by (simp add: sound_plan_def)
  have "triple (?I k) (create_campaign env p plan source sources ([0..<pl_campaign_count plan] ! k)) (\<lambda>_. ?I (Suc k))
      (\<lambda>_. run_inv plan sources)" if "k < pl_campaign_count plan" for k
    using create_campaign_stage [OF p that l] that by simp
  then show ?thesis
    using triple_loop [of "[0..<pl_campaign_count plan]" ?I "create_campaign env p plan source sources" "\<lambda>_. run_inv plan sources"]
    by (simp add: len n_def)
qed

end
