(* ===== verification/DuplicateCleanup.thy ===== *)
theory DuplicateCleanup
  imports DuplicateSteps
begin

text \<open>
  The reads and the cleanup of a duplication: the source and the verification only read, the pause
  pass addresses only the objects it is given and either proves each of them paused or reports it.
\<close>

section \<open>Reads\<close>

lemma triple_const_loop:
  assumes "\<And>x. x \<in> set xs \<Longrightarrow> triple P (f x) (\<lambda>_. P) E"
  shows "triple P (dloop f xs) (\<lambda>_. P) E"
  using triple_loop [of xs "\<lambda>_. P" f E] assms by simp

lemma triple_here: "(\<And>s. triple P (m s) Q E) \<Longrightarrow> triple P (\<lambda>s. m s s) Q E"
  by (simp add: triple_def)

lemma triple_same_state: "(\<And>s. fst (m s) = s) \<Longrightarrow> (\<And>s. P s \<Longrightarrow> R s) \<Longrightarrow> triple P m (\<lambda>_. P) (\<lambda>_. R)"
  unfolding triple_def
proof (intro allI impI)
  fix s assume m: "\<And>s. fst (m s) = s" and "\<And>s. P s \<Longrightarrow> R s" "P s"
  obtain r where "m s = (s, r)" using m [of s] by (cases "m s") simp
  then show "case m s of (s1, Inl e) \<Rightarrow> R s1 | (s1, Inr x) \<Rightarrow> P s1"
    using \<open>P s\<close> \<open>\<And>s. P s \<Longrightarrow> R s\<close> by (simp split: sum.split)
qed

definition is_read :: "dup_event \<Rightarrow> bool" where
  "is_read ev \<longleftrightarrow> (case ev of ECall c \<Rightarrow> gc_method c = ''GET'' \<and> gc_body c = None | EProgress _ \<Rightarrow> False)"

text \<open>Nothing but reads so far.\<close>

definition reading :: "dup_state \<Rightarrow> bool" where
  "reading s \<longleftrightarrow> list_all is_read (ds_log s) \<and> created_ids s = []"

lemma reading_stage:
  assumes "reading s"
  shows "stage plan sources 0 0 0 (has []) s"
proof -
  have "safe_event plan [] ev" if "is_read ev" for ev
    using that by (auto simp: is_read_def safe_event_def safe_call_def split: dup_event.splits)
  then have "list_all (safe_event plan []) (ds_log s)" using assms by (auto simp: reading_def list_all_iff)
  then show ?thesis using assms by (simp add: reading_def stage_def run_inv_def within_plan_def) (simp add: created_ids_def)
qed

lemma get_reading: "triple reading (ask client (get_call p endpoint params)) (\<lambda>_. reading) (\<lambda>_. reading)"
  by (auto simp: triple_def reading_def ask_def created_ids_def is_read_def get_call_def dup_call.defs split: sum.split)

lemma attempt_reading: "triple reading (dattempt r) (\<lambda>_. reading) (\<lambda>_. reading)"
  by (rule triple_same_state) (simp_all add: dattempt_def)

lemma load_source_ads_reading:
  "triple reading (load_source_ads env p plan ids) (\<lambda>ads s. reading s \<and> length ads = length ids) (\<lambda>_. reading)"
proof (induction ids)
  case Nil
  show ?case by (simp add: triple_def dreturn_def)
next
  case (Cons i ids)
  have "triple reading (load_source_ad env p plan i) (\<lambda>_. reading) (\<lambda>_. reading)"
    unfolding load_source_ad_def by (rule triple_bind [OF get_reading attempt_reading])
  moreover have "triple reading (dbind (load_source_ads env p plan ids) (\<lambda>ads. dreturn (ad # ads)))
      (\<lambda>ads s. reading s \<and> length ads = length (i # ids)) (\<lambda>_. reading)" for ad
    by (rule triple_bind [OF Cons.IH]) (simp add: triple_def dreturn_def)
  ultimately show ?case by (simp add: triple_bind)
qed

lemma load_source_reading:
  "triple reading (load_and_validate_source env p plan)
     (\<lambda>(source, ads) s. reading s \<and> length ads = length (pl_selected_ad_ids plan)) (\<lambda>_. reading)"
  unfolding load_and_validate_source_def
  by (intro triple_bind [OF get_reading] triple_bind [OF attempt_reading] triple_bind [OF load_source_ads_reading])
    (simp add: triple_def dreturn_def)

lemma verify_campaign_stage:
  "triple (stage plan sources c a d F) (verify_campaign env p plan i) (\<lambda>_. stage plan sources c a d F) (\<lambda>_. run_inv plan sources)"
  unfolding verify_campaign_def by (rule triple_bind [OF get_stage attempt_unit_stage])

lemma verify_adset_stage:
  "triple (stage plan sources c a d F) (verify_adset env p plan target) (\<lambda>_. stage plan sources c a d F) (\<lambda>_. run_inv plan sources)"
  unfolding verify_adset_def Let_def case_prod_beta
  by (intro triple_bind [OF get_stage] triple_bind [OF attempt_unit_stage] triple_same_state) (auto simp: stage_def)

lemma verify_structure_stage:
  "triple (stage plan sources c a d F) (verify_structure env p plan) (\<lambda>_. stage plan sources c a d F) (\<lambda>_. run_inv plan sources)"
proof -
  have "triple (stage plan sources c a d F) (verify_counts plan) (\<lambda>_. stage plan sources c a d F) (\<lambda>_. run_inv plan sources)"
    by (rule triple_same_state) (simp_all add: verify_counts_def dattempt_def Let_def stage_def)
  then have "triple (stage plan sources c a d F)
      (dbind (verify_counts plan) (\<lambda>_. dbind (dloop (verify_campaign env p plan) cs) (\<lambda>_. dloop (verify_adset env p plan) ts)))
      (\<lambda>_. stage plan sources c a d F) (\<lambda>_. run_inv plan sources)" for cs ts
    by (rule triple_bind)
      (rule triple_bind triple_const_loop [OF verify_campaign_stage] triple_const_loop [OF verify_adset_stage])+
  then show ?thesis by (simp add: triple_def verify_structure_def)
qed

lemma create_structure_stage:
  assumes p: "sound_plan plan" and l: "length sources = length (pl_selected_ad_ids plan)"
  defines "n \<equiv> pl_campaign_count plan * pl_adsets_per_campaign plan"
  shows "triple (stage plan sources 0 0 0 (has [])) (create_structure env p plan source sources)
    (\<lambda>_. stage plan sources (pl_campaign_count plan) n (n * length sources) (has [])) (\<lambda>_. run_inv plan sources)"
  unfolding create_structure_def n_def
  by (rule triple_bind [OF create_campaigns_stage [OF p l]] triple_bind [OF at_step_stage] triple_bind [OF emit_stage [OF p]]
      triple_bind [OF verify_structure_stage] emit_stage [OF p])+

section \<open>The pause pass\<close>

definition pause_call :: "meta_payload \<Rightarrow> string \<Rightarrow> dup_call" where
  "pause_call p i = post_call p (''/'' @ i) [(''status'', JStr ''PAUSED'')]"

definition status_read :: "meta_payload \<Rightarrow> string \<Rightarrow> dup_call" where
  "status_read p i = get_call p (''/'' @ i) [(''fields'', ''id,status,effective_status'')]"

text \<open>The object was asked to pause, Meta acknowledged it, and the read that followed shows it paused.\<close>

definition proven_paused :: "dup_client \<Rightarrow> meta_payload \<Rightarrow> dup_event list \<Rightarrow> string \<Rightarrow> bool" where
  "proven_paused client p events i \<longleftrightarrow>
     list_ex (\<lambda>k. take 2 (drop k events) = [ECall (pause_call p i), ECall (status_read p i)]
       \<and> (case client (take k events) (pause_call p i) of
            Inr (JObj response) \<Rightarrow> jget response ''success'' = JBool True | _ \<Rightarrow> False)
       \<and> (case client (take (Suc k) events) (status_read p i) of
            Inr (JObj row) \<Rightarrow> str_or_empty (jget row ''id'') = i \<and> py_upper (str_or_empty (jget row ''status'')) = ''PAUSED''
          | _ \<Rightarrow> False)) [0..<length events]"

lemma write_success_iff: "require_write_success v = Inr () \<longleftrightarrow> (\<exists>ob. v = JObj ob \<and> jget ob ''success'' = JBool True)"
  by (cases v) (auto simp: require_write_success_def runtime_error_def is_dict_def as_dict_def)

lemma object_id_iff: "require_object_id v i = Inr () \<longleftrightarrow> (\<exists>ob. v = JObj ob \<and> str_or_empty (jget ob ''id'') = i)"
  by (cases v) (auto simp: require_object_id_def validation_error_def is_dict_def as_dict_def)

lemma paused_iff: "require_paused (JObj ob) = Inr () \<longleftrightarrow> py_upper (str_or_empty (jget ob ''status'')) = ''PAUSED''"
  by (simp add: require_paused_def runtime_error_def as_dict_def)

lemma proven_paused_at:
  assumes "client events (pause_call p i) = Inr response" "require_write_success response = Inr ()"
    "client (events @ [ECall (pause_call p i)]) (status_read p i) = Inr row"
    "require_object_id row i = Inr ()" "require_paused row = Inr ()"
  shows "proven_paused client p (events @ [ECall (pause_call p i), ECall (status_read p i)] @ later) i"
proof -
  obtain ob where "response = JObj ob" "jget ob ''success'' = JBool True"
    using assms(2) by (auto simp: write_success_iff)
  moreover obtain rw where "row = JObj rw" "str_or_empty (jget rw ''id'') = i" "py_upper (str_or_empty (jget rw ''status'')) = ''PAUSED''"
    using assms(4,5) by (auto simp: object_id_iff paused_iff)
  ultimately show ?thesis
    unfolding proven_paused_def list_ex_iff using assms(1,3) by (intro bexI [of _ "length events"]) auto
qed

lemma proven_paused_mono:
  assumes "proven_paused client p events i"
  shows "proven_paused client p (events @ later) i"
proof -
  obtain k where k: "k < length events" "take 2 (drop k events) = [ECall (pause_call p i), ECall (status_read p i)]"
    "case client (take k events) (pause_call p i) of Inr (JObj response) \<Rightarrow> jget response ''success'' = JBool True | _ \<Rightarrow> False"
    "case client (take (Suc k) events) (status_read p i) of
       Inr (JObj row) \<Rightarrow> str_or_empty (jget row ''id'') = i \<and> py_upper (str_or_empty (jget row ''status'')) = ''PAUSED''
     | _ \<Rightarrow> False"
    using assms unfolding proven_paused_def list_ex_iff by auto
  have "length (take 2 (drop k events)) = 2" using k(2) by simp
  then have l: "k + 2 \<le> length events" using k(1) by (simp add: min_def split: if_splits)
  then have t: "take 2 (drop k (events @ later)) = take 2 (drop k events)" "take k (events @ later) = take k events"
    "take (Suc k) (events @ later) = take (Suc k) events"
    by (simp_all)
  show ?thesis unfolding proven_paused_def list_ex_iff
    by (rule bexI [of _ k]) (use k t l in \<open>simp_all\<close>)
qed

lemma pause_object_calls:
  "pause_object client p i =
     dbind (ask client (pause_call p i)) (\<lambda>response.
     dbind (dattempt (require_write_success response)) (\<lambda>_.
     dbind (ask client (status_read p i)) (\<lambda>row. dattempt (checks [require_object_id row i, require_paused row]))))"
  by (simp add: pause_object_def pause_call_def status_read_def)

lemma pause_object_log:
  assumes "pause_object client p i s = (s1, r)"
  shows "\<exists>later. s1 = s\<lparr>ds_log := ds_log s @ later\<rparr> \<and> ECall (pause_call p i) \<in> set later
    \<and> set later \<subseteq> {ECall (pause_call p i), ECall (status_read p i)}
    \<and> (r = Inr () \<longrightarrow> proven_paused client p (ds_log s @ later) i)"
proof (cases "r = Inr ()")
  case True
  then obtain response row where c: "client (ds_log s) (pause_call p i) = Inr response" "require_write_success response = Inr ()"
    "client (ds_log s @ [ECall (pause_call p i)]) (status_read p i) = Inr row"
    "require_object_id row i = Inr ()" "require_paused row = Inr ()"
    and s1: "s1 = s\<lparr>ds_log := ds_log s @ [ECall (pause_call p i), ECall (status_read p i)]\<rparr>"
    using assms by (auto simp: pause_object_calls dbind_def ask_def dattempt_def xbind_def split: sum.splits)
  show ?thesis using proven_paused_at [OF c, of "[]"] s1 by auto
next
  case False
  then show ?thesis
    using assms by (auto simp: pause_object_calls dbind_def ask_def dattempt_def xbind_def split: sum.splits)
qed

text \<open>
  The pass changes nothing but the log, sends the pause of every object and its read, and returns
  the objects it could not prove; only a cancellation stops it.
\<close>

lemma pause_created_log:
  assumes "pause_created client p ids s = (s1, r)"
  shows "\<exists>later. s1 = s\<lparr>ds_log := ds_log s @ later\<rparr>
    \<and> (\<forall>ev \<in> set later. \<exists>i \<in> set ids. ev = ECall (pause_call p i) \<or> ev = ECall (status_read p i))
    \<and> (case r of
         Inl e \<Rightarrow> e = CancelledError
       | Inr failures \<Rightarrow> set (map fst failures) \<subseteq> set ids \<and> (\<forall>i \<in> set ids. ECall (pause_call p i) \<in> set later)
           \<and> (\<forall>i \<in> set ids. i \<in> set (map fst failures) \<or> proven_paused client p (ds_log s @ later) i))"
  using assms
proof (induction ids arbitrary: s s1 r)
  case Nil
  then show ?case by (auto simp: dreturn_def intro: exI [of _ "[]"])
next
  case (Cons i ids)
  obtain s2 r2 where o: "pause_object client p i s = (s2, r2)" by (cases "pause_object client p i s")
  obtain l where l: "s2 = s\<lparr>ds_log := ds_log s @ l\<rparr>" "ECall (pause_call p i) \<in> set l"
    "set l \<subseteq> {ECall (pause_call p i), ECall (status_read p i)}" "r2 = Inr () \<Longrightarrow> proven_paused client p (ds_log s @ l) i"
    using pause_object_log [OF o] by blast
  show ?case
  proof (cases "r2 = Inl CancelledError")
    case True
    then have "(s1, r) = (s2, Inl CancelledError)" using Cons.prems o by (simp add: dbind_def dcatch_def)
    with l show ?thesis by auto
  next
    case False
    define failure where "failure = (case r2 of Inl (Raised e) \<Rightarrow> [(i, ex_text e)] | _ \<Rightarrow> [])"
    have f: "dcatch (dbind (pause_object client p i) (\<lambda>_. dreturn [])) (\<lambda>e. dreturn [(i, ex_text e)]) s = (s2, Inr failure)"
      using o False by (auto simp: dbind_def dcatch_def dreturn_def failure_def split: sum.splits dup_stop.splits)
    obtain s3 r3 where t: "pause_created client p ids s2 = (s3, r3)" by (cases "pause_created client p ids s2")
    have r: "s1 = s3" "r = (case r3 of Inl e \<Rightarrow> Inl e | Inr fs \<Rightarrow> Inr (failure @ fs))"
      using Cons.prems f t by (auto simp: dbind_def dreturn_def split: sum.splits)
    obtain l' where l': "s3 = s2\<lparr>ds_log := ds_log s2 @ l'\<rparr>"
      "\<forall>ev \<in> set l'. \<exists>i \<in> set ids. ev = ECall (pause_call p i) \<or> ev = ECall (status_read p i)"
      "case r3 of Inl e \<Rightarrow> e = CancelledError
        | Inr failures \<Rightarrow> set (map fst failures) \<subseteq> set ids \<and> (\<forall>i \<in> set ids. ECall (pause_call p i) \<in> set l')
           \<and> (\<forall>i \<in> set ids. i \<in> set (map fst failures) \<or> proven_paused client p (ds_log s2 @ l') i)"
      using Cons.IH [OF t] by blast
    have stop: "r2 = Inr () \<or> (\<exists>e. r2 = Inl (Raised e))"
      using False by (cases r2) (auto intro: dup_stop.exhaust)
    have "i \<in> set (map fst failure) \<or> proven_paused client p (ds_log s @ l) i" and "set (map fst failure) \<subseteq> {i}"
      using l(4) stop by (auto simp: failure_def)
    then have proven: "i \<in> set (map fst failure) \<or> proven_paused client p (ds_log s @ l @ l') i"
      using proven_paused_mono [of client p "ds_log s @ l" i l'] by auto
    have s1: "s1 = s\<lparr>ds_log := ds_log s @ l @ l'\<rparr>" using l(1) l'(1) r(1) by simp
    have calls: "\<forall>ev \<in> set (l @ l'). \<exists>j \<in> set (i # ids). ev = ECall (pause_call p j) \<or> ev = ECall (status_read p j)"
      using l(3) l'(2) by auto
    show ?thesis
    proof (cases r3)
      case (Inl e)
      then show ?thesis using s1 calls l'(3) r(2) by (intro exI [of _ "l @ l'"] conjI) simp_all
    next
      case (Inr fs)
      then have "set (map fst (failure @ fs)) \<subseteq> set (i # ids)" "\<forall>j \<in> set (i # ids). ECall (pause_call p j) \<in> set (l @ l')"
        "\<forall>j \<in> set (i # ids). j \<in> set (map fst (failure @ fs)) \<or> proven_paused client p (ds_log s @ l @ l') j"
        using l'(3) l(1,2) proven \<open>set (map fst failure) \<subseteq> {i}\<close> by auto
      with s1 calls Inr r(2) show ?thesis by (intro exI [of _ "l @ l'"] conjI) simp_all
    qed
  qed
qed


text \<open>So it keeps the invariant of the run when its objects were created by it.\<close>

lemma pause_created_inv:
  assumes i: "run_inv plan sources s" and ids: "set ids \<subseteq> set (created_ids s)" and r: "pause_created client p ids s = (s1, r)"
  shows "run_inv plan sources s1" and "created_ids s1 = created_ids s"
proof -
  obtain later where s1: "s1 = s\<lparr>ds_log := ds_log s @ later\<rparr>"
    and l: "\<forall>ev \<in> set later. \<exists>i \<in> set ids. ev = ECall (pause_call p i) \<or> ev = ECall (status_read p i)"
    using pause_created_log [OF r] by blast
  show "created_ids s1 = created_ids s" by (simp add: s1 created_ids_def)
  have "safe_event plan (created_ids s) ev" if "ev \<in> set later" for ev
    using l that ids safe_update [of "[(''status'', JStr ''PAUSED'')]"]
    by (fastforce simp: safe_event_def pause_call_def status_read_def)
  then have "list_all (safe_event plan (created_ids s)) later" by (simp add: list_all_iff)
  then show "run_inv plan sources s1" using i by (simp add: s1 run_inv_def created_ids_def within_plan_def)
qed

lemma pause_created_stop: "pause_created client p ids s = (s1, Inl e) \<Longrightarrow> e = CancelledError"
  using pause_created_log [of client p ids s s1 "Inl e"] by auto

lemma pause_created_done:
  assumes "pause_created client p ids s = (s1, Inr failures)"
  shows "\<forall>i \<in> set ids. ECall (pause_call p i) \<in> set (ds_log s1)"
    and "\<forall>i \<in> set ids. i \<in> set (map fst failures) \<or> proven_paused client p (ds_log s1) i"
    and "set (map fst failures) \<subseteq> set ids"
proof -
  obtain later where "s1 = s\<lparr>ds_log := ds_log s @ later\<rparr>" "\<forall>i \<in> set ids. ECall (pause_call p i) \<in> set later"
    "\<forall>i \<in> set ids. i \<in> set (map fst failures) \<or> proven_paused client p (ds_log s @ later) i" "set (map fst failures) \<subseteq> set ids"
    using pause_created_log [OF assms] by auto
  then show "\<forall>i \<in> set ids. ECall (pause_call p i) \<in> set (ds_log s1)"
    "\<forall>i \<in> set ids. i \<in> set (map fst failures) \<or> proven_paused client p (ds_log s1) i" "set (map fst failures) \<subseteq> set ids"
    by auto
qed

lemma pause_created_uncancelled:
  assumes c: "\<And>past call. client past call \<noteq> Inl CancelledError"
  shows "\<exists>s1 failures. pause_created client p ids s = (s1, Inr failures)"
proof (induction ids arbitrary: s)
  case (Cons i ids)
  obtain s2 r where r: "pause_object client p i s = (s2, r)" by (cases "pause_object client p i s")
  have "snd (pause_object client p i s) \<noteq> Inl CancelledError"
    using c by (auto simp: pause_object_calls dbind_def ask_def dattempt_def split: sum.splits)
  then have "r = Inr () \<or> (\<exists>e. r = Inl (Raised e))" using r by (cases r) (auto intro: dup_stop.exhaust)
  then obtain failure where
    "dcatch (dbind (pause_object client p i) (\<lambda>_. dreturn [])) (\<lambda>e. dreturn [(i, ex_text e)]) s = (s2, Inr failure)"
    using r by (auto simp: dcatch_def dbind_def dreturn_def)
  moreover obtain s3 failures where "pause_created client p ids s2 = (s3, Inr failures)" using Cons.IH by blast
  ultimately show ?case by (simp add: dbind_def dreturn_def)
qed (simp add: dreturn_def)

section \<open>The executor as a whole\<close>

lemma reading_new_run: "reading new_run"
  by (simp add: reading_def new_run_def created_ids_def)

lemma duplicate_execute_refused:
  assumes "validate_plan (de_fromisoformat env) (de_now env) True p = Inl e"
  shows "duplicate_execute env p s = (s, Inl (Raised (of_error e)))"
  using assms by (simp add: duplicate_execute_def dbind_def dattempt_def attempt_of_def)

lemma duplicate_execute_unloaded:
  assumes "validate_plan (de_fromisoformat env) (de_now env) True p = Inr plan" "load_and_validate_source env p plan s = (s1, Inl stop)"
  shows "duplicate_execute env p s = (s1, Inl stop)"
  using assms by (simp add: duplicate_execute_def dbind_def dattempt_def attempt_of_def)

lemma duplicate_execute_loaded:
  assumes "validate_plan (de_fromisoformat env) (de_now env) True p = Inr plan"
    "load_and_validate_source env p plan s = (s1, Inr (source, sources))" "create_structure env p plan source sources s1 = (s2, r)"
  shows "duplicate_execute env p s =
    (case r of
       Inr _ \<Rightarrow> (s2, Inr (structure_result plan s2))
     | Inl CancelledError \<Rightarrow> after_cancellation env p s2
     | Inl (Raised e) \<Rightarrow> after_failure env p e s2)"
  using assms by (simp add: duplicate_execute_def dbind_def dattempt_def attempt_of_def)

end
