(* ===== verification/DuplicateSync.thy ===== *)
theory DuplicateSync
  imports DuplicateCleanup
begin

text \<open>
  The last checkpoint handed to the storage names exactly the objects the run counts as created,
  wherever the run stops.
\<close>

definition last_checkpoint :: "dup_event list \<Rightarrow> jobj option" where
  "last_checkpoint events = foldl (\<lambda>cp ev. case ev of EProgress new \<Rightarrow> Some new | ECall _ \<Rightarrow> cp) None events"

definition synced :: "dup_env \<Rightarrow> dup_state \<Rightarrow> bool" where
  "synced env s \<longleftrightarrow>
     de_progress env = None \<or> created_ids s = []
     \<or> map_option (\<lambda>cp. jget cp ''created_ids'') (last_checkpoint (ds_log s)) = Some (created_json (ds_campaigns s) (ds_adsets s) (ds_ads s))"

abbreviation keeps_sync :: "dup_env \<Rightarrow> 'a dup \<Rightarrow> bool" where
  "keeps_sync env m \<equiv> triple (synced env) m (\<lambda>_. synced env) (\<lambda>_. synced env)"

lemma last_checkpoint_calls [simp]:
  "last_checkpoint (events @ [ECall c]) = last_checkpoint events"
  "last_checkpoint (events @ [EProgress cp]) = Some cp"
  by (simp_all add: last_checkpoint_def)

lemma last_checkpoint_requests:
  "(\<forall>ev \<in> set later. \<exists>c. ev = ECall c) \<Longrightarrow> last_checkpoint (events @ later) = last_checkpoint events"
proof (induction later rule: rev_induct)
  case (snoc ev later)
  then obtain c where "ev = ECall c" by auto
  with snoc show ?case using last_checkpoint_calls(1) [of "events @ later" c] by simp
qed simp

section \<open>Steps\<close>

lemma ask_sync: "keeps_sync env (ask client call)"
  by (auto simp: triple_def ask_def synced_def created_ids_def split: sum.split)

lemma attempt_sync: "keeps_sync env (dattempt r)"
  by (rule triple_same_state) (simp_all add: dattempt_def)

lemma return_sync: "keeps_sync env (dreturn x)"
  by (rule triple_return)

lemma fresh_sync: "keeps_sync env (require_fresh_created_id plan sources i)"
  by (rule triple_same_state) (simp_all add: require_fresh_created_id_def)

lemma at_step_sync: "keeps_sync env (at_step x)"
  by (simp add: triple_def at_step_def dmodify_def synced_def created_ids_def)

lemma keep_response_sync: "keeps_sync env (keep_response x)"
  by (simp add: triple_def keep_response_def dmodify_def synced_def created_ids_def)

text \<open>Also where the checkpoint could not be stored: it was handed over.\<close>

lemma emit_sync: "triple (\<lambda>_. True) (emit_progress env phase x failures) (\<lambda>_. synced env) (\<lambda>_. synced env)"
  by (auto simp: triple_def emit_progress_def synced_def checkpoint_json_def Let_def split: option.splits sum.splits)

lemma emit_again_sync: "keeps_sync env (emit_progress env phase x failures)"
  by (rule triple_conseq [OF emit_sync]) simp_all

lemma modify_any: "triple (synced env) (dmodify f) (\<lambda>_ _. True) (\<lambda>_. synced env)"
  by (simp add: triple_def dmodify_def)

lemma create_object_sync: "keeps_sync env (create_object env p plan sources endpoint body key field_list candidate)"
  unfolding create_object_def
  by (rule triple_bind [OF ask_sync] triple_bind [OF keep_response_sync] triple_bind [OF attempt_sync] triple_bind [OF fresh_sync]
      return_sync)+

lemmas sync_steps = triple_bind [OF ask_sync] triple_bind [OF keep_response_sync] triple_bind [OF attempt_sync]
  triple_bind [OF at_step_sync] triple_bind [OF create_object_sync] triple_bind [OF modify_any] triple_bind [OF emit_sync]

lemma create_ad_sync: "keeps_sync env (create_ad env p plan sources ci ai campaign_id adset_id src)"
  unfolding create_ad_def by (rule sync_steps emit_sync)+

lemma create_adset_sync: "keeps_sync env (create_adset env p plan sources ci campaign_id ai)"
  unfolding create_adset_def by (rule sync_steps triple_const_loop [OF create_ad_sync])+

lemma create_campaign_sync: "keeps_sync env (create_campaign env p plan source sources ci)"
  unfolding create_campaign_def by (rule sync_steps triple_const_loop [OF create_adset_sync])+

lemma verify_sync: "keeps_sync env (verify_structure env p plan)"
proof -
  have "keeps_sync env (verify_counts plan)"
    by (rule triple_same_state) (simp_all add: verify_counts_def dattempt_def Let_def)
  moreover have "keeps_sync env (verify_campaign env p plan i)" for i
    unfolding verify_campaign_def by (rule sync_steps attempt_sync)+
  moreover have "keeps_sync env (verify_adset env p plan target)" for target
    unfolding verify_adset_def Let_def case_prod_beta
    by (rule sync_steps)+ (rule triple_same_state, simp_all)
  ultimately have "keeps_sync env
      (dbind (verify_counts plan) (\<lambda>_. dbind (dloop (verify_campaign env p plan) cs) (\<lambda>_. dloop (verify_adset env p plan) ts)))" for cs ts
    by (blast intro: triple_bind triple_const_loop)
  then show ?thesis by (simp add: triple_def verify_structure_def)
qed

lemma create_structure_sync: "keeps_sync env (create_structure env p plan source sources)"
  unfolding create_structure_def
  by (rule triple_bind [OF triple_const_loop [OF create_campaign_sync]] triple_bind [OF at_step_sync]
      triple_bind [OF emit_again_sync] triple_bind [OF verify_sync] emit_again_sync)+

section \<open>Cleanup\<close>

lemma pause_created_sync:
  assumes "synced env s" "pause_created client p ids s = (s1, r)"
  shows "synced env s1"
proof -
  obtain later where "s1 = s\<lparr>ds_log := ds_log s @ later\<rparr>" "\<forall>ev \<in> set later. \<exists>c. ev = ECall c"
    using pause_created_log [OF assms(2)] by blast
  then show ?thesis using assms(1) by (simp add: synced_def created_ids_def last_checkpoint_requests)
qed

lemma emitted_sync: "emit_progress env phase x failures s = (s1, r) \<Longrightarrow> synced env s1"
  using triple_Inl [OF emit_sync TrueI] triple_Inr [OF emit_sync TrueI] by (cases r) auto

lemma after_failure_sync:
  assumes s: "synced env s0" and r: "after_failure env p e s0 = (s, r)"
  shows "synced env s"
proof -
  obtain s1 r1 where c: "pause_created (de_client env) p (created_ids s0) s0 = (s1, r1)"
    by (cases "pause_created (de_client env) p (created_ids s0) s0")
  obtain s2 r2 where em: "emit_progress env ''failed_cleanup'' (ds_step s1) (Some (projr r1)) s1 = (s2, r2)"
    by (cases "emit_progress env ''failed_cleanup'' (ds_step s1) (Some (projr r1)) s1")
  have "s = s1 \<or> s = s2"
    using r c em by (auto simp: after_failure_def dbind_def dcatch_def dreturn_def split: sum.splits dup_stop.splits)
  then show ?thesis using pause_created_sync [OF s c] emitted_sync [OF em] by auto
qed

lemma after_cancellation_sync:
  assumes s: "synced env s0" and r: "after_cancellation env p s0 = (s, r)"
  shows "synced env s"
proof -
  obtain s1 r1 where c: "pause_created (shielded_client env) p (created_ids s0) s0 = (s1, r1)"
    by (cases "pause_created (shielded_client env) p (created_ids s0) s0")
  obtain s2 r2 where em: "emit_progress env ''cancelled_cleanup'' (ds_step s1) (Some (projr r1)) s1 = (s2, r2)"
    by (cases "emit_progress env ''cancelled_cleanup'' (ds_step s1) (Some (projr r1)) s1")
  have "s = s1 \<or> s = s2" using r c em by (auto simp: after_cancellation_def split: if_splits sum.splits)
  then show ?thesis using pause_created_sync [OF s c] emitted_sync [OF em] by auto
qed

lemma executed_sync:
  assumes r: "duplicate_execute env p new_run = (s, r)"
  shows "synced env s"
proof (cases "validate_plan (de_fromisoformat env) (de_now env) True p")
  case (Inl e)
  then have "s = new_run" using r duplicate_execute_refused by simp
  then show ?thesis by (simp add: synced_def new_run_def created_ids_def)
next
  case (Inr plan)
  note new = reading_new_run
  obtain s1 r1 where l: "load_and_validate_source env p plan new_run = (s1, r1)" by (cases "load_and_validate_source env p plan new_run")
  have "reading s1"
    using triple_Inl [OF load_source_reading new, of env p plan s1] triple_Inr [OF load_source_reading new, of env p plan s1] l
    by (cases r1) auto
  then have s1: "synced env s1" by (simp add: synced_def reading_def)
  show ?thesis
  proof (cases r1)
    case stop: (Inl stop)
    then show ?thesis using r duplicate_execute_unloaded [OF Inr] l s1 by simp
  next
    case loaded: (Inr loaded)
    obtain source sources where ld: "loaded = (source, sources)" by (cases loaded)
    obtain s2 r2 where cs: "create_structure env p plan source sources s1 = (s2, r2)" by (cases "create_structure env p plan source sources s1")
    have s2: "synced env s2"
      using triple_Inl [OF create_structure_sync s1] triple_Inr [OF create_structure_sync s1] cs by (cases r2) blast+
    have "(case r2 of
         Inr _ \<Rightarrow> (s2, Inr (structure_result plan s2))
       | Inl CancelledError \<Rightarrow> after_cancellation env p s2
       | Inl (Raised e) \<Rightarrow> after_failure env p e s2) = (s, r)"
      using r duplicate_execute_loaded [OF Inr _ cs] l loaded ld by simp
    then show ?thesis
      using s2 after_failure_sync [OF s2] after_cancellation_sync [OF s2] by (auto split: sum.splits dup_stop.splits)
  qed
qed

end
