(* ===== verification/DuplicateProps.thy ===== *)
theory DuplicateProps
  imports DuplicateSync
begin

text \<open>
  What a duplication and its recovery guarantee, whatever Meta answers, whichever checkpoint is lost
  and wherever the run is cancelled.
\<close>

section \<open>Validated plans\<close>

lemma validated_plan_sound:
  assumes "validate_plan parser now future p = Inr plan"
  shows "sound_plan plan"
proof -
  obtain ids c n names where v: "validate_ids (jget (mp_params p) ''selected_ad_ids'') = Inr ids"
    "validate_count (jget (mp_params p) ''campaign_count'') 5 = Inr c"
    "validate_count (jget (mp_params p) ''adsets_per_campaign'') 10 = Inr n" "c * n * length ids \<le> MAX_CREATED_ADS"
    "validate_names (jget (mp_params p) ''campaign_names'') c = Inr names"
    and plan: "pl_selected_ad_ids plan = ids" "pl_campaign_count plan = c" "pl_adsets_per_campaign plan = n"
      "pl_campaign_names plan = names"
    using assms unfolding validate_plan_def Let_def
    by (auto simp: ebind_eq_Inr not_less split: if_splits)
  have "ids \<noteq> []" using v(1) emap_length by (fastforce simp: validate_ids_def ebind_eq_Inr split: json.splits list.splits if_splits)
  moreover have "1 \<le> c" "c \<le> 5" "1 \<le> n" "n \<le> 10" using v(2,3) by (auto simp: validate_count_def split: json.splits if_splits)
  moreover have "length names = c" using v(5) emap_length by (fastforce simp: validate_names_def split: json.splits if_splits)
  ultimately show ?thesis using v(4) by (simp add: sound_plan_def plan MAX_CREATED_ADS_def)
qed

lemma sound_plan_bounds:
  assumes "sound_plan plan" "within_plan plan s"
  shows "length (ds_campaigns s) \<le> 5" "length (ds_adsets s) \<le> 50" "length (ds_ads s) \<le> 50"
proof -
  let ?c = "pl_campaign_count plan" and ?n = "pl_adsets_per_campaign plan" and ?k = "length (pl_selected_ad_ids plan)"
  have p: "?c \<le> 5" "?n \<le> 10" "?c * ?n * ?k \<le> 50" using assms(1) by (auto simp: sound_plan_def)
  have w: "length (ds_campaigns s) \<le> ?c" "length (ds_adsets s) \<le> length (ds_campaigns s) * ?n"
    "length (ds_ads s) \<le> length (ds_adsets s) * ?k"
    using assms(2) by (auto simp: within_plan_def)
  show "length (ds_campaigns s) \<le> 5" using w(1) p(1) by simp
  have a: "length (ds_adsets s) \<le> ?c * ?n" by (rule le_trans [OF w(2) mult_le_mono1 [OF w(1)]])
  also have "\<dots> \<le> 5 * 10" using p by (intro mult_le_mono)
  finally show "length (ds_adsets s) \<le> 50" by simp
  show "length (ds_ads s) \<le> 50" by (rule le_trans [OF le_trans [OF w(3) mult_le_mono1 [OF a]] p(3)])
qed

section \<open>Runs\<close>

lemma emit_log:
  assumes "emit_progress env phase x failures s = (s1, r)"
  shows "s1 = s \<or> s1 = s\<lparr>ds_log := ds_log s @ [EProgress (checkpoint_json (de_now env) phase x failures s)]\<rparr>"
  using assms by (auto simp: emit_progress_def Let_def split: option.splits)

lemma emit_run:
  assumes "sound_plan plan" "run_inv plan sources s" "emit_progress env phase x failures s = (s1, r)"
  shows "run_inv plan sources s1" and "created_ids s1 = created_ids s" and "\<exists>later. ds_log s1 = ds_log s @ later"
  using emit_log [OF assms(3)] assms(1,2) emit_inv by (auto simp: created_ids_def)

text \<open>
  What the exception of a failed run says: everything recorded, each object asked to pause, and what
  could not be proven paused.
\<close>

definition honest_failure :: "dup_env \<Rightarrow> meta_payload \<Rightarrow> dup_state \<Rightarrow> exn \<Rightarrow> bool" where
  "honest_failure env p s e \<longleftrightarrow>
     ex_class e = CDuplicatePartialError
     \<and> jget (ex_details e) ''created_ids'' = created_json (ds_campaigns s) (ds_adsets s) (ds_ads s)
     \<and> (\<exists>failures. jget (ex_details e) ''cleanup_failures'' = failures_json failures
         \<and> list_all (\<lambda>i. ECall (pause_call p i) \<in> set (ds_log s)
               \<and> (i \<in> set (map fst failures) \<or> proven_paused (de_client env) p (ds_log s) i)) (created_ids s))"

lemma after_failure_run:
  assumes p: "sound_plan plan" and i: "run_inv plan sources s0" and r: "after_failure env p e s0 = (s, r)"
  shows "run_inv plan sources s" and "r = Inl CancelledError \<or> (\<exists>e'. r = Inl (Raised e') \<and> honest_failure env p s e')"
proof -
  obtain s1 r1 where c: "pause_created (de_client env) p (created_ids s0) s0 = (s1, r1)"
    by (cases "pause_created (de_client env) p (created_ids s0) s0")
  note i1 = pause_created_inv [OF i _ c]
  have "run_inv plan sources s \<and> (r = Inl CancelledError \<or> (\<exists>e'. r = Inl (Raised e') \<and> honest_failure env p s e'))"
  proof (cases r1)
    case (Inl stop)
    then have "s = s1" "r = Inl CancelledError" using r c pause_created_stop [of _ _ _ _ _ stop] by (auto simp: after_failure_def dbind_def)
    then show ?thesis using i1(1) by simp
  next
    case (Inr failures)
    obtain s2 r2 where em: "emit_progress env ''failed_cleanup'' (ds_step s1) (Some failures) s1 = (s2, r2)"
      by (cases "emit_progress env ''failed_cleanup'' (ds_step s1) (Some failures) s1")
    note i2 = emit_run [OF p i1(1) em]
    have s: "s = s2" "r = (if r2 = Inl CancelledError then Inl CancelledError else Inl (Raised (partial_error e failures s2)))"
      using r c Inr em by (auto simp: after_failure_def dbind_def dcatch_def dreturn_def split: sum.splits dup_stop.splits)
    obtain later where "ds_log s2 = ds_log s1 @ later" using i2(3) by auto
    moreover have "created_ids s2 = created_ids s0" using i2(2) i1(2) by simp
    ultimately have "list_all (\<lambda>i. ECall (pause_call p i) \<in> set (ds_log s2)
        \<and> (i \<in> set (map fst failures) \<or> proven_paused (de_client env) p (ds_log s2) i)) (created_ids s2)"
      using pause_created_done(1,2) [OF c [unfolded Inr]] proven_paused_mono [of "de_client env" p "ds_log s1" _ later]
      by (auto simp: list_all_iff)
    then have "honest_failure env p s2 (partial_error e failures s2)"
      unfolding honest_failure_def by (intro conjI exI [of _ failures]) (simp_all add: partial_error_def)
    then show ?thesis using s i2(1) by simp
  qed
  then show "run_inv plan sources s" "r = Inl CancelledError \<or> (\<exists>e'. r = Inl (Raised e') \<and> honest_failure env p s e')" by blast+
qed

lemma after_cancellation_run:
  assumes p: "sound_plan plan" and i: "run_inv plan sources s0" and r: "after_cancellation env p s0 = (s, r)"
  shows "run_inv plan sources s" and "r = Inl CancelledError"
    and "list_all (\<lambda>i. ECall (pause_call p i) \<in> set (ds_log s)) (created_ids s)"
proof -
  have never: "shielded_client env past call \<noteq> Inl CancelledError" for past call
    by (auto simp: shielded_client_def split: sum.splits)
  obtain s1 r1 where c: "pause_created (shielded_client env) p (created_ids s0) s0 = (s1, r1)"
    by (cases "pause_created (shielded_client env) p (created_ids s0) s0")
  note i1 = pause_created_inv [OF i _ c]
  obtain failures where f: "r1 = Inr failures"
    using pause_created_uncancelled [of "shielded_client env"] never c by (metis prod.inject)
  obtain s2 r2 where em: "emit_progress env ''cancelled_cleanup'' (ds_step s1) (Some failures) s1 = (s2, r2)"
    by (cases "emit_progress env ''cancelled_cleanup'' (ds_step s1) (Some failures) s1")
  note i2 = emit_run [OF p i1(1) em]
  have s: "s = (if de_cancelled_again env then s1 else s2)" "r = Inl CancelledError"
    using r c f em by (auto simp: after_cancellation_def split: if_splits)
  show "run_inv plan sources s" using s(1) i1(1) i2(1) by simp
  show "r = Inl CancelledError" by (rule s(2))
  obtain later where "ds_log s2 = ds_log s1 @ later" using i2(3) by auto
  then show "list_all (\<lambda>i. ECall (pause_call p i) \<in> set (ds_log s)) (created_ids s)"
    using s(1) i2(2) i1(2) pause_created_done(1) [OF c [unfolded f]] by (auto simp: list_all_iff)
qed

lemma executed_run:
  assumes v: "validate_plan (de_fromisoformat env) (de_now env) True p = Inr plan" and r: "duplicate_execute env p new_run = (s, r)"
  shows "\<exists>sources. run_inv plan sources s
    \<and> (case r of
         Inr result \<Rightarrow> result = structure_result plan s
           \<and> length (ds_campaigns s) = pl_campaign_count plan
           \<and> length (ds_adsets s) = pl_campaign_count plan * pl_adsets_per_campaign plan
           \<and> length (ds_ads s) = pl_campaign_count plan * pl_adsets_per_campaign plan * length (pl_selected_ad_ids plan)
       | Inl (Raised e) \<Rightarrow> reading s \<or> honest_failure env p s e
       | Inl CancelledError \<Rightarrow> True)"
proof -
  note p = validated_plan_sound [OF v]
  note new = reading_new_run
  obtain s1 r1 where l: "load_and_validate_source env p plan new_run = (s1, r1)" by (cases "load_and_validate_source env p plan new_run")
  show ?thesis
  proof (cases r1)
    case (Inl stop)
    have "reading s1" by (rule triple_Inl [OF load_source_reading new l [unfolded Inl]])
    moreover have "s = s1" "r = Inl stop" using r duplicate_execute_unloaded [OF v] l Inl by simp_all
    moreover have "run_inv plan [] s1" using reading_stage [OF \<open>reading s1\<close>, of plan "[]"] by (simp add: stage_def)
    ultimately show ?thesis by (auto split: dup_stop.split)
  next
    case (Inr loaded)
    obtain source sources where ld: "loaded = (source, sources)" by (cases loaded)
    have rd: "reading s1" and len: "length sources = length (pl_selected_ad_ids plan)"
      using triple_Inr [OF load_source_reading new l [unfolded Inr]] by (simp_all add: ld)
    obtain s2 r2 where cs: "create_structure env p plan source sources s1 = (s2, r2)" by (cases "create_structure env p plan source sources s1")
    note st = create_structure_stage [OF p len] and pre = reading_stage [OF rd, of plan sources]
    have ex: "duplicate_execute env p new_run =
      (case r2 of
         Inr _ \<Rightarrow> (s2, Inr (structure_result plan s2))
       | Inl CancelledError \<Rightarrow> after_cancellation env p s2
       | Inl (Raised e) \<Rightarrow> after_failure env p e s2)"
      using duplicate_execute_loaded [OF v _ cs] l Inr ld by simp
    show ?thesis
    proof (cases r2)
      case r2: (Inr u)
      have "stage plan sources (pl_campaign_count plan) (pl_campaign_count plan * pl_adsets_per_campaign plan)
          (pl_campaign_count plan * pl_adsets_per_campaign plan * length sources) (has []) s2"
        by (rule triple_Inr [OF st pre cs [unfolded r2]])
      then show ?thesis using r ex r2 len by (auto simp: stage_def)
    next
      case r2: (Inl stop)
      have i: "run_inv plan sources s2" by (rule triple_Inl [OF st pre cs [unfolded r2]])
      show ?thesis
      proof (cases stop)
        case (Raised e)
        then have "after_failure env p e s2 = (s, r)" using r ex r2 by simp
        from after_failure_run [OF p i this] show ?thesis by auto
      next
        case CancelledError
        then have "after_cancellation env p s2 = (s, r)" using r ex r2 by simp
        from after_cancellation_run [OF p i this] show ?thesis by auto
      qed
    qed
  qed
qed

section \<open>Properties of a run\<close>

text \<open>
  C36. Whatever Meta answers and wherever the run fails or is cancelled, a duplication only reads, or
  sends writes that ask for PAUSED (and for no other status), to a creating edge of the plan or to an
  object it recorded as created; no identifier is recorded twice, none is one of the source, and at most
  five campaigns, fifty ad sets and fifty advertisements are recorded. Without a valid plan nothing is sent.
\<close>

theorem duplication_never_activates:
  "case validate_plan (de_fromisoformat env) (de_now env) True p of
     Inl _ \<Rightarrow> ds_log (fst (duplicate_execute env p new_run)) = []
   | Inr plan \<Rightarrow>
       (let s = fst (duplicate_execute env p new_run)
        in list_all (\<lambda>ev. case ev of ECall c \<Rightarrow> safe_call plan (created_ids s) c | EProgress _ \<Rightarrow> True) (ds_log s)
           \<and> distinct (created_ids s)
           \<and> length (ds_campaigns s) \<le> 5 \<and> length (ds_adsets s) \<le> 50 \<and> length (ds_ads s) \<le> 50
           \<and> list_all (\<lambda>i. i \<notin> set (pl_source_campaign_id plan # pl_source_adset_id plan # pl_selected_ad_ids plan)) (created_ids s))"
proof (cases "validate_plan (de_fromisoformat env) (de_now env) True p")
  case (Inl e)
  then show ?thesis by (simp add: duplicate_execute_refused new_run_def)
next
  case (Inr plan)
  obtain s r where run: "duplicate_execute env p new_run = (s, r)" by (cases "duplicate_execute env p new_run")
  obtain sources where i: "run_inv plan sources s" using executed_run [OF Inr run] by auto
  then have "list_all (\<lambda>ev. case ev of ECall c \<Rightarrow> safe_call plan (created_ids s) c | EProgress _ \<Rightarrow> True) (ds_log s)"
    by (auto simp: run_inv_def safe_event_def list_all_iff split: dup_event.splits)
  then show ?thesis
    using i Inr run sound_plan_bounds [OF validated_plan_sound [OF Inr], of s]
    by (auto simp: run_inv_def source_ids_def list_all_iff)
qed

text \<open>
  C37. Every checkpoint of a duplication names no object or is accepted by the recovery for the same
  plan, object for object; and where checkpoints are kept at all, the last one handed to the storage names
  exactly the objects the run recorded as created, wherever the run stopped.
\<close>

theorem checkpoints_are_recoverable:
  "case validate_plan (de_fromisoformat env) (de_now env) True p of
     Inl _ \<Rightarrow> ds_log (fst (duplicate_execute env p new_run)) = []
   | Inr plan \<Rightarrow>
       (let s = fst (duplicate_execute env p new_run)
        in list_all (\<lambda>ev. case ev of EProgress cp \<Rightarrow> recoverable plan cp | ECall _ \<Rightarrow> True) (ds_log s) \<and> synced env s)"
proof (cases "validate_plan (de_fromisoformat env) (de_now env) True p")
  case (Inl e)
  then show ?thesis by (simp add: duplicate_execute_refused new_run_def)
next
  case (Inr plan)
  obtain s r where run: "duplicate_execute env p new_run = (s, r)" by (cases "duplicate_execute env p new_run")
  obtain sources where i: "run_inv plan sources s" using executed_run [OF Inr run] by auto
  then have "list_all (\<lambda>ev. case ev of EProgress cp \<Rightarrow> recoverable plan cp | ECall _ \<Rightarrow> True) (ds_log s)"
    by (auto simp: run_inv_def safe_event_def list_all_iff split: dup_event.splits)
  then show ?thesis using Inr run executed_sync [OF run] by simp
qed


section \<open>Success\<close>





section \<open>Recovery\<close>

lemma verify_recovery_reading: "triple reading (verify_recovery_objects env p plan campaigns adsets ads) (\<lambda>_. reading) (\<lambda>_. reading)"
proof -
  have "triple reading (verify_recovery_campaign env p plan t) (\<lambda>_. reading) (\<lambda>_. reading)" for t
    unfolding verify_recovery_campaign_def Let_def case_prod_beta by (rule triple_bind [OF get_reading attempt_reading])
  moreover have "triple reading (verify_recovery_adset env p plan campaigns t) (\<lambda>_. reading) (\<lambda>_. reading)" for t
    unfolding verify_recovery_adset_def Let_def case_prod_beta by (rule triple_bind [OF get_reading attempt_reading])
  moreover have "triple reading (verify_recovery_ad env p plan campaigns adsets t) (\<lambda>_. reading) (\<lambda>_. reading)" for t
    unfolding verify_recovery_ad_def Let_def case_prod_beta by (rule triple_bind [OF get_reading attempt_reading])
  ultimately show ?thesis unfolding verify_recovery_objects_def
    by (blast intro: triple_bind triple_const_loop)
qed

lemma checkpoint_within_plan:
  assumes "validate_checkpoint_against_plan campaigns adsets ads plan = Inr ()"
  shows "length campaigns \<le> pl_campaign_count plan" "length adsets \<le> pl_campaign_count plan * pl_adsets_per_campaign plan"
    "length ads \<le> pl_campaign_count plan * pl_adsets_per_campaign plan * length (pl_selected_ad_ids plan)"
  using assms
  by (auto simp: validate_checkpoint_against_plan_def Let_def check_def xbind_def validation_error_def split: if_splits)

lemma checkpoint_avoids_source:
  assumes "validate_checkpoint_against_plan campaigns adsets ads plan = Inr ()"
  shows "set (pl_source_campaign_id plan # pl_source_adset_id plan # pl_selected_ad_ids plan) \<inter> set (campaigns @ adsets @ ads) = {}"
  using assms
  by (auto simp: validate_checkpoint_against_plan_def Let_def check_def xbind_def validation_error_def split: if_splits)

text \<open>The requests of a recovery: reads, and the pause of an object of the checkpoint.\<close>

definition recovery_event :: "meta_payload \<Rightarrow> string list \<Rightarrow> dup_event \<Rightarrow> bool" where
  "recovery_event p ids ev \<longleftrightarrow> is_read ev \<or> list_ex (\<lambda>i. ev = ECall (pause_call p i)) ids"

lemma recovery_pauses:
  assumes s: "reading s" and r: "pause_created client p ids s = (s1, r)"
  shows "list_all (recovery_event p ids) (ds_log s1)"
proof -
  obtain later where s1: "s1 = s\<lparr>ds_log := ds_log s @ later\<rparr>"
    and l: "\<forall>ev \<in> set later. \<exists>i \<in> set ids. ev = ECall (pause_call p i) \<or> ev = ECall (status_read p i)"
    using pause_created_log [OF r] by blast
  have "is_read (ECall (status_read p i))" for i by (simp add: is_read_def status_read_def get_call_def dup_call.defs)
  then have "list_all (recovery_event p ids) later" using l by (fastforce simp: list_all_iff recovery_event_def list_ex_iff)
  moreover have "list_all (recovery_event p ids) (ds_log s)" using s by (auto simp: reading_def list_all_iff recovery_event_def)
  ultimately show ?thesis by (simp add: s1)
qed

text \<open>A recovery only read, or it paused the objects of a checkpoint that fits.\<close>

lemma recover_cases:
  obtains (reads) s stop where "recover_checkpoint env p cp new_run = (s, Inl stop)" "reading s"
  | (pauses) plan campaigns adsets ads s1 s r where
      "validate_plan (de_fromisoformat env) (de_now env) False p = Inr plan" "created_ids_from_checkpoint cp = Inr (campaigns, adsets, ads)"
      "validate_checkpoint_against_plan campaigns adsets ads plan = Inr ()" "reading s1"
      "pause_created (de_client env) p (campaigns @ adsets @ ads) s1 = (s, r)"
      "recover_checkpoint env p cp new_run = (s, case r of Inl e \<Rightarrow> Inl e | Inr failures \<Rightarrow> Inr ((campaigns, adsets, ads), failures))"
proof -
  note d = recover_checkpoint_def dbind_def dattempt_def attempt_of_def dreturn_def
  have refused: thesis if "recover_checkpoint env p cp new_run = (new_run, Inl stop)" for stop
    using that reading_new_run by (rule reads)
  show thesis
  proof (cases "validate_plan (de_fromisoformat env) (de_now env) False p")
    case plan: (Inr plan)
    show thesis
    proof (cases "created_ids_from_checkpoint cp")
      case (Inr created)
      then obtain campaigns adsets ads where ids: "created_ids_from_checkpoint cp = Inr (campaigns, adsets, ads)" by (cases created) simp
      show thesis
      proof (cases "validate_checkpoint_against_plan campaigns adsets ads plan")
        case (Inr u)
        then have fits: "validate_checkpoint_against_plan campaigns adsets ads plan = Inr ()" by simp
        obtain s1 r1 where v: "verify_recovery_objects env p plan campaigns adsets ads new_run = (s1, r1)"
          by (cases "verify_recovery_objects env p plan campaigns adsets ads new_run")
        have rd: "reading s1"
          using triple_Inl [OF verify_recovery_reading reading_new_run] triple_Inr [OF verify_recovery_reading reading_new_run] v
          by (cases r1) blast+
        obtain s2 r2 where c: "pause_created (de_client env) p (campaigns @ adsets @ ads) s1 = (s2, r2)"
          by (cases "pause_created (de_client env) p (campaigns @ adsets @ ads) s1")
        show thesis
        proof (cases r1)
          case (Inl stop)
          then show thesis using plan ids fits v rd by (intro reads [of s1 stop]) (simp_all add: d)
        next
          case (Inr u)
          then show thesis using plan ids fits v c by (intro pauses [OF plan ids fits rd c]) (simp add: d split: sum.split)
        qed
      qed (rule refused, use plan ids in \<open>simp add: d\<close>)
    qed (rule refused, use plan in \<open>simp add: d\<close>)
  qed (rule refused, simp add: d)
qed

text \<open>
  What a recovery may touch: a checkpoint of no more objects than planned, none of them of the source,
  and besides reads only the pauses of these objects.
\<close>

definition recovery_scope :: "dup_env \<Rightarrow> meta_payload \<Rightarrow> jobj \<Rightarrow> dup_event list \<Rightarrow> string list \<times> string list \<times> string list \<Rightarrow> bool" where
  "recovery_scope env p cp events created \<longleftrightarrow>
     created_ids_from_checkpoint cp = Inr created
     \<and> (case (validate_plan (de_fromisoformat env) (de_now env) False p, created) of
          (Inr plan, campaigns, adsets, ads) \<Rightarrow>
            length campaigns \<le> pl_campaign_count plan
            \<and> length adsets \<le> pl_campaign_count plan * pl_adsets_per_campaign plan
            \<and> length ads \<le> pl_campaign_count plan * pl_adsets_per_campaign plan * length (pl_selected_ad_ids plan)
            \<and> set (pl_source_campaign_id plan # pl_source_adset_id plan # pl_selected_ad_ids plan) \<inter> set (campaigns @ adsets @ ads) = {}
            \<and> list_all (recovery_event p (campaigns @ adsets @ ads)) events
        | (Inl _, _) \<Rightarrow> False)"

lemma recovery_scoped:
  assumes "validate_plan (de_fromisoformat env) (de_now env) False p = Inr plan"
    "created_ids_from_checkpoint cp = Inr (campaigns, adsets, ads)"
    "validate_checkpoint_against_plan campaigns adsets ads plan = Inr ()" "reading s1"
    "pause_created (de_client env) p (campaigns @ adsets @ ads) s1 = (s, r)"
  shows "recovery_scope env p cp (ds_log s) (campaigns, adsets, ads)"
  using assms(1,2) checkpoint_avoids_source [OF assms(3)] checkpoint_within_plan [OF assms(3)] recovery_pauses [OF assms(4,5)]
  by (simp add: recovery_scope_def)

text \<open>
  C39. The recovery of a duplication raises only before its first write. Its writes are pauses of objects
  that its checkpoint names, no more than planned and disjoint from the source. When it returns, it
  reports exactly these objects, asked each of them to pause, and each was proven paused by an
  acknowledged request and the read after it or is among the reported failures.
\<close>

theorem recovery_only_pauses_checkpointed_objects:
  "case recover_checkpoint env p cp new_run of
     (s, Inl (Raised e)) \<Rightarrow> list_all is_read (ds_log s)
   | (s, Inl CancelledError) \<Rightarrow> list_all is_read (ds_log s) \<or> (\<exists>created. recovery_scope env p cp (ds_log s) created)
   | (s, Inr ((campaigns, adsets, ads), failures)) \<Rightarrow>
       recovery_scope env p cp (ds_log s) (campaigns, adsets, ads)
       \<and> list_all (\<lambda>i. ECall (pause_call p i) \<in> set (ds_log s)
             \<and> (i \<in> set (map fst failures) \<or> proven_paused (de_client env) p (ds_log s) i)) (campaigns @ adsets @ ads)"
proof (cases rule: recover_cases [of env p cp])
  case (reads s stop)
  then show ?thesis by (cases stop) (simp_all add: reading_def)
next
  case (pauses plan campaigns adsets ads s1 s r)
  note scope = recovery_scoped [OF pauses(1-5)]
  show ?thesis
  proof (cases r)
    case (Inl stop)
    then have "stop = CancelledError" using pause_created_stop pauses(5) by blast
    then show ?thesis using pauses(6) Inl scope by auto
  next
    case (Inr failures)
    then show ?thesis
      using pauses(6) scope pause_created_done(1,2) [of "de_client env" p "campaigns @ adsets @ ads" s1 s failures] pauses(5)
      by (simp add: list_all_iff)
  qed
qed

end
