(* ===== verification/DuplicateLaunch.thy ===== *)
theory DuplicateLaunch
  imports DuplicatePlan
begin

text \<open>
  Storing and launching the preview of a duplication (\<open>core/adset_duplicates/service.py\<close>, from
  \<open>_canonical_json\<close> to \<open>get_duplicate_task\<close>). The random bytes of a token are an argument; an error is
  the status code of \<open>AdsetDuplicateError\<close> or an exception of the queue. A raised error rolls the
  transaction back, so it carries no state.
\<close>

section \<open>Rows of \<open>adset_duplicate_previews\<close>\<close>

record receipt =
  pv_token_digest :: string
  pv_principal :: string
  pv_preview :: json
  pv_task_payload :: json
  pv_plan_digest :: string
  pv_idempotency_key :: string
  pv_task_id :: "int option"
  pv_expires_at :: int
  pv_consumed_at :: "int option"

datatype launch_error = Refused int | Failed error

type_synonym 'a launch = "launch_error + 'a"

definition lbind :: "'a launch \<Rightarrow> ('a \<Rightarrow> 'b launch) \<Rightarrow> 'b launch" where
  "lbind r f = (case r of Inl e \<Rightarrow> Inl e | Inr x \<Rightarrow> f x)"

text \<open>\<open>except (TypeError, ValueError) as exc: raise AdsetDuplicateError(..., status_code=410)\<close>\<close>

definition or_refused :: "int \<Rightarrow> 'a result \<Rightarrow> 'a launch" where
  "or_refused code r = (case r of Inl _ \<Rightarrow> Inl (Refused code) | Inr x \<Rightarrow> Inr x)"

section \<open>Principal and token\<close>

definition MAX_PRINCIPAL_LENGTH :: nat where
  "MAX_PRINCIPAL_LENGTH = 64"

definition PREVIEW_TTL_SECONDS :: int where
  "PREVIEW_TTL_SECONDS = 15 * 60"

definition PREVIEW_TOKEN_LENGTH :: nat where
  "PREVIEW_TOKEN_LENGTH = 43"

definition PREVIEW_TOKEN_BYTES :: nat where
  "PREVIEW_TOKEN_BYTES = 32"

definition validated_principal :: "string \<Rightarrow> string launch" where
  "validated_principal who =
     (let normalized = py_strip who
      in if normalized = [] \<or> length normalized > MAX_PRINCIPAL_LENGTH then Inl (Refused 403) else Inr normalized)"

text \<open>Base64URL without padding: the 256 bits of a token and two zero bits are 43 digits of 6 bits.\<close>

definition URLSAFE_ALPHABET :: string where
  "URLSAFE_ALPHABET = ''ABCDEFGHIJKLMNOPQRSTUVWXYZabcdefghijklmnopqrstuvwxyz0123456789-_''"

definition number_of_bytes :: "string \<Rightarrow> nat" where
  "number_of_bytes bs = foldl (\<lambda>n ch. 256 * n + of_char ch) 0 bs"

fun bytes_of_number :: "nat \<Rightarrow> nat \<Rightarrow> string" where
  "bytes_of_number 0 n = []"
| "bytes_of_number (Suc k) n = bytes_of_number k (n div 256) @ [char_of (n mod 256)]"

fun digits_of_number :: "nat \<Rightarrow> nat \<Rightarrow> string" where
  "digits_of_number 0 n = []"
| "digits_of_number (Suc k) n = digits_of_number k (n div 64) @ [URLSAFE_ALPHABET ! (n mod 64)]"

definition digit_value :: "char \<Rightarrow> nat" where
  "digit_value ch = length (takeWhile (\<lambda>x. x \<noteq> ch) URLSAFE_ALPHABET)"

definition number_of_digits :: "string \<Rightarrow> nat" where
  "number_of_digits s = foldl (\<lambda>n ch. 64 * n + digit_value ch) 0 s"

definition new_preview_token :: "string \<Rightarrow> string \<times> string" where
  "new_preview_token token_bytes =
     (digits_of_number PREVIEW_TOKEN_LENGTH (4 * number_of_bytes token_bytes), sha256_hexdigest token_bytes)"

text \<open>
  The decoder ignores the last two bits; the comparison with the encoding of what it decoded refuses
  a token in which they are set, and the characters of the standard alphabet it also accepts.
\<close>

definition preview_token_digest :: "string \<Rightarrow> string launch" where
  "preview_token_digest preview_token =
     (if length preview_token \<noteq> PREVIEW_TOKEN_LENGTH \<or> \<not> set preview_token \<subseteq> set URLSAFE_ALPHABET
         \<or> number_of_digits preview_token mod 4 \<noteq> 0
      then Inl (Refused 410)
      else Inr (sha256_hexdigest (bytes_of_number PREVIEW_TOKEN_BYTES (number_of_digits preview_token div 4))))"

definition idempotency_key :: "string \<Rightarrow> string \<Rightarrow> string" where
  "idempotency_key who token = ''meta:duplicate-adset:'' @ sha256_hexdigest (who @ [CHR 0x00] @ token)"

section \<open>Payload\<close>

definition execution_task_payload :: "json \<Rightarrow> jobj \<Rightarrow> jobj launch" where
  "execution_task_payload preview task_params =
     (let source_account = jget (as_dict (jget (as_dict (jget (as_dict preview) ''source'')) ''account'')) ''id'';
          source_adset_id = py_str (jget task_params ''source_adset_id'')
      in if source_adset_id = [] \<or> \<not> list_all is_digit source_adset_id then Inl (Refused 410)
         else lbind (or_refused 410 (require_ad_account_id source_account)) (\<lambda>ad_account_id.
           or_refused 410 (canonical_duplicate_execution_payload ''duplicate_adset_structure'' (JStr source_adset_id)
             (JObj task_params) (JStr ad_account_id))))"

definition ready_task_payload :: "json \<Rightarrow> jobj \<Rightarrow> (jobj \<times> string) launch" where
  "ready_task_payload preview task_params =
     lbind (execution_task_payload preview task_params) (\<lambda>payload.
     case duplicate_execution_plan_digest ''duplicate_adset_structure'' (jget payload ''target_id'') (jget payload ''params'')
            (jget payload ''ad_account_id'') of
       Inl e \<Rightarrow> Inl (Failed e)
     | Inr plan_digest \<Rightarrow>
         Inr (map (\<lambda>(k, v). (k, if k = ''params'' then JObj (jmerge task_params [(''plan_digest'', JStr plan_digest)]) else v)) payload,
              plan_digest))"

text \<open>\<open>json.loads(_canonical_json(...))\<close> gives the same value with sorted keys.\<close>

fun sorted_keys :: "json \<Rightarrow> json" where
  "sorted_keys (JArr vs) = JArr (map sorted_keys vs)"
| "sorted_keys (JObj ob) = JObj (sort_key fst (map (\<lambda>(k, v). (k, sorted_keys v)) ob))"
| "sorted_keys v = v"

definition queued_payload :: "jobj \<Rightarrow> jobj" where
  "queued_payload payload = as_dict (sorted_keys (JObj payload))"

text \<open>Two dictionaries are equal when their canonical texts are.\<close>

definition validate_task_payload :: "jobj \<Rightarrow> jobj \<Rightarrow> unit launch" where
  "validate_task_payload payload stored_payload =
     (if canonical_json (JObj payload) \<noteq> canonical_json (JObj stored_payload) then Inl (Refused 409) else Inr ())"

definition validate_stored_task_payload :: "jobj \<Rightarrow> string \<Rightarrow> unit launch" where
  "validate_stored_task_payload payload plan_digest =
     (let value = jget payload; target = str_or_empty (jget payload ''target_id'')
      in case value ''params'' of
           JObj params \<Rightarrow>
             if value ''mutation_kind'' \<noteq> JStr ''duplicate_adset_structure'' \<or> target = [] \<or> \<not> list_all is_digit target
                \<or> jget params ''source_adset_id'' \<noteq> value ''target_id''
             then Inl (Refused 410)
             else lbind (or_refused 410 (require_ad_account_id (value ''ad_account_id''))) (\<lambda>canonical_account_id.
             if JStr canonical_account_id \<noteq> value ''ad_account_id'' then Inl (Refused 410)
             else
             lbind (or_refused 410 (duplicate_execution_plan_digest ''duplicate_adset_structure'' (JStr target) (JObj params)
               (value ''ad_account_id''))) (\<lambda>expected_digest.
             lbind (or_refused 410 (duplicate_execution_plan_digest_matches ''duplicate_adset_structure'' (JStr target) (JObj params)
               (value ''ad_account_id'') (jget params ''plan_digest''))) (\<lambda>embedded_digest_matches.
             if \<not> embedded_digest_matches \<or> length plan_digest \<noteq> 64 \<or> expected_digest \<noteq> plan_digest
             then Inl (Refused 410) else Inr ())))
         | _ \<Rightarrow> Inl (Refused 410))"

section \<open>Storing\<close>

text \<open>Three tokens are tried; a token already in the table inserts nothing.\<close>

fun insert_preview :: "(string \<Rightarrow> receipt) \<Rightarrow> string list \<Rightarrow> receipt list \<Rightarrow> (receipt list \<times> string) launch" where
  "insert_preview row [] previews = Inl (Refused 503)"
| "insert_preview row (token_bytes # rest) previews =
     (let (preview_token, token_digest) = new_preview_token token_bytes
      in if token_digest \<in> set (map pv_token_digest previews) then insert_preview row rest previews
         else Inr (previews @ [row token_digest], preview_token))"

definition save_stored_preview ::
  "clock \<Rightarrow> string list \<Rightarrow> json \<Rightarrow> jobj \<Rightarrow> string \<Rightarrow> string \<Rightarrow> receipt list \<Rightarrow> (receipt list \<times> string) launch" where
  "save_stored_preview c random preview task_params idempotency_token who previews =
     lbind (validated_principal who) (\<lambda>normalized_principal.
     lbind (ready_task_payload preview task_params) (\<lambda>(payload, plan_digest).
       insert_preview (\<lambda>token_digest.
         \<lparr>pv_token_digest = token_digest, pv_principal = normalized_principal, pv_preview = preview, pv_task_payload = JObj payload,
          pv_plan_digest = plan_digest, pv_idempotency_key = idempotency_key normalized_principal idempotency_token,
          pv_task_id = None, pv_expires_at = clk c + secs PREVIEW_TTL_SECONDS, pv_consumed_at = None\<rparr>)
         (take 3 random) previews))"

section \<open>Launching\<close>

definition decoded :: "json \<Rightarrow> jobj launch" where
  "decoded v =
     (case v of
        JObj ob \<Rightarrow> Inr ob
      | JStr s \<Rightarrow> (case json_loads s of Some (JObj ob) \<Rightarrow> Inr ob | _ \<Rightarrow> Inl (Refused 410))
      | _ \<Rightarrow> Inl (Refused 410))"

text \<open>The stored plan of a row, for its own principal and before its expiry.\<close>

definition stored_from_row :: "receipt \<Rightarrow> string \<Rightarrow> bool \<Rightarrow> int \<Rightarrow> jobj launch" where
  "stored_from_row row who allow_consumed_expired db_now =
     lbind (validated_principal who) (\<lambda>normalized_principal.
       if pv_principal row \<noteq> normalized_principal then Inl (Refused 403)
       else
       lbind (decoded (pv_preview row)) (\<lambda>_.
       lbind (decoded (pv_task_payload row)) (\<lambda>payload.
       lbind (validate_stored_task_payload payload (pv_plan_digest row)) (\<lambda>_.
         if pv_expires_at row \<le> db_now \<and> \<not> (allow_consumed_expired \<and> pv_task_id row \<noteq> None) then Inl (Refused 410)
         else Inr payload))))"

definition load_stored_preview :: "int \<Rightarrow> receipt list \<Rightarrow> string \<Rightarrow> string \<Rightarrow> jobj launch" where
  "load_stored_preview db_now previews preview_token who =
     lbind (preview_token_digest preview_token) (\<lambda>token_digest.
       case find (\<lambda>r. pv_token_digest r = token_digest) previews of
         None \<Rightarrow> Inl (Refused 410)
       | Some row \<Rightarrow> stored_from_row row who True db_now)"

definition duplicate_create_args :: "receipt \<Rightarrow> jobj \<Rightarrow> create_args" where
  "duplicate_create_args row payload =
     \<lparr>ca_task_type = ''meta_api_mutation'', ca_idempotency_key = pv_idempotency_key row, ca_payload = queued_payload payload,
      ca_requested_by = pv_principal row, ca_status = ''pending'', ca_max_attempts = 1, ca_created_by_chat_id = None,
      ca_target_lock_key = None, ca_target_lock_keys = [], ca_lane = None, ca_priority = None, ca_available_at = None,
      ca_deadline_at = None, ca_correlation_id = None\<rparr>"

definition existing_task :: "(task \<Rightarrow> bool) \<Rightarrow> jobj \<Rightarrow> qdb \<Rightarrow> int launch" where
  "existing_task P payload q =
     (case find (\<lambda>t. P t \<and> t_type t = MetaApiMutation) (tasks q) of
        None \<Rightarrow> Inl (Refused 409)
      | Some t \<Rightarrow> lbind (validate_task_payload (t_payload t) payload) (\<lambda>_. Inr (t_id t)))"

definition consume_preview :: "clock \<Rightarrow> string \<Rightarrow> int \<Rightarrow> receipt list \<Rightarrow> receipt list launch" where
  "consume_preview c token_digest task_id previews =
     (if list_ex (\<lambda>r. pv_token_digest r = token_digest \<and> pv_task_id r = None) previews
      then Inr (map (\<lambda>r. if pv_token_digest r = token_digest \<and> pv_task_id r = None
                         then r\<lparr>pv_task_id := Some task_id, pv_consumed_at := Some (clk c)\<rparr> else r) previews)
      else Inl (Refused 409))"

definition create_duplicate_task ::
  "clock \<Rightarrow> string \<Rightarrow> string \<Rightarrow> receipt list \<times> qdb \<Rightarrow> ((receipt list \<times> qdb) \<times> int \<times> bool) launch" where
  "create_duplicate_task c preview_token who db =
     (case db of (previews, q) \<Rightarrow>
      lbind (preview_token_digest preview_token) (\<lambda>token_digest.
      lbind (validated_principal who) (\<lambda>normalized_principal.
      case find (\<lambda>r. pv_token_digest r = token_digest) previews of
        None \<Rightarrow> Inl (Refused 410)
      | Some row \<Rightarrow>
          lbind (stored_from_row row normalized_principal True (clk c)) (\<lambda>payload.
          case pv_task_id row of
            Some i \<Rightarrow> lbind (existing_task (\<lambda>t. t_id t = i) payload q) (\<lambda>_. Inr ((previews, q), i, False))
          | None \<Rightarrow>
              (case create_task c (duplicate_create_args row payload) q of
                 Inl e \<Rightarrow> Inl (Failed e)
               | Inr (q', new_id) \<Rightarrow>
                   lbind (case new_id of
                            Some i \<Rightarrow> Inr i
                          | None \<Rightarrow> existing_task (\<lambda>t. t_idempotency_key t = pv_idempotency_key row) payload q') (\<lambda>task_id.
                   lbind (consume_preview c token_digest task_id previews) (\<lambda>previews'.
                     Inr ((previews', q'), task_id, new_id \<noteq> None))))))))"

text \<open>One duplication task of this principal.\<close>

definition get_duplicate_task :: "int \<Rightarrow> string \<Rightarrow> qdb \<Rightarrow> task option launch" where
  "get_duplicate_task task_id who q =
     lbind (validated_principal who) (\<lambda>normalized_principal.
       Inr (find (\<lambda>t. t_id t = task_id \<and> t_type t = MetaApiMutation
         \<and> arrow_text (t_payload t) ''mutation_kind'' = Some ''duplicate_adset_structure''
         \<and> t_requested_by t = normalized_principal) (tasks q)))"

end
