(* ===== verification/DuplicateGuard.thy ===== *)
theory DuplicateGuard
  imports DuplicateLaunch MetaWorker
begin

text \<open>
  The execution guard of an ad-set duplication (\<open>core/adset_duplicates/execution_guard.py\<close>): the
  external-call boundary is crossed only when the claimed snapshot, the row of the queue and every
  receipt of the consumed preview agree. A digest is its lowercase hex text.
\<close>

section \<open>Receipts\<close>

type_synonym 'a guarded = "string + 'a"

definition gbind :: "'a guarded \<Rightarrow> ('a \<Rightarrow> 'b guarded) \<Rightarrow> 'b guarded" where
  "gbind r f = (case r of Inl e \<Rightarrow> Inl e | Inr x \<Rightarrow> f x)"

definition TASK_PAYLOAD_KEYS :: "string list" where
  "TASK_PAYLOAD_KEYS = [''mutation_kind'', ''target_id'', ''params'', ''ad_account_id'']"

definition canonical_payload_digest :: "json \<Rightarrow> string" where
  "canonical_payload_digest payload = sha256_hexdigest (canonical_json payload)"

text \<open>What the guard turns into \<open>DuplicateExecutionReceiptError\<close>.\<close>

definition receipt_malformed :: "'a result \<Rightarrow> 'a guarded" where
  "receipt_malformed r = (case r of Inl _ \<Rightarrow> Inl ''receipt digest is malformed'' | Inr x \<Rightarrow> Inr x)"

definition validated_anchor :: "jobj \<Rightarrow> string \<Rightarrow> (string \<times> string) guarded" where
  "validated_anchor task_payload stored_plan_digest =
     (let value = jget task_payload
      in if set (map fst task_payload) \<noteq> set TASK_PAYLOAD_KEYS then Inl ''receipt task payload shape is invalid''
         else case value ''params'' of
           JObj params \<Rightarrow>
             if value ''mutation_kind'' \<noteq> JStr ''duplicate_adset_structure'' \<or> \<not> is_str (value ''target_id'')
                \<or> jget params ''source_adset_id'' \<noteq> value ''target_id''
             then Inl ''receipt execution identity is invalid''
             else
             gbind (receipt_malformed (require_ad_account_id (value ''ad_account_id''))) (\<lambda>canonical_account_id.
             gbind (receipt_malformed (duplicate_execution_plan_digest ''duplicate_adset_structure'' (value ''target_id'')
               (JObj params) (value ''ad_account_id''))) (\<lambda>recomputed.
             gbind (receipt_malformed (duplicate_execution_plan_digest_matches ''duplicate_adset_structure'' (value ''target_id'')
               (JObj params) (value ''ad_account_id'') (jget params ''plan_digest''))) (\<lambda>embedded_matches.
             if JStr canonical_account_id \<noteq> value ''ad_account_id'' then Inl ''receipt account id is not canonical''
             else if \<not> embedded_matches \<or> length stored_plan_digest \<noteq> 64 \<or> recomputed \<noteq> stored_plan_digest
             then Inl ''receipt digest does not match its plan''
             else Inr (canonical_payload_digest (JObj task_payload), stored_plan_digest))))
         | _ \<Rightarrow> Inl ''receipt params are invalid'')"

definition json_object :: "json \<Rightarrow> jobj guarded" where
  "json_object v =
     (case v of
        JObj ob \<Rightarrow> Inr ob
      | JStr s \<Rightarrow> (case json_loads s of Some (JObj ob) \<Rightarrow> Inr ob | _ \<Rightarrow> Inl ''not a JSON object'')
      | _ \<Rightarrow> Inl ''not a JSON object'')"

text \<open>The payload digest, the plan digest and the principal of a receipt.\<close>

definition verified_receipt :: "receipt \<Rightarrow> (string \<times> string \<times> string) guarded" where
  "verified_receipt row =
     (if pv_consumed_at row = None then Inl ''duplicate receipt is not consumed''
      else gbind (json_object (pv_task_payload row)) (\<lambda>receipt_payload.
        gbind (validated_anchor receipt_payload (pv_plan_digest row)) (\<lambda>(payload_digest, plan_digest).
          if pv_principal row = [] then Inl ''receipt principal is invalid''
          else Inr (payload_digest, plan_digest, pv_principal row))))"

text \<open>Every later receipt must agree with the first.\<close>

fun same_receipts :: "string \<times> string \<times> string \<Rightarrow> receipt list \<Rightarrow> unit guarded" where
  "same_receipts expected [] = Inr ()"
| "same_receipts expected (row # rows) =
     gbind (verified_receipt row) (\<lambda>got.
       if got \<noteq> expected then Inl ''duplicate task receipts conflict'' else same_receipts expected rows)"

definition verify_receipt_rows :: "receipt list \<Rightarrow> jobj \<Rightarrow> string \<Rightarrow> unit guarded" where
  "verify_receipt_rows rows task_payload requested_by =
     (case rows of
        [] \<Rightarrow> Inl ''duplicate task has no durable receipt''
      | row # rest \<Rightarrow>
          if requested_by = [] then Inl ''queued task principal is invalid''
          else
          gbind (verified_receipt row) (\<lambda>(payload_digest, plan_digest, principal).
          gbind (same_receipts (payload_digest, plan_digest, principal) rest) (\<lambda>_.
            if payload_digest \<noteq> canonical_payload_digest (JObj task_payload) \<or> principal \<noteq> requested_by
            then Inl ''queued task does not match durable receipt'' else Inr ())))"

section \<open>The boundary\<close>

definition boundary_open :: "clock \<Rightarrow> int \<Rightarrow> int option \<Rightarrow> int option \<Rightarrow> task \<Rightarrow> bool" where
  "boundary_open c task_id lease_owner lease_token t \<longleftrightarrow>
     fence_live c task_id lease_owner lease_token t \<and> t_cancel_requested_at t = None
     \<and> (case t_deadline_at t of None \<Rightarrow> True | Some d \<Rightarrow> d > clk c)"

definition recovery_input :: "jobj option \<Rightarrow> unit guarded" where
  "recovery_input recovery_checkpoint =
     (case recovery_checkpoint of
        None \<Rightarrow> Inr ()
      | Some checkpoint \<Rightarrow>
          if jget checkpoint ''checkpoint_type'' \<noteq> JStr ''duplicate_adset_structure'' \<or> jget checkpoint ''recovery_requested'' \<noteq> JBool True
          then Inl ''recovery checkpoint is not authoritative'' else Inr ())"

text \<open>
  The last statement of the transaction. Two JSONB values are equal when their canonical texts are.
\<close>

definition cross_boundary :: "clock \<Rightarrow> int \<Rightarrow> int option \<Rightarrow> int option \<Rightarrow> jobj option \<Rightarrow> task \<Rightarrow> qdb \<Rightarrow> (qdb \<times> bool) guarded" where
  "cross_boundary c task_id lease_owner lease_token recovery_checkpoint row db =
     (case recovery_checkpoint of
        Some checkpoint \<Rightarrow>
          gbind (json_object (case t_result row of None \<Rightarrow> JNull | Some ob \<Rightarrow> JObj ob)) (\<lambda>stored.
            if t_external_started_at row = None \<or> canonical_payload_digest (JObj stored) \<noteq> canonical_payload_digest (JObj checkpoint)
            then Inl ''claimed recovery does not match authoritative checkpoint''
            else
              let (db', hit) = update_tasks (\<lambda>t. boundary_open c task_id lease_owner lease_token t \<and> t_external_started_at t \<noteq> None
                    \<and> map_option (\<lambda>ob. canonical_json (JObj ob)) (t_result t) = Some (canonical_json (JObj checkpoint)))
                    (\<lambda>t. t\<lparr>t_updated_at := clk c\<rparr>) db
              in Inr (db', hit \<noteq> []))
      | None \<Rightarrow>
          if t_external_started_at row \<noteq> None then Inr (db, False)
          else if t_result row \<noteq> None then Inl ''create task has an unexpected durable checkpoint''
          else
            let (db', hit) = update_tasks (\<lambda>t. boundary_open c task_id lease_owner lease_token t \<and> t_external_started_at t = None)
                  (\<lambda>t. t\<lparr>t_external_started_at := Some (clk c), t_updated_at := clk c\<rparr>) db
            in Inr (db', hit \<noteq> []))"

definition authorize_duplicate_execution_boundary ::
  "receipt list \<Rightarrow> clock \<Rightarrow> int \<Rightarrow> jobj \<Rightarrow> string \<Rightarrow> string \<Rightarrow> int option \<Rightarrow> int option \<Rightarrow> jobj option \<Rightarrow> qdb \<Rightarrow> (qdb \<times> bool) guarded" where
  "authorize_duplicate_execution_boundary previews c task_id task_payload requested_by target_lock_key
       lease_owner lease_token recovery_checkpoint db =
     (if \<not> has_valid_fence lease_owner lease_token then Inr (db, False)
      else if target_lock_key = [] \<or> jget task_payload ''target_id'' \<noteq> JStr target_lock_key
      then Inl ''advisory lock target does not match claimed task target''
      else if requested_by = [] then Inl ''claimed task principal is invalid''
      else
      gbind (recovery_input recovery_checkpoint) (\<lambda>_.
        case find (\<lambda>t. boundary_open c task_id lease_owner lease_token t \<and> t_type t = MetaApiMutation) (tasks db) of
          None \<Rightarrow> Inr (db, False)
        | Some row \<Rightarrow>
            if t_requested_by row = [] then Inl ''authoritative task principal is invalid''
            else if canonical_payload_digest (JObj (t_payload row)) \<noteq> canonical_payload_digest (JObj task_payload)
                    \<or> t_requested_by row \<noteq> requested_by
            then Inl ''claimed task does not match authoritative task row''
            else
            gbind (verify_receipt_rows
                (sort_key pv_token_digest (filter (\<lambda>r. pv_task_id r = Some task_id) previews)) (t_payload row) (t_requested_by row)) (\<lambda>_.
              cross_boundary c task_id lease_owner lease_token recovery_checkpoint row db)))"

text \<open>As the worker calls it, for its parameter \<open>we_authorize\<close>.\<close>

definition duplicate_guard :: "receipt list \<Rightarrow> clock \<Rightarrow> task \<Rightarrow> meta_payload \<Rightarrow> jobj option \<Rightarrow> qdb \<Rightarrow> string + (qdb \<times> bool)" where
  "duplicate_guard previews c task p recovery_checkpoint q =
     authorize_duplicate_execution_boundary previews c (t_id task) (t_payload task) (t_requested_by task) (mp_target_id p)
       (t_lease_owner task) (Some (t_lease_token task)) recovery_checkpoint q"

end
