(* ===== verification/DuplicateGap.thy ===== *)
theory DuplicateGap
  imports DuplicateProps
begin

text \<open>
  A run in which Meta created a campaign and returned its identifier, but the read that should prove
  it got no answer.
\<close>

section \<open>A signed plan\<close>

definition unsigned_params :: jobj where
  "unsigned_params =
     [(''source_campaign_id'', JStr ''100''), (''source_adset_id'', JStr ''200''), (''selected_ad_ids'', JArr [JStr ''300'']),
      (''campaign_count'', JNum 1), (''adsets_per_campaign'', JNum 1), (''budget_level'', JStr ''ABO''),
      (''daily_budget'', JStr ''10''), (''currency'', JStr ''USD''), (''currency_exponent'', JNum 2),
      (''start_time'', JStr ''2030-01-01T00:00:00Z''), (''campaign_names'', JArr [JStr ''C'']), (''adset_names'', JArr [JStr ''A''])]"

definition signature_of :: "string \<Rightarrow> string \<Rightarrow> jobj \<Rightarrow> string" where
  "signature_of target_id account params =
     sha256_hexdigest (canonical_json (JObj
       [(''mutation_kind'', JStr ''duplicate_adset_structure''), (''target_id'', JStr target_id),
        (''params'', JObj params), (''ad_account_id'', JStr account)]))"

definition signed_payload :: meta_payload where
  "signed_payload =
     \<lparr>mp_mutation_kind = ''duplicate_adset_structure'', mp_target_id = ''200'', mp_ad_account_id = ''1'',
      mp_params = unsigned_params @ [(''plan_digest'', JStr (signature_of ''200'' ''1'' unsigned_params))],
      mp_currency = None, mp_cabinet_timezone = None, mp_account_context_observed_at = None, mp_account_context_issues = []\<rparr>"

definition sample_parser :: iso_parser where
  "sample_parser s = (if s = ''2030-01-01T00:00:00+00:00'' then Some (1000, Some 0) else None)"

definition sample_plan :: dup_plan where
  "sample_plan =
     \<lparr>pl_account_id = ''act_1'', pl_source_campaign_id = ''100'', pl_source_adset_id = ''200'', pl_selected_ad_ids = [''300''],
      pl_campaign_count = 1, pl_adsets_per_campaign = 1, pl_budget_level = ''ABO'', pl_currency = ''USD'', pl_currency_exponent = 2,
      pl_daily_budget_minor_units = 1000, pl_start_time = ''2030-01-01T00:00:00Z'', pl_start_at = 1000,
      pl_campaign_names = [''C''], pl_adset_names = [[''A'']]\<rparr>"

lemma hexdigest_well_formed:
  "length (sha256_hexdigest s) = 64 \<and> list_all (\<lambda>ch. ch \<in> set hex_digits) (sha256_hexdigest s)"
  using set_sha256_hexdigest [of s] by (auto simp: list_all_iff)

lemma signed_digest:
  "duplicate_execution_plan_digest ''duplicate_adset_structure'' (JStr ''200'') (JObj (mp_params signed_payload)) (JStr ''1'')
     = Inr (signature_of ''200'' ''1'' unsigned_params)"
proof -
  have target: "py_strip ''200'' = ''200''" "list_all is_digit ''200''" by code_simp+
  have account: "require_ad_account_id (JStr ''1'') = Inr ''1''" by code_simp
  have "jdel (mp_params signed_payload) ''plan_digest'' = unsigned_params"
    by (simp add: signed_payload_def unsigned_params_def jdel_def)
  then show ?thesis
    using target account by (simp add: duplicate_execution_plan_digest_def canonical_duplicate_execution_payload_def signature_of_def ebind_def)
qed

lemma signed_digest_matches:
  "duplicate_execution_plan_digest_matches ''duplicate_adset_structure'' (JStr ''200'') (JObj (mp_params signed_payload)) (JStr ''1'')
     (jget (mp_params signed_payload) ''plan_digest'') = Inr True"
proof -
  have "jget (mp_params signed_payload) ''plan_digest'' = JStr (signature_of ''200'' ''1'' unsigned_params)"
    by (simp add: signed_payload_def unsigned_params_def jget_def)
  then show ?thesis
    using hexdigest_well_formed signed_digest by (simp add: duplicate_execution_plan_digest_matches_def ebind_def signature_of_def)
qed

lemma signed_param: "k \<noteq> ''plan_digest'' \<Longrightarrow> jget (mp_params signed_payload) k = jget unsigned_params k"
  by (simp add: signed_payload_def unsigned_params_def jget_def)

lemma signed_fields: "mp_mutation_kind signed_payload = ''duplicate_adset_structure''" "mp_target_id signed_payload = ''200''"
  "mp_ad_account_id signed_payload = ''1''"
  by (simp_all add: signed_payload_def)

lemma sample_plan_valid: "validate_plan sample_parser 0 True signed_payload = Inr sample_plan"
proof -
  have v: "validate_account_id ''1'' = Inr ''act_1''" by code_simp
  have i: "require_numeric_id (jget unsigned_params ''source_campaign_id'') = Inr ''100''"
    "require_numeric_id (jget unsigned_params ''source_adset_id'') = Inr ''200''"
    "validate_ids (jget unsigned_params ''selected_ad_ids'') = Inr [''300'']"
    "validate_count (jget unsigned_params ''campaign_count'') 5 = Inr 1"
    "validate_count (jget unsigned_params ''adsets_per_campaign'') 10 = Inr 1"
    by code_simp+
  have b: "jget unsigned_params ''budget_level'' = JStr ''ABO''" "py_upper (py_strip ''ABO'') = ''ABO''" by code_simp+
  have m: "checked_daily_budget_minor_units (AmText (py_str (jget unsigned_params ''daily_budget'')))
      (Some (str_or_empty (jget unsigned_params ''currency''))) (exponent_of_json (jget unsigned_params ''currency_exponent''))
      = Inr (''USD'', 2, 10, 1000)"
    by code_simp
  have t: "validate_start_time sample_parser 0 True (jget unsigned_params ''start_time'') = Inr (''2030-01-01T00:00:00Z'', 1000)"
    by code_simp
  have n: "validate_names (jget unsigned_params ''campaign_names'') 1 = Inr [''C'']"
    "validate_adset_names (jget unsigned_params ''adset_names'') 1 1 = Inr [[''A'']]"
    by code_simp+
  show ?thesis
    unfolding validate_plan_def Let_def signed_fields signed_digest_matches
    by (simp add: signed_param v i b m t n as_validation_error_def ebind_def sample_plan_def MAX_SELECTED_ADS_def MAX_CREATED_ADS_def
        del: One_nat_def)
qed

section \<open>The run\<close>

definition gap_client :: dup_client where
  "gap_client past call =
     (if gc_endpoint call = ''/100'' then Inr (JObj [(''id'', JStr ''100''), (''account_id'', JStr ''1''), (''objective'', JStr ''O'')])
      else if gc_endpoint call = ''/200'' then Inr (JObj [(''id'', JStr ''200''), (''account_id'', JStr ''1''), (''campaign_id'', JStr ''100'')])
      else if gc_endpoint call = ''/300'' then
        Inr (JObj [(''id'', JStr ''300''), (''account_id'', JStr ''1''), (''campaign_id'', JStr ''100''), (''adset_id'', JStr ''200''),
          (''name'', JStr ''N''), (''creative'', JObj [(''id'', JStr ''900'')])])
      else if gc_endpoint call = ''/act_1/campaigns'' then Inr (JObj [(''id'', JStr ''777'')])
      else Inl (Raised (plain_exn CTemporaryError ''no answer'')))"

definition gap_env :: dup_env where
  "gap_env =
     \<lparr>de_client = gap_client, de_progress = None, de_shielded = (\<lambda>_ _. Inl (plain_exn CTemporaryError ''no answer'')),
      de_cancelled_again = False, de_now = 0, de_fromisoformat = sample_parser\<rparr>"

definition created_777 :: "meta_payload \<Rightarrow> dup_call" where
  "created_777 p =
     post_call p ''/act_1/campaigns'' (campaign_create_body sample_plan
       [(''id'', JStr ''100''), (''account_id'', JStr ''1''), (''objective'', JStr ''O'')] ''C'')"

lemma gap_answers:
  "gap_client past (get_call p ''/100'' q) = Inr (JObj [(''id'', JStr ''100''), (''account_id'', JStr ''1''), (''objective'', JStr ''O'')])"
  "gap_client past (get_call p ''/200'' q) = Inr (JObj [(''id'', JStr ''200''), (''account_id'', JStr ''1''), (''campaign_id'', JStr ''100'')])"
  "gap_client past (get_call p ''/300'' q) =
     Inr (JObj [(''id'', JStr ''300''), (''account_id'', JStr ''1''), (''campaign_id'', JStr ''100''), (''adset_id'', JStr ''200''),
       (''name'', JStr ''N''), (''creative'', JObj [(''id'', JStr ''900'')])])"
  "gap_client past (post_call p ''/act_1/campaigns'' body) = Inr (JObj [(''id'', JStr ''777'')])"
  "gap_client past (get_call p ''/777'' q) = Inl (Raised (plain_exn CTemporaryError ''no answer''))"
  by (simp_all add: gap_client_def get_call_def post_call_def dup_call.defs)

lemma gap_ad_loaded:
  "load_source_ad gap_env p sample_plan ''300'' s =
     (s\<lparr>ds_log := ds_log s @ [ECall (get_call p ''/300'' [(''fields'', SOURCE_AD_FIELDS)])]\<rparr>,
      Inr \<lparr>sa_ad_id = ''300'', sa_name = ''N'', sa_creative_id = ''900''\<rparr>)"
proof -
  let ?row = "JObj [(''id'', JStr ''300''), (''account_id'', JStr ''1''), (''campaign_id'', JStr ''100''), (''adset_id'', JStr ''200''),
       (''name'', JStr ''N''), (''creative'', JObj [(''id'', JStr ''900'')])]"
  have "checks [require_object_id ?row ''300'', require_account sample_plan ?row,
          check (str_or_empty (jget (as_dict ?row) ''adset_id'') = pl_source_adset_id sample_plan)
            (validation_error ''selected ad does not belong to source_adset_id''),
          check (str_or_empty (jget (as_dict ?row) ''campaign_id'') = pl_source_campaign_id sample_plan)
            (validation_error ''selected ad does not belong to source_campaign_id'')] = Inr ()"
    by code_simp
  moreover have "attempt_of (require_numeric_id (jget (as_dict (jget (as_dict ?row) ''creative'')) ''id'')) = Inr ''900''" by code_simp
  moreover have "py_strip (str_or_empty (jget (as_dict ?row) ''name'')) = ''N''" by code_simp
  ultimately show ?thesis
    unfolding load_source_ad_def
    by (simp only: dbind_def ask_def gap_answers gap_env_def dup_env.simps append.simps prod.case sum.case dattempt_def xbind_def Let_def) simp
qed

lemma gap_source_loaded:
  "load_and_validate_source gap_env p sample_plan new_run =
     (new_run\<lparr>ds_log := [ECall (get_call p ''/100'' [(''fields'', SOURCE_CAMPAIGN_FIELDS)]),
        ECall (get_call p ''/200'' [(''fields'', SOURCE_ADSET_FIELDS)]), ECall (get_call p ''/300'' [(''fields'', SOURCE_AD_FIELDS)])]\<rparr>,
      Inr ([(''id'', JStr ''100''), (''account_id'', JStr ''1''), (''objective'', JStr ''O'')],
        [\<lparr>sa_ad_id = ''300'', sa_name = ''N'', sa_creative_id = ''900''\<rparr>]))"
proof -
  let ?campaign = "JObj [(''id'', JStr ''100''), (''account_id'', JStr ''1''), (''objective'', JStr ''O'')]"
  let ?adset = "JObj [(''id'', JStr ''200''), (''account_id'', JStr ''1''), (''campaign_id'', JStr ''100'')]"
  have c: "checks [require_object_id ?campaign ''100'', require_object_id ?adset ''200'', require_account sample_plan ?campaign,
        require_account sample_plan ?adset,
        check (str_or_empty (jget (as_dict ?adset) ''campaign_id'') = ''100'') (validation_error ''source_adset_id does not belong to source_campaign_id''),
        check (truthy (jget (as_dict ?campaign) ''objective'')) (validation_error ''source campaign has no objective'')] = Inr ()"
    by code_simp
  have ids: "pl_source_campaign_id sample_plan = ''100''" "pl_source_adset_id sample_plan = ''200''" "pl_selected_ad_ids sample_plan = [''300'']"
    by (simp_all add: sample_plan_def)
  have client: "de_client gap_env = gap_client" by (simp add: gap_env_def)
  show ?thesis
    unfolding load_and_validate_source_def
    by (simp only: ids client dbind_def ask_def gap_answers append.simps prod.case sum.case dattempt_def c load_source_ads.simps gap_ad_loaded
        dreturn_def) (simp add: new_run_def as_dict_def)
qed

lemma gap_creation_stops:
  assumes "created_ids s = []"
  shows "\<exists>s1. create_structure gap_env p sample_plan [(''id'', JStr ''100''), (''account_id'', JStr ''1''), (''objective'', JStr ''O'')]
      [\<lparr>sa_ad_id = ''300'', sa_name = ''N'', sa_creative_id = ''900''\<rparr>] s =
    (s1, Inl (Raised (plain_exn CTemporaryError ''no answer'')))
    \<and> ds_log s1 = ds_log s @ [ECall (created_777 p), ECall (get_call p ''/777'' [(''fields'', PROVE_CAMPAIGN_FIELDS)])]
    \<and> ds_campaigns s1 = [] \<and> ds_adsets s1 = [] \<and> ds_ads s1 = []"
proof -
  have e: "extract_created_id ''id'' (JObj [(''id'', JStr ''777'')]) = Inr ''777''" by code_simp
  have f: "''777'' \<notin> set (source_ids sample_plan [\<lparr>sa_ad_id = ''300'', sa_name = ''N'', sa_creative_id = ''900''\<rparr>])" by code_simp
  have names: "pl_campaign_names sample_plan = [''C'']" "pl_account_id sample_plan = ''act_1''" by (simp_all add: sample_plan_def)
  have client: "de_client gap_env = gap_client" by (simp add: gap_env_def)
  show ?thesis
    using assms
    by (simp add: create_structure_def names create_campaign_def create_object_def client dbind_def ask_def gap_answers dattempt_def e
        require_fresh_created_id_def f at_step_def keep_response_def dmodify_def created_777_def created_ids_def)
qed

text \<open>
  The campaign 777 exists and its identifier is known, but the exception names no object and the
  cleanup never asked to pause it.
\<close>

theorem unproven_object_escapes_cleanup:
  "\<exists>s e. duplicate_execute gap_env signed_payload new_run = (s, Inl (Raised e))
     \<and> ECall (created_777 signed_payload) \<in> set (ds_log s)
     \<and> gap_client [] (created_777 signed_payload) = Inr (JObj [(''id'', JStr ''777'')])
     \<and> jget (ex_details e) ''created_ids'' = created_json [] [] [] \<and> jget (ex_details e) ''cleanup_failures'' = failures_json []
     \<and> ECall (pause_call signed_payload ''777'') \<notin> set (ds_log s)"
proof -
  let ?source = "[(''id'', JStr ''100''), (''account_id'', JStr ''1''), (''objective'', JStr ''O'')]"
  let ?ads = "[\<lparr>sa_ad_id = ''300'', sa_name = ''N'', sa_creative_id = ''900''\<rparr>]"
  have v: "validate_plan (de_fromisoformat gap_env) (de_now gap_env) True signed_payload = Inr sample_plan"
    using sample_plan_valid by (simp add: gap_env_def)
  obtain s0 where l: "load_and_validate_source gap_env signed_payload sample_plan new_run = (s0, Inr (?source, ?ads))"
    and log0: "ds_log s0 = [ECall (get_call signed_payload ''/100'' [(''fields'', SOURCE_CAMPAIGN_FIELDS)]),
      ECall (get_call signed_payload ''/200'' [(''fields'', SOURCE_ADSET_FIELDS)]),
      ECall (get_call signed_payload ''/300'' [(''fields'', SOURCE_AD_FIELDS)])]" and s0: "created_ids s0 = []"
    using gap_source_loaded [of signed_payload] by (auto simp: new_run_def created_ids_def)
  obtain s1 where c: "create_structure gap_env signed_payload sample_plan ?source ?ads s0 = (s1, Inl (Raised (plain_exn CTemporaryError ''no answer'')))"
    and log1: "ds_log s1 = ds_log s0 @ [ECall (created_777 signed_payload), ECall (get_call signed_payload ''/777'' [(''fields'', PROVE_CAMPAIGN_FIELDS)])]"
    and s1: "ds_campaigns s1 = []" "ds_adsets s1 = []" "ds_ads s1 = []"
    using gap_creation_stops [OF s0] by blast
  have "after_failure gap_env signed_payload (plain_exn CTemporaryError ''no answer'') s1 =
      (s1, Inl (Raised (partial_error (plain_exn CTemporaryError ''no answer'') [] s1)))"
    by (simp add: after_failure_def created_ids_def s1 dbind_def dreturn_def dcatch_def emit_progress_def gap_env_def)
  then have run: "duplicate_execute gap_env signed_payload new_run =
      (s1, Inl (Raised (partial_error (plain_exn CTemporaryError ''no answer'') [] s1)))"
    using duplicate_execute_loaded [OF v l c] by simp
  have "ECall (pause_call signed_payload ''777'') \<notin> set (ds_log s1)"
    by (simp add: log0 log1 pause_call_def created_777_def get_call_def post_call_def dup_call.defs)
  then show ?thesis using run log1 s1 gap_answers(4) by (auto simp: partial_error_def created_777_def)
qed

end
