(* ===== verification/DuplicateGuardProps.thy ===== *)
theory DuplicateGuardProps
  imports DuplicateGuard DuplicateGap TaskQueueProps
begin

text \<open>What the execution guard of a duplication guarantees.\<close>

section \<open>Receipts\<close>

lemma gbind_Inr: "gbind r f = Inr y \<longleftrightarrow> (\<exists>x. r = Inr x \<and> f x = Inr y)"
  by (cases r) (simp_all add: gbind_def)

text \<open>A consumed receipt of the same principal whose payload and plan are the ones of the row.\<close>

definition receipt_covers :: "task \<Rightarrow> receipt \<Rightarrow> bool" where
  "receipt_covers row r \<longleftrightarrow>
     pv_consumed_at r \<noteq> None \<and> pv_principal r = t_requested_by row
     \<and> (case json_object (pv_task_payload r) of
          Inl _ \<Rightarrow> False
        | Inr ob \<Rightarrow> canonical_payload_digest (JObj ob) = canonical_payload_digest (JObj (t_payload row))
            \<and> duplicate_execution_plan_digest ''duplicate_adset_structure'' (jget ob ''target_id'') (jget ob ''params'')
                (jget ob ''ad_account_id'') = Inr (pv_plan_digest r))"

lemma validated_anchor_facts:
  assumes "validated_anchor ob stored = Inr (payload_digest, plan_digest)"
  shows "payload_digest = canonical_payload_digest (JObj ob)"
    and "duplicate_execution_plan_digest ''duplicate_adset_structure'' (jget ob ''target_id'') (jget ob ''params'')
           (jget ob ''ad_account_id'') = Inr stored"
  using assms
  by (auto simp: validated_anchor_def Let_def gbind_Inr receipt_malformed_def split: if_splits json.splits sum.splits)

lemma verified_receipt_covers:
  assumes "verified_receipt r = Inr (canonical_payload_digest (JObj (t_payload row)), plan_digest, t_requested_by row)"
  shows "receipt_covers row r"
proof -
  obtain ob where ob: "json_object (pv_task_payload r) = Inr ob" "pv_consumed_at r \<noteq> None" "pv_principal r = t_requested_by row"
    and a: "validated_anchor ob (pv_plan_digest r) = Inr (canonical_payload_digest (JObj (t_payload row)), plan_digest)"
    using assms by (auto simp: verified_receipt_def gbind_Inr split: if_splits prod.splits)
  show ?thesis using ob validated_anchor_facts [OF a] by (simp add: receipt_covers_def)
qed

lemma same_receipts_all: "same_receipts e rows = Inr () \<Longrightarrow> r \<in> set rows \<Longrightarrow> verified_receipt r = Inr e"
  by (induction rows) (auto simp: gbind_Inr split: if_splits)

lemma verified_rows_cover:
  assumes "verify_receipt_rows rows (t_payload row) (t_requested_by row) = Inr ()"
  shows "rows \<noteq> []" and "list_all (receipt_covers row) rows"
proof -
  obtain r rest plan_digest where rows: "rows = r # rest"
    and r: "verified_receipt r = Inr (canonical_payload_digest (JObj (t_payload row)), plan_digest, t_requested_by row)"
    and rest: "same_receipts (canonical_payload_digest (JObj (t_payload row)), plan_digest, t_requested_by row) rest = Inr ()"
    using assms by (auto simp: verify_receipt_rows_def gbind_Inr split: list.splits if_splits prod.splits)
  show "rows \<noteq> []" using rows by simp
  show "list_all (receipt_covers row) rows"
    using rows verified_receipt_covers [OF r] verified_receipt_covers [OF same_receipts_all [OF rest]] by (auto simp: list_all_iff)
qed

section \<open>The boundary\<close>

lemma authorized_row:
  assumes "authorize_duplicate_execution_boundary previews c i payload by key own k cp db = Inr (db', True)"
  obtains row where "find (\<lambda>t. boundary_open c i own k t \<and> t_type t = MetaApiMutation) (tasks db) = Some row"
    "canonical_payload_digest (JObj (t_payload row)) = canonical_payload_digest (JObj payload)" "t_requested_by row = by"
    "verify_receipt_rows (sort_key pv_token_digest (filter (\<lambda>r. pv_task_id r = Some i) previews)) (t_payload row) (t_requested_by row) = Inr ()"
    "cross_boundary c i own k cp row db = Inr (db', True)"
  using assms
  by (auto simp: authorize_duplicate_execution_boundary_def gbind_Inr split: if_splits option.splits)

lemma open_row_id: "boundary_open c i own k t \<Longrightarrow> t_id t = i"
  by (simp add: boundary_open_def fence_live_def)

lemma same_row:
  assumes "distinct (map t_id (tasks db))" "t \<in> set (tasks db)" "row \<in> set (tasks db)" "t_id t = t_id row"
  shows "t = row"
  using assms by (auto simp: distinct_map dest: inj_onD)

lemma update_one:
  assumes "\<And>t. t \<in> set (tasks db) \<Longrightarrow> P t \<longleftrightarrow> t = row"
  shows "tasks (fst (update_tasks P f db)) = map (\<lambda>t. if t = row then f t else t) (tasks db)"
  using assms by (simp add: update_tasks_def)

text \<open>The row and the only change the crossing makes to it.\<close>

definition boundary_row :: "clock \<Rightarrow> jobj option \<Rightarrow> task \<Rightarrow> task" where
  "boundary_row c cp t =
     (case cp of None \<Rightarrow> t\<lparr>t_external_started_at := Some (clk c), t_updated_at := clk c\<rparr> | Some _ \<Rightarrow> t\<lparr>t_updated_at := clk c\<rparr>)"

lemma cross_boundary_row:
  assumes d: "distinct (map t_id (tasks db))" and row: "row \<in> set (tasks db)" "boundary_open c i own k row"
    and r: "cross_boundary c i own k cp row db = Inr (db', True)"
  shows "tasks db' = map (\<lambda>t. if t = row then boundary_row c cp t else t) (tasks db)"
    and "case cp of None \<Rightarrow> t_external_started_at row = None \<and> t_result row = None
         | Some checkpoint \<Rightarrow> t_external_started_at row \<noteq> None
             \<and> map_option (\<lambda>ob. canonical_json (JObj ob)) (t_result row) = Some (canonical_json (JObj checkpoint))"
proof -
  have only: "t = row" if "t \<in> set (tasks db)" "boundary_open c i own k t" for t
    using same_row [OF d that(1) row(1)] open_row_id [OF that(2)] open_row_id [OF row(2)] by simp
  have "tasks db' = map (\<lambda>t. if t = row then boundary_row c cp t else t) (tasks db)
    \<and> (case cp of None \<Rightarrow> t_external_started_at row = None \<and> t_result row = None
         | Some checkpoint \<Rightarrow> t_external_started_at row \<noteq> None
             \<and> map_option (\<lambda>ob. canonical_json (JObj ob)) (t_result row) = Some (canonical_json (JObj checkpoint)))"
  proof (cases cp)
    case None
    then have ext: "t_external_started_at row = None" "t_result row = None"
      and db': "db' = fst (update_tasks (\<lambda>t. boundary_open c i own k t \<and> t_external_started_at t = None)
          (\<lambda>t. t\<lparr>t_external_started_at := Some (clk c), t_updated_at := clk c\<rparr>) db)"
      using r by (auto simp: cross_boundary_def Let_def split: if_splits prod.splits)
    moreover have "boundary_open c i own k t \<and> t_external_started_at t = None \<longleftrightarrow> t = row" if "t \<in> set (tasks db)" for t
      using only that row(2) ext by blast
    ultimately show ?thesis using None by (simp add: update_one boundary_row_def)
  next
    case (Some checkpoint)
    let ?P = "\<lambda>t. boundary_open c i own k t \<and> t_external_started_at t \<noteq> None
        \<and> map_option (\<lambda>ob. canonical_json (JObj ob)) (t_result t) = Some (canonical_json (JObj checkpoint))"
    have db': "db' = fst (update_tasks ?P (\<lambda>t. t\<lparr>t_updated_at := clk c\<rparr>) db)" and hit: "filter ?P (tasks db) \<noteq> []"
      using r Some by (auto simp: cross_boundary_def update_tasks_def gbind_Inr split: if_splits option.splits)
    then obtain t where "t \<in> set (tasks db)" "?P t" by (auto simp: filter_empty_conv)
    then have P: "?P row" using only by auto
    then have "?P t \<longleftrightarrow> t = row" if "t \<in> set (tasks db)" for t using only that by blast
    then show ?thesis using Some db' P by (simp add: update_one [of db ?P row] boundary_row_def)
  qed
  then show "tasks db' = map (\<lambda>t. if t = row then boundary_row c cp t else t) (tasks db)"
    "case cp of None \<Rightarrow> t_external_started_at row = None \<and> t_result row = None
         | Some checkpoint \<Rightarrow> t_external_started_at row \<noteq> None
             \<and> map_option (\<lambda>ob. canonical_json (JObj ob)) (t_result row) = Some (canonical_json (JObj checkpoint))" by blast+
qed

lemma find_row: "find P xs = Some x \<Longrightarrow> x \<in> set xs \<and> P x"
  by (auto simp: find_Some_iff)

text \<open>
  C40. The guard lets a duplication cross the boundary of its external call only for the row of its claim,
  which is running under the live lease, not cancelled and before its deadline; only when at least one
  receipt of a preview names the task and every one that does is consumed, of the same principal and for
  the payload and plan of the row; a creation only when nothing was started and nothing stored, a recovery
  only with the stored checkpoint. Only that row changes, and from the database it leaves no creation of
  the task crosses the boundary again.
\<close>

theorem duplicate_boundary_needs_receipts:
  assumes "distinct (map t_id (tasks db))"
    and "authorize_duplicate_execution_boundary previews c i payload by key own k cp db = Inr (db', True)"
  shows "(\<exists>row \<in> set (tasks db).
      t_id row = i \<and> t_status row = Running \<and> t_lease_owner row = own \<and> k = Some (t_lease_token row)
      \<and> (\<exists>x. t_lease_expires_at row = Some x \<and> clk c < x) \<and> t_cancel_requested_at row = None
      \<and> list_all (\<lambda>d. clk c < d) (case t_deadline_at row of None \<Rightarrow> [] | Some d \<Rightarrow> [d])
      \<and> t_type row = MetaApiMutation \<and> t_requested_by row = by
      \<and> canonical_payload_digest (JObj (t_payload row)) = canonical_payload_digest (JObj payload)
      \<and> filter (\<lambda>r. pv_task_id r = Some i) previews \<noteq> []
      \<and> list_all (receipt_covers row) (filter (\<lambda>r. pv_task_id r = Some i) previews)
      \<and> (case cp of None \<Rightarrow> t_external_started_at row = None \<and> t_result row = None
         | Some checkpoint \<Rightarrow> t_external_started_at row \<noteq> None
             \<and> map_option (\<lambda>ob. canonical_json (JObj ob)) (t_result row) = Some (canonical_json (JObj checkpoint)))
      \<and> tasks db' = map (\<lambda>t. if t = row then boundary_row c cp t else t) (tasks db))
    \<and> authorize_duplicate_execution_boundary previews' c' i payload' by' key' own' k' None db' \<noteq> Inr (db'', True)"
proof -
  obtain row where f: "find (\<lambda>t. boundary_open c i own k t \<and> t_type t = MetaApiMutation) (tasks db) = Some row"
    and p: "canonical_payload_digest (JObj (t_payload row)) = canonical_payload_digest (JObj payload)" "t_requested_by row = by"
    and v: "verify_receipt_rows (sort_key pv_token_digest (filter (\<lambda>r. pv_task_id r = Some i) previews)) (t_payload row) (t_requested_by row) = Inr ()"
    and x: "cross_boundary c i own k cp row db = Inr (db', True)"
    using authorized_row [OF assms(2)] by blast
  have row: "row \<in> set (tasks db)" "boundary_open c i own k row" "t_type row = MetaApiMutation" using find_row [OF f] by auto
  note c = cross_boundary_row [OF assms(1) row(1,2) x] and cover = verified_rows_cover [OF v]
  have "filter (\<lambda>r. pv_task_id r = Some i) previews \<noteq> []" using cover(1) by (metis sort_key_simps(1))
  moreover have "list_all (receipt_covers row) (filter (\<lambda>r. pv_task_id r = Some i) previews)"
    using cover(2) by (simp add: list_all_iff)
  moreover have "authorize_duplicate_execution_boundary previews' c' i payload' by' key' own' k' None db' \<noteq> Inr (db'', True)"
  proof
    assume "authorize_duplicate_execution_boundary previews' c' i payload' by' key' own' k' None db' = Inr (db'', True)"
    then obtain again where f': "find (\<lambda>t. boundary_open c' i own' k' t \<and> t_type t = MetaApiMutation) (tasks db') = Some again"
      and x': "cross_boundary c' i own' k' None again db' = Inr (db'', True)"
      using authorized_row by blast
    have new: "t_external_started_at again = None" using x' by (auto simp: cross_boundary_def split: if_splits)
    have "again \<in> set (tasks db')" "t_id again = i" using find_row [OF f'] open_row_id by auto
    then obtain t where t: "t \<in> set (tasks db)" "again = (if t = row then boundary_row c cp t else t)" using c(1) by auto
    then have "t_id t = i" using \<open>t_id again = i\<close> by (auto simp: boundary_row_def split: if_splits option.splits)
    then have "t = row" using same_row [OF assms(1) t(1) row(1)] open_row_id [OF row(2)] by simp
    then show False using t(2) new c(2) by (auto simp: boundary_row_def split: option.splits)
  qed
  moreover have "t_id row = i \<and> t_status row = Running \<and> t_lease_owner row = own \<and> k = Some (t_lease_token row)
      \<and> (\<exists>x. t_lease_expires_at row = Some x \<and> clk c < x) \<and> t_cancel_requested_at row = None
      \<and> list_all (\<lambda>d. clk c < d) (case t_deadline_at row of None \<Rightarrow> [] | Some d \<Rightarrow> [d])"
    using row(2) by (auto simp: boundary_open_def fence_live_def split: option.splits)
  ultimately show ?thesis using row p c by blast
qed

section \<open>A launched plan\<close>

definition launched_payload :: jobj where
  "launched_payload =
     [(''mutation_kind'', JStr ''duplicate_adset_structure''), (''target_id'', JStr ''200''),
      (''params'', JObj (mp_params signed_payload)), (''ad_account_id'', JStr ''1'')]"

definition launched_task :: task where
  "launched_task = q_running\<lparr>t_payload := launched_payload, t_requested_by := ''op''\<rparr>"

definition launch_receipt :: receipt where
  "launch_receipt =
     \<lparr>pv_token_digest = ''t'', pv_principal = ''op'', pv_preview = JObj [], pv_task_payload = JObj launched_payload,
      pv_plan_digest = signature_of ''200'' ''1'' unsigned_params, pv_idempotency_key = ''k'', pv_task_id = Some 1,
      pv_expires_at = 9, pv_consumed_at = Some 5\<rparr>"

lemma launch_anchor:
  "validated_anchor launched_payload (signature_of ''200'' ''1'' unsigned_params) =
     Inr (canonical_payload_digest (JObj launched_payload), signature_of ''200'' ''1'' unsigned_params)"
proof -
  have "require_ad_account_id (JStr ''1'') = Inr ''1''" by code_simp
  moreover have "jget (mp_params signed_payload) ''source_adset_id'' = JStr ''200''" by (simp add: signed_param unsigned_params_def)
  moreover have "length (signature_of ''200'' ''1'' unsigned_params) = 64" by (simp add: signature_of_def)
  moreover have "jget launched_payload ''mutation_kind'' = JStr ''duplicate_adset_structure''" "jget launched_payload ''target_id'' = JStr ''200''"
    "jget launched_payload ''params'' = JObj (mp_params signed_payload)" "jget launched_payload ''ad_account_id'' = JStr ''1''"
    "set (map fst launched_payload) = set TASK_PAYLOAD_KEYS"
    by (auto simp: launched_payload_def TASK_PAYLOAD_KEYS_def)
  ultimately show ?thesis
    using signed_digest signed_digest_matches by (simp add: validated_anchor_def Let_def is_str_def gbind_def receipt_malformed_def)
qed

lemma launch_receipt_verified:
  "verify_receipt_rows [launch_receipt] launched_payload ''op'' = Inr ()"
  using launch_anchor by (simp add: verify_receipt_rows_def verified_receipt_def launch_receipt_def json_object_def gbind_def)

lemma launch_authorized:
  "\<exists>db'. authorize_duplicate_execution_boundary [launch_receipt] (q_clock 20) 1 launched_payload ''op'' ''200'' (Some 77) (Some 1) None
     (q_db [launched_task]) = Inr (db', True)"
proof -
  have o: "boundary_open (q_clock 20) 1 (Some 77) (Some 1) launched_task" "t_type launched_task = MetaApiMutation"
    "t_external_started_at launched_task = None" "t_result launched_task = None"
    by (simp_all add: boundary_open_def fence_live_def launched_task_def q_defs)
  have f: "t_payload launched_task = launched_payload" "t_requested_by launched_task = ''op''" by (simp_all add: launched_task_def)
  have r: "sort_key pv_token_digest (filter (\<lambda>r. pv_task_id r = Some 1) [launch_receipt]) = [launch_receipt]"
    by (simp add: launch_receipt_def)
  have d: "tasks (q_db [launched_task]) = [launched_task]" by (simp add: q_db_def)
  have t: "jget launched_payload ''target_id'' = JStr ''200''" by (simp add: launched_payload_def)
  show ?thesis
    unfolding authorize_duplicate_execution_boundary_def r d
    by (simp add: t o f launch_receipt_verified has_valid_fence_def recovery_input_def gbind_def cross_boundary_def update_tasks_def d)
qed

theorem duplicate_boundary_needs_receipts_witness:
  "\<exists>db'. authorize_duplicate_execution_boundary [launch_receipt] (q_clock 20) 1 launched_payload ''op'' ''200'' (Some 77) (Some 1) None
       (q_db [launched_task]) = Inr (db', True)
     \<and> tasks db' = [boundary_row (q_clock 20) None launched_task]
     \<and> authorize_duplicate_execution_boundary [launch_receipt] (q_clock 21) 1 launched_payload ''op'' ''200'' (Some 77) (Some 1) None db'
         \<noteq> Inr (db', True)"
proof -
  obtain db' where a: "authorize_duplicate_execution_boundary [launch_receipt] (q_clock 20) 1 launched_payload ''op'' ''200'' (Some 77) (Some 1)
      None (q_db [launched_task]) = Inr (db', True)"
    using launch_authorized by blast
  have "distinct (map t_id (tasks (q_db [launched_task])))" "set (tasks (q_db [launched_task])) = {launched_task}" by (simp_all add: q_db_def)
  with duplicate_boundary_needs_receipts [OF this(1) a, of "[launch_receipt]" "q_clock 21" launched_payload "''op''" "''200''" "Some 77" "Some 1" db'] a
  show ?thesis by (auto simp: q_db_def)
qed

end
