(* ===== verification/Spec2Isabelle.thy ===== *)
theory Spec2Isabelle
  imports ObserverRow ScanInterval CircuitBreaker TaskGaps AutoStopProps CommandProps WorkerAcks WorkerReads
    DuplicateProps DuplicateGuardProps
begin

text \<open>
  Verification of FB Agent, the program that watches Facebook advertisements, decides by
  stop rules which of them waste money, pauses them through a durable task queue and tells
  the operators.

  \<^bold>\<open>The program and its parts.\<close> A scan (\<open>core/observer/pipeline.py\<close>) matches every scanned
  advertisement to an offer, builds a rule context from the offer (\<open>core/rules/types.py\<close>) and
  evaluates the stop rules (\<open>core/rules/evaluator.py\<close>). The alert state machine
  (\<open>core/observer/state_machine.py\<close>, rows written by \<open>core/observer/writers.py\<close>) turns the
  evaluation into alerts and pause requests, unless a curator's grace
  (\<open>core/observer/enable_grace.py\<close>) or a snooze holds. A pause request, like a command of an
  operator, goes through \<open>core/commands/service.py\<close> and becomes a task of
  \<open>core/tasks/queue.py\<close> in the money lane; workers claim tasks under a lease with a fencing
  token. The Meta worker (\<open>apps/meta_api_worker/main.py\<close>) passes a task through its gates (scanning,
  owner, freshness, grace), records the external call, sends it by a handler of
  \<open>core/meta_api/mutations\<close> through a browser protected by \<open>core/browser/circuit_breaker.py\<close>, and
  closes or requeues the task; reconcilers recover tasks whose worker was lost. A transition of a task
  opens, moves or resolves incidents (\<open>core/telegram/worker_notify.py\<close> and others) in the same
  transaction. An operator may duplicate an ad set from a stored preview
  (\<open>core/adset_duplicates\<close>, executed by \<open>core/meta_api/mutations/duplicate_adset_structure.py\<close>), and a
  positive event of the tracker takes back an automatic stop (\<open>core/adset_pro/processing.py\<close>). How soon the next scan runs is decided by \<open>core/observer/adaptive_interval.py\<close>.

  \<^bold>\<open>Foundations.\<close> \<open>Prelude\<close>: exceptions as one error type, sequencing of fallible steps, Python
  strings. \<open>Rounding\<close>: arithmetic with bounded significance as the locale \<open>significand\<close>,
  interpreted for the 28-digit decimal context and for 53-bit floats. \<open>Decimals\<close>: Python's
  decimal values, reading and printing. \<open>Json\<close>: the objects in \<open>payload\<close> and \<open>result\<close>, with the
  operators of Python and of \<open>jsonb\<close>.

  \<^bold>\<open>Observer.\<close> \<open>Money\<close>: \<open>core/money.py\<close>, \<open>core/campaign_builder/money.py\<close>, budgets - exactness and
  round trips of amounts. \<open>Wording\<close>: which label and noun form is chosen. \<open>RuleTypes\<close>, \<open>Rules\<close>,
  \<open>RuleProps\<close>: data, every function and the correctness of the evaluator - it refines a policy
  table, is monotone in spend, always returns on validated contexts, and names the nearest
  stop. \<open>AlertFsm\<close>: the decision function and the row statements, with invariants over
  interleaved scans and worker updates. \<open>EnableGrace\<close>: when grace is active and what a prepared
  grace guarantees. \<open>ObserverRow\<close>: one row through the whole pipeline - a stop becomes a pause,
  a failing row is harmless. \<open>ScanInterval\<close>, \<open>CircuitBreaker\<close>: bounds of the interval, and the
  breaker as a step relation of interleaved calls.

  \<^bold>\<open>Task queue.\<close> \<open>Incidents\<close>: incident generations and the outbox, with their invariant \<open>ops_ok\<close>.
  \<open>TaskTypes\<close>: the row of \<open>task_queue\<close> as the record \<open>task\<close>, lanes and their constants, the
  database \<open>qdb\<close> and the three clocks a transaction reads. \<open>TaskProjection\<close>: what a transition
  writes for the operator. \<open>TaskQueue\<close> (creation, expiry, claims, the diagnosis of a closed
  gate), \<open>TaskFinalize\<close> and \<open>TaskRequeue\<close> (operations of a lease holder), \<open>TaskReconcile\<close>
  (reconcilers, cancellation, manual review): every operation of the file, as a function from
  the database to the committed database and the returned value, or the exception that rolls
  it back. Each \<open>UPDATE\<close> is its \<open>WHERE\<close> as a predicate and its \<open>SET\<close> as a function on the row.
  \<open>TaskRows\<close> states two contracts as locales: \<open>fenced_op\<close> (without the live lease nothing
  changes; with it only that row, within \<open>row_next\<close>) and \<open>system_op\<close> (an operation without a
  lease stays within \<open>system_row\<close>). \<open>TaskFences\<close> interprets the first on all fourteen worker
  operations, \<open>TaskSystem\<close> the second on the nine others. \<open>TrackerCancel\<close> is the tracker's cancellation
  of an automatic stop, the one writer outside the file that closes a task under a live lease.
  \<open>TaskSteps\<close> is the state machine of committed transactions in any order. \<open>TaskQueueProps\<close>: stale workers change nothing, a live
  lease is exclusive (but for the tracker), final states are final, the table stays intact. \<open>TaskClaims\<close>: the order
  and terms of a claim, tokens never repeat, one task per idempotency key. \<open>TaskOutcomes\<close>: how
  queued tasks end, campaign creation is never replayed, failed money commands are announced,
  retries are bounded, incident tables stay consistent, manual review is a separate axis.
  \<open>TaskGaps\<close>: four places where the code does less than its comments say.

  \<^bold>\<open>Scans and commands.\<close> \<open>Sha256\<close>: the digest of the idempotency keys. \<open>ScanTasks\<close>, \<open>ScanProps\<close>:
  \<open>core/observer/scan_tasks.py\<close> - a scan is published once, at most one is runnable, a parked scan
  waits exactly for its dependencies. \<open>MetaCommands\<close>, \<open>MetaCommandProps\<close>: \<open>core/meta_api/schemas.py\<close>,
  \<open>queue.py\<close>, \<open>fsm_sync.py\<close> - the payload round trip, and a task closed together with the alert
  states it concerns. \<open>AutoStopGate\<close>, \<open>AutoStopProps\<close>: \<open>core/meta_api/freshness.py\<close> - when an
  automatic stop may go out. \<open>Commands\<close>, \<open>CommandRows\<close>, \<open>CommandProps\<close>: \<open>core/commands/service.py\<close> -
  keys of operators are durable, one command per advertisement is in flight, acceptance is decided by the
  catalogue. \<open>Ownership\<close>: \<open>core/meta_api/ownership.py\<close> - only advertisements of the owner.

  \<^bold>\<open>Meta worker.\<close> \<open>MetaErrors\<close>: the exceptions of \<open>core/meta_api/errors.py\<close> and their classification.
  \<open>JsonLoads\<close>: \<open>json.loads\<close>. \<open>MutationHandlers\<close>, \<open>MutationProps\<close>: the handlers and the worker's reading
  of their result - a batch is confirmed, partial or rejected exactly by the literal
  acknowledgements. \<open>MetaWorker\<close>: \<open>process_one_task\<close> with everything it calls, as steps from the
  database to the database, the requests sent (each with the database of the worker's last transaction
  before it) and the value or the exception. \<open>WorkerRows\<close>: the calculus of these steps. \<open>WorkerProps\<close>: no status
  change is written to Meta without a live claim and open gates. \<open>WorkerOutcomes\<close>: a lost answer stays
  unknown. \<open>WorkerAcks\<close>: only Meta's own word confirms. \<open>WorkerReads\<close>: reads of an unknown outcome
  end.

  \<^bold>\<open>Duplication of ad sets.\<close> \<open>DuplicatePlan\<close>: the digest and the validation of a plan.
  \<open>DuplicateStructure\<close>: the executor, as steps from the state of a run (the log of requests and
  checkpoints, the objects recorded) to the state and the value, the exception or the cancellation.
  \<open>DuplicateRecovery\<close>: the recovery from a checkpoint. \<open>DuplicateRuns\<close>, \<open>DuplicateSteps\<close>,
  \<open>DuplicateCleanup\<close>, \<open>DuplicateSync\<close>: the invariant of a run and the triples that carry it through every
  step. \<open>DuplicateProps\<close>: nothing is activated, every checkpoint can be recovered, success is complete
  and failure accounts for every recorded object, the recovery only pauses. \<open>DuplicateGap\<close>: an object whose
  proving read fails is named nowhere. \<open>DuplicateLaunch\<close>: preview tokens, stored previews and the launch.
  \<open>DuplicateGuard\<close>, \<open>DuplicateGuardProps\<close>: the boundary of a duplication is crossed only with consumed
  receipts of the same plan, and once for a creation.

  \<^bold>\<open>Bounds and termination.\<close> All definitions are total and executable. Loops of the source range
  over lists; the recursion on decimal digits and on the bases of an exception class have
  termination proofs. \<open>json_loads\<close> has fuel of twice the length of the text plus one: every
  recursive call consumes a character or follows one that did, so that it is never the fuel that
  refuses a text. Integers are unbounded as in Python, the words of the digest have 32 bits;
  timestamps are microseconds.

  \<^bold>\<open>Assumptions of the models.\<close> Transactions are serial: the row and advisory locks of the code
  are taken to give that, except that the rows \<open>SKIP LOCKED\<close> passes over are an argument of a
  claim. A statement reads \<open>clock_timestamp()\<close> once. A \<open>transactional_effect\<close> may read all tables
  and writes no task row. Text is ASCII; Russian card texts are represented by their template
  and the values shown, error messages by their fixed part; fractions do not occur in task
  payloads. The client of the Graph interface and the executor that duplicates ad sets are
  arguments of the worker, as are the transactions other processes commit before the boundary and
  while a request runs, and the reason for which an execution is stopped; none is placed between the
  boundary and the request, and the checkpoints of a running duplication are those of its own theories.
  The duplication takes the client (which may answer differently after every history of requests), the
  storage of checkpoints and the parser \<open>datetime.fromisoformat\<close> as arguments. Owner tags are compared
  after lower-casing, which is \<open>casefold\<close> on ASCII; a frequency that is no finite number is dropped before
  the rule context is built. Rows are not deleted: the retention of the cleanup worker
  (\<open>apps/cleanup_worker\<close>), the tracker's own claims and dead letters (\<open>core/adset_pro/processing.py\<close>) and
  the campaign creator's own finalizers are no steps of the machines.

  \<^bold>\<open>Not modelled.\<close> Network, browser and subprocess code (\<open>core/meta_api/client.py\<close>, the outer loops
  of the workers, \<open>fbctl\<close>), the computation of a duplication preview from its source (the first part of
  \<open>core/adset_duplicates/service.py\<close>), campaign creation (\<open>apps/campaign_creator_worker\<close>), the watchdog
  (\<open>apps/health_watchdog\<close>), HTTP handlers and SQL read models (\<open>apps/api\<close>), delivery and rendering of
  notifications (\<open>core/telegram/notifications.py\<close> beyond the event insert), catalogue and metrics writes
  of the observer, and the refresh of repeated warnings whose risk grew: they are I/O or depend on
  services outside the repository.
\<close>

end
